(* ===== verification/Prelude.thy ===== *)
theory Prelude
  imports Complex_Main
begin

text \<open>
  What every component shares: the exceptions that leave a function of the library, results
  as sums of an exception and a value, actions on a state, the sequencing of fallible steps, the raising of
  \<^verbatim>\<open>DR_Error\<close>, and loops that check each element of a list.

  A Python statement sequence is translated by \<^term>\<open>rbind\<close>; a guard
  \<^verbatim>\<open>if c: raise DR_Error(code, ...)\<close> by \<open>raise_if\<close>, or by \<open>raise_when\<close> where
  evaluating the condition can itself raise. Messages of exceptions are not modelled, their
  kind and the error code are.
\<close>

section \<open>Exceptions and results\<close>

text \<open>
  \<^verbatim>\<open>DRError c\<close> is \<^verbatim>\<open>DR_Error\<close> of DR_error2.py with its \<^verbatim>\<open>type\<close> field; the others are the
  built-in exceptions the code can meet.
\<close>

datatype exc =
    DRError int
  | TypeError
  | ValueError
  | OverflowError
  | IndexError
  | KeyError
  | AttributeError
  | NameError
  | UnboundLocalError
  | AssertionError
  | OSError
  | RuntimeError
  | UnicodeEncodeError

type_synonym 'a res = "exc + 'a"

definition is_dr_error :: "exc \<Rightarrow> bool" where
  "is_dr_error e = (case e of DRError _ \<Rightarrow> True | _ \<Rightarrow> False)"

lemma is_dr_error_simps [simp]:
  "is_dr_error (DRError c)"
  "\<not> is_dr_error TypeError"
  "\<not> is_dr_error ValueError"
  "\<not> is_dr_error OverflowError"
  "\<not> is_dr_error IndexError"
  "\<not> is_dr_error KeyError"
  "\<not> is_dr_error AttributeError"
  "\<not> is_dr_error NameError"
  "\<not> is_dr_error UnboundLocalError"
  "\<not> is_dr_error AssertionError"
  "\<not> is_dr_error OSError"
  "\<not> is_dr_error RuntimeError"
  "\<not> is_dr_error UnicodeEncodeError"
  by (simp_all add: is_dr_error_def)

section \<open>Sequencing\<close>

definition rbind :: "'a res \<Rightarrow> ('a \<Rightarrow> 'b res) \<Rightarrow> 'b res" where
  "rbind m f = (case m of Inl e \<Rightarrow> Inl e | Inr x \<Rightarrow> f x)"

lemma rbind_simps [simp]:
  "rbind (Inl e) f = Inl e"
  "rbind (Inr x) f = f x"
  by (simp_all add: rbind_def)

lemma rbind_Inr_iff: "rbind m f = Inr y \<longleftrightarrow> (\<exists>x. m = Inr x \<and> f x = Inr y)"
  by (cases m) auto

lemma rbind_Inl_iff: "rbind m f = Inl e \<longleftrightarrow> m = Inl e \<or> (\<exists>x. m = Inr x \<and> f x = Inl e)"
  by (cases m) auto

lemma rbind_InrE:
  assumes "rbind m f = Inr y"
  obtains x where "m = Inr x" and "f x = Inr y"
  using assms by (cases m) auto

lemma rbind_assoc: "rbind (rbind m f) g = rbind m (\<lambda>x. rbind (f x) g)"
  by (cases m) simp_all

section \<open>Raising\<close>

definition raise_if :: "bool \<Rightarrow> int \<Rightarrow> unit res" where
  "raise_if c code = (if c then Inl (DRError code) else Inr ())"

definition raise_when :: "bool res \<Rightarrow> int \<Rightarrow> unit res" where
  "raise_when c code = rbind c (\<lambda>b. raise_if b code)"

lemma raise_if_Inr [simp]: "raise_if c code = Inr u \<longleftrightarrow> \<not> c"
  by (simp add: raise_if_def)

lemma raise_if_simps [simp]:
  "raise_if True code = Inl (DRError code)"
  "raise_if False code = Inr ()"
  by (simp_all add: raise_if_def)

lemma raise_if_Inl [simp]: "raise_if c code = Inl e \<longleftrightarrow> c \<and> e = DRError code"
  by (auto simp add: raise_if_def)

lemma raise_when_simps [simp]:
  "raise_when (Inl e) code = Inl e"
  "raise_when (Inr b) code = raise_if b code"
  by (simp_all add: raise_when_def)

lemma raise_when_Inr [simp]: "raise_when c code = Inr u \<longleftrightarrow> c = Inr False"
  by (cases c) auto

section \<open>Actions\<close>

text \<open>
  An action takes a state and returns \<^const>\<open>None\<close> when it does not return, otherwise its result or
  exception and the new state: an exception does not undo what was done before it.
\<close>

type_synonym ('a, 's) action = "'s \<Rightarrow> ('a res \<times> 's) option"

definition abind :: "('a, 's) action \<Rightarrow> ('a \<Rightarrow> ('b, 's) action) \<Rightarrow> ('b, 's) action" where
  "abind m f s = (case m s of
       None \<Rightarrow> None
     | Some (Inl e, s') \<Rightarrow> Some (Inl e, s')
     | Some (Inr x, s') \<Rightarrow> f x s')"

lemma abind_Some:
  "abind m f s = Some z \<longleftrightarrow>
     (\<exists>e s'. m s = Some (Inl e, s') \<and> z = (Inl e, s')) \<or>
     (\<exists>x s'. m s = Some (Inr x, s') \<and> f x s' = Some z)"
  by (auto simp: abind_def split: option.splits prod.splits sum.splits)

section \<open>Checking loops and comprehensions\<close>

text \<open>\<^verbatim>\<open>for x in xs: ...\<close> with a body that only checks, and \<^verbatim>\<open>[f(x) for x in xs]\<close>.\<close>

fun for_each :: "('a \<Rightarrow> unit res) \<Rightarrow> 'a list \<Rightarrow> unit res" where
  "for_each f [] = Inr ()"
| "for_each f (x # xs) = rbind (f x) (\<lambda>_. for_each f xs)"

fun map_res :: "('a \<Rightarrow> 'b res) \<Rightarrow> 'a list \<Rightarrow> 'b list res" where
  "map_res f [] = Inr []"
| "map_res f (x # xs) = rbind (f x) (\<lambda>y. rbind (map_res f xs) (\<lambda>ys. Inr (y # ys)))"

lemma for_each_Inr: "for_each f xs = Inr u \<longleftrightarrow> (\<forall>x \<in> set xs. f x = Inr ())"
  by (induction xs) (auto simp: rbind_Inr_iff)

lemma map_res_Inr: "map_res f xs = Inr ys \<longleftrightarrow> list_all2 (\<lambda>x y. f x = Inr y) xs ys"
  by (induction xs arbitrary: ys) (auto simp: rbind_Inr_iff list_all2_Cons1)

lemma map_res_length: "map_res f xs = Inr ys \<Longrightarrow> length ys = length xs"
  by (simp add: map_res_Inr list_all2_lengthD)

lemma map_res_map:
  "(\<And>x. x \<in> set xs \<Longrightarrow> f x = Inr (g x)) \<Longrightarrow> map_res f xs = Inr (map g xs)"
  by (induction xs) simp_all

lemma map_res_comp: "(\<And>x. f (g x) = Inr (h x)) \<Longrightarrow> map_res f (map g xs) = Inr (map h xs)"
  by (induction xs) simp_all

lemma map_res_nth: "map_res f xs = Inr ys \<Longrightarrow> i < length xs \<Longrightarrow> f (xs ! i) = Inr (ys ! i)"
  by (auto simp: map_res_Inr list_all2_conv_all_nth)

lemma map_res_set:
  "map_res f xs = Inr ys \<Longrightarrow> y \<in> set ys \<Longrightarrow> \<exists>x \<in> set xs. f x = Inr y"
  by (fastforce simp: map_res_Inr list_all2_conv_all_nth in_set_conv_nth)

text \<open>\<^verbatim>\<open>sub in s\<close> for strings.\<close>

fun substring :: "string \<Rightarrow> string \<Rightarrow> bool" where
  "substring sub [] = (sub = [])"
| "substring sub (c # cs) = (take (length sub) (c # cs) = sub \<or> substring sub cs)"

lemma substring_append: "substring sub (xs @ sub @ ys)"
proof (induction xs)
  case Nil
  then show ?case by (cases "sub @ ys") (auto, metis append_eq_conv_conj)
qed simp

text \<open>The automation of the development: how the steps of the code invert.\<close>

named_theorems res_simps

declare rbind_Inr_iff [res_simps] for_each_Inr [res_simps]

end
