(* ===== verification/PyFloat.thy ===== *)
theory PyFloat
  imports Prelude
begin

text \<open>
  Python's \<^verbatim>\<open>float\<close> as the source uses it: the values of an IEEE double (a finite value is the
  rational it denotes, the negative zero and the three special values are constructors of
  their own), the comparisons, the conversion of integers and of decimal strings with
  rounding to nearest, ties to even, and the product.
\<close>

section \<open>Values and comparisons\<close>

datatype pyfloat = Fin rat | NegZero | PosInf | NegInf | NaN

text \<open>A comparison key: \<^const>\<open>None\<close> for a NaN, which is not ordered and equals nothing.\<close>

definition fkey :: "pyfloat \<Rightarrow> (int \<times> rat) option" where
  "fkey f = (case f of
       Fin q \<Rightarrow> Some (0, q)
     | NegZero \<Rightarrow> Some (0, 0)
     | PosInf \<Rightarrow> Some (1, 0)
     | NegInf \<Rightarrow> Some (-1, 0)
     | NaN \<Rightarrow> None)"

definition flt :: "pyfloat \<Rightarrow> pyfloat \<Rightarrow> bool" where
  "flt x y = (case (fkey x, fkey y) of
       (Some (a, p), Some (b, q)) \<Rightarrow> a < b \<or> (a = b \<and> p < q)
     | _ \<Rightarrow> False)"

definition feq :: "pyfloat \<Rightarrow> pyfloat \<Rightarrow> bool" where
  "feq x y = (fkey x \<noteq> None \<and> fkey x = fkey y)"

definition fle :: "pyfloat \<Rightarrow> pyfloat \<Rightarrow> bool" where
  "fle x y = (flt x y \<or> feq x y)"

lemma fkey_simps [simp]:
  "fkey (Fin q) = Some (0, q)"
  "fkey NegZero = Some (0, 0)"
  "fkey PosInf = Some (1, 0)"
  "fkey NegInf = Some (-1, 0)"
  "fkey NaN = None"
  by (simp_all add: fkey_def)

lemma flt_Fin [simp]: "flt (Fin p) (Fin q) \<longleftrightarrow> p < q"
  by (simp add: flt_def)

lemma feq_Fin [simp]: "feq (Fin p) (Fin q) \<longleftrightarrow> p = q"
  by (simp add: feq_def)

lemma fle_Fin [simp]: "fle (Fin p) (Fin q) \<longleftrightarrow> p \<le> q"
  by (auto simp add: fle_def)

lemma flt_special [simp]:
  "\<not> flt NaN y" "\<not> flt x NaN" "\<not> flt PosInf y" "flt NegZero (Fin q) \<longleftrightarrow> 0 < q"
  "flt NegInf (Fin q)" "flt (Fin q) PosInf" "flt (Fin q) NegZero \<longleftrightarrow> q < 0"
  "\<not> flt (Fin q) NegInf"
  by (auto simp add: flt_def fkey_def split: pyfloat.splits)

lemma feq_special [simp]:
  "\<not> feq NaN y" "\<not> feq x NaN" "feq NegZero (Fin q) \<longleftrightarrow> 0 = q" "feq (Fin q) NegZero \<longleftrightarrow> q = 0"
  "\<not> feq PosInf (Fin q)" "\<not> feq NegInf (Fin q)"
  by (auto simp add: feq_def)

lemma feq_FinD: "feq f (Fin q) \<Longrightarrow> f = Fin q \<or> (f = NegZero \<and> q = 0)"
  by (cases f) auto

lemma not_flt_fle: "f \<noteq> NaN \<Longrightarrow> g \<noteq> NaN \<Longrightarrow> \<not> flt f g \<longleftrightarrow> fle g f"
  by (cases f; cases g) (auto simp: fle_def flt_def feq_def)

section \<open>Rounding\<close>

text \<open>Round half to even on rationals: also what Python's \<^verbatim>\<open>round\<close> computes on a float.\<close>

definition round_half_even :: "rat \<Rightarrow> int" where
  "round_half_even q =
     (let f = \<lfloor>q\<rfloor>; d = q - of_int f
      in if d < 1 / 2 then f else if 1 / 2 < d then f + 1 else if even f then f else f + 1)"

definition pow2 :: "int \<Rightarrow> rat" where
  "pow2 k = (if 0 \<le> k then 2 ^ nat k else 1 / 2 ^ nat (- k))"

text \<open>The exponent of the leading binary digit, by search from the bit lengths.\<close>

fun bit_length :: "nat \<Rightarrow> nat" where
  "bit_length n = (if n = 0 then 0 else Suc (bit_length (n div 2)))"

declare bit_length.simps [simp del]

definition lead_exp :: "rat \<Rightarrow> int" where
  "lead_exp a =
     (let (n, d) = quotient_of a;
          e = int (bit_length (nat n)) - int (bit_length (nat d))
      in if pow2 e \<le> a then e else e - 1)"

definition float_of_rat :: "rat \<Rightarrow> pyfloat" where
  "float_of_rat q =
     (if q = 0 then Fin 0
      else let a = \<bar>q\<bar>;
               k = max (lead_exp a - 52) (-1074);
               r = of_int (round_half_even (a / pow2 k)) * pow2 k
           in if 2 ^ 1024 \<le> r then (if q < 0 then NegInf else PosInf)
              else if q < 0 then (if r = 0 then NegZero else Fin (- r))
              else Fin r)"

text \<open>The product of two doubles.\<close>

definition is_negative :: "pyfloat \<Rightarrow> bool" where
  "is_negative f = (case f of Fin q \<Rightarrow> q < 0 | NegZero \<Rightarrow> True | NegInf \<Rightarrow> True | _ \<Rightarrow> False)"

definition is_infinite :: "pyfloat \<Rightarrow> bool" where
  "is_infinite f = (f = PosInf \<or> f = NegInf)"

definition finite_val :: "pyfloat \<Rightarrow> rat" where
  "finite_val f = (case f of Fin q \<Rightarrow> q | _ \<Rightarrow> 0)"

definition float_mul :: "pyfloat \<Rightarrow> pyfloat \<Rightarrow> pyfloat" where
  "float_mul x y =
     (let neg = (is_negative x \<noteq> is_negative y); q = finite_val x * finite_val y
      in if x = NaN \<or> y = NaN then NaN
         else if is_infinite x \<or> is_infinite y then
           (if feq x (Fin 0) \<or> feq y (Fin 0) then NaN else if neg then NegInf else PosInf)
         else if q = 0 then (if neg then NegZero else Fin 0)
         else float_of_rat q)"

text \<open>
  \<^verbatim>\<open>float(n)\<close> for an integer: exact below \<open>2 ^ 53\<close>, rounded above, OverflowError when the
  rounded value is not a double.
\<close>

definition float_of_int :: "int \<Rightarrow> pyfloat res" where
  "float_of_int n =
     (if \<bar>n\<bar> < 2 ^ 53 then Inr (Fin (of_int n))
      else case float_of_rat (of_int n) of
             PosInf \<Rightarrow> Inl OverflowError
           | NegInf \<Rightarrow> Inl OverflowError
           | f \<Rightarrow> Inr f)"

lemma float_of_int_small [simp]: "\<bar>n\<bar> < 2 ^ 53 \<Longrightarrow> float_of_int n = Inr (Fin (of_int n))"
  by (simp add: float_of_int_def)

lemma float_of_int_numeral [simp]:
  "numeral k < (2::int) ^ 53 \<Longrightarrow> float_of_int (numeral k) = Inr (Fin (numeral k))"
  "numeral k < (2::int) ^ 53 \<Longrightarrow> float_of_int (- numeral k) = Inr (Fin (- numeral k))"
  "float_of_int 0 = Inr (Fin 0)"
  "float_of_int 1 = Inr (Fin 1)"
  by (simp_all add: float_of_int_def)

lemma pow2_pos [simp]: "0 < pow2 k"
  by (simp add: pow2_def)

lemma round_half_even_ge_floor: "\<lfloor>q\<rfloor> \<le> round_half_even q"
  by (simp add: round_half_even_def Let_def)

lemma round_half_even_nonneg: "0 \<le> q \<Longrightarrow> 0 \<le> round_half_even q"
  using round_half_even_ge_floor [of q] by (meson dual_order.trans zero_le_floor)

lemma round_half_even_int [simp]: "round_half_even (of_int n) = n"
  by (simp add: round_half_even_def)

text \<open>Rounding keeps the sign: no non-negative rational becomes a negative float.\<close>

lemma float_of_rat_nonneg:
  assumes "0 \<le> q"
  shows "\<not> flt (float_of_rat q) (Fin 0)"
proof -
  have "0 \<le> of_int (round_half_even (\<bar>q\<bar> / pow2 k)) * pow2 k" for k
    by (simp add: less_imp_le round_half_even_nonneg)
  with assms show ?thesis
    by (auto simp add: float_of_rat_def Let_def not_less)
qed

lemma float_of_int_cases:
  "float_of_int n = Inr f \<Longrightarrow> f = Fin (of_int n) \<or> f = float_of_rat (of_int n)"
  by (auto simp add: float_of_int_def split: if_splits pyfloat.splits)

lemma float_of_int_nonneg:
  assumes "0 \<le> n" and "float_of_int n = Inr f"
  shows "\<not> flt f (Fin 0)"
proof -
  have "\<not> flt (float_of_rat (of_int n)) (Fin 0)"
    using assms(1) by (intro float_of_rat_nonneg) simp
  moreover have "\<not> flt (Fin (of_int n)) (Fin 0)"
    using assms(1) by simp
  ultimately show ?thesis
    using float_of_int_cases [OF assms(2)] by metis
qed

lemma float_of_int_not_nan: "float_of_int n = Inr f \<Longrightarrow> f \<noteq> NaN"
  by (auto simp add: float_of_int_def float_of_rat_def Let_def split: if_splits pyfloat.splits)

section \<open>How far rounding can go down\<close>

lemma bit_length_bounds: "0 < n \<Longrightarrow> n < 2 ^ bit_length n \<and> 2 ^ bit_length n \<le> 2 * n"
proof (induction n rule: bit_length.induct)
  case (1 n)
  show ?case
  proof (cases "n = 1")
    case True
    then show ?thesis by (simp add: bit_length.simps)
  next
    case False
    with 1 have "n div 2 < 2 ^ bit_length (n div 2) \<and> 2 ^ bit_length (n div 2) \<le> 2 * (n div 2)"
      by simp
    with 1(2) show ?thesis by (subst (1 2) bit_length.simps) auto
  qed
qed

lemma bit_length_rat:
  assumes "0 < n"
  shows "of_int n < (2::rat) ^ bit_length (nat n)" and "(2::rat) ^ bit_length (nat n) \<le> 2 * of_int n"
proof -
  have "(of_nat (nat n) :: rat) < of_nat (2 ^ bit_length (nat n))"
    "(of_nat (2 ^ bit_length (nat n)) :: rat) \<le> of_nat (2 * nat n)"
    using bit_length_bounds [of "nat n", unfolded zero_less_nat_eq, OF assms] by (simp_all only: of_nat_less_iff of_nat_le_iff)
  with assms show "of_int n < (2::rat) ^ bit_length (nat n)"
    "(2::rat) ^ bit_length (nat n) \<le> 2 * of_int n"
    by simp_all
qed

lemma pow2_add_nat: "pow2 (a - int b) = pow2 a / 2 ^ b"
  by (auto simp: pow2_def field_simps nat_diff_distrib simp flip: power_add)

lemma pow2_nat [simp]: "pow2 (int n) = 2 ^ n"
  by (simp add: pow2_def)


lemma pow2_diff: "pow2 (int a - int b) = 2 ^ a / 2 ^ b"
  using pow2_add_nat [of "int a" b] by simp

lemma pow2_Suc: "pow2 (a + 1) = 2 * pow2 a" and pow2_pred: "pow2 (a - 1) = pow2 a / 2"
  using pow2_add_nat [of "a + 1" 1] pow2_add_nat [of a 1] by simp_all

lemma lead_exp_bounds:
  assumes "0 < q"
  shows "pow2 (lead_exp q) \<le> q \<and> q < pow2 (lead_exp q + 1)"
proof -
  obtain n d where nd: "quotient_of q = (n, d)" by (cases "quotient_of q")
  then have q: "q = of_int n / of_int d" and d: "0 < d"
    using quotient_of_div quotient_of_denom_pos by blast+
  with assms have n: "0 < n" by (simp add: zero_less_divide_iff)
  let ?bn = "bit_length (nat n)" and ?bd = "bit_length (nat d)"
  note N = bit_length_rat [OF n] and D = bit_length_rat [OF d]
  define e where "e = int ?bn - int ?bd"
  have pe: "pow2 e = 2 ^ ?bn / 2 ^ ?bd" by (simp add: e_def pow2_diff)
  have up: "q < pow2 (e + 1)"
  proof -
    have "q < 2 ^ ?bn / of_int d" using N(1) d by (simp add: q divide_strict_right_mono)
    also have "\<dots> \<le> 2 ^ ?bn / (2 ^ ?bd / 2)"
      using D(2) by (intro divide_left_mono) (simp_all add: d)
    finally show ?thesis by (simp add: pow2_Suc pe mult.commute)
  qed
  have down: "pow2 (e - 1) \<le> q"
  proof -
    have "pow2 (e - 1) = (2 ^ ?bn / 2) / 2 ^ ?bd" by (simp add: pow2_pred pe)
    also have "\<dots> \<le> of_int n / 2 ^ ?bd" using N(2) by (intro divide_right_mono) simp_all
    also have "\<dots> \<le> of_int n / of_int d" using D(1) n d by (intro divide_left_mono) simp_all
    finally show ?thesis by (simp add: q)
  qed
  show ?thesis
    using up down by (auto simp: lead_exp_def nd Let_def not_le simp flip: e_def)
qed


lemma pow2_mono: "a \<le> b \<Longrightarrow> pow2 a \<le> pow2 b"
proof -
  assume "a \<le> b"
  then have "pow2 a = pow2 b / 2 ^ nat (b - a)"
    using pow2_add_nat [of b "nat (b - a)"] by simp
  then show ?thesis
    using divide_left_mono [of 1 "2 ^ nat (b - a)" "pow2 b"] by (simp add: less_imp_le)
qed

lemma round_half_even_ge: "q - 1 / 2 \<le> of_int (round_half_even q)"
  by (simp add: round_half_even_def Let_def) linarith

text \<open>A rational of at least one hundredth keeps at least half its value.\<close>

lemma float_of_rat_half:
  assumes "1 / 100 \<le> q"
  shows "\<exists>r. q / 2 \<le> r \<and> (float_of_rat q = Fin r \<or> float_of_rat q = PosInf)"
proof -
  have q: "0 < q" using assms by (rule less_le_trans [rotated]) simp
  note lead = lead_exp_bounds [OF q]
  define k where "k = max (lead_exp q - 52) (-1074)"
  have "-8 < lead_exp q"
  proof (rule ccontr)
    assume "\<not> -8 < lead_exp q"
    then have "pow2 (lead_exp q + 1) \<le> pow2 (-7)" by (intro pow2_mono) simp
    with lead assms have "1 / 100 < pow2 (-7)" by linarith
    then show False by (simp add: pow2_def)
  qed
  then have "pow2 k \<le> pow2 (lead_exp q)" by (intro pow2_mono) (simp add: k_def)
  with lead have one: "1 \<le> q / pow2 k" by simp
  define y where "y = q / pow2 k"
  have "y / 2 \<le> of_int (round_half_even y)"
    using round_half_even_ge [of y] one by (simp add: y_def [symmetric])
  then have "y / 2 * pow2 k \<le> of_int (round_half_even y) * pow2 k"
    by (intro mult_right_mono) (simp_all add: less_imp_le)
  then have "q / 2 \<le> of_int (round_half_even (q / pow2 k)) * pow2 k"
    using pow2_pos [of k] by (simp add: y_def)
  then show ?thesis
    using q by (auto simp: float_of_rat_def Let_def k_def)
qed

section \<open>Decimal strings\<close>

text \<open>
  \<^verbatim>\<open>float(s)\<close>: surrounding white space, a sign, \<^verbatim>\<open>inf\<close>, \<^verbatim>\<open>infinity\<close> or \<^verbatim>\<open>nan\<close> in any case, or
  a decimal literal with an optional fraction and exponent, where an underscore may stand
  between two digits. Anything else is a ValueError. Characters beyond ASCII are not modelled.
\<close>

definition is_digit :: "char \<Rightarrow> bool" where
  "is_digit c = (48 \<le> (of_char c :: nat) \<and> (of_char c :: nat) \<le> 57)"

definition digit_val :: "char \<Rightarrow> nat" where
  "digit_val c = of_char c - 48"

definition is_space :: "char \<Rightarrow> bool" where
  "is_space c = (of_char c \<in> {9, 10, 11, 12, 13, 28, 29, 30, 31, 32 :: nat})"

definition to_lower :: "char \<Rightarrow> char" where
  "to_lower c = (if 65 \<le> (of_char c :: nat) \<and> (of_char c :: nat) \<le> 90
                 then char_of (of_char c + 32 :: nat) else c)"

fun scan_digits :: "nat \<Rightarrow> nat \<Rightarrow> string \<Rightarrow> nat \<times> nat \<times> string" where
  "scan_digits v c [] = (v, c, [])"
| "scan_digits v c (x # xs) =
     (if is_digit x then scan_digits (10 * v + digit_val x) (Suc c) xs
      else if x = CHR ''_'' \<and> 0 < c \<and> xs \<noteq> [] \<and> is_digit (hd xs) then scan_digits v c xs
      else (v, c, x # xs))"

fun take_sign :: "string \<Rightarrow> bool \<times> string" where
  "take_sign (CHR ''-'' # xs) = (True, xs)"
| "take_sign (CHR ''+'' # xs) = (False, xs)"
| "take_sign xs = (False, xs)"

definition scan_exponent :: "string \<Rightarrow> int option" where
  "scan_exponent xs =
     (case xs of
        [] \<Rightarrow> Some 0
      | x # ys \<Rightarrow>
          if to_lower x = CHR ''e'' then
            (let (neg, zs) = take_sign ys; (v, c, rest) = scan_digits 0 0 zs
             in if 0 < c \<and> rest = [] then Some (if neg then - int v else int v) else None)
          else None)"

definition scan_decimal :: "string \<Rightarrow> rat option" where
  "scan_decimal xs =
     (let (v, c, rest) = scan_digits 0 0 xs;
          (f, cf, rest') = (case rest of
                              CHR ''.'' # ys \<Rightarrow> scan_digits 0 0 ys
                            | _ \<Rightarrow> (0, 0, rest))
      in if c + cf = 0 then None
         else map_option
                (\<lambda>e. (of_nat (v * 10 ^ cf + f) / 10 ^ cf)
                      * (if 0 \<le> e then 10 ^ nat e else 1 / 10 ^ nat (- e)))
                (scan_exponent rest'))"

definition float_of_string :: "string \<Rightarrow> pyfloat option" where
  "float_of_string s =
     (let t = rev (dropWhile is_space (rev (dropWhile is_space s)));
          (neg, xs) = take_sign t;
          name = map to_lower xs
      in if name = ''inf'' \<or> name = ''infinity'' then Some (if neg then NegInf else PosInf)
         else if name = ''nan'' then Some NaN
         else map_option
                (\<lambda>q. if neg then (if q = 0 then NegZero else float_of_rat (- q))
                     else float_of_rat q)
                (scan_decimal xs))"

section \<open>Operations on floats\<close>

text \<open>\<^verbatim>\<open>int(f)\<close> truncates; infinities overflow and a NaN has no integer.\<close>

definition int_of_float :: "pyfloat \<Rightarrow> int res" where
  "int_of_float f = (case f of
       Fin q \<Rightarrow> Inr (if 0 \<le> q then \<lfloor>q\<rfloor> else \<lceil>q\<rceil>)
     | NegZero \<Rightarrow> Inr 0
     | NaN \<Rightarrow> Inl ValueError
     | _ \<Rightarrow> Inl OverflowError)"

text \<open>\<^verbatim>\<open>round(f)\<close> with one argument.\<close>

definition round_float :: "pyfloat \<Rightarrow> int res" where
  "round_float f = (case f of
       Fin q \<Rightarrow> Inr (round_half_even q)
     | NegZero \<Rightarrow> Inr 0
     | NaN \<Rightarrow> Inl ValueError
     | _ \<Rightarrow> Inl OverflowError)"

end
