(* ===== verification/PyValue.thy ===== *)
theory PyValue
  imports PyFloat
begin

text \<open>
  The dynamic values a caller of the library can pass and the controller can answer with, and
  the built-in operations the code applies to them: \<^verbatim>\<open>type\<close>, \<^verbatim>\<open>isinstance\<close>, iteration, indexing,
  comparison with constants, truth values, \<^verbatim>\<open>float\<close>, \<^verbatim>\<open>int\<close> and \<^verbatim>\<open>list\<close>. An operation that Python
  refuses with an exception returns that exception.
\<close>

section \<open>Values and their types\<close>

text \<open>
  \<open>PPosj\<close>, \<open>PPosx\<close> and \<open>PPosb\<close> are instances of the classes of DR_common2.py (the first two
  are subclasses of \<^verbatim>\<open>list\<close>, the third holds its four fields); \<open>PNdarray\<close> is a one-dimensional
  numpy array of doubles and \<open>PNpFloat\<close> an element read from one; \<open>PMultiArray\<close> is a
  \<^verbatim>\<open>Float64MultiArray\<close> message with its \<^verbatim>\<open>data\<close>; \<open>PObj\<close> is any other object.
\<close>

datatype pyval =
    PNone
  | PBool bool
  | PInt int
  | PFloat pyfloat
  | PNpFloat pyfloat
  | PStr string
  | PList "pyval list"
  | PTuple "pyval list"
  | PPosj "pyval list"
  | PPosx "pyval list"
  | PNdarray "pyfloat list"
  | PPosb pyval pyval pyval pyval
  | PMultiArray "pyval list"
  | PObj nat

datatype pytype =
    TNone | TBool | TInt | TFloat | TNpFloat | TStr | TList | TTuple | TPosj | TPosx
  | TNdarray | TPosb | TMultiArray | TObj

fun py_type :: "pyval \<Rightarrow> pytype" where
  "py_type PNone = TNone"
| "py_type (PBool _) = TBool"
| "py_type (PInt _) = TInt"
| "py_type (PFloat _) = TFloat"
| "py_type (PNpFloat _) = TNpFloat"
| "py_type (PStr _) = TStr"
| "py_type (PList _) = TList"
| "py_type (PTuple _) = TTuple"
| "py_type (PPosj _) = TPosj"
| "py_type (PPosx _) = TPosx"
| "py_type (PNdarray _) = TNdarray"
| "py_type (PPosb _ _ _ _) = TPosb"
| "py_type (PMultiArray _) = TMultiArray"
| "py_type (PObj _) = TObj"

abbreviation is_int :: "pyval \<Rightarrow> bool" where
  "is_int v \<equiv> py_type v = TInt"

text \<open>\<^verbatim>\<open>type(v) == int or type(v) == float\<close>: a \<^verbatim>\<open>bool\<close> is neither.\<close>

abbreviation is_int_or_float :: "pyval \<Rightarrow> bool" where
  "is_int_or_float v \<equiv> py_type v = TInt \<or> py_type v = TFloat"

text \<open>\<^verbatim>\<open>isinstance(v, (int, float))\<close>: \<^verbatim>\<open>bool\<close> and numpy's double are subclasses.\<close>

definition isinstance_num :: "pyval \<Rightarrow> bool" where
  "isinstance_num v = (py_type v \<in> {TBool, TInt, TFloat, TNpFloat})"

definition isinstance_list :: "pyval \<Rightarrow> bool" where
  "isinstance_list v = (py_type v \<in> {TList, TPosj, TPosx})"

lemma py_type_inv:
  "py_type v = TNone \<longleftrightarrow> v = PNone"
  "py_type v = TInt \<longleftrightarrow> (\<exists>n. v = PInt n)"
  "py_type v = TFloat \<longleftrightarrow> (\<exists>f. v = PFloat f)"
  "py_type v = TStr \<longleftrightarrow> (\<exists>s. v = PStr s)"
  "py_type v = TList \<longleftrightarrow> (\<exists>xs. v = PList xs)"
  "py_type v = TTuple \<longleftrightarrow> (\<exists>xs. v = PTuple xs)"
  "py_type v = TPosj \<longleftrightarrow> (\<exists>xs. v = PPosj xs)"
  "py_type v = TPosx \<longleftrightarrow> (\<exists>xs. v = PPosx xs)"
  "py_type v = TNdarray \<longleftrightarrow> (\<exists>fs. v = PNdarray fs)"
  by (cases v; simp)+

section \<open>Iteration and indexing\<close>

text \<open>The items of an iterable; \<^const>\<open>None\<close> for a value that is not iterable.\<close>

fun py_iter :: "pyval \<Rightarrow> pyval list option" where
  "py_iter (PStr s) = Some (map (\<lambda>c. PStr [c]) s)"
| "py_iter (PList xs) = Some xs"
| "py_iter (PTuple xs) = Some xs"
| "py_iter (PPosj xs) = Some xs"
| "py_iter (PPosx xs) = Some xs"
| "py_iter (PNdarray fs) = Some (map PNpFloat fs)"
| "py_iter _ = None"

definition py_items :: "pyval \<Rightarrow> pyval list res" where
  "py_items v = (case py_iter v of None \<Rightarrow> Inl TypeError | Some xs \<Rightarrow> Inr xs)"

definition py_len :: "pyval \<Rightarrow> nat res" where
  "py_len v = (case py_iter v of None \<Rightarrow> Inl TypeError | Some xs \<Rightarrow> Inr (length xs))"

definition py_index :: "pyval \<Rightarrow> nat \<Rightarrow> pyval res" where
  "py_index v i = rbind (py_items v) (\<lambda>xs. if i < length xs then Inr (xs ! i) else Inl IndexError)"

definition py_list :: "pyval \<Rightarrow> pyval res" where
  "py_list v = rbind (py_items v) (\<lambda>xs. Inr (PList xs))"

text \<open>\<^verbatim>\<open>type(v) == list and len(v) == n\<close>.\<close>

definition is_list_of_len :: "nat \<Rightarrow> pyval \<Rightarrow> bool" where
  "is_list_of_len n v = (case v of PList xs \<Rightarrow> length xs = n | _ \<Rightarrow> False)"

text \<open>\<^verbatim>\<open>isinstance(v, list) and len(v) == n\<close>.\<close>

definition is_listlike_of_len :: "nat \<Rightarrow> pyval \<Rightarrow> bool" where
  "is_listlike_of_len n v = (case v of
       PList xs \<Rightarrow> length xs = n
     | PPosj xs \<Rightarrow> length xs = n
     | PPosx xs \<Rightarrow> length xs = n
     | _ \<Rightarrow> False)"

lemma py_items_simps [simp]:
  "py_items (PList xs) = Inr xs"
  "py_items (PTuple xs) = Inr xs"
  "py_items (PPosj xs) = Inr xs"
  "py_items (PPosx xs) = Inr xs"
  "py_items (PNdarray fs) = Inr (map PNpFloat fs)"
  "py_items (PStr s) = Inr (map (\<lambda>c. PStr [c]) s)"
  "py_items PNone = Inl TypeError"
  "py_items (PInt n) = Inl TypeError"
  "py_items (PFloat f) = Inl TypeError"
  by (simp_all add: py_items_def)

lemma is_list_of_len_iff: "is_list_of_len n v \<longleftrightarrow> (\<exists>xs. v = PList xs \<and> length xs = n)"
  by (cases v) (auto simp: is_list_of_len_def)

lemma is_listlike_of_len_iff:
  "is_listlike_of_len n v \<longleftrightarrow> (\<exists>xs. v \<in> {PList xs, PPosj xs, PPosx xs} \<and> length xs = n)"
  by (cases v) (auto simp: is_listlike_of_len_def)

lemma is_listlike_items:
  "is_listlike_of_len n v \<Longrightarrow> \<exists>xs. py_items v = Inr xs \<and> length xs = n"
  by (auto simp: is_listlike_of_len_iff)

section \<open>Truth values and comparison with constants\<close>

text \<open>The truth value of a numpy array of booleans: only an array of at most one element has one.\<close>

definition array_truth :: "bool list \<Rightarrow> bool res" where
  "array_truth bs = (case bs of [] \<Rightarrow> Inr False | [b] \<Rightarrow> Inr b | _ \<Rightarrow> Inl ValueError)"

fun num_val :: "pyval \<Rightarrow> pyfloat option" where
  "num_val (PBool b) = Some (Fin (if b then 1 else 0))"
| "num_val (PInt n) = Some (Fin (of_int n))"
| "num_val (PFloat f) = Some f"
| "num_val (PNpFloat f) = Some f"
| "num_val _ = None"

text \<open>An ordering between a value and an integer constant: Python compares numbers exactly.\<close>

definition py_cmp :: "(pyfloat \<Rightarrow> pyfloat \<Rightarrow> bool) \<Rightarrow> pyval \<Rightarrow> int \<Rightarrow> bool res" where
  "py_cmp f v n = (case num_val v of
       Some x \<Rightarrow> Inr (f x (Fin (of_int n)))
     | None \<Rightarrow> (case v of
           PNdarray fs \<Rightarrow> array_truth (map (\<lambda>x. f x (Fin (of_int n))) fs)
         | _ \<Rightarrow> Inl TypeError))"

definition py_lt :: "pyval \<Rightarrow> int \<Rightarrow> bool res" where
  "py_lt = py_cmp flt"

definition py_le :: "pyval \<Rightarrow> int \<Rightarrow> bool res" where
  "py_le = py_cmp fle"

definition py_gt :: "pyval \<Rightarrow> int \<Rightarrow> bool res" where
  "py_gt = py_cmp (\<lambda>x y. flt y x)"

definition py_eq :: "pyval \<Rightarrow> int \<Rightarrow> bool res" where
  "py_eq v n = (case num_val v of
       Some x \<Rightarrow> Inr (feq x (Fin (of_int n)))
     | None \<Rightarrow> (case v of
           PNdarray fs \<Rightarrow> array_truth (map (\<lambda>x. feq x (Fin (of_int n))) fs)
         | _ \<Rightarrow> Inr False))"

definition py_ne :: "pyval \<Rightarrow> int \<Rightarrow> bool res" where
  "py_ne v n = (case num_val v of
       Some x \<Rightarrow> Inr (\<not> feq x (Fin (of_int n)))
     | None \<Rightarrow> (case v of
           PNdarray fs \<Rightarrow> array_truth (map (\<lambda>x. \<not> feq x (Fin (of_int n))) fs)
         | _ \<Rightarrow> Inr True))"

text \<open>\<^verbatim>\<open>v == None\<close> and \<^verbatim>\<open>v != None\<close>: a numpy array compares element by element.\<close>

definition py_eq_none :: "pyval \<Rightarrow> bool res" where
  "py_eq_none v = (case v of
       PNone \<Rightarrow> Inr True
     | PNdarray fs \<Rightarrow> array_truth (map (\<lambda>_. False) fs)
     | _ \<Rightarrow> Inr False)"

definition py_ne_none :: "pyval \<Rightarrow> bool res" where
  "py_ne_none v = (case v of
       PNone \<Rightarrow> Inr False
     | PNdarray fs \<Rightarrow> array_truth (map (\<lambda>_. True) fs)
     | _ \<Rightarrow> Inr True)"

text \<open>\<^verbatim>\<open>if v:\<close>\<close>

definition py_truth :: "pyval \<Rightarrow> bool res" where
  "py_truth v = (case num_val v of
       Some x \<Rightarrow> Inr (\<not> feq x (Fin 0))
     | None \<Rightarrow> (case v of
           PNdarray fs \<Rightarrow> array_truth (map (\<lambda>x. \<not> feq x (Fin 0)) fs)
         | PNone \<Rightarrow> Inr False
         | _ \<Rightarrow> (case py_iter v of Some xs \<Rightarrow> Inr (xs \<noteq> []) | None \<Rightarrow> Inr True)))"

text \<open>Short-circuit connectives.\<close>

definition py_and :: "bool res \<Rightarrow> bool res \<Rightarrow> bool res" where
  "py_and a b = rbind a (\<lambda>x. if x then b else Inr False)"

definition py_or :: "bool res \<Rightarrow> bool res \<Rightarrow> bool res" where
  "py_or a b = rbind a (\<lambda>x. if x then Inr True else b)"

lemma py_and_simps [simp]:
  "py_and (Inr True) b = b" "py_and (Inr False) b = Inr False" "py_and (Inl e) b = Inl e"
  by (simp_all add: py_and_def)

lemma py_or_simps [simp]:
  "py_or (Inr True) b = Inr True" "py_or (Inr False) b = b" "py_or (Inl e) b = Inl e"
  by (simp_all add: py_or_def)

lemma py_and_Inr [simp]: "py_and (Inr a) (Inr b) = Inr (a \<and> b)"
  by (cases a) simp_all

lemma py_or_Inr [simp]: "py_or (Inr a) (Inr b) = Inr (a \<or> b)"
  by (cases a) simp_all

lemma py_and_False_iff:
  "py_and a b = Inr False \<longleftrightarrow> a = Inr False \<or> (a = Inr True \<and> b = Inr False)"
  by (cases a; cases "a = Inr True") (auto simp: py_and_def)

lemma py_or_False_iff: "py_or a b = Inr False \<longleftrightarrow> a = Inr False \<and> b = Inr False"
  by (cases a) (auto simp: py_or_def)

lemma py_cmp_simps [simp]:
  "py_cmp f (PInt m) n = Inr (f (Fin (of_int m)) (Fin (of_int n)))"
  "py_cmp f (PFloat x) n = Inr (f x (Fin (of_int n)))"
  "py_cmp f (PNpFloat x) n = Inr (f x (Fin (of_int n)))"
  "py_cmp f (PStr s) n = Inl TypeError"
  "py_cmp f PNone n = Inl TypeError"
  "py_cmp f (PList xs) n = Inl TypeError"
  "py_cmp f (PPosj xs) n = Inl TypeError"
  "py_cmp f (PPosx xs) n = Inl TypeError"
  by (simp_all add: py_cmp_def)

lemma py_ord_simps [simp]:
  "py_lt (PInt m) n = Inr (m < n)"
  "py_le (PInt m) n = Inr (m \<le> n)"
  "py_gt (PInt m) n = Inr (n < m)"
  "py_eq (PInt m) n = Inr (m = n)"
  "py_ne (PInt m) n = Inr (m \<noteq> n)"
  "py_lt (PFloat x) n = Inr (flt x (Fin (of_int n)))"
  "py_le (PFloat x) n = Inr (fle x (Fin (of_int n)))"
  "py_gt (PFloat x) n = Inr (flt (Fin (of_int n)) x)"
  "py_eq (PFloat x) n = Inr (feq x (Fin (of_int n)))"
  "py_ne (PFloat x) n = Inr (\<not> feq x (Fin (of_int n)))"
  "py_lt (PStr s) n = Inl TypeError"
  "py_le (PStr s) n = Inl TypeError"
  "py_lt PNone n = Inl TypeError"
  by (simp_all add: py_lt_def py_le_def py_gt_def py_eq_def py_ne_def)

lemma py_eq_none_simps [simp]:
  "py_eq_none PNone = Inr True"
  "py_eq_none (PBool b) = Inr False"
  "py_eq_none (PInt n) = Inr False"
  "py_eq_none (PFloat f) = Inr False"
  "py_eq_none (PNpFloat f) = Inr False"
  "py_eq_none (PStr s) = Inr False"
  "py_eq_none (PList xs) = Inr False"
  "py_eq_none (PTuple xs) = Inr False"
  "py_eq_none (PPosj xs) = Inr False"
  "py_eq_none (PPosx xs) = Inr False"
  by (simp_all add: py_eq_none_def)

lemma py_ne_none_simps [simp]:
  "py_ne_none PNone = Inr False"
  "py_ne_none (PBool b) = Inr True"
  "py_ne_none (PInt n) = Inr True"
  "py_ne_none (PFloat f) = Inr True"
  "py_ne_none (PNpFloat f) = Inr True"
  "py_ne_none (PStr s) = Inr True"
  "py_ne_none (PList xs) = Inr True"
  "py_ne_none (PTuple xs) = Inr True"
  "py_ne_none (PPosj xs) = Inr True"
  "py_ne_none (PPosx xs) = Inr True"
  by (simp_all add: py_ne_none_def)

section \<open>Conversions\<close>

definition py_float :: "pyval \<Rightarrow> pyfloat res" where
  "py_float v = (case v of
       PBool b \<Rightarrow> Inr (Fin (if b then 1 else 0))
     | PInt n \<Rightarrow> float_of_int n
     | PFloat f \<Rightarrow> Inr f
     | PNpFloat f \<Rightarrow> Inr f
     | PStr s \<Rightarrow> (case float_of_string s of None \<Rightarrow> Inl ValueError | Some f \<Rightarrow> Inr f)
     | PNdarray [f] \<Rightarrow> Inr f
     | _ \<Rightarrow> Inl TypeError)"

definition int_of_string :: "string \<Rightarrow> int option" where
  "int_of_string s =
     (let t = rev (dropWhile is_space (rev (dropWhile is_space s)));
          (neg, xs) = take_sign t;
          (v, c, rest) = scan_digits 0 0 xs
      in if 0 < c \<and> rest = [] then Some (if neg then - int v else int v) else None)"

definition py_int :: "pyval \<Rightarrow> int res" where
  "py_int v = (case v of
       PBool b \<Rightarrow> Inr (if b then 1 else 0)
     | PInt n \<Rightarrow> Inr n
     | PFloat f \<Rightarrow> int_of_float f
     | PNpFloat f \<Rightarrow> int_of_float f
     | PStr s \<Rightarrow> (case int_of_string s of None \<Rightarrow> Inl ValueError | Some n \<Rightarrow> Inr n)
     | PNdarray [f] \<Rightarrow> int_of_float f
     | _ \<Rightarrow> Inl TypeError)"

text \<open>\<^verbatim>\<open>[float(x) for x in v]\<close>\<close>

definition py_floats :: "pyval \<Rightarrow> pyfloat list res" where
  "py_floats v = rbind (py_items v) (map_res py_float)"

text \<open>The same as the Python list of floats that is assigned to a message field.\<close>

definition float_list :: "pyval \<Rightarrow> pyval res" where
  "float_list v = rbind (py_floats v) (\<lambda>fs. Inr (PList (map PFloat fs)))"

definition float_field :: "pyval \<Rightarrow> pyval res" where
  "float_field v = rbind (py_float v) (\<lambda>f. Inr (PFloat f))"

definition int_field :: "pyval \<Rightarrow> pyval res" where
  "int_field v = rbind (py_int v) (\<lambda>n. Inr (PInt n))"

lemma py_float_simps [simp]:
  "py_float (PInt n) = float_of_int n"
  "py_float (PFloat f) = Inr f"
  "py_float (PNpFloat f) = Inr f"
  "py_float PNone = Inl TypeError"
  "py_float (PList xs) = Inl TypeError"
  "py_float (PPosj xs) = Inl TypeError"
  "py_float (PPosx xs) = Inl TypeError"
  by (simp_all add: py_float_def)

lemma py_int_simps [simp]:
  "py_int (PInt n) = Inr n"
  "py_int (PFloat f) = int_of_float f"
  by (simp_all add: py_int_def)

lemma int_field_PInt [simp]: "int_field (PInt n) = Inr (PInt n)"
  by (simp add: int_field_def)

lemma float_field_Inr: "float_field v = Inr u \<longleftrightarrow> (\<exists>f. py_float v = Inr f \<and> u = PFloat f)"
  by (auto simp: float_field_def rbind_Inr_iff)

lemma float_list_Inr:
  "float_list v = Inr u \<longleftrightarrow> (\<exists>fs. py_floats v = Inr fs \<and> u = PList (map PFloat fs))"
  by (auto simp: float_list_def rbind_Inr_iff)

lemma py_floats_length:
  "py_floats v = Inr fs \<Longrightarrow> py_items v = Inr xs \<Longrightarrow> length fs = length xs"
  by (simp add: py_floats_def map_res_length)

text \<open>
  A value that passed the test \<^verbatim>\<open>not (item < 0)\<close> has a float that is not negative: conversion
  rounds but keeps the sign. It may be a NaN.
\<close>

lemma py_lt_0_float:
  assumes "py_lt v 0 = Inr False" and "py_float v = Inr f"
  shows "\<not> flt f (Fin 0)"
proof (cases v)
  case (PInt n)
  with assms show ?thesis using float_of_int_nonneg [of n f] by simp
next
  case (PStr s)
  with assms show ?thesis by simp
next
  case (PNdarray fs)
  with assms show ?thesis
    by (auto simp: py_lt_def py_cmp_def py_float_def array_truth_def split: list.splits)
qed (use assms in \<open>auto simp: py_lt_def py_cmp_def py_float_def\<close>)

text \<open>A value that is numerically the constant \<open>n\<close> converts to its float.\<close>

lemma py_eq_float:
  assumes "py_ne v n = Inr False" and "py_float v = Inr f" and "\<bar>n\<bar> < 2 ^ 53"
  shows "feq f (Fin (of_int n))"
proof (cases v)
  case (PNdarray fs)
  with assms show ?thesis
  proof (cases fs)
    case (Cons g gs)
    with PNdarray assms show ?thesis
      by (cases gs) (auto simp: py_ne_def py_float_def array_truth_def)
  qed (auto simp: py_float_def)
qed (use assms in \<open>auto simp: py_ne_def py_float_def\<close>)

end
