(* ===== verification/DR_common.thy ===== *)
theory DR_common
  imports PyValue
begin

text \<open>
  DR_error2.py and DR_common2.py: the error codes, the position classes \<^verbatim>\<open>posj\<close>, \<^verbatim>\<open>posx\<close> and
  \<^verbatim>\<open>posb\<close>, the functions that coerce an argument to a position, the choice between a parameter
  and its short alias, and \<^verbatim>\<open>is_number\<close>, on which every later check rests. The string forms
  (\<^verbatim>\<open>__str__\<close>, \<^verbatim>\<open>dr_form\<close>) are for printing and are not modelled.
\<close>

section \<open>Error codes\<close>

definition DR_ERROR_TYPE :: int where "DR_ERROR_TYPE = 1000"
definition DR_ERROR_VALUE :: int where "DR_ERROR_VALUE = 1001"
definition DR_ERROR_RUNTIME :: int where "DR_ERROR_RUNTIME = 1002"

section \<open>Numbers\<close>

text \<open>
  \<^verbatim>\<open>is_number\<close> returns inside its loop on the first item, so it looks at the first leaf of its
  argument only; \<^verbatim>\<open>float\<close> of a value that is not a number raises TypeError, which the handler
  for ValueError does not catch.
\<close>

fun is_number :: "pyval \<Rightarrow> bool res" where
  "is_number (PList []) = Inr True"
| "is_number (PList (x # xs)) = (if py_type x = TStr then Inr False else is_number x)"
| "is_number (PTuple []) = Inr True"
| "is_number (PTuple (x # xs)) = (if py_type x = TStr then Inr False else is_number x)"
| "is_number (PPosj []) = Inr True"
| "is_number (PPosj (x # xs)) = (if py_type x = TStr then Inr False else is_number x)"
| "is_number (PPosx []) = Inr True"
| "is_number (PPosx (x # xs)) = (if py_type x = TStr then Inr False else is_number x)"
| "is_number (PNdarray fs) = Inr True"
| "is_number (PStr s) = Inr (s = [])"
| "is_number v = (case py_float v of Inl ValueError \<Rightarrow> Inr False | Inl e \<Rightarrow> Inl e | Inr f \<Rightarrow> Inr True)"

text \<open>\<^verbatim>\<open>if is_number(v) != True: raise DR_Error(code, ...)\<close>\<close>

definition check_number :: "pyval \<Rightarrow> int \<Rightarrow> unit res" where
  "check_number v code = rbind (is_number v) (\<lambda>ok. raise_if (\<not> ok) code)"

lemma check_number_Inr [simp]: "check_number v code = Inr u \<longleftrightarrow> is_number v = Inr True"
  by (auto simp: check_number_def rbind_Inr_iff)

section \<open>Positions\<close>

definition POINT_COUNT :: nat where "POINT_COUNT = 6"
definition DR_LINE :: int where "DR_LINE = 0"
definition DR_CIRCLE :: int where "DR_CIRCLE = 1"

text \<open>Indices 0 to 5 of \<^verbatim>\<open>org_list\<close>, in the order the constructors read them.\<close>

definition six_of :: "pyval list \<Rightarrow> pyval list res" where
  "six_of xs = (if length xs < POINT_COUNT then Inl IndexError else Inr (take POINT_COUNT xs))"

definition posj_init :: "pyval \<Rightarrow> pyval \<Rightarrow> pyval \<Rightarrow> pyval \<Rightarrow> pyval \<Rightarrow> pyval \<Rightarrow> pyval res" where
  "posj_init q1 q2 q3 q4 q5 q6 =
     rbind (if is_list_of_len POINT_COUNT q1 \<or> py_type q1 = TPosj
            then rbind (py_items q1) six_of
            else Inr [q1, q2, q3, q4, q5, q6]) (\<lambda>pos_list.
     rbind (check_number (PList pos_list) DR_ERROR_TYPE) (\<lambda>_.
     Inr (PPosj pos_list)))"

definition posx_init :: "pyval \<Rightarrow> pyval \<Rightarrow> pyval \<Rightarrow> pyval \<Rightarrow> pyval \<Rightarrow> pyval \<Rightarrow> pyval res" where
  "posx_init x y z w p r =
     rbind (if is_list_of_len POINT_COUNT x \<or> py_type x = TPosx
            then rbind (py_items x) six_of
            else Inr [x, y, z, w, p, r]) (\<lambda>pos_list.
     rbind (check_number (PList pos_list) DR_ERROR_TYPE) (\<lambda>_.
     Inr (PPosx pos_list)))"

text \<open>The calls with one argument; the other parameters have the default 0.\<close>

abbreviation posj :: "pyval \<Rightarrow> pyval res" where
  "posj q \<equiv> posj_init q (PInt 0) (PInt 0) (PInt 0) (PInt 0) (PInt 0)"

abbreviation posx :: "pyval \<Rightarrow> pyval res" where
  "posx x \<equiv> posx_init x (PInt 0) (PInt 0) (PInt 0) (PInt 0) (PInt 0)"

definition get_posj :: "pyval \<Rightarrow> pyval res" where
  "get_posj pos =
     (if py_type pos = TPosj then
        rbind (check_number pos DR_ERROR_VALUE) (\<lambda>_. Inr pos)
      else if is_list_of_len POINT_COUNT pos then
        rbind (check_number pos DR_ERROR_VALUE) (\<lambda>_. posj pos)
      else Inl (DRError DR_ERROR_TYPE))"

definition get_posx :: "pyval \<Rightarrow> pyval res" where
  "get_posx pos =
     (if py_type pos = TPosx then
        rbind (check_number pos DR_ERROR_VALUE) (\<lambda>_. Inr pos)
      else if is_list_of_len POINT_COUNT pos then
        rbind (check_number pos DR_ERROR_VALUE) (\<lambda>_. posx pos)
      else Inl (DRError DR_ERROR_TYPE))"

definition get_normal_pos :: "pyval \<Rightarrow> pytype option \<Rightarrow> pyval res" where
  "get_normal_pos pos def_type =
     (if py_type pos = TPosx \<or> py_type pos = TPosj \<or> py_type pos = TNdarray then
        rbind (check_number pos DR_ERROR_VALUE) (\<lambda>_. Inr pos)
      else if is_list_of_len POINT_COUNT pos then
        rbind (check_number pos DR_ERROR_VALUE) (\<lambda>_.
        if def_type = Some TPosj then posj pos
        else if def_type = Some TPosx then posx pos
        else Inl (DRError DR_ERROR_TYPE))
      else Inl (DRError DR_ERROR_TYPE))"

definition posb_init :: "pyval \<Rightarrow> pyval \<Rightarrow> pyval \<Rightarrow> pyval \<Rightarrow> pyval res" where
  "posb_init seg_type posx1 posx2 radius =
     rbind (raise_if (\<not> is_int seg_type) DR_ERROR_TYPE) (\<lambda>_.
     rbind (raise_when (py_and (py_ne seg_type DR_LINE) (py_ne seg_type DR_CIRCLE))
              DR_ERROR_VALUE) (\<lambda>_.
     rbind (get_posx posx1) (\<lambda>p1.
     rbind (rbind (py_eq seg_type DR_LINE) (\<lambda>line.
              if line then
                rbind (raise_when (py_ne_none posx2) DR_ERROR_VALUE) (\<lambda>_. Inr PNone)
              else rbind (py_eq seg_type DR_CIRCLE) (\<lambda>circle.
                if circle then
                  rbind (raise_when (py_eq_none posx2) DR_ERROR_VALUE) (\<lambda>_. get_posx posx2)
                else Inr PNone))) (\<lambda>p2.
     rbind (raise_if (\<not> is_int_or_float radius) DR_ERROR_TYPE) (\<lambda>_.
     rbind (raise_when (py_lt radius 0) DR_ERROR_VALUE) (\<lambda>_.
     Inr (PPosb seg_type p1 p2 radius)))))))"

text \<open>\<^verbatim>\<open>seg.to_list()\<close>: any other type has no such attribute.\<close>

definition posb_to_list :: "pyval \<Rightarrow> pyval list res" where
  "posb_to_list v = (case v of
       PPosb seg_type p1 p2 radius \<Rightarrow> Inr [seg_type, p1, p2, radius]
     | _ \<Rightarrow> Inl AttributeError)"

section \<open>Parameters\<close>

definition get_param :: "pyval \<Rightarrow> pyval \<Rightarrow> pyval res" where
  "get_param x y =
     rbind (py_ne_none x) (\<lambda>bx. if bx then Inr x
     else rbind (py_ne_none y) (\<lambda>has_y. if has_y then Inr y else Inr PNone))"

definition get_kargs :: "(string \<times> pyval) list \<Rightarrow> string \<Rightarrow> pyval" where
  "get_kargs kargs name = (case map_of kargs name of Some v \<Rightarrow> v | None \<Rightarrow> PNone)"

section \<open>Lemmas\<close>

lemma get_param_None [simp]: "get_param PNone y = rbind (py_ne_none y) (\<lambda>b. if b then Inr y else Inr PNone)"
  by (simp add: get_param_def)

lemma get_param_given [simp]: "py_ne_none x = Inr True \<Longrightarrow> get_param x y = Inr x"
  by (simp add: get_param_def)

lemma is_number_PInt: "\<bar>n\<bar> < 2 ^ 53 \<Longrightarrow> is_number (PInt n) = Inr True"
  by simp

text \<open>
  What \<^verbatim>\<open>is_number\<close> decides: the leaf it reaches by taking first items. Everything after the
  first item is never looked at.
\<close>

lemma is_number_first_only:
  assumes "is_number (PList (x # xs)) = Inr b"
  shows "is_number (PList (x # ys)) = Inr b"
  using assms by simp

lemma posj_result:
  assumes "posj_init q1 q2 q3 q4 q5 q6 = Inr p"
  shows "\<exists>xs. p = PPosj xs \<and> length xs = POINT_COUNT \<and> is_number (PList xs) = Inr True"
  using assms
  by (auto simp: posj_init_def six_of_def rbind_Inr_iff POINT_COUNT_def split: if_splits)

lemma posx_result:
  assumes "posx_init q1 q2 q3 q4 q5 q6 = Inr p"
  shows "\<exists>xs. p = PPosx xs \<and> length xs = POINT_COUNT \<and> is_number (PList xs) = Inr True"
  using assms
  by (auto simp: posx_init_def six_of_def rbind_Inr_iff POINT_COUNT_def split: if_splits)

lemma is_number_wrap:
  "is_number (PPosj xs) = is_number (PList xs)"
  "is_number (PPosx xs) = is_number (PList xs)"
  "is_number (PTuple xs) = is_number (PList xs)"
  by (cases xs; simp)+

end
