(* ===== verification/Ros.thy ===== *)
theory Ros
  imports DR_common
begin

text \<open>
  The world a function of DSR_ROBOT2.py acts on: the module's global variables and the trace of
  what was done to the outside (service calls, messages published, polls for a service, the
  shutdown that the constructor of \<^verbatim>\<open>DR_Error\<close> performs). The ROS client library and the
  generated message classes are parameters, the fields of \<open>ros\<close>; their answers may depend on
  everything done before.
\<close>

section \<open>State\<close>

text \<open>The module globals that the functions read and write.\<close>

record globals =
  g_blend_state :: bool
  g_blend_radius :: pyval
  g_velj :: pyval
  g_accj :: pyval
  g_velx :: pyval
  g_accx :: pyval
  g_coord :: pyval
  g_analog_output_mode_ch1 :: pyval
  g_analog_output_mode_ch2 :: pyval

type_synonym fields = "(string \<times> pyval) list"

datatype event =
    Shutdown
  | Polled string bool
  | Called string fields
  | Published string fields

record world = globals +
  trace :: "event list"

definition log :: "event \<Rightarrow> world \<Rightarrow> world" where
  "log e w = w\<lparr>trace := trace w @ [e]\<rparr>"

section \<open>The environment\<close>

text \<open>
  What a call of \<^verbatim>\<open>call_async\<close> and \<^verbatim>\<open>spin_until_future_complete\<close> comes to: it never returns,
  \<^verbatim>\<open>call_async\<close> itself raises, \<^verbatim>\<open>future.result()\<close> raises, it returns \<^verbatim>\<open>None\<close>, or it returns a
  response, whose attributes are read by name.
\<close>

datatype reply =
    Hangs
  | CallRaises exc
  | FutureRaises
  | NoResult
  | Response "string \<Rightarrow> pyval"

text \<open>
  \<open>setter_ok srv field v\<close>: the generated setter of the request or message accepts \<open>v\<close> (it
  asserts type, length and range of the declared field); \<open>available\<close>: the answer of
  \<^verbatim>\<open>wait_for_service\<close>; \<open>publish_fails\<close>: the exception of \<^verbatim>\<open>publish\<close>, if any.
\<close>

record ros =
  setter_ok :: "string \<Rightarrow> string \<Rightarrow> pyval \<Rightarrow> bool"
  available :: "event list \<Rightarrow> string \<Rightarrow> bool"
  reply_of :: "event list \<Rightarrow> string \<Rightarrow> fields \<Rightarrow> reply"
  publish_fails :: "event list \<Rightarrow> string \<Rightarrow> fields \<Rightarrow> exc option"

section \<open>Actions\<close>

type_synonym 'a act = "('a, world) action"

text \<open>
  A pure check or computation as an action. Every \<^verbatim>\<open>DR_Error\<close> in the code is raised where it is
  constructed and never caught, so its shutdown of rclpy is logged where it leaves the check.
\<close>

definition note_exc :: "exc \<Rightarrow> world \<Rightarrow> world" where
  "note_exc e w = (if is_dr_error e then log Shutdown w else w)"

definition lift_res :: "'a res \<Rightarrow> 'a act" where
  "lift_res r w = (case r of Inl e \<Rightarrow> Some (Inl e, note_exc e w) | Inr x \<Rightarrow> Some (Inr x, w))"

text \<open>A computation on the globals, and an assignment to them.\<close>

definition with_globals :: "(world \<Rightarrow> 'a res) \<Rightarrow> 'a act" where
  "with_globals f w = lift_res (f w) w"

definition update_world :: "(world \<Rightarrow> world) \<Rightarrow> unit act" where
  "update_world f w = Some (Inr (), f w)"

text \<open>
  \<^verbatim>\<open>while not client.wait_for_service(timeout_sec=1.0): log\<close>: it may never end.
\<close>

partial_function (option) wait_for_service :: "ros \<Rightarrow> string \<Rightarrow> world \<Rightarrow> world option" where
  "wait_for_service R srv w =
     (if available R (trace w) srv then Some (log (Polled srv True) w)
      else wait_for_service R srv (log (Polled srv False) w))"

definition await_service :: "ros \<Rightarrow> bool \<Rightarrow> string \<Rightarrow> unit act" where
  "await_service R waits srv w =
     (if waits then (case wait_for_service R srv w of
                       None \<Rightarrow> None
                     | Some w' \<Rightarrow> Some (Inr (), w'))
      else Some (Inr (), w))"

text \<open>The assignments to the fields of a request or message, in the order of the code.\<close>

fun set_fields :: "ros \<Rightarrow> string \<Rightarrow> (string \<times> pyval res) list \<Rightarrow> fields res" where
  "set_fields R srv [] = Inr []"
| "set_fields R srv ((f, r) # rest) =
     rbind r (\<lambda>v.
     if setter_ok R srv f v then rbind (set_fields R srv rest) (\<lambda>fs. Inr ((f, v) # fs))
     else Inl AssertionError)"

text \<open>
  The call and its \<^verbatim>\<open>try\<close>/\<^verbatim>\<open>except\<close>/\<^verbatim>\<open>else\<close>: the result is the local variable \<^verbatim>\<open>ret\<close>,
  \<^const>\<open>None\<close> while it is not assigned. The handler of an exception from the future only logs,
  so \<^verbatim>\<open>ret\<close> keeps the value it had (\<open>before\<close>).
\<close>

definition call_service ::
  "ros \<Rightarrow> string \<Rightarrow> fields \<Rightarrow> pyval option \<Rightarrow> (reply \<Rightarrow> pyval option res) \<Rightarrow> pyval option act" where
  "call_service R srv fs before on_result w =
     (let r = reply_of R (trace w) srv fs; w' = log (Called srv fs) w
      in case r of
           Hangs \<Rightarrow> None
         | CallRaises e \<Rightarrow> Some (Inl e, w')
         | FutureRaises \<Rightarrow> Some (Inr before, w')
         | _ \<Rightarrow> lift_res (on_result r) w')"

text \<open>\<^verbatim>\<open>return ret\<close>\<close>

definition return_ret :: "pyval option \<Rightarrow> pyval act" where
  "return_ret ret = lift_res (case ret of None \<Rightarrow> Inl UnboundLocalError | Some v \<Rightarrow> Inr v)"

definition publish :: "ros \<Rightarrow> string \<Rightarrow> fields \<Rightarrow> unit act" where
  "publish R topic fs w =
     (case publish_fails R (trace w) topic fs of
        Some e \<Rightarrow> Some (Inl e, w)
      | None \<Rightarrow> Some (Inr (), log (Published topic fs) w))"

section \<open>The two usual ways to read a response\<close>

text \<open>\<^verbatim>\<open>ret = -1 if result == None else (0 if (result.success == True) else -1)\<close>\<close>

definition success_code :: "reply \<Rightarrow> pyval option res" where
  "success_code r = (case r of
       Response a \<Rightarrow> rbind (py_eq (a ''success'') 1)
                       (\<lambda>ok. Inr (Some (if ok then PInt 0 else PInt (-1))))
     | _ \<Rightarrow> Inr (Some (PInt (-1))))"

text \<open>\<^verbatim>\<open>ret = -1 if result == None else f(result.field)\<close>\<close>

definition field_value :: "string \<Rightarrow> (pyval \<Rightarrow> pyval res) \<Rightarrow> reply \<Rightarrow> pyval option res" where
  "field_value field f r = (case r of
       Response a \<Rightarrow> rbind (f (a field)) (\<lambda>v. Inr (Some v))
     | _ \<Rightarrow> Inr (Some (PInt (-1))))"

text \<open>A service function: check, build the request, wait when the code does, call, return.\<close>

definition service_fun ::
  "ros \<Rightarrow> bool \<Rightarrow> string \<Rightarrow> (world \<Rightarrow> fields res) \<Rightarrow> pyval option \<Rightarrow>
   (reply \<Rightarrow> pyval option res) \<Rightarrow> pyval act" where
  "service_fun R waits srv request before on_result =
     abind (with_globals request) (\<lambda>fs.
     abind (await_service R waits srv) (\<lambda>_.
     abind (call_service R srv fs before on_result) return_ret))"

text \<open>A streaming function: check, build the message, publish, return 0.\<close>

definition stream_fun :: "ros \<Rightarrow> string \<Rightarrow> (world \<Rightarrow> fields res) \<Rightarrow> pyval act" where
  "stream_fun R topic message =
     abind (with_globals message) (\<lambda>fs.
     abind (publish R topic fs) (\<lambda>_. lift_res (Inr (PInt 0))))"

section \<open>Lemmas\<close>

lemma trace_log [simp]: "trace (log e w) = trace w @ [e]"
  by (simp add: log_def)

lemma globals_log [simp]: "globals.truncate (log e w) = globals.truncate w"
  by (simp add: log_def globals.defs)

lemma log_selectors [simp]:
  "g_velj (log e w) = g_velj w" "g_accj (log e w) = g_accj w"
  "g_velx (log e w) = g_velx w" "g_accx (log e w) = g_accx w"
  "g_coord (log e w) = g_coord w"
  "g_blend_state (log e w) = g_blend_state w" "g_blend_radius (log e w) = g_blend_radius w"
  by (simp_all add: log_def)

lemma lift_res_simps [simp]:
  "lift_res (Inl e) w = Some (Inl e, note_exc e w)"
  "lift_res (Inr x) w = Some (Inr x, w)"
  by (simp_all add: lift_res_def)

text \<open>Polling appends failed polls and one successful poll, and changes nothing else.\<close>

lemma wait_for_service_result:
  assumes "wait_for_service R srv w = Some w'"
  shows "\<exists>n. w' = w\<lparr>trace := trace w @ replicate n (Polled srv False) @ [Polled srv True]\<rparr>"
proof (rule wait_for_service.raw_induct
    [where P = "\<lambda>R srv w w'. \<exists>n. w' = w\<lparr>trace := trace w @ replicate n (Polled srv False)
                                              @ [Polled srv True]\<rparr>", OF _ assms])
  fix wait R srv w w'
  assume IH: "\<And>R srv w w'. wait R srv w = Some w' \<Longrightarrow>
      \<exists>n. w' = w\<lparr>trace := trace w @ replicate n (Polled srv False) @ [Polled srv True]\<rparr>"
    and eq: "(if available R (trace w) srv then Some (log (Polled srv True) w)
              else wait R srv (log (Polled srv False) w)) = Some w'"
  show "\<exists>n. w' = w\<lparr>trace := trace w @ replicate n (Polled srv False) @ [Polled srv True]\<rparr>"
  proof (cases "available R (trace w) srv")
    case True
    with eq have "w' = w\<lparr>trace := trace w @ replicate 0 (Polled srv False) @ [Polled srv True]\<rparr>"
      by (auto simp: log_def)
    then show ?thesis by blast
  next
    case False
    with eq IH [of R srv "log (Polled srv False) w" w'] obtain n
      where "w' = (log (Polled srv False) w)\<lparr>trace := trace (log (Polled srv False) w)
                    @ replicate n (Polled srv False) @ [Polled srv True]\<rparr>"
      by auto
    then have "w' = w\<lparr>trace := trace w @ replicate (Suc n) (Polled srv False)
                      @ [Polled srv True]\<rparr>"
      by (simp add: log_def)
    then show ?thesis by blast
  qed
qed

text \<open>Liveness: once some number of polls makes the service available, the loop returns.\<close>

lemma wait_for_service_returns:
  "available R (trace w @ replicate n (Polled srv False)) srv \<Longrightarrow>
   \<exists>w'. wait_for_service R srv w = Some w'"
proof (induction n arbitrary: w)
  case 0
  then show ?case by (simp add: wait_for_service.simps)
next
  case (Suc n)
  have "\<exists>w'. wait_for_service R srv (log (Polled srv False) w) = Some w'"
    using Suc.prems by (intro Suc.IH) simp
  then show ?case
    by (subst wait_for_service.simps) simp
qed

lemma set_fields_Inr_Cons:
  "set_fields R srv ((f, r) # rest) = Inr fs \<longleftrightarrow>
     (\<exists>v fs'. r = Inr v \<and> setter_ok R srv f v \<and> set_fields R srv rest = Inr fs' \<and>
              fs = (f, v) # fs')"
  by (auto simp: rbind_Inr_iff split: if_splits)

lemma set_fields_Inr_Nil: "set_fields R srv [] = Inr fs \<longleftrightarrow> fs = []"
  by auto

end
