(* ===== verification/MotionParams.thy ===== *)
theory MotionParams
  imports Ros
begin

text \<open>
  The parts of DSR_ROBOT2.py every motion command shares: its constants, the module globals with
  their setters (\<^verbatim>\<open>set_velj\<close>, \<^verbatim>\<open>set_accj\<close>, \<^verbatim>\<open>set_velx\<close>, \<^verbatim>\<open>set_accx\<close>), the two checks of velocity
  against time, and the blocks of argument normalisation that the source repeats in each
  command. Each block is one definition here; its map entry names one of its occurrences.
\<close>

section \<open>Constants\<close>

abbreviation DR_VELJ_DT_LEN :: nat where "DR_VELJ_DT_LEN \<equiv> 6"
abbreviation DR_VELX_DT_LEN :: nat where "DR_VELX_DT_LEN \<equiv> 2"
abbreviation DR_COND_NONE :: int where "DR_COND_NONE \<equiv> -10000"
abbreviation DR_BASE :: int where "DR_BASE \<equiv> 0"
abbreviation DR_TOOL :: int where "DR_TOOL \<equiv> 1"
abbreviation DR_WORLD :: int where "DR_WORLD \<equiv> 2"
abbreviation DR_TC_USER_MIN :: int where "DR_TC_USER_MIN \<equiv> 101"
abbreviation DR_TC_USER_MAX :: int where "DR_TC_USER_MAX \<equiv> 200"
abbreviation DR_MV_MOD_ABS :: int where "DR_MV_MOD_ABS \<equiv> 0"
abbreviation DR_MV_MOD_REL :: int where "DR_MV_MOD_REL \<equiv> 1"
abbreviation DR_MV_RA_DUPLICATE :: int where "DR_MV_RA_DUPLICATE \<equiv> 0"
abbreviation DR_MV_RA_OVERRIDE :: int where "DR_MV_RA_OVERRIDE \<equiv> 1"
abbreviation DR_MVS_VEL_NONE :: int where "DR_MVS_VEL_NONE \<equiv> 0"
abbreviation DR_MVS_VEL_CONST :: int where "DR_MVS_VEL_CONST \<equiv> 1"
abbreviation DR_SOL_MIN :: int where "DR_SOL_MIN \<equiv> 0"
abbreviation DR_SOL_MAX :: int where "DR_SOL_MAX \<equiv> 7"
abbreviation DR_AXIS_X :: int where "DR_AXIS_X \<equiv> 0"
abbreviation DR_AXIS_Y :: int where "DR_AXIS_Y \<equiv> 1"
abbreviation DR_AXIS_Z :: int where "DR_AXIS_Z \<equiv> 2"

section \<open>Globals\<close>

definition init_globals :: "world \<Rightarrow> world" where
  "init_globals w = w\<lparr>
     g_blend_state := False,
     g_blend_radius := PFloat (Fin 0),
     g_velj := PList (replicate DR_VELJ_DT_LEN (PFloat (Fin 0))),
     g_accj := PList (replicate DR_VELJ_DT_LEN (PFloat (Fin 0))),
     g_velx := PList [PFloat (Fin 0), PInt DR_COND_NONE],
     g_accx := PList [PFloat (Fin 0), PInt DR_COND_NONE],
     g_coord := PInt DR_BASE,
     g_analog_output_mode_ch1 := PInt (-1),
     g_analog_output_mode_ch2 := PInt (-1)\<rparr>"

text \<open>The setters differ in the error code for a scalar that is not positive.\<close>

definition velj_value :: "pyval \<Rightarrow> pyval res" where
  "velj_value vel =
     (if is_int_or_float vel then
        rbind (raise_when (py_le vel 0) DR_ERROR_TYPE) (\<lambda>_.
        Inr (PList (replicate DR_VELJ_DT_LEN vel)))
      else if is_list_of_len POINT_COUNT vel then
        rbind (check_number vel DR_ERROR_TYPE) (\<lambda>_.
        rbind (py_items vel) (\<lambda>xs.
        rbind (for_each (\<lambda>item. raise_when (py_le item 0) DR_ERROR_VALUE) xs) (\<lambda>_.
        Inr vel)))
      else Inl (DRError DR_ERROR_TYPE))"

definition accj_value :: "pyval \<Rightarrow> pyval res" where
  "accj_value acc =
     (if is_int_or_float acc then
        rbind (raise_when (py_le acc 0) DR_ERROR_VALUE) (\<lambda>_.
        Inr (PList (replicate DR_VELJ_DT_LEN acc)))
      else if is_list_of_len POINT_COUNT acc then
        rbind (check_number acc DR_ERROR_TYPE) (\<lambda>_.
        rbind (py_items acc) (\<lambda>xs.
        rbind (for_each (\<lambda>item. raise_when (py_le item 0) DR_ERROR_VALUE) xs) (\<lambda>_.
        Inr acc)))
      else Inl (DRError DR_ERROR_TYPE))"

definition task_pair_value :: "pyval \<Rightarrow> pyval \<Rightarrow> pyval res" where
  "task_pair_value x1 x2 =
     rbind (raise_if (\<not> is_int_or_float x1) DR_ERROR_TYPE) (\<lambda>_.
     rbind (raise_when (py_le x1 0) DR_ERROR_VALUE) (\<lambda>_.
     rbind (raise_if (\<not> is_int_or_float x2) DR_ERROR_TYPE) (\<lambda>_.
     rbind (raise_when (py_and (py_ne x2 DR_COND_NONE) (py_le x2 0)) DR_ERROR_VALUE) (\<lambda>_.
     Inr (PList [x1, x2])))))"

definition set_velj :: "pyval \<Rightarrow> pyval act" where
  "set_velj vel =
     abind (lift_res (velj_value vel)) (\<lambda>vel_list.
     abind (update_world (\<lambda>w. w\<lparr>g_velj := vel_list\<rparr>)) (\<lambda>_. lift_res (Inr (PInt 0))))"

definition set_accj :: "pyval \<Rightarrow> pyval act" where
  "set_accj acc =
     abind (lift_res (accj_value acc)) (\<lambda>acc_list.
     abind (update_world (\<lambda>w. w\<lparr>g_accj := acc_list\<rparr>)) (\<lambda>_. lift_res (Inr (PInt 0))))"

definition set_velx :: "pyval \<Rightarrow> pyval \<Rightarrow> pyval act" where
  "set_velx vel1 vel2 =
     abind (lift_res (task_pair_value vel1 vel2)) (\<lambda>p.
     abind (update_world (\<lambda>w. w\<lparr>g_velx := p\<rparr>)) (\<lambda>_. lift_res (Inr (PInt 0))))"

definition set_accx :: "pyval \<Rightarrow> pyval \<Rightarrow> pyval act" where
  "set_accx acc1 acc2 =
     abind (lift_res (task_pair_value acc1 acc2)) (\<lambda>p.
     abind (update_world (\<lambda>w. w\<lparr>g_accx := p\<rparr>)) (\<lambda>_. lift_res (Inr (PInt 0))))"

section \<open>Velocity and acceleration against time\<close>

text \<open>The \<^verbatim>\<open>for\<close>/\<^verbatim>\<open>else\<close> loop: true when no item is different from zero.\<close>

fun all_zero :: "pyval list \<Rightarrow> bool res" where
  "all_zero [] = Inr True"
| "all_zero (x # xs) =
     rbind (py_float x) (\<lambda>f. if \<not> feq f (Fin 0) then Inr False else all_zero xs)"

definition time_unused :: "pyval \<Rightarrow> bool res" where
  "time_unused time =
     rbind (py_float time) (\<lambda>f. Inr (feq f (Fin 0) \<or> feq f (Fin (of_int DR_COND_NONE))))"

definition check_valid_vel_acc_joint :: "pyval \<Rightarrow> pyval \<Rightarrow> pyval \<Rightarrow> unit res" where
  "check_valid_vel_acc_joint vel acc time =
     rbind (time_unused time) (\<lambda>unused.
     if unused then
       rbind (raise_when (rbind (py_items vel) all_zero) DR_ERROR_VALUE) (\<lambda>_.
       raise_when (rbind (py_items acc) all_zero) DR_ERROR_VALUE)
     else Inr ())"

definition task_components_bad :: "pyval \<Rightarrow> unit res" where
  "task_components_bad vel =
     rbind (py_index vel 0) (\<lambda>v0.
     rbind (py_le v0 0) (\<lambda>low.
     if low then Inl (DRError DR_ERROR_VALUE)
     else rbind (py_index vel 1) (\<lambda>v1.
          raise_when (py_and (py_ne v1 DR_COND_NONE) (py_le v1 0)) DR_ERROR_VALUE)))"

definition check_valid_vel_acc_task :: "pyval \<Rightarrow> pyval \<Rightarrow> pyval \<Rightarrow> unit res" where
  "check_valid_vel_acc_task vel acc time =
     rbind (time_unused time) (\<lambda>unused.
     if unused then
       rbind (task_components_bad vel) (\<lambda>_. task_components_bad acc)
     else Inr ())"

section \<open>Normalisation of the common arguments\<close>

text \<open>
  \<open>choose_param dflt n scalar temp\<close>: no argument gives the module default, a number is spread by
  \<open>scalar\<close>, a list of length \<open>n\<close> is taken as it is, anything else is a type error.
\<close>

definition choose_param :: "pyval \<Rightarrow> nat \<Rightarrow> (pyval \<Rightarrow> pyval) \<Rightarrow> pyval \<Rightarrow> pyval res" where
  "choose_param dflt n scalar temp =
     rbind (py_eq_none temp) (\<lambda>missing.
     if missing then Inr dflt
     else if is_int_or_float temp then Inr (scalar temp)
     else if is_list_of_len n temp then Inr temp
     else Inl (DRError DR_ERROR_TYPE))"

text \<open>\<^verbatim>\<open>is_number\<close>, then the loop over the items; \<open>bad\<close> is the condition that raises.\<close>

definition check_items :: "(pyval \<Rightarrow> bool res) \<Rightarrow> pyval \<Rightarrow> unit res" where
  "check_items bad v =
     rbind (check_number v DR_ERROR_VALUE) (\<lambda>_.
     rbind (py_items v) (\<lambda>xs.
     for_each (\<lambda>item. raise_when (bad item) DR_ERROR_VALUE) xs))"

definition negative_item :: "pyval \<Rightarrow> bool res" where
  "negative_item item = py_lt item 0"

definition negative_task_item :: "pyval \<Rightarrow> bool res" where
  "negative_task_item item = py_and (py_lt item 0) (py_ne item DR_COND_NONE)"

text \<open>Joint velocity or acceleration (\<^verbatim>\<open>_vel\<close>, \<^verbatim>\<open>_acc\<close> of \<^verbatim>\<open>_movej\<close>).\<close>

definition joint_param :: "pyval \<Rightarrow> pyval \<Rightarrow> pyval \<Rightarrow> pyval res" where
  "joint_param dflt long short =
     rbind (get_param long short) (\<lambda>temp.
     rbind (choose_param dflt DR_VELJ_DT_LEN (\<lambda>x. PList (replicate DR_VELJ_DT_LEN x)) temp) (\<lambda>v.
     rbind (check_items negative_item v) (\<lambda>_. Inr v)))"

text \<open>Task velocity or acceleration (\<^verbatim>\<open>_movel\<close>): a scalar leaves the second component unset.\<close>

definition task_param :: "pyval \<Rightarrow> pyval \<Rightarrow> pyval \<Rightarrow> pyval res" where
  "task_param dflt long short =
     rbind (get_param long short) (\<lambda>temp.
     rbind (choose_param dflt DR_VELX_DT_LEN (\<lambda>x. PList [x, PInt DR_COND_NONE]) temp) (\<lambda>v.
     rbind (check_items negative_task_item v) (\<lambda>_. Inr v)))"

text \<open>Task velocity or acceleration of \<^verbatim>\<open>_move_spiral\<close>: no exception for the unset component.\<close>

definition spiral_param :: "pyval \<Rightarrow> pyval \<Rightarrow> pyval \<Rightarrow> pyval res" where
  "spiral_param dflt long short =
     rbind (get_param long short) (\<lambda>temp.
     rbind (choose_param dflt DR_VELX_DT_LEN (\<lambda>x. PList (replicate DR_VELX_DT_LEN x)) temp) (\<lambda>v.
     rbind (check_items negative_item v) (\<lambda>_. Inr v)))"

definition time_param :: "pyval \<Rightarrow> pyval \<Rightarrow> pyval res" where
  "time_param time t =
     rbind (get_param time t) (\<lambda>p.
     rbind (py_eq_none p) (\<lambda>missing.
     let tm = (if missing then PFloat (Fin 0) else p) in
     rbind (raise_if (\<not> is_int_or_float tm) DR_ERROR_TYPE) (\<lambda>_.
     rbind (raise_when (py_and (py_lt tm 0) (py_ne tm DR_COND_NONE)) DR_ERROR_VALUE) (\<lambda>_.
     Inr tm))))"

definition radius_param :: "world \<Rightarrow> pyval \<Rightarrow> pyval \<Rightarrow> pyval res" where
  "radius_param w radius r =
     rbind (get_param radius r) (\<lambda>p.
     rbind (py_eq_none p) (\<lambda>missing.
     let rd = (if missing then if g_blend_state w then g_blend_radius w else PFloat (Fin 0)
               else p) in
     rbind (raise_if (\<not> is_int_or_float rd) DR_ERROR_TYPE) (\<lambda>_.
     rbind (raise_when (py_lt rd 0) DR_ERROR_VALUE) (\<lambda>_.
     Inr rd))))"

definition check_two_values :: "int \<Rightarrow> int \<Rightarrow> pyval \<Rightarrow> unit res" where
  "check_two_values a b v =
     rbind (raise_if (\<not> is_int v) DR_ERROR_TYPE) (\<lambda>_.
     raise_when (py_and (py_ne v a) (py_ne v b)) DR_ERROR_VALUE)"

abbreviation check_mod :: "pyval \<Rightarrow> unit res" where
  "check_mod \<equiv> check_two_values DR_MV_MOD_ABS DR_MV_MOD_REL"

abbreviation check_ra :: "pyval \<Rightarrow> unit res" where
  "check_ra \<equiv> check_two_values DR_MV_RA_OVERRIDE DR_MV_RA_DUPLICATE"

text \<open>The reference frame of the motion commands: the module's coordinate when not given.\<close>

definition default_ref :: "pyval \<Rightarrow> pyval \<Rightarrow> pyval res" where
  "default_ref dflt ref = rbind (py_eq_none ref) (\<lambda>missing. Inr (if missing then dflt else ref))"

definition motion_ref :: "world \<Rightarrow> pyval \<Rightarrow> pyval res" where
  "motion_ref w ref =
     rbind (default_ref (g_coord w) ref) (\<lambda>rf.
     rbind (raise_if (\<not> is_int rf) DR_ERROR_TYPE) (\<lambda>_.
     rbind (raise_when (py_or (py_lt rf DR_BASE) (py_gt rf DR_TC_USER_MAX)) DR_ERROR_VALUE) (\<lambda>_.
     Inr rf)))"

text \<open>\<^verbatim>\<open>if 1 == _async: _radius = 0\<close>\<close>

definition async_radius :: "int \<Rightarrow> pyval \<Rightarrow> pyval" where
  "async_radius async rd = (if async = 1 then PInt 0 else rd)"

section \<open>What the blocks establish\<close>

text \<open>An item that the loops let through, and the float it becomes.\<close>

definition item_nonneg :: "pyval \<Rightarrow> bool" where
  "item_nonneg x \<longleftrightarrow> py_lt x 0 = Inr False"

definition item_nonneg_or_none :: "pyval \<Rightarrow> bool" where
  "item_nonneg_or_none x \<longleftrightarrow> negative_task_item x = Inr False"

definition float_nonneg :: "pyfloat \<Rightarrow> bool" where
  "float_nonneg f \<longleftrightarrow> \<not> flt f (Fin 0)"

definition float_nonneg_or_none :: "pyfloat \<Rightarrow> bool" where
  "float_nonneg_or_none f \<longleftrightarrow> float_nonneg f \<or> f = Fin (of_int DR_COND_NONE)"

lemma item_nonneg_float: "item_nonneg x \<Longrightarrow> py_float x = Inr f \<Longrightarrow> float_nonneg f"
  by (simp add: item_nonneg_def float_nonneg_def py_lt_0_float)

lemma item_nonneg_or_none_float:
  assumes "item_nonneg_or_none x" and "py_float x = Inr f"
  shows "float_nonneg_or_none f"
proof (cases "py_lt x 0 = Inr False")
  case True
  then show ?thesis
    using assms(2) by (simp add: float_nonneg_or_none_def float_nonneg_def py_lt_0_float)
next
  case False
  with assms(1) have "py_ne x DR_COND_NONE = Inr False"
    by (auto simp: item_nonneg_or_none_def negative_task_item_def py_and_False_iff)
  from py_eq_float [OF this assms(2)] have "feq f (Fin (of_int DR_COND_NONE))"
    by simp
  then show ?thesis
    by (auto simp: float_nonneg_or_none_def dest: feq_FinD)
qed

text \<open>
  The contract of a normalised list argument, shared by the joint, task and spiral blocks: when
  the block returns, its value is a list of the expected length whose items passed the loop, as
  long as the module default is such a list too; every such list becomes floats in range.
\<close>

definition good_list :: "nat \<Rightarrow> (pyval \<Rightarrow> bool) \<Rightarrow> pyval \<Rightarrow> bool" where
  "good_list n ok v \<longleftrightarrow> (\<exists>xs. v = PList xs \<and> length xs = n \<and> (\<forall>x \<in> set xs. ok x))"

locale list_param =
  fixes param :: "pyval \<Rightarrow> pyval \<Rightarrow> pyval \<Rightarrow> pyval res"
    and len :: nat
    and item_ok :: "pyval \<Rightarrow> bool"
    and float_ok :: "pyfloat \<Rightarrow> bool"
  assumes param_good:
      "param dflt long short = Inr v \<Longrightarrow> good_list len item_ok dflt \<Longrightarrow> good_list len item_ok v"
    and item_float: "item_ok x \<Longrightarrow> py_float x = Inr f \<Longrightarrow> float_ok f"
begin

lemma floats_ok:
  assumes "param dflt long short = Inr v" and "good_list len item_ok dflt"
    and "py_floats v = Inr fs"
  shows "length fs = len \<and> (\<forall>f \<in> set fs. float_ok f)"
proof -
  obtain xs where v: "v = PList xs" "length xs = len" "\<forall>x \<in> set xs. item_ok x"
    using param_good [OF assms(1,2)] by (auto simp: good_list_def)
  with assms(3) have m: "map_res py_float xs = Inr fs"
    by (simp add: py_floats_def)
  show ?thesis
  proof
    show "length fs = len" using m v(2) by (simp add: map_res_length)
    show "\<forall>f \<in> set fs. float_ok f"
      using map_res_set [OF m] v(3) item_float by blast
  qed
qed

lemma index_ok:
  assumes "param dflt long short = Inr v" and "good_list len item_ok dflt"
    and "py_index v i = Inr x" and "py_float x = Inr f"
  shows "float_ok f"
proof -
  obtain xs where "v = PList xs" "\<forall>x \<in> set xs. item_ok x"
    using param_good [OF assms(1,2)] by (auto simp: good_list_def)
  with assms(3) have "item_ok x"
    by (auto simp: py_index_def split: if_splits)
  then show ?thesis using assms(4) by (rule item_float)
qed

end

text \<open>The three blocks meet the contract.\<close>

lemma check_items_Inr:
  "check_items bad v = Inr u \<Longrightarrow> \<exists>xs. py_items v = Inr xs \<and> (\<forall>x \<in> set xs. bad x = Inr False)"
  by (auto simp: check_items_def rbind_Inr_iff for_each_Inr)

lemma choose_param_cases:
  "choose_param dflt n scalar temp = Inr v \<Longrightarrow>
     v = dflt \<or> v = scalar temp \<or> is_list_of_len n v"
  by (auto simp: choose_param_def rbind_Inr_iff split: if_splits)

lemma block_good:
  assumes "choose_param dflt n scalar temp = Inr v" and "check_items bad v = Inr u"
    and "good_list n (\<lambda>x. bad x = Inr False) dflt"
    and "\<And>x. \<exists>ys. scalar x = PList ys \<and> length ys = n"
  shows "good_list n (\<lambda>x. bad x = Inr False) v"
proof -
  have "\<exists>xs. v = PList xs \<and> length xs = n"
    using choose_param_cases [OF assms(1)] assms(3) assms(4) [of temp]
    by (auto simp: good_list_def is_list_of_len_iff)
  then show ?thesis
    using check_items_Inr [OF assms(2)] by (auto simp: good_list_def)
qed

interpretation joint: list_param joint_param DR_VELJ_DT_LEN item_nonneg float_nonneg
proof unfold_locales
  fix dflt long short v
  assume "joint_param dflt long short = Inr v" and "good_list DR_VELJ_DT_LEN item_nonneg dflt"
  then show "good_list DR_VELJ_DT_LEN item_nonneg v"
    unfolding item_nonneg_def negative_item_def [symmetric]
    by (auto simp: joint_param_def rbind_Inr_iff intro: block_good)
qed (rule item_nonneg_float)

interpretation spiral: list_param spiral_param DR_VELX_DT_LEN item_nonneg float_nonneg
proof unfold_locales
  fix dflt long short v
  assume "spiral_param dflt long short = Inr v" and "good_list DR_VELX_DT_LEN item_nonneg dflt"
  then show "good_list DR_VELX_DT_LEN item_nonneg v"
    unfolding item_nonneg_def negative_item_def [symmetric]
    by (auto simp: spiral_param_def rbind_Inr_iff intro: block_good)
qed (rule item_nonneg_float)

interpretation task: list_param task_param DR_VELX_DT_LEN item_nonneg_or_none float_nonneg_or_none
proof unfold_locales
  fix dflt long short v
  assume "task_param dflt long short = Inr v"
    and "good_list DR_VELX_DT_LEN item_nonneg_or_none dflt"
  then show "good_list DR_VELX_DT_LEN item_nonneg_or_none v"
    unfolding item_nonneg_or_none_def
    by (auto simp: task_param_def rbind_Inr_iff intro: block_good)
qed (rule item_nonneg_or_none_float)

end
