(* ===== verification/MoveJoint.thy ===== *)
theory MoveJoint
  imports MotionParams
begin

text \<open>
  The joint-space motion commands of DSR_ROBOT2.py: \<^verbatim>\<open>_movej\<close>, \<^verbatim>\<open>_movejx\<close>, \<^verbatim>\<open>_movesj\<close> with their
  synchronous and asynchronous entry points. \<open>x_request\<close> is the body up to the last assignment
  to the request, \<open>x_impl\<close> the whole function.
\<close>

section \<open>movej\<close>

definition movej_request ::
  "ros \<Rightarrow> pyval \<Rightarrow> pyval \<Rightarrow> pyval \<Rightarrow> pyval \<Rightarrow> pyval \<Rightarrow> pyval \<Rightarrow> pyval \<Rightarrow> pyval \<Rightarrow> pyval \<Rightarrow> pyval \<Rightarrow>
   pyval \<Rightarrow> int \<Rightarrow> world \<Rightarrow> fields res" where
  "movej_request R pos vel acc time radius md ra v a t r async w =
     rbind (get_posj pos) (\<lambda>p.
     rbind (joint_param (g_velj w) vel v) (\<lambda>vl.
     rbind (joint_param (g_accj w) acc a) (\<lambda>ac.
     rbind (time_param time t) (\<lambda>tm.
     rbind (check_valid_vel_acc_joint vl ac tm) (\<lambda>_.
     rbind (radius_param w radius r) (\<lambda>rd.
     rbind (check_mod md) (\<lambda>_.
     rbind (check_ra ra) (\<lambda>_.
     set_fields R ''motion/move_joint''
       [(''pos'', float_list p),
        (''vel'', rbind (py_index vl 0) float_field),
        (''acc'', rbind (py_index ac 0) float_field),
        (''time'', float_field tm),
        (''mode'', int_field md),
        (''radius'', float_field (async_radius async rd)),
        (''blend_type'', int_field ra),
        (''sync_type'', Inr (PInt async))]))))))))"

definition movej_impl ::
  "ros \<Rightarrow> pyval \<Rightarrow> pyval \<Rightarrow> pyval \<Rightarrow> pyval \<Rightarrow> pyval \<Rightarrow> pyval \<Rightarrow> pyval \<Rightarrow> pyval \<Rightarrow> pyval \<Rightarrow> pyval \<Rightarrow>
   pyval \<Rightarrow> int \<Rightarrow> pyval act" where
  "movej_impl R pos vel acc time radius md ra v a t r async =
     service_fun R True ''motion/move_joint''
       (movej_request R pos vel acc time radius md ra v a t r async) None success_code"

definition movej ::
  "ros \<Rightarrow> pyval \<Rightarrow> pyval \<Rightarrow> pyval \<Rightarrow> pyval \<Rightarrow> pyval \<Rightarrow> pyval \<Rightarrow> pyval \<Rightarrow> pyval \<Rightarrow> pyval \<Rightarrow> pyval \<Rightarrow>
   pyval \<Rightarrow> pyval act" where
  "movej R pos vel acc time radius md ra v a t r =
     movej_impl R pos vel acc time radius md ra v a t r 0"

definition amovej ::
  "ros \<Rightarrow> pyval \<Rightarrow> pyval \<Rightarrow> pyval \<Rightarrow> pyval \<Rightarrow> pyval \<Rightarrow> pyval \<Rightarrow> pyval \<Rightarrow> pyval \<Rightarrow> pyval \<Rightarrow> pyval \<Rightarrow>
   pyval \<Rightarrow> pyval act" where
  "amovej R pos vel acc time radius md ra v a t r =
     movej_impl R pos vel acc time radius md ra v a t r 1"

section \<open>movejx\<close>

definition check_sol :: "pyval \<Rightarrow> unit res" where
  "check_sol sol =
     rbind (raise_if (\<not> is_int sol) DR_ERROR_TYPE) (\<lambda>_.
     raise_when (py_or (py_lt sol DR_SOL_MIN) (py_gt sol DR_SOL_MAX)) DR_ERROR_VALUE)"

definition movejx_request ::
  "ros \<Rightarrow> pyval \<Rightarrow> pyval \<Rightarrow> pyval \<Rightarrow> pyval \<Rightarrow> pyval \<Rightarrow> pyval \<Rightarrow> pyval \<Rightarrow> pyval \<Rightarrow> pyval \<Rightarrow> pyval \<Rightarrow>
   pyval \<Rightarrow> pyval \<Rightarrow> pyval \<Rightarrow> int \<Rightarrow> world \<Rightarrow> fields res" where
  "movejx_request R pos vel acc time radius ref md ra sol v a t r async w =
     rbind (get_posx pos) (\<lambda>p.
     rbind (joint_param (g_velj w) vel v) (\<lambda>vl.
     rbind (joint_param (g_accj w) acc a) (\<lambda>ac.
     rbind (time_param time t) (\<lambda>tm.
     rbind (check_valid_vel_acc_joint vl ac tm) (\<lambda>_.
     rbind (radius_param w radius r) (\<lambda>rd.
     rbind (motion_ref w ref) (\<lambda>rf.
     rbind (check_mod md) (\<lambda>_.
     rbind (check_ra ra) (\<lambda>_.
     rbind (check_sol sol) (\<lambda>_.
     set_fields R ''motion/move_jointx''
       [(''pos'', float_list p),
        (''vel'', rbind (py_index vl 0) float_field),
        (''acc'', rbind (py_index ac 0) float_field),
        (''time'', float_field tm),
        (''mode'', int_field md),
        (''ref'', int_field rf),
        (''radius'', float_field (async_radius async rd)),
        (''blend_type'', int_field ra),
        (''sol'', int_field sol),
        (''sync_type'', Inr (PInt async))]))))))))))"

definition movejx_impl ::
  "ros \<Rightarrow> pyval \<Rightarrow> pyval \<Rightarrow> pyval \<Rightarrow> pyval \<Rightarrow> pyval \<Rightarrow> pyval \<Rightarrow> pyval \<Rightarrow> pyval \<Rightarrow> pyval \<Rightarrow> pyval \<Rightarrow>
   pyval \<Rightarrow> pyval \<Rightarrow> pyval \<Rightarrow> int \<Rightarrow> pyval act" where
  "movejx_impl R pos vel acc time radius ref md ra sol v a t r async =
     service_fun R True ''motion/move_jointx''
       (movejx_request R pos vel acc time radius ref md ra sol v a t r async) None success_code"

definition movejx ::
  "ros \<Rightarrow> pyval \<Rightarrow> pyval \<Rightarrow> pyval \<Rightarrow> pyval \<Rightarrow> pyval \<Rightarrow> pyval \<Rightarrow> pyval \<Rightarrow> pyval \<Rightarrow> pyval \<Rightarrow> pyval \<Rightarrow>
   pyval \<Rightarrow> pyval \<Rightarrow> pyval \<Rightarrow> pyval act" where
  "movejx R pos vel acc time radius ref md ra sol v a t r =
     movejx_impl R pos vel acc time radius ref md ra sol v a t r 0"

definition amovejx ::
  "ros \<Rightarrow> pyval \<Rightarrow> pyval \<Rightarrow> pyval \<Rightarrow> pyval \<Rightarrow> pyval \<Rightarrow> pyval \<Rightarrow> pyval \<Rightarrow> pyval \<Rightarrow> pyval \<Rightarrow> pyval \<Rightarrow>
   pyval \<Rightarrow> pyval \<Rightarrow> pyval \<Rightarrow> pyval act" where
  "amovejx R pos vel acc time radius ref md ra sol v a t r =
     movejx_impl R pos vel acc time radius ref md ra sol v a t r 1"

section \<open>movesj\<close>

text \<open>\<^verbatim>\<open>_ros_listToFloat64MultiArray\<close>\<close>

definition list_to_multiarray :: "pyval list \<Rightarrow> pyval res" where
  "list_to_multiarray xs =
     rbind (map_res (\<lambda>i. rbind (py_floats i) (\<lambda>fs. Inr (PMultiArray (map PFloat fs)))) xs) (\<lambda>ms.
     Inr (PList ms))"

text \<open>\<^verbatim>\<open>pos_list\<close> is a list, and every item has exactly the class \<open>ty\<close>.\<close>

definition check_pos_list :: "pytype \<Rightarrow> pyval \<Rightarrow> pyval list res" where
  "check_pos_list ty pos_list =
     rbind (raise_if (py_type pos_list \<noteq> TList) DR_ERROR_TYPE) (\<lambda>_.
     rbind (py_items pos_list) (\<lambda>xs.
     rbind (for_each (\<lambda>item. raise_if (py_type item \<noteq> ty) DR_ERROR_TYPE) xs) (\<lambda>_.
     Inr xs)))"

definition movesj_request ::
  "ros \<Rightarrow> pyval \<Rightarrow> pyval \<Rightarrow> pyval \<Rightarrow> pyval \<Rightarrow> pyval \<Rightarrow> pyval \<Rightarrow> pyval \<Rightarrow> pyval \<Rightarrow> int \<Rightarrow> world \<Rightarrow>
   fields res" where
  "movesj_request R pos_list vel acc time md v a t async w =
     rbind (check_pos_list TPosj pos_list) (\<lambda>ps.
     rbind (joint_param (g_velj w) vel v) (\<lambda>vl.
     rbind (joint_param (g_accj w) acc a) (\<lambda>ac.
     rbind (time_param time t) (\<lambda>tm.
     rbind (check_valid_vel_acc_joint vl ac tm) (\<lambda>_.
     rbind (check_mod md) (\<lambda>_.
     set_fields R ''motion/move_spline_joint''
       [(''pos'', list_to_multiarray ps),
        (''pos_cnt'', Inr (PInt (int (length ps)))),
        (''vel'', float_list vl),
        (''acc'', float_list ac),
        (''time'', float_field tm),
        (''mode'', int_field md),
        (''sync_type'', Inr (PInt async))]))))))"

definition movesj_impl ::
  "ros \<Rightarrow> pyval \<Rightarrow> pyval \<Rightarrow> pyval \<Rightarrow> pyval \<Rightarrow> pyval \<Rightarrow> pyval \<Rightarrow> pyval \<Rightarrow> pyval \<Rightarrow> int \<Rightarrow> pyval act" where
  "movesj_impl R pos_list vel acc time md v a t async =
     service_fun R False ''motion/move_spline_joint''
       (movesj_request R pos_list vel acc time md v a t async) None success_code"

definition movesj ::
  "ros \<Rightarrow> pyval \<Rightarrow> pyval \<Rightarrow> pyval \<Rightarrow> pyval \<Rightarrow> pyval \<Rightarrow> pyval \<Rightarrow> pyval \<Rightarrow> pyval \<Rightarrow> pyval act" where
  "movesj R pos_list vel acc time md v a t = movesj_impl R pos_list vel acc time md v a t 0"

definition amovesj ::
  "ros \<Rightarrow> pyval \<Rightarrow> pyval \<Rightarrow> pyval \<Rightarrow> pyval \<Rightarrow> pyval \<Rightarrow> pyval \<Rightarrow> pyval \<Rightarrow> pyval \<Rightarrow> pyval act" where
  "amovesj R pos_list vel acc time md v a t = movesj_impl R pos_list vel acc time md v a t 1"

end
