(* ===== verification/MoveTask.thy ===== *)
theory MoveTask
  imports MoveJoint
begin

text \<open>
  The task-space motion commands of DSR_ROBOT2.py: \<^verbatim>\<open>_movel\<close>, \<^verbatim>\<open>_movec\<close>, \<^verbatim>\<open>_movesx\<close>, \<^verbatim>\<open>_moveb\<close>,
  \<^verbatim>\<open>_move_spiral\<close> and \<^verbatim>\<open>_move_periodic\<close> with their entry points.
\<close>

section \<open>movel\<close>

definition movel_request ::
  "ros \<Rightarrow> pyval \<Rightarrow> pyval \<Rightarrow> pyval \<Rightarrow> pyval \<Rightarrow> pyval \<Rightarrow> pyval \<Rightarrow> pyval \<Rightarrow> pyval \<Rightarrow> pyval \<Rightarrow> pyval \<Rightarrow>
   pyval \<Rightarrow> pyval \<Rightarrow> int \<Rightarrow> world \<Rightarrow> fields res" where
  "movel_request R pos vel acc time radius ref md ra v a t r async w =
     rbind (get_normal_pos pos (Some TPosx)) (\<lambda>p.
     rbind (task_param (g_velx w) vel v) (\<lambda>vl.
     rbind (task_param (g_accx w) acc a) (\<lambda>ac.
     rbind (time_param time t) (\<lambda>tm.
     rbind (check_valid_vel_acc_task vl ac tm) (\<lambda>_.
     rbind (radius_param w radius r) (\<lambda>rd.
     rbind (motion_ref w ref) (\<lambda>rf.
     rbind (check_mod md) (\<lambda>_.
     rbind (check_ra ra) (\<lambda>_.
     set_fields R ''motion/move_line''
       [(''pos'', float_list p),
        (''vel'', float_list vl),
        (''acc'', float_list ac),
        (''time'', float_field tm),
        (''radius'', float_field (async_radius async rd)),
        (''ref'', int_field rf),
        (''mode'', int_field md),
        (''blend_type'', int_field ra),
        (''sync_type'', Inr (PInt async))])))))))))"

definition movel_impl ::
  "ros \<Rightarrow> pyval \<Rightarrow> pyval \<Rightarrow> pyval \<Rightarrow> pyval \<Rightarrow> pyval \<Rightarrow> pyval \<Rightarrow> pyval \<Rightarrow> pyval \<Rightarrow> pyval \<Rightarrow> pyval \<Rightarrow>
   pyval \<Rightarrow> pyval \<Rightarrow> int \<Rightarrow> pyval act" where
  "movel_impl R pos vel acc time radius ref md ra v a t r async =
     service_fun R True ''motion/move_line''
       (movel_request R pos vel acc time radius ref md ra v a t r async) None success_code"

definition movel ::
  "ros \<Rightarrow> pyval \<Rightarrow> pyval \<Rightarrow> pyval \<Rightarrow> pyval \<Rightarrow> pyval \<Rightarrow> pyval \<Rightarrow> pyval \<Rightarrow> pyval \<Rightarrow> pyval \<Rightarrow> pyval \<Rightarrow>
   pyval \<Rightarrow> pyval \<Rightarrow> pyval act" where
  "movel R pos vel acc time radius ref md ra v a t r =
     movel_impl R pos vel acc time radius ref md ra v a t r 0"

definition amovel ::
  "ros \<Rightarrow> pyval \<Rightarrow> pyval \<Rightarrow> pyval \<Rightarrow> pyval \<Rightarrow> pyval \<Rightarrow> pyval \<Rightarrow> pyval \<Rightarrow> pyval \<Rightarrow> pyval \<Rightarrow> pyval \<Rightarrow>
   pyval \<Rightarrow> pyval \<Rightarrow> pyval act" where
  "amovel R pos vel acc time radius ref md ra v a t r =
     movel_impl R pos vel acc time radius ref md ra v a t r 1"

section \<open>movec\<close>

definition angle_param :: "pyval \<Rightarrow> pyval \<Rightarrow> pyval res" where
  "angle_param angle an =
     rbind (get_param angle an) (\<lambda>temp.
     rbind (choose_param (PList [PInt 0, PInt 0]) 2 (\<lambda>x. PList [x, PInt 0]) temp) (\<lambda>v.
     rbind (check_items negative_item v) (\<lambda>_. Inr v)))"

definition movec_request ::
  "ros \<Rightarrow> pyval \<Rightarrow> pyval \<Rightarrow> pyval \<Rightarrow> pyval \<Rightarrow> pyval \<Rightarrow> pyval \<Rightarrow> pyval \<Rightarrow> pyval \<Rightarrow> pyval \<Rightarrow> pyval \<Rightarrow>
   pyval \<Rightarrow> pyval \<Rightarrow> pyval \<Rightarrow> pyval \<Rightarrow> pyval \<Rightarrow> int \<Rightarrow> world \<Rightarrow> fields res" where
  "movec_request R pos1 pos2 vel acc time radius ref md angle ra v a t r an async w =
     rbind (get_normal_pos pos1 (Some TPosx)) (\<lambda>p1.
     rbind (get_normal_pos pos2 (Some TPosx)) (\<lambda>p2.
     rbind (raise_if (py_type p1 \<noteq> py_type p2) DR_ERROR_TYPE) (\<lambda>_.
     rbind (task_param (g_velx w) vel v) (\<lambda>vl.
     rbind (task_param (g_accx w) acc a) (\<lambda>ac.
     rbind (time_param time t) (\<lambda>tm.
     rbind (check_valid_vel_acc_task vl ac tm) (\<lambda>_.
     rbind (radius_param w radius r) (\<lambda>rd.
     rbind (motion_ref w ref) (\<lambda>rf.
     rbind (check_mod md) (\<lambda>_.
     rbind (angle_param angle an) (\<lambda>ang.
     rbind (check_ra ra) (\<lambda>_.
     set_fields R ''motion/move_circle''
       [(''pos'', list_to_multiarray [p1, p2]),
        (''vel'', float_list vl),
        (''acc'', float_list ac),
        (''time'', float_field tm),
        (''radius'', float_field (async_radius async rd)),
        (''ref'', int_field rf),
        (''mode'', int_field md),
        (''angle1'', rbind (py_index ang 0) float_field),
        (''angle2'', rbind (py_index ang 1) float_field),
        (''blend_type'', int_field ra),
        (''sync_type'', Inr (PInt async))]))))))))))))"

definition movec_impl ::
  "ros \<Rightarrow> pyval \<Rightarrow> pyval \<Rightarrow> pyval \<Rightarrow> pyval \<Rightarrow> pyval \<Rightarrow> pyval \<Rightarrow> pyval \<Rightarrow> pyval \<Rightarrow> pyval \<Rightarrow> pyval \<Rightarrow>
   pyval \<Rightarrow> pyval \<Rightarrow> pyval \<Rightarrow> pyval \<Rightarrow> pyval \<Rightarrow> int \<Rightarrow> pyval act" where
  "movec_impl R pos1 pos2 vel acc time radius ref md angle ra v a t r an async =
     service_fun R True ''motion/move_circle''
       (movec_request R pos1 pos2 vel acc time radius ref md angle ra v a t r an async)
       None success_code"

definition movec ::
  "ros \<Rightarrow> pyval \<Rightarrow> pyval \<Rightarrow> pyval \<Rightarrow> pyval \<Rightarrow> pyval \<Rightarrow> pyval \<Rightarrow> pyval \<Rightarrow> pyval \<Rightarrow> pyval \<Rightarrow> pyval \<Rightarrow>
   pyval \<Rightarrow> pyval \<Rightarrow> pyval \<Rightarrow> pyval \<Rightarrow> pyval \<Rightarrow> pyval act" where
  "movec R pos1 pos2 vel acc time radius ref md angle ra v a t r an =
     movec_impl R pos1 pos2 vel acc time radius ref md angle ra v a t r an 0"

definition amovec ::
  "ros \<Rightarrow> pyval \<Rightarrow> pyval \<Rightarrow> pyval \<Rightarrow> pyval \<Rightarrow> pyval \<Rightarrow> pyval \<Rightarrow> pyval \<Rightarrow> pyval \<Rightarrow> pyval \<Rightarrow> pyval \<Rightarrow>
   pyval \<Rightarrow> pyval \<Rightarrow> pyval \<Rightarrow> pyval \<Rightarrow> pyval \<Rightarrow> pyval act" where
  "amovec R pos1 pos2 vel acc time radius ref md angle ra v a t r an =
     movec_impl R pos1 pos2 vel acc time radius ref md angle ra v a t r an 1"

section \<open>movesx\<close>

definition movesx_request ::
  "ros \<Rightarrow> pyval \<Rightarrow> pyval \<Rightarrow> pyval \<Rightarrow> pyval \<Rightarrow> pyval \<Rightarrow> pyval \<Rightarrow> pyval \<Rightarrow> pyval \<Rightarrow> pyval \<Rightarrow> pyval \<Rightarrow>
   int \<Rightarrow> world \<Rightarrow> fields res" where
  "movesx_request R pos_list vel acc time ref md vel_opt v a t async w =
     rbind (check_pos_list TPosx pos_list) (\<lambda>ps.
     rbind (task_param (g_velx w) vel v) (\<lambda>vl.
     rbind (task_param (g_accx w) acc a) (\<lambda>ac.
     rbind (time_param time t) (\<lambda>tm.
     rbind (check_valid_vel_acc_task vl ac tm) (\<lambda>_.
     rbind (motion_ref w ref) (\<lambda>rf.
     rbind (check_mod md) (\<lambda>_.
     rbind (check_two_values DR_MVS_VEL_NONE DR_MVS_VEL_CONST vel_opt) (\<lambda>_.
     set_fields R ''motion/move_spline_task''
       [(''pos'', list_to_multiarray ps),
        (''pos_cnt'', Inr (PInt (int (length ps)))),
        (''vel'', float_list vl),
        (''acc'', float_list ac),
        (''time'', float_field tm),
        (''ref'', int_field rf),
        (''mode'', int_field md),
        (''opt'', int_field vel_opt),
        (''sync_type'', Inr (PInt async))]))))))))"

definition movesx_impl ::
  "ros \<Rightarrow> pyval \<Rightarrow> pyval \<Rightarrow> pyval \<Rightarrow> pyval \<Rightarrow> pyval \<Rightarrow> pyval \<Rightarrow> pyval \<Rightarrow> pyval \<Rightarrow> pyval \<Rightarrow> pyval \<Rightarrow>
   int \<Rightarrow> pyval act" where
  "movesx_impl R pos_list vel acc time ref md vel_opt v a t async =
     service_fun R False ''motion/move_spline_task''
       (movesx_request R pos_list vel acc time ref md vel_opt v a t async) None success_code"

definition movesx ::
  "ros \<Rightarrow> pyval \<Rightarrow> pyval \<Rightarrow> pyval \<Rightarrow> pyval \<Rightarrow> pyval \<Rightarrow> pyval \<Rightarrow> pyval \<Rightarrow> pyval \<Rightarrow> pyval \<Rightarrow> pyval \<Rightarrow>
   pyval act" where
  "movesx R pos_list vel acc time ref md vel_opt v a t =
     movesx_impl R pos_list vel acc time ref md vel_opt v a t 0"

definition amovesx ::
  "ros \<Rightarrow> pyval \<Rightarrow> pyval \<Rightarrow> pyval \<Rightarrow> pyval \<Rightarrow> pyval \<Rightarrow> pyval \<Rightarrow> pyval \<Rightarrow> pyval \<Rightarrow> pyval \<Rightarrow> pyval \<Rightarrow>
   pyval act" where
  "amovesx R pos_list vel acc time ref md vel_opt v a t =
     movesx_impl R pos_list vel acc time ref md vel_opt v a t 1"

section \<open>moveb\<close>

text \<open>
  \<^verbatim>\<open>xs + ys\<close> where the operands are lists, which the constructor of \<^verbatim>\<open>posb\<close> makes sure of.
\<close>

definition list_concat :: "pyval \<Rightarrow> pyval \<Rightarrow> pyval res" where
  "list_concat x y =
     (if isinstance_list x \<and> isinstance_list y then
        rbind (py_items x) (\<lambda>xs. rbind (py_items y) (\<lambda>ys. Inr (PList (xs @ ys))))
      else Inl TypeError)"

text \<open>
  One segment, the four fields in the order of \<^verbatim>\<open>to_list\<close>: \<^verbatim>\<open>None\<close> becomes six zeros, then
  pos1 + pos2 + [type] + [radius].
\<close>

definition fill_none :: "pyval \<Rightarrow> pyval res" where
  "fill_none e = rbind (py_eq_none e) (\<lambda>missing.
     Inr (if missing then PList (replicate POINT_COUNT (PFloat (Fin 0))) else e))"

definition ros_segment :: "pyval list \<Rightarrow> pyval res" where
  "ros_segment seg =
     rbind (map_res fill_none seg) (\<lambda>es.
     rbind (list_concat (es ! 1) (es ! 2)) (\<lambda>ps.
     rbind (list_concat ps (PList [es ! 0])) (\<lambda>pt.
     list_concat pt (PList [es ! 3]))))"

definition moveb_segments :: "pyval \<Rightarrow> pyval list res" where
  "moveb_segments seg_list =
     rbind (raise_if (py_type seg_list \<noteq> TList) DR_ERROR_TYPE) (\<lambda>_.
     rbind (py_items seg_list) (\<lambda>segs.
     rbind (raise_if (segs = []) DR_ERROR_VALUE) (\<lambda>_.
     rbind (map_res posb_to_list segs) (\<lambda>ls.
     map_res ros_segment ls))))"

text \<open>Unlike the other commands, \<^verbatim>\<open>_moveb\<close> does not check the type or the sign of its time.\<close>

definition moveb_time :: "pyval \<Rightarrow> pyval \<Rightarrow> pyval res" where
  "moveb_time time t =
     rbind (get_param time t) (\<lambda>p.
     rbind (py_eq_none p) (\<lambda>missing. Inr (if missing then PFloat (Fin 0) else p)))"

definition moveb_request ::
  "ros \<Rightarrow> pyval \<Rightarrow> pyval \<Rightarrow> pyval \<Rightarrow> pyval \<Rightarrow> pyval \<Rightarrow> pyval \<Rightarrow> pyval \<Rightarrow> pyval \<Rightarrow> pyval \<Rightarrow> int \<Rightarrow>
   world \<Rightarrow> fields res" where
  "moveb_request R seg_list vel acc ref time md v a t async w =
     rbind (moveb_segments seg_list) (\<lambda>segs.
     rbind (task_param (g_velx w) vel v) (\<lambda>vl.
     rbind (task_param (g_accx w) acc a) (\<lambda>ac.
     rbind (moveb_time time t) (\<lambda>tm.
     rbind (check_valid_vel_acc_task vl ac tm) (\<lambda>_.
     rbind (motion_ref w ref) (\<lambda>rf.
     rbind (check_mod md) (\<lambda>_.
     set_fields R ''motion/move_blending''
       [(''segment'', list_to_multiarray segs),
        (''pos_cnt'', Inr (PInt (int (length segs)))),
        (''vel'', float_list vl),
        (''acc'', float_list ac),
        (''time'', float_field tm),
        (''ref'', int_field rf),
        (''mode'', int_field md),
        (''sync_type'', Inr (PInt async))])))))))"

definition moveb_impl ::
  "ros \<Rightarrow> pyval \<Rightarrow> pyval \<Rightarrow> pyval \<Rightarrow> pyval \<Rightarrow> pyval \<Rightarrow> pyval \<Rightarrow> pyval \<Rightarrow> pyval \<Rightarrow> pyval \<Rightarrow> int \<Rightarrow>
   pyval act" where
  "moveb_impl R seg_list vel acc ref time md v a t async =
     service_fun R False ''motion/move_blending''
       (moveb_request R seg_list vel acc ref time md v a t async) None success_code"

definition moveb ::
  "ros \<Rightarrow> pyval \<Rightarrow> pyval \<Rightarrow> pyval \<Rightarrow> pyval \<Rightarrow> pyval \<Rightarrow> pyval \<Rightarrow> pyval \<Rightarrow> pyval \<Rightarrow> pyval \<Rightarrow>
   pyval act" where
  "moveb R seg_list vel acc ref time md v a t = moveb_impl R seg_list vel acc ref time md v a t 0"

definition amoveb ::
  "ros \<Rightarrow> pyval \<Rightarrow> pyval \<Rightarrow> pyval \<Rightarrow> pyval \<Rightarrow> pyval \<Rightarrow> pyval \<Rightarrow> pyval \<Rightarrow> pyval \<Rightarrow> pyval \<Rightarrow>
   pyval act" where
  "amoveb R seg_list vel acc ref time md v a t = moveb_impl R seg_list vel acc ref time md v a t 1"

section \<open>move_spiral\<close>

definition check_num :: "pyval \<Rightarrow> unit res" where
  "check_num x = raise_if (\<not> is_int_or_float x) DR_ERROR_TYPE"

definition check_positive :: "pyval \<Rightarrow> unit res" where
  "check_positive x = rbind (check_num x) (\<lambda>_. raise_when (py_le x 0) DR_ERROR_VALUE)"

definition spiral_request ::
  "ros \<Rightarrow> pyval \<Rightarrow> pyval \<Rightarrow> pyval \<Rightarrow> pyval \<Rightarrow> pyval \<Rightarrow> pyval \<Rightarrow> pyval \<Rightarrow> pyval \<Rightarrow> pyval \<Rightarrow> pyval \<Rightarrow>
   pyval \<Rightarrow> int \<Rightarrow> world \<Rightarrow> fields res" where
  "spiral_request R rev_n rmax lmax vel acc time axis ref v a t async w =
     rbind (check_positive rev_n) (\<lambda>_.
     rbind (check_positive rmax) (\<lambda>_.
     rbind (check_num lmax) (\<lambda>_.
     rbind (spiral_param (g_velx w) vel v) (\<lambda>vl.
     rbind (spiral_param (g_accx w) acc a) (\<lambda>ac.
     rbind (time_param time t) (\<lambda>tm.
     rbind (check_valid_vel_acc_joint vl ac tm) (\<lambda>_.
     rbind (raise_if (\<not> is_int axis) DR_ERROR_TYPE) (\<lambda>_.
     rbind (raise_when (py_and (py_ne axis DR_AXIS_X) (py_and (py_ne axis DR_AXIS_Y)
              (py_ne axis DR_AXIS_Z))) DR_ERROR_VALUE) (\<lambda>_.
     rbind (raise_if (\<not> is_int ref) DR_ERROR_TYPE) (\<lambda>_.
     rbind (raise_when (py_and (py_ne ref DR_BASE) (py_and (py_ne ref DR_TOOL)
              (py_or (py_lt ref DR_TC_USER_MIN) (py_gt ref DR_TC_USER_MAX)))) DR_ERROR_VALUE) (\<lambda>_.
     set_fields R ''motion/move_spiral''
       [(''revolution'', float_field rev_n),
        (''max_radius'', float_field rmax),
        (''max_length'', float_field lmax),
        (''vel'', float_list vl),
        (''acc'', float_list ac),
        (''time'', float_field tm),
        (''task_axis'', int_field axis),
        (''ref'', int_field ref),
        (''sync_type'', Inr (PInt async))])))))))))))"

definition move_spiral_impl ::
  "ros \<Rightarrow> pyval \<Rightarrow> pyval \<Rightarrow> pyval \<Rightarrow> pyval \<Rightarrow> pyval \<Rightarrow> pyval \<Rightarrow> pyval \<Rightarrow> pyval \<Rightarrow> pyval \<Rightarrow> pyval \<Rightarrow>
   pyval \<Rightarrow> int \<Rightarrow> pyval act" where
  "move_spiral_impl R rev_n rmax lmax vel acc time axis ref v a t async =
     service_fun R True ''motion/move_spiral''
       (spiral_request R rev_n rmax lmax vel acc time axis ref v a t async) None success_code"

definition move_spiral ::
  "ros \<Rightarrow> pyval \<Rightarrow> pyval \<Rightarrow> pyval \<Rightarrow> pyval \<Rightarrow> pyval \<Rightarrow> pyval \<Rightarrow> pyval \<Rightarrow> pyval \<Rightarrow> pyval \<Rightarrow> pyval \<Rightarrow>
   pyval \<Rightarrow> pyval act" where
  "move_spiral R rev_n rmax lmax vel acc time axis ref v a t =
     move_spiral_impl R rev_n rmax lmax vel acc time axis ref v a t 0"

definition amove_spiral ::
  "ros \<Rightarrow> pyval \<Rightarrow> pyval \<Rightarrow> pyval \<Rightarrow> pyval \<Rightarrow> pyval \<Rightarrow> pyval \<Rightarrow> pyval \<Rightarrow> pyval \<Rightarrow> pyval \<Rightarrow> pyval \<Rightarrow>
   pyval \<Rightarrow> pyval act" where
  "amove_spiral R rev_n rmax lmax vel acc time axis ref v a t =
     move_spiral_impl R rev_n rmax lmax vel acc time axis ref v a t 1"

section \<open>move_periodic\<close>

definition period_param :: "pyval \<Rightarrow> pyval res" where
  "period_param period =
     rbind (raise_if (\<not> (is_int_or_float period \<or> py_type period = TList)) DR_ERROR_TYPE) (\<lambda>_.
     if is_int_or_float period then Inr (PList (replicate POINT_COUNT period))
     else rbind (py_len period) (\<lambda>n.
          rbind (raise_if (n \<noteq> POINT_COUNT) DR_ERROR_VALUE) (\<lambda>_. Inr period)))"

text \<open>\<^verbatim>\<open>atime\<close> and \<^verbatim>\<open>repeat\<close>: a default when not given, otherwise a number that is not negative.\<close>

definition nonneg_or_default :: "pyval \<Rightarrow> pyval \<Rightarrow> pyval res" where
  "nonneg_or_default dflt x =
     rbind (py_eq_none x) (\<lambda>missing.
     if missing then Inr dflt
     else rbind (check_num x) (\<lambda>_.
          rbind (raise_when (py_lt x 0) DR_ERROR_VALUE) (\<lambda>_. Inr x)))"

definition periodic_ref :: "pyval \<Rightarrow> pyval res" where
  "periodic_ref ref =
     rbind (py_eq_none ref) (\<lambda>missing.
     if missing then Inr (PInt DR_TOOL)
     else rbind (raise_if (\<not> is_int ref) DR_ERROR_TYPE) (\<lambda>_.
          rbind (raise_when (py_or (py_lt ref DR_BASE) (py_gt ref DR_TC_USER_MAX))
                   DR_ERROR_VALUE) (\<lambda>_. Inr ref)))"

definition periodic_request ::
  "ros \<Rightarrow> pyval \<Rightarrow> pyval \<Rightarrow> pyval \<Rightarrow> pyval \<Rightarrow> pyval \<Rightarrow> int \<Rightarrow> world \<Rightarrow> fields res" where
  "periodic_request R amp period atime repeat ref async w =
     rbind (raise_if (py_type amp \<noteq> TList) DR_ERROR_TYPE) (\<lambda>_.
     rbind (py_len amp) (\<lambda>n.
     rbind (raise_if (n \<noteq> POINT_COUNT) DR_ERROR_VALUE) (\<lambda>_.
     rbind (period_param period) (\<lambda>per.
     rbind (nonneg_or_default (PFloat (Fin 0)) atime) (\<lambda>atm.
     rbind (nonneg_or_default (PInt 1) repeat) (\<lambda>rep.
     rbind (periodic_ref ref) (\<lambda>rf.
     set_fields R ''motion/move_periodic''
       [(''amp'', float_list amp),
        (''periodic'', float_list per),
        (''acc'', float_field atm),
        (''repeat'', int_field rep),
        (''ref'', int_field rf),
        (''sync_type'', Inr (PInt async))])))))))"

definition move_periodic_impl ::
  "ros \<Rightarrow> pyval \<Rightarrow> pyval \<Rightarrow> pyval \<Rightarrow> pyval \<Rightarrow> pyval \<Rightarrow> int \<Rightarrow> pyval act" where
  "move_periodic_impl R amp period atime repeat ref async =
     service_fun R True ''motion/move_periodic''
       (periodic_request R amp period atime repeat ref async) None success_code"

definition move_periodic ::
  "ros \<Rightarrow> pyval \<Rightarrow> pyval \<Rightarrow> pyval \<Rightarrow> pyval \<Rightarrow> pyval \<Rightarrow> pyval act" where
  "move_periodic R amp period atime repeat ref = move_periodic_impl R amp period atime repeat ref 0"

definition amove_periodic ::
  "ros \<Rightarrow> pyval \<Rightarrow> pyval \<Rightarrow> pyval \<Rightarrow> pyval \<Rightarrow> pyval \<Rightarrow> pyval act" where
  "amove_periodic R amp period atime repeat ref = move_periodic_impl R amp period atime repeat ref 1"

end
