(* ===== verification/MotionAux.thy ===== *)
theory MotionAux
  imports MoveTask
begin

text \<open>
  The remaining motion functions of DSR_ROBOT2.py: pose arithmetic and kinematics (\<^verbatim>\<open>trans\<close>,
  \<^verbatim>\<open>fkin\<close>, \<^verbatim>\<open>ikin\<close>), the reference coordinate, homing, waiting, speed override, alter motion,
  singularity handling and jogging.
\<close>

section \<open>Reference frames\<close>

text \<open>\<^verbatim>\<open>fkin\<close>, \<^verbatim>\<open>ikin\<close> and the task-space getters: base or world only, no check of the type.\<close>

definition base_world_ref :: "pyval \<Rightarrow> pyval res" where
  "base_world_ref ref =
     rbind (py_eq_none ref) (\<lambda>missing.
     if missing then Inr (PInt DR_BASE)
     else rbind (raise_when (py_and (py_ne ref DR_BASE) (py_ne ref DR_WORLD)) DR_ERROR_VALUE) (\<lambda>_.
          Inr ref))"

definition outside_user_coords :: "pyval \<Rightarrow> bool res" where
  "outside_user_coords c = py_or (py_lt c DR_TC_USER_MIN) (py_gt c DR_TC_USER_MAX)"

text \<open>An \<^verbatim>\<open>int\<close> that is base, tool, world or a user coordinate.\<close>

definition check_coord :: "pyval \<Rightarrow> unit res" where
  "check_coord c =
     rbind (raise_if (\<not> is_int c) DR_ERROR_TYPE) (\<lambda>_.
     raise_when (py_and (py_ne c DR_BASE) (py_and (py_ne c DR_TOOL) (py_and (py_ne c DR_WORLD)
       (outside_user_coords c)))) DR_ERROR_VALUE)"

text \<open>The same without the tool frame.\<close>

definition check_coord_no_tool :: "pyval \<Rightarrow> unit res" where
  "check_coord_no_tool c =
     rbind (raise_if (\<not> is_int c) DR_ERROR_TYPE) (\<lambda>_.
     raise_when (py_and (py_ne c DR_BASE) (py_and (py_ne c DR_WORLD) (outside_user_coords c)))
       DR_ERROR_VALUE)"

section \<open>Pose arithmetic and kinematics\<close>

definition trans_pose :: "ros \<Rightarrow> pyval \<Rightarrow> pyval \<Rightarrow> pyval \<Rightarrow> pyval \<Rightarrow> pyval act" where
  "trans_pose R pos delta ref ref_out =
     service_fun R False ''motion/trans'' (\<lambda>w.
       rbind (get_posx pos) (\<lambda>p.
       rbind (get_posx delta) (\<lambda>d.
       rbind (default_ref (g_coord w) ref) (\<lambda>rf.
       rbind (check_coord rf) (\<lambda>_.
       rbind (check_coord_no_tool ref_out) (\<lambda>_.
       set_fields R ''motion/trans''
         [(''pos'', float_list p), (''delta'', float_list d), (''ref'', Inr rf),
          (''ref_out'', Inr ref_out)]))))))
       None (field_value ''trans_pos'' Inr)"

definition fkin :: "ros \<Rightarrow> pyval \<Rightarrow> pyval \<Rightarrow> pyval act" where
  "fkin R pos ref =
     service_fun R False ''motion/fkin'' (\<lambda>w.
       rbind (get_posj pos) (\<lambda>p.
       rbind (base_world_ref ref) (\<lambda>rf.
       set_fields R ''motion/fkin'' [(''pos'', float_list p), (''ref'', Inr rf)])))
       None (field_value ''conv_posx'' Inr)"

definition ikin :: "ros \<Rightarrow> pyval \<Rightarrow> pyval \<Rightarrow> pyval \<Rightarrow> pyval act" where
  "ikin R pos sol_space ref =
     service_fun R False ''motion/ikin'' (\<lambda>w.
       rbind (get_posx pos) (\<lambda>p.
       rbind (base_world_ref ref) (\<lambda>rf.
       rbind (check_sol sol_space) (\<lambda>_.
       set_fields R ''motion/ikin''
         [(''pos'', float_list p), (''sol_space'', Inr sol_space), (''ref'', Inr rf)]))))
       None (field_value ''conv_posj'' Inr)"

section \<open>The reference coordinate\<close>

text \<open>The global is assigned after the call, whatever the call's result was.\<close>

definition set_ref_coord :: "ros \<Rightarrow> pyval \<Rightarrow> pyval act" where
  "set_ref_coord R coord =
     abind (with_globals (\<lambda>w.
       rbind (check_coord coord) (\<lambda>_.
       set_fields R ''motion/set_ref_coord'' [(''coord'', Inr coord)]))) (\<lambda>fs.
     abind (call_service R ''motion/set_ref_coord'' fs None success_code) (\<lambda>ret.
     abind (update_world (\<lambda>w. w\<lparr>g_coord := coord\<rparr>)) (\<lambda>_.
     return_ret ret)))"

section \<open>Homing, waiting, speed\<close>

definition move_home :: "ros \<Rightarrow> pyval \<Rightarrow> pyval act" where
  "move_home R target =
     service_fun R False ''motion/move_home'' (\<lambda>w.
       rbind (default_ref (PInt 0) target) (\<lambda>tg.
       set_fields R ''motion/move_home'' [(''target'', Inr tg)]))
       None success_code"

definition move_wait :: "ros \<Rightarrow> pyval \<Rightarrow> pyval act" where
  "move_wait R time =
     service_fun R False ''motion/move_wait'' (\<lambda>w.
       rbind (check_num time) (\<lambda>_.
       rbind (raise_when (py_lt time 0) DR_ERROR_VALUE) (\<lambda>_.
       set_fields R ''motion/move_wait'' [])))
       None success_code"

definition mwait :: "ros \<Rightarrow> pyval \<Rightarrow> pyval act" where
  "mwait R time = move_wait R time"

definition check_motion :: "ros \<Rightarrow> pyval act" where
  "check_motion R =
     service_fun R False ''motion/check_motion'' (\<lambda>w. set_fields R ''motion/check_motion'' [])
       None (field_value ''status'' Inr)"

definition change_operation_speed :: "ros \<Rightarrow> pyval \<Rightarrow> pyval act" where
  "change_operation_speed R speed =
     service_fun R False ''motion/change_operation_speed'' (\<lambda>w.
       rbind (raise_if (\<not> is_int speed) DR_ERROR_TYPE) (\<lambda>_.
       rbind (raise_when (py_or (py_lt speed 1) (py_gt speed 100)) DR_ERROR_VALUE) (\<lambda>_.
       set_fields R ''motion/change_operation_speed'' [(''speed'', Inr speed)])))
       None success_code"

section \<open>Alter motion\<close>

definition enable_alter_motion ::
  "ros \<Rightarrow> pyval \<Rightarrow> pyval \<Rightarrow> pyval \<Rightarrow> pyval \<Rightarrow> pyval \<Rightarrow> pyval act" where
  "enable_alter_motion R n mode ref limit_dPOS limit_dPOS_per =
     service_fun R False ''motion/enable_alter_motion'' (\<lambda>w.
       rbind (raise_if (\<not> is_int n) DR_ERROR_TYPE) (\<lambda>_.
       rbind (raise_when (py_lt n 0) DR_ERROR_TYPE) (\<lambda>_.
       rbind (raise_when (py_or (py_lt mode 0) (py_gt mode 1)) DR_ERROR_VALUE) (\<lambda>_.
       rbind (default_ref (g_coord w) ref) (\<lambda>rf.
       rbind (check_coord rf) (\<lambda>_.
       rbind (default_ref (PList [PInt DR_COND_NONE, PInt DR_COND_NONE]) limit_dPOS) (\<lambda>lim.
       rbind (default_ref (PList [PInt DR_COND_NONE, PInt DR_COND_NONE]) limit_dPOS_per) (\<lambda>per.
       set_fields R ''motion/enable_alter_motion''
         [(''n'', Inr n), (''mode'', Inr mode), (''ref'', Inr rf),
          (''limit_dpos'', float_list lim), (''limit_dpos_per'', float_list per)]))))))))
       None success_code"

definition alter_motion :: "ros \<Rightarrow> pyval \<Rightarrow> pyval act" where
  "alter_motion R dposx =
     service_fun R False ''motion/alter_motion'' (\<lambda>w.
       rbind (raise_if (py_type dposx = TPosx) DR_ERROR_TYPE) (\<lambda>_.
       rbind (get_normal_pos dposx (Some TPosx)) (\<lambda>p.
       set_fields R ''motion/alter_motion'' [(''pos'', float_list p)])))
       None success_code"

definition disable_alter_motion :: "ros \<Rightarrow> pyval act" where
  "disable_alter_motion R =
     service_fun R False ''motion/disable_alter_motion''
       (\<lambda>w. set_fields R ''motion/disable_alter_motion'' []) None success_code"

definition set_singular_handling :: "ros \<Rightarrow> pyval \<Rightarrow> pyval act" where
  "set_singular_handling R mode =
     service_fun R False ''motion/set_singularity_handling'' (\<lambda>w.
       rbind (raise_if (\<not> is_int mode) DR_ERROR_TYPE) (\<lambda>_.
       rbind (raise_when (py_or (py_lt mode 0) (py_gt mode 2)) DR_ERROR_VALUE) (\<lambda>_.
       set_fields R ''motion/set_singularity_handling'' [(''mode'', Inr mode)])))
       None success_code"

definition set_singularity_handling :: "ros \<Rightarrow> pyval \<Rightarrow> pyval act" where
  "set_singularity_handling R mode = set_singular_handling R mode"

section \<open>Jogging\<close>

definition jog :: "ros \<Rightarrow> pyval \<Rightarrow> pyval \<Rightarrow> pyval \<Rightarrow> pyval act" where
  "jog R jog_axis ref speed =
     service_fun R False ''motion/jog'' (\<lambda>w.
       rbind (check_num jog_axis) (\<lambda>_.
       rbind (raise_if (\<not> is_int ref) DR_ERROR_TYPE) (\<lambda>_.
       rbind (check_num speed) (\<lambda>_.
       set_fields R ''motion/jog''
         [(''jog_axis'', Inr jog_axis), (''move_reference'', Inr ref),
          (''speed'', float_field speed)]))))
       None success_code"

definition jog_multi :: "ros \<Rightarrow> pyval \<Rightarrow> pyval \<Rightarrow> pyval \<Rightarrow> pyval act" where
  "jog_multi R jog_axis_list ref speed =
     service_fun R False ''motion/jog_multi'' (\<lambda>w.
       rbind (raise_if (py_type jog_axis_list \<noteq> TList) DR_ERROR_TYPE) (\<lambda>_.
       rbind (raise_if (\<not> is_int ref) DR_ERROR_TYPE) (\<lambda>_.
       rbind (check_num speed) (\<lambda>_.
       set_fields R ''motion/jog_multi''
         [(''jog_axis'', float_list jog_axis_list), (''move_reference'', Inr ref),
          (''speed'', float_field speed)]))))
       None success_code"

end
