(* ===== verification/SystemApi.thy ===== *)
theory SystemApi
  imports MotionAux
begin

text \<open>
  The system functions of DSR_ROBOT2.py (robot mode, system, state, speed mode, alarms) and the
  auxiliary getters of positions, velocities, torques and forces.
\<close>

section \<open>Shapes\<close>

text \<open>A function with one integer argument that is passed on in one field.\<close>

definition int_setter :: "ros \<Rightarrow> bool \<Rightarrow> string \<Rightarrow> string \<Rightarrow> pyval \<Rightarrow> pyval act" where
  "int_setter R waits srv field x =
     service_fun R waits srv (\<lambda>w.
       rbind (raise_if (\<not> is_int x) DR_ERROR_TYPE) (\<lambda>_. set_fields R srv [(field, Inr x)]))
       None success_code"

text \<open>A function without arguments that returns one converted attribute of the response.\<close>

definition getter :: "ros \<Rightarrow> string \<Rightarrow> string \<Rightarrow> (pyval \<Rightarrow> pyval res) \<Rightarrow> pyval act" where
  "getter R srv field f = service_fun R False srv (\<lambda>w. set_fields R srv []) None (field_value field f)"

text \<open>A getter whose \<^verbatim>\<open>ref\<close> argument may be the base or the world frame.\<close>

definition base_world_getter ::
  "ros \<Rightarrow> string \<Rightarrow> string \<Rightarrow> (pyval \<Rightarrow> pyval res) \<Rightarrow> pyval \<Rightarrow> pyval act" where
  "base_world_getter R srv field f ref =
     service_fun R False srv (\<lambda>w.
       rbind (base_world_ref ref) (\<lambda>rf. set_fields R srv [(''ref'', Inr rf)]))
       None (field_value field f)"

text \<open>\<^verbatim>\<open>posj(list(x))\<close> and \<^verbatim>\<open>posx(list(x))\<close>\<close>

definition posj_of :: "pyval \<Rightarrow> pyval res" where
  "posj_of v = rbind (py_list v) (\<lambda>l. posj l)"

definition posx_of :: "pyval \<Rightarrow> pyval res" where
  "posx_of v = rbind (py_list v) (\<lambda>l. posx l)"

text \<open>\<^verbatim>\<open>_ros_Float64MultiArrayTolist\<close>\<close>

definition multiarray_data :: "pyval \<Rightarrow> pyval res" where
  "multiarray_data m = (case m of PMultiArray d \<Rightarrow> Inr (PList d) | _ \<Rightarrow> Inl AttributeError)"

definition multiarray_to_list :: "pyval \<Rightarrow> pyval res" where
  "multiarray_to_list v =
     rbind (py_items v) (\<lambda>ms. rbind (map_res multiarray_data ms) (\<lambda>ls. Inr (PList ls)))"

section \<open>System\<close>

definition set_robot_mode :: "ros \<Rightarrow> pyval \<Rightarrow> pyval act" where
  "set_robot_mode R robot_mode =
     int_setter R True ''system/set_robot_mode'' ''robot_mode'' robot_mode"

definition get_robot_mode :: "ros \<Rightarrow> pyval act" where
  "get_robot_mode R = getter R ''system/get_robot_mode'' ''robot_mode'' Inr"

definition set_robot_system :: "ros \<Rightarrow> pyval \<Rightarrow> pyval act" where
  "set_robot_system R robot_system =
     int_setter R False ''system/set_robot_system'' ''robot_system'' robot_system"

definition get_robot_system :: "ros \<Rightarrow> pyval act" where
  "get_robot_system R = getter R ''system/get_robot_system'' ''robot_system'' Inr"

definition get_robot_state :: "ros \<Rightarrow> pyval act" where
  "get_robot_state R = getter R ''system/get_robot_state'' ''robot_state'' Inr"

definition set_robot_speed_mode :: "ros \<Rightarrow> pyval \<Rightarrow> pyval act" where
  "set_robot_speed_mode R speed_mode =
     int_setter R False ''system/set_robot_speed_mode'' ''speed_mode'' speed_mode"

definition get_robot_speed_mode :: "ros \<Rightarrow> pyval act" where
  "get_robot_speed_mode R = getter R ''system/get_robot_speed_mode'' ''speed_mode'' Inr"

definition set_safe_stop_reset_type :: "ros \<Rightarrow> pyval \<Rightarrow> pyval act" where
  "set_safe_stop_reset_type R reset_type =
     int_setter R False ''system/set_safe_stop_reset_type'' ''reset_type'' reset_type"

definition get_current_pose :: "ros \<Rightarrow> pyval \<Rightarrow> pyval act" where
  "get_current_pose R space_type =
     service_fun R False ''system/get_current_pose'' (\<lambda>w.
       rbind (raise_if (\<not> is_int space_type) DR_ERROR_TYPE) (\<lambda>_.
       set_fields R ''system/get_current_pose'' [(''space_type'', Inr space_type)]))
       None (field_value ''pos'' Inr)"

definition get_last_alarm :: "ros \<Rightarrow> pyval act" where
  "get_last_alarm R = getter R ''system/get_last_alarm'' ''log_alarm'' Inr"

section \<open>Auxiliary control\<close>

definition get_control_mode :: "ros \<Rightarrow> pyval act" where
  "get_control_mode R = getter R ''aux_control/get_control_mode'' ''control_mode'' Inr"

definition get_control_space :: "ros \<Rightarrow> pyval act" where
  "get_control_space R = getter R ''aux_control/get_control_space'' ''space'' Inr"

definition get_current_posj :: "ros \<Rightarrow> pyval act" where
  "get_current_posj R = getter R ''aux_control/get_current_posj'' ''pos'' posj_of"

definition get_current_velj :: "ros \<Rightarrow> pyval act" where
  "get_current_velj R = getter R ''aux_control/get_current_velj'' ''joint_speed'' py_list"

definition get_desired_posj :: "ros \<Rightarrow> pyval act" where
  "get_desired_posj R = getter R ''aux_control/get_desired_posj'' ''pos'' posj_of"

definition get_desired_velj :: "ros \<Rightarrow> pyval act" where
  "get_desired_velj R = getter R ''aux_control/get_desired_velj'' ''joint_vel'' py_list"

text \<open>
  \<^verbatim>\<open>get_current_posx\<close> returns a pair, (None, None) when the call gave no result, and 0 after an
  exception from the future.
\<close>

definition py_round :: "pyval \<Rightarrow> int res" where
  "py_round v = (case v of
       PFloat f \<Rightarrow> round_float f
     | PNpFloat f \<Rightarrow> round_float f
     | PInt n \<Rightarrow> Inr n
     | PBool b \<Rightarrow> Inr (if b then 1 else 0)
     | _ \<Rightarrow> Inl TypeError)"

definition current_posx_result :: "reply \<Rightarrow> pyval option res" where
  "current_posx_result r = (case r of
       Response a \<Rightarrow>
         rbind (multiarray_to_list (a ''task_pos_info'')) (\<lambda>info.
         rbind (map_res (\<lambda>i. rbind (py_index info 0) (\<lambda>row. py_index row i)) [0..<POINT_COUNT]) (\<lambda>pos.
         rbind (rbind (py_index info 0) (\<lambda>row. py_index row 6)) (\<lambda>s.
         rbind (py_round s) (\<lambda>sol.
         rbind (posx (PList pos)) (\<lambda>conv_posx.
         Inr (Some (PTuple [conv_posx, PInt sol])))))))
     | _ \<Rightarrow> Inr (Some (PTuple [PNone, PNone])))"

definition get_current_posx :: "ros \<Rightarrow> pyval \<Rightarrow> pyval act" where
  "get_current_posx R ref =
     service_fun R False ''aux_control/get_current_posx'' (\<lambda>w.
       rbind (default_ref (g_coord w) ref) (\<lambda>rf.
       rbind (check_coord_no_tool rf) (\<lambda>_.
       set_fields R ''aux_control/get_current_posx'' [(''ref'', Inr rf)])))
       (Some (PInt 0)) current_posx_result"

definition get_current_tool_flange_posx :: "ros \<Rightarrow> pyval \<Rightarrow> pyval act" where
  "get_current_tool_flange_posx R ref =
     base_world_getter R ''aux_control/get_current_tool_flange_posx'' ''pos'' posx_of ref"

definition get_current_velx :: "ros \<Rightarrow> pyval \<Rightarrow> pyval act" where
  "get_current_velx R ref =
     base_world_getter R ''aux_control/get_current_velx'' ''vel'' Inr ref"

definition get_desired_posx :: "ros \<Rightarrow> pyval \<Rightarrow> pyval act" where
  "get_desired_posx R ref =
     service_fun R False ''aux_control/get_desired_posx'' (\<lambda>w.
       rbind (default_ref (g_coord w) ref) (\<lambda>rf.
       rbind (check_coord rf) (\<lambda>_.
       set_fields R ''aux_control/get_desired_posx'' [(''ref'', Inr rf)])))
       None (field_value ''pos'' posx_of)"

definition get_desired_velx :: "ros \<Rightarrow> pyval \<Rightarrow> pyval act" where
  "get_desired_velx R ref =
     base_world_getter R ''aux_control/get_desired_velx'' ''vel'' py_list ref"

definition get_current_solution_space :: "ros \<Rightarrow> pyval act" where
  "get_current_solution_space R =
     getter R ''aux_control/get_current_solution_space'' ''sol_space'' Inr"

definition get_current_rotm :: "ros \<Rightarrow> pyval \<Rightarrow> pyval act" where
  "get_current_rotm R ref =
     base_world_getter R ''aux_control/get_current_rotm'' ''rot_matrix'' multiarray_to_list ref"

definition get_joint_torque :: "ros \<Rightarrow> pyval act" where
  "get_joint_torque R = getter R ''aux_control/get_joint_torque'' ''jts'' py_list"

definition get_external_torque :: "ros \<Rightarrow> pyval act" where
  "get_external_torque R = getter R ''aux_control/get_external_torque'' ''ext_torque'' py_list"

text \<open>
  \<^verbatim>\<open>get_tool_force\<close>: the whole reading of the response stands inside the \<^verbatim>\<open>try\<close>, so an exception
  there leaves \<^verbatim>\<open>ret\<close> at -1.
\<close>

definition tool_force_result :: "reply \<Rightarrow> pyval option res" where
  "tool_force_result r = (case r of
       Response a \<Rightarrow>
         (case rbind (py_truth (a ''success'')) (\<lambda>ok.
                 if ok then py_list (a ''tool_force'') else Inr (PInt (-1))) of
            Inr v \<Rightarrow> Inr (Some v)
          | Inl _ \<Rightarrow> Inr (Some (PInt (-1))))
     | _ \<Rightarrow> Inr (Some (PInt (-1))))"

definition get_tool_force :: "ros \<Rightarrow> pyval \<Rightarrow> pyval act" where
  "get_tool_force R ref =
     service_fun R False ''aux_control/get_tool_force'' (\<lambda>w.
       let rf = (if ref = PNone then PInt DR_BASE else ref) in
       rbind (py_or (py_eq rf DR_BASE) (py_or (py_eq rf DR_TOOL) (py_eq rf DR_WORLD))) (\<lambda>known.
       rbind (raise_if (\<not> known) DR_ERROR_VALUE) (\<lambda>_.
       set_fields R ''aux_control/get_tool_force'' [(''ref'', Inr rf)])))
       (Some (PInt (-1))) tool_force_result"

definition get_solution_space :: "ros \<Rightarrow> pyval \<Rightarrow> pyval act" where
  "get_solution_space R pos =
     service_fun R False ''aux_control/get_solution_space'' (\<lambda>w.
       rbind (get_posj pos) (\<lambda>p.
       set_fields R ''aux_control/get_solution_space'' [(''pos'', float_list p)]))
       None (field_value ''sol_space'' Inr)"

definition get_orientation_error :: "ros \<Rightarrow> pyval \<Rightarrow> pyval \<Rightarrow> pyval \<Rightarrow> pyval act" where
  "get_orientation_error R xd xc axis =
     service_fun R False ''aux_control/get_orientation_error'' (\<lambda>w.
       rbind (get_posx xd) (\<lambda>d.
       rbind (get_posx xc) (\<lambda>c.
       rbind (raise_if (\<not> is_int axis) DR_ERROR_TYPE) (\<lambda>_.
       rbind (raise_when (py_and (py_ne axis DR_AXIS_X) (py_and (py_ne axis DR_AXIS_Y)
                (py_and (py_ne axis DR_AXIS_Z) (py_and (py_ne axis 10)
                (py_and (py_ne axis 11) (py_ne axis 12)))))) DR_ERROR_VALUE) (\<lambda>_.
       set_fields R ''aux_control/get_orientation_error''
         [(''xd'', float_list d), (''xc'', float_list c), (''axis'', Inr axis)])))))
       None (field_value ''ori_error'' Inr)"

end
