(* ===== verification/Streams.thy ===== *)
theory Streams
  imports SystemApi
begin

text \<open>
  The streaming commands of DSR_ROBOT2.py, which publish a message instead of calling a service:
  \<^verbatim>\<open>alter_motion_stream\<close>, \<^verbatim>\<open>servoj\<close>, \<^verbatim>\<open>servol\<close>, \<^verbatim>\<open>speedj\<close>, \<^verbatim>\<open>speedl\<close> and their real-time variants,
  and \<^verbatim>\<open>torque_rt\<close>. Some test with \<^verbatim>\<open>type(x) ==\<close>, others with \<^verbatim>\<open>isinstance\<close>; the difference is
  kept.
\<close>

section \<open>Argument blocks\<close>

text \<open>A number spread to \<open>n\<close> items or a list of length \<open>n\<close>, by \<^verbatim>\<open>type(x) ==\<close>.\<close>

definition spread_type :: "nat \<Rightarrow> pyval \<Rightarrow> pyval res" where
  "spread_type n x =
     (if is_int_or_float x then Inr (PList (replicate n x))
      else if is_list_of_len n x then Inr x
      else Inl (DRError DR_ERROR_TYPE))"

text \<open>The same by \<^verbatim>\<open>isinstance\<close>.\<close>

definition spread_inst :: "nat \<Rightarrow> pyval \<Rightarrow> pyval res" where
  "spread_inst n x =
     (if isinstance_num x then Inr (PList (replicate n x))
      else if is_listlike_of_len n x then Inr x
      else Inl (DRError DR_ERROR_TYPE))"

definition no_negative :: "pyval \<Rightarrow> unit res" where
  "no_negative v = rbind (py_items v)
     (for_each (\<lambda>item. raise_when (negative_item item) DR_ERROR_VALUE))"

text \<open>\<^verbatim>\<open>get_param\<close> and the error for a missing argument.\<close>

definition required_param :: "pyval \<Rightarrow> pyval \<Rightarrow> pyval res" where
  "required_param long short =
     rbind (get_param long short) (\<lambda>p.
     rbind (raise_if (p = PNone) DR_ERROR_VALUE) (\<lambda>_. Inr p))"

definition time_check_inst :: "pyval \<Rightarrow> unit res" where
  "time_check_inst tm =
     rbind (raise_if (\<not> isinstance_num tm) DR_ERROR_TYPE) (\<lambda>_.
     raise_when (py_and (py_lt tm 0) (py_ne tm DR_COND_NONE)) DR_ERROR_VALUE)"

definition time_param_inst :: "pyval \<Rightarrow> pyval \<Rightarrow> pyval res" where
  "time_param_inst time t =
     rbind (get_param time t) (\<lambda>p.
     let tm = (if p = PNone then PFloat (Fin 0) else p) in
     rbind (time_check_inst tm) (\<lambda>_. Inr tm))"

text \<open>Task velocity or acceleration of \<^verbatim>\<open>servol\<close>: the module default when not given.\<close>

definition servol_param :: "pyval \<Rightarrow> pyval \<Rightarrow> pyval \<Rightarrow> pyval res" where
  "servol_param dflt long short =
     rbind (get_param long short) (\<lambda>temp.
     rbind (if temp = PNone then Inr dflt else spread_inst 2 temp) (\<lambda>v.
     rbind (check_number v DR_ERROR_VALUE) (\<lambda>_.
     rbind (no_negative v) (\<lambda>_. Inr v))))"

text \<open>An argument of \<^verbatim>\<open>servol_rt\<close>: six times \<^verbatim>\<open>DR_COND_NONE\<close> when not given.\<close>

definition servol_rt_param :: "pyval \<Rightarrow> pyval \<Rightarrow> pyval res" where
  "servol_rt_param long short =
     rbind (get_param long short) (\<lambda>p.
     rbind (if p = PNone then Inr (PList (replicate POINT_COUNT (PInt DR_COND_NONE)))
            else spread_inst POINT_COUNT p) (\<lambda>v.
     rbind (check_number v DR_ERROR_VALUE) (\<lambda>_. Inr v)))"

text \<open>A list of \<open>n\<close> numbers by \<^verbatim>\<open>isinstance\<close>, with the error codes of the real-time commands.\<close>

definition rt_list :: "nat \<Rightarrow> pyval \<Rightarrow> unit res" where
  "rt_list n v =
     rbind (raise_if (\<not> isinstance_list v) DR_ERROR_TYPE) (\<lambda>_.
     rbind (py_len v) (\<lambda>k.
     rbind (raise_if (k \<noteq> n) DR_ERROR_VALUE) (\<lambda>_.
     check_number v DR_ERROR_VALUE)))"

section \<open>Streams\<close>

definition alter_motion_stream :: "ros \<Rightarrow> pyval \<Rightarrow> pyval act" where
  "alter_motion_stream R pos =
     stream_fun R ''alter_motion_stream'' (\<lambda>w.
       rbind (get_posx pos) (\<lambda>p.
       set_fields R ''alter_motion_stream'' [(''pos'', float_list p)]))"

definition check_servo_mode :: "pyval \<Rightarrow> pyval \<Rightarrow> pyval res" where
  "check_servo_mode mode m =
     rbind (get_param mode m) (\<lambda>p.
     rbind (py_eq_none p) (\<lambda>missing.
     let md = (if missing then PInt 1 else p) in
     rbind (check_two_values 0 1 md) (\<lambda>_. Inr md)))"

definition servoj ::
  "ros \<Rightarrow> pyval \<Rightarrow> pyval \<Rightarrow> pyval \<Rightarrow> pyval \<Rightarrow> pyval \<Rightarrow> pyval \<Rightarrow> pyval \<Rightarrow> pyval \<Rightarrow> pyval \<Rightarrow> pyval act" where
  "servoj R pos vel acc time mode v a t m =
     stream_fun R ''servoj_stream'' (\<lambda>w.
       rbind (get_posj pos) (\<lambda>p.
       rbind (joint_param (g_velj w) vel v) (\<lambda>vl.
       rbind (joint_param (g_accj w) acc a) (\<lambda>ac.
       rbind (time_param time t) (\<lambda>tm.
       rbind (check_servo_mode mode m) (\<lambda>md.
       rbind (check_valid_vel_acc_joint vl ac tm) (\<lambda>_.
       set_fields R ''servoj_stream''
         [(''pos'', float_list p), (''vel'', float_list vl), (''acc'', float_list ac),
          (''time'', float_field tm), (''mode'', Inr md)])))))))"

definition servol ::
  "ros \<Rightarrow> pyval \<Rightarrow> pyval \<Rightarrow> pyval \<Rightarrow> pyval \<Rightarrow> pyval \<Rightarrow> pyval \<Rightarrow> pyval \<Rightarrow> pyval act" where
  "servol R pos vel acc time v a t =
     stream_fun R ''servol_stream'' (\<lambda>w.
       rbind (get_posx pos) (\<lambda>p.
       rbind (servol_param (g_velx w) vel v) (\<lambda>vl.
       rbind (servol_param (g_accx w) acc a) (\<lambda>ac.
       rbind (time_param_inst time t) (\<lambda>tm.
       rbind (check_valid_vel_acc_task vl ac tm) (\<lambda>_.
       set_fields R ''servol_stream''
         [(''pos'', float_list p), (''vel'', float_list vl), (''acc'', float_list ac),
          (''time'', float_field tm)]))))))"

definition speedj ::
  "ros \<Rightarrow> pyval \<Rightarrow> pyval \<Rightarrow> pyval \<Rightarrow> pyval \<Rightarrow> pyval \<Rightarrow> pyval \<Rightarrow> pyval act" where
  "speedj R vel acc time v a t =
     stream_fun R ''speedj_stream'' (\<lambda>w.
       rbind (required_param vel v) (\<lambda>vp.
       rbind (spread_type DR_VELJ_DT_LEN vp) (\<lambda>vl.
       rbind (check_number vl DR_ERROR_VALUE) (\<lambda>_.
       rbind (required_param acc a) (\<lambda>ap.
       rbind (spread_type DR_VELJ_DT_LEN ap) (\<lambda>ac.
       rbind (check_number ac DR_ERROR_VALUE) (\<lambda>_.
       rbind (no_negative ac) (\<lambda>_.
       rbind (time_param time t) (\<lambda>tm.
       rbind (check_valid_vel_acc_joint vl ac tm) (\<lambda>_.
       set_fields R ''speedj_stream''
         [(''vel'', float_list vl), (''acc'', float_list ac),
          (''time'', float_field tm)]))))))))))"

definition speedl ::
  "ros \<Rightarrow> pyval \<Rightarrow> pyval \<Rightarrow> pyval \<Rightarrow> pyval \<Rightarrow> pyval \<Rightarrow> pyval \<Rightarrow> pyval act" where
  "speedl R vel acc time v a t =
     stream_fun R ''speedl_stream'' (\<lambda>w.
       rbind (required_param vel v) (\<lambda>vp.
       rbind (spread_inst 6 vp) (\<lambda>vl.
       rbind (check_number vl DR_ERROR_VALUE) (\<lambda>_.
       rbind (required_param acc a) (\<lambda>ap.
       rbind (spread_inst 2 ap) (\<lambda>ac.
       rbind (check_number ac DR_ERROR_VALUE) (\<lambda>_.
       rbind (no_negative ac) (\<lambda>_.
       rbind (time_param_inst time t) (\<lambda>tm.
       rbind (check_valid_vel_acc_task vl ac tm) (\<lambda>_.
       set_fields R ''speedl_stream''
         [(''vel'', float_list vl), (''acc'', float_list ac),
          (''time'', float_field tm)]))))))))))"

section \<open>Real-time streams\<close>

definition servoj_rt ::
  "ros \<Rightarrow> pyval \<Rightarrow> pyval \<Rightarrow> pyval \<Rightarrow> pyval \<Rightarrow> pyval \<Rightarrow> pyval \<Rightarrow> pyval \<Rightarrow> pyval act" where
  "servoj_rt R pos vel acc time v a t =
     stream_fun R ''servoj_rt_stream'' (\<lambda>w.
       rbind (get_posj pos) (\<lambda>p.
       rbind (joint_param (g_velj w) vel v) (\<lambda>vl.
       rbind (joint_param (g_accj w) acc a) (\<lambda>ac.
       rbind (time_param time t) (\<lambda>tm.
       rbind (check_valid_vel_acc_joint vl ac tm) (\<lambda>_.
       set_fields R ''servoj_rt_stream''
         [(''pos'', float_list p), (''vel'', float_list vl), (''acc'', float_list ac),
          (''time'', float_field tm)]))))))"

definition servol_rt ::
  "ros \<Rightarrow> pyval \<Rightarrow> pyval \<Rightarrow> pyval \<Rightarrow> pyval \<Rightarrow> pyval \<Rightarrow> pyval \<Rightarrow> pyval \<Rightarrow> pyval act" where
  "servol_rt R pos vel acc time v a t =
     stream_fun R ''servol_rt_stream'' (\<lambda>w.
       rbind (get_posx pos) (\<lambda>p.
       rbind (required_param time t) (\<lambda>tm.
       rbind (time_check_inst tm) (\<lambda>_.
       rbind (servol_rt_param vel v) (\<lambda>vl.
       rbind (servol_rt_param acc a) (\<lambda>ac.
       rbind (check_valid_vel_acc_task vl ac tm) (\<lambda>_.
       set_fields R ''servol_rt_stream''
         [(''pos'', float_list p), (''vel'', float_list vl), (''acc'', float_list ac),
          (''time'', float_field tm)])))))))"

definition speedj_rt ::
  "ros \<Rightarrow> pyval \<Rightarrow> pyval \<Rightarrow> pyval \<Rightarrow> pyval \<Rightarrow> pyval act" where
  "speedj_rt R vel acc time t =
     stream_fun R ''speedj_rt_stream'' (\<lambda>w.
       rbind (rt_list 6 vel) (\<lambda>_.
       rbind (rt_list 6 acc) (\<lambda>_.
       rbind (no_negative acc) (\<lambda>_.
       rbind (time_param_inst time t) (\<lambda>tm.
       rbind (check_valid_vel_acc_joint vel acc tm) (\<lambda>_.
       set_fields R ''speedj_rt_stream''
         [(''vel'', float_list vel), (''acc'', float_list acc),
          (''time'', float_field tm)]))))))"

text \<open>The acceleration of \<^verbatim>\<open>speedl_rt\<close>: six times \<^verbatim>\<open>DR_COND_NONE\<close> when not given.\<close>

definition speedl_rt_acc :: "pyval \<Rightarrow> pyval res" where
  "speedl_rt_acc acc =
     (if acc = PNone then Inr (PList (replicate 6 (PInt DR_COND_NONE)))
      else if isinstance_list acc then
        rbind (rt_list 6 acc) (\<lambda>_. rbind (no_negative acc) (\<lambda>_. Inr acc))
      else Inl (DRError DR_ERROR_TYPE))"

definition speedl_rt ::
  "ros \<Rightarrow> pyval \<Rightarrow> pyval \<Rightarrow> pyval \<Rightarrow> pyval \<Rightarrow> pyval act" where
  "speedl_rt R vel acc time t =
     stream_fun R ''speedl_rt_stream'' (\<lambda>w.
       rbind (rt_list 6 vel) (\<lambda>_.
       rbind (speedl_rt_acc acc) (\<lambda>ac.
       rbind (time_param_inst time t) (\<lambda>tm.
       rbind (check_valid_vel_acc_task vel ac tm) (\<lambda>_.
       set_fields R ''speedl_rt_stream''
         [(''vel'', float_list vel), (''acc'', float_list ac),
          (''time'', float_field tm)])))))"

definition torque_rt :: "ros \<Rightarrow> pyval \<Rightarrow> pyval \<Rightarrow> pyval \<Rightarrow> pyval act" where
  "torque_rt R tor time t =
     stream_fun R ''torque_rt_stream'' (\<lambda>w.
       rbind (rt_list 6 tor) (\<lambda>_.
       rbind (time_param_inst time t) (\<lambda>tm.
       set_fields R ''torque_rt_stream''
         [(''tor'', float_list tor), (''time'', float_field tm)])))"

section \<open>Defaults that are always refused\<close>

lemma for_each_Inl_mem:
  "x \<in> set xs \<Longrightarrow> f x = Inl e \<Longrightarrow> \<forall>y \<in> set xs. f y = Inr () \<or> f y = Inl e \<Longrightarrow>
   for_each f xs = Inl e"
proof (induction xs)
  case (Cons y ys)
  then show ?case by (cases "f y") auto
qed simp

lemma stream_fun_raises:
  "message w = Inl e \<Longrightarrow> stream_fun R topic message w = Some (Inl e, note_exc e w)"
  by (simp add: stream_fun_def abind_def with_globals_def)

end
