(* ===== verification/RealTime.thy ===== *)
theory RealTime
  imports Streams
begin

text \<open>
  The real-time control session of DSR_ROBOT2.py: \<^verbatim>\<open>set_safety_mode\<close>, connecting and
  disconnecting, the version and data lists, start and stop, the input and output
  configuration, and the real-time limits and data. These functions set \<^verbatim>\<open>ret\<close> before the call,
  so an exception from the future gives the initial value.
\<close>

section \<open>Reading the responses\<close>

text \<open>\<^verbatim>\<open>ret = 0 if result.success else -1\<close>, with \<^verbatim>\<open>ret = -1\<close> before.\<close>

definition truthy_code :: "reply \<Rightarrow> pyval option res" where
  "truthy_code r = (case r of
       Response a \<Rightarrow> rbind (py_truth (a ''success''))
                       (\<lambda>ok. Inr (Some (if ok then PInt 0 else PInt (-1))))
     | _ \<Rightarrow> Inr (Some (PInt (-1))))"

text \<open>\<^verbatim>\<open>if result is not None and result.success: ret = result.field\<close>, with \<^verbatim>\<open>ret = ""\<close> before.\<close>

definition text_if_success :: "string \<Rightarrow> reply \<Rightarrow> pyval option res" where
  "text_if_success field r = (case r of
       Response a \<Rightarrow> rbind (py_truth (a ''success''))
                       (\<lambda>ok. Inr (Some (if ok then a field else PStr [])))
     | _ \<Rightarrow> Inr (Some (PStr [])))"

text \<open>A function without arguments that reports success.\<close>

definition rt_command :: "ros \<Rightarrow> string \<Rightarrow> (world \<Rightarrow> fields res) \<Rightarrow> pyval act" where
  "rt_command R srv request = service_fun R True srv request (Some (PInt (-1))) truthy_code"

definition rt_text :: "ros \<Rightarrow> string \<Rightarrow> string \<Rightarrow> (world \<Rightarrow> fields res) \<Rightarrow> pyval act" where
  "rt_text R srv field request =
     service_fun R True srv request (Some (PStr [])) (text_if_success field)"

section \<open>Functions\<close>

definition set_safety_mode :: "ros \<Rightarrow> pyval \<Rightarrow> pyval \<Rightarrow> pyval act" where
  "set_safety_mode R safety_mode safety_event =
     service_fun R True ''system/set_safety_mode'' (\<lambda>w.
       rbind (raise_if (\<not> is_int safety_mode) DR_ERROR_TYPE) (\<lambda>_.
       rbind (raise_if (\<not> is_int safety_event) DR_ERROR_TYPE) (\<lambda>_.
       set_fields R ''system/set_safety_mode''
         [(''safety_mode'', Inr safety_mode), (''safety_event'', Inr safety_event)])))
       None success_code"

definition connect_rt_control :: "ros \<Rightarrow> pyval \<Rightarrow> pyval \<Rightarrow> pyval act" where
  "connect_rt_control R ip_address port =
     rt_command R ''realtime/connect_rt_control'' (\<lambda>w.
       let req_ip = (if ip_address \<noteq> PNone then ip_address else PStr ''192.168.137.100'');
           req_port = (if port \<noteq> PNone then port else PInt 12347) in
       rbind (raise_if (ip_address \<noteq> PNone \<and> py_type ip_address \<noteq> TStr) DR_ERROR_TYPE) (\<lambda>_.
       rbind (raise_if (port \<noteq> PNone \<and> \<not> is_int port) DR_ERROR_TYPE) (\<lambda>_.
       set_fields R ''realtime/connect_rt_control''
         [(''ip_address'', Inr req_ip), (''port'', Inr req_port)])))"

definition disconnect_rt_control :: "ros \<Rightarrow> pyval act" where
  "disconnect_rt_control R =
     rt_command R ''realtime/disconnect_rt_control''
       (\<lambda>w. set_fields R ''realtime/disconnect_rt_control'' [])"

definition get_rt_control_output_version_list :: "ros \<Rightarrow> pyval act" where
  "get_rt_control_output_version_list R =
     rt_text R ''realtime/get_rt_control_output_version_list'' ''version''
       (\<lambda>w. set_fields R ''realtime/get_rt_control_output_version_list'' [])"

definition get_rt_control_input_version_list :: "ros \<Rightarrow> pyval act" where
  "get_rt_control_input_version_list R =
     rt_text R ''realtime/get_rt_control_input_version_list'' ''version''
       (\<lambda>w. set_fields R ''realtime/get_rt_control_input_version_list'' [])"

definition get_rt_control_input_data_list :: "ros \<Rightarrow> pyval \<Rightarrow> pyval act" where
  "get_rt_control_input_data_list R version =
     rt_text R ''realtime/get_rt_control_input_data_list'' ''data'' (\<lambda>w.
       rbind (raise_if (py_type version \<noteq> TStr) DR_ERROR_TYPE) (\<lambda>_.
       set_fields R ''realtime/get_rt_control_input_data_list'' [(''version'', Inr version)]))"

definition get_rt_control_output_data_list :: "ros \<Rightarrow> pyval \<Rightarrow> pyval act" where
  "get_rt_control_output_data_list R version =
     rt_text R ''realtime/get_rt_control_output_data_list'' ''data'' (\<lambda>w.
       rbind (raise_if (py_type version \<noteq> TStr) DR_ERROR_TYPE) (\<lambda>_.
       set_fields R ''realtime/get_rt_control_output_data_list'' [(''version'', Inr version)]))"

definition start_rt_control :: "ros \<Rightarrow> pyval act" where
  "start_rt_control R =
     rt_command R ''realtime/start_rt_control''
       (\<lambda>w. set_fields R ''realtime/start_rt_control'' [])"

definition stop_rt_control :: "ros \<Rightarrow> pyval act" where
  "stop_rt_control R =
     rt_command R ''realtime/stop_rt_control'' (\<lambda>w. set_fields R ''realtime/stop_rt_control'' [])"

definition rt_io_request ::
  "ros \<Rightarrow> string \<Rightarrow> pyval \<Rightarrow> pyval \<Rightarrow> pyval \<Rightarrow> fields res" where
  "rt_io_request R srv version period loss =
     rbind (raise_if (py_type version \<noteq> TStr) DR_ERROR_TYPE) (\<lambda>_.
     rbind (raise_if (py_type period \<noteq> TFloat) DR_ERROR_TYPE) (\<lambda>_.
     rbind (raise_if (\<not> is_int loss) DR_ERROR_TYPE) (\<lambda>_.
     set_fields R srv [(''version'', Inr version), (''period'', Inr period), (''loss'', Inr loss)])))"

definition set_rt_control_input :: "ros \<Rightarrow> pyval \<Rightarrow> pyval \<Rightarrow> pyval \<Rightarrow> pyval act" where
  "set_rt_control_input R version period loss =
     rt_command R ''realtime/set_rt_control_input''
       (\<lambda>w. rt_io_request R ''realtime/set_rt_control_input'' version period loss)"

definition set_rt_control_output :: "ros \<Rightarrow> pyval \<Rightarrow> pyval \<Rightarrow> pyval \<Rightarrow> pyval act" where
  "set_rt_control_output R version period loss =
     rt_command R ''realtime/set_rt_control_output''
       (\<lambda>w. rt_io_request R ''realtime/set_rt_control_output'' version period loss)"

text \<open>\<^verbatim>\<open>type(v) not in (list, tuple) or len(v) != 6\<close>\<close>

definition six_list_or_tuple :: "pyval \<Rightarrow> bool" where
  "six_list_or_tuple v = (case v of
       PList xs \<Rightarrow> length xs = 6
     | PTuple xs \<Rightarrow> length xs = 6
     | _ \<Rightarrow> False)"

definition set_velj_rt :: "ros \<Rightarrow> pyval \<Rightarrow> pyval act" where
  "set_velj_rt R vel =
     rt_command R ''realtime/set_velj_rt'' (\<lambda>w.
       rbind (raise_if (\<not> six_list_or_tuple vel) DR_ERROR_TYPE) (\<lambda>_.
       set_fields R ''realtime/set_velj_rt'' [(''vel'', Inr vel)]))"

definition set_accj_rt :: "ros \<Rightarrow> pyval \<Rightarrow> pyval act" where
  "set_accj_rt R acc =
     rt_command R ''realtime/set_accj_rt'' (\<lambda>w.
       rbind (raise_if (\<not> six_list_or_tuple acc) DR_ERROR_TYPE) (\<lambda>_.
       set_fields R ''realtime/set_accj_rt'' [(''acc'', Inr acc)]))"

definition rt_limit_request :: "ros \<Rightarrow> string \<Rightarrow> pyval \<Rightarrow> pyval \<Rightarrow> fields res" where
  "rt_limit_request R srv trans_v rotation =
     rbind (raise_if (py_type trans_v \<noteq> TFloat) DR_ERROR_TYPE) (\<lambda>_.
     rbind (raise_if (py_type rotation \<noteq> TFloat) DR_ERROR_TYPE) (\<lambda>_.
     set_fields R srv [(''trans'', Inr trans_v), (''rotation'', Inr rotation)]))"

definition set_velx_rt :: "ros \<Rightarrow> pyval \<Rightarrow> pyval \<Rightarrow> pyval act" where
  "set_velx_rt R trans_v rotation =
     rt_command R ''realtime/set_velx_rt''
       (\<lambda>w. rt_limit_request R ''realtime/set_velx_rt'' trans_v rotation)"

definition set_accx_rt :: "ros \<Rightarrow> pyval \<Rightarrow> pyval \<Rightarrow> pyval act" where
  "set_accx_rt R trans_v rotation =
     rt_command R ''realtime/set_accx_rt''
       (\<lambda>w. rt_limit_request R ''realtime/set_accx_rt'' trans_v rotation)"

definition read_data_result :: "reply \<Rightarrow> pyval option res" where
  "read_data_result r = (case r of
       Response a \<Rightarrow> Inr (Some (a ''data''))
     | _ \<Rightarrow> Inr (Some PNone))"

definition read_data_rt :: "ros \<Rightarrow> pyval act" where
  "read_data_rt R =
     service_fun R True ''realtime/read_data_rt'' (\<lambda>w. set_fields R ''realtime/read_data_rt'' [])
       (Some PNone) read_data_result"

definition write_data_rt ::
  "ros \<Rightarrow> pyval \<Rightarrow> pyval \<Rightarrow> pyval \<Rightarrow> pyval \<Rightarrow> pyval \<Rightarrow> pyval act" where
  "write_data_rt R external_force_torque external_digital_input external_digital_output
       external_analog_input external_analog_output =
     rt_command R ''realtime/write_data_rt'' (\<lambda>w.
       rbind (raise_if (\<not> six_list_or_tuple external_force_torque) DR_ERROR_TYPE) (\<lambda>_.
       rbind (raise_if (\<not> is_int external_digital_input) DR_ERROR_TYPE) (\<lambda>_.
       rbind (raise_if (\<not> is_int external_digital_output) DR_ERROR_TYPE) (\<lambda>_.
       rbind (raise_if (\<not> six_list_or_tuple external_analog_input) DR_ERROR_TYPE) (\<lambda>_.
       rbind (raise_if (\<not> six_list_or_tuple external_analog_output) DR_ERROR_TYPE) (\<lambda>_.
       set_fields R ''realtime/write_data_rt''
         [(''external_force_torque'', Inr external_force_torque),
          (''external_digital_input'', Inr external_digital_input),
          (''external_digital_output'', Inr external_digital_output),
          (''external_analog_input'', Inr external_analog_input),
          (''external_analog_output'', Inr external_analog_output)]))))))"

end
