(* ===== verification/MotionSafety.thy ===== *)
theory MotionSafety
  imports RealTime
begin

text \<open>
  What may reach the controller. For every motion command an executable predicate on the fields
  of its request, the invariant of the module globals the commands rely on, and the lemma that a
  request that is built satisfies its predicate.
\<close>

section \<open>Predicates on fields\<close>

fun float_in :: "(pyfloat \<Rightarrow> bool) \<Rightarrow> pyval \<Rightarrow> bool" where
  "float_in P (PFloat f) = P f"
| "float_in P _ = False"

fun floats_in :: "nat \<Rightarrow> (pyfloat \<Rightarrow> bool) \<Rightarrow> pyval \<Rightarrow> bool" where
  "floats_in n P (PList xs) = (length xs = n \<and> list_all (float_in P) xs)"
| "floats_in n P _ = False"

fun int_in :: "(int \<Rightarrow> bool) \<Rightarrow> pyval \<Rightarrow> bool" where
  "int_in P (PInt n) = P n"
| "int_in P _ = False"

text \<open>A list of multi-arrays, each of \<open>n\<close> floats.\<close>

fun multi_in :: "nat \<Rightarrow> pyval \<Rightarrow> bool" where
  "multi_in n (PMultiArray d) = (length d = n \<and> list_all (float_in (\<lambda>_. True)) d)"
| "multi_in n _ = False"

fun multis_in :: "nat \<Rightarrow> pyval \<Rightarrow> bool" where
  "multis_in n (PList ms) = list_all (multi_in n) ms"
| "multis_in n _ = False"

fun list_count :: "pyval \<Rightarrow> pyval \<Rightarrow> bool" where
  "list_count (PList ms) (PInt n) = (n = int (length ms))"
| "list_count _ _ = False"

abbreviation fld :: "fields \<Rightarrow> string \<Rightarrow> pyval" where
  "fld fs name \<equiv> get_kargs fs name"

definition zero_or_one :: "int \<Rightarrow> bool" where
  "zero_or_one n \<longleftrightarrow> n = 0 \<or> n = 1"

text \<open>The frame range the motion commands check.\<close>

definition frame_in_range :: "int \<Rightarrow> bool" where
  "frame_in_range n \<longleftrightarrow> DR_BASE \<le> n \<and> n \<le> DR_TC_USER_MAX"

section \<open>What a request must satisfy\<close>

text \<open>Time, blending radius and synchronisation, common to most commands.\<close>

definition time_ok :: "fields \<Rightarrow> bool" where
  "time_ok fs \<longleftrightarrow> float_in float_nonneg_or_none (fld fs ''time'')"

definition blend_ok :: "fields \<Rightarrow> bool" where
  "blend_ok fs \<longleftrightarrow>
     float_in float_nonneg (fld fs ''radius'') \<and> int_in zero_or_one (fld fs ''blend_type'') \<and>
     (fld fs ''sync_type'' = PInt 1 \<longrightarrow> fld fs ''radius'' = PFloat (Fin 0))"

definition movej_ok :: "fields \<Rightarrow> bool" where
  "movej_ok fs \<longleftrightarrow>
     floats_in 6 (\<lambda>_. True) (fld fs ''pos'') \<and>
     float_in float_nonneg (fld fs ''vel'') \<and> float_in float_nonneg (fld fs ''acc'') \<and>
     time_ok fs \<and> int_in zero_or_one (fld fs ''mode'') \<and> blend_ok fs"

definition movejx_ok :: "fields \<Rightarrow> bool" where
  "movejx_ok fs \<longleftrightarrow>
     movej_ok fs \<and> int_in frame_in_range (fld fs ''ref'') \<and>
     int_in (\<lambda>n. DR_SOL_MIN \<le> n \<and> n \<le> DR_SOL_MAX) (fld fs ''sol'')"

definition task_pairs_ok :: "fields \<Rightarrow> bool" where
  "task_pairs_ok fs \<longleftrightarrow>
     floats_in 2 float_nonneg_or_none (fld fs ''vel'') \<and>
     floats_in 2 float_nonneg_or_none (fld fs ''acc'') \<and>
     int_in frame_in_range (fld fs ''ref'') \<and> int_in zero_or_one (fld fs ''mode'')"

definition movel_ok :: "fields \<Rightarrow> bool" where
  "movel_ok fs \<longleftrightarrow>
     floats_in 6 (\<lambda>_. True) (fld fs ''pos'') \<and> task_pairs_ok fs \<and> time_ok fs \<and> blend_ok fs"

definition movec_ok :: "fields \<Rightarrow> bool" where
  "movec_ok fs \<longleftrightarrow>
     multis_in 6 (fld fs ''pos'') \<and> task_pairs_ok fs \<and> time_ok fs \<and> blend_ok fs \<and>
     float_in float_nonneg (fld fs ''angle1'') \<and> float_in float_nonneg (fld fs ''angle2'')"

definition movesj_ok :: "fields \<Rightarrow> bool" where
  "movesj_ok fs \<longleftrightarrow>
     multis_in 6 (fld fs ''pos'') \<and> list_count (fld fs ''pos'') (fld fs ''pos_cnt'') \<and>
     floats_in 6 float_nonneg (fld fs ''vel'') \<and> floats_in 6 float_nonneg (fld fs ''acc'') \<and>
     time_ok fs \<and> int_in zero_or_one (fld fs ''mode'')"

definition movesx_ok :: "fields \<Rightarrow> bool" where
  "movesx_ok fs \<longleftrightarrow>
     multis_in 6 (fld fs ''pos'') \<and> list_count (fld fs ''pos'') (fld fs ''pos_cnt'') \<and>
     task_pairs_ok fs \<and> time_ok fs \<and> int_in zero_or_one (fld fs ''opt'')"

text \<open>The blended motion promises nothing about its time.\<close>

definition moveb_ok :: "fields \<Rightarrow> bool" where
  "moveb_ok fs \<longleftrightarrow>
     multis_in 14 (fld fs ''segment'') \<and> list_count (fld fs ''segment'') (fld fs ''pos_cnt'') \<and>
     task_pairs_ok fs"

definition spiral_ok :: "fields \<Rightarrow> bool" where
  "spiral_ok fs \<longleftrightarrow>
     float_in float_nonneg (fld fs ''revolution'') \<and>
     float_in float_nonneg (fld fs ''max_radius'') \<and>
     floats_in 2 float_nonneg (fld fs ''vel'') \<and> floats_in 2 float_nonneg (fld fs ''acc'') \<and>
     time_ok fs \<and> int_in (\<lambda>n. n = DR_AXIS_X \<or> n = DR_AXIS_Y \<or> n = DR_AXIS_Z) (fld fs ''task_axis'') \<and>
     int_in (\<lambda>n. n = DR_BASE \<or> n = DR_TOOL \<or> (DR_TC_USER_MIN \<le> n \<and> n \<le> DR_TC_USER_MAX))
       (fld fs ''ref'')"

definition periodic_ok :: "fields \<Rightarrow> bool" where
  "periodic_ok fs \<longleftrightarrow>
     floats_in 6 (\<lambda>_. True) (fld fs ''amp'') \<and> floats_in 6 (\<lambda>_. True) (fld fs ''periodic'') \<and>
     float_in float_nonneg (fld fs ''acc'') \<and> int_in (\<lambda>n. 0 \<le> n) (fld fs ''repeat'') \<and>
     int_in frame_in_range (fld fs ''ref'')"

section \<open>The invariant of the globals\<close>

definition valid_coord :: "int \<Rightarrow> bool" where
  "valid_coord c \<longleftrightarrow> c = DR_BASE \<or> c = DR_TOOL \<or> c = DR_WORLD \<or>
     (DR_TC_USER_MIN \<le> c \<and> c \<le> DR_TC_USER_MAX)"

definition globals_ok :: "world \<Rightarrow> bool" where
  "globals_ok w \<longleftrightarrow>
     good_list 6 item_nonneg (g_velj w) \<and> good_list 6 item_nonneg (g_accj w) \<and>
     good_list 2 item_nonneg_or_none (g_velx w) \<and> good_list 2 item_nonneg_or_none (g_accx w) \<and>
     int_in valid_coord (g_coord w) \<and> item_nonneg (g_blend_radius w)"

lemma item_simps [simp]:
  "item_nonneg (PFloat (Fin q)) \<longleftrightarrow> 0 \<le> q"
  "item_nonneg (PInt n) \<longleftrightarrow> 0 \<le> n"
  "item_nonneg_or_none (PFloat (Fin q)) \<longleftrightarrow> 0 \<le> q \<or> q = -10000"
  "item_nonneg_or_none (PInt n) \<longleftrightarrow> 0 \<le> n \<or> n = -10000"
  by (auto simp: item_nonneg_def item_nonneg_or_none_def negative_task_item_def)

lemma init_globals_ok: "globals_ok (init_globals w)"
  by (simp add: globals_ok_def init_globals_def good_list_def valid_coord_def)

lemma globals_ok_trace [simp]: "globals_ok (w\<lparr>trace := t\<rparr>) = globals_ok w"
  by (simp add: globals_ok_def)

lemma globals_ok_log [simp]: "globals_ok (log e w) = globals_ok w"
  by (simp add: globals_ok_def)

text \<open>A position argument as its class's constructor left it: the classes are lists, which a
  caller may still have shortened or lengthened.\<close>

definition pos_wf :: "pyval \<Rightarrow> bool" where
  "pos_wf pos = (case pos of
       PPosj xs \<Rightarrow> length xs = POINT_COUNT
     | PPosx xs \<Rightarrow> length xs = POINT_COUNT
     | PNdarray fs \<Rightarrow> length fs = POINT_COUNT
     | _ \<Rightarrow> True)"

section \<open>From the blocks to the fields\<close>

named_theorems field_facts

lemma list_all_PFloat [simp]: "list_all (float_in P) (map PFloat fs) \<longleftrightarrow> list_all P fs"
  by (simp add: list_all_length)

lemma joint_index_field [field_facts]:
  "joint_param d x y = Inr vl \<Longrightarrow> good_list 6 item_nonneg d \<Longrightarrow>
   py_index vl i = Inr u \<Longrightarrow> float_field u = Inr v \<Longrightarrow> float_in float_nonneg v"
  by (auto simp: float_field_Inr dest: joint.index_ok)

lemma joint_list_field [field_facts]:
  "joint_param d x y = Inr vl \<Longrightarrow> good_list 6 item_nonneg d \<Longrightarrow>
   float_list vl = Inr v \<Longrightarrow> floats_in 6 float_nonneg v"
  by (auto simp: float_list_Inr list_all_iff dest: joint.floats_ok)

lemma task_list_field [field_facts]:
  "task_param d x y = Inr vl \<Longrightarrow> good_list 2 item_nonneg_or_none d \<Longrightarrow>
   float_list vl = Inr v \<Longrightarrow> floats_in 2 float_nonneg_or_none v"
  by (auto simp: float_list_Inr list_all_iff dest: task.floats_ok)

lemma time_field [field_facts]:
  assumes "time_param time t = Inr tm" and "float_field tm = Inr v"
  shows "float_in float_nonneg_or_none v"
proof -
  have "item_nonneg_or_none tm"
    using assms(1)
    by (auto simp: time_param_def rbind_Inr_iff item_nonneg_or_none_def negative_task_item_def
        Let_def)
  with assms(2) show ?thesis
    by (auto simp: float_field_Inr dest: item_nonneg_or_none_float)
qed

lemma radius_field [field_facts]:
  assumes "radius_param w radius r = Inr rd"
    and "float_field (async_radius async rd) = Inr v"
  shows "float_in float_nonneg v" and "PInt async = PInt 1 \<Longrightarrow> v = PFloat (Fin 0)"
proof -
  have "item_nonneg rd"
    using assms(1) by (auto simp: radius_param_def rbind_Inr_iff item_nonneg_def Let_def)
  then have "item_nonneg (async_radius async rd)"
    by (simp add: async_radius_def)
  with assms(2) show "float_in float_nonneg v"
    by (auto simp: float_field_Inr dest: item_nonneg_float)
  show "PInt async = PInt 1 \<Longrightarrow> v = PFloat (Fin 0)"
    using assms(2) by (auto simp: float_field_Inr async_radius_def)
qed

lemma check_two_values_Inr:
  "check_two_values a b v = Inr u \<Longrightarrow> \<exists>n. v = PInt n \<and> (n = a \<or> n = b)"
  by (auto simp: check_two_values_def rbind_Inr_iff py_type_inv)

lemma two_values_field [field_facts]:
  "check_two_values 0 1 v = Inr u \<Longrightarrow> int_field v = Inr x \<Longrightarrow> int_in zero_or_one x"
  "check_two_values 1 0 v = Inr u \<Longrightarrow> int_field v = Inr x \<Longrightarrow> int_in zero_or_one x"
  by (auto dest!: check_two_values_Inr simp: zero_or_one_def)

lemma motion_ref_Inr: "motion_ref w ref = Inr rf \<Longrightarrow> \<exists>n. rf = PInt n \<and> frame_in_range n"
  by (auto simp: motion_ref_def rbind_Inr_iff py_type_inv py_or_False_iff frame_in_range_def)

lemma ref_field [field_facts]:
  "motion_ref w ref = Inr rf \<Longrightarrow> int_field rf = Inr x \<Longrightarrow> int_in frame_in_range x"
  by (auto dest!: motion_ref_Inr)

lemma check_sol_Inr: "check_sol s = Inr u \<Longrightarrow> \<exists>n. s = PInt n \<and> DR_SOL_MIN \<le> n \<and> n \<le> DR_SOL_MAX"
  by (auto simp: check_sol_def rbind_Inr_iff py_type_inv py_or_False_iff)

lemma sol_field [field_facts]:
  "check_sol s = Inr u \<Longrightarrow> int_field s = Inr x \<Longrightarrow>
   int_in (\<lambda>n. DR_SOL_MIN \<le> n \<and> n \<le> DR_SOL_MAX) x"
  by (auto dest!: check_sol_Inr)

text \<open>Positions: six items after coercion.\<close>

lemma get_posj_items:
  assumes "get_posj pos = Inr p"
  shows "\<exists>xs. p = PPosj xs \<and> (pos_wf pos \<longrightarrow> length xs = POINT_COUNT)"
proof (cases "py_type pos = TPosj")
  case True
  with assms show ?thesis
    by (auto simp: get_posj_def rbind_Inr_iff py_type_inv pos_wf_def)
next
  case False
  with assms show ?thesis
    by (auto simp: get_posj_def rbind_Inr_iff split: if_splits dest: posj_result)
qed

lemma get_posx_items:
  assumes "get_posx pos = Inr p"
  shows "\<exists>xs. p = PPosx xs \<and> (pos_wf pos \<longrightarrow> length xs = POINT_COUNT)"
proof (cases "py_type pos = TPosx")
  case True
  with assms show ?thesis
    by (auto simp: get_posx_def rbind_Inr_iff py_type_inv pos_wf_def)
next
  case False
  with assms show ?thesis
    by (auto simp: get_posx_def rbind_Inr_iff split: if_splits dest: posx_result)
qed

lemma get_normal_pos_items:
  assumes "get_normal_pos pos ty = Inr p"
  shows "\<exists>xs. py_items p = Inr xs \<and> (pos_wf pos \<longrightarrow> length xs = POINT_COUNT)"
proof (cases "py_type pos = TPosx \<or> py_type pos = TPosj \<or> py_type pos = TNdarray")
  case True
  with assms show ?thesis
    by (auto simp: get_normal_pos_def rbind_Inr_iff py_type_inv pos_wf_def)
next
  case False
  with assms show ?thesis
    by (auto simp: get_normal_pos_def rbind_Inr_iff split: if_splits
        dest!: posx_result posj_result)
qed

lemma float_list_six:
  "float_list p = Inr v \<Longrightarrow> py_items p = Inr xs \<Longrightarrow> length xs = n \<Longrightarrow> floats_in n (\<lambda>_. True) v"
  by (auto simp: float_list_Inr list_all_iff dest: py_floats_length)

lemma posj_field [field_facts]:
  "get_posj pos = Inr p \<Longrightarrow> pos_wf pos \<Longrightarrow> float_list p = Inr v \<Longrightarrow> floats_in 6 (\<lambda>_. True) v"
  by (drule get_posj_items) (auto simp: POINT_COUNT_def intro: float_list_six)

lemma posx_field [field_facts]:
  "get_posx pos = Inr p \<Longrightarrow> pos_wf pos \<Longrightarrow> float_list p = Inr v \<Longrightarrow> floats_in 6 (\<lambda>_. True) v"
  by (drule get_posx_items) (auto simp: POINT_COUNT_def intro: float_list_six)

lemma normal_pos_field [field_facts]:
  "get_normal_pos pos ty = Inr p \<Longrightarrow> pos_wf pos \<Longrightarrow> float_list p = Inr v \<Longrightarrow>
   floats_in 6 (\<lambda>_. True) v"
  by (drule get_normal_pos_items) (auto simp: POINT_COUNT_def intro: float_list_six)

text \<open>Lists of positions as multi-arrays.\<close>

lemma list_to_multiarray_Inr:
  assumes "list_to_multiarray ps = Inr v"
    and "\<And>p. p \<in> set ps \<Longrightarrow> \<exists>xs. py_items p = Inr xs \<and> length xs = n"
  shows "multis_in n v" and "list_count v (PInt (int (length ps)))"
proof -
  obtain ms where ms: "v = PList ms"
    "map_res (\<lambda>i. rbind (py_floats i) (\<lambda>fs. Inr (PMultiArray (map PFloat fs)))) ps = Inr ms"
    using assms(1) by (auto simp: list_to_multiarray_def rbind_Inr_iff)
  have "multi_in n m" if mem: "m \<in> set ms" for m
  proof -
    obtain p fs where p: "p \<in> set ps" "py_floats p = Inr fs" "m = PMultiArray (map PFloat fs)"
      using map_res_set [OF ms(2) mem] by (auto simp: rbind_Inr_iff)
    with assms(2) [of p] show ?thesis
      by (auto simp: list_all_iff dest: py_floats_length)
  qed
  then show "multis_in n v" using ms(1) by (simp add: list_all_iff)
  show "list_count v (PInt (int (length ps)))"
    using ms by (simp add: map_res_length)
qed

end
