(* ===== verification/MotionRequests.thy ===== *)
theory MotionRequests
  imports MotionSafety
begin

text \<open>Every request a motion command builds satisfies the predicate of MotionSafety.thy.\<close>

lemma get_kargs_Cons [simp]:
  "get_kargs ((f, v) # fs) name = (if f = name then v else get_kargs fs name)"
  by (simp add: get_kargs_def)

lemmas request_simps = rbind_Inr_iff set_fields_Inr_Cons set_fields_Inr_Nil

lemma globals_okD:
  assumes "globals_ok w"
  shows "good_list 6 item_nonneg (g_velj w)" "good_list 6 item_nonneg (g_accj w)"
    "good_list 2 item_nonneg_or_none (g_velx w)" "good_list 2 item_nonneg_or_none (g_accx w)"
  using assms by (simp_all add: globals_ok_def)

lemma movej_request_ok:
  assumes "movej_request R pos vel acc time radius md ra v a t r async w = Inr fs"
    and "globals_ok w" and "pos_wf pos"
  shows "movej_ok fs"
  using assms(1) globals_okD [OF assms(2)] assms(3)
  unfolding movej_request_def movej_ok_def time_ok_def blend_ok_def
  by (clarsimp simp: request_simps simp del: set_fields.simps) (blast intro: field_facts)

lemma movejx_request_ok:
  assumes "movejx_request R pos vel acc time radius ref md ra sol v a t r async w = Inr fs"
    and "globals_ok w" and "pos_wf pos"
  shows "movejx_ok fs"
  using assms(1) globals_okD [OF assms(2)] assms(3)
  unfolding movejx_request_def movejx_ok_def movej_ok_def time_ok_def blend_ok_def
  by (clarsimp simp: request_simps simp del: set_fields.simps) (blast intro: field_facts)

lemma movel_request_ok:
  assumes "movel_request R pos vel acc time radius ref md ra v a t r async w = Inr fs"
    and "globals_ok w" and "pos_wf pos"
  shows "movel_ok fs"
  using assms(1) globals_okD [OF assms(2)] assms(3)
  unfolding movel_request_def movel_ok_def task_pairs_ok_def time_ok_def blend_ok_def
  by (clarsimp simp: request_simps simp del: set_fields.simps) (blast intro: field_facts)

section \<open>Circles and splines\<close>

lemma block_nonneg:
  assumes "choose_param d n scalar temp = Inr v" and "check_items negative_item v = Inr u"
    and "\<exists>xs. d = PList xs \<and> length xs = n"
    and "\<And>x. \<exists>ys. scalar x = PList ys \<and> length ys = n"
  shows "good_list n item_nonneg v"
proof -
  have "\<exists>xs. v = PList xs \<and> length xs = n"
    using choose_param_cases [OF assms(1)] assms(3) assms(4) [of temp]
    by (auto simp: is_list_of_len_iff)
  with check_items_Inr [OF assms(2)] show ?thesis
    by (auto simp: good_list_def item_nonneg_def negative_item_def)
qed

lemma angle_good:
  assumes "angle_param angle an = Inr v"
  shows "good_list 2 item_nonneg v"
proof -
  obtain temp where
    "choose_param (PList [PInt 0, PInt 0]) 2 (\<lambda>x. PList [x, PInt 0]) temp = Inr v"
    "check_items negative_item v = Inr ()"
    using assms by (auto simp: angle_param_def rbind_Inr_iff)
  then show ?thesis by (rule block_nonneg) simp_all
qed

lemma angle_field [field_facts]:
  assumes "angle_param angle an = Inr v" and "py_index v i = Inr u" and "float_field u = Inr x"
  shows "float_in float_nonneg x"
proof -
  have "item_nonneg u"
    using angle_good [OF assms(1)] assms(2)
    by (auto simp: good_list_def py_index_def split: if_splits)
  with assms(3) show ?thesis
    by (auto simp: float_field_Inr dest: item_nonneg_float)
qed

lemma two_pos_field [field_facts]:
  assumes "get_normal_pos pos1 ty = Inr p1" and "get_normal_pos pos2 ty = Inr p2"
    and "pos_wf pos1" and "pos_wf pos2" and "list_to_multiarray [p1, p2] = Inr v"
  shows "multis_in 6 v"
  using assms get_normal_pos_items [OF assms(1)] get_normal_pos_items [OF assms(2)]
  by (intro list_to_multiarray_Inr(1) [OF assms(5)]) (auto simp: POINT_COUNT_def)

lemma movec_request_ok:
  assumes "movec_request R pos1 pos2 vel acc time radius ref md angle ra v a t r an async w = Inr fs"
    and "globals_ok w" and "pos_wf pos1" and "pos_wf pos2"
  shows "movec_ok fs"
  using assms(1) globals_okD [OF assms(2)] assms(3,4)
  unfolding movec_request_def movec_ok_def task_pairs_ok_def time_ok_def blend_ok_def
  by (clarsimp simp: request_simps simp del: set_fields.simps) (blast intro: field_facts)

definition poss_wf :: "pyval \<Rightarrow> bool" where
  "poss_wf l = (case l of PList xs \<Rightarrow> list_all pos_wf xs | _ \<Rightarrow> True)"

lemma check_pos_list_items:
  assumes "check_pos_list ty l = Inr ps" and "poss_wf l" and "ty = TPosj \<or> ty = TPosx"
    and "p \<in> set ps"
  shows "\<exists>xs. py_items p = Inr xs \<and> length xs = POINT_COUNT"
proof -
  have "py_type p = ty" and "pos_wf p"
    using assms
    by (auto simp: check_pos_list_def rbind_Inr_iff for_each_Inr py_type_inv poss_wf_def
        list_all_iff)
  with assms(3) show ?thesis
    by (auto simp: py_type_inv pos_wf_def)
qed

lemma pos_list_field [field_facts]:
  assumes "check_pos_list ty l = Inr ps" and "poss_wf l" and "ty = TPosj \<or> ty = TPosx"
    and "list_to_multiarray ps = Inr v"
  shows "multis_in 6 v" and "list_count v (PInt (int (length ps)))"
  using list_to_multiarray_Inr [OF assms(4), of 6] check_pos_list_items [OF assms(1-3)]
  by (simp_all add: POINT_COUNT_def)

lemma movesj_request_ok:
  assumes "movesj_request R pos_list vel acc time md v a t async w = Inr fs"
    and "globals_ok w" and "poss_wf pos_list"
  shows "movesj_ok fs"
  using assms(1) globals_okD [OF assms(2)] assms(3)
  unfolding movesj_request_def movesj_ok_def time_ok_def
  by (clarsimp simp: request_simps simp del: set_fields.simps) (blast intro: field_facts)

lemma movesx_request_ok:
  assumes "movesx_request R pos_list vel acc time ref md vel_opt v a t async w = Inr fs"
    and "globals_ok w" and "poss_wf pos_list"
  shows "movesx_ok fs"
  using assms(1) globals_okD [OF assms(2)] assms(3)
  unfolding movesx_request_def movesx_ok_def task_pairs_ok_def time_ok_def
  by (clarsimp simp: request_simps simp del: set_fields.simps) (blast intro: field_facts)

section \<open>Blending\<close>

text \<open>A segment as the constructor of \<^verbatim>\<open>posb\<close> leaves it.\<close>

definition posx_six :: "pyval \<Rightarrow> bool" where
  "posx_six p = (case p of PPosx xs \<Rightarrow> length xs = POINT_COUNT | _ \<Rightarrow> False)"

definition posb_wf :: "pyval \<Rightarrow> bool" where
  "posb_wf s = (case s of
       PPosb ty p1 p2 r \<Rightarrow> posx_six p1 \<and> (p2 = PNone \<or> posx_six p2) \<and>
         ty \<noteq> PNone \<and> r \<noteq> PNone \<and> is_int ty \<and> is_int_or_float r
     | _ \<Rightarrow> True)"

definition segs_wf :: "pyval \<Rightarrow> bool" where
  "segs_wf l = (case l of PList xs \<Rightarrow> list_all posb_wf xs | _ \<Rightarrow> True)"

lemma get_posx_six: "get_posx pos = Inr p \<Longrightarrow> pos_wf pos \<Longrightarrow> posx_six p"
  by (drule get_posx_items) (auto simp: posx_six_def)

lemma posb_init_wf:
  assumes "posb_init ty p1 p2 r = Inr s" and "pos_wf p1" and "pos_wf p2"
  shows "posb_wf s"
  using assms
  by (auto simp: posb_init_def rbind_Inr_iff posb_wf_def py_type_inv
      split: if_splits dest: get_posx_six)

lemma posx_sixE: "posx_six p \<Longrightarrow> \<exists>xs. p = PPosx xs \<and> length xs = 6"
  by (cases p) (auto simp: posx_six_def POINT_COUNT_def)

lemma is_int_or_float_not_none: "is_int_or_float v \<Longrightarrow> py_eq_none v = Inr False"
  by (auto simp: py_type_inv)

lemma ros_segment_items:
  assumes "posb_wf s" and "posb_to_list s = Inr l" and "ros_segment l = Inr v"
  shows "\<exists>xs. py_items v = Inr xs \<and> length xs = 14"
proof -
  obtain ty p1 p2 r where s: "s = PPosb ty p1 p2 r" "l = [ty, p1, p2, r]"
    using assms(2) by (cases s) (auto simp: posb_to_list_def)
  have p1: "\<exists>xs. p1 = PPosx xs \<and> length xs = 6"
    and p2: "p2 = PNone \<or> (\<exists>xs. p2 = PPosx xs \<and> length xs = 6)"
    and n: "py_eq_none ty = Inr False" "py_eq_none r = Inr False"
    using assms(1) by (auto simp: s posb_wf_def py_type_inv dest: posx_sixE)
  show ?thesis
    using assms(3) p1 p2 n
    by (auto simp: s ros_segment_def fill_none_def list_concat_def isinstance_list_def
        POINT_COUNT_def)
qed

lemma segments_items:
  assumes "moveb_segments l = Inr segs" and "segs_wf l" and "p \<in> set segs"
  shows "\<exists>xs. py_items p = Inr xs \<and> length xs = 14"
proof -
  obtain ss ls where l: "l = PList ss" "map_res posb_to_list ss = Inr ls"
    "map_res ros_segment ls = Inr segs"
    using assms(1) by (auto simp: moveb_segments_def rbind_Inr_iff py_type_inv)
  obtain e where e: "e \<in> set ls" "ros_segment e = Inr p"
    using map_res_set [OF l(3) assms(3)] by auto
  obtain s where "s \<in> set ss" "posb_to_list s = Inr e"
    using map_res_set [OF l(2) e(1)] by auto
  with assms(2) e(2) l(1) show ?thesis
    by (auto simp: segs_wf_def list_all_iff intro: ros_segment_items)
qed

lemma segments_field [field_facts]:
  assumes "moveb_segments l = Inr segs" and "segs_wf l" and "list_to_multiarray segs = Inr v"
  shows "multis_in 14 v" and "list_count v (PInt (int (length segs)))"
  using list_to_multiarray_Inr [OF assms(3)] segments_items [OF assms(1,2)] by blast+

lemma moveb_request_ok:
  assumes "moveb_request R seg_list vel acc ref time md v a t async w = Inr fs"
    and "globals_ok w" and "segs_wf seg_list"
  shows "moveb_ok fs"
  using assms(1) globals_okD [OF assms(2)] assms(3)
  unfolding moveb_request_def moveb_ok_def task_pairs_ok_def
  by (clarsimp simp: request_simps simp del: set_fields.simps) (blast intro: field_facts)

section \<open>Spiral and periodic motions\<close>

lemma spiral_good:
  assumes "spiral_param d x y = Inr v" and "good_list 2 item_nonneg_or_none d"
  shows "good_list 2 item_nonneg v"
proof -
  obtain temp where "choose_param d 2 (\<lambda>x. PList (replicate DR_VELX_DT_LEN x)) temp = Inr v"
    "check_items negative_item v = Inr ()"
    using assms(1) by (auto simp: spiral_param_def rbind_Inr_iff)
  then show ?thesis
    using assms(2) by (intro block_nonneg) (auto simp: good_list_def)
qed

lemma spiral_list_field [field_facts]:
  assumes "spiral_param d x y = Inr vl" and "good_list 2 item_nonneg_or_none d"
    and "float_list vl = Inr v"
  shows "floats_in 2 float_nonneg v"
proof -
  obtain xs where xs: "vl = PList xs" "length xs = 2" "\<forall>x \<in> set xs. item_nonneg x"
    using spiral_good [OF assms(1,2)] by (auto simp: good_list_def)
  obtain fs where fs: "map_res py_float xs = Inr fs" "v = PList (map PFloat fs)"
    using assms(3) xs(1) by (auto simp: float_list_Inr py_floats_def)
  have "\<forall>f \<in> set fs. float_nonneg f"
    using map_res_set [OF fs(1)] xs(3) item_nonneg_float by blast
  then show ?thesis
    using fs xs(2) by (simp add: map_res_length list_all_iff)
qed

lemma positive_field [field_facts]:
  assumes "check_positive x = Inr u" and "float_field x = Inr v"
  shows "float_in float_nonneg v"
proof -
  have "item_nonneg x"
    using assms(1)
    by (auto simp: check_positive_def check_num_def rbind_Inr_iff item_nonneg_def py_type_inv
        fle_def)
  with assms(2) show ?thesis
    by (auto simp: float_field_Inr dest: item_nonneg_float)
qed

lemma spiral_request_ok:
  assumes "spiral_request R rev_n rmax lmax vel acc time axis ref v a t async w = Inr fs"
    and "globals_ok w"
  shows "spiral_ok fs"
  using assms(1) globals_okD [OF assms(2)]
  unfolding spiral_request_def spiral_ok_def time_ok_def
  apply (clarsimp simp: request_simps simp del: set_fields.simps)
  apply (intro conjI)
  apply (auto simp: py_type_inv py_and_False_iff py_or_False_iff intro: field_facts)
  done

lemma periodic_items:
  "period_param p = Inr v \<Longrightarrow> \<exists>xs. py_items v = Inr xs \<and> length xs = 6"
  by (auto simp: period_param_def rbind_Inr_iff py_type_inv py_len_def POINT_COUNT_def
      split: if_splits)

lemma period_field [field_facts]:
  "period_param p = Inr per \<Longrightarrow> float_list per = Inr v \<Longrightarrow> floats_in 6 (\<lambda>_. True) v"
  by (drule periodic_items) (auto intro: float_list_six)

lemma amp_field [field_facts]:
  "py_type amp = TList \<Longrightarrow> py_len amp = Inr POINT_COUNT \<Longrightarrow> float_list amp = Inr v \<Longrightarrow>
   floats_in 6 (\<lambda>_. True) v"
  by (auto simp: py_type_inv py_len_def POINT_COUNT_def intro: float_list_six)

lemma nonneg_or_default_item:
  "nonneg_or_default d x = Inr v \<Longrightarrow> item_nonneg d \<Longrightarrow> item_nonneg v"
  by (auto simp: nonneg_or_default_def rbind_Inr_iff item_nonneg_def split: if_splits)

lemma atime_field [field_facts]:
  "nonneg_or_default (PFloat (Fin 0)) x = Inr u \<Longrightarrow> float_field u = Inr v \<Longrightarrow>
   float_in float_nonneg v"
  by (drule nonneg_or_default_item) (auto simp: float_field_Inr dest: item_nonneg_float)

lemma repeat_field [field_facts]:
  assumes "nonneg_or_default (PInt 1) x = Inr u" and "int_field u = Inr v"
  shows "int_in (\<lambda>n. 0 \<le> n) v"
proof -
  have "item_nonneg u" using nonneg_or_default_item [OF assms(1)] by simp
  moreover have "is_int_or_float u"
    using assms(1)
    by (auto simp: nonneg_or_default_def rbind_Inr_iff check_num_def split: if_splits)
  ultimately show ?thesis
    using assms(2)
    by (auto simp: py_type_inv int_field_def rbind_Inr_iff int_of_float_def item_nonneg_def
        split: pyfloat.splits if_splits)
qed

lemma periodic_ref_field [field_facts]:
  "periodic_ref ref = Inr rf \<Longrightarrow> int_field rf = Inr x \<Longrightarrow> int_in frame_in_range x"
  by (auto simp: periodic_ref_def rbind_Inr_iff py_type_inv py_or_False_iff frame_in_range_def
      split: if_splits)

lemma periodic_request_ok:
  assumes "periodic_request R amp period atime repeat ref async w = Inr fs"
  shows "periodic_ok fs"
  using assms
  unfolding periodic_request_def periodic_ok_def
  by (clarsimp simp: request_simps simp del: set_fields.simps) (blast intro: field_facts)

end
