(* ===== verification/Sessions.thy ===== *)
theory Sessions
  imports Prelude
begin

text \<open>
  Programs that use a component: they call its operations one after the other, an exception
  leaves one call and the program may go on with the next. A component meets the contract below
  when every call keeps the component's invariant and does only acceptable things to the
  outside; then the same holds of every program. The motion interface and the two socket modules
  are instances.
\<close>

text \<open>\<^const>\<open>None\<close> when some call never returns.\<close>

fun run_all :: "('c \<Rightarrow> 's \<Rightarrow> ('r \<times> 's) option) \<Rightarrow> 'c list \<Rightarrow> 's \<Rightarrow> 's option" where
  "run_all run [] s = Some s"
| "run_all run (c # cs) s =
     (case run c s of None \<Rightarrow> None | Some (_, s') \<Rightarrow> run_all run cs s')"

locale session =
  fixes run :: "'c \<Rightarrow> 's \<Rightarrow> ('r \<times> 's) option"
    and events :: "'s \<Rightarrow> 'e list"
    and inv :: "'s \<Rightarrow> bool"
    and wf :: "'c \<Rightarrow> bool"
    and ok :: "'e \<Rightarrow> bool"
  assumes step: "run c s = Some (r, s') \<Longrightarrow> inv s \<Longrightarrow> wf c \<Longrightarrow>
    inv s' \<and> (\<exists>es. events s' = events s @ es \<and> list_all ok es)"
begin

lemma run_all_safe:
  "run_all run cs s = Some s' \<Longrightarrow> inv s \<Longrightarrow> list_all wf cs \<Longrightarrow>
   inv s' \<and> (\<exists>es. events s' = events s @ es \<and> list_all ok es)"
proof (induction cs arbitrary: s)
  case Nil
  then show ?case by auto
next
  case (Cons c cs)
  then obtain r s1 where s1: "run c s = Some (r, s1)" "run_all run cs s1 = Some s'"
    by (auto split: option.splits)
  with Cons.prems step [OF s1(1)] obtain es1
    where e1: "inv s1" "events s1 = events s @ es1" "list_all ok es1"
    by auto
  with Cons.IH [OF s1(2)] Cons.prems(3) obtain es2
    where "inv s'" "events s' = events s1 @ es2" "list_all ok es2"
    by auto
  with e1 show ?case by auto
qed

lemma run_all_inv:
  "run_all run cs s = Some s' \<Longrightarrow> inv s \<Longrightarrow> list_all wf cs \<Longrightarrow> inv s'"
  using run_all_safe by blast

lemma run_all_events:
  assumes "run_all run cs s = Some s'" and "inv s" and "list_all wf cs"
    and "e \<in> set (events s')"
  shows "e \<in> set (events s) \<or> ok e"
  using run_all_safe [OF assms(1-3)] assms(4) by (auto simp: list_all_iff)

end

end
