(* ===== verification/MotionSession.thy ===== *)
theory MotionSession
  imports MotionRequests Sessions
begin

text \<open>
  Sequences of calls of the motion interface, as a user program makes them: any exception leaves
  one call and the program may go on with the next. The effect of a service function on the
  world, the calls and what they may ask of the controller, and the interpretation of the
  contract of sessions on them.
\<close>

section \<open>The effect of a service function\<close>

definition only_polls :: "event list \<Rightarrow> bool" where
  "only_polls es \<longleftrightarrow> (\<forall>e \<in> set es. \<exists>srv b. e = Polled srv b)"

text \<open>What waiting for a service leaves in the trace: failed polls of it and a last, successful one.\<close>

definition polls_for :: "bool \<Rightarrow> string \<Rightarrow> event list \<Rightarrow> bool" where
  "polls_for waits srv ps \<longleftrightarrow>
     (if waits then \<exists>n. ps = replicate n (Polled srv False) @ [Polled srv True] else ps = [])"

lemma only_polls_poll: "only_polls (replicate n (Polled srv False) @ [Polled srv True])"
  by (auto simp: only_polls_def)

lemma polls_for_only: "polls_for waits srv ps \<Longrightarrow> only_polls ps"
  using only_polls_poll by (cases waits) (auto simp: polls_for_def only_polls_def [of "[]"])

lemma await_service_polls:
  assumes "await_service R waits srv w = Some (r, w')"
  shows "r = Inr () \<and> (\<exists>ps. w' = w\<lparr>trace := trace w @ ps\<rparr> \<and> polls_for waits srv ps)"
proof (cases waits)
  case True
  with assms obtain "r = Inr ()" "wait_for_service R srv w = Some w'"
    by (auto simp: await_service_def split: option.splits)
  with wait_for_service_result [OF this(2)] True show ?thesis
    by (auto simp: polls_for_def)
next
  case False
  with assms have "r = Inr () \<and> w' = w\<lparr>trace := trace w @ []\<rparr>"
    by (simp add: await_service_def)
  with False show ?thesis by (simp add: polls_for_def)
qed

lemma await_service_effect:
  assumes "await_service R waits srv w = Some (r, w')"
  shows "r = Inr () \<and> (\<exists>es. w' = w\<lparr>trace := trace w @ es\<rparr> \<and> only_polls es)"
  using await_service_polls [OF assms] polls_for_only by blast

lemma note_exc_cases: "note_exc e w = w \<or> note_exc e w = log Shutdown w"
  by (simp add: note_exc_def)

lemma lift_res_effect:
  "lift_res r w = Some (r', w') \<Longrightarrow> r' = r \<and> (w' = w \<or> w' = log Shutdown w)"
  by (cases r) (auto simp: note_exc_def)

lemma call_service_effect:
  assumes "call_service R srv fs before on_result w = Some (r, w')"
  shows "w' = log (Called srv fs) w \<or> w' = log Shutdown (log (Called srv fs) w)"
  using assms lift_res_effect
  by (auto simp: call_service_def Let_def split: reply.splits)

text \<open>A successful call of \<open>call_service\<close> has shut nothing down.\<close>

lemma call_service_Inr_effect:
  assumes "call_service R srv fs before on_result w = Some (Inr x, w')"
  shows "w' = log (Called srv fs) w"
  using assms
  by (auto simp: call_service_def Let_def lift_res_def split: reply.splits sum.splits)

lemma return_ret_effect: "return_ret ret w = Some (r, w') \<Longrightarrow> w' = w"
  by (auto simp: return_ret_def lift_res_def note_exc_def split: option.splits)

lemma service_fun_raises:
  "request w = Inl e \<Longrightarrow>
   service_fun R waits srv request before on_result w = Some (Inl e, note_exc e w)"
  by (simp add: service_fun_def abind_def with_globals_def)

lemma service_fun_effect_polls:
  assumes "service_fun R waits srv request before on_result w = Some (r, w')"
  shows "(\<exists>e. request w = Inl e \<and> r = Inl e \<and> w' = note_exc e w) \<or>
         (\<exists>fs ps sd. request w = Inr fs \<and> polls_for waits srv ps \<and> (sd = [] \<or> sd = [Shutdown]) \<and>
            w' = w\<lparr>trace := trace w @ ps @ Called srv fs # sd\<rparr>)"
proof (cases "request w")
  case (Inl e)
  with assms show ?thesis
    by (auto simp: service_fun_def abind_Some with_globals_def)
next
  case (Inr fs)
  with assms obtain r1 w1 where w1: "await_service R waits srv w = Some (r1, w1)"
    and rest: "r1 = Inr () \<Longrightarrow>
      abind (call_service R srv fs before on_result) return_ret w1 = Some (r, w')"
    by (auto simp: service_fun_def abind_Some with_globals_def)
  from await_service_polls [OF w1] obtain ps
    where ps: "r1 = Inr ()" "w1 = w\<lparr>trace := trace w @ ps\<rparr>" "polls_for waits srv ps"
    by blast
  have "w' = log (Called srv fs) w1 \<or> w' = log Shutdown (log (Called srv fs) w1)"
    using rest [OF ps(1)]
    by (auto simp: abind_Some dest: call_service_effect call_service_Inr_effect return_ret_effect)
  then have "w' = w\<lparr>trace := trace w @ ps @ Called srv fs # []\<rparr> \<or>
             w' = w\<lparr>trace := trace w @ ps @ Called srv fs # [Shutdown]\<rparr>"
    by (auto simp: ps(2) log_def)
  with Inr ps(3) show ?thesis by blast
qed

lemma service_fun_effect:
  assumes "service_fun R waits srv request before on_result w = Some (r, w')"
  shows "(\<exists>e. request w = Inl e \<and> r = Inl e \<and> w' = note_exc e w) \<or>
         (\<exists>fs ps sd. request w = Inr fs \<and> only_polls ps \<and> (sd = [] \<or> sd = [Shutdown]) \<and>
            w' = w\<lparr>trace := trace w @ ps @ Called srv fs # sd\<rparr>)"
  using service_fun_effect_polls [OF assms] polls_for_only by blast

section \<open>The motion interface\<close>

text \<open>One constructor per function; the first argument of a motion is true for the \<^verbatim>\<open>a...\<close> variant.\<close>

datatype api_call =
    CSetVelj pyval
  | CSetAccj pyval
  | CSetVelx pyval pyval
  | CSetAccx pyval pyval
  | CSetRefCoord pyval
  | CMovej bool pyval pyval pyval pyval pyval pyval pyval pyval pyval pyval pyval
  | CMovejx bool pyval pyval pyval pyval pyval pyval pyval pyval pyval pyval pyval pyval pyval
  | CMovel bool pyval pyval pyval pyval pyval pyval pyval pyval pyval pyval pyval pyval
  | CMovec bool pyval pyval pyval pyval pyval pyval pyval pyval pyval pyval pyval pyval pyval
      pyval pyval
  | CMovesj bool pyval pyval pyval pyval pyval pyval pyval pyval
  | CMovesx bool pyval pyval pyval pyval pyval pyval pyval pyval pyval pyval
  | CMoveb bool pyval pyval pyval pyval pyval pyval pyval pyval pyval
  | CMoveSpiral bool pyval pyval pyval pyval pyval pyval pyval pyval pyval pyval pyval
  | CMovePeriodic bool pyval pyval pyval pyval pyval

fun run_api :: "ros \<Rightarrow> api_call \<Rightarrow> pyval act" where
  "run_api R (CSetVelj v) = set_velj v"
| "run_api R (CSetAccj v) = set_accj v"
| "run_api R (CSetVelx v1 v2) = set_velx v1 v2"
| "run_api R (CSetAccx v1 v2) = set_accx v1 v2"
| "run_api R (CSetRefCoord c) = set_ref_coord R c"
| "run_api R (CMovej asyn pos vel acc time radius md ra v a t r) =
     (if asyn then amovej else movej) R pos vel acc time radius md ra v a t r"
| "run_api R (CMovejx asyn pos vel acc time radius ref md ra sol v a t r) =
     (if asyn then amovejx else movejx) R pos vel acc time radius ref md ra sol v a t r"
| "run_api R (CMovel asyn pos vel acc time radius ref md ra v a t r) =
     (if asyn then amovel else movel) R pos vel acc time radius ref md ra v a t r"
| "run_api R (CMovec asyn pos1 pos2 vel acc time radius ref md angle ra v a t r an) =
     (if asyn then amovec else movec) R pos1 pos2 vel acc time radius ref md angle ra v a t r an"
| "run_api R (CMovesj asyn l vel acc time md v a t) =
     (if asyn then amovesj else movesj) R l vel acc time md v a t"
| "run_api R (CMovesx asyn l vel acc time ref md vel_opt v a t) =
     (if asyn then amovesx else movesx) R l vel acc time ref md vel_opt v a t"
| "run_api R (CMoveb asyn l vel acc ref time md v a t) =
     (if asyn then amoveb else moveb) R l vel acc ref time md v a t"
| "run_api R (CMoveSpiral asyn rev_n rmax lmax vel acc time axis ref v a t) =
     (if asyn then amove_spiral else move_spiral) R rev_n rmax lmax vel acc time axis ref v a t"
| "run_api R (CMovePeriodic asyn amp period atime repeat ref) =
     (if asyn then amove_periodic else move_periodic) R amp period atime repeat ref"

text \<open>
  The nine motion commands have one shape: a request, a service that is awaited or not, and the
  success code. The other calls are the setters of the module's globals.
\<close>

fun is_motion :: "api_call \<Rightarrow> bool" where
  "is_motion (CSetVelj _) = False"
| "is_motion (CSetAccj _) = False"
| "is_motion (CSetVelx _ _) = False"
| "is_motion (CSetAccx _ _) = False"
| "is_motion (CSetRefCoord _) = False"
| "is_motion _ = True"

fun service_of :: "api_call \<Rightarrow> string" where
  "service_of (CMovej _ _ _ _ _ _ _ _ _ _ _ _) = ''motion/move_joint''"
| "service_of (CMovejx _ _ _ _ _ _ _ _ _ _ _ _ _ _) = ''motion/move_jointx''"
| "service_of (CMovel _ _ _ _ _ _ _ _ _ _ _ _ _) = ''motion/move_line''"
| "service_of (CMovec _ _ _ _ _ _ _ _ _ _ _ _ _ _ _ _) = ''motion/move_circle''"
| "service_of (CMovesj _ _ _ _ _ _ _ _ _) = ''motion/move_spline_joint''"
| "service_of (CMovesx _ _ _ _ _ _ _ _ _ _ _) = ''motion/move_spline_task''"
| "service_of (CMoveb _ _ _ _ _ _ _ _ _ _) = ''motion/move_blending''"
| "service_of (CMoveSpiral _ _ _ _ _ _ _ _ _ _ _ _) = ''motion/move_spiral''"
| "service_of (CMovePeriodic _ _ _ _ _ _) = ''motion/move_periodic''"
| "service_of _ = ''motion/set_ref_coord''"

fun waits_of :: "api_call \<Rightarrow> bool" where
  "waits_of (CMovesj _ _ _ _ _ _ _ _ _) = False"
| "waits_of (CMovesx _ _ _ _ _ _ _ _ _ _ _) = False"
| "waits_of (CMoveb _ _ _ _ _ _ _ _ _ _) = False"
| "waits_of _ = True"

definition async_code :: "bool \<Rightarrow> int" where
  "async_code asyn = (if asyn then 1 else 0)"

fun call_request :: "ros \<Rightarrow> api_call \<Rightarrow> world \<Rightarrow> fields res" where
  "call_request R (CMovej asyn pos vel acc time radius md ra v a t r) =
     movej_request R pos vel acc time radius md ra v a t r (async_code asyn)"
| "call_request R (CMovejx asyn pos vel acc time radius ref md ra sol v a t r) =
     movejx_request R pos vel acc time radius ref md ra sol v a t r (async_code asyn)"
| "call_request R (CMovel asyn pos vel acc time radius ref md ra v a t r) =
     movel_request R pos vel acc time radius ref md ra v a t r (async_code asyn)"
| "call_request R (CMovec asyn pos1 pos2 vel acc time radius ref md angle ra v a t r an) =
     movec_request R pos1 pos2 vel acc time radius ref md angle ra v a t r an (async_code asyn)"
| "call_request R (CMovesj asyn l vel acc time md v a t) =
     movesj_request R l vel acc time md v a t (async_code asyn)"
| "call_request R (CMovesx asyn l vel acc time ref md vel_opt v a t) =
     movesx_request R l vel acc time ref md vel_opt v a t (async_code asyn)"
| "call_request R (CMoveb asyn l vel acc ref time md v a t) =
     moveb_request R l vel acc ref time md v a t (async_code asyn)"
| "call_request R (CMoveSpiral asyn rev_n rmax lmax vel acc time axis ref v a t) =
     spiral_request R rev_n rmax lmax vel acc time axis ref v a t (async_code asyn)"
| "call_request R (CMovePeriodic asyn amp period atime repeat ref) =
     periodic_request R amp period atime repeat ref (async_code asyn)"
| "call_request R _ = (\<lambda>_. Inr [])"

lemmas motion_defs =
  movej_def amovej_def movej_impl_def movejx_def amovejx_def movejx_impl_def
  movel_def amovel_def movel_impl_def movec_def amovec_def movec_impl_def
  movesj_def amovesj_def movesj_impl_def movesx_def amovesx_def movesx_impl_def
  moveb_def amoveb_def moveb_impl_def move_spiral_def amove_spiral_def move_spiral_impl_def
  move_periodic_def amove_periodic_def move_periodic_impl_def

lemma run_api_motion:
  "is_motion c \<Longrightarrow>
   run_api R c = service_fun R (waits_of c) (service_of c) (call_request R c) None success_code"
  by (cases c) (auto simp: motion_defs async_code_def fun_eq_iff)

text \<open>Objects of the position classes are as their constructors made them.\<close>

fun call_wf :: "api_call \<Rightarrow> bool" where
  "call_wf (CMovej _ pos _ _ _ _ _ _ _ _ _ _) = pos_wf pos"
| "call_wf (CMovejx _ pos _ _ _ _ _ _ _ _ _ _ _ _) = pos_wf pos"
| "call_wf (CMovel _ pos _ _ _ _ _ _ _ _ _ _ _) = pos_wf pos"
| "call_wf (CMovec _ pos1 pos2 _ _ _ _ _ _ _ _ _ _ _ _ _) = (pos_wf pos1 \<and> pos_wf pos2)"
| "call_wf (CMovesj _ l _ _ _ _ _ _ _) = poss_wf l"
| "call_wf (CMovesx _ l _ _ _ _ _ _ _ _ _) = poss_wf l"
| "call_wf (CMoveb _ l _ _ _ _ _ _ _ _) = segs_wf l"
| "call_wf _ = True"

text \<open>What the controller may be asked, by service.\<close>

definition request_ok :: "string \<Rightarrow> fields \<Rightarrow> bool" where
  "request_ok srv fs =
     ((srv = ''motion/move_joint'' \<longrightarrow> movej_ok fs) \<and>
      (srv = ''motion/move_jointx'' \<longrightarrow> movejx_ok fs) \<and>
      (srv = ''motion/move_line'' \<longrightarrow> movel_ok fs) \<and>
      (srv = ''motion/move_circle'' \<longrightarrow> movec_ok fs) \<and>
      (srv = ''motion/move_spline_joint'' \<longrightarrow> movesj_ok fs) \<and>
      (srv = ''motion/move_spline_task'' \<longrightarrow> movesx_ok fs) \<and>
      (srv = ''motion/move_blending'' \<longrightarrow> moveb_ok fs) \<and>
      (srv = ''motion/move_spiral'' \<longrightarrow> spiral_ok fs) \<and>
      (srv = ''motion/move_periodic'' \<longrightarrow> periodic_ok fs) \<and>
      (srv = ''motion/set_ref_coord'' \<longrightarrow> int_in valid_coord (fld fs ''coord'')))"

fun event_ok :: "event \<Rightarrow> bool" where
  "event_ok (Called srv fs) = request_ok srv fs"
| "event_ok _ = True"

section \<open>Every call keeps the invariant\<close>

lemma service_fun_step:
  assumes "service_fun R waits srv request before on_result w = Some (r, w')"
    and "globals_ok w" and "\<And>fs. request w = Inr fs \<Longrightarrow> request_ok srv fs"
  shows "globals_ok w' \<and> (\<exists>es. trace w' = trace w @ es \<and> list_all event_ok es)"
proof -
  from service_fun_effect [OF assms(1)] consider
    (raised) e where "w' = note_exc e w"
  | (called) fs ps sd where "request w = Inr fs" "only_polls ps" "sd = [] \<or> sd = [Shutdown]"
      "w' = w\<lparr>trace := trace w @ ps @ Called srv fs # sd\<rparr>"
    by blast
  then show ?thesis
  proof cases
    case raised
    with assms(2) show ?thesis
      by (auto simp: note_exc_def globals_ok_def)
  next
    case called
    have "list_all event_ok ps"
      using called(2) by (auto simp: only_polls_def list_all_iff)
    with called(3) assms(3) [OF called(1)] have "list_all event_ok (ps @ Called srv fs # sd)"
      by auto
    moreover have "globals_ok w'"
      using called(4) assms(2) by (simp add: globals_ok_def)
    ultimately show ?thesis using called(4) by auto
  qed
qed

lemma py_le_lt: "py_le x 0 = Inr False \<Longrightarrow> py_lt x 0 = Inr False"
  by (cases x)
    (auto simp: py_le_def py_lt_def py_cmp_def fle_def array_truth_def split: list.splits)

lemma velj_value_good:
  assumes "velj_value v = Inr l"
  shows "good_list 6 item_nonneg l"
  using assms
  by (auto simp: velj_value_def rbind_Inr_iff for_each_Inr good_list_def item_nonneg_def
      is_list_of_len_iff POINT_COUNT_def py_le_lt split: if_splits)

lemma accj_value_good:
  assumes "accj_value v = Inr l"
  shows "good_list 6 item_nonneg l"
  using assms
  by (auto simp: accj_value_def rbind_Inr_iff for_each_Inr good_list_def item_nonneg_def
      is_list_of_len_iff POINT_COUNT_def py_le_lt split: if_splits)

lemma task_pair_value_good:
  assumes "task_pair_value x1 x2 = Inr l"
  shows "good_list 2 item_nonneg_or_none l"
proof -
  have "l = PList [x1, x2]" "py_le x1 0 = Inr False"
    and x2: "py_and (py_ne x2 DR_COND_NONE) (py_le x2 0) = Inr False"
    and num: "is_int_or_float x2"
    using assms by (auto simp: task_pair_value_def rbind_Inr_iff)
  moreover from x2 num have "item_nonneg_or_none x2"
    by (auto simp: item_nonneg_or_none_def negative_task_item_def py_type_inv fle_def)
  ultimately show ?thesis
    by (auto simp: good_list_def item_nonneg_or_none_def negative_task_item_def py_le_lt)
qed

lemma set_global_step:
  assumes "abind (lift_res v) (\<lambda>l. abind (update_world (f l)) (\<lambda>_. lift_res (Inr (PInt 0)))) w
             = Some (r, w')"
    and "globals_ok w"
    and "\<And>l. v = Inr l \<Longrightarrow> globals_ok (f l w) \<and> trace (f l w) = trace w"
  shows "globals_ok w' \<and> (\<exists>es. trace w' = trace w @ es \<and> list_all event_ok es)"
proof (cases v)
  case (Inl e)
  with assms show ?thesis by (auto simp: abind_def note_exc_def)
next
  case (Inr l)
  with assms show ?thesis by (auto simp: abind_def update_world_def)
qed

lemma check_coord_Inr: "check_coord c = Inr u \<Longrightarrow> int_in valid_coord c"
  by (auto simp: check_coord_def outside_user_coords_def rbind_Inr_iff py_type_inv
      py_and_False_iff py_or_False_iff valid_coord_def)

lemma set_ref_coord_step:
  assumes "set_ref_coord R c w = Some (r, w')" and "globals_ok w"
  shows "globals_ok w' \<and> (\<exists>es. trace w' = trace w @ es \<and> list_all event_ok es)"
proof (cases "rbind (check_coord c) (\<lambda>_. set_fields R ''motion/set_ref_coord'' [(''coord'', Inr c)])")
  case (Inl e)
  with assms show ?thesis
    by (auto simp: set_ref_coord_def abind_def with_globals_def note_exc_def)
next
  case (Inr fs)
  then have c: "int_in valid_coord c" and fs: "fs = [(''coord'', c)]"
    by (auto simp: rbind_Inr_iff split: if_splits dest: check_coord_Inr)
  have ok: "event_ok (Called ''motion/set_ref_coord'' fs)"
    using c fs by (simp add: request_ok_def)
  have keep: "globals_ok (log e w)" "globals_ok (log e (log e' w))"
    "globals_ok ((log e w)\<lparr>g_coord := c\<rparr>)" for e e'
    using assms(2) c by (simp_all add: globals_ok_def log_def)
  from Inr assms(1) obtain x w1
    where w1: "call_service R ''motion/set_ref_coord'' fs None success_code w = Some (x, w1)"
      and rest: "(\<exists>e. x = Inl e \<and> w' = w1) \<or> (\<exists>ret. x = Inr ret \<and> w' = w1\<lparr>g_coord := c\<rparr>)"
    by (auto simp: set_ref_coord_def abind_Some with_globals_def update_world_def
        dest: return_ret_effect)
  have "(w' = log (Called ''motion/set_ref_coord'' fs) w \<or>
         w' = log Shutdown (log (Called ''motion/set_ref_coord'' fs) w)) \<or>
        w' = (log (Called ''motion/set_ref_coord'' fs) w)\<lparr>g_coord := c\<rparr>"
    using rest w1 call_service_effect call_service_Inr_effect by metis
  with keep ok show ?thesis by auto
qed

lemma call_request_ok:
  assumes "is_motion c" and "call_request R c w = Inr fs" and "globals_ok w" and "call_wf c"
  shows "request_ok (service_of c) fs"
  using assms
  by (cases c)
    (auto simp: request_ok_def intro: movej_request_ok movejx_request_ok movel_request_ok
      movec_request_ok movesj_request_ok movesx_request_ok moveb_request_ok spiral_request_ok
      periodic_request_ok)

lemma run_api_step:
  assumes "run_api R c w = Some (r, w')" and "globals_ok w" and "call_wf c"
  shows "globals_ok w' \<and> (\<exists>es. trace w' = trace w @ es \<and> list_all event_ok es)"
proof (cases "is_motion c")
  case True
  with assms(1) have "service_fun R (waits_of c) (service_of c) (call_request R c) None
      success_code w = Some (r, w')"
    by (simp add: run_api_motion)
  then show ?thesis
    using assms(2) call_request_ok [OF True _ assms(2,3)] by (rule service_fun_step)
next
  case False
  with assms show ?thesis
  proof (cases c)
    case (CSetVelj v)
    with assms show ?thesis
      by (intro set_global_step [of "velj_value v" "\<lambda>l w. w\<lparr>g_velj := l\<rparr>" w r w'])
        (auto simp: set_velj_def globals_ok_def velj_value_good)
  next
    case (CSetAccj v)
    with assms show ?thesis
      by (intro set_global_step [of "accj_value v" "\<lambda>l w. w\<lparr>g_accj := l\<rparr>" w r w'])
        (auto simp: set_accj_def globals_ok_def accj_value_good)
  next
    case (CSetVelx v1 v2)
    with assms show ?thesis
      by (intro set_global_step [of "task_pair_value v1 v2" "\<lambda>l w. w\<lparr>g_velx := l\<rparr>" w r w'])
        (auto simp: set_velx_def globals_ok_def task_pair_value_good)
  next
    case (CSetAccx v1 v2)
    with assms show ?thesis
      by (intro set_global_step [of "task_pair_value v1 v2" "\<lambda>l w. w\<lparr>g_accx := l\<rparr>" w r w'])
        (auto simp: set_accx_def globals_ok_def task_pair_value_good)
  qed (auto dest: set_ref_coord_step)
qed

interpretation motion: session "run_api R" trace globals_ok call_wf event_ok
  by unfold_locales (rule run_api_step)

section \<open>Refused calls and unchanged globals\<close>

lemma success_code_no_dr_error: "success_code r \<noteq> Inl (DRError c)"
  by (auto simp: success_code_def rbind_Inl_iff py_eq_def array_truth_def
      split: reply.splits option.splits pyval.splits list.splits)

text \<open>The client library does not raise \<^verbatim>\<open>DR_Error\<close>, which is a class of this program.\<close>

definition no_foreign_dr_error :: "ros \<Rightarrow> bool" where
  "no_foreign_dr_error R \<longleftrightarrow> (\<forall>h srv fs code. reply_of R h srv fs \<noteq> CallRaises (DRError code))"

lemma call_service_no_dr_error:
  assumes "no_foreign_dr_error R" and "\<And>r. on_result r \<noteq> Inl (DRError code)"
  shows "call_service R srv fs before on_result w \<noteq> Some (Inl (DRError code), w')"
  using assms
  by (auto simp: call_service_def Let_def lift_res_def no_foreign_dr_error_def
      split: reply.splits sum.splits)

lemma return_ret_no_dr_error: "return_ret ret w \<noteq> Some (Inl (DRError code), w')"
  by (auto simp: return_ret_def split: option.splits)

lemma service_fun_dr_error:
  assumes "service_fun R waits srv request before on_result w = Some (Inl (DRError code), w')"
    and "no_foreign_dr_error R" and "\<And>r. on_result r \<noteq> Inl (DRError code)"
  shows "w' = log Shutdown w"
  using assms(1) call_service_no_dr_error [OF assms(2,3)]
  by (auto simp: service_fun_def abind_Some with_globals_def lift_res_def note_exc_def
      return_ret_no_dr_error dest: await_service_effect split: sum.splits)

lemma call_service_success_effect:
  "call_service R srv fs None success_code w = Some (r, w') \<Longrightarrow> w' = log (Called srv fs) w"
  using success_code_no_dr_error [THEN not_sym]
  by (auto simp: call_service_def Let_def lift_res_def note_exc_def is_dr_error_def
      split: reply.splits sum.splits exc.splits)

text \<open>A motion command refuses, or calls its service once with its request.\<close>

lemma service_fun_success_effect:
  assumes "service_fun R waits srv request None success_code w = Some (r, w')"
  shows "(\<exists>e. request w = Inl e \<and> r = Inl e \<and> w' = note_exc e w) \<or>
         (\<exists>fs ps. request w = Inr fs \<and> polls_for waits srv ps \<and>
            w' = w\<lparr>trace := trace w @ ps @ [Called srv fs]\<rparr>)"
proof (cases "request w")
  case (Inl e)
  with assms show ?thesis
    by (auto simp: service_fun_def abind_Some with_globals_def)
next
  case (Inr fs)
  with assms obtain r1 w1 where w1: "await_service R waits srv w = Some (r1, w1)"
    and rest: "r1 = Inr () \<Longrightarrow>
      abind (call_service R srv fs None success_code) return_ret w1 = Some (r, w')"
    by (auto simp: service_fun_def abind_Some with_globals_def)
  from await_service_polls [OF w1] obtain ps
    where ps: "r1 = Inr ()" "w1 = w\<lparr>trace := trace w @ ps\<rparr>" "polls_for waits srv ps"
    by blast
  have "w' = log (Called srv fs) w1"
    using rest [OF ps(1)]
    by (auto simp: abind_Some dest: call_service_success_effect return_ret_effect)
  then have "w' = w\<lparr>trace := trace w @ ps @ [Called srv fs]\<rparr>"
    by (simp add: ps(2) log_def)
  with Inr ps(3) show ?thesis by blast
qed

lemma set_global_dr_error:
  "abind (lift_res v) (\<lambda>l. abind (update_world (f l)) (\<lambda>_. lift_res (Inr (PInt 0)))) w
     = Some (Inl (DRError code), w') \<Longrightarrow> w' = log Shutdown w"
  by (cases v) (auto simp: abind_def update_world_def note_exc_def)

lemma set_ref_coord_dr_error:
  assumes "set_ref_coord R c w = Some (Inl (DRError code), w')" and "no_foreign_dr_error R"
  shows "w' = log Shutdown w"
  using assms(1) call_service_no_dr_error [OF assms(2) success_code_no_dr_error]
  by (auto simp: set_ref_coord_def abind_Some with_globals_def update_world_def lift_res_def
      note_exc_def return_ret_no_dr_error split: sum.splits)

text \<open>The globals without the trace.\<close>

lemma truncate_trace [simp]: "globals.truncate (w\<lparr>trace := t\<rparr>) = globals.truncate w"
  by (simp add: globals.defs)

lemma service_fun_globals:
  assumes "service_fun R waits srv request before on_result w = Some (r, w')"
  shows "globals.truncate w' = globals.truncate w"
  using service_fun_effect [OF assms] by (auto simp: note_exc_def)

section \<open>What a call returns\<close>

text \<open>Once the request is built and the service is there, the reply decides.\<close>

lemma service_fun_reply:
  assumes "request w = Inr fs" and "await_service R waits srv w = Some (Inr (), w1)"
  shows "service_fun R waits srv request None success_code w =
     (let w2 = log (Called srv fs) w1
      in case reply_of R (trace w1) srv fs of
           Hangs \<Rightarrow> None
         | CallRaises e \<Rightarrow> Some (Inl e, w2)
         | FutureRaises \<Rightarrow> Some (Inl UnboundLocalError, w2)
         | NoResult \<Rightarrow> Some (Inr (PInt (-1)), w2)
         | Response a \<Rightarrow> (case py_eq (a ''success'') 1 of
               Inl e \<Rightarrow> Some (Inl e, note_exc e w2)
             | Inr ok \<Rightarrow> Some (Inr (PInt (if ok then 0 else -1)), w2)))"
  using assms
  by (simp add: service_fun_def abind_def with_globals_def call_service_def return_ret_def
      success_code_def note_exc_def Let_def split: reply.splits sum.splits)

text \<open>A service that is there after some number of polls, and a client library that answers.\<close>

definition reachable_services :: "ros \<Rightarrow> bool" where
  "reachable_services R \<longleftrightarrow>
     (\<forall>h srv. \<exists>n. available R (h @ replicate n (Polled srv False)) srv) \<and>
     (\<forall>h srv fs. reply_of R h srv fs \<noteq> Hangs)"

lemma await_service_returns:
  assumes "reachable_services R"
  shows "\<exists>w1. await_service R waits srv w = Some (Inr (), w1)"
proof -
  obtain n where "available R (trace w @ replicate n (Polled srv False)) srv"
    using assms unfolding reachable_services_def by blast
  from wait_for_service_returns [OF this] show ?thesis
    by (auto simp: await_service_def)
qed

lemma service_fun_returns:
  assumes "reachable_services R"
  shows "\<exists>z. service_fun R waits srv request None success_code w = Some z"
proof (cases "request w")
  case (Inl e)
  then show ?thesis by (simp add: service_fun_def abind_def with_globals_def)
next
  case (Inr fs)
  obtain w1 where w1: "await_service R waits srv w = Some (Inr (), w1)"
    using await_service_returns [OF assms] by blast
  show ?thesis
    using assms
    by (auto simp: service_fun_reply [of request, OF Inr w1] reachable_services_def Let_def
        split: reply.splits sum.splits)
qed

lemma set_ref_coord_returns:
  assumes "reachable_services R"
  shows "\<exists>z. set_ref_coord R c w = Some z"
  using assms
  by (auto simp: set_ref_coord_def abind_def with_globals_def lift_res_def call_service_def
      return_ret_def update_world_def reachable_services_def Let_def
      split: sum.splits reply.splits)

lemma run_api_returns:
  assumes "reachable_services R"
  shows "\<exists>r w'. run_api R c w = Some (r, w')"
proof (cases "is_motion c")
  case True
  then show ?thesis
    using service_fun_returns [OF assms] by (auto simp: run_api_motion)
next
  case False
  then show ?thesis
    using set_ref_coord_returns [OF assms]
    by (cases c) (auto simp: set_velj_def set_accj_def set_velx_def set_accx_def abind_def
        lift_res_def update_world_def split: sum.splits)
qed

lemma wait_for_service_never:
  assumes "\<And>h. \<not> available R h srv"
  shows "wait_for_service R srv w = None"
proof (rule ccontr)
  assume "wait_for_service R srv w \<noteq> None"
  then obtain w' where "wait_for_service R srv w = Some w'" by auto
  then show False
    by (rule wait_for_service.raw_induct
        [where P = "\<lambda>R' srv' _ _. \<not> (R' = R \<and> srv' = srv)", rotated, THEN notE])
      (use assms in \<open>auto split: if_splits\<close>)
qed

end
