(* ===== verification/MotionSpec.thy ===== *)
theory MotionSpec
  imports MotionSession
begin

text \<open>
  What a motion command promises a caller that passes floats: which arguments it accepts, and
  the request it then sends. The predicates speak of numbers only; the lemmas compute the
  argument blocks of MotionParams.thy on such arguments.
\<close>

section \<open>The contract\<close>

text \<open>A time that is neither zero nor the unset value replaces the velocities.\<close>

definition time_given :: "pyfloat \<Rightarrow> bool" where
  "time_given t \<longleftrightarrow> \<not> feq t (Fin 0) \<and> \<not> feq t (Fin (of_int DR_COND_NONE))"

definition some_nonzero :: "pyfloat list \<Rightarrow> bool" where
  "some_nonzero fs \<longleftrightarrow> list_ex (\<lambda>f. \<not> feq f (Fin 0)) fs"

definition joint_speeds_accepted :: "pyfloat list \<Rightarrow> pyfloat list \<Rightarrow> pyfloat \<Rightarrow> bool" where
  "joint_speeds_accepted vs as t \<longleftrightarrow>
     list_all float_nonneg vs \<and> list_all float_nonneg as \<and> float_nonneg_or_none t \<and>
     (time_given t \<or> (some_nonzero vs \<and> some_nonzero as))"

text \<open>Without a time both components of a task velocity must be positive or unset, the first
  positive.\<close>

definition task_pair_positive :: "pyfloat \<Rightarrow> pyfloat \<Rightarrow> bool" where
  "task_pair_positive v1 v2 \<longleftrightarrow>
     \<not> fle v1 (Fin 0) \<and> (v2 = Fin (of_int DR_COND_NONE) \<or> \<not> fle v2 (Fin 0))"

definition task_speeds_accepted ::
  "pyfloat \<times> pyfloat \<Rightarrow> pyfloat \<times> pyfloat \<Rightarrow> pyfloat \<Rightarrow> bool" where
  "task_speeds_accepted v a t \<longleftrightarrow>
     list_all float_nonneg_or_none [fst v, snd v, fst a, snd a] \<and> float_nonneg_or_none t \<and>
     (time_given t \<or> (task_pair_positive (fst v) (snd v) \<and> task_pair_positive (fst a) (snd a)))"

text \<open>Radius, mode and blending type.\<close>

definition blending_accepted :: "pyfloat \<Rightarrow> int \<Rightarrow> int \<Rightarrow> bool" where
  "blending_accepted r md ra \<longleftrightarrow> float_nonneg r \<and> zero_or_one md \<and> zero_or_one ra"

definition async_float :: "int \<Rightarrow> pyfloat \<Rightarrow> pyfloat" where
  "async_float async r = (if async = 1 then Fin 0 else r)"

abbreviation floats :: "pyfloat list \<Rightarrow> pyval" where
  "floats fs \<equiv> PList (map PFloat fs)"

section \<open>The blocks on floats\<close>

lemma feq_none_iff [simp]: "feq f (Fin (- 10000)) \<longleftrightarrow> f = Fin (- 10000)"
  by (auto dest: feq_FinD)

lemma negative_item_PFloat [simp]:
  "negative_item (PFloat f) = Inr (\<not> float_nonneg f)"
  by (simp add: negative_item_def float_nonneg_def)

lemma negative_task_item_PFloat [simp]:
  "negative_task_item (PFloat f) = Inr (\<not> float_nonneg_or_none f)"
  by (auto simp: negative_task_item_def float_nonneg_or_none_def float_nonneg_def)

lemma for_each_floats:
  "(\<And>f. bad (PFloat f) = Inr (\<not> ok f)) \<Longrightarrow>
   for_each (\<lambda>item. raise_when (bad item) c) (map PFloat fs) = raise_if (\<not> list_all ok fs) c"
  by (induction fs) (auto simp: raise_if_def)

lemma is_number_floats [simp]: "is_number (floats fs) = Inr True"
  by (cases fs) simp_all

lemma check_number_floats [simp]: "check_number (floats fs) c = Inr ()"
  by (simp add: check_number_def)

lemma py_floats_floats [simp]: "py_floats (floats fs) = Inr fs"
  using map_res_map [of "map PFloat fs" py_float "\<lambda>v. case v of PFloat f \<Rightarrow> f"]
  by (force simp: py_floats_def o_def)

lemma py_floats_PPosj [simp]: "py_floats (PPosj (map PFloat fs)) = Inr fs"
  using py_floats_floats [of fs] by (simp add: py_floats_def)

lemma py_floats_PPosx [simp]: "py_floats (PPosx (map PFloat fs)) = Inr fs"
  using py_floats_floats [of fs] by (simp add: py_floats_def)

lemma float_list_floats [simp]:
  "float_list (floats fs) = Inr (floats fs)"
  "float_list (PPosj (map PFloat fs)) = Inr (floats fs)"
  "float_list (PPosx (map PFloat fs)) = Inr (floats fs)"
  by (simp_all add: float_list_def)

lemma float_field_PFloat [simp]: "float_field (PFloat f) = Inr (PFloat f)"
  by (simp add: float_field_def)

lemma joint_param_floats:
  "length fs = 6 \<Longrightarrow>
   joint_param d (floats fs) PNone =
     (if list_all float_nonneg fs then Inr (floats fs) else Inl (DRError DR_ERROR_VALUE))"
  by (simp add: joint_param_def choose_param_def check_items_def for_each_floats
      is_list_of_len_iff raise_if_def)

lemma task_param_floats:
  "length fs = 2 \<Longrightarrow>
   task_param d (floats fs) PNone =
     (if list_all float_nonneg_or_none fs then Inr (floats fs)
      else Inl (DRError DR_ERROR_VALUE))"
  by (simp add: task_param_def choose_param_def check_items_def for_each_floats
      is_list_of_len_iff raise_if_def)

lemma time_param_float:
  "time_param (PFloat t) PNone =
     (if float_nonneg_or_none t then Inr (PFloat t) else Inl (DRError DR_ERROR_VALUE))"
  by (auto simp: time_param_def float_nonneg_or_none_def float_nonneg_def raise_if_def)

lemma radius_param_float:
  "radius_param w (PFloat r) PNone =
     (if float_nonneg r then Inr (PFloat r) else Inl (DRError DR_ERROR_VALUE))"
  by (simp add: radius_param_def float_nonneg_def raise_if_def)

lemma check_two_values_int:
  "check_two_values a b (PInt n) =
     (if n = a \<or> n = b then Inr () else Inl (DRError DR_ERROR_VALUE))"
  by (simp add: check_two_values_def raise_if_def)

lemma all_zero_floats [simp]: "all_zero (map PFloat fs) = Inr (\<not> some_nonzero fs)"
  by (induction fs) (simp_all add: some_nonzero_def)

lemma time_unused_float [simp]: "time_unused (PFloat t) = Inr (\<not> time_given t)"
  by (auto simp: time_unused_def time_given_def)

lemma check_valid_joint_floats:
  "check_valid_vel_acc_joint (floats vs) (floats as) (PFloat t) =
     (if time_given t \<or> (some_nonzero vs \<and> some_nonzero as) then Inr ()
      else Inl (DRError DR_ERROR_VALUE))"
  by (simp add: check_valid_vel_acc_joint_def raise_if_def)

lemma task_components_floats:
  "task_components_bad (floats [v1, v2]) =
     (if task_pair_positive v1 v2 then Inr () else Inl (DRError DR_ERROR_VALUE))"
  by (auto simp: task_components_bad_def py_index_def task_pair_positive_def raise_if_def)

lemma check_valid_task_floats:
  "check_valid_vel_acc_task (floats [v1, v2]) (floats [a1, a2]) (PFloat t) =
     (if time_given t \<or> (task_pair_positive v1 v2 \<and> task_pair_positive a1 a2) then Inr ()
      else Inl (DRError DR_ERROR_VALUE))"
  using task_components_floats [of v1 v2] task_components_floats [of a1 a2]
  by (simp add: check_valid_vel_acc_task_def)

lemma motion_ref_int:
  "motion_ref w (PInt n) =
     (if frame_in_range n then Inr (PInt n) else Inl (DRError DR_ERROR_VALUE))"
  by (auto simp: motion_ref_def default_ref_def frame_in_range_def raise_if_def)

lemma py_index_floats: "0 < length fs \<Longrightarrow> py_index (floats fs) 0 = Inr (PFloat (fs ! 0))"
  by (simp add: py_index_def)

lemma get_posj_floats:
  "length ps = 6 \<Longrightarrow> get_posj (PPosj (map PFloat ps)) = Inr (PPosj (map PFloat ps))"
  by (simp add: get_posj_def check_number_def is_number_wrap)

lemma get_posx_floats:
  "length ps = 6 \<Longrightarrow>
   get_normal_pos (PPosx (map PFloat ps)) ty = Inr (PPosx (map PFloat ps))"
  by (simp add: get_normal_pos_def check_number_def is_number_wrap)

lemma async_radius_float: "float_field (async_radius async (PFloat r)) = Inr (PFloat (async_float async r))"
  by (simp add: async_radius_def async_float_def float_field_def)

lemma set_fields_accepted:
  assumes "\<And>f v. setter_ok R srv f v" and "list_all2 (\<lambda>x y. fst x = fst y \<and> snd x = Inr (snd y)) fs gs"
  shows "set_fields R srv fs = Inr gs"
  using assms(2)
proof (induction fs gs rule: list_all2_induct)
  case (Cons x xs y ys)
  then show ?case using assms(1) by (cases x; cases y) simp
qed simp

lemmas block_floats =
  joint_param_floats task_param_floats time_param_float radius_param_float check_two_values_int
  check_valid_joint_floats check_valid_task_floats motion_ref_int py_index_floats
  get_posj_floats get_posx_floats async_radius_float

section \<open>Blending\<close>

text \<open>The fourteen values of a segment: the first point, the second or zeros, type and radius.\<close>

fun point_items :: "pyval \<Rightarrow> pyval list" where
  "point_items (PPosx xs) = xs"
| "point_items _ = replicate POINT_COUNT (PFloat (Fin 0))"

fun segment_items :: "pyval \<Rightarrow> pyval list" where
  "segment_items (PPosb ty p1 p2 r) = point_items p1 @ point_items p2 @ [ty, r]"
| "segment_items _ = []"

text \<open>A segment that the constructor of \<^verbatim>\<open>posb\<close> made.\<close>

fun is_segment :: "pyval \<Rightarrow> bool" where
  "is_segment (PPosb ty p1 p2 r) =
     (posx_six p1 \<and> (p2 = PNone \<or> posx_six p2) \<and> is_int ty \<and> is_int_or_float r)"
| "is_segment _ = False"

lemma length_point_items:
  "posx_six p \<Longrightarrow> length (point_items p) = 6" "length (point_items PNone) = 6"
  by (auto simp: POINT_COUNT_def dest: posx_sixE)

lemma ros_segment_items_eq:
  assumes "is_segment s"
  shows "rbind (posb_to_list s) ros_segment = Inr (PList (segment_items s))"
proof -
  obtain ty p1 p2 r where s: "s = PPosb ty p1 p2 r"
    using assms by (cases s) simp_all
  have p1: "\<exists>xs. p1 = PPosx xs \<and> length xs = 6"
    and p2: "p2 = PNone \<or> (\<exists>xs. p2 = PPosx xs \<and> length xs = 6)"
    and n: "py_eq_none ty = Inr False" "py_eq_none r = Inr False"
    using assms by (auto simp: s py_type_inv dest: posx_sixE)
  then show ?thesis
    by (auto simp: s posb_to_list_def ros_segment_def fill_none_def list_concat_def
        isinstance_list_def)
qed

lemma posb_init_segment:
  assumes "posb_init ty p1 p2 r = Inr s" and "pos_wf p1" and "pos_wf p2"
  shows "is_segment s"
  using assms
  by (auto simp: posb_init_def rbind_Inr_iff py_type_inv split: if_splits dest: get_posx_six)

lemma moveb_segments_eq:
  assumes "list_all is_segment ss" and "ss \<noteq> []"
  shows "moveb_segments (PList ss) = Inr (map (PList \<circ> segment_items) ss)"
proof -
  have "rbind (map_res posb_to_list ss) (map_res ros_segment) = Inr (map (PList \<circ> segment_items) ss)"
    using assms(1)
  proof (induction ss)
    case (Cons s ss)
    then obtain l ls where "posb_to_list s = Inr l" "ros_segment l = Inr (PList (segment_items s))"
      "map_res posb_to_list ss = Inr ls" "map_res ros_segment ls = Inr (map (PList \<circ> segment_items) ss)"
      using ros_segment_items_eq [of s] by (auto simp: rbind_Inr_iff)
    then show ?case by simp
  qed simp
  with assms(2) show ?thesis
    by (simp add: moveb_segments_def)
qed

section \<open>Multi-arrays\<close>

text \<open>Rows of numbers become messages of floats, which are read back as lists of floats.\<close>

lemma list_to_multiarray_rows:
  "map_res (map_res py_float) rows = Inr fss \<Longrightarrow>
   list_to_multiarray (map PList rows) = Inr (PList (map (PMultiArray \<circ> map PFloat) fss))"
  by (induction rows arbitrary: fss)
    (auto simp: list_to_multiarray_def py_floats_def rbind_Inr_iff)

lemma multiarray_to_list_floats:
  "multiarray_to_list (PList (map (PMultiArray \<circ> map PFloat) fss)) = Inr (PList (map floats fss))"
  by (simp add: multiarray_to_list_def multiarray_data_def map_res_comp [where h = floats])

end
