(* ===== verification/AliasForms.thy ===== *)
theory AliasForms
  imports MotionSession
begin

text \<open>
  Equivalent ways to call a motion command: the short aliases \<^verbatim>\<open>v\<close>, \<^verbatim>\<open>a\<close>, \<^verbatim>\<open>t\<close>, \<^verbatim>\<open>r\<close>, \<^verbatim>\<open>an\<close> instead of
  the long names, a number instead of a list, the module's defaults instead of given values, and
  the asynchronous instead of the synchronous form. They are stated for all commands at once, over the calls of MotionSession.thy.
\<close>

section \<open>Long names and aliases\<close>

definition pick :: "pyval \<Rightarrow> pyval \<Rightarrow> pyval" where
  "pick x y = (if x = PNone then y else x)"

text \<open>The call with the chosen values under the long names.\<close>

fun long_form :: "api_call \<Rightarrow> api_call" where
  "long_form (CMovej asyn pos vel acc time radius md ra v a t r) =
     CMovej asyn pos (pick vel v) (pick acc a) (pick time t) (pick radius r) md ra
       PNone PNone PNone PNone"
| "long_form (CMovejx asyn pos vel acc time radius ref md ra sol v a t r) =
     CMovejx asyn pos (pick vel v) (pick acc a) (pick time t) (pick radius r) ref md ra sol
       PNone PNone PNone PNone"
| "long_form (CMovel asyn pos vel acc time radius ref md ra v a t r) =
     CMovel asyn pos (pick vel v) (pick acc a) (pick time t) (pick radius r) ref md ra
       PNone PNone PNone PNone"
| "long_form (CMovec asyn pos1 pos2 vel acc time radius ref md angle ra v a t r an) =
     CMovec asyn pos1 pos2 (pick vel v) (pick acc a) (pick time t) (pick radius r) ref md
       (pick angle an) ra PNone PNone PNone PNone PNone"
| "long_form (CMovesj asyn l vel acc time md v a t) =
     CMovesj asyn l (pick vel v) (pick acc a) (pick time t) md PNone PNone PNone"
| "long_form (CMovesx asyn l vel acc time ref md vel_opt v a t) =
     CMovesx asyn l (pick vel v) (pick acc a) (pick time t) ref md vel_opt PNone PNone PNone"
| "long_form (CMoveb asyn l vel acc ref time md v a t) =
     CMoveb asyn l (pick vel v) (pick acc a) ref (pick time t) md PNone PNone PNone"
| "long_form (CMoveSpiral asyn rev_n rmax lmax vel acc time axis ref v a t) =
     CMoveSpiral asyn rev_n rmax lmax (pick vel v) (pick acc a) (pick time t) axis ref
       PNone PNone PNone"
| "long_form c = c"

text \<open>The arguments that go through \<^verbatim>\<open>get_param\<close>.\<close>

fun aliased_args :: "api_call \<Rightarrow> pyval list" where
  "aliased_args (CMovej _ _ vel acc time radius _ _ v a t r) = [vel, acc, time, radius, v, a, t, r]"
| "aliased_args (CMovejx _ _ vel acc time radius _ _ _ _ v a t r) =
     [vel, acc, time, radius, v, a, t, r]"
| "aliased_args (CMovel _ _ vel acc time radius _ _ _ v a t r) = [vel, acc, time, radius, v, a, t, r]"
| "aliased_args (CMovec _ _ _ vel acc time radius _ _ angle _ v a t r an) =
     [vel, acc, time, radius, angle, v, a, t, r, an]"
| "aliased_args (CMovesj _ _ vel acc time _ v a t) = [vel, acc, time, v, a, t]"
| "aliased_args (CMovesx _ _ vel acc time _ _ _ v a t) = [vel, acc, time, v, a, t]"
| "aliased_args (CMoveb _ _ vel acc _ time _ v a t) = [vel, acc, time, v, a, t]"
| "aliased_args (CMoveSpiral _ _ _ _ vel acc time _ _ v a t) = [vel, acc, time, v, a, t]"
| "aliased_args _ = []"

text \<open>A numpy array compares with \<^verbatim>\<open>None\<close> element by element, so it is set apart.\<close>

definition not_array :: "pyval \<Rightarrow> bool" where
  "not_array v \<longleftrightarrow> py_type v \<noteq> TNdarray"

lemma py_ne_none_plain: "not_array x \<Longrightarrow> py_ne_none x = Inr (x \<noteq> PNone)"
  by (cases x) (auto simp: not_array_def py_ne_none_def)

lemma get_param_pick:
  "not_array x \<Longrightarrow> not_array y \<Longrightarrow> get_param x y = Inr (pick x y)"
  by (simp add: get_param_def py_ne_none_plain pick_def)

lemma get_param_long: "not_array x \<Longrightarrow> get_param x PNone = Inr x"
  by (cases x) (auto simp: not_array_def get_param_def py_ne_none_def)

lemma not_array_pick: "not_array x \<Longrightarrow> not_array y \<Longrightarrow> not_array (pick x y)"
  by (simp add: pick_def)

lemma pick_param:
  assumes "not_array x" and "not_array y"
  shows "joint_param d (pick x y) PNone = joint_param d x y"
    and "task_param d (pick x y) PNone = task_param d x y"
    and "spiral_param d (pick x y) PNone = spiral_param d x y"
    and "angle_param (pick x y) PNone = angle_param x y"
    and "time_param (pick x y) PNone = time_param x y"
    and "moveb_time (pick x y) PNone = moveb_time x y"
    and "radius_param w (pick x y) PNone = radius_param w x y"
  using get_param_pick [OF assms] get_param_long [OF not_array_pick [OF assms]]
  by (simp_all only: joint_param_def task_param_def spiral_param_def angle_param_def
      time_param_def moveb_time_def radius_param_def)

lemma call_request_long_form:
  "is_motion c \<Longrightarrow> list_all not_array (aliased_args c) \<Longrightarrow>
   call_request R (long_form c) w = call_request R c w"
  by (cases c)
    (simp_all add: pick_param movej_request_def movejx_request_def movel_request_def
      movec_request_def movesj_request_def movesx_request_def moveb_request_def
      spiral_request_def)

lemma long_form_same:
  "is_motion (long_form c) = is_motion c" "waits_of (long_form c) = waits_of c"
  "service_of (long_form c) = service_of c"
  by (cases c; simp)+

section \<open>Numbers and lists\<close>

text \<open>What a number stands for: by command, for velocity, acceleration and angle.\<close>

definition spread :: "(pyval \<Rightarrow> pyval list) \<Rightarrow> pyval \<Rightarrow> pyval" where
  "spread f x = (if is_int_or_float x then PList (f x) else x)"

abbreviation joint_list :: "pyval \<Rightarrow> pyval" where
  "joint_list \<equiv> spread (replicate 6)"

abbreviation task_list :: "pyval \<Rightarrow> pyval" where
  "task_list \<equiv> spread (\<lambda>x. [x, PInt DR_COND_NONE])"

abbreviation spiral_list :: "pyval \<Rightarrow> pyval" where
  "spiral_list \<equiv> spread (replicate 2)"

abbreviation angle_list :: "pyval \<Rightarrow> pyval" where
  "angle_list \<equiv> spread (\<lambda>x. [x, PInt 0])"

fun list_form :: "api_call \<Rightarrow> api_call" where
  "list_form (CMovej asyn pos vel acc time radius md ra v a t r) =
     CMovej asyn pos (joint_list vel) (joint_list acc) time radius md ra
       (joint_list v) (joint_list a) t r"
| "list_form (CMovejx asyn pos vel acc time radius ref md ra sol v a t r) =
     CMovejx asyn pos (joint_list vel) (joint_list acc) time radius ref md ra sol
       (joint_list v) (joint_list a) t r"
| "list_form (CMovel asyn pos vel acc time radius ref md ra v a t r) =
     CMovel asyn pos (task_list vel) (task_list acc) time radius ref md ra
       (task_list v) (task_list a) t r"
| "list_form (CMovec asyn pos1 pos2 vel acc time radius ref md angle ra v a t r an) =
     CMovec asyn pos1 pos2 (task_list vel) (task_list acc) time radius ref md (angle_list angle) ra
       (task_list v) (task_list a) t r (angle_list an)"
| "list_form (CMovesj asyn l vel acc time md v a t) =
     CMovesj asyn l (joint_list vel) (joint_list acc) time md (joint_list v) (joint_list a) t"
| "list_form (CMovesx asyn l vel acc time ref md vel_opt v a t) =
     CMovesx asyn l (task_list vel) (task_list acc) time ref md vel_opt
       (task_list v) (task_list a) t"
| "list_form (CMoveb asyn l vel acc ref time md v a t) =
     CMoveb asyn l (task_list vel) (task_list acc) ref time md (task_list v) (task_list a) t"
| "list_form (CMoveSpiral asyn rev_n rmax lmax vel acc time axis ref v a t) =
     CMoveSpiral asyn rev_n rmax lmax (spiral_list vel) (spiral_list acc) time axis ref
       (spiral_list v) (spiral_list a) t"
| "list_form c = c"

lemma py_ne_none_spread: "py_ne_none (spread f x) = py_ne_none x"
  by (auto simp: spread_def py_type_inv)

lemma get_param_spread:
  "get_param (spread f x) (spread f y) = rbind (get_param x y) (\<lambda>z. Inr (spread f z))"
proof -
  have none: "spread f PNone = PNone" by (simp add: spread_def)
  show ?thesis
    by (auto simp: get_param_def py_ne_none_spread none rbind_def split: sum.splits)
qed

lemma choose_param_spread:
  assumes "\<And>x. length (f x) = n"
  shows "choose_param d n (\<lambda>x. PList (f x)) (spread f z) = choose_param d n (\<lambda>x. PList (f x)) z"
  using assms by (auto simp: choose_param_def spread_def py_type_inv is_list_of_len_def)

lemma spread_param:
  "joint_param d (joint_list x) (joint_list y) = joint_param d x y"
  "task_param d (task_list x) (task_list y) = task_param d x y"
  "spiral_param d (spiral_list x) (spiral_list y) = spiral_param d x y"
  "angle_param (angle_list x) (angle_list y) = angle_param x y"
  by (simp_all add: joint_param_def task_param_def spiral_param_def angle_param_def
      get_param_spread rbind_assoc choose_param_spread)

lemma call_request_list_form: "call_request R (list_form c) w = call_request R c w"
  by (cases c)
    (simp_all add: spread_param movej_request_def movejx_request_def movel_request_def
      movec_request_def movesj_request_def movesx_request_def moveb_request_def
      spiral_request_def)

lemma list_form_same:
  "is_motion (list_form c) = is_motion c" "waits_of (list_form c) = waits_of c"
  "service_of (list_form c) = service_of c"
  by (cases c; simp)+

section \<open>Defaults\<close>

text \<open>The long name's value, filled from the globals when neither name is given.\<close>

definition given_or :: "pyval \<Rightarrow> pyval \<Rightarrow> pyval \<Rightarrow> pyval" where
  "given_or dflt x y = (if x = PNone \<and> y = PNone then dflt else x)"

fun fill_defaults :: "world \<Rightarrow> api_call \<Rightarrow> api_call" where
  "fill_defaults w (CMovej asyn pos vel acc time radius md ra v a t r) =
     CMovej asyn pos (given_or (g_velj w) vel v) (given_or (g_accj w) acc a) time radius md ra
       v a t r"
| "fill_defaults w (CMovejx asyn pos vel acc time radius ref md ra sol v a t r) =
     CMovejx asyn pos (given_or (g_velj w) vel v) (given_or (g_accj w) acc a) time radius ref md ra
       sol v a t r"
| "fill_defaults w (CMovel asyn pos vel acc time radius ref md ra v a t r) =
     CMovel asyn pos (given_or (g_velx w) vel v) (given_or (g_accx w) acc a) time radius ref md ra
       v a t r"
| "fill_defaults w (CMovec asyn pos1 pos2 vel acc time radius ref md angle ra v a t r an) =
     CMovec asyn pos1 pos2 (given_or (g_velx w) vel v) (given_or (g_accx w) acc a) time radius ref
       md angle ra v a t r an"
| "fill_defaults w (CMovesj asyn l vel acc time md v a t) =
     CMovesj asyn l (given_or (g_velj w) vel v) (given_or (g_accj w) acc a) time md v a t"
| "fill_defaults w (CMovesx asyn l vel acc time ref md vel_opt v a t) =
     CMovesx asyn l (given_or (g_velx w) vel v) (given_or (g_accx w) acc a) time ref md vel_opt
       v a t"
| "fill_defaults w (CMoveb asyn l vel acc ref time md v a t) =
     CMoveb asyn l (given_or (g_velx w) vel v) (given_or (g_accx w) acc a) ref time md v a t"
| "fill_defaults w (CMoveSpiral asyn rev_n rmax lmax vel acc time axis ref v a t) =
     CMoveSpiral asyn rev_n rmax lmax (given_or (g_velx w) vel v) (given_or (g_accx w) acc a)
       time axis ref v a t"
| "fill_defaults w c = c"

lemma given_or_param:
  assumes "globals_ok w"
  shows "joint_param (g_velj w) (given_or (g_velj w) x y) y = joint_param (g_velj w) x y"
    and "joint_param (g_accj w) (given_or (g_accj w) x y) y = joint_param (g_accj w) x y"
    and "task_param (g_velx w) (given_or (g_velx w) x y) y = task_param (g_velx w) x y"
    and "task_param (g_accx w) (given_or (g_accx w) x y) y = task_param (g_accx w) x y"
    and "spiral_param (g_velx w) (given_or (g_velx w) x y) y = spiral_param (g_velx w) x y"
    and "spiral_param (g_accx w) (given_or (g_accx w) x y) y = spiral_param (g_accx w) x y"
  using globals_okD [OF assms]
  by (auto simp: joint_param_def task_param_def spiral_param_def given_or_def choose_param_def
      is_list_of_len_def good_list_def)

lemma call_request_defaults:
  "globals_ok w \<Longrightarrow> call_request R (fill_defaults w c) w = call_request R c w"
  by (cases c)
    (simp_all add: given_or_param movej_request_def movejx_request_def movel_request_def
      movec_request_def movesj_request_def movesx_request_def moveb_request_def
      spiral_request_def)

lemma fill_defaults_same:
  "is_motion (fill_defaults w c) = is_motion c" "waits_of (fill_defaults w c) = waits_of c"
  "service_of (fill_defaults w c) = service_of c"
  by (cases c; simp)+

section \<open>Synchronous and asynchronous forms\<close>

fun with_async :: "bool \<Rightarrow> api_call \<Rightarrow> api_call" where
  "with_async b (CMovej _ pos vel acc time radius md ra v a t r) =
     CMovej b pos vel acc time radius md ra v a t r"
| "with_async b (CMovejx _ pos vel acc time radius ref md ra sol v a t r) =
     CMovejx b pos vel acc time radius ref md ra sol v a t r"
| "with_async b (CMovel _ pos vel acc time radius ref md ra v a t r) =
     CMovel b pos vel acc time radius ref md ra v a t r"
| "with_async b (CMovec _ pos1 pos2 vel acc time radius ref md angle ra v a t r an) =
     CMovec b pos1 pos2 vel acc time radius ref md angle ra v a t r an"
| "with_async b (CMovesj _ l vel acc time md v a t) = CMovesj b l vel acc time md v a t"
| "with_async b (CMovesx _ l vel acc time ref md vel_opt v a t) =
     CMovesx b l vel acc time ref md vel_opt v a t"
| "with_async b (CMoveb _ l vel acc ref time md v a t) = CMoveb b l vel acc ref time md v a t"
| "with_async b (CMoveSpiral _ rev_n rmax lmax vel acc time axis ref v a t) =
     CMoveSpiral b rev_n rmax lmax vel acc time axis ref v a t"
| "with_async b (CMovePeriodic _ amp period atime repeat ref) =
     CMovePeriodic b amp period atime repeat ref"
| "with_async b c = c"

text \<open>What the asynchronous form changes in a request.\<close>

definition async_field :: "string \<times> pyval \<Rightarrow> string \<times> pyval" where
  "async_field p =
     (if fst p = ''sync_type'' then (fst p, PInt 1)
      else if fst p = ''radius'' then (fst p, PFloat (Fin 0))
      else p)"

lemma async_radius_one: "float_field (async_radius 1 rd) = Inr (PFloat (Fin 0))"
  by (simp add: async_radius_def float_field_def)

lemma call_request_async:
  assumes "is_motion c" and "\<And>f v. setter_ok R (service_of c) f v"
    and "call_request R (with_async False c) w = Inr fs"
  shows "call_request R (with_async True c) w = Inr (map async_field fs)"
  using assms
  by (cases c)
    (auto simp: rbind_Inr_iff async_code_def async_field_def async_radius_one
      movej_request_def movejx_request_def movel_request_def movec_request_def movesj_request_def
      movesx_request_def moveb_request_def spiral_request_def periodic_request_def)

end
