(* ===== verification/MotionProperties.thy ===== *)
theory MotionProperties
  imports MotionSpec AliasForms
begin

text \<open>
  The properties of the motion interface, and the evaluation environment their witnesses run in.
\<close>

section \<open>A concrete environment\<close>

text \<open>Every setter accepts, every service is there and answers that it succeeded.\<close>

definition ideal_ros :: ros where
  "ideal_ros = \<lparr>
     setter_ok = (\<lambda>_ _ _. True),
     available = (\<lambda>_ _. True),
     reply_of = (\<lambda>_ _ _. Response (\<lambda>_. PBool True)),
     publish_fails = (\<lambda>_ _ _. None)\<rparr>"

text \<open>The module as its import leaves it.\<close>

definition start :: world where
  "start = \<lparr>
     g_blend_state = False,
     g_blend_radius = PFloat (Fin 0),
     g_velj = PList (replicate DR_VELJ_DT_LEN (PFloat (Fin 0))),
     g_accj = PList (replicate DR_VELJ_DT_LEN (PFloat (Fin 0))),
     g_velx = PList [PFloat (Fin 0), PInt DR_COND_NONE],
     g_accx = PList [PFloat (Fin 0), PInt DR_COND_NONE],
     g_coord = PInt DR_BASE,
     g_analog_output_mode_ch1 = PInt (-1),
     g_analog_output_mode_ch2 = PInt (-1),
     trace = []\<rparr>"

lemma start_simps [simp]:
  "init_globals start = start" "trace start = []" "g_blend_state start = False"
  "g_blend_radius start = PFloat (Fin 0)"
  "g_velj start = PList (replicate DR_VELJ_DT_LEN (PFloat (Fin 0)))"
  "g_accj start = PList (replicate DR_VELJ_DT_LEN (PFloat (Fin 0)))"
  "g_velx start = PList [PFloat (Fin 0), PInt DR_COND_NONE]"
  "g_accx start = PList [PFloat (Fin 0), PInt DR_COND_NONE]"
  "g_coord start = PInt DR_BASE"
  by (simp_all add: init_globals_def start_def)

lemma ideal_ros_simps [simp]:
  "setter_ok ideal_ros = (\<lambda>_ _ _. True)" "available ideal_ros = (\<lambda>_ _. True)"
  "reply_of ideal_ros = (\<lambda>_ _ _. Response (\<lambda>_. PBool True))"
  "publish_fails ideal_ros = (\<lambda>_ _ _. None)"
  by (simp_all add: ideal_ros_def)

lemma wait_for_service_ideal [simp]:
  "wait_for_service ideal_ros srv w = Some (log (Polled srv True) w)"
  by (simp add: wait_for_service.simps)

lemma success_code_True [simp]:
  "success_code (Response (\<lambda>_. PBool True)) = Inr (Some (PInt 0))"
  by (simp add: success_code_def py_eq_def)

lemma service_fun_ideal [simp]:
  "request w = Inr fs \<Longrightarrow>
   service_fun ideal_ros waits srv request before success_code w =
     Some (Inr (PInt 0), w\<lparr>trace := trace w @
       (if waits then [Polled srv True] else []) @ [Called srv fs]\<rparr>)"
  "request w = Inl e \<Longrightarrow>
   service_fun ideal_ros waits srv request before success_code w = Some (Inl e, note_exc e w)"
  by (simp_all add: service_fun_def abind_def with_globals_def await_service_def call_service_def
      return_ret_def log_def)


text \<open>The definitions a request unfolds to on concrete arguments.\<close>

lemmas block_defs =
  get_posj_def get_posx_def get_normal_pos_def check_number_def joint_param_def task_param_def
  spiral_param_def choose_param_def check_items_def negative_item_def negative_task_item_def
  time_param_def check_valid_vel_acc_joint_def check_valid_vel_acc_task_def time_unused_def
  task_components_bad_def radius_param_def motion_ref_def default_ref_def check_two_values_int
  py_index_def float_list_def py_floats_def float_field_def async_radius_def async_code_def
  numeral_eq_Suc raise_if_def

section \<open>Safety of programs\<close>


abbreviation six_zeros :: pyval where
  "six_zeros \<equiv> PPosj (replicate 6 (PFloat (Fin 0)))"

definition sample_program :: "api_call list" where
  "sample_program =
     [CSetVelj (PInt 30), CSetAccj (PInt 60),
      CMovej False six_zeros PNone PNone PNone PNone (PInt 0) (PInt 0) PNone PNone PNone PNone,
      CMovej False six_zeros (PInt (-1)) PNone PNone PNone (PInt 0) (PInt 0) PNone PNone PNone
        PNone]"



text \<open>C2: for a caller that passes floats, \<^verbatim>\<open>movej\<close> and \<^verbatim>\<open>amovej\<close> implement their contract: they send
  the request that carries the six positions, the first velocity and the first acceleration, the
  time, the radius (0 for the asynchronous form) and the modes, exactly when no velocity or
  acceleration is negative, the time is not negative or unset, velocities and accelerations are
  not all zero unless a time is given, the radius is not negative and the modes are known;
  otherwise they raise \<^verbatim>\<open>DR_Error\<close> with the value code.\<close>

theorem movej_refines_spec:
  assumes "length ps = 6" and "length vs = 6" and "length as = 6"
    and "\<And>f v. setter_ok R ''motion/move_joint'' f v"
  shows "movej_request R (PPosj (map PFloat ps)) (floats vs) (floats as) (PFloat t) (PFloat r)
           (PInt md) (PInt ra) PNone PNone PNone PNone async w =
     (if joint_speeds_accepted vs as t \<and> blending_accepted r md ra
      then Inr [(''pos'', floats ps), (''vel'', PFloat (vs ! 0)), (''acc'', PFloat (as ! 0)),
                (''time'', PFloat t), (''mode'', PInt md),
                (''radius'', PFloat (async_float async r)), (''blend_type'', PInt ra),
                (''sync_type'', PInt async)]
      else Inl (DRError DR_ERROR_VALUE))"
  using assms
  by (auto simp: movej_request_def block_floats joint_speeds_accepted_def blending_accepted_def
      zero_or_one_def)

lemma movej_refines_spec_witness:
  "movej_request ideal_ros (PPosj (map PFloat (replicate 6 (Fin 0))))
     (floats (replicate 6 (Fin 30))) (floats (replicate 6 (Fin 60))) (PFloat (Fin 0))
     (PFloat (Fin 5)) (PInt 0) (PInt 1) PNone PNone PNone PNone 1 start =
   Inr [(''pos'', floats (replicate 6 (Fin 0))), (''vel'', PFloat (Fin 30)),
        (''acc'', PFloat (Fin 60)), (''time'', PFloat (Fin 0)), (''mode'', PInt 0),
        (''radius'', PFloat (Fin 0)), (''blend_type'', PInt 1), (''sync_type'', PInt 1)]"
proof -
  have "joint_speeds_accepted (replicate 6 (Fin 30)) (replicate 6 (Fin 60)) (Fin 0)"
    "blending_accepted (Fin 5) 0 1" "async_float 1 (Fin 5) = Fin 0"
    by (simp_all add: joint_speeds_accepted_def some_nonzero_def blending_accepted_def
        zero_or_one_def float_nonneg_def float_nonneg_or_none_def async_float_def numeral_eq_Suc)
  then show ?thesis
    by (subst movej_refines_spec) simp_all
qed

text \<open>The ideal environment with the two frame fields of the messages at their width.\<close>

definition int8_ros :: ros where
  "int8_ros = ideal_ros\<lparr>setter_ok := (\<lambda>srv f v.
     if srv = ''motion/move_line'' \<and> f = ''ref'' \<or> srv = ''motion/set_ref_coord'' \<and> f = ''coord'' then
       (case v of PInt n \<Rightarrow> -128 \<le> n \<and> n < 128 | _ \<Rightarrow> False)
     else True)\<rparr>"

text \<open>C3: the same for \<^verbatim>\<open>movel\<close> and \<^verbatim>\<open>amovel\<close>: both components of velocity and acceleration are sent;
  without a time the first must be positive and the second positive or unset; the reference
  frame must lie in the range 0 to 200 that the command checks. The frame goes to an 8-bit field,
  whose setter refuses 128 and above: for such a frame the command raises AssertionError where
  it would have been sent. The other fields take the values they are given.\<close>

theorem movel_refines_spec:
  assumes "length ps = 6" and "\<And>f v. f \<noteq> ''ref'' \<Longrightarrow> setter_ok R ''motion/move_line'' f v"
    and "\<And>n. setter_ok R ''motion/move_line'' ''ref'' (PInt n) \<longleftrightarrow> -128 \<le> n \<and> n < 128"
  shows "movel_request R (PPosx (map PFloat ps)) (floats [fst v, snd v]) (floats [fst a, snd a])
           (PFloat t) (PFloat r) (PInt ref) (PInt md) (PInt ra) PNone PNone PNone PNone async w =
     (if task_speeds_accepted v a t \<and> blending_accepted r md ra \<and> frame_in_range ref
      then if ref < 128
           then Inr [(''pos'', floats ps), (''vel'', floats [fst v, snd v]),
                     (''acc'', floats [fst a, snd a]), (''time'', PFloat t),
                     (''radius'', PFloat (async_float async r)), (''ref'', PInt ref),
                     (''mode'', PInt md), (''blend_type'', PInt ra), (''sync_type'', PInt async)]
           else Inl AssertionError
      else Inl (DRError DR_ERROR_VALUE))"
proof -
  have task: "task_param d (PList [PFloat x, PFloat y]) PNone =
     (if float_nonneg_or_none x \<and> float_nonneg_or_none y then Inr (PList [PFloat x, PFloat y])
      else Inl (DRError DR_ERROR_VALUE))" for d x y
    using task_param_floats [of "[x, y]" d] by simp
  have row: "float_list (PList [PFloat x, PFloat y]) = Inr (PList [PFloat x, PFloat y])" for x y
    using float_list_floats(1) [of "[x, y]"] by simp
  show ?thesis
    using assms(1,2) assms(3) [of ref] check_valid_task_floats [of "fst v" "snd v" "fst a" "snd a" t]
    by (auto simp: movel_request_def block_floats task row task_speeds_accepted_def
        blending_accepted_def zero_or_one_def frame_in_range_def)
qed

lemma movel_refines_spec_witness:
  "movel_request int8_ros (PPosx (map PFloat (replicate 6 (Fin 0)))) (floats [Fin 1, Fin 1])
     (floats [Fin 1, Fin 1]) (PFloat (Fin 0)) (PFloat (Fin 0)) (PInt 101) (PInt 0) (PInt 0)
     PNone PNone PNone PNone 0 start =
   Inr [(''pos'', floats (replicate 6 (Fin 0))), (''vel'', floats [Fin 1, Fin 1]),
        (''acc'', floats [Fin 1, Fin 1]), (''time'', PFloat (Fin 0)), (''radius'', PFloat (Fin 0)),
        (''ref'', PInt 101), (''mode'', PInt 0), (''blend_type'', PInt 0), (''sync_type'', PInt 0)] \<and>
   movel_request int8_ros (PPosx (map PFloat (replicate 6 (Fin 0)))) (floats [Fin 1, Fin 1])
     (floats [Fin 1, Fin 1]) (PFloat (Fin 0)) (PFloat (Fin 0)) (PInt 150) (PInt 0) (PInt 0)
     PNone PNone PNone PNone 0 start = Inl AssertionError"
proof -
  have "task_speeds_accepted (Fin 1, Fin 1) (Fin 1, Fin 1) (Fin 0)"
    by (simp add: task_speeds_accepted_def task_pair_positive_def time_given_def
        float_nonneg_or_none_def float_nonneg_def)
  moreover have "blending_accepted (Fin 0) 0 0"
    by (simp add: blending_accepted_def zero_or_one_def float_nonneg_def)
  moreover have "async_float 0 (Fin 0) = Fin 0" by (simp add: async_float_def)
  moreover have "f \<noteq> ''ref'' \<Longrightarrow> setter_ok int8_ros ''motion/move_line'' f v"
    "setter_ok int8_ros ''motion/move_line'' ''ref'' (PInt n) \<longleftrightarrow> -128 \<le> n \<and> n < 128" for f v n
    by (simp_all add: int8_ros_def)
  ultimately show ?thesis
    using movel_refines_spec [of "replicate 6 (Fin 0)" int8_ros "(Fin 1, Fin 1)" "(Fin 1, Fin 1)"
        "Fin 0" "Fin 0" _ 0 0 0 start]
    by (simp add: frame_in_range_def)
qed

section \<open>Effects of one call\<close>

text \<open>C4: a motion command either refuses its arguments, and then only the shutdown of a \<^verbatim>\<open>DR_Error\<close>
  is seen outside, or it calls its service exactly once, with the request built from its
  arguments. Before the call, \<^verbatim>\<open>movesj\<close>, \<^verbatim>\<open>movesx\<close> and \<^verbatim>\<open>moveb\<close> do nothing; every other command polls
  for its own service until a poll succeeds, and for no other. In both cases every global of the module keeps
  its value. (What it comes to when it does not return is in C7.)\<close>

theorem motion_call_effect:
  assumes "is_motion c" and "run_api R c w = Some (r, w')"
  shows "globals.truncate w' = globals.truncate w \<and>
    ((\<exists>e. call_request R c w = Inl e \<and> r = Inl e \<and> w' = note_exc e w) \<or>
     (\<exists>fs ps. call_request R c w = Inr fs \<and>
        w' = w\<lparr>trace := trace w @ ps @ [Called (service_of c) fs]\<rparr> \<and>
        (if waits_of c
         then \<exists>n. ps = replicate n (Polled (service_of c) False) @ [Polled (service_of c) True]
         else ps = [])))"
  using service_fun_success_effect service_fun_globals assms
  unfolding polls_for_def by (metis run_api_motion)

abbreviation plain_movej :: "pyval \<Rightarrow> pyval \<Rightarrow> api_call" where
  "plain_movej vel acc \<equiv> CMovej False six_zeros vel acc PNone PNone (PInt 0) (PInt 0)
     PNone PNone PNone PNone"

lemma plain_movej_negative:
  "run_api R (plain_movej (PInt (-1)) PNone) w
     = Some (Inl (DRError DR_ERROR_VALUE), log Shutdown w)"
  by (simp add: run_api_motion service_fun_def abind_def with_globals_def movej_request_def
      block_defs note_exc_def del: run_api.simps)

lemma motion_call_effect_witness:
  "\<exists>w fs. run_api ideal_ros (plain_movej (PInt 30) (PInt 60)) start = Some (Inr (PInt 0), w) \<and>
     globals.truncate w = globals.truncate start \<and> last (trace w) = Called ''motion/move_joint'' fs"
proof -
  obtain fs where fs: "call_request ideal_ros (plain_movej (PInt 30) (PInt 60)) start = Inr fs"
    by (simp add: movej_request_def block_defs)
  then obtain w where w: "run_api ideal_ros (plain_movej (PInt 30) (PInt 60)) start = Some (Inr (PInt 0), w)"
    by (simp add: run_api_motion del: run_api.simps call_request.simps)
  from motion_call_effect [OF _ w] fs w show ?thesis
    by (auto simp del: run_api.simps call_request.simps)
qed

text \<open>C5: a call of the interface, motion command or setter, that ends with \<^verbatim>\<open>DR_Error\<close> has sent the
  controller nothing and has changed no global: the only trace of it is the shutdown of rclpy.\<close>

theorem dr_error_sends_nothing:
  assumes "run_api R c w = Some (Inl (DRError code), w')" and "no_foreign_dr_error R"
  shows "w' = log Shutdown w"
proof (cases "is_motion c")
  case True
  with assms(1) show ?thesis
    using service_fun_dr_error [OF _ assms(2) success_code_no_dr_error]
    by (simp add: run_api_motion)
next
  case False
  with assms show ?thesis
    by (cases c) (auto simp: set_velj_def set_accj_def set_velx_def set_accx_def
        dest: set_global_dr_error set_ref_coord_dr_error)
qed

lemma dr_error_sends_nothing_witness:
  "\<exists>w. run_api ideal_ros (plain_movej (PInt (-1)) PNone) start = Some (Inl (DRError 1001), w) \<and>
       w = log Shutdown start"
proof -
  have run: "run_api ideal_ros (plain_movej (PInt (-1)) PNone) start
      = Some (Inl (DRError 1001), log Shutdown start)"
    using plain_movej_negative by (simp add: DR_ERROR_VALUE_def)
  have "no_foreign_dr_error ideal_ros" by (simp add: no_foreign_dr_error_def)
  with dr_error_sends_nothing [OF run] run show ?thesis by blast
qed

text \<open>C6: the result of a motion command whose arguments are accepted is decided by the reply: 0
  when \<^verbatim>\<open>success\<close> is true, -1 when it is not or there is no result; an exception of the call
  passes, and an exception of the future leaves \<^verbatim>\<open>ret\<close> unassigned, so that \<^verbatim>\<open>return ret\<close> raises
  UnboundLocalError instead of reporting the failure.\<close>

theorem motion_result:
  assumes "is_motion c" and "call_request R c w = Inr fs"
    and "await_service R (waits_of c) (service_of c) w = Some (Inr (), w1)"
    and "\<And>a. reply_of R (trace w1) (service_of c) fs = Response a \<Longrightarrow>
           \<exists>b. a ''success'' = PBool b"
  shows "run_api R c w =
     (let w2 = log (Called (service_of c) fs) w1
      in case reply_of R (trace w1) (service_of c) fs of
           Hangs \<Rightarrow> None
         | CallRaises e \<Rightarrow> Some (Inl e, w2)
         | FutureRaises \<Rightarrow> Some (Inl UnboundLocalError, w2)
         | NoResult \<Rightarrow> Some (Inr (PInt (-1)), w2)
         | Response a \<Rightarrow> Some (Inr (PInt (if a ''success'' = PBool True then 0 else -1)), w2))"
proof -
  have success: "py_eq (PBool b) 1 = Inr b" for b
    by (simp add: py_eq_def)
  have "run_api R c w = service_fun R (waits_of c) (service_of c) (call_request R c) None
      success_code w"
    using assms(1) by (simp add: run_api_motion)
  then show ?thesis
    using assms(4)
    by (auto simp: service_fun_reply [of "call_request R c", OF assms(2,3)] Let_def success
        split: reply.splits)
qed

definition failing_ros :: ros where
  "failing_ros = \<lparr>
     setter_ok = (\<lambda>_ _ _. True),
     available = (\<lambda>_ _. True),
     reply_of = (\<lambda>_ _ _. FutureRaises),
     publish_fails = (\<lambda>_ _ _. None)\<rparr>"

lemma plain_movej_request:
  "\<exists>fs. call_request failing_ros (plain_movej (PInt 1) (PInt 1)) start = Inr fs"
  by (simp add: movej_request_def block_defs failing_ros_def)

lemma motion_result_witness:
  "\<exists>w. run_api failing_ros (plain_movej (PInt 1) (PInt 1)) start = Some (Inl UnboundLocalError, w)"
proof -
  obtain fs where "call_request failing_ros (plain_movej (PInt 1) (PInt 1)) start = Inr fs"
    using plain_movej_request by blast
  moreover have "await_service failing_ros True ''motion/move_joint'' start
      = Some (Inr (), log (Polled ''motion/move_joint'' True) start)"
    by (simp add: await_service_def wait_for_service.simps failing_ros_def)
  ultimately show ?thesis
    using motion_result [of "plain_movej (PInt 1) (PInt 1)" failing_ros start fs]
    by (simp add: failing_ros_def Let_def del: run_api.simps call_request.simps)
qed

section \<open>Termination\<close>

text \<open>C7: if every service appears after some number of polls and the client library answers each
  call, then every program of motion calls and setters, on any arguments, runs to its end.\<close>

theorem programs_terminate:
  assumes "reachable_services R"
  shows "\<exists>w'. run_all (run_api R) cs w = Some w'"
proof (induction cs arbitrary: w)
  case (Cons c cs)
  obtain r w1 where "run_api R c w = Some (r, w1)"
    using run_api_returns [OF assms] by blast
  with Cons show ?case by simp
qed simp

text \<open>An environment whose services appear at the third poll.\<close>

definition slow_ros :: ros where
  "slow_ros = \<lparr>
     setter_ok = (\<lambda>_ _ _. True),
     available = (\<lambda>h _. 2 \<le> length h),
     reply_of = (\<lambda>_ _ _. NoResult),
     publish_fails = (\<lambda>_ _ _. None)\<rparr>"

lemma programs_terminate_witness:
  "\<exists>w'. run_all (run_api slow_ros) sample_program start = Some w'"
proof -
  have "\<exists>n. 2 \<le> length (h @ replicate n (Polled srv False))" for h srv
    by (rule exI [of _ 2]) simp
  then have "reachable_services slow_ros"
    by (simp add: reachable_services_def slow_ros_def)
  then show ?thesis by (rule programs_terminate)
qed

text \<open>The converse: while its service never appears, an awaiting motion command with acceptable
  arguments does not return: there is no bound on the waiting loop, whereas the spline and
  blending commands, which do not wait, go on to the call.\<close>

theorem unavailable_service_blocks:
  assumes "is_motion c" and "call_request R c w = Inr fs"
    and "\<And>h. \<not> available R h (service_of c)" and "\<And>h srv fs. reply_of R h srv fs \<noteq> Hangs"
  shows "run_api R c w = None \<longleftrightarrow> waits_of c"
proof (cases "waits_of c")
  case True
  then show ?thesis
    using assms(1,2) wait_for_service_never [OF assms(3)]
    by (simp add: run_api_motion service_fun_def abind_def with_globals_def await_service_def)
next
  case False
  then have "await_service R (waits_of c) (service_of c) w = Some (Inr (), w)"
    by (simp add: await_service_def)
  then show ?thesis
    using assms(1,4) False
    by (auto simp: run_api_motion service_fun_reply [of "call_request R c", OF assms(2)] Let_def
        split: reply.splits sum.splits)
qed

definition silent_ros :: ros where
  "silent_ros = \<lparr>
     setter_ok = (\<lambda>_ _ _. True),
     available = (\<lambda>_ _. False),
     reply_of = (\<lambda>_ _ _. NoResult),
     publish_fails = (\<lambda>_ _ _. None)\<rparr>"

lemma unavailable_service_blocks_witness:
  "run_api silent_ros (plain_movej (PInt 1) (PInt 1)) start = None"
proof -
  have "\<exists>fs. call_request silent_ros (plain_movej (PInt 1) (PInt 1)) start = Inr fs"
    by (simp add: movej_request_def block_defs silent_ros_def)
  then obtain fs where
    "call_request silent_ros (plain_movej (PInt 1) (PInt 1)) start = Inr fs" ..
  with unavailable_service_blocks [of "plain_movej (PInt 1) (PInt 1)" silent_ros start fs]
  show ?thesis
    by (simp add: silent_ros_def del: run_api.simps call_request.simps)
qed

section \<open>Equivalent calls\<close>

text \<open>C11: the short aliases mean the long names: a motion command given values under \<^verbatim>\<open>v\<close>, \<^verbatim>\<open>a\<close>, \<^verbatim>\<open>t\<close>,
  \<^verbatim>\<open>r\<close> or \<^verbatim>\<open>an\<close> does the same as with these values under the long names, and where both are given
  the long name wins. (A numpy array among these arguments is set apart: comparing it with None
  raises.)\<close>

theorem aliases_equivalent:
  assumes "is_motion c" and "list_all not_array (aliased_args c)"
  shows "run_api R (long_form c) = run_api R c"
proof -
  have "call_request R (long_form c) = call_request R c"
    using call_request_long_form [OF assms] by auto
  with assms(1) show ?thesis
    by (simp add: run_api_motion long_form_same)
qed

lemma aliases_equivalent_witness:
  "run_api ideal_ros (CMovej False six_zeros (PInt 30) PNone PNone PNone (PInt 0) (PInt 0)
     PNone (PInt 60) PNone PNone) =
   run_api ideal_ros (CMovej False six_zeros (PInt 30) (PInt 60) PNone PNone (PInt 0) (PInt 0)
     (PInt 7) PNone PNone PNone)"
proof -
  have "run_api ideal_ros (long_form c) = run_api ideal_ros c"
    if "c = CMovej False six_zeros (PInt 30) x PNone PNone (PInt 0) (PInt 0) y z PNone PNone"
      "{x, y, z} \<subseteq> {PNone, PInt 60, PInt 7}" for c x y z
    using that by (intro aliases_equivalent) (auto simp: not_array_def)
  from this [of _ PNone PNone "PInt 60"] this [of _ "PInt 60" "PInt 7" PNone] show ?thesis
    by (simp add: pick_def del: run_api.simps)
qed

text \<open>C12: the asynchronous form of a motion command accepts what the synchronous form accepts and
  sends the same request, except that \<^verbatim>\<open>sync_type\<close> is 1 and the blending radius is 0 whatever the
  caller passed.\<close>

theorem asynchronous_form:
  assumes "is_motion c" and "\<And>f v. setter_ok R (service_of c) f v"
    and "call_request R (with_async False c) w = Inr fs"
  shows "call_request R (with_async True c) w = Inr (map async_field fs)"
  using call_request_async assms by blast

lemma asynchronous_form_witness:
  "\<exists>fs. call_request ideal_ros (CMovej True six_zeros (PInt 1) (PInt 1) PNone (PInt 5) (PInt 0)
      (PInt 0) PNone PNone PNone PNone) start = Inr fs \<and> fld fs ''radius'' = PFloat (Fin 0)"
proof -
  let ?c = "CMovej True six_zeros (PInt 1) (PInt 1) PNone (PInt 5) (PInt 0) (PInt 0)
    PNone PNone PNone PNone"
  have "\<exists>fs. call_request ideal_ros (with_async False ?c) start = Inr fs \<and>
      fld (map async_field fs) ''radius'' = PFloat (Fin 0)"
    by (simp add: movej_request_def block_defs async_field_def)
  then obtain fs where "call_request ideal_ros (with_async False ?c) start = Inr fs"
    and "fld (map async_field fs) ''radius'' = PFloat (Fin 0)"
    by blast
  with asynchronous_form [of ?c ideal_ros start fs] show ?thesis
    by (simp del: call_request.simps)
qed

text \<open>A number stands for a list: as a velocity or acceleration it means six equal joint values,
  or a task pair whose second component is unset (two equal components for the spiral), and as
  the angle of \<^verbatim>\<open>movec\<close> a pair with 0. A motion command given numbers does the same as with these
  lists.\<close>

theorem numbers_spread:
  assumes "is_motion c"
  shows "run_api R (list_form c) = run_api R c"
proof -
  have "call_request R (list_form c) = call_request R c"
    using call_request_list_form by auto
  with assms show ?thesis
    by (simp add: run_api_motion list_form_same)
qed

lemma numbers_spread_witness:
  "run_api ideal_ros (CMovel False six_zeros (PList [PInt 30, PInt (-10000)]) (PList [PInt 60, PInt (-10000)])
     PNone PNone PNone (PInt 0) (PInt 0) PNone PNone PNone PNone) =
   run_api ideal_ros (CMovel False six_zeros (PInt 30) (PInt 60) PNone PNone PNone (PInt 0) (PInt 0)
     PNone PNone PNone PNone)"
  using numbers_spread [of "CMovel False six_zeros (PInt 30) (PInt 60) PNone PNone PNone (PInt 0) (PInt 0)
     PNone PNone PNone PNone" ideal_ros]
  by (simp add: spread_def del: run_api.simps)

text \<open>C13: an omitted velocity or acceleration means the module's default of that moment: a motion
  command does the same as when it is given, as a list, the value the setters last stored. The state
  is any whose defaults are in range, as every program of calls leaves them.\<close>

theorem defaults_are_stored_values:
  assumes "is_motion c" and "globals_ok w"
  shows "run_api R (fill_defaults w c) w = run_api R c w"
proof -
  have "call_request R (fill_defaults w c) w = call_request R c w"
    using call_request_defaults [OF assms(2)] by blast
  then show ?thesis
    using assms(1)
    by (simp add: run_api_motion fill_defaults_same service_fun_def abind_def with_globals_def)
qed

lemma defaults_are_stored_values_witness:
  "\<exists>w. run_api ideal_ros (CSetVelx (PInt 30) (PInt 20)) start = Some (Inr (PInt 0), w) \<and>
     run_api ideal_ros (CMovel False six_zeros (PList [PInt 30, PInt 20]) (PInt 60) PNone PNone PNone (PInt 0)
       (PInt 0) PNone PNone PNone PNone) w =
     run_api ideal_ros (CMovel False six_zeros PNone (PInt 60) PNone PNone PNone (PInt 0)
       (PInt 0) PNone PNone PNone PNone) w"
proof -
  let ?w = "start\<lparr>g_velx := PList [PInt 30, PInt 20]\<rparr>"
  have "globals_ok ?w"
    using init_globals_ok [of start] by (simp add: globals_ok_def good_list_def)
  from defaults_are_stored_values [OF _ this, of "CMovel False six_zeros PNone (PInt 60) PNone PNone PNone
      (PInt 0) (PInt 0) PNone PNone PNone PNone" ideal_ros]
  have "run_api ideal_ros (CMovel False six_zeros (PList [PInt 30, PInt 20]) (PInt 60) PNone PNone PNone (PInt 0)
       (PInt 0) PNone PNone PNone PNone) ?w =
     run_api ideal_ros (CMovel False six_zeros PNone (PInt 60) PNone PNone PNone (PInt 0)
       (PInt 0) PNone PNone PNone PNone) ?w"
    by (simp add: given_or_def del: run_api.simps)
  moreover have "run_api ideal_ros (CSetVelx (PInt 30) (PInt 20)) start = Some (Inr (PInt 0), ?w)"
    by (simp add: set_velx_def task_pair_value_def abind_def update_world_def)
  ultimately show ?thesis by blast
qed

section \<open>Positions\<close>

text \<open>\<^verbatim>\<open>is_number\<close> returns inside its loop, so the constructors and coercions look at the first
  value of a position only: any five values, strings or None included, may follow a number. The
  error appears later, as the exception of \<^verbatim>\<open>float\<close> and not as a \<^verbatim>\<open>DR_Error\<close>.\<close>

theorem positions_check_first_value:
  assumes "is_int_or_float x" and "py_float x = Inr f" and "length ys = 5"
  shows "get_posj (PList (x # ys)) = Inr (PPosj (x # ys)) \<and>
         get_posx (PList (x # ys)) = Inr (PPosx (x # ys)) \<and>
         (map_res py_float ys = Inl e \<longrightarrow> float_list (PPosj (x # ys)) = Inl e)"
proof -
  have "is_number x = Inr True" "py_type x \<noteq> TStr"
    using assms(1,2) by (auto simp: py_type_inv)
  then have "is_number (PList (x # ys)) = Inr True" by simp
  with assms(2,3) show ?thesis
    by (auto simp: get_posj_def get_posx_def posj_init_def posx_init_def six_of_def
        is_list_of_len_def POINT_COUNT_def check_number_def float_list_def py_floats_def)
qed

lemma positions_check_first_value_witness:
  "get_posj (PList [PInt 0, PStr ''a'', PNone, PInt 3, PInt 4, PInt 5]) =
     Inr (PPosj [PInt 0, PStr ''a'', PNone, PInt 3, PInt 4, PInt 5])"
  using positions_check_first_value
    [of "PInt 0" "Fin 0" "[PStr ''a'', PNone, PInt 3, PInt 4, PInt 5]"]
  by simp

text \<open>A list of segments made by the constructor of \<^verbatim>\<open>posb\<close> is sent as one row of fourteen
  values per segment: the first point, the second point or six zeros, the type and the radius;
  and the rows, when their values convert to floats, are read back from the multi-arrays of the
  request as these floats.\<close>

theorem segments_flattened:
  assumes "list_all is_segment ss" and "ss \<noteq> []"
  shows "moveb_segments (PList ss) = Inr (map (PList \<circ> segment_items) ss) \<and>
         list_all (\<lambda>s. length (segment_items s) = 14) ss \<and>
         (map_res (map_res py_float) (map segment_items ss) = Inr fss \<longrightarrow>
            rbind (list_to_multiarray (map (PList \<circ> segment_items) ss)) multiarray_to_list =
            Inr (PList (map floats fss)))"
proof (intro conjI impI)
  show "moveb_segments (PList ss) = Inr (map (PList \<circ> segment_items) ss)"
    using assms by (rule moveb_segments_eq)
  have "length (segment_items s) = 14" if "is_segment s" for s
    using that by (cases s) (auto simp: length_point_items POINT_COUNT_def)
  with assms(1) show "list_all (\<lambda>s. length (segment_items s) = 14) ss"
    by (simp add: list_all_iff)
  show "rbind (list_to_multiarray (map (PList \<circ> segment_items) ss)) multiarray_to_list =
      Inr (PList (map floats fss))"
    if "map_res (map_res py_float) (map segment_items ss) = Inr fss"
    using list_to_multiarray_rows [OF that] by (simp add: multiarray_to_list_floats)
qed

abbreviation line_segment :: pyval where
  "line_segment \<equiv> PPosb (PInt 0) (PPosx (replicate 6 (PInt 1))) PNone (PInt 2)"

abbreviation line_floats :: "pyfloat list" where
  "line_floats \<equiv> replicate 6 (Fin 1) @ replicate 6 (Fin 0) @ [Fin 0, Fin 2]"

lemma line_segment_simps:
  "list_all is_segment [line_segment]"
  "map_res (map_res py_float) (map segment_items [line_segment]) = Inr [line_floats]"
  by (simp_all add: posx_six_def POINT_COUNT_def numeral_eq_Suc)

lemma segments_flattened_witness:
  "moveb_segments (PList [line_segment]) =
     Inr [PList (replicate 6 (PInt 1) @ replicate 6 (PFloat (Fin 0)) @ [PInt 0, PInt 2])] \<and>
   rbind (list_to_multiarray (map (PList \<circ> segment_items) [line_segment])) multiarray_to_list =
     Inr (PList [floats line_floats])"
  using segments_flattened [OF line_segment_simps(1), of "[line_floats]"] line_segment_simps(2)
  by (simp add: POINT_COUNT_def)

section \<open>Behaviour that the callers must know\<close>

text \<open>The speed and the time of a blended motion: for a caller that passes floats, \<^verbatim>\<open>moveb\<close>
  implements the contract of \<^verbatim>\<open>movel\<close> but for the time, on which it puts no condition: every
  negative or infinite time is accepted and sent, and, being given, switches the check of the
  velocities off.\<close>

theorem moveb_refines_spec:
  assumes "list_all is_segment ss" and "ss \<noteq> []"
    and "map_res (map_res py_float) (map segment_items ss) = Inr fss"
    and "\<And>f v. setter_ok R ''motion/move_blending'' f v"
  shows "moveb_request R (PList ss) (floats [fst v, snd v]) (floats [fst a, snd a]) (PInt ref)
           (PFloat t) (PInt md) PNone PNone PNone async w =
     (if list_all float_nonneg_or_none [fst v, snd v, fst a, snd a] \<and>
         (time_given t \<or> (task_pair_positive (fst v) (snd v) \<and> task_pair_positive (fst a) (snd a)))
         \<and> frame_in_range ref \<and> zero_or_one md
      then Inr [(''segment'', PList (map (PMultiArray \<circ> map PFloat) fss)),
                (''pos_cnt'', PInt (int (length ss))), (''vel'', floats [fst v, snd v]),
                (''acc'', floats [fst a, snd a]), (''time'', PFloat t), (''ref'', PInt ref),
                (''mode'', PInt md), (''sync_type'', PInt async)]
      else Inl (DRError DR_ERROR_VALUE))"
proof -
  have task: "task_param d (PList [PFloat x, PFloat y]) PNone =
     (if float_nonneg_or_none x \<and> float_nonneg_or_none y then Inr (PList [PFloat x, PFloat y])
      else Inl (DRError DR_ERROR_VALUE))" for d x y
    using task_param_floats [of "[x, y]" d] by simp
  have row: "float_list (PList [PFloat x, PFloat y]) = Inr (PList [PFloat x, PFloat y])" for x y
    using float_list_floats(1) [of "[x, y]"] by simp
  show ?thesis
    using assms(4) list_to_multiarray_rows [OF assms(3)] moveb_segments_eq [OF assms(1,2)] check_valid_task_floats [of "fst v" "snd v" "fst a" "snd a" t]
    by (auto simp: moveb_request_def block_floats task row moveb_time_def zero_or_one_def)
qed

lemma moveb_refines_spec_witness:
  "\<exists>fs. moveb_request ideal_ros (PList [line_segment])
      (floats [Fin 0, Fin 0]) (floats [Fin 0, Fin 0]) (PInt 0) (PFloat (Fin (-5))) (PInt 0)
      PNone PNone PNone 0 start = Inr fs \<and> fld fs ''time'' = PFloat (Fin (-5))"
  using moveb_refines_spec [OF line_segment_simps(1) _ line_segment_simps(2), of ideal_ros
      "(Fin 0, Fin 0)" "(Fin 0, Fin 0)" 0 "Fin (-5)" 0 0 start]
  by (simp add: float_nonneg_or_none_def float_nonneg_def time_given_def frame_in_range_def
      zero_or_one_def)

text \<open>\<^verbatim>\<open>set_ref_coord\<close> stores the new frame whatever the controller answered: also when the
  controller refuses it and the function returns -1, later motion commands use it as their
  default frame.\<close>

theorem refused_coord_is_stored:
  assumes "valid_coord n" and "setter_ok R ''motion/set_ref_coord'' ''coord'' (PInt n)"
    and "reply_of R (trace w) ''motion/set_ref_coord'' [(''coord'', PInt n)] = Response a"
    and "a ''success'' = PBool ok"
  shows "set_ref_coord R (PInt n) w =
    Some (Inr (PInt (if ok then 0 else -1)),
          (log (Called ''motion/set_ref_coord'' [(''coord'', PInt n)]) w)\<lparr>g_coord := PInt n\<rparr>)"
proof -
  have "check_coord (PInt n) = Inr ()"
    using assms(1) by (auto simp: check_coord_def outside_user_coords_def valid_coord_def)
  with assms(2-4) show ?thesis
    by (auto simp: set_ref_coord_def abind_def with_globals_def call_service_def Let_def
        success_code_def py_eq_def update_world_def return_ret_def)
qed

definition refusing_ros :: ros where
  "refusing_ros = \<lparr>
     setter_ok = (\<lambda>_ _ _. True),
     available = (\<lambda>_ _. True),
     reply_of = (\<lambda>_ _ _. Response (\<lambda>_. PBool False)),
     publish_fails = (\<lambda>_ _ _. None)\<rparr>"

lemma refused_coord_is_stored_witness:
  "\<exists>w. set_ref_coord refusing_ros (PInt 105) start = Some (Inr (PInt (-1)), w) \<and>
       g_coord w = PInt 105"
  using refused_coord_is_stored [of 105 refusing_ros start "\<lambda>_. PBool False" False]
  by (simp add: valid_coord_def refusing_ros_def)

text \<open>C14: the frame of a request is an 8-bit field of the message, whose setter accepts -128 to 127
  only. A user frame from 128 to 200 passes every check of the module and then raises
  AssertionError: neither \<^verbatim>\<open>movel\<close> nor \<^verbatim>\<open>set_ref_coord\<close> ever reaches the controller with one.\<close>

theorem high_user_frames_unusable:
  assumes "\<And>n. setter_ok R ''motion/move_line'' ''ref'' (PInt n) \<Longrightarrow> -128 \<le> n \<and> n < 128"
    and "\<And>n. setter_ok R ''motion/set_ref_coord'' ''coord'' (PInt n) \<Longrightarrow> -128 \<le> n \<and> n < 128"
    and "\<And>f v. f \<noteq> ''ref'' \<Longrightarrow> setter_ok R ''motion/move_line'' f v"
    and "128 \<le> n" and "n \<le> 200"
    and "length ps = 6" and "task_speeds_accepted v a t" and "blending_accepted r md ra"
  shows "set_ref_coord R (PInt n) w = Some (Inl AssertionError, w) \<and>
    movel R (PPosx (map PFloat ps)) (floats [fst v, snd v]) (floats [fst a, snd a])
      (PFloat t) (PFloat r) (PInt n) (PInt md) (PInt ra) PNone PNone PNone PNone w
    = Some (Inl AssertionError, w)"
proof
  have refused: "\<not> setter_ok R ''motion/move_line'' ''ref'' (PInt n)"
      "\<not> setter_ok R ''motion/set_ref_coord'' ''coord'' (PInt n)"
    using assms(1,2) [of n] assms(4) by auto
  have "check_coord (PInt n) = Inr ()"
    using assms(4,5) by (simp add: check_coord_def outside_user_coords_def)
  with refused show "set_ref_coord R (PInt n) w = Some (Inl AssertionError, w)"
    by (simp add: set_ref_coord_def abind_def with_globals_def note_exc_def)
  have task: "task_param d (PList [PFloat x, PFloat y]) PNone =
     (if float_nonneg_or_none x \<and> float_nonneg_or_none y then Inr (PList [PFloat x, PFloat y])
      else Inl (DRError DR_ERROR_VALUE))" for d x y
    using task_param_floats [of "[x, y]" d] by simp
  have row: "float_list (PList [PFloat x, PFloat y]) = Inr (PList [PFloat x, PFloat y])" for x y
    using float_list_floats(1) [of "[x, y]"] by simp
  have "movel_request R (PPosx (map PFloat ps)) (floats [fst v, snd v]) (floats [fst a, snd a])
      (PFloat t) (PFloat r) (PInt n) (PInt md) (PInt ra) PNone PNone PNone PNone 0 w
    = Inl AssertionError"
    using assms(3-) refused check_valid_task_floats [of "fst v" "snd v" "fst a" "snd a" t]
    by (auto simp: movel_request_def block_floats task row task_speeds_accepted_def
        blending_accepted_def zero_or_one_def frame_in_range_def)
  then show "movel R (PPosx (map PFloat ps)) (floats [fst v, snd v]) (floats [fst a, snd a])
      (PFloat t) (PFloat r) (PInt n) (PInt md) (PInt ra) PNone PNone PNone PNone w
    = Some (Inl AssertionError, w)"
    by (simp add: movel_def movel_impl_def service_fun_def abind_def with_globals_def note_exc_def)
qed

lemma high_user_frames_unusable_witness:
  "movel int8_ros (PPosx (map PFloat (replicate 6 (Fin 0)))) (floats [Fin 1, Fin 1])
     (floats [Fin 1, Fin 1]) (PFloat (Fin 0)) (PFloat (Fin 0)) (PInt 150) (PInt 0) (PInt 0)
     PNone PNone PNone PNone start = Some (Inl AssertionError, start)"
proof -
  have "task_speeds_accepted (Fin 1, Fin 1) (Fin 1, Fin 1) (Fin 0)"
    by (simp add: task_speeds_accepted_def task_pair_positive_def time_given_def
        float_nonneg_or_none_def float_nonneg_def)
  moreover have "blending_accepted (Fin 0) 0 0"
    by (simp add: blending_accepted_def zero_or_one_def float_nonneg_def)
  moreover have "setter_ok int8_ros ''motion/move_line'' ''ref'' (PInt n) \<Longrightarrow> -128 \<le> n \<and> n < 128"
    "setter_ok int8_ros ''motion/set_ref_coord'' ''coord'' (PInt n) \<Longrightarrow> -128 \<le> n \<and> n < 128"
    "f \<noteq> ''ref'' \<Longrightarrow> setter_ok int8_ros ''motion/move_line'' f v" for f n v
    by (simp_all add: int8_ros_def)
  ultimately have "movel int8_ros (PPosx (map PFloat (replicate 6 (Fin 0))))
     (floats [fst (Fin 1, Fin 1), snd (Fin 1, Fin 1)]) (floats [fst (Fin 1, Fin 1), snd (Fin 1, Fin 1)])
     (PFloat (Fin 0)) (PFloat (Fin 0)) (PInt 150) (PInt 0) (PInt 0)
     PNone PNone PNone PNone start = Some (Inl AssertionError, start)"
    by (intro high_user_frames_unusable [THEN conjunct2]) simp_all
  then show ?thesis
    by (simp only: fst_conv snd_conv)
qed

text \<open>The marker of an unset value is refused as a negative one.\<close>

lemma spiral_default_velocity_refused:
  assumes "g_velx w = PList [x, PInt DR_COND_NONE]"
  shows "\<exists>e. run_api R (CMoveSpiral asyn rev_n rmax lmax PNone acc time axis ref PNone a t) w
           = Some (Inl e, note_exc e w)"
proof -
  have "\<exists>e. spiral_param (g_velx w) PNone PNone = Inl e"
    using assms
    by (cases "is_number (PList [x, PInt (- 10000)])"; cases "py_lt x 0")
      (auto simp: spiral_param_def choose_param_def check_items_def check_number_def
        negative_item_def raise_if_def simp del: is_number.simps)
  then obtain e where "spiral_param (g_velx w) PNone PNone = Inl e" ..
  then have "\<exists>e. spiral_request R rev_n rmax lmax PNone acc time axis ref PNone a t
      (async_code asyn) w = Inl e"
    by (auto simp: spiral_request_def rbind_def split: sum.splits)
  then show ?thesis
    by (auto simp: run_api_motion service_fun_raises simp del: run_api.simps)
qed

lemma stream_defaults_refused:
  assumes "g_velx w = PList [x, PInt DR_COND_NONE]"
  shows "(\<exists>e. servol R pos PNone acc time PNone a t w = Some (Inl e, note_exc e w)) \<and>
         (\<exists>e. speedl_rt R vel PNone PNone PNone w = Some (Inl e, note_exc e w))"
proof
  have "\<exists>e. servol_param (g_velx w) PNone PNone = Inl e"
    using assms
    by (cases "is_number (PList [x, PInt (- 10000)])"; cases "py_lt x 0")
      (auto simp: servol_param_def no_negative_def check_number_def
        negative_item_def raise_if_def simp del: is_number.simps)
  then show "\<exists>e. servol R pos PNone acc time PNone a t w = Some (Inl e, note_exc e w)"
    by (auto simp: servol_def stream_fun_def abind_def with_globals_def lift_res_def rbind_def
        split: sum.splits)
  have "task_components_bad (PList (replicate 6 (PInt (- 10000)))) = Inl (DRError DR_ERROR_VALUE)"
    by (simp add: task_components_bad_def py_index_def)
  then have "\<exists>e. check_valid_vel_acc_task vel (PList (replicate 6 (PInt (- 10000)))) (PFloat (Fin 0))
      = Inl e"
    by (auto simp: check_valid_vel_acc_task_def time_unused_def rbind_def split: sum.splits)
  then show "\<exists>e. speedl_rt R vel PNone PNone PNone w = Some (Inl e, note_exc e w)"
    by (auto simp: speedl_rt_def stream_fun_def abind_def with_globals_def lift_res_def
        speedl_rt_acc_def time_param_inst_def time_check_inst_def isinstance_num_def rbind_def
        raise_when_def raise_if_def Let_def split: sum.splits)
qed

text \<open>While the second component of the task velocity default is unset, as the module starts and
  as \<^verbatim>\<open>set_velx\<close> with one argument leaves it, three commands cannot be called without a velocity:
  \<^verbatim>\<open>move_spiral\<close> and \<^verbatim>\<open>servol\<close> refuse the marker -10000 as a negative velocity, and \<^verbatim>\<open>speedl_rt\<close>,
  without a time, refuses the acceleration it puts for a missing one. They raise whatever the other
  arguments are, and send and publish nothing.\<close>

theorem unset_defaults_refused:
  assumes "g_velx w = PList [x, PInt DR_COND_NONE]"
  shows "(\<exists>e. run_api R (CMoveSpiral asyn rev_n rmax lmax PNone acc time axis ref PNone a t) w
           = Some (Inl e, note_exc e w)) \<and>
         (\<exists>e. servol R pos PNone acc' time' PNone a' t' w = Some (Inl e, note_exc e w)) \<and>
         (\<exists>e. speedl_rt R vel PNone PNone PNone w = Some (Inl e, note_exc e w))"
  using spiral_default_velocity_refused [OF assms] stream_defaults_refused [OF assms] by blast

lemma unset_defaults_refused_witness:
  "\<exists>e. run_api ideal_ros (CMoveSpiral False (PInt 10) (PInt 10) (PInt 0) PNone (PInt 100) (PInt 5)
     (PInt 2) (PInt 1) PNone PNone PNone) start = Some (Inl e, note_exc e start)"
  by (rule conjunct1 [OF unset_defaults_refused [of start "PFloat (Fin 0)"]]) simp

section \<open>Reading back\<close>

text \<open>\<^verbatim>\<open>get_current_posx\<close> returns, for a response whose first row holds at least seven floats, the
  position made of the first six and the seventh rounded to an integer; without a result it
  returns a pair of None, and after an exception of the future it returns the number 0.\<close>

theorem current_posx_value:
  assumes "valid_coord n" and "n \<noteq> DR_TOOL"
    and "setter_ok R ''aux_control/get_current_posx'' ''ref'' (PInt n)"
    and "\<And>a. reply_of R (trace w) ''aux_control/get_current_posx'' [(''ref'', PInt n)] = Response a \<Longrightarrow>
           a ''task_pos_info'' = PList (map (PMultiArray \<circ> map PFloat) (row # rows))"
    and "7 \<le> length row" and "round_float (row ! 6) = Inr s"
  shows "get_current_posx R (PInt n) w =
    (let w' = log (Called ''aux_control/get_current_posx'' [(''ref'', PInt n)]) w
     in case reply_of R (trace w) ''aux_control/get_current_posx'' [(''ref'', PInt n)] of
          Hangs \<Rightarrow> None
        | CallRaises e \<Rightarrow> Some (Inl e, w')
        | FutureRaises \<Rightarrow> Some (Inr (PInt 0), w')
        | NoResult \<Rightarrow> Some (Inr (PTuple [PNone, PNone]), w')
        | Response a \<Rightarrow> Some (Inr (PTuple [PPosx (map PFloat (take 6 row)), PInt s]), w'))"
proof -
  have coord: "check_coord_no_tool (PInt n) = Inr ()"
    using assms(1,2)
    by (auto simp: check_coord_no_tool_def outside_user_coords_def valid_coord_def)
  have result: "current_posx_result (Response a) =
      Inr (Some (PTuple [PPosx (map PFloat (take 6 row)), PInt s]))"
    if "a ''task_pos_info'' = PList (map (PMultiArray \<circ> map PFloat) (row # rows))" for a
  proof -
    have info: "multiarray_to_list (a ''task_pos_info'') = Inr (PList (map floats (row # rows)))"
      unfolding that by (rule multiarray_to_list_floats)
    have "map_res (\<lambda>i. py_index (floats row) i) [0..<6] = Inr (map (\<lambda>i. PFloat (row ! i)) [0..<6])"
      using assms(5) by (intro map_res_map) (simp add: py_index_def)
    moreover have "map (\<lambda>i. PFloat (row ! i)) [0..<6] = map PFloat (take 6 row)"
      using assms(5) by (intro nth_equalityI) simp_all
    moreover have "py_index (floats row) 6 = Inr (PFloat (row ! 6))"
      using assms(5) by (simp add: py_index_def)
    moreover have "posx (floats (take 6 row)) = Inr (PPosx (map PFloat (take 6 row)))"
      using assms(5)
      by (simp add: posx_init_def is_list_of_len_def six_of_def POINT_COUNT_def)
    ultimately show ?thesis
      using assms(6)
      by (simp add: current_posx_result_def info py_index_def [of "PList (_ # _)"] POINT_COUNT_def
          py_round_def)
  qed
  show ?thesis
    using assms(3,4) coord
    by (auto simp: get_current_posx_def service_fun_def abind_def with_globals_def
        default_ref_def await_service_def call_service_def return_ret_def Let_def result
        current_posx_result_def [of NoResult] split: reply.splits)
qed

definition posx_ros :: ros where
  "posx_ros = \<lparr>
     setter_ok = (\<lambda>_ _ _. True),
     available = (\<lambda>_ _. True),
     reply_of = (\<lambda>_ _ _. Response (\<lambda>_. PList [PMultiArray (map PFloat
        [Fin 1, Fin 2, Fin 3, Fin 4, Fin 5, Fin 6, Fin 2])])),
     publish_fails = (\<lambda>_ _ _. None)\<rparr>"

lemma current_posx_value_witness:
  "\<exists>w. get_current_posx posx_ros (PInt 0) start =
     Some (Inr (PTuple [PPosx (map PFloat [Fin 1, Fin 2, Fin 3, Fin 4, Fin 5, Fin 6]), PInt 2]), w)"
proof -
  have "round_float (Fin 2) = Inr 2"
    using round_half_even_int [of 2] by (simp add: round_float_def)
  then show ?thesis
    using current_posx_value [of 0 posx_ros start
        "[Fin 1, Fin 2, Fin 3, Fin 4, Fin 5, Fin 6, Fin 2]" "[]" 2]
    by (simp add: valid_coord_def posx_ros_def Let_def numeral_eq_Suc)
qed

end
