(* ===== verification/Tcp.thy ===== *)
theory Tcp
  imports DR_common Sessions "HOL-Library.AList" "HOL-Library.Word"
begin

text \<open>
  What DR_tcp_client2.py and DR_tcp_server2.py share: the socket library as a parameter, the two
  dictionaries of connections and of their states, the receive loop and the flush loop. Both
  modules repeat these statements; each definition here is mapped to the occurrence in the
  client.

  A socket is named by its \<^verbatim>\<open>id\<close>. A dictionary is an association list in insertion order, with
  Python's assignment (in place for a known key, at the end for a new one) and deletion.
\<close>

section \<open>The socket library\<close>

type_synonym byte = "8 word"

text \<open>What was done to the outside: socket operations, sleeping, the shutdown in \<^verbatim>\<open>DR_Error\<close>.\<close>

datatype sock_op =
    Create
  | SetTimeout nat rat
  | SetReuse nat
  | Connect nat string int
  | Bind nat int
  | Listen nat
  | Accept nat
  | SendAll nat "byte list"
  | Recv nat int
  | Select nat
  | Shut nat
  | Sleep
  | ShutdownRos

text \<open>
  The outcome of \<^verbatim>\<open>recv\<close>: data (empty when the peer has closed), a timeout whose first argument is
  \<^verbatim>\<open>"timed out"\<close> or not, or another exception.
\<close>

datatype received = Data "byte list" | TimedOut bool | RecvRaises exc

text \<open>The answers of the library may depend on all operations before.\<close>

record net =
  create_socket :: "sock_op list \<Rightarrow> nat res"
  accept_on :: "sock_op list \<Rightarrow> nat \<Rightarrow> nat res"
  op_raises :: "sock_op list \<Rightarrow> sock_op \<Rightarrow> exc option"
  recv_from :: "sock_op list \<Rightarrow> nat \<Rightarrow> int \<Rightarrow> received"
  select_on :: "sock_op list \<Rightarrow> nat \<Rightarrow> (bool \<times> bool \<times> bool) res"

section \<open>State\<close>

text \<open>\<^verbatim>\<open>CONN_LIST\<close> and \<^verbatim>\<open>CONN_STATE_LIST\<close>; the entries of the first differ between the modules.\<close>

record 'v tables =
  conn_list :: "(nat \<times> 'v) list"
  state_list :: "(nat \<times> int) list"
  ops :: "sock_op list"

definition did :: "sock_op \<Rightarrow> ('v, 'x) tables_scheme \<Rightarrow> ('v, 'x) tables_scheme" where
  "did op s = s\<lparr>ops := ops s @ [op]\<rparr>"

definition do_op :: "net \<Rightarrow> sock_op \<Rightarrow> (unit, ('v, 'x) tables_scheme) action" where
  "do_op N op s =
     Some (case op_raises N (ops s) op of None \<Rightarrow> Inr () | Some e \<Rightarrow> Inl e, did op s)"

definition pure :: "'a res \<Rightarrow> ('a, ('v, 'x) tables_scheme) action" where
  "pure r s = Some (r, case r of Inl (DRError c) \<Rightarrow> did ShutdownRos s | _ \<Rightarrow> s)"

definition change :: "('s \<Rightarrow> 's) \<Rightarrow> (unit, 's) action" where
  "change f s = Some (Inr (), f s)"

text \<open>\<^verbatim>\<open>try: m  except socket.error: h\<close>\<close>

definition catch_os :: "('a, 's) action \<Rightarrow> ('a, 's) action \<Rightarrow> ('a, 's) action" where
  "catch_os m h s = (case m s of Some (Inl OSError, s') \<Rightarrow> h s' | z \<Rightarrow> z)"

section \<open>The tables\<close>

definition is_open :: "nat \<Rightarrow> ('v, 'x) tables_scheme \<Rightarrow> bool" where
  "is_open i s \<longleftrightarrow> map_of (conn_list s) i \<noteq> None"

definition register :: "nat \<Rightarrow> 'v \<Rightarrow> ('v, 'x) tables_scheme \<Rightarrow> ('v, 'x) tables_scheme" where
  "register i v s = s\<lparr>conn_list := AList.update i v (conn_list s),
                      state_list := AList.update i 1 (state_list s)\<rparr>"

definition mark_off :: "nat \<Rightarrow> ('v, 'x) tables_scheme \<Rightarrow> ('v, 'x) tables_scheme" where
  "mark_off i s = s\<lparr>state_list := AList.update i 0 (state_list s)\<rparr>"

text \<open>\<^verbatim>\<open>del STATE_LIST[i]\<close>, then \<^verbatim>\<open>del CONN_LIST[i]\<close>; a missing key raises KeyError.\<close>

definition unregister :: "nat \<Rightarrow> (unit, ('v, 'x) tables_scheme) action" where
  "unregister i s =
     (if map_of (state_list s) i = None then Some (Inl KeyError, s)
      else let s1 = s\<lparr>state_list := AList.delete i (state_list s)\<rparr>
           in if map_of (conn_list s1) i = None then Some (Inl KeyError, s1)
              else Some (Inr (), s1\<lparr>conn_list := AList.delete i (conn_list s1)\<rparr>))"

section \<open>Arguments and results\<close>

text \<open>An argument that should be a socket, and one that should be bytes.\<close>

datatype sock_arg = Sock nat | NoSock
datatype data_arg = Bytes "byte list" | NoBytes

datatype net_result =
    RInt int
  | RSock nat
  | RData int "byte list option"
  | RNone

definition with_sock ::
  "sock_arg \<Rightarrow> (nat \<Rightarrow> ('a, ('v, 'x) tables_scheme) action) \<Rightarrow> ('a, ('v, 'x) tables_scheme) action" where
  "with_sock sock f =
     (case sock of NoSock \<Rightarrow> pure (Inl (DRError DR_ERROR_TYPE)) | Sock i \<Rightarrow> f i)"

definition socket_state :: "sock_arg \<Rightarrow> (net_result, ('v, 'x) tables_scheme) action" where
  "socket_state sock s = Some (case sock of
       NoSock \<Rightarrow> Inr (RInt 0)
     | Sock i \<Rightarrow>
         if is_open i s then
           (case map_of (state_list s) i of None \<Rightarrow> Inl KeyError | Some n \<Rightarrow> Inr (RInt n))
         else Inr (RInt 0), s)"

section \<open>Receiving\<close>

definition check_read_args :: "pyval \<Rightarrow> pyval \<Rightarrow> unit res" where
  "check_read_args len timeout =
     rbind (raise_if (\<not> is_int len) DR_ERROR_TYPE) (\<lambda>_.
     rbind (raise_when (py_and (py_ne len (-1)) (py_lt len 0)) DR_ERROR_VALUE) (\<lambda>_.
     rbind (raise_if (\<not> is_int_or_float timeout) DR_ERROR_TYPE) (\<lambda>_.
     raise_when (py_and (py_ne timeout (-1)) (py_lt timeout 0)) DR_ERROR_VALUE)))"

text \<open>\<^verbatim>\<open>BUFF_SIZE if length == -1 else length\<close>\<close>

definition read_size :: "pyval \<Rightarrow> int res" where
  "read_size len =
     rbind (py_eq len (-1)) (\<lambda>dflt. if dflt then Inr 4096 else py_int len)"

text \<open>The double 0.01, and \<^verbatim>\<open>(0.01*time_cnt) >= timeout\<close>.\<close>

definition comm_timeout :: pyfloat where
  "comm_timeout = float_of_rat (1 / 100)"

definition waited :: "nat \<Rightarrow> pyval \<Rightarrow> bool res" where
  "waited cnt timeout =
     rbind (float_of_int (int cnt)) (\<lambda>c.
     case num_val timeout of
       Some g \<Rightarrow> Inr (fle g (float_mul comm_timeout c))
     | None \<Rightarrow> Inl TypeError)"

text \<open>The loop of the read functions, from the first \<^verbatim>\<open>recv\<close> on; \<open>cnt\<close> is \<^verbatim>\<open>time_cnt\<close>.\<close>

partial_function (option) read_loop ::
  "net \<Rightarrow> nat \<Rightarrow> int \<Rightarrow> pyval \<Rightarrow> nat \<Rightarrow> (net_result, ('v, 'x) tables_scheme) action" where
  "read_loop N i amount timeout cnt s =
     (case recv_from N (ops s) i amount of
        Data bs \<Rightarrow>
          (if bs = [] then Some (Inr (RData (-1) None), mark_off i (did (Recv i amount) s))
           else Some (Inr (RData (int (length bs)) (Some bs)), did (Recv i amount) s))
      | RecvRaises e \<Rightarrow>
          (if e = OSError then Some (Inr (RData (-2) None), did (Recv i amount) s)
           else Some (Inl e, did (Recv i amount) s))
      | TimedOut plain \<Rightarrow>
          (if \<not> plain then Some (Inr (RData (-2) None), did (Recv i amount) s)
           else case py_eq timeout (-1) of
               Inl e \<Rightarrow> Some (Inl e, did (Recv i amount) s)
             | Inr forever \<Rightarrow>
                 (if forever then read_loop N i amount timeout cnt (did (Recv i amount) s)
                  else case waited (Suc cnt) timeout of
                      Inl e \<Rightarrow> Some (Inl e, did (Recv i amount) s)
                    | Inr over \<Rightarrow>
                        (if over then Some (Inr (RData (-3) None), did (Recv i amount) s)
                         else read_loop N i amount timeout (Suc cnt) (did (Recv i amount) s)))))"

definition socket_read ::
  "net \<Rightarrow> sock_arg \<Rightarrow> pyval \<Rightarrow> pyval \<Rightarrow> (net_result, ('v, 'x) tables_scheme) action" where
  "socket_read N sock len timeout =
     with_sock sock (\<lambda>i.
     abind (pure (check_read_args len timeout)) (\<lambda>_ s.
     if \<not> is_open i s then Some (Inr (RData (-1) None), s)
     else abind (pure (read_size len)) (\<lambda>amount. read_loop N i amount timeout 0) s))"

section \<open>Flushing\<close>

partial_function (option) flush_loop ::
  "net \<Rightarrow> nat \<Rightarrow> (net_result, ('v, 'x) tables_scheme) action" where
  "flush_loop N i s =
     (case select_on N (ops s) i of
        Inl e \<Rightarrow> Some (Inl e, did (Select i) s)
      | Inr (r_ready, w_ready, err) \<Rightarrow>
          (if err then Some (Inr (RInt (-3)), did (Select i) s)
           else if r_ready then
             (case recv_from N (ops (did (Select i) s)) i 4096 of
                Data bs \<Rightarrow> flush_loop N i (did (Recv i 4096) (did (Select i) s))
              | TimedOut plain \<Rightarrow> Some (Inl OSError, did (Recv i 4096) (did (Select i) s))
              | RecvRaises e \<Rightarrow> Some (Inl e, did (Recv i 4096) (did (Select i) s)))
           else if w_ready then Some (Inr (RInt 0), did (Select i) s)
           else flush_loop N i (did Sleep (did (Select i) s))))"

definition socket_flush :: "net \<Rightarrow> sock_arg \<Rightarrow> (net_result, ('v, 'x) tables_scheme) action" where
  "socket_flush N sock =
     catch_os
       (with_sock sock (\<lambda>i s.
          if \<not> is_open i s then Some (Inr (RInt (-1)), s) else flush_loop N i s))
       (pure (Inr (RInt (-2))))"

end
