(* ===== verification/TcpTables.thy ===== *)
theory TcpTables
  imports Tcp
begin

text \<open>
  The abstract view of a socket module: a partial map from sockets to whether the peer is still
  there. The invariant of the two dictionaries, the relation between states that each shared
  operation establishes, what every call promises on the abstract map, and the contract of a
  connection service, which client and server instantiate.
\<close>

section \<open>Invariant and abstraction\<close>

text \<open>
  \<open>own\<close> extracts the socket from an entry: entries stand under the id of their socket, both
  dictionaries have the same keys, and a state is 0 or 1.
\<close>

definition tables_ok :: "('v \<Rightarrow> nat) \<Rightarrow> ('v, 'x) tables_scheme \<Rightarrow> bool" where
  "tables_ok own s \<longleftrightarrow>
     distinct (map fst (conn_list s)) \<and>
     (\<forall>i. map_of (conn_list s) i = None \<longleftrightarrow> map_of (state_list s) i = None) \<and>
     (\<forall>i v. map_of (conn_list s) i = Some v \<longrightarrow> own v = i) \<and>
     (\<forall>i n. map_of (state_list s) i = Some n \<longrightarrow> n = 0 \<or> n = 1)"

declare map_of_eq_Some_iff [simp del] Some_eq_map_of_iff [simp del]

definition conn_map :: "('v, 'x) tables_scheme \<Rightarrow> nat \<Rightarrow> bool option" where
  "conn_map s i =
     (if is_open i s then map_option (\<lambda>n. n = 1) (map_of (state_list s) i) else None)"

text \<open>
  The operations the modules may perform: ports and lengths are not negative, and the server
  keeps off the port of the teach pendant.
\<close>

fun op_ok :: "sock_op \<Rightarrow> bool" where
  "op_ok (Connect _ _ p) = (0 \<le> p)"
| "op_ok (Bind _ p) = (0 \<le> p \<and> p \<noteq> 12345)"
| "op_ok (Recv _ n) = (0 \<le> n)"
| "op_ok _ = True"

section \<open>How states evolve\<close>

definition adds_ops :: "('v, 'x) tables_scheme \<Rightarrow> ('v, 'x) tables_scheme \<Rightarrow> bool" where
  "adds_ops s s' \<longleftrightarrow> (\<exists>es. ops s' = ops s @ es \<and> list_all op_ok es)"

text \<open>Nothing but the tables changed: what a module keeps beside them is the same.\<close>

definition extends :: "('v, 'x) tables_scheme \<Rightarrow> ('v, 'x) tables_scheme \<Rightarrow> bool" where
  "extends s s' \<longleftrightarrow> adds_ops s s' \<and> tables.more s' = tables.more s"

text \<open>Only operations were done; the tables are the same.\<close>

definition quiet :: "('v, 'x) tables_scheme \<Rightarrow> ('v, 'x) tables_scheme \<Rightarrow> bool" where
  "quiet s s' \<longleftrightarrow> extends s s' \<and> conn_list s' = conn_list s \<and> state_list s' = state_list s"

lemma extends_refl [simp, intro]: "extends s s"
  by (simp add: extends_def adds_ops_def)

lemma adds_ops_trans [trans]: "adds_ops s t \<Longrightarrow> adds_ops t u \<Longrightarrow> adds_ops s u"
  by (auto simp: adds_ops_def)

lemma extends_trans [trans]: "extends s t \<Longrightarrow> extends t u \<Longrightarrow> extends s u"
  by (auto simp: extends_def intro: adds_ops_trans)

lemma quiet_refl [simp, intro]: "quiet s s"
  by (simp add: quiet_def)

lemma quiet_trans [trans]: "quiet s t \<Longrightarrow> quiet t u \<Longrightarrow> quiet s u"
  by (auto simp: quiet_def intro: extends_trans)

lemma quiet_extends: "quiet s s' \<Longrightarrow> extends s s'"
  by (simp add: quiet_def)

lemma quiet_did [simp, intro]: "op_ok op \<Longrightarrow> quiet s (did op s)"
  by (simp add: quiet_def extends_def adds_ops_def did_def)

lemma quiet_tables: "quiet s s' \<Longrightarrow> tables_ok own s' = tables_ok own s"
  by (simp add: quiet_def tables_ok_def)

lemma quiet_conn_map: "quiet s s' \<Longrightarrow> conn_map s' = conn_map s"
  by (simp add: quiet_def conn_map_def is_open_def fun_eq_iff)

lemma quiet_is_open: "quiet s s' \<Longrightarrow> is_open i s' = is_open i s"
  by (simp add: quiet_def is_open_def)

lemma do_op_quiet: "do_op N op s = Some (r, s') \<Longrightarrow> op_ok op \<Longrightarrow> quiet s s'"
  by (auto simp: do_op_def)

lemma pure_quiet: "pure r s = Some (r', s') \<Longrightarrow> r' = r \<and> quiet s s'"
  by (auto simp: pure_def split: sum.splits exc.splits)

lemma pure_Inr [simp]: "pure (Inr x) s = Some (Inr x, s)"
  by (simp add: pure_def)

lemma abind_pure_Inr [simp]: "abind (pure (Inr x)) f s = f x s"
  by (simp add: abind_def)

lemma catch_os_quiet:
  assumes "catch_os m (pure x) s = Some (r, s')"
    and "\<And>q t. m s = Some (q, t) \<Longrightarrow> quiet s t"
  shows "quiet s s'"
  using assms
  by (auto simp: catch_os_def split: option.splits prod.splits sum.splits exc.splits
      dest!: pure_quiet intro: quiet_trans)

lemma with_sock_quiet:
  assumes "with_sock sock f s = Some (r, s')" and "\<And>i q t. f i s = Some (q, t) \<Longrightarrow> quiet s t"
  shows "quiet s s'"
  using assms by (cases sock) (auto simp: with_sock_def dest: pure_quiet)

text \<open>Stepping over a quiet operation in a sequence.\<close>

lemma abind_quiet:
  assumes "abind m f t = Some (r, s')" and "quiet s t"
    and "\<And>q u. m t = Some (q, u) \<Longrightarrow> quiet t u"
  shows "(quiet s s' \<and> (\<exists>e. r = Inl e)) \<or> (\<exists>x u. quiet s u \<and> m t = Some (Inr x, u) \<and> f x u = Some (r, s'))"
  using assms(1) unfolding abind_Some
  by (blast intro: quiet_trans [OF assms(2)] assms(3))

lemma do_op_then:
  assumes "abind (do_op N op) f t = Some (r, s')" and "quiet s t" and "op_ok op"
  shows "(quiet s s' \<and> (\<exists>e. r = Inl e)) \<or> (\<exists>u. quiet s u \<and> f () u = Some (r, s'))"
proof -
  have "quiet t u" if "do_op N op t = Some (q, u)" for q u
    using that assms(3) by (rule do_op_quiet)
  then have "(quiet s s' \<and> (\<exists>e. r = Inl e)) \<or>
      (\<exists>x u. quiet s u \<and> do_op N op t = Some (Inr x, u) \<and> f x u = Some (r, s'))"
    by (intro abind_quiet [OF assms(1,2)]) blast
  then show ?thesis by auto
qed

section \<open>Changes of the tables\<close>

lemma is_open_conn_map: "tables_ok own s \<Longrightarrow> is_open i s \<longleftrightarrow> conn_map s i \<noteq> None"
  by (simp add: tables_ok_def conn_map_def is_open_def)

lemma register_ok:
  assumes "tables_ok own s" and "own v = i"
  shows "tables_ok own (register i v s)"
    and "conn_map (register i v s) = (conn_map s)(i \<mapsto> True)"
  using assms
  by (auto simp: tables_ok_def register_def conn_map_def is_open_def update_conv' distinct_update
      fun_eq_iff)

lemma extends_tables:
  "extends s s' \<Longrightarrow> ops t = ops s' \<Longrightarrow> tables.more t = tables.more s' \<Longrightarrow> extends s t"
  by (simp add: extends_def adds_ops_def)

lemma register_keeps [simp]:
  "ops (register i v s) = ops s" "tables.more (register i v s) = tables.more s"
  by (simp_all add: register_def)

lemma mark_off_keeps [simp]:
  "ops (mark_off i s) = ops s" "tables.more (mark_off i s) = tables.more s"
  by (simp_all add: mark_off_def)

lemma mark_off_ok:
  assumes "tables_ok own s" and "is_open i s"
  shows "tables_ok own (mark_off i s)"
    and "conn_map (mark_off i s) = (conn_map s)(i \<mapsto> False)"
proof -
  show "tables_ok own (mark_off i s)"
    using assms by (auto simp: tables_ok_def mark_off_def is_open_def update_conv')
  show "conn_map (mark_off i s) = (conn_map s)(i \<mapsto> False)"
    using assms(2) by (auto simp: conn_map_def mark_off_def is_open_def update_conv' fun_eq_iff)
qed

lemma unregister_total: "\<exists>u t. unregister i s = Some (u, t) \<and> u \<noteq> Inl OSError"
  by (simp add: unregister_def Let_def)

lemma unregister_ok:
  assumes "tables_ok own s" and "unregister i s = Some (r, s')"
  shows "tables_ok own s'" and "ops s' = ops s" and "tables.more s' = tables.more s"
    and "if is_open i s then r = Inr () \<and> conn_map s' = (conn_map s)(i := None)
         else r = Inl KeyError \<and> s' = s"
    and "is_open i s \<Longrightarrow> conn_list s' = AList.delete i (conn_list s)"
proof -
  have dom: "map_of (state_list s) i = None \<longleftrightarrow> map_of (conn_list s) i = None"
    using assms(1) unfolding tables_ok_def by metis
  show "tables_ok own s'"
    using assms
    by (auto simp: tables_ok_def unregister_def Let_def delete_conv' distinct_delete
        split: if_splits) metis+
  show "ops s' = ops s" "tables.more s' = tables.more s" "is_open i s \<Longrightarrow> conn_list s' = AList.delete i (conn_list s)"
    using assms(2) dom by (auto simp: unregister_def Let_def is_open_def split: if_splits)
  show "if is_open i s then r = Inr () \<and> conn_map s' = (conn_map s)(i := None)
        else r = Inl KeyError \<and> s' = s"
    using assms(2) dom
    by (auto simp: unregister_def Let_def is_open_def conn_map_def delete_conv' fun_eq_iff
        split: if_splits)
qed

text \<open>While a connection is being opened: entries may be added, as connected.\<close>

definition grows :: "('v \<Rightarrow> nat) \<Rightarrow> ('v, 'x) tables_scheme \<Rightarrow> ('v, 'x) tables_scheme \<Rightarrow> bool" where
  "grows own s s' \<longleftrightarrow>
     (tables_ok own s \<longrightarrow> tables_ok own s' \<and> extends s s' \<and>
        (\<forall>i. conn_map s' i = conn_map s i \<or> conn_map s' i = Some True))"

lemma quiet_grows: "quiet s s' \<Longrightarrow> grows own s s'"
  by (simp add: grows_def quiet_tables quiet_conn_map quiet_extends)

lemma grows_trans [trans]: "grows own s t \<Longrightarrow> grows own t u \<Longrightarrow> grows own s u"
  unfolding grows_def by (metis extends_trans)

lemma grows_register: "own v = i \<Longrightarrow> grows own s (register i v s)"
  using register_ok [of own s v i] by (auto simp: grows_def extends_def adds_ops_def)

text \<open>Closing one socket after the other and sleeping, as the handlers of the open loops do.\<close>

lemma recover_quiet:
  assumes "abind (do_op N (Shut i)) (\<lambda>_. change (did Sleep)) s = Some (r, s')"
  shows "quiet s s'"
  using assms quiet_trans [OF _ quiet_did [of Sleep]]
  by (auto simp: abind_Some change_def dest!: do_op_quiet)

section \<open>The shared loops\<close>

text \<open>The read loop leaves the tables as they are, or marks the connection as lost.\<close>

definition read_effect ::
  "nat \<Rightarrow> net_result res \<Rightarrow> ('v, 'x) tables_scheme \<Rightarrow> ('v, 'x) tables_scheme \<Rightarrow> bool" where
  "read_effect i r s s' \<longleftrightarrow>
     quiet s s' \<or> (r = Inr (RData (-1) None) \<and> (\<exists>s1. quiet s s1 \<and> s' = mark_off i s1))"

lemma read_effect_step: "quiet s s1 \<Longrightarrow> read_effect i r s1 s' \<Longrightarrow> read_effect i r s s'"
  by (auto simp: read_effect_def intro: quiet_trans)

lemma read_loop_effect:
  assumes "read_loop N i amount timeout cnt s = Some z" and "0 \<le> amount"
  shows "read_effect i (fst z) s (snd z)"
proof -
  have "0 \<le> amount \<longrightarrow> read_effect i (fst z) s (snd z)"
  proof (rule read_loop.raw_induct
      [where P = "\<lambda>_ i amount _ _ s z. 0 \<le> amount \<longrightarrow> read_effect i (fst z) s (snd z)",
       OF _ assms(1)], intro impI, goal_cases)
    case (1 loop N i amount timeout cnt s z)
    have done_here: "read_effect i r s (did (Recv i amount) s)" for r
      using 1(3) by (simp add: read_effect_def)
    have lost: "read_effect i (Inr (RData (-1) None)) s (mark_off i (did (Recv i amount) s))"
      using 1(3) unfolding read_effect_def by (metis op_ok.simps(3) quiet_did)
    have done_quiet: "quiet s (did (Recv i amount) s)"
      using 1(3) by simp
    have again: "read_effect i (fst z) s (snd z)"
      if "loop N i amount timeout c (did (Recv i amount) s) = Some z" for c
      using 1(1) [OF that] 1(3) read_effect_step [OF done_quiet] by blast
    show ?case
      using 1(2)
      by (auto split: received.splits if_splits sum.splits intro: done_here lost again)
  qed
  with assms(2) show ?thesis by blast
qed

lemma flush_loop_quiet:
  assumes "flush_loop N i s = Some z"
  shows "quiet s (snd z)"
proof (rule flush_loop.raw_induct [where P = "\<lambda>_ _ s z. quiet s (snd z)", OF _ assms], goal_cases)
  case (1 loop N i s z)
  have step: "quiet s (did (Recv i 4096) (did (Select i) s))" "quiet s (did Sleep (did (Select i) s))"
    by (rule quiet_trans [OF quiet_did quiet_did]; simp)+
  have again: "quiet s (snd z)"
    if "loop N i (did (Recv i 4096) (did (Select i) s)) = Some z \<or>
        loop N i (did Sleep (did (Select i) s)) = Some z"
    using that 1(1) step quiet_trans by blast
  show ?case
    using 1(2)
    by (auto split: sum.splits if_splits received.splits) (use step again in blast)+
qed

section \<open>Reading ends\<close>

lemma comm_timeout_value:
  "comm_timeout = Fin (5764607523034235 / 576460752303423488)"
  by code_simp

lemma waited_enough:
  assumes "num_val timeout = Some (Fin q)" and "200 * q \<le> of_nat cnt" and "0 < cnt" and "cnt < 2 ^ 53"
  shows "waited cnt timeout = Inr True"
proof -
  let ?c = "5764607523034235 / 576460752303423488 :: rat"
  have small: "\<bar>int cnt\<bar> < 2 ^ 53" using assms(4) by simp
  have one: "1 \<le> (of_nat cnt :: rat)" using assms(3) by simp
  then have "of_nat cnt / 100 \<le> ?c * of_nat cnt" and "1 / 100 \<le> ?c * of_nat cnt" by simp_all
  from float_of_rat_half [OF this(2)] obtain r
    where half: "?c * of_nat cnt / 2 \<le> r"
      and "float_of_rat (?c * of_nat cnt) = Fin r \<or> float_of_rat (?c * of_nat cnt) = PosInf"
    by blast
  moreover have "of_nat cnt / 200 \<le> r"
    using half \<open>of_nat cnt / 100 \<le> ?c * of_nat cnt\<close> by linarith
  moreover have "float_mul comm_timeout (Fin (of_nat cnt)) = float_of_rat (?c * of_nat cnt)"
    using assms(3)
    by (simp add: float_mul_def comm_timeout_value is_negative_def is_infinite_def finite_val_def)
  ultimately have "fle (Fin q) (float_mul comm_timeout (Fin (of_nat cnt)))"
    using assms(2) by (auto simp: fle_def)
  then show ?thesis
    using assms(1) float_of_int_small [OF small] by (simp add: waited_def)
qed

text \<open>
  With a finite timeout of \<open>q\<close> seconds the loop returns, after at most \<open>200 * q + 1\<close> receptions:
  the counter stands for hundredths of a second and rounding at most doubles it. The bound on
  the timeout keeps the counter exact.
\<close>

definition read_bound :: "rat \<Rightarrow> nat" where
  "read_bound q = nat \<lceil>200 * q\<rceil>"

lemma read_loop_step:
  assumes "py_eq timeout (-1) = Inr False"
  shows "(\<exists>z. read_loop N i amount timeout cnt s = Some z \<and>
            length (ops (snd z)) = length (ops s) + 1) \<or>
         (waited (Suc cnt) timeout = Inr False \<and>
          read_loop N i amount timeout cnt s =
            read_loop N i amount timeout (Suc cnt) (did (Recv i amount) s))"
  using assms
  by (subst (1 2) read_loop.simps)
    (auto simp: did_def split: received.splits sum.splits)

lemma read_loop_returns:
  assumes "num_val timeout = Some (Fin q)" and "0 \<le> q" and "q \<le> 10 ^ 12"
    and "cnt \<le> read_bound q"
  shows "\<exists>z. read_loop N i amount timeout cnt s = Some z \<and>
    length (ops (snd z)) \<le> length (ops s) + (read_bound q - cnt) + 1"
  using assms(4)
proof (induction "read_bound q - cnt" arbitrary: cnt s rule: less_induct)
  case less
  have eq: "py_eq timeout (-1) = Inr False"
    using assms(1,2) by (simp add: py_eq_def)
  show ?case
  proof (cases "\<exists>z. read_loop N i amount timeout cnt s = Some z \<and>
      length (ops (snd z)) = length (ops s) + 1")
    case True
    then show ?thesis by force
  next
    case False
    with read_loop_step [OF eq, of N i amount cnt s]
    have wait: "waited (Suc cnt) timeout = Inr False"
      and again: "read_loop N i amount timeout cnt s =
        read_loop N i amount timeout (Suc cnt) (did (Recv i amount) s)" by blast+
    have "cnt \<noteq> read_bound q"
    proof
      assume cnt: "cnt = read_bound q"
      have "200 * q \<le> of_nat (Suc cnt)"
        using assms(2) by (simp add: cnt read_bound_def)
          (use le_of_int_ceiling [of "200 * q"] in linarith)
      moreover have "200 * q \<le> 200 * 10 ^ 12" using assms(3) by simp
      then have "\<lceil>200 * q\<rceil> \<le> \<lceil>200 * 10 ^ 12 :: rat\<rceil>" by (rule ceiling_mono)
      then have "\<lceil>200 * q\<rceil> \<le> 200000000000000" by simp
      then have "nat \<lceil>200 * q\<rceil> \<le> 200000000000000" by linarith
      then have "Suc cnt < 2 ^ 53" by (simp add: cnt read_bound_def)
      ultimately show False
        using waited_enough [OF assms(1), of "Suc cnt"] wait by simp
    qed
    with less.prems have "read_bound q - Suc cnt < read_bound q - cnt" "Suc cnt \<le> read_bound q"
      by simp_all
    from less.hyps [OF this, of "did (Recv i amount) s"] obtain z
      where "read_loop N i amount timeout (Suc cnt) (did (Recv i amount) s) = Some z"
        and "length (ops (snd z)) \<le> length (ops s) + 1 + (read_bound q - Suc cnt) + 1"
      by (auto simp: did_def)
    with again \<open>Suc cnt \<le> read_bound q\<close> show ?thesis by auto
  qed
qed

text \<open>Flushing a connection whose peer is gone: always readable, never any data.\<close>

lemma flush_loop_never:
  assumes "\<And>h. select_on N h i = Inr (True, w h, False)"
    and "\<And>h n. recv_from N h i n = Data []"
  shows "flush_loop N i s = None"
proof (rule ccontr)
  assume "flush_loop N i s \<noteq> None"
  then obtain z where "flush_loop N i s = Some z" by auto
  then show False
    by (rule flush_loop.raw_induct
        [where P = "\<lambda>N' i' _ _. \<not> (N' = N \<and> i' = i)", rotated, THEN notE])
      (use assms in \<open>force split: sum.splits if_splits\<close>, simp)
qed

section \<open>The shared operations\<close>

lemma check_read_args_size:
  assumes "check_read_args len timeout = Inr u"
  shows "\<exists>n. read_size len = Inr n \<and> 0 \<le> n"
proof -
  have "is_int len" and low: "py_and (py_ne len (-1)) (py_lt len 0) = Inr False"
    using assms by (simp_all add: check_read_args_def rbind_Inr_iff)
  then obtain n where n: "len = PInt n" by (cases len) simp_all
  with low have "n = -1 \<or> 0 \<le> n" by auto
  then show ?thesis by (auto simp: n read_size_def)
qed

lemma socket_read_effect:
  assumes "socket_read N sock len timeout s = Some (r, s')"
  shows "quiet s s' \<or> (\<exists>i s1. sock = Sock i \<and> is_open i s \<and> r = Inr (RData (-1) None) \<and>
           quiet s s1 \<and> s' = mark_off i s1)"
proof (cases sock)
  case NoSock
  with assms show ?thesis by (auto simp: socket_read_def with_sock_def dest: pure_quiet)
next
  case (Sock i)
  show ?thesis
  proof (cases "check_read_args len timeout")
    case (Inl e)
    with assms Sock show ?thesis
      by (auto simp: socket_read_def with_sock_def abind_Some dest: pure_quiet)
  next
    case (Inr u)
    then obtain n where n: "read_size len = Inr n" "0 \<le> n"
      using check_read_args_size by blast
    with Inr assms Sock have "(\<not> is_open i s \<and> s' = s) \<or>
        (is_open i s \<and> read_loop N i n timeout 0 s = Some (r, s'))"
      by (auto simp: socket_read_def with_sock_def split: if_splits)
    then show ?thesis
      using read_loop_effect [of N i n timeout 0 s "(r, s')"] n(2) Sock
      by (auto simp: read_effect_def)
  qed
qed

lemma socket_flush_quiet:
  assumes "socket_flush N sock s = Some (r, s')"
  shows "quiet s s'"
proof (rule catch_os_quiet [OF assms [unfolded socket_flush_def]], erule with_sock_quiet)
  fix i q t
  assume "(if \<not> is_open i s then Some (Inr (RInt (-1)), s) else flush_loop N i s) = Some (q, t)"
  then show "quiet s t" by (auto split: if_splits dest: flush_loop_quiet)
qed

lemma socket_state_result:
  assumes "socket_state sock s = Some (r, s')" and "tables_ok own s"
  shows "s' = s \<and> r = Inr (RInt (case sock of NoSock \<Rightarrow> 0 |
           Sock i \<Rightarrow> if conn_map s i = Some True then 1 else 0))"
proof (cases sock)
  case (Sock i)
  have "map_of (state_list s) i = Some n \<Longrightarrow> n = 0 \<or> n = 1" for n
    using assms(2) by (simp add: tables_ok_def)
  moreover have "is_open i s \<Longrightarrow> map_of (state_list s) i \<noteq> None"
    using assms(2) unfolding tables_ok_def is_open_def by metis
  ultimately show ?thesis
    using assms(1) Sock by (auto simp: socket_state_def conn_map_def)
qed (use assms in \<open>simp add: socket_state_def\<close>)

lemma map_le_removed:
  assumes "m' \<subseteq>\<^sub>m m(i := None)"
  shows "m' \<subseteq>\<^sub>m m" and "m' i = None"
proof -
  show "m' i = None"
  proof (rule ccontr)
    assume "m' i \<noteq> None"
    then have "m' i = (m(i := None)) i" using assms unfolding map_le_def by blast
    with \<open>m' i \<noteq> None\<close> show False by simp
  qed
  then show "m' \<subseteq>\<^sub>m m"
    using assms unfolding map_le_def by (metis domIff fun_upd_other)
qed

text \<open>A call that leaves the map, and one that removes a socket after other operations.\<close>

definition keeps :: "('v \<Rightarrow> nat) \<Rightarrow> ('v, 'x) tables_scheme \<Rightarrow> ('v, 'x) tables_scheme \<Rightarrow> bool" where
  "keeps own s s' \<longleftrightarrow> tables_ok own s' \<and> extends s s'"

lemma quiet_keeps: "quiet s s' \<Longrightarrow> tables_ok own s \<Longrightarrow> keeps own s s'"
  by (simp add: keeps_def quiet_tables quiet_extends)

lemma keeps_trans: "keeps own s t \<Longrightarrow> keeps own t u \<Longrightarrow> keeps own s u"
  by (auto simp: keeps_def intro: extends_trans)

lemma unregister_effect:
  assumes "quiet s s1" and "unregister i s1 = Some (r, s')" and "tables_ok own s"
  shows "keeps own s s'"
    and "is_open i s \<Longrightarrow> r = Inr () \<and> conn_map s' = (conn_map s)(i := None)"
    and "\<not> is_open i s \<Longrightarrow> r = Inl KeyError \<and> conn_map s' = conn_map s"
proof -
  have ok: "tables_ok own s1" using assms(1,3) by (simp add: quiet_tables)
  show "keeps own s s'"
    using unregister_ok(1-3) [OF ok assms(2)] quiet_extends [OF assms(1)]
    by (auto simp: keeps_def intro: extends_tables)
  show "is_open i s \<Longrightarrow> r = Inr () \<and> conn_map s' = (conn_map s)(i := None)"
    "\<not> is_open i s \<Longrightarrow> r = Inl KeyError \<and> conn_map s' = conn_map s"
    using unregister_ok(4) [OF ok assms(2)] quiet_conn_map [OF assms(1)] quiet_is_open [OF assms(1)]
    by simp_all
qed

lemma read_keeps:
  assumes "socket_read N sock len timeout s = Some (r, s')" and "tables_ok own s"
  shows "keeps own s s' \<and> (conn_map s' = conn_map s \<or>
    (r = Inr (RData (-1) None) \<and>
     (\<exists>i. sock = Sock i \<and> conn_map s i \<noteq> None \<and> conn_map s' = (conn_map s)(i \<mapsto> False))))"
  using socket_read_effect [OF assms(1)]
proof (elim disjE exE conjE)
  assume "quiet s s'"
  then show ?thesis using quiet_keeps assms(2) quiet_conn_map by blast
next
  fix i s1
  assume a: "sock = Sock i" "is_open i s" "r = Inr (RData (-1) None)" "quiet s s1"
    "s' = mark_off i s1"
  have "tables_ok own s1" "is_open i s1"
    using a assms(2) by (simp_all add: quiet_tables quiet_is_open)
  from mark_off_ok [OF this] have "tables_ok own s'" "conn_map s' = (conn_map s)(i \<mapsto> False)"
    using a(4,5) by (simp_all add: quiet_conn_map)
  moreover have "extends s s'"
    using quiet_extends [OF a(4)] a(5) by (auto intro: extends_tables)
  moreover have "conn_map s i \<noteq> None"
    using is_open_conn_map assms(2) a(2) by blast
  ultimately show ?thesis using a(1,3) by (simp add: keeps_def)
qed

section \<open>The contract of a connection service\<close>

text \<open>The calls of a module; \<open>'o\<close> holds the arguments of opening.\<close>

datatype 'o sock_call =
    COpen 'o
  | CClose sock_arg
  | CClean
  | CState sock_arg
  | CEndData sock_arg pyval
  | CWrite sock_arg data_arg
  | CRead sock_arg pyval pyval
  | CFlush sock_arg

text \<open>What a call that returned \<open>r\<close> did to the map of connections.\<close>

fun conn_spec ::
  "'o sock_call \<Rightarrow> net_result res \<Rightarrow> (nat \<Rightarrow> bool option) \<Rightarrow> (nat \<Rightarrow> bool option) \<Rightarrow> bool" where
  "conn_spec (COpen _) r m m' =
     ((\<forall>i. m' i = m i \<or> m' i = Some True) \<and> (\<forall>i. r = Inr (RSock i) \<longrightarrow> m' i = Some True))"
| "conn_spec (CClose sock) r m m' =
     (if r = Inr (RInt 0) then \<exists>i. sock = Sock i \<and> m i \<noteq> None \<and> m' = m(i := None) else m' = m)"
| "conn_spec CClean r m m' = (if r = Inr RNone then m' = Map.empty else m' \<subseteq>\<^sub>m m)"
| "conn_spec (CState sock) r m m' =
     (m' = m \<and> r = Inr (RInt (case sock of NoSock \<Rightarrow> 0 |
        Sock i \<Rightarrow> if m i = Some True then 1 else 0)))"
| "conn_spec (CRead sock _ _) r m m' =
     (m' = m \<or> (r = Inr (RData (-1) None) \<and> (\<exists>i. sock = Sock i \<and> m i \<noteq> None \<and> m' = m(i \<mapsto> False))))"
| "conn_spec _ r m m' = (m' = m)"

fun is_open_call :: "'o sock_call \<Rightarrow> bool" where
  "is_open_call (COpen _) = True"
| "is_open_call _ = False"

locale connection_service =
  fixes run :: "'o sock_call \<Rightarrow> (net_result, 's) action"
    and inv :: "'s \<Rightarrow> bool"
    and conns :: "'s \<Rightarrow> nat \<Rightarrow> bool option"
  assumes refines: "run c s = Some (r, s') \<Longrightarrow> inv s \<Longrightarrow>
    inv s' \<and> conn_spec c r (conns s) (conns s')"
begin

lemma one_call_no_revival:
  assumes "run c s = Some (r, s')" and "inv s" and "\<not> is_open_call c"
    and "conns s i \<noteq> Some True"
  shows "inv s' \<and> conns s' i \<noteq> Some True"
proof -
  have below: "m' i = Some b \<Longrightarrow> m i = Some b" if "m' \<subseteq>\<^sub>m m" for m m' :: "nat \<Rightarrow> bool option" and b
    using that by (metis domI map_le_def)
  show ?thesis
    using refines [OF assms(1,2)] assms(3,4) below
    by (cases c) (auto split: if_splits)
qed

text \<open>A connection that is closed or lost stays so while nothing is opened.\<close>

lemma no_revival:
  "run_all run cs s = Some s' \<Longrightarrow> inv s \<Longrightarrow> list_all (\<lambda>c. \<not> is_open_call c) cs \<Longrightarrow>
   conns s i \<noteq> Some True \<Longrightarrow> inv s' \<and> conns s' i \<noteq> Some True"
proof (induction cs arbitrary: s)
  case (Cons c cs)
  then obtain r s1 where s1: "run c s = Some (r, s1)" "run_all run cs s1 = Some s'"
    by (auto split: option.splits)
  with Cons.prems one_call_no_revival [OF s1(1)] have "inv s1 \<and> conns s1 i \<noteq> Some True"
    by simp
  with Cons.IH [OF s1(2)] Cons.prems(3) show ?case by simp
qed simp

end

end
