(* ===== verification/TcpClient.thy ===== *)
theory TcpClient
  imports TcpTables
begin

text \<open>
  DR_tcp_client2.py: opening with unbounded retries, closing, the clean-up, state, end data,
  writing, reading and flushing.
\<close>

record client = "nat tables" +
  end_data :: "(nat \<times> string) list"

text \<open>The module after its import.\<close>

definition client_init :: client where
  "client_init = \<lparr>conn_list = [], state_list = [], ops = [], end_data = []\<rparr>"

section \<open>Opening\<close>

text \<open>The body of the \<^verbatim>\<open>try\<close> after the socket is created.\<close>

definition client_connect :: "net \<Rightarrow> string \<Rightarrow> int \<Rightarrow> nat \<Rightarrow> (net_result, client) action" where
  "client_connect N ip port i =
     abind (do_op N (SetTimeout i 1)) (\<lambda>_.
     abind (do_op N (Connect i ip port)) (\<lambda>_.
     abind (change (register i i)) (\<lambda>_.
     abind (do_op N (SetTimeout i (1 / 100))) (\<lambda>_ s.
     Some (Inr (RSock i), s)))))"

text \<open>
  The handler: it prints and closes the local variable \<^verbatim>\<open>sock\<close>, which is unbound when the first
  creation failed, and sleeps.
\<close>

definition client_recover :: "net \<Rightarrow> nat option \<Rightarrow> (unit, client) action" where
  "client_recover N sock =
     (case sock of
        None \<Rightarrow> pure (Inl UnboundLocalError)
      | Some i \<Rightarrow> abind (do_op N (Shut i)) (\<lambda>_. change (did Sleep)))"

partial_function (option) client_open_loop ::
  "net \<Rightarrow> string \<Rightarrow> int \<Rightarrow> nat option \<Rightarrow> (net_result, client) action" where
  "client_open_loop N ip port sock s =
     (case create_socket N (ops s) of
        Inl e \<Rightarrow>
          (if e = OSError then
             (case client_recover N sock (did Create s) of
                None \<Rightarrow> None
              | Some (Inl e', s') \<Rightarrow> Some (Inl e', s')
              | Some (Inr u, s') \<Rightarrow> client_open_loop N ip port sock s')
           else Some (Inl e, did Create s))
      | Inr i \<Rightarrow>
          (case client_connect N ip port i (did Create s) of
             None \<Rightarrow> None
           | Some (Inr r, s1) \<Rightarrow> Some (Inr r, s1)
           | Some (Inl e, s1) \<Rightarrow>
               (if e = OSError then
                  (case client_recover N (Some i) s1 of
                     None \<Rightarrow> None
                   | Some (Inl e', s') \<Rightarrow> Some (Inl e', s')
                   | Some (Inr u, s') \<Rightarrow> client_open_loop N ip port (Some i) s')
                else Some (Inl e, s1))))"

definition client_socket_open :: "net \<Rightarrow> pyval \<Rightarrow> pyval \<Rightarrow> (net_result, client) action" where
  "client_socket_open N ip port =
     abind (pure (raise_if (py_type ip \<noteq> TStr) DR_ERROR_TYPE)) (\<lambda>_.
     abind (pure (raise_if (\<not> is_int port) DR_ERROR_TYPE)) (\<lambda>_.
     abind (pure (raise_when (py_lt port 0) DR_ERROR_VALUE)) (\<lambda>_.
     case (ip, port) of
       (PStr host, PInt p) \<Rightarrow> client_open_loop N host p None
     | _ \<Rightarrow> pure (Inl TypeError))))"

section \<open>Closing\<close>

definition client_socket_close :: "net \<Rightarrow> sock_arg \<Rightarrow> (net_result, client) action" where
  "client_socket_close N sock =
     catch_os
       (with_sock sock (\<lambda>i.
          abind (do_op N (Shut i)) (\<lambda>_.
          abind (unregister i) (\<lambda>_ s.
          Some (Inr (RInt 0), s)))))
       (pure (Inl (DRError DR_ERROR_RUNTIME)))"

text \<open>The keys are read before the loop; the entries are looked up in it.\<close>

fun close_clients :: "net \<Rightarrow> nat list \<Rightarrow> (unit, client) action" where
  "close_clients N [] s = Some (Inr (), s)"
| "close_clients N (i # is) s =
     (case map_of (conn_list s) i of
        None \<Rightarrow> Some (Inl KeyError, s)
      | Some sock \<Rightarrow>
          abind (client_socket_close N (Sock sock)) (\<lambda>_. close_clients N is) s)"

definition clean_client_socket :: "net \<Rightarrow> (net_result, client) action" where
  "clean_client_socket N s =
     abind (close_clients N (map fst (conn_list s))) (\<lambda>_ s'.
     Some (Inr RNone, s'\<lparr>end_data := []\<rparr>)) s"

section \<open>State and end data\<close>

definition client_socket_state :: "sock_arg \<Rightarrow> (net_result, client) action" where
  "client_socket_state = socket_state"

definition client_socket_end_data :: "sock_arg \<Rightarrow> pyval \<Rightarrow> (net_result, client) action" where
  "client_socket_end_data sock data =
     with_sock sock (\<lambda>i s.
     case data of
       PStr d \<Rightarrow> Some (Inr (RInt 0), s\<lparr>end_data := AList.update i d (end_data s)\<rparr>)
     | _ \<Rightarrow> pure (Inl (DRError DR_ERROR_TYPE)) s)"

section \<open>Writing, reading, flushing\<close>

text \<open>The lines that would append the end data are commented out.\<close>

definition client_socket_write :: "net \<Rightarrow> sock_arg \<Rightarrow> data_arg \<Rightarrow> (net_result, client) action" where
  "client_socket_write N sock data =
     catch_os
       (with_sock sock (\<lambda>i s.
          case data of
            NoBytes \<Rightarrow> pure (Inl (DRError DR_ERROR_TYPE)) s
          | Bytes bs \<Rightarrow>
              if \<not> is_open i s then Some (Inr (RInt (-1)), s)
              else abind (do_op N (SendAll i bs)) (\<lambda>_ s'. Some (Inr (RInt 0), s')) s))
       (pure (Inr (RInt (-2))))"

definition client_socket_read :: "net \<Rightarrow> sock_arg \<Rightarrow> pyval \<Rightarrow> pyval \<Rightarrow> (net_result, client) action" where
  "client_socket_read = socket_read"

definition client_socket_flush :: "net \<Rightarrow> sock_arg \<Rightarrow> (net_result, client) action" where
  "client_socket_flush = socket_flush"

section \<open>Effects\<close>

text \<open>The socket of an entry of the client: the entry itself.\<close>

definition client_of :: "nat \<Rightarrow> nat" where
  "client_of sock = sock"

lemma client_connect_grows:
  assumes "client_connect N ip port i s = Some (r, s')" and "0 \<le> port"
  shows "grows client_of s s' \<and>
    (\<forall>j. tables_ok client_of s \<longrightarrow> r = Inr (RSock j) \<longrightarrow> j = i \<and> conn_map s' j = Some True)"
proof -
  have quiet1: "quiet s s1" if "do_op N (SetTimeout i 1) s = Some (u, s1)" for u s1
    using that by (rule do_op_quiet) simp
  have quiet2: "quiet s s2" if "do_op N (Connect i ip port) s = Some (u, s2)" for u s s2
    using that by (rule do_op_quiet) (simp add: assms(2))
  have quiet3: "quiet s s2" if "do_op N (SetTimeout i (1 / 100)) s = Some (u, s2)" for u s s2
    using that by (rule do_op_quiet) simp
  have whole: "grows client_of s s4 \<and> (tables_ok client_of s \<longrightarrow> conn_map s4 i = Some True)"
    if "quiet s s2" "quiet (register i i s2) s4" for s2 s4
  proof -
    have "grows client_of s (register i i s2)"
      by (rule grows_trans [OF quiet_grows [OF that(1)] grows_register]) (simp add: client_of_def)
    moreover have "grows client_of (register i i s2) s4"
      using that(2) by (rule quiet_grows)
    moreover have "tables_ok client_of s \<longrightarrow> conn_map s4 i = Some True"
      using register_ok [of client_of s2 i i] quiet_tables [OF that(1), of client_of] quiet_conn_map [OF that(2)]
      by (simp add: client_of_def)
    ultimately show ?thesis using grows_trans by blast
  qed
  show ?thesis
    using assms(1)
    by (auto simp: client_connect_def abind_Some change_def
        dest!: quiet1 quiet2 quiet3 dest: quiet_trans intro: quiet_grows whole [THEN conjunct1]
          whole [THEN conjunct2, rule_format])
qed

definition opened ::
  "net_result res \<Rightarrow> client \<Rightarrow> client \<Rightarrow> bool" where
  "opened r s s' \<longleftrightarrow> grows client_of s s' \<and>
     (tables_ok client_of s \<longrightarrow> (\<forall>j. r = Inr (RSock j) \<longrightarrow> conn_map s' j = Some True))"

lemma opened_step: "grows client_of s s1 \<Longrightarrow> opened r s1 s' \<Longrightarrow> opened r s s'"
  unfolding opened_def using grows_trans by (metis grows_def)

lemma client_recover_grows:
  "client_recover N sock s = Some (r, s') \<Longrightarrow> grows client_of s s'"
  by (cases sock) (auto simp: client_recover_def intro!: quiet_grows dest: recover_quiet pure_quiet)

lemma client_open_loop_opened:
  assumes "client_open_loop N ip port sock s = Some z" and "0 \<le> port"
  shows "opened (fst z) s (snd z)"
proof -
  have "0 \<le> port \<longrightarrow> opened (fst z) s (snd z)"
  proof (rule client_open_loop.raw_induct
      [where P = "\<lambda>_ _ port _ s z. 0 \<le> port \<longrightarrow> opened (fst z) s (snd z)", OF _ assms(1)],
      intro impI, goal_cases)
    case (1 loop N ip port sock s z)
    have created: "grows client_of s (did Create s)"
      by (intro quiet_grows) simp
    have connected: "grows client_of s s1" and
      success: "opened r s s1" if "client_connect N ip port i (did Create s) = Some (r, s1)" for i r s1
      using client_connect_grows [OF that 1(3)] created
      by (auto simp: opened_def intro: grows_trans) (auto simp: grows_def)
    have recovered: "grows client_of s s'"
      if "client_connect N ip port i (did Create s) = Some (r, s1)"
        "client_recover N sk s1 = Some (q, s')" for i r s1 sk q s'
      using connected [OF that(1)] client_recover_grows [OF that(2)] by (rule grows_trans)
    have failed: "opened (Inl e) s s'" if "grows client_of s s'" for e s'
      using that by (simp add: opened_def)
    have again: "opened (fst z) s (snd z)" if "loop N ip port sk s' = Some z" "grows client_of s s'" for sk s'
      using 1(1) [OF that(1)] 1(3) opened_step [OF that(2)] by blast
    show ?case
    proof (cases "create_socket N (ops s)")
      case (Inl e)
      with 1(2) show ?thesis
        by (auto split: if_splits option.splits sum.splits prod.splits
            intro!: failed created dest!: client_recover_grows intro: grows_trans [OF created] again)
    next
      case (Inr i)
      with 1(2) show ?thesis
        by (auto split: if_splits option.splits sum.splits prod.splits
            intro!: failed created dest: connected success recovered intro: again)
    qed
  qed
  with assms(2) show ?thesis by blast
qed

lemma client_close_effect:
  assumes "client_socket_close N sock s = Some (r, s')" and "tables_ok client_of s"
  shows "keeps client_of s s' \<and> conn_spec (CClose sock) r (conn_map s) (conn_map s')"
proof (cases sock)
  case NoSock
  with assms(1) have "quiet s s'" "r \<noteq> Inr (RInt 0)"
    by (auto simp: client_socket_close_def catch_os_def with_sock_def pure_def)
  then show ?thesis using assms(2) by (simp add: quiet_keeps quiet_conn_map)
next
  case (Sock i)
  from assms(1) Sock obtain q s1 where s1: "do_op N (Shut i) s = Some (q, s1)"
    and rest: "(\<exists>e. q = Inl e \<and> quiet s1 s' \<and> (\<exists>e. r = Inl e)) \<or>
      (\<exists>u. q = Inr () \<and> unregister i s1 = Some (u, s') \<and>
        r = (case u of Inl e \<Rightarrow> Inl e | Inr _ \<Rightarrow> Inr (RInt 0)))"
  proof -
    obtain u t where "unregister i (did (Shut i) s) = Some (u, t)" and "u \<noteq> Inl OSError"
      using unregister_total by blast
    then show ?thesis
      using assms(1) Sock that [of _ "did (Shut i) s"]
      by (auto simp: client_socket_close_def catch_os_def with_sock_def abind_def do_op_def
          split: option.splits exc.splits sum.splits dest!: pure_quiet)
  qed
  have q: "quiet s s1" using s1 by (rule do_op_quiet) simp
  from rest show ?thesis
  proof (elim disjE exE conjE)
    fix e e' assume "quiet s1 s'" "r = Inl e'"
    then show ?thesis
      using quiet_trans [OF q] assms(2) by (simp add: quiet_keeps quiet_conn_map)
  next
    fix u assume u: "unregister i s1 = Some (u, s')"
      "r = (case u of Inl e \<Rightarrow> Inl e | Inr _ \<Rightarrow> Inr (RInt 0))"
    show ?thesis
      using unregister_effect [OF q u(1) assms(2)] u(2) Sock is_open_conn_map [OF assms(2), of i]
      by (cases "is_open i s") auto
  qed
qed

lemma close_clients_effect:
  "close_clients N is s = Some (r, s') \<Longrightarrow> tables_ok client_of s \<Longrightarrow>
   keeps client_of s s' \<and> conn_map s' \<subseteq>\<^sub>m conn_map s \<and>
   (r = Inr () \<longrightarrow> (\<forall>i \<in> set is. conn_map s' i = None))"
proof (induction "is" arbitrary: s)
  case Nil
  then show ?case by (simp add: keeps_def)
next
  case (Cons i "is")
  show ?case
  proof (cases "map_of (conn_list s) i")
    case None
    with Cons.prems show ?thesis by (auto simp: keeps_def)
  next
    case (Some sock)
    with Cons.prems(2) have sock: "sock = i" by (simp add: tables_ok_def client_of_def)
    from Some Cons.prems(1) sock consider
      (failed) e where "client_socket_close N (Sock i) s = Some (Inl e, s')" "r = Inl e"
    | (closed) q s1 where "client_socket_close N (Sock i) s = Some (Inr q, s1)"
        "close_clients N is s1 = Some (r, s')"
      by (auto simp: abind_Some)
    then show ?thesis
    proof cases
      case failed
      with client_close_effect [OF failed(1) Cons.prems(2)] show ?thesis by simp
    next
      case closed
      have zero: "q = RInt 0"
        using closed(1)
        by (auto simp: client_socket_close_def catch_os_def with_sock_def abind_Some pure_def
            split: option.splits prod.splits sum.splits exc.splits)
      from client_close_effect [OF closed(1) Cons.prems(2)] zero
      have first: "keeps client_of s s1" "conn_map s1 = (conn_map s)(i := None)" by auto
      then have "tables_ok client_of s1" by (simp add: keeps_def)
      from Cons.IH [OF closed(2) this] have "keeps client_of s1 s'"
        and le: "conn_map s' \<subseteq>\<^sub>m (conn_map s)(i := None)"
        and rest: "r = Inr () \<longrightarrow> (\<forall>i \<in> set is. conn_map s' i = None)"
        unfolding first(2) by blast+
      with keeps_trans [OF first(1)] map_le_removed [OF le] show ?thesis by simp
    qed
  qed
qed

lemma client_end_data_irrelevant [simp]:
  "tables_ok own (s\<lparr>end_data := d\<rparr>) = tables_ok own s" "conn_map (s\<lparr>end_data := d\<rparr>) = conn_map s"
  "adds_ops t (s\<lparr>end_data := d\<rparr>) = adds_ops t s"
  by (simp_all add: tables_ok_def conn_map_def is_open_def adds_ops_def fun_eq_iff)

text \<open>What every call of the module keeps.\<close>

definition client_preserves :: "client \<Rightarrow> client \<Rightarrow> bool" where
  "client_preserves s s' \<longleftrightarrow> tables_ok client_of s' \<and> adds_ops s s'"

lemma client_keeps_preserves: "keeps client_of s s' \<Longrightarrow> client_preserves s s'"
  by (simp add: keeps_def client_preserves_def extends_def)

lemma client_end_data_preserves: "keeps client_of s t \<Longrightarrow> client_preserves s (t\<lparr>end_data := d\<rparr>)"
  using client_keeps_preserves [of s t] by (simp add: client_preserves_def)

lemma client_clean_effect:
  assumes "clean_client_socket N s = Some (r, s')" and "tables_ok client_of s"
  shows "client_preserves s s' \<and> conn_spec CClean r (conn_map s) (conn_map s')"
proof -
  obtain q s1 where q: "close_clients N (map fst (conn_list s)) s = Some (q, s1)"
    and r: "(r = Inr RNone \<longrightarrow> q = Inr ()) \<and> (s' = s1 \<or> s' = s1\<lparr>end_data := []\<rparr>)"
    using assms(1) by (auto simp: clean_client_socket_def abind_Some)
  have outside: "conn_map s i = None" if "i \<notin> fst ` set (conn_list s)" for i
    using that by (simp add: conn_map_def is_open_def map_of_eq_None_iff)
  have "conn_map s1 = Map.empty" if "q = Inr ()"
  proof
    fix i
    show "conn_map s1 i = None"
      using close_clients_effect [OF q assms(2)] that outside [of i]
      by (cases "i \<in> fst ` set (conn_list s)") (auto simp: map_le_def dom_def)
  qed
  with close_clients_effect [OF q assms(2)] r show ?thesis
    by (auto intro: client_keeps_preserves client_end_data_preserves)
qed

lemma client_write_quiet:
  assumes "client_socket_write N sock data s = Some (r, s')"
  shows "quiet s s'"
proof (rule catch_os_quiet [OF assms [unfolded client_socket_write_def]], erule with_sock_quiet)
  have send: "quiet s u" if "do_op N (SendAll i bs) s = Some (q, u)" for i bs q u
    using that by (rule do_op_quiet) simp
  fix i q t
  assume "(case data of
      NoBytes \<Rightarrow> pure (Inl (DRError DR_ERROR_TYPE)) s
    | Bytes bs \<Rightarrow> if \<not> is_open i s then Some (Inr (RInt (-1)), s)
        else abind (do_op N (SendAll i bs)) (\<lambda>_ s'. Some (Inr (RInt 0), s')) s) = Some (q, t)"
  then show "quiet s t"
    by (auto simp: abind_Some split: data_arg.splits if_splits dest: pure_quiet send)
qed

section \<open>The module as a connection service\<close>

fun run_client :: "net \<Rightarrow> (pyval \<times> pyval) sock_call \<Rightarrow> (net_result, client) action" where
  "run_client N (COpen a) = client_socket_open N (fst a) (snd a)"
| "run_client N (CClose sock) = client_socket_close N sock"
| "run_client N CClean = clean_client_socket N"
| "run_client N (CState sock) = client_socket_state sock"
| "run_client N (CEndData sock d) = client_socket_end_data sock d"
| "run_client N (CWrite sock d) = client_socket_write N sock d"
| "run_client N (CRead sock len timeout) = client_socket_read N sock len timeout"
| "run_client N (CFlush sock) = client_socket_flush N sock"

lemma client_open_effect:
  assumes "client_socket_open N ip port s = Some (r, s')" and "tables_ok client_of s"
  shows "keeps client_of s s' \<and> conn_spec (COpen a) r (conn_map s) (conn_map s')"
proof -
  have "(\<exists>e. r = Inl e \<and> quiet s s') \<or>
      (\<exists>host p. 0 \<le> p \<and> client_open_loop N host p None s = Some (r, s'))"
  proof (cases "py_type ip = TStr \<and> is_int port")
    case True
    then obtain host p where "ip = PStr host" "port = PInt p"
      by (auto simp: py_type_inv)
    then have "client_socket_open N ip port s =
        (if p < 0 then pure (Inl (DRError DR_ERROR_VALUE)) s else client_open_loop N host p None s)"
      by (simp add: client_socket_open_def abind_def pure_def raise_if_def)
    with assms(1) show ?thesis by (auto split: if_splits dest!: pure_quiet)
  next
    case False
    then have "client_socket_open N ip port s = pure (Inl (DRError DR_ERROR_TYPE)) s"
      by (simp add: client_socket_open_def abind_def pure_def raise_if_def)
    with assms(1) show ?thesis by (auto dest!: pure_quiet)
  qed
  then show ?thesis
    using client_open_loop_opened [of N _ _ None s "(r, s')"] assms(2)
    by (auto simp: opened_def grows_def keeps_def quiet_keeps [unfolded keeps_def]
        quiet_conn_map)
qed

lemma run_client_effect:
  assumes "run_client N c s = Some (r, s')" and "tables_ok client_of s"
  shows "client_preserves s s' \<and> conn_spec c r (conn_map s) (conn_map s')"
proof (cases c)
  case (COpen a)
  with assms show ?thesis using client_open_effect [of N "fst a" "snd a" s r s' a]
    by (auto intro: client_keeps_preserves)
next
  case (CClose sock)
  with assms show ?thesis using client_close_effect [of N sock s r s'] by (auto intro: client_keeps_preserves)
next
  case CClean
  with assms show ?thesis using client_clean_effect [of N s r s'] by auto
next
  case (CState sock)
  with assms show ?thesis
    using socket_state_result [of sock s r s' client_of] by (simp add: client_socket_state_def client_preserves_def adds_ops_def)
next
  case (CEndData sock d)
  with assms have "\<exists>t x. quiet s t \<and> (s' = t \<or> s' = t\<lparr>end_data := x\<rparr>)"
    by (auto simp: client_socket_end_data_def with_sock_def split: sock_arg.splits pyval.splits
        dest!: pure_quiet)
  with assms(2) CEndData show ?thesis
    by (auto simp: quiet_keeps quiet_conn_map client_keeps_preserves client_end_data_preserves)
next
  case (CWrite sock d)
  with assms show ?thesis
    using client_write_quiet [of N sock d s r s'] by (simp add: quiet_keeps quiet_conn_map client_keeps_preserves)
next
  case (CRead sock len timeout)
  with assms show ?thesis
    using read_keeps [of N sock len timeout s r s' client_of] by (auto simp: client_socket_read_def intro: client_keeps_preserves)
next
  case (CFlush sock)
  with assms show ?thesis
    using socket_flush_quiet [of N sock s r s']
    by (simp add: client_socket_flush_def quiet_keeps quiet_conn_map client_keeps_preserves)
qed

interpretation client: connection_service "run_client N" "tables_ok client_of" conn_map
  by unfold_locales (use run_client_effect client_preserves_def in blast)

interpretation client_session: session "run_client N" ops "tables_ok client_of" "\<lambda>_. True" op_ok
  by unfold_locales (use run_client_effect client_preserves_def adds_ops_def in blast)

end
