(* ===== verification/TcpServer.thy ===== *)
theory TcpServer
  imports TcpTables
begin

text \<open>
  DR_tcp_server2.py: one listening socket per accepted connection. The entry of a connection
  holds both sockets. The end data is stored under \<^verbatim>\<open>str(id(sock))\<close> and read under \<^verbatim>\<open>id(sock)\<close>, so
  the keys of its dictionary are of two types.
\<close>

datatype end_key = IntKey nat | StrKey nat

record server = "(nat \<times> nat) tables" +
  end_data :: "(end_key \<times> string) list"

text \<open>The module after its import.\<close>

definition server_init :: server where
  "server_init = \<lparr>conn_list = [], state_list = [], ops = [], end_data = []\<rparr>"

definition DR_TP_SERVER_PORT :: int where "DR_TP_SERVER_PORT = 12345"

section \<open>Opening\<close>

definition server_accept :: "net \<Rightarrow> int \<Rightarrow> nat \<Rightarrow> (net_result, server) action" where
  "server_accept N port srv =
     abind (do_op N (SetReuse srv)) (\<lambda>_.
     abind (do_op N (Bind srv port)) (\<lambda>_.
     abind (do_op N (Listen srv)) (\<lambda>_.
     abind (do_op N (SetTimeout srv 1)) (\<lambda>_.
     abind (\<lambda>s. Some (accept_on N (ops s) srv, did (Accept srv) s)) (\<lambda>i.
     abind (change (register i (i, srv))) (\<lambda>_.
     abind (do_op N (SetTimeout i (1 / 100))) (\<lambda>_ s.
     Some (Inr (RSock i), s))))))))"

definition server_recover :: "net \<Rightarrow> nat option \<Rightarrow> (unit, server) action" where
  "server_recover N srv =
     (case srv of
        None \<Rightarrow> pure (Inl UnboundLocalError)
      | Some i \<Rightarrow> abind (do_op N (Shut i)) (\<lambda>_. change (did Sleep)))"

partial_function (option) server_open_loop ::
  "net \<Rightarrow> int \<Rightarrow> nat option \<Rightarrow> (net_result, server) action" where
  "server_open_loop N port srv s =
     (case create_socket N (ops s) of
        Inl e \<Rightarrow>
          (if e = OSError then
             (case server_recover N srv (did Create s) of
                None \<Rightarrow> None
              | Some (Inl e', s') \<Rightarrow> Some (Inl e', s')
              | Some (Inr u, s') \<Rightarrow> server_open_loop N port srv s')
           else Some (Inl e, did Create s))
      | Inr i \<Rightarrow>
          (case server_accept N port i (did Create s) of
             None \<Rightarrow> None
           | Some (Inr r, s1) \<Rightarrow> Some (Inr r, s1)
           | Some (Inl e, s1) \<Rightarrow>
               (if e = OSError then
                  (case server_recover N (Some i) s1 of
                     None \<Rightarrow> None
                   | Some (Inl e', s') \<Rightarrow> Some (Inl e', s')
                   | Some (Inr u, s') \<Rightarrow> server_open_loop N port (Some i) s')
                else Some (Inl e, s1))))"

definition server_socket_open :: "net \<Rightarrow> pyval \<Rightarrow> (net_result, server) action" where
  "server_socket_open N port =
     abind (pure (raise_if (\<not> is_int port) DR_ERROR_TYPE)) (\<lambda>_.
     abind (pure (raise_when (py_or (py_lt port 0) (py_eq port DR_TP_SERVER_PORT)) DR_ERROR_VALUE)) (\<lambda>_.
     case port of
       PInt p \<Rightarrow> server_open_loop N p None
     | _ \<Rightarrow> pure (Inl TypeError)))"

section \<open>Closing\<close>

text \<open>Unlike the client, the server looks first whether the socket is open.\<close>

definition server_socket_close :: "net \<Rightarrow> sock_arg \<Rightarrow> (net_result, server) action" where
  "server_socket_close N sock =
     catch_os
       (with_sock sock (\<lambda>i s.
          case map_of (conn_list s) i of
            None \<Rightarrow> Some (Inr (RInt (-1)), s)
          | Some (client_socket, server_socket) \<Rightarrow>
              abind (do_op N (Shut client_socket)) (\<lambda>_.
              abind (do_op N (Shut server_socket)) (\<lambda>_.
              abind (unregister i) (\<lambda>_ s'.
              Some (Inr (RInt 0), s')))) s))
       (pure (Inl (DRError DR_ERROR_RUNTIME)))"

fun close_servers :: "net \<Rightarrow> nat list \<Rightarrow> (unit, server) action" where
  "close_servers N [] s = Some (Inr (), s)"
| "close_servers N (i # is) s =
     (case map_of (conn_list s) i of
        None \<Rightarrow> Some (Inl KeyError, s)
      | Some (client_socket, server_socket) \<Rightarrow>
          abind (do_op N (Shut client_socket)) (\<lambda>_.
          abind (do_op N (Shut server_socket)) (\<lambda>_.
          abind (unregister i) (\<lambda>_. close_servers N is))) s)"

definition clean_server_socket :: "net \<Rightarrow> (net_result, server) action" where
  "clean_server_socket N s =
     abind (close_servers N (map fst (conn_list s))) (\<lambda>_ s'.
     Some (Inr RNone, s'\<lparr>end_data := []\<rparr>)) s"

section \<open>State and end data\<close>

definition server_socket_state :: "sock_arg \<Rightarrow> (net_result, server) action" where
  "server_socket_state = socket_state"

definition server_socket_end_data :: "sock_arg \<Rightarrow> pyval \<Rightarrow> (net_result, server) action" where
  "server_socket_end_data sock data =
     with_sock sock (\<lambda>i s.
     case data of
       PStr d \<Rightarrow> Some (Inr (RInt 0), s\<lparr>end_data := AList.update (StrKey i) d (end_data s)\<rparr>)
     | _ \<Rightarrow> pure (Inl (DRError DR_ERROR_TYPE)) s)"

section \<open>Writing, reading, flushing\<close>

text \<open>\<^verbatim>\<open>bytes(s, 'ascii')\<close>\<close>

definition ascii_bytes :: "string \<Rightarrow> byte list res" where
  "ascii_bytes cs = map_res (\<lambda>c. if (of_char c :: nat) < 128 then Inr (of_char c)
                                  else Inl UnicodeEncodeError) cs"

definition server_socket_write :: "net \<Rightarrow> sock_arg \<Rightarrow> data_arg \<Rightarrow> (net_result, server) action" where
  "server_socket_write N sock data =
     catch_os
       (with_sock sock (\<lambda>i s.
          case data of
            NoBytes \<Rightarrow> pure (Inl (DRError DR_ERROR_TYPE)) s
          | Bytes bs \<Rightarrow>
              if \<not> is_open i s then Some (Inr (RInt (-1)), s)
              else
                let com_end_data = (case map_of (end_data s) (IntKey i) of None \<Rightarrow> [] | Some d \<Rightarrow> d)
                in abind (pure (ascii_bytes com_end_data)) (\<lambda>tail.
                   abind (do_op N (SendAll i (bs @ tail))) (\<lambda>_ s'. Some (Inr (RInt 0), s'))) s))
       (pure (Inr (RInt (-2))))"

definition server_socket_read :: "net \<Rightarrow> sock_arg \<Rightarrow> pyval \<Rightarrow> pyval \<Rightarrow> (net_result, server) action" where
  "server_socket_read = socket_read"

definition server_socket_flush :: "net \<Rightarrow> sock_arg \<Rightarrow> (net_result, server) action" where
  "server_socket_flush = socket_flush"

section \<open>Effects\<close>

text \<open>The entry of a connection is keyed by the accepted socket, the first of the pair.\<close>

definition accepted_of :: "nat \<times> nat \<Rightarrow> nat" where
  "accepted_of p = fst p"

definition accepted ::
  "net_result res \<Rightarrow> server \<Rightarrow> server \<Rightarrow> bool" where
  "accepted r s s' \<longleftrightarrow> grows accepted_of s s' \<and>
     (tables_ok accepted_of s \<longrightarrow> (\<forall>j. r = Inr (RSock j) \<longrightarrow> conn_map s' j = Some True))"

lemma accepted_step: "grows accepted_of s s1 \<Longrightarrow> accepted r s1 s' \<Longrightarrow> accepted r s s'"
  unfolding accepted_def using grows_trans by (metis grows_def)

definition port_ok :: "int \<Rightarrow> bool" where
  "port_ok p \<longleftrightarrow> 0 \<le> p \<and> p \<noteq> DR_TP_SERVER_PORT"

lemma accept_whole:
  assumes "quiet s s2" and "quiet (register i (i, srv) s2) s4"
  shows "grows accepted_of s s4" and "tables_ok accepted_of s \<Longrightarrow> conn_map s4 i = Some True"
proof -
  have "grows accepted_of s (register i (i, srv) s2)"
    by (rule grows_trans [OF quiet_grows [OF assms(1)] grows_register]) (simp add: accepted_of_def)
  then show "grows accepted_of s s4"
    using quiet_grows [OF assms(2)] grows_trans by blast
  show "tables_ok accepted_of s \<Longrightarrow> conn_map s4 i = Some True"
    using register_ok [of accepted_of s2 "(i, srv)" i] quiet_tables [OF assms(1), of accepted_of]
      quiet_conn_map [OF assms(2)]
    by (simp add: accepted_of_def)
qed

lemma server_accept_cases:
  assumes "server_accept N port srv s = Some (r, s')" and "port_ok port"
  shows "(quiet s s' \<and> (\<exists>e. r = Inl e)) \<or>
    (\<exists>i s2. quiet s s2 \<and> quiet (register i (i, srv) s2) s' \<and> ((\<exists>e. r = Inl e) \<or> r = Inr (RSock i)))"
proof -
  have ops: "op_ok (SetReuse srv)" "op_ok (Bind srv port)" "op_ok (Listen srv)"
    "op_ok (SetTimeout srv 1)"
    using assms(2) by (simp_all add: port_ok_def DR_TP_SERVER_PORT_def)
  let ?tail = "abind (\<lambda>s. Some (accept_on N (ops s) srv, did (Accept srv) s)) (\<lambda>i.
      abind (change (register i (i, srv))) (\<lambda>_.
      abind (do_op N (SetTimeout i (1 / 100))) (\<lambda>_ s. Some (Inr (RSock i), s))))"
  have accept: ?thesis if "quiet s t" and "?tail t = Some (r, s')" for t
  proof -
    have "quiet s (did (Accept srv) t)" using quiet_trans [OF that(1) quiet_did] by simp
    with that(2) show ?thesis
      by (fastforce simp: abind_Some change_def dest: do_op_quiet)
  qed
  have timeout: ?thesis
    if "quiet s t" and "abind (do_op N (SetTimeout srv 1)) (\<lambda>_. ?tail) t = Some (r, s')" for t
    using do_op_then [OF that(2,1) ops(4)] accept by blast
  have listen: ?thesis
    if "quiet s t" and "abind (do_op N (Listen srv)) (\<lambda>_.
      abind (do_op N (SetTimeout srv 1)) (\<lambda>_. ?tail)) t = Some (r, s')" for t
    using do_op_then [OF that(2,1) ops(3)] timeout by blast
  have bind: ?thesis
    if "quiet s t" and "abind (do_op N (Bind srv port)) (\<lambda>_. abind (do_op N (Listen srv)) (\<lambda>_.
      abind (do_op N (SetTimeout srv 1)) (\<lambda>_. ?tail))) t = Some (r, s')" for t
    using do_op_then [OF that(2,1) ops(2)] listen by blast
  show ?thesis
    using do_op_then [OF assms(1) [unfolded server_accept_def] quiet_refl ops(1)] bind by blast
qed

lemma server_accept_accepted:
  assumes "server_accept N port srv s = Some (r, s')" and "port_ok port"
  shows "accepted r s s'"
  using server_accept_cases [OF assms] accept_whole
  by (auto simp: accepted_def quiet_grows)

lemma server_recover_grows:
  "server_recover N sock s = Some (r, s') \<Longrightarrow> grows accepted_of s s'"
  by (cases sock) (auto simp: server_recover_def intro!: quiet_grows dest: recover_quiet pure_quiet)

lemma server_open_loop_accepted:
  assumes "server_open_loop N port sock s = Some z" and "port_ok port"
  shows "accepted (fst z) s (snd z)"
proof -
  have "port_ok port \<longrightarrow> accepted (fst z) s (snd z)"
  proof (rule server_open_loop.raw_induct
      [where P = "\<lambda>_ port _ s z. port_ok port \<longrightarrow> accepted (fst z) s (snd z)", OF _ assms(1)],
      intro impI, goal_cases)
    case (1 loop N port sock s z)
    have created: "grows accepted_of s (did Create s)"
      by (intro quiet_grows) simp
    have connected: "grows accepted_of s s1" and
      success: "accepted r s s1" if "server_accept N port i (did Create s) = Some (r, s1)" for i r s1
      using server_accept_accepted [OF that 1(3)] created
      by (auto simp: accepted_def intro: grows_trans) (auto simp: grows_def)
    have recovered: "grows accepted_of s s'"
      if "server_accept N port i (did Create s) = Some (r, s1)"
        "server_recover N sk s1 = Some (q, s')" for i r s1 sk q s'
      using connected [OF that(1)] server_recover_grows [OF that(2)] by (rule grows_trans)
    have failed: "accepted (Inl e) s s'" if "grows accepted_of s s'" for e s'
      using that by (simp add: accepted_def)
    have again: "accepted (fst z) s (snd z)" if "loop N port sk s' = Some z" "grows accepted_of s s'" for sk s'
      using 1(1) [OF that(1)] 1(3) accepted_step [OF that(2)] by blast
    show ?case
    proof (cases "create_socket N (ops s)")
      case (Inl e)
      with 1(2) show ?thesis
        by (auto split: if_splits option.splits sum.splits prod.splits
            intro!: failed created dest!: server_recover_grows intro: grows_trans [OF created] again)
    next
      case (Inr i)
      with 1(2) show ?thesis
        by (auto split: if_splits option.splits sum.splits prod.splits
            intro!: failed created dest: connected success recovered intro: again)
    qed
  qed
  with assms(2) show ?thesis by blast
qed

text \<open>Closing both sockets of an entry and removing it.\<close>

definition close_entry :: "net \<Rightarrow> nat \<Rightarrow> nat \<times> nat \<Rightarrow> (unit, server) action" where
  "close_entry N i p =
     abind (do_op N (Shut (fst p))) (\<lambda>_. abind (do_op N (Shut (snd p))) (\<lambda>_. unregister i))"

lemma close_entry_effect:
  assumes "close_entry N i p s = Some (r, s')" and "tables_ok accepted_of s" and "is_open i s"
  shows "keeps accepted_of s s' \<and>
    (if r = Inr () then conn_map s' = (conn_map s)(i := None) else conn_map s' = conn_map s)"
proof -
  have ok: "op_ok (Shut (fst p))" "op_ok (Shut (snd p))" by simp_all
  consider (failed) "quiet s s'" "\<exists>e. r = Inl e"
    | (removed) u where "quiet s u" "unregister i u = Some (r, s')"
    using do_op_then [OF assms(1) [unfolded close_entry_def] quiet_refl ok(1)]
      do_op_then [OF _ _ ok(2), where f = "\<lambda>_. unregister i" and r = r and s' = s' and s = s]
    by blast
  then show ?thesis
  proof cases
    case failed
    then show ?thesis using assms(2) by (auto simp: quiet_keeps quiet_conn_map)
  next
    case removed
    from unregister_effect [OF removed assms(2)] assms(3) show ?thesis by auto
  qed
qed

lemma server_close_entry:
  "server_socket_close N (Sock i) =
     catch_os (\<lambda>s. case map_of (conn_list s) i of
         None \<Rightarrow> Some (Inr (RInt (-1)), s)
       | Some p \<Rightarrow> abind (close_entry N i p) (\<lambda>_ s'. Some (Inr (RInt 0), s')) s)
       (pure (Inl (DRError DR_ERROR_RUNTIME)))"
proof -
  have assoc: "abind (abind m f) g = abind m (\<lambda>x. abind (f x) g)"
    for m :: "('a, 's) action" and f :: "'a \<Rightarrow> ('b, 's) action" and g :: "'b \<Rightarrow> ('c, 's) action"
    by (auto simp: abind_def fun_eq_iff split: option.splits prod.splits sum.splits)
  show ?thesis
    by (auto simp: server_socket_close_def with_sock_def close_entry_def assoc
        intro!: arg_cong2 [where f = catch_os] split: option.splits prod.splits)
qed

lemma server_close_effect:
  assumes "server_socket_close N sock s = Some (r, s')" and "tables_ok accepted_of s"
  shows "keeps accepted_of s s' \<and> conn_spec (CClose sock) r (conn_map s) (conn_map s')"
proof (cases sock)
  case NoSock
  with assms(1) have "quiet s s'" "r \<noteq> Inr (RInt 0)"
    by (auto simp: server_socket_close_def catch_os_def with_sock_def pure_def)
  then show ?thesis using assms(2) by (simp add: quiet_keeps quiet_conn_map)
next
  case (Sock i)
  show ?thesis
  proof (cases "map_of (conn_list s) i")
    case None
    with assms(1) Sock have "s' = s" "r = Inr (RInt (-1))"
      by (auto simp: server_close_entry catch_os_def)
    with assms(2) Sock show ?thesis by (simp add: keeps_def)
  next
    case (Some p)
    then have opn: "is_open i s" by (simp add: is_open_def)
    from Some assms(1) Sock obtain q t where t: "close_entry N i p s = Some (q, t)"
      and r: "(q = Inr () \<and> r = Inr (RInt 0) \<and> s' = t) \<or>
              (q \<noteq> Inr () \<and> (\<exists>e. r = Inl e) \<and> quiet t s')"
      by (auto simp: server_close_entry catch_os_def abind_def
          split: option.splits prod.splits sum.splits exc.splits dest!: pure_quiet)
    from close_entry_effect [OF t assms(2) opn] r show ?thesis
      using is_open_conn_map [OF assms(2), of i] opn Sock keeps_trans quiet_keeps [of t s' accepted_of]
      by (auto simp: quiet_conn_map keeps_def intro: extends_trans quiet_extends)
  qed
qed

lemma close_servers_entry:
  "close_servers N (i # is) s =
     (case map_of (conn_list s) i of
        None \<Rightarrow> Some (Inl KeyError, s)
      | Some p \<Rightarrow> abind (close_entry N i p) (\<lambda>_. close_servers N is) s)"
  by (auto simp: close_entry_def abind_def split: option.splits prod.splits sum.splits)

lemma close_servers_effect:
  "close_servers N is s = Some (r, s') \<Longrightarrow> tables_ok accepted_of s \<Longrightarrow>
   keeps accepted_of s s' \<and> conn_map s' \<subseteq>\<^sub>m conn_map s \<and>
   (r = Inr () \<longrightarrow> (\<forall>i \<in> set is. conn_map s' i = None))"
proof (induction "is" arbitrary: s)
  case Nil
  then show ?case by (simp add: keeps_def)
next
  case (Cons i "is")
  show ?case
  proof (cases "map_of (conn_list s) i")
    case None
    with Cons.prems show ?thesis by (auto simp: keeps_def)
  next
    case (Some p)
    then have opn: "is_open i s" by (simp add: is_open_def)
    from Some Cons.prems(1) consider
      (failed) e where "close_entry N i p s = Some (Inl e, s')" "r = Inl e"
    | (closed) s1 where "close_entry N i p s = Some (Inr (), s1)"
        "close_servers N is s1 = Some (r, s')"
      unfolding close_servers_entry by (auto simp: abind_Some)
    then show ?thesis
    proof cases
      case failed
      with close_entry_effect [OF failed(1) Cons.prems(2) opn] show ?thesis by simp
    next
      case closed
      from close_entry_effect [OF closed(1) Cons.prems(2) opn]
      have first: "keeps accepted_of s s1" "conn_map s1 = (conn_map s)(i := None)" by auto
      then have "tables_ok accepted_of s1" by (simp add: keeps_def)
      from Cons.IH [OF closed(2) this] have "keeps accepted_of s1 s'"
        and le: "conn_map s' \<subseteq>\<^sub>m (conn_map s)(i := None)"
        and rest: "r = Inr () \<longrightarrow> (\<forall>i \<in> set is. conn_map s' i = None)"
        unfolding first(2) by blast+
      with keeps_trans [OF first(1)] map_le_removed [OF le] show ?thesis by simp
    qed
  qed
qed

lemma server_end_data_irrelevant [simp]:
  "tables_ok own (s\<lparr>end_data := d\<rparr>) = tables_ok own s" "conn_map (s\<lparr>end_data := d\<rparr>) = conn_map s"
  "adds_ops t (s\<lparr>end_data := d\<rparr>) = adds_ops t s"
  by (simp_all add: tables_ok_def conn_map_def is_open_def adds_ops_def fun_eq_iff)

text \<open>What every call of the module keeps.\<close>

definition server_preserves :: "server \<Rightarrow> server \<Rightarrow> bool" where
  "server_preserves s s' \<longleftrightarrow> tables_ok accepted_of s' \<and> adds_ops s s'"

lemma server_keeps_preserves: "keeps accepted_of s s' \<Longrightarrow> server_preserves s s'"
  by (simp add: keeps_def server_preserves_def extends_def)

lemma server_end_data_preserves: "keeps accepted_of s t \<Longrightarrow> server_preserves s (t\<lparr>end_data := d\<rparr>)"
  using server_keeps_preserves [of s t] by (simp add: server_preserves_def)

lemma server_clean_effect:
  assumes "clean_server_socket N s = Some (r, s')" and "tables_ok accepted_of s"
  shows "server_preserves s s' \<and> conn_spec CClean r (conn_map s) (conn_map s')"
proof -
  obtain q s1 where q: "close_servers N (map fst (conn_list s)) s = Some (q, s1)"
    and r: "(r = Inr RNone \<longrightarrow> q = Inr ()) \<and> (s' = s1 \<or> s' = s1\<lparr>end_data := []\<rparr>)"
    using assms(1) by (auto simp: clean_server_socket_def abind_Some)
  have outside: "conn_map s i = None" if "i \<notin> fst ` set (conn_list s)" for i
    using that by (simp add: conn_map_def is_open_def map_of_eq_None_iff)
  have "conn_map s1 = Map.empty" if "q = Inr ()"
  proof
    fix i
    show "conn_map s1 i = None"
      using close_servers_effect [OF q assms(2)] that outside [of i]
      by (cases "i \<in> fst ` set (conn_list s)") (auto simp: map_le_def dom_def)
  qed
  with close_servers_effect [OF q assms(2)] r show ?thesis
    by (auto intro: server_keeps_preserves server_end_data_preserves)
qed

text \<open>
  No end data is ever stored under an integer, the type of key that \<^verbatim>\<open>server_socket_write\<close> looks
  up.
\<close>

definition no_int_keys :: "server \<Rightarrow> bool" where
  "no_int_keys s \<longleftrightarrow> (\<forall>i. map_of (end_data s) (IntKey i) = None)"

definition server_ok :: "server \<Rightarrow> bool" where
  "server_ok s \<longleftrightarrow> tables_ok accepted_of s \<and> no_int_keys s"

lemma more_no_int_keys: "tables.more s' = tables.more s \<Longrightarrow> no_int_keys s' = no_int_keys s"
  by (cases s; cases s') (simp add: no_int_keys_def)

lemma ascii_bytes_Nil [simp]: "ascii_bytes [] = Inr []"
  by (simp add: ascii_bytes_def)

lemma server_write_open:
  assumes "no_int_keys s" and "is_open i s"
  shows "server_socket_write N (Sock i) (Bytes bs) s =
     catch_os (\<lambda>s. abind (do_op N (SendAll i bs)) (\<lambda>_ s'. Some (Inr (RInt 0), s')) s)
       (pure (Inr (RInt (-2)))) s"
  using assms
  by (simp add: server_socket_write_def with_sock_def no_int_keys_def catch_os_def)

lemma server_write_quiet:
  assumes "server_socket_write N sock data s = Some (r, s')"
  shows "quiet s s'"
proof (rule catch_os_quiet [OF assms [unfolded server_socket_write_def]], erule with_sock_quiet)
  have send: "quiet t u" if "do_op N (SendAll i bs) t = Some (q, u)" for i bs t q u
    using that by (rule do_op_quiet) simp
  have tail: "quiet s t"
    if "abind (pure (ascii_bytes d)) (\<lambda>tail. abind (do_op N (SendAll i (bs @ tail)))
          (\<lambda>_ s'. Some (Inr (RInt 0), s'))) s = Some (q, t)" for d i bs q t
    using that by (cases "ascii_bytes d") (auto simp: abind_Some dest: pure_quiet send)
  fix i q t
  assume "(case data of
      NoBytes \<Rightarrow> pure (Inl (DRError DR_ERROR_TYPE)) s
    | Bytes bs \<Rightarrow> if \<not> is_open i s then Some (Inr (RInt (-1)), s)
        else
          let com_end_data = (case map_of (end_data s) (IntKey i) of None \<Rightarrow> [] | Some d \<Rightarrow> d)
          in abind (pure (ascii_bytes com_end_data)) (\<lambda>tail.
             abind (do_op N (SendAll i (bs @ tail))) (\<lambda>_ s'. Some (Inr (RInt 0), s'))) s) = Some (q, t)"
  then show "quiet s t"
    unfolding Let_def by (auto split: data_arg.splits if_splits dest: pure_quiet tail)
qed

section \<open>The module as a connection service\<close>

fun run_server :: "net \<Rightarrow> pyval sock_call \<Rightarrow> (net_result, server) action" where
  "run_server N (COpen port) = server_socket_open N port"
| "run_server N (CClose sock) = server_socket_close N sock"
| "run_server N CClean = clean_server_socket N"
| "run_server N (CState sock) = server_socket_state sock"
| "run_server N (CEndData sock d) = server_socket_end_data sock d"
| "run_server N (CWrite sock d) = server_socket_write N sock d"
| "run_server N (CRead sock len timeout) = server_socket_read N sock len timeout"
| "run_server N (CFlush sock) = server_socket_flush N sock"

lemma server_open_effect:
  assumes "server_socket_open N port s = Some (r, s')" and "tables_ok accepted_of s"
  shows "keeps accepted_of s s' \<and> conn_spec (COpen a) r (conn_map s) (conn_map s')"
proof -
  have "(\<exists>e. r = Inl e \<and> quiet s s') \<or>
      (\<exists>p. port_ok p \<and> server_open_loop N p None s = Some (r, s'))"
  proof (cases "is_int port")
    case True
    then obtain p where "port = PInt p"
      by (auto simp: py_type_inv)
    then have "server_socket_open N port s =
        (if port_ok p then server_open_loop N p None s else pure (Inl (DRError DR_ERROR_VALUE)) s)"
      by (auto simp: server_socket_open_def abind_def pure_def raise_if_def port_ok_def)
    with assms(1) show ?thesis by (auto split: if_splits dest!: pure_quiet)
  next
    case False
    then have "server_socket_open N port s = pure (Inl (DRError DR_ERROR_TYPE)) s"
      by (simp add: server_socket_open_def abind_def pure_def raise_if_def)
    with assms(1) show ?thesis by (auto dest!: pure_quiet)
  qed
  then show ?thesis
    using server_open_loop_accepted [of N _ None s "(r, s')"] assms(2)
    by (auto simp: accepted_def grows_def keeps_def quiet_keeps [unfolded keeps_def]
        quiet_conn_map)
qed

lemma keeps_no_int_keys: "keeps accepted_of s s' \<Longrightarrow> no_int_keys s \<Longrightarrow> no_int_keys s'"
  using more_no_int_keys [of s' s] by (simp add: keeps_def extends_def)

lemma server_clean_no_int_keys:
  assumes "clean_server_socket N s = Some (r, s')" and "tables_ok accepted_of s" and "no_int_keys s"
  shows "no_int_keys s'"
proof -
  obtain q s1 where q: "close_servers N (map fst (conn_list s)) s = Some (q, s1)"
    and s': "s' = s1 \<or> s' = s1\<lparr>end_data := []\<rparr>"
    using assms(1) by (auto simp: clean_server_socket_def abind_Some)
  have "no_int_keys s1"
    using close_servers_effect [OF q assms(2)] assms(3) keeps_no_int_keys by blast
  with s' show ?thesis by (auto simp: no_int_keys_def)
qed

lemma server_end_data_effect:
  assumes "server_socket_end_data sock d s = Some (r, s')" and "server_ok s"
  shows "server_preserves s s' \<and> no_int_keys s' \<and> conn_map s' = conn_map s"
proof -
  have "(\<exists>i x. s' = s\<lparr>end_data := AList.update (StrKey i) x (end_data s)\<rparr>) \<or> quiet s s'"
    using assms(1)
    by (auto simp: server_socket_end_data_def with_sock_def split: sock_arg.splits pyval.splits
        dest!: pure_quiet)
  then show ?thesis
  proof
    assume "\<exists>i x. s' = s\<lparr>end_data := AList.update (StrKey i) x (end_data s)\<rparr>"
    moreover have "keeps accepted_of s s" "no_int_keys s"
      using assms(2) by (simp_all add: keeps_def server_ok_def)
    ultimately show ?thesis
      using server_end_data_preserves [of s s] by (auto simp: no_int_keys_def update_conv')
  next
    assume q: "quiet s s'"
    have "keeps accepted_of s s'"
      using quiet_keeps [OF q] assms(2) by (simp add: server_ok_def)
    then show ?thesis
      using server_keeps_preserves keeps_no_int_keys quiet_conn_map [OF q] assms(2)
      by (simp add: server_ok_def)
  qed
qed

lemma run_server_effect:
  assumes "run_server N c s = Some (r, s')" and "server_ok s"
  shows "server_ok s' \<and> adds_ops s s' \<and> conn_spec c r (conn_map s) (conn_map s')"
proof -
  have ok: "tables_ok accepted_of s" "no_int_keys s"
    using assms(2) by (simp_all add: server_ok_def)
  have whole: "server_ok t \<and> adds_ops s t" if "keeps accepted_of s t" for t
    using that server_keeps_preserves [OF that] keeps_no_int_keys [OF that ok(2)]
    by (simp add: server_ok_def server_preserves_def)
  have silent: "server_ok t \<and> adds_ops s t \<and> conn_map t = conn_map s" if "quiet s t" for t
    using whole [OF quiet_keeps [OF that ok(1)]] quiet_conn_map [OF that] by simp
  show ?thesis
  proof (cases c)
    case (COpen port)
    with assms(1) show ?thesis
      using server_open_effect [of N port s r s' port] ok(1) whole [of s'] by simp
  next
    case (CClose sock)
    with assms(1) show ?thesis using server_close_effect [of N sock s r s'] ok(1) whole [of s'] by auto
  next
    case CClean
    with assms(1) show ?thesis
      using server_clean_effect [of N s r s'] server_clean_no_int_keys [of N s r s'] ok
      by (simp add: server_ok_def server_preserves_def)
  next
    case (CState sock)
    with assms(1) show ?thesis
      using socket_state_result [of sock s r s' accepted_of] ok silent [OF quiet_refl]
      by (simp add: server_socket_state_def)
  next
    case (CEndData sock d)
    with assms show ?thesis
      using server_end_data_effect [of sock d s r s'] by (simp add: server_ok_def server_preserves_def)
  next
    case (CWrite sock d)
    with assms(1) show ?thesis using server_write_quiet [of N sock d s r s'] silent [of s'] by simp
  next
    case (CRead sock len timeout)
    with assms(1) show ?thesis
      using read_keeps [of N sock len timeout s r s' accepted_of] ok(1) whole [of s']
      by (simp add: server_socket_read_def)
  next
    case (CFlush sock)
    with assms(1) show ?thesis
      using socket_flush_quiet [of N sock s r s'] silent [of s'] by (simp add: server_socket_flush_def)
  qed
qed

interpretation server: connection_service "run_server N" server_ok conn_map
  by unfold_locales (use run_server_effect in blast)+

interpretation server_session: session "run_server N" ops server_ok "\<lambda>_. True" op_ok
  by unfold_locales (use run_server_effect adds_ops_def in blast)

end
