(* ===== verification/TcpProperties.thy ===== *)
theory TcpProperties
  imports TcpClient TcpServer
begin

text \<open>
  The properties of the two socket modules, and the environment their witnesses run in.
\<close>

section \<open>A concrete socket library\<close>

text \<open>
  A new socket is named by the number of operations before it. Everything succeeds; a reception
  of no bytes returns none, any other returns one byte.
\<close>

definition good_net :: net where
  "good_net = \<lparr>
     create_socket = (\<lambda>h. Inr (length h)),
     accept_on = (\<lambda>h i. Inr (length h)),
     op_raises = (\<lambda>_ _. None),
     recv_from = (\<lambda>_ _ n. if n = 0 then Data [] else Data [7]),
     select_on = (\<lambda>_ _. Inr (False, True, False))\<rparr>"

lemma good_net_simps [simp]:
  "create_socket good_net h = Inr (length h)" "accept_on good_net h i = Inr (length h)"
  "op_raises good_net h op = None"
  "recv_from good_net h i n = (if n = 0 then Data [] else Data [7])"
  "select_on good_net h i = Inr (False, True, False)"
  by (simp_all add: good_net_def)

lemma init_simps [simp]:
  "conn_list client_init = []" "state_list client_init = []"
  "conn_list server_init = []" "state_list server_init = []"
  by (simp_all add: client_init_def server_init_def)

lemma client_init_ok [simp]: "tables_ok client_of client_init" "ops client_init = []"
  by (simp_all add: client_init_def tables_ok_def)

lemma server_init_ok [simp]: "server_ok server_init" "ops server_init = []"
  by (simp_all add: server_init_def server_ok_def tables_ok_def no_int_keys_def)

lemma open_good_client:
  "run_client good_net (COpen (PStr ''h'', PInt 80)) client_init =
     Some (Inr (RSock 0),
       (register 0 0 client_init)\<lparr>ops := [Create, SetTimeout 0 1, Connect 0 ''h'' 80,
          SetTimeout 0 (1 / 100)]\<rparr>)"
  by (simp add: client_socket_open_def client_open_loop.simps client_connect_def abind_def do_op_def
      change_def did_def register_def client_init_def)

lemma open_good_server:
  "run_server good_net (COpen (PInt 80)) server_init =
     Some (Inr (RSock 5),
       (register 5 (5, 0) server_init)\<lparr>ops := [Create, SetReuse 0, Bind 0 80, Listen 0,
          SetTimeout 0 1, Accept 0, SetTimeout 5 (1 / 100)]\<rparr>)"
  by (simp add: server_socket_open_def server_open_loop.simps server_accept_def abind_def do_op_def
      change_def did_def register_def server_init_def DR_TP_SERVER_PORT_def)

section \<open>Consistency of the tables\<close>

text \<open>C15: in every state a program can bring the client module to, whatever calls it makes and
  however the network behaves, the two dictionaries have the same keys, every entry stands under
  the id of its own socket, every state is 0 or 1, and no call passed a negative port to \<^verbatim>\<open>connect\<close>
  or a negative length to \<^verbatim>\<open>recv\<close>.\<close>

theorem client_tables_consistent:
  assumes "run_all (run_client N) cs client_init = Some s"
  shows "tables_ok client_of s \<and> list_all op_ok (ops s)"
  using client_session.run_all_safe [OF assms] by (auto simp: list_all_iff)

lemma client_tables_consistent_witness:
  "\<exists>s. run_all (run_client good_net) [COpen (PStr ''h'', PInt 80)] client_init = Some s \<and>
     tables_ok client_of s \<and> is_open 0 s"
proof -
  obtain s where s: "run_all (run_client good_net) [COpen (PStr ''h'', PInt 80)] client_init = Some s"
    "is_open 0 s"
    using open_good_client by (simp add: is_open_def register_def del: run_client.simps)
  with client_tables_consistent [OF s(1)] show ?thesis by blast
qed

text \<open>C16: in every state a program can bring the server module to, whatever calls it makes and
  however the network behaves, the two dictionaries have the same keys, every entry stands under the id
  of its own accepted socket, every state is 0 or 1, no call passed a negative length to \<^verbatim>\<open>recv\<close>,
  and none bound the port 12345 of the teach pendant, nor a negative one.\<close>

theorem server_tables_consistent:
  assumes "run_all (run_server N) cs server_init = Some s"
  shows "tables_ok accepted_of s \<and> (\<forall>i n. Recv i n \<in> set (ops s) \<longrightarrow> 0 \<le> n) \<and>
    (\<forall>i p. Bind i p \<in> set (ops s) \<longrightarrow> 0 \<le> p \<and> p \<noteq> 12345)"
proof -
  have "list_all (\<lambda>_. True) cs" by (simp add: list_all_iff)
  with server_session.run_all_safe [OF assms server_init_ok(1)] show ?thesis
    by (auto simp: list_all_iff server_ok_def)
qed

lemma server_tables_consistent_witness:
  "\<exists>s. run_all (run_server good_net) [COpen (PInt 80)] server_init = Some s \<and>
     tables_ok accepted_of s \<and> Bind 0 80 \<in> set (ops s)"
proof -
  obtain s where s: "run_all (run_server good_net) [COpen (PInt 80)] server_init = Some s"
    "Bind 0 80 \<in> set (ops s)"
    using open_good_server by (simp del: run_server.simps)
  with server_tables_consistent [OF s(1)] show ?thesis by blast
qed

section \<open>Refinement of the connection map\<close>

text \<open>C17: seen as a partial map from sockets to whether the peer is still there, every call of the
  client that returns does what its specification says: opening adds connected sockets, closing
  removes exactly the closed one or nothing, the clean-up that succeeds empties the map, the state
  function reports the map, a read either leaves the map or marks its socket as lost when it
  returns (-1, None), and writing, flushing and setting end data leave it.\<close>

theorem client_refines_map:
  assumes "run_client N c s = Some (r, s')" and "tables_ok client_of s"
  shows "tables_ok client_of s' \<and> conn_spec c r (conn_map s) (conn_map s')"
  using client.refines [OF assms] by blast

lemma client_refines_map_witness:
  "\<exists>r s. run_client good_net (COpen (PStr ''h'', PInt 80)) client_init = Some (r, s) \<and>
     tables_ok client_of s \<and> conn_map s 0 = Some True"
  using client_refines_map [OF open_good_client client_init_ok(1)] open_good_client
  by (auto simp del: run_client.simps)

text \<open>C18: the server refines the same specification.\<close>

theorem server_refines_map:
  assumes "run_server N c s = Some (r, s')" and "server_ok s"
  shows "server_ok s' \<and> conn_spec c r (conn_map s) (conn_map s')"
  using server.refines [OF assms] by blast

lemma server_refines_map_witness:
  "\<exists>r s. run_server good_net (COpen (PInt 80)) server_init = Some (r, s) \<and>
     server_ok s \<and> conn_map s 5 = Some True"
  using server_refines_map [OF open_good_server server_init_ok(1)] open_good_server
  by (auto simp del: run_server.simps)

section \<open>Reading\<close>

text \<open>C20: a read with a finite timeout of at most \<open>10 ^ 12\<close> seconds returns, after at most
  \<open>200 * timeout + 1\<close> receptions, however the peer behaves; with the same holding of errors of
  the arguments. (Each reception ends, since the sockets have a timeout of their own.)\<close>

theorem read_terminates:
  assumes "num_val timeout = Some (Fin q)" and "0 \<le> q" and "q \<le> 10 ^ 12"
  shows "\<exists>r s'. client_socket_read N sock len timeout s = Some (r, s') \<and>
    length (ops s') \<le> length (ops s) + read_bound q + 1"
proof (cases sock)
  case NoSock
  then show ?thesis
    by (simp add: client_socket_read_def socket_read_def with_sock_def pure_def did_def)
next
  case (Sock i)
  show ?thesis
  proof (cases "check_read_args len timeout")
    case (Inl e)
    then show ?thesis
      by (auto simp: client_socket_read_def socket_read_def with_sock_def Sock abind_def pure_def
          did_def split: exc.splits)
  next
    case (Inr u)
    then obtain n where n: "read_size len = Inr n"
      using check_read_args_size by blast
    obtain z where "read_loop N i n timeout 0 s = Some z"
      "length (ops (snd z)) \<le> length (ops s) + read_bound q + 1"
      using read_loop_returns [OF assms, of 0 N i n s] by auto
    with Inr n show ?thesis
      by (cases z) (simp add: client_socket_read_def socket_read_def with_sock_def Sock)
  qed
qed

definition dead_net :: net where
  "dead_net = good_net\<lparr>recv_from := \<lambda>_ _ _. TimedOut True\<rparr>"

lemma read_terminates_witness:
  "\<exists>r s'. client_socket_read dead_net (Sock 0) (PInt 10) (PInt 3) (register 0 0 client_init)
     = Some (r, s')"
  using read_terminates [of "PInt 3" 3 dead_net "Sock 0" "PInt 10" "register 0 0 client_init"]
  by auto

text \<open>A read of length 0 passes the check of the arguments, and the empty answer that \<^verbatim>\<open>recv(0)\<close>
  always gives is taken for the end of the connection: it returns (-1, None) and marks a
  connection that is alive as lost.\<close>

theorem zero_read_loses_connection:
  assumes "\<And>h. recv_from N h i 0 = Data []" and "is_open i s" and "tables_ok client_of s"
    and "check_read_args (PInt 0) timeout = Inr ()"
  shows "\<exists>s'. client_socket_read N (Sock i) (PInt 0) timeout s = Some (Inr (RData (-1) None), s') \<and>
    conn_map s' = (conn_map s)(i \<mapsto> False)"
proof -
  have "read_loop N i 0 timeout 0 s =
      Some (Inr (RData (-1) None), mark_off i (did (Recv i 0) s))"
    using assms(1) by (subst read_loop.simps) simp
  then have run: "client_socket_read N (Sock i) (PInt 0) timeout s =
      Some (Inr (RData (-1) None), mark_off i (did (Recv i 0) s))"
    using assms(2,4)
    by (simp add: client_socket_read_def socket_read_def with_sock_def read_size_def)
  have q: "quiet s (did (Recv i 0) s)" by simp
  have "tables_ok client_of (did (Recv i 0) s)" "is_open i (did (Recv i 0) s)"
    using assms(2,3) quiet_tables [OF q] quiet_is_open [OF q] by simp_all
  from mark_off_ok(2) [OF this] run show ?thesis
    by (simp add: quiet_conn_map [OF q])
qed

lemma zero_read_loses_connection_witness:
  "\<exists>s'. client_socket_read good_net (Sock 0) (PInt 0) (PInt 1) (register 0 0 client_init)
      = Some (Inr (RData (-1) None), s') \<and> conn_map s' 0 = Some False"
proof -
  let ?s = "register 0 0 client_init :: client"
  have "is_open 0 ?s" "tables_ok client_of ?s"
    using register_ok [of client_of client_init 0 0] by (simp_all add: is_open_def register_def client_of_def)
  moreover have "check_read_args (PInt 0) (PInt 1) = Inr ()"
    by (simp add: check_read_args_def)
  ultimately show ?thesis
    using zero_read_loses_connection [of good_net 0 ?s "PInt 1"] by auto
qed

section \<open>Connections that are gone\<close>

text \<open>C19: in both modules, a socket that is not connected, because it was closed, was lost or was
  never opened, is not reported as connected again by a program that opens nothing: after any
  further calls the state function returns 0 for it.\<close>

theorem lost_connections_stay_lost:
  assumes "tables_ok client_of s" and "conn_map s i \<noteq> Some True"
    and "run_all (run_client N) cs s = Some s'" and "list_all (\<lambda>c. \<not> is_open_call c) cs"
    and "server_ok t" and "conn_map t j \<noteq> Some True"
    and "run_all (run_server N) ds t = Some t'" and "list_all (\<lambda>c. \<not> is_open_call c) ds"
  shows "client_socket_state (Sock i) s' = Some (Inr (RInt 0), s') \<and>
    server_socket_state (Sock j) t' = Some (Inr (RInt 0), t')"
proof -
  have state: "socket_state (Sock k) u = Some (Inr (RInt 0), u)"
    if "tables_ok own u" and "conn_map u k \<noteq> Some True" for own k and u :: "('v, 'x) tables_scheme"
  proof -
    obtain r v where "socket_state (Sock k) u = Some (r, v)" by (simp add: socket_state_def)
    with socket_state_result [OF this that(1)] that(2) show ?thesis by simp
  qed
  have "tables_ok client_of s'" "conn_map s' i \<noteq> Some True"
    using client.no_revival [OF assms(3,1,4,2)] by blast+
  moreover have "server_ok t'" "conn_map t' j \<noteq> Some True"
    using server.no_revival [OF assms(7,5,8,6)] by blast+
  ultimately show ?thesis
    using state [of client_of s' i] state [of accepted_of t' j]
    by (simp add: client_socket_state_def server_socket_state_def server_ok_def)
qed

text \<open>A connection of the client lost in a read and one of the server closed, and calls after that.\<close>

lemma client_loses_connection:
  "\<exists>s. run_all (run_client good_net) [COpen (PStr ''h'', PInt 80), CRead (Sock 0) (PInt 0) (PInt 1)] client_init
     = Some s \<and> tables_ok client_of s \<and> conn_map s 0 = Some False"
proof -
  obtain s where s: "run_client good_net (COpen (PStr ''h'', PInt 80)) client_init = Some (Inr (RSock 0), s)"
    and opn: "is_open 0 s"
    using open_good_client by (auto simp: is_open_def register_def)
  have ok: "tables_ok client_of s" using client.refines [OF s client_init_ok(1)] by simp
  have "check_read_args (PInt 0) (PInt 1) = Inr ()"
    by (simp add: check_read_args_def)
  with zero_read_loses_connection [of good_net 0 s "PInt 1"] opn ok obtain s1
    where s1: "run_client good_net (CRead (Sock 0) (PInt 0) (PInt 1)) s = Some (Inr (RData (-1) None), s1)"
      and "conn_map s1 0 = Some False"
    by auto
  moreover have "tables_ok client_of s1" using client.refines [OF s1 ok] by simp
  ultimately show ?thesis using s by (simp del: run_client.simps)
qed

lemma server_closes_connection:
  "\<exists>t. run_all (run_server good_net) [COpen (PInt 80), CClose (Sock 5)] server_init = Some t \<and>
     server_ok t \<and> conn_map t 5 = None"
proof -
  define s :: server where "s = (register 5 (5, 0) server_init)\<lparr>ops := [Create, SetReuse 0, Bind 0 80,
    Listen 0, SetTimeout 0 1, Accept 0, SetTimeout 5 (1 / 100)]\<rparr>"
  have s: "run_server good_net (COpen (PInt 80)) server_init = Some (Inr (RSock 5), s)"
    unfolding s_def by (rule open_good_server)
  have "\<exists>t. run_server good_net (CClose (Sock 5)) s = Some (Inr (RInt 0), t)"
    by (simp add: s_def server_socket_close_def catch_os_def with_sock_def abind_def do_op_def did_def
        register_def server_init_def unregister_def)
  then obtain t where t: "run_server good_net (CClose (Sock 5)) s = Some (Inr (RInt 0), t)" ..
  have ok: "server_ok s" using server.refines [OF s server_init_ok(1)] by simp
  from server.refines [OF t ok] s t show ?thesis
    by (auto simp del: run_server.simps)
qed

lemma lost_connections_stay_lost_witness:
  "\<exists>s s' t t'.
     run_all (run_client good_net) [COpen (PStr ''h'', PInt 80), CRead (Sock 0) (PInt 0) (PInt 1)] client_init
       = Some s \<and>
     run_all (run_client good_net) [CWrite (Sock 0) (Bytes [1]), CState (Sock 0)] s = Some s' \<and>
     client_socket_state (Sock 0) s' = Some (Inr (RInt 0), s') \<and>
     run_all (run_server good_net) [COpen (PInt 80), CClose (Sock 5)] server_init = Some t \<and>
     run_all (run_server good_net) [CWrite (Sock 5) (Bytes [1]), CState (Sock 5)] t = Some t' \<and>
     server_socket_state (Sock 5) t' = Some (Inr (RInt 0), t')"
proof -
  obtain s where s: "run_all (run_client good_net)
      [COpen (PStr ''h'', PInt 80), CRead (Sock 0) (PInt 0) (PInt 1)] client_init = Some s"
    "tables_ok client_of s" "conn_map s 0 = Some False"
    using client_loses_connection by blast
  obtain t where t: "run_all (run_server good_net) [COpen (PInt 80), CClose (Sock 5)] server_init = Some t"
    "server_ok t" "conn_map t 5 = None"
    using server_closes_connection by blast
  obtain s' where s': "run_all (run_client good_net) [CWrite (Sock 0) (Bytes [1]), CState (Sock 0)] s = Some s'"
    by (cases "is_open 0 s") (simp_all add: client_socket_write_def client_socket_state_def socket_state_def
        catch_os_def with_sock_def abind_def do_op_def)
  have "\<not> is_open 5 t" using t(2,3) is_open_conn_map [of accepted_of t 5] by (simp add: server_ok_def)
  then obtain t' where t': "run_all (run_server good_net) [CWrite (Sock 5) (Bytes [1]), CState (Sock 5)] t = Some t'"
    by (simp add: server_socket_write_def server_socket_state_def socket_state_def catch_os_def with_sock_def)
  have "client_socket_state (Sock 0) s' = Some (Inr (RInt 0), s') \<and>
      server_socket_state (Sock 5) t' = Some (Inr (RInt 0), t')"
    by (rule lost_connections_stay_lost [OF s(2) _ s' _ t(2) _ t']) (use s(3) t(3) in simp_all)
  with s(1) t(1) s' t' show ?thesis by blast
qed

section \<open>Flushing\<close>

text \<open>The flush loop drains the input until nothing is readable. A connection whose peer has
  closed is always readable and never yields data, so that flushing it does not return: in
  neither module does the loop look whether it received anything.\<close>

theorem flush_of_lost_connection_diverges:
  assumes "\<And>h. select_on N h i = Inr (True, w h, False)" and "\<And>h n. recv_from N h i n = Data []"
    and "is_open i s" and "is_open i s2"
  shows "client_socket_flush N (Sock i) s = None \<and> server_socket_flush N (Sock i) s2 = None"
  using assms(3,4)
  by (simp add: client_socket_flush_def server_socket_flush_def socket_flush_def catch_os_def
      with_sock_def flush_loop_never [OF assms(1,2)])

definition lost_net :: net where
  "lost_net = good_net\<lparr>recv_from := \<lambda>_ _ _. Data [], select_on := \<lambda>_ _. Inr (True, True, False)\<rparr>"

lemma flush_of_lost_connection_diverges_witness:
  "client_socket_flush lost_net (Sock 0) (register 0 0 client_init) = None"
  using flush_of_lost_connection_diverges [of lost_net 0 "\<lambda>_. True" "register 0 0 client_init"
      "register 0 (0, 1) server_init"]
  by (simp add: lost_net_def is_open_def register_def)

section \<open>Closing\<close>

text \<open>Closing a socket that the module does not know, such as one closed before: the client
  closes it again and then raises KeyError, where the server returns -1 and does nothing.\<close>

theorem closing_unknown_sockets:
  assumes "tables_ok client_of s" and "\<not> is_open i s" and "op_raises N (ops s) (Shut i) = None"
    and "\<not> is_open i s2"
  shows "client_socket_close N (Sock i) s = Some (Inl KeyError, did (Shut i) s) \<and>
         server_socket_close N (Sock i) s2 = Some (Inr (RInt (-1)), s2)"
proof
  have q: "quiet s (did (Shut i) s)" by simp
  obtain r t where "unregister i (did (Shut i) s) = Some (r, t)"
    using unregister_total by blast
  with unregister_ok(4) [of client_of "did (Shut i) s" i r t] assms(1,2)
  have "unregister i (did (Shut i) s) = Some (Inl KeyError, did (Shut i) s)"
    by (simp add: quiet_tables [OF q] quiet_is_open [OF q])
  with assms(3) show "client_socket_close N (Sock i) s = Some (Inl KeyError, did (Shut i) s)"
    by (simp add: client_socket_close_def catch_os_def with_sock_def abind_def do_op_def)
  have "map_of (conn_list s2) i = None"
    using assms(4) by (simp only: is_open_def not_not)
  then show "server_socket_close N (Sock i) s2 = Some (Inr (RInt (-1)), s2)"
    by (simp add: server_socket_close_def catch_os_def with_sock_def)
qed

lemma closing_unknown_sockets_witness:
  "client_socket_close good_net (Sock 0) client_init
     = Some (Inl KeyError, did (Shut 0) client_init)"
  using closing_unknown_sockets [of client_init 0 good_net server_init]
  by (simp add: is_open_def)

section \<open>End data\<close>

text \<open>The end data of the server has no effect: it is stored under a string and looked up under
  an integer, so that in every state a program can reach, writing to an open socket passes exactly
  the caller's bytes to the socket, with nothing appended, whatever end data was set.\<close>

theorem server_end_data_has_no_effect:
  assumes "run_all (run_server N) cs server_init = Some s" and "is_open i s"
    and "server_socket_write N (Sock i) (Bytes bs) s = Some (r, s')"
  shows "ops s' = ops s @ [SendAll i bs]"
proof -
  have "list_all (\<lambda>_. True) cs" by (simp add: list_all_iff)
  then have "no_int_keys s"
    using server_session.run_all_inv [OF assms(1) server_init_ok(1)] by (simp add: server_ok_def)
  from server_write_open [OF this assms(2)] assms(3) show ?thesis
    by (auto simp: catch_os_def abind_def do_op_def did_def split: option.splits exc.splits)
qed

lemma server_end_data_has_no_effect_witness:
  "\<exists>s r s'. run_all (run_server good_net)
       [COpen (PInt 80), CEndData (Sock 5) (PStr ''END'')] server_init = Some s \<and>
     server_socket_write good_net (Sock 5) (Bytes [1, 2]) s = Some (r, s') \<and>
     ops s' = ops s @ [SendAll 5 [1, 2]]"
proof -
  let ?cs = "[COpen (PInt 80), CEndData (Sock 5) (PStr ''END'')]"
  obtain s where s: "run_all (run_server good_net) ?cs server_init = Some s" "is_open 5 s"
    using open_good_server
    by (simp add: server_socket_end_data_def with_sock_def is_open_def register_def
        del: run_server.simps(1))
  moreover have "list_all (\<lambda>_. True) ?cs" by simp
  then have "no_int_keys s"
    using server_session.run_all_inv [OF s(1) server_init_ok(1)] by (simp add: server_ok_def)
  then obtain r s' where
    "server_socket_write good_net (Sock 5) (Bytes [1, 2]) s = Some (r, s')"
    using server_write_open [OF _ s(2), of good_net "[1, 2]"]
    by (simp add: catch_os_def abind_def do_op_def)
  ultimately show ?thesis
    using server_end_data_has_no_effect [OF s(1,2)] by blast
qed

end
