(* ===== verification/IoApi.thy ===== *)
theory IoApi
  imports MotionAux
begin

text \<open>
  The input and output functions of DSR_ROBOT2.py: digital and analog signals of the control box
  and of the tool flange, Modbus signals, the tool center point and tool configuration, and the
  control of DRL scripts. The simple style of the digital outputs (the sign of the index is the
  value) and the output modes that \<^verbatim>\<open>set_mode_analog_output\<close> records and \<^verbatim>\<open>set_analog_output\<close>
  checks against are the logic here; the other functions check types and pass values on.
\<close>

section \<open>Constants and checks\<close>

abbreviation DR_DIO_MIN_INDEX :: int where "DR_DIO_MIN_INDEX \<equiv> 1"
abbreviation DR_DIO_MAX_INDEX :: int where "DR_DIO_MAX_INDEX \<equiv> 16"
abbreviation DR_TDIO_MIN_INDEX :: int where "DR_TDIO_MIN_INDEX \<equiv> 1"
abbreviation DR_TDIO_MAX_INDEX :: int where "DR_TDIO_MAX_INDEX \<equiv> 6"
abbreviation ON :: int where "ON \<equiv> 1"
abbreviation OFF :: int where "OFF \<equiv> 0"
abbreviation DR_ANALOG_CURRENT :: int where "DR_ANALOG_CURRENT \<equiv> 0"
abbreviation DR_ANALOG_VOLTAGE :: int where "DR_ANALOG_VOLTAGE \<equiv> 1"

definition outside :: "int \<Rightarrow> int \<Rightarrow> pyval \<Rightarrow> bool res" where
  "outside lo hi v = py_or (py_lt v lo) (py_gt v hi)"

definition check_int :: "pyval \<Rightarrow> unit res" where
  "check_int v = raise_if (\<not> is_int v) DR_ERROR_TYPE"

definition check_str :: "pyval \<Rightarrow> unit res" where
  "check_str v = raise_if (py_type v \<noteq> TStr) DR_ERROR_TYPE"

definition check_index :: "int \<Rightarrow> int \<Rightarrow> pyval \<Rightarrow> unit res" where
  "check_index lo hi v =
     rbind (check_int v) (\<lambda>_. raise_when (outside lo hi v) DR_ERROR_VALUE)"

section \<open>Digital signals\<close>

text \<open>A function that reads the signal of one index.\<close>

definition read_signal :: "ros \<Rightarrow> string \<Rightarrow> string \<Rightarrow> int \<Rightarrow> int \<Rightarrow> pyval \<Rightarrow> pyval act" where
  "read_signal R srv field lo hi index =
     service_fun R False srv
       (\<lambda>w. rbind (check_index lo hi index) (\<lambda>_. set_fields R srv [(field, Inr index)]))
       None (field_value ''value'' Inr)"

definition get_digital_input :: "ros \<Rightarrow> pyval \<Rightarrow> pyval act" where
  "get_digital_input R index =
     read_signal R ''io/get_ctrl_box_digital_input'' ''index'' DR_DIO_MIN_INDEX DR_DIO_MAX_INDEX index"

definition get_analog_input :: "ros \<Rightarrow> pyval \<Rightarrow> pyval act" where
  "get_analog_input R ch = read_signal R ''io/get_ctrl_box_analog_input'' ''channel'' 1 2 ch"

definition get_tool_digital_input :: "ros \<Rightarrow> pyval \<Rightarrow> pyval act" where
  "get_tool_digital_input R index =
     read_signal R ''io/get_tool_digital_input'' ''index'' DR_TDIO_MIN_INDEX DR_TDIO_MAX_INDEX index"

definition get_digital_output :: "ros \<Rightarrow> pyval \<Rightarrow> pyval act" where
  "get_digital_output R index =
     read_signal R ''io/get_ctrl_box_digital_output'' ''index'' DR_DIO_MIN_INDEX DR_DIO_MAX_INDEX index"

definition get_tool_digital_output :: "ros \<Rightarrow> pyval \<Rightarrow> pyval act" where
  "get_tool_digital_output R index =
     read_signal R ''io/get_tool_digital_output'' ''index'' DR_TDIO_MIN_INDEX DR_TDIO_MAX_INDEX index"

text \<open>\<^verbatim>\<open>index*(-1)\<close>, for an index that is known to be an \<^verbatim>\<open>int\<close>.\<close>

definition negated :: "pyval \<Rightarrow> pyval" where
  "negated v = (case v of PInt n \<Rightarrow> PInt (- n) | _ \<Rightarrow> v)"

text \<open>The index and the value that are sent; without a value the sign of the index decides.\<close>

definition output_signal :: "int \<Rightarrow> int \<Rightarrow> pyval \<Rightarrow> pyval \<Rightarrow> (pyval \<times> pyval) res" where
  "output_signal lo hi index val =
     rbind (check_int index) (\<lambda>_.
     rbind (py_ne_none val) (\<lambda>given.
     if given then
       rbind (check_int val) (\<lambda>_.
       rbind (raise_when (outside lo hi index) DR_ERROR_VALUE) (\<lambda>_.
       rbind (raise_when (py_and (py_ne val ON) (py_ne val OFF)) DR_ERROR_VALUE) (\<lambda>_.
       Inr (index, val))))
     else
       rbind (raise_when (py_or (outside (- hi) hi index) (py_eq index 0)) DR_ERROR_VALUE) (\<lambda>_.
       rbind (py_lt index 0) (\<lambda>neg.
       Inr (if neg then (negated index, PInt OFF) else (index, PInt ON))))))"

definition write_signal :: "ros \<Rightarrow> string \<Rightarrow> int \<Rightarrow> int \<Rightarrow> pyval \<Rightarrow> pyval \<Rightarrow> pyval act" where
  "write_signal R srv lo hi index val =
     service_fun R False srv
       (\<lambda>w. rbind (output_signal lo hi index val) (\<lambda>(i, v).
            set_fields R srv [(''index'', Inr i), (''value'', Inr v)]))
       None success_code"

definition set_digital_output :: "ros \<Rightarrow> pyval \<Rightarrow> pyval \<Rightarrow> pyval act" where
  "set_digital_output R index val =
     write_signal R ''io/set_ctrl_box_digital_output'' DR_DIO_MIN_INDEX DR_DIO_MAX_INDEX index val"

definition set_tool_digital_output :: "ros \<Rightarrow> pyval \<Rightarrow> pyval \<Rightarrow> pyval act" where
  "set_tool_digital_output R index val =
     write_signal R ''io/set_tool_digital_output'' DR_TDIO_MIN_INDEX DR_TDIO_MAX_INDEX index val"

section \<open>Analog signals\<close>

text \<open>The limits of a value in the mode of its channel; no mode, no output.\<close>

definition analog_limits :: "pyval \<Rightarrow> pyval \<Rightarrow> unit res" where
  "analog_limits md val =
     rbind (py_eq md DR_ANALOG_CURRENT) (\<lambda>current.
     if current then raise_when (outside 4 20 val) DR_ERROR_VALUE
     else rbind (py_eq md DR_ANALOG_VOLTAGE) (\<lambda>voltage.
       if voltage then raise_when (outside 0 10 val) DR_ERROR_VALUE
       else Inl (DRError DR_ERROR_VALUE)))"

text \<open>\<^verbatim>\<open>if ch == n: ...\<close>\<close>

definition when_channel :: "pyval \<Rightarrow> int \<Rightarrow> unit res \<Rightarrow> unit res" where
  "when_channel ch n check = rbind (py_eq ch n) (\<lambda>b. if b then check else Inr ())"

definition analog_output_request :: "ros \<Rightarrow> pyval \<Rightarrow> pyval \<Rightarrow> world \<Rightarrow> fields res" where
  "analog_output_request R ch val w =
     rbind (check_int ch) (\<lambda>_.
     rbind (check_num val) (\<lambda>_.
     rbind (raise_when (outside 1 2 ch) DR_ERROR_VALUE) (\<lambda>_.
     rbind (when_channel ch 1 (analog_limits (g_analog_output_mode_ch1 w) val)) (\<lambda>_.
     rbind (when_channel ch 2 (analog_limits (g_analog_output_mode_ch2 w) val)) (\<lambda>_.
     set_fields R ''io/set_ctrl_box_analog_output''
       [(''channel'', Inr ch), (''value'', float_field val)])))))"

definition set_analog_output :: "ros \<Rightarrow> pyval \<Rightarrow> pyval \<Rightarrow> pyval act" where
  "set_analog_output R ch val =
     service_fun R False ''io/set_ctrl_box_analog_output'' (analog_output_request R ch val)
       None success_code"

definition check_analog_mode :: "pyval \<Rightarrow> pyval \<Rightarrow> unit res" where
  "check_analog_mode ch md =
     rbind (check_int ch) (\<lambda>_.
     rbind (check_int md) (\<lambda>_.
     rbind (raise_when (outside 1 2 ch) DR_ERROR_VALUE) (\<lambda>_.
     raise_when (py_and (py_ne md DR_ANALOG_CURRENT) (py_ne md DR_ANALOG_VOLTAGE))
       DR_ERROR_VALUE)))"

definition store_analog_mode :: "pyval \<Rightarrow> pyval \<Rightarrow> world \<Rightarrow> world" where
  "store_analog_mode ch md w =
     (let w1 = (if py_eq ch 1 = Inr True then w\<lparr>g_analog_output_mode_ch1 := md\<rparr> else w)
      in if py_eq ch 2 = Inr True then w1\<lparr>g_analog_output_mode_ch2 := md\<rparr> else w1)"

text \<open>The mode is stored before the call, whatever its result will be.\<close>

definition set_mode_analog_output :: "ros \<Rightarrow> pyval \<Rightarrow> pyval \<Rightarrow> pyval act" where
  "set_mode_analog_output R ch md =
     abind (lift_res (check_analog_mode ch md)) (\<lambda>_.
     abind (update_world (store_analog_mode ch md)) (\<lambda>_.
     service_fun R False ''io/set_ctrl_box_analog_output_type''
       (\<lambda>w. set_fields R ''io/set_ctrl_box_analog_output_type''
              [(''channel'', Inr ch), (''mode'', Inr md)])
       None success_code))"

definition set_mode_analog_input :: "ros \<Rightarrow> pyval \<Rightarrow> pyval \<Rightarrow> pyval act" where
  "set_mode_analog_input R ch md =
     service_fun R False ''io/set_ctrl_box_analog_input_type''
       (\<lambda>w. rbind (check_analog_mode ch md) (\<lambda>_.
            set_fields R ''io/set_ctrl_box_analog_input_type''
              [(''channel'', Inr ch), (''mode'', Inr md)]))
       None success_code"

section \<open>Modbus signals\<close>

abbreviation DR_MODBUS_DIG_INPUT :: int where "DR_MODBUS_DIG_INPUT \<equiv> 0"
abbreviation DR_MODBUS_DIG_OUTPUT :: int where "DR_MODBUS_DIG_OUTPUT \<equiv> 1"
abbreviation DR_MODBUS_REG_INPUT :: int where "DR_MODBUS_REG_INPUT \<equiv> 2"
abbreviation DR_MODBUS_REG_OUTPUT :: int where "DR_MODBUS_REG_OUTPUT \<equiv> 3"

definition check_slaveid :: "pyval \<Rightarrow> unit res" where
  "check_slaveid slaveid =
     rbind (check_int slaveid) (\<lambda>_.
     rbind (outside 0 255 slaveid) (\<lambda>out.
     if out then Inl (DRError DR_ERROR_VALUE)
     else raise_when (py_and (py_gt slaveid 247) (py_lt slaveid 255)) DR_ERROR_VALUE))"

definition check_reg_type :: "pyval \<Rightarrow> unit res" where
  "check_reg_type reg_type =
     rbind (check_int reg_type) (\<lambda>_.
     raise_when (py_and (py_ne reg_type DR_MODBUS_DIG_INPUT)
       (py_and (py_ne reg_type DR_MODBUS_DIG_OUTPUT)
       (py_and (py_ne reg_type DR_MODBUS_REG_INPUT)
         (py_ne reg_type DR_MODBUS_REG_OUTPUT)))) DR_ERROR_VALUE)"

text \<open>The initial value of an input signal is 0, whatever the caller gives.\<close>

definition add_modbus_signal_request ::
  "ros \<Rightarrow> pyval \<Rightarrow> pyval \<Rightarrow> pyval \<Rightarrow> pyval \<Rightarrow> pyval \<Rightarrow> pyval \<Rightarrow> pyval \<Rightarrow> world \<Rightarrow> fields res" where
  "add_modbus_signal_request R ip port name reg_type index value_n slaveid w =
     rbind (check_str ip) (\<lambda>_.
     rbind (check_int port) (\<lambda>_.
     rbind (raise_when (py_or (py_le port 0) (py_gt port 65535)) DR_ERROR_VALUE) (\<lambda>_.
     rbind (check_str name) (\<lambda>_.
     rbind (check_reg_type reg_type) (\<lambda>_.
     rbind (check_index 0 65535 index) (\<lambda>_.
     rbind (check_index 0 65535 value_n) (\<lambda>_.
     rbind (py_or (py_eq reg_type DR_MODBUS_DIG_OUTPUT) (py_eq reg_type DR_MODBUS_REG_OUTPUT)) (\<lambda>output.
     rbind (check_slaveid slaveid) (\<lambda>_.
     set_fields R ''modbus/config_create_modbus''
       [(''name'', Inr name), (''ip'', Inr ip), (''port'', Inr port),
        (''reg_type'', Inr reg_type), (''index'', Inr index),
        (''value'', Inr (if output then value_n else PInt 0)), (''slave_id'', Inr slaveid)])))))))))"

definition add_modbus_signal ::
  "ros \<Rightarrow> pyval \<Rightarrow> pyval \<Rightarrow> pyval \<Rightarrow> pyval \<Rightarrow> pyval \<Rightarrow> pyval \<Rightarrow> pyval \<Rightarrow> pyval act" where
  "add_modbus_signal R ip port name reg_type index value_n slaveid =
     service_fun R False ''modbus/config_create_modbus''
       (add_modbus_signal_request R ip port name reg_type index value_n slaveid) None success_code"

text \<open>A function with one text that is passed on.\<close>

definition str_setter :: "ros \<Rightarrow> string \<Rightarrow> string \<Rightarrow> pyval \<Rightarrow> (reply \<Rightarrow> pyval option res) \<Rightarrow> pyval act" where
  "str_setter R srv field x on_result =
     service_fun R False srv (\<lambda>w. rbind (check_str x) (\<lambda>_. set_fields R srv [(field, Inr x)]))
       None on_result"

definition del_modbus_signal :: "ros \<Rightarrow> pyval \<Rightarrow> pyval act" where
  "del_modbus_signal R name = str_setter R ''modbus/config_delete_modbus'' ''name'' name success_code"

definition set_modbus_output :: "ros \<Rightarrow> pyval \<Rightarrow> pyval \<Rightarrow> pyval act" where
  "set_modbus_output R iobus val =
     service_fun R False ''modbus/set_modbus_output''
       (\<lambda>w. rbind (check_str iobus) (\<lambda>_. rbind (check_int val) (\<lambda>_.
            set_fields R ''modbus/set_modbus_output'' [(''name'', Inr iobus), (''value'', Inr val)])))
       None success_code"

definition get_modbus_input :: "ros \<Rightarrow> pyval \<Rightarrow> pyval act" where
  "get_modbus_input R iobus =
     str_setter R ''modbus/get_modbus_input'' ''name'' iobus (field_value ''value'' Inr)"

section \<open>Tool center point and tool\<close>

text \<open>A function without arguments: it reports success, or returns one attribute.\<close>

definition plain_call :: "ros \<Rightarrow> string \<Rightarrow> (reply \<Rightarrow> pyval option res) \<Rightarrow> pyval act" where
  "plain_call R srv on_result = service_fun R False srv (\<lambda>w. set_fields R srv []) None on_result"

definition set_tcp :: "ros \<Rightarrow> pyval \<Rightarrow> pyval act" where
  "set_tcp R name = str_setter R ''tcp/set_current_tcp'' ''name'' name success_code"

definition get_tcp :: "ros \<Rightarrow> pyval act" where
  "get_tcp R = plain_call R ''tcp/get_current_tcp'' (field_value ''info'' Inr)"

definition set_tool :: "ros \<Rightarrow> pyval \<Rightarrow> pyval act" where
  "set_tool R name = str_setter R ''tool/set_current_tool'' ''name'' name success_code"

definition get_tool :: "ros \<Rightarrow> pyval act" where
  "get_tool R = plain_call R ''tool/get_current_tool'' (field_value ''info'' Inr)"

definition set_tool_shape :: "ros \<Rightarrow> pyval \<Rightarrow> pyval act" where
  "set_tool_shape R name = str_setter R ''tool/set_tool_shape'' ''name'' name success_code"

definition add_tcp :: "ros \<Rightarrow> pyval \<Rightarrow> pyval \<Rightarrow> pyval act" where
  "add_tcp R name pos =
     service_fun R False ''tcp/config_create_tcp''
       (\<lambda>w. rbind (check_str name) (\<lambda>_.
            set_fields R ''tcp/config_create_tcp'' [(''name'', Inr name), (''pos'', float_list pos)]))
       None success_code"

definition del_tcp :: "ros \<Rightarrow> pyval \<Rightarrow> pyval act" where
  "del_tcp R name = str_setter R ''tcp/config_delete_tcp'' ''name'' name success_code"

definition add_tool :: "ros \<Rightarrow> pyval \<Rightarrow> pyval \<Rightarrow> pyval \<Rightarrow> pyval \<Rightarrow> pyval act" where
  "add_tool R name weight cog inertia =
     service_fun R False ''tool/config_create_tool''
       (\<lambda>w. rbind (check_str name) (\<lambda>_.
            set_fields R ''tool/config_create_tool''
              [(''name'', Inr name), (''weight'', float_field weight), (''cog'', float_list cog),
               (''inertia'', float_list inertia)]))
       None success_code"

definition del_tool :: "ros \<Rightarrow> pyval \<Rightarrow> pyval act" where
  "del_tool R name = str_setter R ''tool/config_delete_tool'' ''name'' name success_code"

section \<open>DRL scripts\<close>

definition drl_script_run :: "ros \<Rightarrow> pyval \<Rightarrow> pyval \<Rightarrow> pyval act" where
  "drl_script_run R robotSystem code =
     service_fun R False ''drl/drl_start''
       (\<lambda>w. rbind (check_str code) (\<lambda>_.
            set_fields R ''drl/drl_start'' [(''robot_system'', Inr robotSystem), (''code'', Inr code)]))
       None success_code"

definition drl_script_stop :: "ros \<Rightarrow> pyval \<Rightarrow> pyval act" where
  "drl_script_stop R stop_mode =
     service_fun R False ''drl/drl_stop''
       (\<lambda>w. rbind (check_int stop_mode) (\<lambda>_.
            set_fields R ''drl/drl_stop'' [(''stop_mode'', Inr stop_mode)]))
       None success_code"

definition drl_script_pause :: "ros \<Rightarrow> pyval act" where
  "drl_script_pause R = plain_call R ''drl/drl_pause'' success_code"

definition drl_script_resume :: "ros \<Rightarrow> pyval act" where
  "drl_script_resume R = plain_call R ''drl/drl_resume'' success_code"

definition get_drl_state :: "ros \<Rightarrow> pyval act" where
  "get_drl_state R = plain_call R ''drl/get_drl_state'' (field_value ''drl_state'' Inr)"

end
