(* ===== verification/ForceApi.thy ===== *)
theory ForceApi
  imports IoApi
begin

text \<open>
  The force, compliance and coordinate functions of DSR_ROBOT2.py: aligning an axis
  (\<^verbatim>\<open>parallel_axis\<close>, \<^verbatim>\<open>align_axis\<close>), compliance control and forces, user coordinate systems
  (\<^verbatim>\<open>calc_coord\<close>, \<^verbatim>\<open>set_user_cart_coord\<close>, ...) and the conditions on position, force and
  orientation. Four of them take \<^verbatim>\<open>*args, **kargs\<close> and find out by the numbers of positional and
  keyword arguments which of several forms was called; the positional arguments are a list here,
  the keyword arguments an association list with distinct names.
\<close>

section \<open>Simple functions\<close>

definition get_workpiece_weight :: "ros \<Rightarrow> pyval act" where
  "get_workpiece_weight R = plain_call R ''force/get_workpiece_weight'' (field_value ''weight'' Inr)"

definition reset_workpiece_weight :: "ros \<Rightarrow> pyval act" where
  "reset_workpiece_weight R = plain_call R ''force/reset_workpiece_weight'' success_code"

definition release_compliance_ctrl :: "ros \<Rightarrow> pyval act" where
  "release_compliance_ctrl R = plain_call R ''force/release_compliance_ctrl'' success_code"

definition check_xyz :: "pyval \<Rightarrow> unit res" where
  "check_xyz axis =
     rbind (check_int axis) (\<lambda>_.
     raise_when (py_and (py_ne axis DR_AXIS_X) (py_and (py_ne axis DR_AXIS_Y)
       (py_ne axis DR_AXIS_Z))) DR_ERROR_VALUE)"

definition is_done_bolt_tightening :: "ros \<Rightarrow> pyval \<Rightarrow> pyval \<Rightarrow> pyval \<Rightarrow> pyval act" where
  "is_done_bolt_tightening R m timeout axis =
     service_fun R False ''force/is_done_bolt_tightening'' (\<lambda>w.
       rbind (check_num m) (\<lambda>_.
       rbind (check_num timeout) (\<lambda>_.
       rbind (raise_when (py_lt timeout 0) DR_ERROR_VALUE) (\<lambda>_.
       rbind (check_xyz axis) (\<lambda>_.
       set_fields R ''force/is_done_bolt_tightening''
         [(''m'', float_field m), (''timeout'', float_field timeout), (''axis'', Inr axis)])))))
       None success_code"

section \<open>Compliance and forces\<close>

text \<open>\<^verbatim>\<open>type(v) != list or len(v) != 6\<close>, then \<^verbatim>\<open>is_number\<close>.\<close>

definition check_six :: "pyval \<Rightarrow> unit res" where
  "check_six v =
     rbind (raise_if (\<not> is_list_of_len 6 v) DR_ERROR_TYPE) (\<lambda>_. check_number v DR_ERROR_VALUE)"

text \<open>The time of a force command: -1, or not negative and cut to at most 1.\<close>

definition force_time :: "pyval \<Rightarrow> pyval res" where
  "force_time time =
     rbind (check_num time) (\<lambda>_.
     rbind (raise_when (py_and (py_ne time (-1)) (py_lt time 0)) DR_ERROR_VALUE) (\<lambda>_.
     rbind (py_gt time 1) (\<lambda>long.
     Inr (if long then PInt 1 else time))))"

definition stiffness_request :: "ros \<Rightarrow> string \<Rightarrow> pyval \<Rightarrow> pyval \<Rightarrow> world \<Rightarrow> fields res" where
  "stiffness_request R srv stx time w =
     rbind (check_six stx) (\<lambda>_.
     rbind (force_time time) (\<lambda>tm.
     set_fields R srv
       [(''stx'', float_list stx), (''ref'', Inr (g_coord w)), (''time'', float_field tm)]))"

definition task_compliance_ctrl :: "ros \<Rightarrow> pyval \<Rightarrow> pyval \<Rightarrow> pyval act" where
  "task_compliance_ctrl R stx time =
     service_fun R False ''force/task_compliance_ctrl''
       (stiffness_request R ''force/task_compliance_ctrl'' stx time) None success_code"

definition set_stiffnessx :: "ros \<Rightarrow> pyval \<Rightarrow> pyval \<Rightarrow> pyval act" where
  "set_stiffnessx R stx time =
     service_fun R False ''force/set_stiffnessx''
       (stiffness_request R ''force/set_stiffnessx'' stx time) None success_code"

definition set_desired_force :: "ros \<Rightarrow> pyval \<Rightarrow> pyval \<Rightarrow> pyval \<Rightarrow> pyval \<Rightarrow> pyval act" where
  "set_desired_force R fd dir time md =
     service_fun R False ''force/set_desired_force'' (\<lambda>w.
       rbind (check_six fd) (\<lambda>_.
       rbind (check_six dir) (\<lambda>_.
       rbind (force_time time) (\<lambda>tm.
       rbind (check_int md) (\<lambda>_.
       set_fields R ''force/set_desired_force''
         [(''fd'', float_list fd), (''dir'', Inr dir), (''ref'', Inr (g_coord w)),
          (''time'', float_field tm), (''mod'', Inr md)])))))
       None success_code"

definition release_force :: "ros \<Rightarrow> pyval \<Rightarrow> pyval act" where
  "release_force R time =
     service_fun R False ''force/release_force'' (\<lambda>w.
       rbind (force_time time) (\<lambda>tm.
       set_fields R ''force/release_force'' [(''time'', float_field tm)]))
       None success_code"

section \<open>Positional and keyword arguments\<close>

text \<open>The local variables the functions fill from their arguments, and \<^verbatim>\<open>_nType\<close> or \<^verbatim>\<open>_cnt_pos\<close>.\<close>

record call_args =
  n_type :: int
  a_x1 :: pyval
  a_x2 :: pyval
  a_x3 :: pyval
  a_x4 :: pyval
  a_vect :: pyval
  a_pos :: pyval
  a_u1 :: pyval
  a_v1 :: pyval
  a_axis :: pyval
  a_ref :: pyval
  a_mod :: pyval

definition read_kargs :: "(string \<times> pyval) list \<Rightarrow> call_args" where
  "read_kargs kargs =
     \<lparr>n_type = 0, a_x1 = get_kargs kargs ''x1'', a_x2 = get_kargs kargs ''x2'',
      a_x3 = get_kargs kargs ''x3'', a_x4 = get_kargs kargs ''x4'',
      a_vect = get_kargs kargs ''vect'', a_pos = get_kargs kargs ''pos'',
      a_u1 = get_kargs kargs ''u1'', a_v1 = get_kargs kargs ''v1'',
      a_axis = get_kargs kargs ''axis'', a_ref = get_kargs kargs ''ref'',
      a_mod = get_kargs kargs ''mod''\<rparr>"

definition check_keys :: "string list \<Rightarrow> (string \<times> pyval) list \<Rightarrow> unit res" where
  "check_keys names kargs =
     raise_if (\<not> list_all (\<lambda>(k, _). k \<in> set names) kargs) DR_ERROR_TYPE"

text \<open>\<^verbatim>\<open>if a == None or b == None or ...: raise\<close>\<close>

fun any_none :: "pyval list \<Rightarrow> bool res" where
  "any_none [] = Inr False"
| "any_none (x # xs) = py_or (py_eq_none x) (any_none xs)"

definition need :: "pyval list \<Rightarrow> call_args \<Rightarrow> call_args res" where
  "need xs s = rbind (raise_when (any_none xs) DR_ERROR_TYPE) (\<lambda>_. Inr s)"

abbreviation invalid_list :: "'a res" where
  "invalid_list \<equiv> Inl (DRError DR_ERROR_TYPE)"

text \<open>\<^verbatim>\<open>if _x != None: _x = get_posx(_x)\<close>\<close>

definition posx_if_given :: "pyval \<Rightarrow> pyval res" where
  "posx_if_given v = rbind (py_ne_none v) (\<lambda>given. if given then get_posx v else Inr v)"

definition base_or_world :: "pyval \<Rightarrow> unit res" where
  "base_or_world ref = raise_when (py_and (py_ne ref DR_BASE) (py_ne ref DR_WORLD)) DR_ERROR_VALUE"

section \<open>Aligning an axis\<close>

definition parallel_axis_args :: "pyval list \<Rightarrow> (string \<times> pyval) list \<Rightarrow> call_args res" where
  "parallel_axis_args args kargs =
     rbind (check_keys [''x1'', ''x2'', ''x3'', ''vect'', ''axis'', ''ref''] kargs) (\<lambda>_.
     let s = read_kargs kargs; n = length kargs in
     case args of
       [] \<Rightarrow>
         if n = 2 then need [a_vect s, a_axis s] s
         else if n = 3 then need [a_vect s, a_axis s, a_ref s] (s\<lparr>n_type := 3\<rparr>)
         else if n = 4 then need [a_x1 s, a_x2 s, a_x3 s, a_axis s] s
         else if n = 5 then need [a_x1 s, a_x2 s, a_x3 s, a_axis s, a_ref s] (s\<lparr>n_type := 2\<rparr>)
         else invalid_list
     | [v] \<Rightarrow> if n \<noteq> 1 then invalid_list else need [a_axis s] (s\<lparr>a_vect := v\<rparr>)
     | [v, ax] \<Rightarrow>
         if n = 1 then Inr (s\<lparr>n_type := 3, a_vect := v, a_axis := ax\<rparr>)
         else if n \<noteq> 0 then invalid_list
         else Inr (s\<lparr>a_vect := v, a_axis := ax\<rparr>)
     | [p, q, r] \<Rightarrow>
         if n = 0 then Inr (s\<lparr>n_type := 3, a_vect := p, a_axis := q, a_ref := r\<rparr>)
         else if n \<noteq> 1 then invalid_list
         else need [a_axis s] (s\<lparr>a_x1 := p, a_x2 := q, a_x3 := r\<rparr>)
     | [p, q, r, ax] \<Rightarrow>
         if n = 1 then Inr (s\<lparr>n_type := 2, a_x1 := p, a_x2 := q, a_x3 := r, a_axis := ax\<rparr>)
         else if n \<noteq> 0 then invalid_list
         else Inr (s\<lparr>a_x1 := p, a_x2 := q, a_x3 := r, a_axis := ax\<rparr>)
     | [p, q, r, ax, rf] \<Rightarrow>
         if n = 0 then
           Inr (s\<lparr>n_type := 2, a_x1 := p, a_x2 := q, a_x3 := r, a_axis := ax, a_ref := rf\<rparr>)
         else invalid_list
     | _ \<Rightarrow> invalid_list)"

text \<open>Three points, or a vector of three components; the components are not looked at.\<close>

definition check_points_or_vect :: "call_args \<Rightarrow> call_args res" where
  "check_points_or_vect s =
     rbind (py_ne_none (a_x1 s)) (\<lambda>points.
     if points then
       rbind (get_posx (a_x1 s)) (\<lambda>x1.
       rbind (get_posx (a_x2 s)) (\<lambda>x2.
       rbind (get_posx (a_x3 s)) (\<lambda>x3.
       Inr (s\<lparr>a_x1 := x1, a_x2 := x2, a_x3 := x3\<rparr>))))
     else
       rbind (raise_if (py_type (a_vect s) \<noteq> TList) DR_ERROR_TYPE) (\<lambda>_.
       rbind (raise_if (\<not> is_list_of_len 3 (a_vect s)) DR_ERROR_VALUE) (\<lambda>_.
       Inr s)))"

definition point_fields :: "call_args \<Rightarrow> (string \<times> pyval res) list" where
  "point_fields s =
     [(''x1'', float_list (a_x1 s)), (''x2'', float_list (a_x2 s)), (''x3'', float_list (a_x3 s))]"

text \<open>
  Which request is built. Without a frame (\<^verbatim>\<open>_nType\<close> 0) the code for the vector form of
  \<^verbatim>\<open>parallel_axis\<close> names the variables \<^verbatim>\<open>vect\<close> and \<^verbatim>\<open>axis\<close>, which do not exist.
\<close>

definition parallel_axis_target :: "call_args \<Rightarrow> (string \<times> (string \<times> pyval res) list) res" where
  "parallel_axis_target s =
     (if n_type s = 2 then
        rbind (base_or_world (a_ref s)) (\<lambda>_.
        Inr (''force/parallel_axis1'',
             point_fields s @ [(''axis'', Inr (a_axis s)), (''ref'', Inr (a_ref s))]))
      else if n_type s = 3 then
        rbind (base_or_world (a_ref s)) (\<lambda>_.
        Inr (''force/parallel_axis2'',
             [(''vect'', float_list (a_vect s)), (''axis'', Inr (a_axis s)), (''ref'', Inr (a_ref s))]))
      else
        rbind (py_ne_none (a_x1 s)) (\<lambda>points.
        if points then
          Inr (''force/parallel_axis1'',
               point_fields s @ [(''axis'', Inr (a_axis s)), (''ref'', Inr (PInt DR_BASE))])
        else Inl NameError))"

text \<open>Build the request of the chosen service and call it.\<close>

definition call_target ::
  "ros \<Rightarrow> (string \<times> (string \<times> pyval res) list) res \<Rightarrow> (reply \<Rightarrow> pyval option res) \<Rightarrow> pyval act" where
  "call_target R target on_result =
     abind (lift_res target) (\<lambda>(srv, fields).
     service_fun R False srv (\<lambda>w. set_fields R srv fields) None on_result)"

definition parallel_axis :: "ros \<Rightarrow> pyval list \<Rightarrow> (string \<times> pyval) list \<Rightarrow> pyval act" where
  "parallel_axis R args kargs =
     call_target R
       (rbind (parallel_axis_args args kargs) (\<lambda>s0.
        rbind (check_points_or_vect s0) (\<lambda>s.
        rbind (check_xyz (a_axis s)) (\<lambda>_.
        parallel_axis_target s))))
       success_code"

definition align_axis_args :: "pyval list \<Rightarrow> (string \<times> pyval) list \<Rightarrow> call_args res" where
  "align_axis_args args kargs =
     rbind (check_keys [''x1'', ''x2'', ''x3'', ''vect'', ''pos'', ''axis'', ''ref''] kargs) (\<lambda>_.
     let s = read_kargs kargs; n = length kargs in
     case args of
       [] \<Rightarrow>
         if n = 3 then need [a_vect s, a_pos s, a_axis s] s
         else if n = 5 then need [a_x1 s, a_x2 s, a_x3 s, a_pos s, a_axis s] s
         else if n = 6 then
           need [a_x1 s, a_x2 s, a_x3 s, a_pos s, a_axis s, a_ref s] (s\<lparr>n_type := 2\<rparr>)
         else if n = 4 then need [a_vect s, a_pos s, a_axis s, a_ref s] (s\<lparr>n_type := 3\<rparr>)
         else invalid_list
     | [v] \<Rightarrow> if n \<noteq> 2 then invalid_list else need [a_pos s, a_axis s] (s\<lparr>a_vect := v\<rparr>)
     | [v, p] \<Rightarrow> if n \<noteq> 1 then invalid_list else need [a_axis s] (s\<lparr>a_vect := v, a_pos := p\<rparr>)
     | [p, q, r] \<Rightarrow>
         if n = 0 then Inr (s\<lparr>a_vect := p, a_pos := q, a_axis := r\<rparr>)
         else if n = 1 then Inr (s\<lparr>n_type := 3, a_vect := p, a_pos := q, a_axis := r\<rparr>)
         else if n = 2 then need [a_pos s, a_axis s] (s\<lparr>a_x1 := p, a_x2 := q, a_x3 := r\<rparr>)
         else invalid_list
     | [p, q, r, t] \<Rightarrow>
         if n = 0 then Inr (s\<lparr>n_type := 3, a_vect := p, a_pos := q, a_axis := r, a_ref := t\<rparr>)
         else if n \<noteq> 1 then invalid_list
         else need [a_axis s] (s\<lparr>a_x1 := p, a_x2 := q, a_x3 := r, a_pos := t\<rparr>)
     | [p, q, r, t, ax] \<Rightarrow>
         if n = 0 then Inr (s\<lparr>a_x1 := p, a_x2 := q, a_x3 := r, a_pos := t, a_axis := ax\<rparr>)
         else if n = 1 then
           Inr (s\<lparr>n_type := 2, a_x1 := p, a_x2 := q, a_x3 := r, a_pos := t, a_axis := ax\<rparr>)
         else Inr s
     | [p, q, r, t, ax, rf] \<Rightarrow>
         if n \<noteq> 0 then invalid_list
         else Inr (s\<lparr>n_type := 2, a_x1 := p, a_x2 := q, a_x3 := r, a_pos := t, a_axis := ax,
                     a_ref := rf\<rparr>)
     | _ \<Rightarrow> invalid_list)"

text \<open>
  The requests of \<^verbatim>\<open>align_axis\<close> have no field \<^verbatim>\<open>pos\<close>, and that of the second form none called \<^verbatim>\<open>vect\<close>
  (AlignAxis1.srv and AlignAxis2.srv call them \<^verbatim>\<open>source_vect\<close> and \<^verbatim>\<open>target_vect\<close>): such an assignment
  evaluates its value and raises AttributeError.
\<close>

definition no_such_field :: "pyval res \<Rightarrow> pyval res" where
  "no_such_field r = rbind r (\<lambda>_. Inl AttributeError)"

definition align_axis_target :: "call_args \<Rightarrow> (string \<times> (string \<times> pyval res) list) res" where
  "align_axis_target s =
     (let tail = (\<lambda>rf. [(''pos'', no_such_field (float_list (a_pos s))), (''axis'', Inr (a_axis s)),
                        (''ref'', Inr rf)]);
          vect = (''vect'', no_such_field (float_list (a_vect s)))
      in if n_type s = 2 then
           rbind (base_or_world (a_ref s)) (\<lambda>_.
           Inr (''force/align_axis1'', point_fields s @ tail (a_ref s)))
         else if n_type s = 3 then
           rbind (base_or_world (a_ref s)) (\<lambda>_.
           Inr (''force/align_axis2'', vect # tail (a_ref s)))
         else
           rbind (py_ne_none (a_x1 s)) (\<lambda>points.
           Inr (if points then (''force/align_axis1'', point_fields s @ tail (PInt DR_BASE))
                else (''force/align_axis2'', vect # tail (PInt DR_BASE)))))"

definition align_axis :: "ros \<Rightarrow> pyval list \<Rightarrow> (string \<times> pyval) list \<Rightarrow> pyval act" where
  "align_axis R args kargs =
     call_target R
       (rbind (align_axis_args args kargs) (\<lambda>s0.
        rbind (check_points_or_vect s0) (\<lambda>s.
        rbind (get_posx (a_pos s)) (\<lambda>norm_pos.
        rbind (check_xyz (a_axis s)) (\<lambda>_.
        align_axis_target (s\<lparr>a_pos := norm_pos\<rparr>))))))
       success_code"

end
