(* ===== verification/CoordApi.thy ===== *)
theory CoordApi
  imports ForceApi
begin

text \<open>
  The user coordinate systems of DSR_ROBOT2.py (\<^verbatim>\<open>calc_coord\<close>, \<^verbatim>\<open>set_user_cart_coord\<close>,
  \<^verbatim>\<open>overwrite_user_cart_coord\<close>, \<^verbatim>\<open>get_user_cart_coord\<close>, \<^verbatim>\<open>coord_transform\<close>) and the conditions
  on position, force and orientation.
\<close>

section \<open>Calculating a coordinate system\<close>

definition zero_point :: pyval where
  "zero_point = PList (replicate 6 (PFloat (Fin 0)))"

definition or_zero_point :: "pyval \<Rightarrow> pyval res" where
  "or_zero_point v = rbind (py_eq_none v) (\<lambda>missing. Inr (if missing then zero_point else v))"

text \<open>The form of the call gives the number of points; missing points are zero.\<close>

definition calc_coord_args :: "pyval list \<Rightarrow> (string \<times> pyval) list \<Rightarrow> call_args res" where
  "calc_coord_args args kargs =
     rbind (check_keys [''x1'', ''x2'', ''x3'', ''x4'', ''ref'', ''mod''] kargs) (\<lambda>_.
     let s0 = read_kargs kargs; n = length kargs in
     rbind (or_zero_point (a_x1 s0)) (\<lambda>x1.
     rbind (or_zero_point (a_x2 s0)) (\<lambda>x2.
     rbind (or_zero_point (a_x3 s0)) (\<lambda>x3.
     rbind (or_zero_point (a_x4 s0)) (\<lambda>x4.
     let s = s0\<lparr>a_x1 := x1, a_x2 := x2, a_x3 := x3, a_x4 := x4\<rparr> in
     case args of
       [] \<Rightarrow>
         if n = 3 then Inr (s\<lparr>n_type := 1\<rparr>)
         else if n = 4 then Inr (s\<lparr>n_type := 2\<rparr>)
         else if n = 5 then Inr (s\<lparr>n_type := 3\<rparr>)
         else if n = 6 then Inr (s\<lparr>n_type := 4\<rparr>)
         else invalid_list
     | [p] \<Rightarrow> if n = 2 then Inr (s\<lparr>n_type := 1, a_x1 := p\<rparr>) else invalid_list
     | [p, q] \<Rightarrow> if n = 2 then Inr (s\<lparr>n_type := 2, a_x1 := p, a_x2 := q\<rparr>) else invalid_list
     | [p, q, r] \<Rightarrow>
         if n = 2 then Inr (s\<lparr>n_type := 3, a_x1 := p, a_x2 := q, a_x3 := r\<rparr>)
         else if n = 0 then Inr (s\<lparr>n_type := 1, a_x1 := p, a_ref := q, a_mod := r\<rparr>)
         else invalid_list
     | [p, q, r, t] \<Rightarrow>
         if n = 2 then Inr (s\<lparr>n_type := 4, a_x1 := p, a_x2 := q, a_x3 := r, a_x4 := t\<rparr>)
         else if n = 0 then Inr (s\<lparr>n_type := 2, a_x1 := p, a_x2 := q, a_ref := r, a_mod := t\<rparr>)
         else invalid_list
     | [p, q, r, t, u] \<Rightarrow>
         if n = 0 then
           Inr (s\<lparr>n_type := 3, a_x1 := p, a_x2 := q, a_x3 := r, a_ref := t, a_mod := u\<rparr>)
         else invalid_list
     | [p, q, r, t, u, v] \<Rightarrow>
         if n = 0 then
           Inr (s\<lparr>n_type := 4, a_x1 := p, a_x2 := q, a_x3 := r, a_x4 := t, a_ref := u, a_mod := v\<rparr>)
         else invalid_list
     | _ \<Rightarrow> invalid_list)))))"

text \<open>\<^verbatim>\<open>if v != None: if v != a and v != b: raise\<close>\<close>

definition check_given :: "int \<Rightarrow> int \<Rightarrow> pyval \<Rightarrow> unit res" where
  "check_given a b v =
     rbind (py_ne_none v) (\<lambda>given.
     if given then raise_when (py_and (py_ne v a) (py_ne v b)) DR_ERROR_VALUE else Inr ())"

text \<open>\<^verbatim>\<open>pos = list(result.conv_posx); posx(pos)\<close>, and what is returned of the two.\<close>

definition conv_posx_result :: "(pyval \<Rightarrow> pyval \<Rightarrow> (string \<Rightarrow> pyval) \<Rightarrow> pyval) \<Rightarrow> reply \<Rightarrow> pyval \<Rightarrow> pyval option res" where
  "conv_posx_result f r none = (case r of
       Response a \<Rightarrow>
         rbind (py_list (a ''conv_posx'')) (\<lambda>pos.
         rbind (posx pos) (\<lambda>conv_posx.
         Inr (Some (f pos conv_posx a))))
     | _ \<Rightarrow> Inr (Some none))"

definition calc_coord :: "ros \<Rightarrow> pyval list \<Rightarrow> (string \<times> pyval) list \<Rightarrow> pyval act" where
  "calc_coord R args kargs =
     call_target R
       (rbind (calc_coord_args args kargs) (\<lambda>s.
        rbind (posx_if_given (a_x1 s)) (\<lambda>x1.
        rbind (posx_if_given (a_x2 s)) (\<lambda>x2.
        rbind (posx_if_given (a_x3 s)) (\<lambda>x3.
        rbind (posx_if_given (a_x4 s)) (\<lambda>x4.
        rbind (check_given DR_BASE DR_WORLD (a_ref s)) (\<lambda>_.
        rbind (check_given 0 1 (a_mod s)) (\<lambda>_.
        Inr (''force/calc_coord'',
             [(''input_pos_cnt'', Inr (PInt (n_type s))), (''x1'', float_list x1),
              (''x2'', float_list x2), (''x3'', float_list x3), (''x4'', float_list x4),
              (''ref'', Inr (a_ref s)), (''mod'', Inr (a_mod s))])))))))))
       (\<lambda>r. conv_posx_result (\<lambda>pos _ _. pos) r (PInt (-1)))"

section \<open>Setting a coordinate system\<close>

text \<open>\<^verbatim>\<open>if x != None: raise\<close>\<close>

definition must_be_missing :: "pyval \<Rightarrow> call_args \<Rightarrow> call_args res" where
  "must_be_missing v s = rbind (raise_when (py_ne_none v) DR_ERROR_TYPE) (\<lambda>_. Inr s)"

definition user_coord_args :: "pyval list \<Rightarrow> (string \<times> pyval) list \<Rightarrow> call_args res" where
  "user_coord_args args kargs =
     rbind (check_keys [''x1'', ''x2'', ''x3'', ''pos'', ''u1'', ''v1'', ''ref''] kargs) (\<lambda>_.
     let s = read_kargs kargs; n = length kargs in
     case args of
       [] \<Rightarrow>
         if n = 2 then Inr (s\<lparr>n_type := 5\<rparr>)
         else if n = 5 then need [a_x1 s, a_x2 s, a_x3 s, a_pos s, a_ref s] (s\<lparr>n_type := 3\<rparr>)
         else if n = 4 then
           rbind (py_ne_none (a_ref s)) (\<lambda>given.
           if given then Inr (s\<lparr>n_type := 4\<rparr>)
           else need [a_x1 s, a_x2 s, a_x3 s, a_pos s] (s\<lparr>n_type := 0\<rparr>))
         else if n = 3 then
           rbind (py_ne_none (a_u1 s)) (\<lambda>vectors.
           if vectors then need [a_v1 s, a_pos s] (s\<lparr>n_type := 1\<rparr>)
           else rbind (py_ne_none (a_x1 s)) (\<lambda>points.
             if points then need [a_x2 s, a_x3 s] (s\<lparr>n_type := 2\<rparr>) else invalid_list))
         else invalid_list
     | [p] \<Rightarrow>
         if n = 1 then Inr (s\<lparr>n_type := 5, a_pos := p\<rparr>)
         else if n = 3 then need [a_x1 s, a_x2 s, a_x3 s] (s\<lparr>n_type := 0, a_pos := p\<rparr>)
         else if n = 2 then need [a_u1 s, a_v1 s] (s\<lparr>n_type := 1, a_pos := p\<rparr>)
         else invalid_list
     | [p, q] \<Rightarrow>
         if n = 0 then Inr (s\<lparr>n_type := 5, a_pos := p, a_ref := q\<rparr>)
         else if n = 1 then must_be_missing (a_pos s) (s\<lparr>n_type := 1, a_u1 := p, a_v1 := q\<rparr>)
         else invalid_list
     | [p, q, r] \<Rightarrow>
         if n = 1 then
           rbind (py_ne_none (a_ref s)) (\<lambda>given.
           if given then Inr (s\<lparr>n_type := 4, a_u1 := p, a_v1 := q, a_pos := r\<rparr>)
           else must_be_missing (a_pos s) (s\<lparr>n_type := 0, a_x1 := p, a_x2 := q, a_x3 := r\<rparr>))
         else if n = 0 then
           rbind (py_len p) (\<lambda>k.
           if k = 3 then Inr (s\<lparr>n_type := 1, a_u1 := p, a_v1 := q, a_pos := r\<rparr>)
           else if k = 6 then Inr (s\<lparr>n_type := 2, a_x1 := p, a_x2 := q, a_x3 := r\<rparr>)
           else invalid_list)
         else invalid_list
     | [p, q, r, t] \<Rightarrow>
         if n = 0 then Inr (s\<lparr>n_type := 0, a_x1 := p, a_x2 := q, a_x3 := r, a_pos := t\<rparr>)
         else if n = 1 then Inr (s\<lparr>n_type := 3, a_x1 := p, a_x2 := q, a_x3 := r, a_pos := t\<rparr>)
         else invalid_list
     | [p, q, r, t, rf] \<Rightarrow>
         if n = 0 then
           Inr (s\<lparr>n_type := 0, a_x1 := p, a_x2 := q, a_x3 := r, a_pos := t, a_ref := rf\<rparr>)
         else invalid_list
     | _ \<Rightarrow> invalid_list)"

text \<open>\<^verbatim>\<open>if _u1 != None\<close>: a list of three.\<close>

definition check_vector :: "pyval \<Rightarrow> unit res" where
  "check_vector v =
     rbind (py_ne_none v) (\<lambda>given.
     if given then
       rbind (raise_if (py_type v \<noteq> TList) DR_ERROR_TYPE) (\<lambda>_.
       raise_if (\<not> is_list_of_len 3 v) DR_ERROR_VALUE)
     else Inr ())"

definition check_user_coord :: "call_args \<Rightarrow> call_args res" where
  "check_user_coord s =
     rbind (posx_if_given (a_x1 s)) (\<lambda>x1.
     rbind (posx_if_given (a_x2 s)) (\<lambda>x2.
     rbind (posx_if_given (a_x3 s)) (\<lambda>x3.
     rbind (posx_if_given (a_pos s)) (\<lambda>p.
     rbind (check_vector (a_u1 s)) (\<lambda>_.
     rbind (check_vector (a_v1 s)) (\<lambda>_.
     Inr (s\<lparr>a_x1 := x1, a_x2 := x2, a_x3 := x3, a_pos := p\<rparr>)))))))"

text \<open>
  The request of each form. Form 2 (three points, no position) is not implemented: the branch is
  \<^verbatim>\<open>pass\<close>, and the \<^verbatim>\<open>return ret\<close> after it finds no \<^verbatim>\<open>ret\<close>.
\<close>

definition user_coord_target :: "call_args \<Rightarrow> (string \<times> (string \<times> pyval res) list) res" where
  "user_coord_target s =
     (let points = (\<lambda>rf. (''force/set_user_cart_coord2'',
                          point_fields s @ [(''pos'', float_list (a_pos s)), (''ref'', Inr rf)]));
          vectors = (\<lambda>rf. (''force/set_user_cart_coord3'',
                           [(''u1'', float_list (a_u1 s)), (''v1'', float_list (a_v1 s)),
                            (''pos'', float_list (a_pos s)), (''ref'', Inr rf)]))
      in if n_type s = 0 then Inr (points (PInt DR_BASE))
         else if n_type s = 1 then Inr (vectors (PInt DR_BASE))
         else if n_type s = 2 then Inl UnboundLocalError
         else if n_type s = 3 then
           rbind (base_or_world (a_ref s)) (\<lambda>_. Inr (points (a_ref s)))
         else if n_type s = 4 then
           rbind (base_or_world (a_ref s)) (\<lambda>_. Inr (vectors (a_ref s)))
         else if n_type s = 5 then
           rbind (base_or_world (a_ref s)) (\<lambda>_.
           Inr (''force/set_user_cart_coord1'',
                [(''pos'', float_list (a_pos s)), (''ref'', Inr (a_ref s))]))
         else invalid_list)"

definition set_user_cart_coord :: "ros \<Rightarrow> pyval list \<Rightarrow> (string \<times> pyval) list \<Rightarrow> pyval act" where
  "set_user_cart_coord R args kargs =
     call_target R
       (rbind (user_coord_args args kargs) (\<lambda>s0.
        rbind (check_user_coord s0) user_coord_target))
       (field_value ''id'' Inr)"

section \<open>Changing and reading a coordinate system\<close>

definition overwrite_user_cart_coord ::
  "ros \<Rightarrow> pyval \<Rightarrow> pyval \<Rightarrow> pyval \<Rightarrow> pyval \<Rightarrow> pyval act" where
  "overwrite_user_cart_coord R id_n pos ref gol =
     service_fun R False ''force/overwrite_user_cart_coord'' (\<lambda>w.
       rbind (get_posx pos) (\<lambda>p.
       rbind (base_world_ref ref) (\<lambda>rf.
       set_fields R ''force/overwrite_user_cart_coord''
         [(''id'', Inr id_n), (''pos'', float_list p), (''ref'', Inr rf)])))
       None (field_value ''id'' Inr)"

text \<open>Without a result, as after an exception of the future, \<^verbatim>\<open>return 0\<close> is reached.\<close>

definition get_user_cart_coord :: "ros \<Rightarrow> pyval \<Rightarrow> pyval act" where
  "get_user_cart_coord R id_n =
     service_fun R False ''force/get_user_cart_coord''
       (\<lambda>w. set_fields R ''force/get_user_cart_coord'' [(''id'', Inr id_n)]) (Some (PInt 0))
       (\<lambda>r. conv_posx_result (\<lambda>_ conv_posx a. PTuple [conv_posx, a ''ref'']) r (PInt 0))"

definition coord_transform :: "ros \<Rightarrow> pyval \<Rightarrow> pyval \<Rightarrow> pyval \<Rightarrow> pyval act" where
  "coord_transform R pose_in ref_in ref_out =
     service_fun R False ''force/coord_transform'' (\<lambda>w.
       rbind (get_normal_pos pose_in (Some TPosx)) (\<lambda>p.
       rbind (check_int ref_in) (\<lambda>_.
       rbind (check_int ref_out) (\<lambda>_.
       set_fields R ''force/coord_transform''
         [(''pos_in'', float_list p), (''ref_in'', Inr ref_in), (''ref_out'', Inr ref_out)]))))
       None (\<lambda>r. conv_posx_result (\<lambda>_ trans_posx _. trans_posx) r (PInt (-1)))"

section \<open>Conditions\<close>

abbreviation DR_AXIS_A :: int where "DR_AXIS_A \<equiv> 10"
abbreviation DR_AXIS_B :: int where "DR_AXIS_B \<equiv> 11"
abbreviation DR_AXIS_C :: int where "DR_AXIS_C \<equiv> 12"

text \<open>\<^verbatim>\<open>min > max\<close>, for two numbers.\<close>

definition num_gt :: "pyval \<Rightarrow> pyval \<Rightarrow> bool res" where
  "num_gt v u = (case (num_val v, num_val u) of
       (Some x, Some y) \<Rightarrow> Inr (flt y x)
     | _ \<Rightarrow> Inl TypeError)"

text \<open>Not both unset, and in order when both are set.\<close>

definition check_min_max :: "pyval \<Rightarrow> pyval \<Rightarrow> unit res" where
  "check_min_max mn mx =
     rbind (raise_when (py_and (py_eq mn DR_COND_NONE) (py_eq mx DR_COND_NONE)) DR_ERROR_VALUE) (\<lambda>_.
     rbind (py_and (py_ne mn DR_COND_NONE) (py_ne mx DR_COND_NONE)) (\<lambda>both.
     if both then raise_when (num_gt mn mx) DR_ERROR_VALUE else Inr ()))"

definition is_abc :: "pyval \<Rightarrow> bool res" where
  "is_abc axis =
     py_or (py_eq axis DR_AXIS_A) (py_or (py_eq axis DR_AXIS_B) (py_eq axis DR_AXIS_C))"

text \<open>The position a condition refers to: required for relative mode, zero when not given.\<close>

definition condition_pos :: "pyval \<Rightarrow> pyval \<Rightarrow> pyval res" where
  "condition_pos md pos =
     rbind (py_eq md DR_MV_MOD_REL) (\<lambda>rel.
     if rel then
       rbind (raise_when (py_eq_none pos) DR_ERROR_VALUE) (\<lambda>_. get_normal_pos pos (Some TPosx))
     else rbind (py_ne_none pos) (\<lambda>given.
       get_normal_pos (if given then pos else zero_point) (Some TPosx)))"

definition position_condition_request ::
  "ros \<Rightarrow> pyval \<Rightarrow> pyval \<Rightarrow> pyval \<Rightarrow> pyval \<Rightarrow> pyval \<Rightarrow> pyval \<Rightarrow> world \<Rightarrow> fields res" where
  "position_condition_request R axis mn mx ref md pos w =
     rbind (check_xyz axis) (\<lambda>_.
     rbind (check_num mn) (\<lambda>_.
     rbind (check_num mx) (\<lambda>_.
     rbind (check_min_max mn mx) (\<lambda>_.
     rbind (motion_ref w ref) (\<lambda>rf.
     rbind (check_mod md) (\<lambda>_.
     rbind (condition_pos md pos) (\<lambda>p.
     rbind (is_abc axis) (\<lambda>abc.
     set_fields R ''force/check_position_condition''
       [(''axis'', Inr axis), (''min'', float_field mn), (''max'', float_field mx),
        (''ref'', Inr (if abc then PInt DR_TOOL else rf)), (''mode'', Inr md),
        (''pos'', float_list p)]))))))))"

definition check_position_condition ::
  "ros \<Rightarrow> pyval \<Rightarrow> pyval \<Rightarrow> pyval \<Rightarrow> pyval \<Rightarrow> pyval \<Rightarrow> pyval \<Rightarrow> pyval act" where
  "check_position_condition R axis mn mx ref md pos =
     service_fun R False ''force/check_position_condition''
       (position_condition_request R axis mn mx ref md pos) None success_code"

definition force_condition_request ::
  "ros \<Rightarrow> pyval \<Rightarrow> pyval \<Rightarrow> pyval \<Rightarrow> pyval \<Rightarrow> world \<Rightarrow> fields res" where
  "force_condition_request R axis mn mx ref w =
     rbind (check_int axis) (\<lambda>_.
     rbind (raise_when (py_and (py_ne axis DR_AXIS_X) (py_and (py_ne axis DR_AXIS_Y)
              (py_and (py_ne axis DR_AXIS_Z) (py_and (py_ne axis DR_AXIS_A)
              (py_and (py_ne axis DR_AXIS_B) (py_ne axis DR_AXIS_C)))))) DR_ERROR_VALUE) (\<lambda>_.
     rbind (check_num mn) (\<lambda>_.
     rbind (check_num mx) (\<lambda>_.
     rbind (check_min_max mn mx) (\<lambda>_.
     rbind (motion_ref w ref) (\<lambda>rf.
     rbind (is_abc axis) (\<lambda>abc.
     set_fields R ''force/check_force_condition''
       [(''axis'', Inr axis), (''min'', float_field mn), (''max'', float_field mx),
        (''ref'', Inr (if abc then PInt DR_TOOL else rf))])))))))"

definition check_force_condition ::
  "ros \<Rightarrow> pyval \<Rightarrow> pyval \<Rightarrow> pyval \<Rightarrow> pyval \<Rightarrow> pyval act" where
  "check_force_condition R axis mn mx ref =
     service_fun R False ''force/check_force_condition'' (force_condition_request R axis mn mx ref)
       None success_code"

text \<open>
  \<^verbatim>\<open>check_orientation_condition\<close>: bounds that are positions select form 0, numbers form 1; the
  second bound decides when both are given.
\<close>

definition bound_kind :: "pyval \<Rightarrow> int \<Rightarrow> int res" where
  "bound_kind v cmd_type =
     rbind (py_ne_none v) (\<lambda>given.
     if \<not> given then Inr cmd_type
     else if py_type v = TPosx then Inr 0
     else if py_type v = TPosj then Inl (DRError DR_ERROR_TYPE)
     else if is_list_of_len POINT_COUNT v then Inr 0
     else if is_int_or_float v then Inr 1
     else Inl (DRError DR_ERROR_TYPE))"

definition bound_pos :: "pyval \<Rightarrow> pyval res" where
  "bound_pos v =
     rbind (py_ne_none v) (\<lambda>given.
     if given then get_normal_pos v (Some TPosx)
     else Inr (PList (replicate POINT_COUNT (PInt DR_COND_NONE))))"

definition bound_num :: "pyval \<Rightarrow> pyval res" where
  "bound_num v =
     rbind (py_eq_none v) (\<lambda>missing.
     if missing then Inr (PInt DR_COND_NONE) else rbind (check_num v) (\<lambda>_. Inr v))"

text \<open>\<^verbatim>\<open>mod\<close> may be left out or has the one value of the form.\<close>

definition fixed_mod :: "int \<Rightarrow> pyval \<Rightarrow> pyval res" where
  "fixed_mod n md =
     rbind (py_eq_none md) (\<lambda>missing.
     if missing then Inr (PInt n)
     else rbind (check_int md) (\<lambda>_. rbind (raise_when (py_ne md n) DR_ERROR_VALUE) (\<lambda>_. Inr md)))"

definition orientation_target ::
  "pyval \<Rightarrow> pyval \<Rightarrow> pyval \<Rightarrow> pyval \<Rightarrow> pyval \<Rightarrow> pyval \<Rightarrow> world \<Rightarrow>
   (string \<times> (string \<times> pyval res) list) res" where
  "orientation_target axis mn mx ref md pos w =
     rbind (check_int axis) (\<lambda>_.
     rbind (raise_when (py_and (py_ne axis DR_AXIS_A) (py_and (py_ne axis DR_AXIS_B)
              (py_ne axis DR_AXIS_C))) DR_ERROR_VALUE) (\<lambda>_.
     rbind (bound_kind mn 0) (\<lambda>k0.
     rbind (bound_kind mx k0) (\<lambda>k.
     if k = 0 then
       rbind (bound_pos mn) (\<lambda>pos_min.
       rbind (bound_pos mx) (\<lambda>pos_max.
       rbind (motion_ref w ref) (\<lambda>rf.
       rbind (fixed_mod DR_MV_MOD_ABS md) (\<lambda>m.
       Inr (''force/check_orientation_condition1'',
            [(''axis'', Inr axis), (''min'', float_list pos_min), (''max'', float_list pos_max),
             (''ref'', Inr rf), (''mode'', Inr m)])))))
     else if k = 1 then
       rbind (bound_num mn) (\<lambda>min_n.
       rbind (bound_num mx) (\<lambda>max_n.
       rbind (check_min_max min_n max_n) (\<lambda>_.
       rbind (motion_ref w ref) (\<lambda>rf.
       rbind (fixed_mod DR_MV_MOD_REL md) (\<lambda>m.
       rbind (raise_when (py_eq_none pos) DR_ERROR_VALUE) (\<lambda>_.
       rbind (get_normal_pos pos (Some TPosx)) (\<lambda>p.
       Inr (''force/check_orientation_condition2'',
            [(''axis'', Inr axis), (''min'', float_field min_n), (''max'', float_field max_n),
             (''ref'', Inr rf), (''mode'', Inr m), (''pos'', float_list p)]))))))))
     else invalid_list))))"

definition check_orientation_condition ::
  "ros \<Rightarrow> pyval \<Rightarrow> pyval \<Rightarrow> pyval \<Rightarrow> pyval \<Rightarrow> pyval \<Rightarrow> pyval \<Rightarrow> pyval act" where
  "check_orientation_condition R axis mn mx ref md pos w =
     call_target R (orientation_target axis mn mx ref md pos w) success_code w"

section \<open>Forms that cannot succeed\<close>

lemma call_target_Inl [simp]: "call_target R (Inl e) f w = Some (Inl e, note_exc e w)"
  by (simp add: call_target_def abind_def)

lemmas call_form_simps = need_def read_kargs_def get_kargs_def check_keys_def must_be_missing_def Let_def

lemma parallel_axis_vector:
  "parallel_axis_args [v, ax] [] = Inr ((read_kargs [])\<lparr>a_vect := v, a_axis := ax\<rparr>)"
  by (simp add: parallel_axis_args_def call_form_simps)

lemma parallel_axis_vector_raises:
  "\<exists>e. rbind (parallel_axis_args [v, ax] []) (\<lambda>s0. rbind (check_points_or_vect s0) (\<lambda>s.
     rbind (check_xyz (a_axis s)) (\<lambda>_. parallel_axis_target s))) = Inl e"
  unfolding parallel_axis_vector
  by (cases "py_type v = TList"; cases "is_list_of_len 3 v"; cases "check_xyz ax")
    (auto simp: check_points_or_vect_def parallel_axis_target_def read_kargs_def get_kargs_def)

lemma user_coord_three_points:
  assumes "py_ne_none x1 = Inr True"
  shows "\<exists>e. rbind (user_coord_args [] [(''x1'', x1), (''x2'', x2), (''x3'', x3)])
    (\<lambda>s. rbind (check_user_coord s) user_coord_target) = Inl e"
proof (cases "any_none [x2, x3]")
  case (Inr b)
  with assms show ?thesis
    by (cases b; cases "posx_if_given x1"; cases "posx_if_given x2"; cases "posx_if_given x3")
      (auto simp: user_coord_args_def call_form_simps check_user_coord_def user_coord_target_def
        posx_if_given_def [of PNone] check_vector_def simp del: any_none.simps)
qed (use assms in \<open>auto simp: user_coord_args_def call_form_simps simp del: any_none.simps\<close>)

lemma user_coord_ref_ignored:
  "rbind (user_coord_args [x1, x2, x3, pos, ref] [])
     (\<lambda>s. rbind (check_user_coord s) user_coord_target) =
   rbind (user_coord_args [x1, x2, x3, pos] [])
     (\<lambda>s. rbind (check_user_coord s) user_coord_target)"
  by (cases "posx_if_given x1"; cases "posx_if_given x2"; cases "posx_if_given x3";
      cases "posx_if_given pos")
    (simp_all add: user_coord_args_def call_form_simps check_user_coord_def user_coord_target_def
      point_fields_def check_vector_def)

end
