(* ===== verification/IoSession.thy ===== *)
theory IoSession
  imports IoApi MotionSession
begin

text \<open>
  Programs over the input and output functions: which requests they may send, and the recorded
  modes of the analog outputs as the invariant.
\<close>

section \<open>Calls\<close>

datatype io_call =
    CGetDigitalInput pyval
  | CGetAnalogInput pyval
  | CGetToolDigitalInput pyval
  | CSetDigitalOutput pyval pyval
  | CGetDigitalOutput pyval
  | CSetAnalogOutput pyval pyval
  | CSetModeAnalogOutput pyval pyval
  | CSetModeAnalogInput pyval pyval
  | CSetToolDigitalOutput pyval pyval
  | CGetToolDigitalOutput pyval
  | CAddModbusSignal pyval pyval pyval pyval pyval pyval pyval
  | CSetModbusOutput pyval pyval

fun run_io :: "ros \<Rightarrow> io_call \<Rightarrow> pyval act" where
  "run_io R (CGetDigitalInput i) = get_digital_input R i"
| "run_io R (CGetAnalogInput ch) = get_analog_input R ch"
| "run_io R (CGetToolDigitalInput i) = get_tool_digital_input R i"
| "run_io R (CSetDigitalOutput i v) = set_digital_output R i v"
| "run_io R (CGetDigitalOutput i) = get_digital_output R i"
| "run_io R (CSetAnalogOutput ch v) = set_analog_output R ch v"
| "run_io R (CSetModeAnalogOutput ch md) = set_mode_analog_output R ch md"
| "run_io R (CSetModeAnalogInput ch md) = set_mode_analog_input R ch md"
| "run_io R (CSetToolDigitalOutput i v) = set_tool_digital_output R i v"
| "run_io R (CGetToolDigitalOutput i) = get_tool_digital_output R i"
| "run_io R (CAddModbusSignal ip port name reg_type index v slaveid) =
     add_modbus_signal R ip port name reg_type index v slaveid"
| "run_io R (CSetModbusOutput iobus v) = set_modbus_output R iobus v"

section \<open>What may be sent\<close>

definition between :: "int \<Rightarrow> int \<Rightarrow> int \<Rightarrow> bool" where
  "between lo hi n \<longleftrightarrow> lo \<le> n \<and> n \<le> hi"

definition float_within :: "int \<Rightarrow> int \<Rightarrow> pyfloat \<Rightarrow> bool" where
  "float_within lo hi f \<longleftrightarrow> \<not> flt f (Fin (of_int lo)) \<and> \<not> flt (Fin (of_int hi)) f"

definition digital_ok :: "int \<Rightarrow> fields \<Rightarrow> bool" where
  "digital_ok hi fs \<longleftrightarrow>
     int_in (between 1 hi) (fld fs ''index'') \<and> int_in zero_or_one (fld fs ''value'')"

definition analog_mode_ok :: "fields \<Rightarrow> bool" where
  "analog_mode_ok fs \<longleftrightarrow>
     int_in (between 1 2) (fld fs ''channel'') \<and> int_in zero_or_one (fld fs ''mode'')"

text \<open>An input signal starts with the value 0.\<close>

definition modbus_ok :: "fields \<Rightarrow> bool" where
  "modbus_ok fs \<longleftrightarrow>
     int_in (between 1 65535) (fld fs ''port'') \<and> int_in (between 0 3) (fld fs ''reg_type'') \<and>
     int_in (between 0 65535) (fld fs ''index'') \<and> int_in (between 0 65535) (fld fs ''value'') \<and>
     (fld fs ''reg_type'' \<in> {PInt 0, PInt 2} \<longrightarrow> fld fs ''value'' = PInt 0) \<and>
     int_in (\<lambda>n. between 0 247 n \<or> n = 255) (fld fs ''slave_id'')"

definition io_request_ok :: "string \<Rightarrow> fields \<Rightarrow> bool" where
  "io_request_ok srv fs =
     ((srv = ''io/get_ctrl_box_digital_input'' \<or> srv = ''io/get_ctrl_box_digital_output'' \<longrightarrow>
         int_in (between 1 16) (fld fs ''index'')) \<and>
      (srv = ''io/get_tool_digital_input'' \<or> srv = ''io/get_tool_digital_output'' \<longrightarrow>
         int_in (between 1 6) (fld fs ''index'')) \<and>
      (srv = ''io/get_ctrl_box_analog_input'' \<longrightarrow> int_in (between 1 2) (fld fs ''channel'')) \<and>
      (srv = ''io/set_ctrl_box_digital_output'' \<longrightarrow> digital_ok 16 fs) \<and>
      (srv = ''io/set_tool_digital_output'' \<longrightarrow> digital_ok 6 fs) \<and>
      (srv = ''io/set_ctrl_box_analog_output'' \<longrightarrow>
         int_in (between 1 2) (fld fs ''channel'') \<and>
         float_in (float_within 0 20) (fld fs ''value'')) \<and>
      (srv = ''io/set_ctrl_box_analog_output_type'' \<longrightarrow> analog_mode_ok fs) \<and>
      (srv = ''io/set_ctrl_box_analog_input_type'' \<longrightarrow> analog_mode_ok fs) \<and>
      (srv = ''modbus/config_create_modbus'' \<longrightarrow> modbus_ok fs))"

fun io_event_ok :: "event \<Rightarrow> bool" where
  "io_event_ok (Called srv fs) = io_request_ok srv fs"
| "io_event_ok _ = True"

text \<open>The recorded modes: not set, current or voltage.\<close>

definition modes_ok :: "world \<Rightarrow> bool" where
  "modes_ok w \<longleftrightarrow>
     int_in (between (-1) 1) (g_analog_output_mode_ch1 w) \<and>
     int_in (between (-1) 1) (g_analog_output_mode_ch2 w)"

section \<open>What the checks establish\<close>

lemma check_int_Inr [simp]: "check_int v = Inr u \<longleftrightarrow> (\<exists>n. v = PInt n)"
  by (simp add: check_int_def py_type_inv)

lemma outside_int [simp]: "outside lo hi (PInt n) = Inr (\<not> between lo hi n)"
  by (auto simp: outside_def between_def not_le)

lemma outside_float [simp]: "outside lo hi (PFloat f) = Inr (\<not> float_within lo hi f)"
  by (simp add: outside_def float_within_def)

lemma check_index_Inr: "check_index lo hi v = Inr u \<longleftrightarrow> int_in (between lo hi) v"
  by (cases v) (auto simp: check_index_def rbind_Inr_iff)

lemma check_num_cases:
  assumes "check_num v = Inr u"
  obtains n where "v = PInt n" | f where "v = PFloat f"
  using assms by (auto simp: check_num_def py_type_inv)

lemma output_signal_ok:
  assumes "output_signal 1 hi index val = Inr (i, v)"
  shows "int_in (between 1 hi) i \<and> int_in zero_or_one v"
  using assms
  by (auto simp: output_signal_def rbind_Inr_iff between_def zero_or_one_def negated_def
      py_and_False_iff split: if_splits)

lemma float_within_mono:
  "float_within lo hi f \<Longrightarrow> lo' \<le> lo \<Longrightarrow> hi \<le> hi' \<Longrightarrow> float_within lo' hi' f"
  by (cases f) (auto simp: float_within_def not_less intro: order_trans)

lemma between_mono: "between lo hi n \<Longrightarrow> lo' \<le> lo \<Longrightarrow> hi \<le> hi' \<Longrightarrow> between lo' hi' n"
  by (simp add: between_def)

lemma analog_limits_ok:
  assumes "analog_limits md val = Inr u" and "check_num val = Inr u'"
  shows "outside 0 20 val = Inr False"
proof -
  obtain lo hi where "outside lo hi val = Inr False" "0 \<le> lo" "hi \<le> 20"
    using assms(1) by (auto simp: analog_limits_def rbind_Inr_iff split: if_splits)
  with assms(2) show ?thesis
    by (elim check_num_cases) (auto intro: float_within_mono between_mono)
qed

lemma analog_output_request_ok:
  assumes "analog_output_request R ch val w = Inr fs"
  shows "io_request_ok ''io/set_ctrl_box_analog_output'' fs"
proof -
  from assms obtain n v where ch: "ch = PInt n" "between 1 2 n" and num: "check_num val = Inr ()"
    and lim: "when_channel ch 1 (analog_limits (g_analog_output_mode_ch1 w) val) = Inr ()"
      "when_channel ch 2 (analog_limits (g_analog_output_mode_ch2 w) val) = Inr ()"
    and v: "float_field val = Inr v" and fs: "fs = [(''channel'', ch), (''value'', v)]"
    by (auto simp: analog_output_request_def check_index_def rbind_Inr_iff set_fields_Inr_Cons
        set_fields_Inr_Nil simp del: set_fields.simps)
  have "n = 1 \<or> n = 2" using ch(2) by (auto simp: between_def)
  with ch(1) lim have "outside 0 20 val = Inr False"
    using num by (auto simp: when_channel_def dest: analog_limits_ok)
  with num v have "float_in (float_within 0 20) v"
  proof (elim check_num_cases)
    fix m assume "val = PInt m" "outside 0 20 val = Inr False"
    then have "float_of_int m = Inr (Fin (of_int m))" "0 \<le> m" "m \<le> 20"
      using float_of_int_small [of m] by (auto simp: between_def)
    with \<open>val = PInt m\<close> v show ?thesis
      by (auto simp: float_field_Inr float_within_def)
  next
    fix f assume "val = PFloat f" "outside 0 20 val = Inr False"
    with v show ?thesis by (auto simp: float_field_Inr)
  qed
  with ch fs show ?thesis
    by (simp add: io_request_ok_def)
qed

lemma check_reg_type_Inr: "check_reg_type v = Inr u \<longleftrightarrow> int_in (between 0 3) v"
  by (cases v) (auto simp: check_reg_type_def rbind_Inr_iff between_def)

lemma check_slaveid_Inr: "check_slaveid v = Inr u \<longleftrightarrow> int_in (\<lambda>n. between 0 247 n \<or> n = 255) v"
  by (cases v) (auto simp: check_slaveid_def rbind_Inr_iff between_def)

lemma port_Inr:
  "check_int v = Inr u \<and> py_or (py_le v 0) (py_gt v 65535) = Inr False \<longleftrightarrow> int_in (between 1 65535) v"
  by (cases v) (auto simp: between_def)

lemma add_modbus_signal_request_ok:
  assumes "add_modbus_signal_request R ip port name reg_type index val slaveid w = Inr fs"
  shows "io_request_ok ''modbus/config_create_modbus'' fs"
proof -
  have checks: "int_in (between 1 65535) port" "int_in (between 0 3) reg_type"
    "int_in (between 0 65535) index" "int_in (between 0 65535) val"
    "int_in (\<lambda>n. between 0 247 n \<or> n = 255) slaveid"
    using assms port_Inr [of port]
    by (auto simp: add_modbus_signal_request_def rbind_Inr_iff check_index_Inr check_reg_type_Inr
        check_slaveid_Inr simp del: set_fields.simps check_int_Inr)
  obtain out where "fs = [(''name'', name), (''ip'', ip), (''port'', port),
        (''reg_type'', reg_type), (''index'', index),
        (''value'', if out then val else PInt 0), (''slave_id'', slaveid)]"
    "py_or (py_eq reg_type 1) (py_eq reg_type 3) = Inr out"
    using assms
    by (auto simp: add_modbus_signal_request_def rbind_Inr_iff set_fields_Inr_Cons
        set_fields_Inr_Nil simp del: set_fields.simps)
  with checks show ?thesis
    by (cases reg_type) (auto simp: io_request_ok_def modbus_ok_def between_def)
qed

section \<open>The effect of one call\<close>

lemma service_fun_events:
  assumes "service_fun R waits srv request before on_result w = Some (r, w')"
    and "\<And>fs. request w = Inr fs \<Longrightarrow> ok (Called srv fs)"
    and "\<And>s b. ok (Polled s b)" and "ok Shutdown"
  shows "globals.truncate w' = globals.truncate w \<and>
         (\<exists>es. trace w' = trace w @ es \<and> list_all ok es)"
proof -
  from service_fun_effect [OF assms(1)] consider
    (raised) e where "w' = note_exc e w"
  | (called) fs ps sd where "request w = Inr fs" "only_polls ps" "sd = [] \<or> sd = [Shutdown]"
      "w' = w\<lparr>trace := trace w @ ps @ Called srv fs # sd\<rparr>"
    by blast
  then show ?thesis
  proof cases
    case raised
    with assms(4) show ?thesis by (auto simp: note_exc_def)
  next
    case called
    have "list_all ok ps"
      using called(2) assms(3) by (auto simp: only_polls_def list_all_iff)
    with called(3) assms(2) [OF called(1)] assms(4) have "list_all ok (ps @ Called srv fs # sd)"
      by auto
    with called(4) show ?thesis by (auto simp: globals.defs)
  qed
qed

lemma modes_ok_truncate:
  assumes "globals.truncate w' = globals.truncate w"
  shows "modes_ok w' = modes_ok w"
  using arg_cong [OF assms, of g_analog_output_mode_ch1]
    arg_cong [OF assms, of g_analog_output_mode_ch2]
  by (simp add: modes_ok_def globals.defs)

lemma io_service_step:
  assumes "service_fun R waits srv request before on_result w = Some (r, w')" and "modes_ok w"
    and "\<And>fs. request w = Inr fs \<Longrightarrow> io_request_ok srv fs"
  shows "modes_ok w' \<and> (\<exists>es. trace w' = trace w @ es \<and> list_all io_event_ok es)"
proof -
  have "globals.truncate w' = globals.truncate w \<and>
        (\<exists>es. trace w' = trace w @ es \<and> list_all io_event_ok es)"
    by (rule service_fun_events [OF assms(1)]) (simp_all add: assms(3))
  with modes_ok_truncate [of w' w] assms(2) show ?thesis by blast
qed

lemma read_signal_step:
  assumes "read_signal R srv field lo hi index w = Some (r, w')" and "modes_ok w"
    and "int_in (between lo hi) index \<Longrightarrow> io_request_ok srv [(field, index)]"
  shows "modes_ok w' \<and> (\<exists>es. trace w' = trace w @ es \<and> list_all io_event_ok es)"
  using assms(1) unfolding read_signal_def
  by (rule io_service_step [OF _ assms(2)])
    (auto simp: rbind_Inr_iff check_index_Inr intro: assms(3) split: if_splits)

lemma write_signal_step:
  assumes "write_signal R srv 1 hi index val w = Some (r, w')" and "modes_ok w"
    and "\<And>i v. int_in (between 1 hi) i \<Longrightarrow> int_in zero_or_one v \<Longrightarrow>
           io_request_ok srv [(''index'', i), (''value'', v)]"
  shows "modes_ok w' \<and> (\<exists>es. trace w' = trace w @ es \<and> list_all io_event_ok es)"
  using assms(1) unfolding write_signal_def
  by (rule io_service_step [OF _ assms(2)])
    (auto simp: rbind_Inr_iff intro: assms(3) dest: output_signal_ok split: if_splits)

lemma check_analog_mode_Inr:
  "check_analog_mode ch md = Inr u \<longleftrightarrow> int_in (between 1 2) ch \<and> int_in zero_or_one md"
  by (cases ch; cases md) (auto simp: check_analog_mode_def rbind_Inr_iff zero_or_one_def)

lemma set_mode_analog_output_step:
  assumes "set_mode_analog_output R ch md w = Some (r, w')" and "modes_ok w"
  shows "modes_ok w' \<and> (\<exists>es. trace w' = trace w @ es \<and> list_all io_event_ok es)"
proof (cases "check_analog_mode ch md")
  case (Inl e)
  with assms show ?thesis
    by (auto simp: set_mode_analog_output_def abind_def note_exc_def modes_ok_def log_def)
next
  case (Inr u)
  then have ok: "int_in (between 1 2) ch" "int_in zero_or_one md"
    by (simp_all add: check_analog_mode_Inr)
  let ?w = "store_analog_mode ch md w"
  have "modes_ok ?w" "trace ?w = trace w"
    using assms(2) ok(2)
    by (cases md; auto simp: store_analog_mode_def modes_ok_def Let_def zero_or_one_def between_def)+
  moreover have "service_fun R False ''io/set_ctrl_box_analog_output_type''
       (\<lambda>w. set_fields R ''io/set_ctrl_box_analog_output_type''
              [(''channel'', Inr ch), (''mode'', Inr md)]) None success_code ?w = Some (r, w')"
    using assms(1) Inr by (simp add: set_mode_analog_output_def abind_def update_world_def)
  then have "modes_ok w' \<and> (\<exists>es. trace w' = trace ?w @ es \<and> list_all io_event_ok es)"
    by (rule io_service_step [OF _ \<open>modes_ok ?w\<close>])
      (use ok in \<open>auto simp: io_request_ok_def analog_mode_ok_def rbind_Inr_iff split: if_splits\<close>)
  ultimately show ?thesis by simp
qed

text \<open>What the modes are after a call, and when an output is refused.\<close>

lemma store_analog_mode_modes:
  "g_analog_output_mode_ch1 (store_analog_mode (PInt ch) md w) =
     (if ch = 1 then md else g_analog_output_mode_ch1 w)"
  "g_analog_output_mode_ch2 (store_analog_mode (PInt ch) md w) =
     (if ch = 2 then md else g_analog_output_mode_ch2 w)"
  by (simp_all add: store_analog_mode_def Let_def)

lemma set_mode_analog_output_modes:
  assumes "set_mode_analog_output R (PInt ch) (PInt md) w = Some (r, w')"
    and "between 1 2 ch" and "zero_or_one md"
  shows "g_analog_output_mode_ch1 w' = (if ch = 1 then PInt md else g_analog_output_mode_ch1 w) \<and>
         g_analog_output_mode_ch2 w' = (if ch = 2 then PInt md else g_analog_output_mode_ch2 w)"
proof -
  have "check_analog_mode (PInt ch) (PInt md) = Inr ()"
    using assms(2,3) by (simp add: check_analog_mode_Inr)
  with assms(1) have "service_fun R False ''io/set_ctrl_box_analog_output_type''
       (\<lambda>w. set_fields R ''io/set_ctrl_box_analog_output_type''
              [(''channel'', Inr (PInt ch)), (''mode'', Inr (PInt md))]) None success_code
       (store_analog_mode (PInt ch) (PInt md) w) = Some (r, w')"
    by (simp add: set_mode_analog_output_def abind_def update_world_def)
  then have "globals.truncate w' = globals.truncate (store_analog_mode (PInt ch) (PInt md) w)"
    by (rule conjunct1 [OF service_fun_events [where ok = "\<lambda>_. True"]]) simp_all
  from arg_cong [OF this, of g_analog_output_mode_ch1] arg_cong [OF this, of g_analog_output_mode_ch2]
  show ?thesis by (simp add: globals.defs store_analog_mode_modes)
qed

lemma analog_request_refused:
  assumes "between 1 2 ch"
    and "(if ch = 1 then g_analog_output_mode_ch1 w else g_analog_output_mode_ch2 w) = PInt md"
    and "zero_or_one md"
  shows "analog_output_request R (PInt ch) (PFloat f) w = Inl (DRError DR_ERROR_VALUE) \<longleftrightarrow>
         \<not> (if md = 0 then float_within 4 20 f else float_within 0 10 f)"
proof -
  have "ch = 1 \<or> ch = 2" and "md = 0 \<or> md = 1"
    using assms(1,3) by (auto simp: between_def zero_or_one_def)
  with assms(2) show ?thesis
    by (auto simp: analog_output_request_def when_channel_def analog_limits_def between_def
        check_num_def check_int_def float_field_def)
qed

lemma run_io_step:
  assumes "run_io R c w = Some (r, w')" and "modes_ok w"
  shows "modes_ok w' \<and> (\<exists>es. trace w' = trace w @ es \<and> list_all io_event_ok es)"
proof (cases c)
  case (CSetAnalogOutput ch v)
  with assms(1) have "service_fun R False ''io/set_ctrl_box_analog_output''
      (analog_output_request R ch v) None success_code w = Some (r, w')"
    by (simp add: set_analog_output_def)
  then show ?thesis
    using assms(2) by (rule io_service_step) (rule analog_output_request_ok)
next
  case (CSetModeAnalogOutput ch md)
  with assms show ?thesis by (auto dest: set_mode_analog_output_step)
next
  case (CSetModeAnalogInput ch md)
  with assms(1) have "set_mode_analog_input R ch md w = Some (r, w')" by simp
  then show ?thesis
    unfolding set_mode_analog_input_def
    by (rule io_service_step [OF _ assms(2)])
      (auto simp: rbind_Inr_iff check_analog_mode_Inr io_request_ok_def analog_mode_ok_def
        split: if_splits)
next
  case (CAddModbusSignal ip port name reg_type index v slaveid)
  with assms(1) have "add_modbus_signal R ip port name reg_type index v slaveid w = Some (r, w')"
    by simp
  then show ?thesis
    unfolding add_modbus_signal_def
    using assms(2) by (rule io_service_step) (rule add_modbus_signal_request_ok)
next
  case (CSetModbusOutput iobus v)
  with assms(1) have "set_modbus_output R iobus v w = Some (r, w')" by simp
  then show ?thesis
    unfolding set_modbus_output_def
    by (rule io_service_step [OF _ assms(2)]) (simp add: io_request_ok_def)
qed (use assms in \<open>simp_all add: get_digital_input_def get_analog_input_def
    get_tool_digital_input_def get_digital_output_def get_tool_digital_output_def
    set_digital_output_def set_tool_digital_output_def\<close>,
  (erule (1) read_signal_step write_signal_step, simp add: io_request_ok_def digital_ok_def)+)

interpretation io: session "run_io R" trace modes_ok "\<lambda>_. True" io_event_ok
  by unfold_locales (rule run_io_step)

end
