(* ===== verification/ForceSession.thy ===== *)
theory ForceSession
  imports CoordApi IoSession
begin

text \<open>
  Programs over the functions of force, compliance, user coordinates and conditions: which
  requests they may send. The compliance functions send the module's frame, so the invariant is
  that it is a valid one.
\<close>

section \<open>Calls\<close>

datatype force_call =
    FSetRefCoord pyval
  | FComplianceCtrl pyval pyval
  | FStiffness pyval pyval
  | FDesiredForce pyval pyval pyval pyval
  | FReleaseForce pyval
  | FBoltTightening pyval pyval pyval
  | FPositionCondition pyval pyval pyval pyval pyval pyval
  | FForceCondition pyval pyval pyval pyval
  | FOrientationCondition pyval pyval pyval pyval pyval pyval
  | FParallelAxis "pyval list" "(string \<times> pyval) list"
  | FAlignAxis "pyval list" "(string \<times> pyval) list"
  | FCalcCoord "pyval list" "(string \<times> pyval) list"
  | FSetUserCoord "pyval list" "(string \<times> pyval) list"
  | FOverwriteUserCoord pyval pyval pyval pyval

fun run_force :: "ros \<Rightarrow> force_call \<Rightarrow> pyval act" where
  "run_force R (FSetRefCoord c) = set_ref_coord R c"
| "run_force R (FComplianceCtrl stx time) = task_compliance_ctrl R stx time"
| "run_force R (FStiffness stx time) = set_stiffnessx R stx time"
| "run_force R (FDesiredForce fd dir time md) = set_desired_force R fd dir time md"
| "run_force R (FReleaseForce time) = release_force R time"
| "run_force R (FBoltTightening m timeout axis) = is_done_bolt_tightening R m timeout axis"
| "run_force R (FPositionCondition axis mn mx ref md pos) =
     check_position_condition R axis mn mx ref md pos"
| "run_force R (FForceCondition axis mn mx ref) = check_force_condition R axis mn mx ref"
| "run_force R (FOrientationCondition axis mn mx ref md pos) =
     check_orientation_condition R axis mn mx ref md pos"
| "run_force R (FParallelAxis args kargs) = parallel_axis R args kargs"
| "run_force R (FAlignAxis args kargs) = align_axis R args kargs"
| "run_force R (FCalcCoord args kargs) = calc_coord R args kargs"
| "run_force R (FSetUserCoord args kargs) = set_user_cart_coord R args kargs"
| "run_force R (FOverwriteUserCoord i pos ref gol) = overwrite_user_cart_coord R i pos ref gol"

section \<open>What may be sent\<close>

text \<open>The marker -1, or at most one second.\<close>

definition force_time_ok :: "pyfloat \<Rightarrow> bool" where
  "force_time_ok f \<longleftrightarrow> f = Fin (-1) \<or> float_within 0 1 f"

text \<open>A frame equal to base or world; an empty array passes the check too, being unequal to nothing.\<close>

definition base_or_world_frame :: "pyval \<Rightarrow> bool" where
  "base_or_world_frame v \<longleftrightarrow>
     v = PNdarray [] \<or> py_eq v DR_BASE = Inr True \<or> py_eq v DR_WORLD = Inr True"

definition compliance_ok :: "string \<Rightarrow> fields \<Rightarrow> bool" where
  "compliance_ok six fs \<longleftrightarrow>
     floats_in 6 (\<lambda>_. True) (fld fs six) \<and> int_in valid_coord (fld fs ''ref'') \<and>
     float_in force_time_ok (fld fs ''time'')"

definition axis_ok :: "fields \<Rightarrow> bool" where
  "axis_ok fs \<longleftrightarrow> int_in (between 0 2) (fld fs ''axis'') \<and> base_or_world_frame (fld fs ''ref'')"

definition condition_ok :: "(int \<Rightarrow> bool) \<Rightarrow> fields \<Rightarrow> bool" where
  "condition_ok P fs \<longleftrightarrow>
     int_in P (fld fs ''axis'') \<and> int_in frame_in_range (fld fs ''ref'') \<and>
     (int_in (between 10 12) (fld fs ''axis'') \<longrightarrow> fld fs ''ref'' = PInt DR_TOOL)"

definition orientation_ok :: "int \<Rightarrow> fields \<Rightarrow> bool" where
  "orientation_ok md fs \<longleftrightarrow>
     int_in (between 10 12) (fld fs ''axis'') \<and> int_in frame_in_range (fld fs ''ref'') \<and>
     fld fs ''mode'' = PInt md"

definition calc_ok :: "fields \<Rightarrow> bool" where
  "calc_ok fs \<longleftrightarrow>
     int_in (between 1 4) (fld fs ''input_pos_cnt'') \<and>
     (fld fs ''ref'' = PNone \<or> base_or_world_frame (fld fs ''ref''))"

definition force_request_ok :: "string \<Rightarrow> fields \<Rightarrow> bool" where
  "force_request_ok srv fs \<longleftrightarrow>
     (srv = ''force/task_compliance_ctrl'' \<longrightarrow> compliance_ok ''stx'' fs) \<and>
     (srv = ''force/set_stiffnessx'' \<longrightarrow> compliance_ok ''stx'' fs) \<and>
     (srv = ''force/set_desired_force'' \<longrightarrow>
        compliance_ok ''fd'' fs \<and> is_list_of_len 6 (fld fs ''dir'') \<and> is_int (fld fs ''mod'')) \<and>
     (srv = ''force/release_force'' \<longrightarrow> float_in force_time_ok (fld fs ''time'')) \<and>
     (srv = ''force/is_done_bolt_tightening'' \<longrightarrow> int_in (between 0 2) (fld fs ''axis'')) \<and>
     (srv = ''force/check_position_condition'' \<longrightarrow>
        condition_ok (between 0 2) fs \<and> int_in zero_or_one (fld fs ''mode'')) \<and>
     (srv = ''force/check_force_condition'' \<longrightarrow>
        condition_ok (\<lambda>n. between 0 2 n \<or> between 10 12 n) fs) \<and>
     (srv = ''force/check_orientation_condition1'' \<longrightarrow> orientation_ok DR_MV_MOD_ABS fs) \<and>
     (srv = ''force/check_orientation_condition2'' \<longrightarrow> orientation_ok DR_MV_MOD_REL fs) \<and>
     (srv \<in> {''force/parallel_axis1'', ''force/parallel_axis2''} \<longrightarrow> axis_ok fs) \<and>
     srv \<notin> {''force/align_axis1'', ''force/align_axis2''} \<and>
     (srv \<in> {''force/set_user_cart_coord1'', ''force/set_user_cart_coord2'',
        ''force/set_user_cart_coord3'', ''force/overwrite_user_cart_coord''} \<longrightarrow>
        base_or_world_frame (fld fs ''ref'')) \<and>
     (srv = ''force/calc_coord'' \<longrightarrow> calc_ok fs)"

fun force_event_ok :: "event \<Rightarrow> bool" where
  "force_event_ok (Called srv fs) = force_request_ok srv fs"
| "force_event_ok _ = True"

definition frame_ok :: "world \<Rightarrow> bool" where
  "frame_ok w \<longleftrightarrow> int_in valid_coord (g_coord w)"

section \<open>What the checks establish\<close>

lemma py_ne_False_eq: "py_ne v n = Inr False \<Longrightarrow> v = PNdarray [] \<or> py_eq v n = Inr True"
  by (cases v) (auto simp: py_ne_def py_eq_def py_cmp_def split: if_splits option.splits list.splits
      simp: array_truth_def)

lemma force_time_field:
  assumes "force_time v = Inr t" and "float_field t = Inr x"
  shows "float_in force_time_ok x"
proof -
  from assms(1) have "check_num v = Inr ()" by (auto simp: force_time_def rbind_Inr_iff)
  then show ?thesis
  proof (cases rule: check_num_cases)
    case (1 n)
    with assms(1) have "t = PInt (-1) \<or> t = PInt 0 \<or> t = PInt 1"
      by (auto simp: force_time_def rbind_Inr_iff split: if_splits)
    with assms(2) show ?thesis
      by (auto simp: float_field_Inr force_time_ok_def float_within_def)
  next
    case (2 f)
    with assms show ?thesis
      by (auto simp: force_time_def rbind_Inr_iff float_field_Inr force_time_ok_def float_within_def
          dest: feq_FinD split: if_splits)
  qed
qed

lemma check_six_field: "check_six v = Inr u \<Longrightarrow> float_list v = Inr x \<Longrightarrow> floats_in 6 (\<lambda>_. True) x"
  by (auto simp: check_six_def rbind_Inr_iff is_list_of_len_iff intro: float_list_six)

lemma check_xyz_Inr: "check_xyz v = Inr u \<Longrightarrow> int_in (between 0 2) v"
  by (cases v) (auto simp: check_xyz_def rbind_Inr_iff between_def)

lemma base_or_world_Inr: "base_or_world v = Inr () \<Longrightarrow> base_or_world_frame v"
  by (auto simp: base_or_world_def base_or_world_frame_def py_and_False_iff dest: py_ne_False_eq)

lemma base_world_ref_Inr: "base_world_ref v = Inr rf \<Longrightarrow> base_or_world_frame rf"
  by (auto simp: base_world_ref_def rbind_Inr_iff base_or_world_frame_def py_and_False_iff py_eq_def
      dest: py_ne_False_eq split: if_splits)

lemma frame_field: "motion_ref w ref = Inr rf \<Longrightarrow> int_in frame_in_range rf"
  by (auto dest: motion_ref_Inr)

lemma is_abc_Inr: "int_in P axis \<Longrightarrow> is_abc axis = Inr (int_in (between 10 12) axis)"
  by (cases axis) (auto simp: is_abc_def between_def)

lemma tool_in_range: "frame_in_range DR_TOOL"
  by (simp add: frame_in_range_def)

section \<open>Requests\<close>

lemmas field_simps = rbind_Inr_iff set_fields_Inr_Cons set_fields_Inr_Nil

lemma stiffness_request_ok:
  assumes "stiffness_request R srv stx time w = Inr fs" and "frame_ok w"
  shows "compliance_ok ''stx'' fs"
  using assms
  by (auto simp: stiffness_request_def compliance_ok_def frame_ok_def field_simps
      intro: check_six_field force_time_field simp del: set_fields.simps)

lemma check_six_length: "check_six v = Inr u \<Longrightarrow> is_list_of_len 6 v"
  by (simp add: check_six_def rbind_Inr_iff raise_if_def split: if_splits)

lemma desired_force_ok:
  assumes "rbind (check_six fd) (\<lambda>_. rbind (check_six dir) (\<lambda>_. rbind (force_time time) (\<lambda>tm.
      rbind (check_int md) (\<lambda>_. set_fields R srv
        [(''fd'', float_list fd), (''dir'', Inr dir), (''ref'', Inr (g_coord w)),
         (''time'', float_field tm), (''mod'', Inr md)])))) = Inr fs" and "frame_ok w"
  shows "compliance_ok ''fd'' fs \<and> is_list_of_len 6 (fld fs ''dir'') \<and> is_int (fld fs ''mod'')"
  using assms
  by (auto simp: compliance_ok_def frame_ok_def field_simps dest: check_six_length
      intro: check_six_field force_time_field simp del: set_fields.simps)

lemma position_condition_ok:
  assumes "position_condition_request R axis mn mx ref md pos w = Inr fs"
  shows "condition_ok (between 0 2) fs \<and> int_in zero_or_one (fld fs ''mode'')"
proof -
  from assms obtain rf abc x1 x2 x5 where xyz: "check_xyz axis = Inr ()"
    and ref: "motion_ref w ref = Inr rf" and md: "check_mod md = Inr ()"
    and abc: "is_abc axis = Inr abc"
    and fs: "fs = [(''axis'', axis), (''min'', x1), (''max'', x2),
      (''ref'', if abc then PInt DR_TOOL else rf), (''mode'', md), (''pos'', x5)]"
    by (simp add: position_condition_request_def field_simps del: set_fields.simps) blast
  have axis: "int_in (between 0 2) axis" using xyz by (rule check_xyz_Inr)
  have rf: "int_in frame_in_range rf" using ref by (rule frame_field)
  from md have "int_in zero_or_one md"
    by (auto simp: check_two_values_def rbind_Inr_iff py_type_inv py_and_False_iff zero_or_one_def)
  moreover have "abc = int_in (between 10 12) axis"
    using is_abc_Inr [OF axis] abc by simp
  ultimately show ?thesis
    using axis rf tool_in_range by (simp add: fs condition_ok_def)
qed

lemma force_condition_ok:
  assumes "force_condition_request R axis mn mx ref w = Inr fs"
  shows "condition_ok (\<lambda>n. between 0 2 n \<or> between 10 12 n) fs"
proof -
  from assms obtain rf abc x1 x2 where axis: "check_int axis = Inr ()"
      "py_and (py_ne axis 0) (py_and (py_ne axis 1) (py_and (py_ne axis 2) (py_and (py_ne axis 10)
         (py_and (py_ne axis 11) (py_ne axis 12))))) = Inr False"
    and ref: "motion_ref w ref = Inr rf"
    and abc: "is_abc axis = Inr abc"
    and fs: "fs = [(''axis'', axis), (''min'', x1), (''max'', x2),
      (''ref'', if abc then PInt DR_TOOL else rf)]"
    by (simp add: force_condition_request_def field_simps del: set_fields.simps) blast
  have rf: "int_in frame_in_range rf" using ref by (rule frame_field)
  from axis have axis_in: "int_in (\<lambda>n. between 0 2 n \<or> between 10 12 n) axis"
    by (cases axis) (auto simp: check_int_def between_def py_and_False_iff)
  moreover have "abc = int_in (between 10 12) axis"
    using is_abc_Inr [OF axis_in] abc by simp
  ultimately show ?thesis
    using rf tool_in_range by (simp add: fs condition_ok_def)
qed

section \<open>Calls with a chosen service\<close>

lemma orientation_target_ok:
  assumes "orientation_target axis mn mx ref md pos w = Inr (srv, flds)"
    and "set_fields R srv flds = Inr fs"
  shows "force_request_ok srv fs"
proof -
  have fixed: "fixed_mod n v = Inr m \<Longrightarrow> m = PInt n" for n v m
    by (cases v) (auto simp: fixed_mod_def rbind_Inr_iff split: if_splits)
  from assms(1) have "check_int axis = Inr ()"
      "py_and (py_ne axis 10) (py_and (py_ne axis 11) (py_ne axis 12)) = Inr False"
    by (auto simp: orientation_target_def rbind_Inr_iff)
  then have axis: "int_in (between 10 12) axis"
    by (cases axis) (auto simp: check_int_def between_def py_and_False_iff)
  from assms(1) consider
    (pos) p q rf m where "srv = ''force/check_orientation_condition1''"
      "flds = [(''axis'', Inr axis), (''min'', p), (''max'', q), (''ref'', Inr rf), (''mode'', Inr m)]"
      "motion_ref w ref = Inr rf" "m = PInt 0"
  | (num) p q rf m x where "srv = ''force/check_orientation_condition2''"
      "flds = [(''axis'', Inr axis), (''min'', p), (''max'', q), (''ref'', Inr rf),
         (''mode'', Inr m), (''pos'', x)]"
      "motion_ref w ref = Inr rf" "m = PInt 1"
    by (auto simp: orientation_target_def rbind_Inr_iff split: if_splits dest!: fixed)
  then show ?thesis
    using assms(2) axis
    by cases (auto simp: field_simps force_request_ok_def orientation_ok_def dest: frame_field
        simp del: set_fields.simps)
qed

lemma parallel_axis_target_ok:
  assumes "parallel_axis_target s = Inr (srv, flds)" and "check_xyz (a_axis s) = Inr u"
    and "set_fields R srv flds = Inr fs"
  shows "force_request_ok srv fs"
  using assms(1,3) check_xyz_Inr [OF assms(2)]
  by (auto simp: parallel_axis_target_def point_fields_def field_simps force_request_ok_def axis_ok_def
      base_or_world_frame_def [of "PInt _"] py_eq_def [of "PInt _"]
      base_or_world_Inr split: if_splits simp del: set_fields.simps)

text \<open>\<^verbatim>\<open>align_axis\<close> never gets as far as a call.\<close>

lemma align_axis_target_fails:
  assumes "align_axis_target s = Inr (srv, flds)"
  shows "set_fields R srv flds \<noteq> Inr fs"
  using assms
  by (auto simp: align_axis_target_def no_such_field_def Let_def point_fields_def field_simps rbind_Inr_iff
      split: if_splits simp del: set_fields.simps)

lemma user_coord_target_ok:
  assumes "user_coord_target s = Inr (srv, flds)" and "set_fields R srv flds = Inr fs"
  shows "force_request_ok srv fs"
  using assms
  by (auto simp: user_coord_target_def Let_def point_fields_def field_simps force_request_ok_def
      base_or_world_frame_def [of "PInt _"] py_eq_def [of "PInt _"]
      base_or_world_Inr split: if_splits simp del: set_fields.simps)

lemma calc_coord_args_type:
  assumes "calc_coord_args args kargs = Inr s"
  shows "between 1 4 (n_type s)"
  using assms unfolding calc_coord_args_def Let_def
  by (elim rbind_InrE) (auto simp: between_def split: list.split_asm if_split_asm)

lemma check_given_Inr:
  assumes "check_given DR_BASE DR_WORLD v = Inr ()"
  shows "v = PNone \<or> base_or_world_frame v"
proof -
  from assms consider "py_ne_none v = Inr False"
    | "py_and (py_ne v DR_BASE) (py_ne v DR_WORLD) = Inr False"
    by (auto simp: check_given_def rbind_Inr_iff split: if_splits)
  then show ?thesis
  proof cases
    case 1
    then show ?thesis
      by (cases v) (auto simp: py_ne_none_def base_or_world_frame_def array_truth_def
          split: list.splits)
  next
    case 2
    then show ?thesis
      by (auto simp: base_or_world_frame_def py_and_False_iff dest: py_ne_False_eq)
  qed
qed

lemma calc_coord_ok:
  assumes "between 1 4 (n_type s)" and "check_given DR_BASE DR_WORLD (a_ref s) = Inr ()"
    and "set_fields R ''force/calc_coord''
      [(''input_pos_cnt'', Inr (PInt (n_type s))), (''x1'', f1), (''x2'', f2), (''x3'', f3),
       (''x4'', f4), (''ref'', Inr (a_ref s)), (''mod'', Inr md)] = Inr fs"
  shows "force_request_ok ''force/calc_coord'' fs"
  using assms(1,3) check_given_Inr [OF assms(2)]
  by (auto simp: field_simps force_request_ok_def calc_ok_def simp del: set_fields.simps)

section \<open>The effect of one call\<close>

definition force_step :: "world \<Rightarrow> world \<Rightarrow> bool" where
  "force_step w w' \<longleftrightarrow>
     frame_ok w' \<and> (\<exists>es. trace w' = trace w @ es \<and> list_all force_event_ok es)"

lemma force_service_step:
  assumes "service_fun R waits srv request before on_result w = Some (r, w')" and "frame_ok w"
    and "\<And>fs. request w = Inr fs \<Longrightarrow> force_request_ok srv fs"
  shows "force_step w w'"
proof -
  have eff: "globals.truncate w' = globals.truncate w \<and>
        (\<exists>es. trace w' = trace w @ es \<and> list_all force_event_ok es)"
    by (rule service_fun_events [OF assms(1)]) (simp_all add: assms(3))
  then have "g_coord w' = g_coord w"
    by (auto dest: arg_cong [of _ _ g_coord] simp: globals.defs)
  with eff assms(2) show ?thesis by (simp add: force_step_def frame_ok_def)
qed

lemma note_exc_step: "frame_ok w \<Longrightarrow> force_step w (note_exc e w)"
  by (simp add: force_step_def note_exc_def frame_ok_def log_def)

lemma call_target_step:
  assumes "call_target R target on_result w = Some (r, w')" and "frame_ok w"
    and "\<And>srv flds fs. target = Inr (srv, flds) \<Longrightarrow> set_fields R srv flds = Inr fs \<Longrightarrow>
      force_request_ok srv fs"
  shows "force_step w w'"
proof (cases target)
  case (Inl e)
  with assms(1,2) show ?thesis by (auto intro: note_exc_step)
next
  case (Inr t)
  then obtain srv flds where t: "target = Inr (srv, flds)" by (cases t) auto
  with assms(1) have "service_fun R False srv (\<lambda>w. set_fields R srv flds) None on_result w = Some (r, w')"
    by (simp add: call_target_def abind_def)
  then show ?thesis
    using assms(2) by (rule force_service_step) (rule assms(3) [OF t])
qed

lemma set_ref_coord_force_step:
  assumes "set_ref_coord R c w = Some (r, w')" and "frame_ok w"
  shows "force_step w w'"
proof (cases "rbind (check_coord c) (\<lambda>_. set_fields R ''motion/set_ref_coord'' [(''coord'', Inr c)])")
  case (Inl e)
  with assms show ?thesis
    by (auto simp: set_ref_coord_def abind_def with_globals_def intro: note_exc_step
        simp del: set_fields.simps)
next
  case (Inr fs)
  then have c: "int_in valid_coord c"
    by (auto simp: rbind_Inr_iff dest: check_coord_Inr)
  have called: "frame_ok w1 \<and> (\<exists>es. trace w1 = trace w @ es \<and> list_all force_event_ok es)"
    if "call_service R ''motion/set_ref_coord'' fs None success_code w = Some (r1, w1)" for r1 w1
    using call_service_effect [OF that] assms(2)
    by (auto simp: frame_ok_def log_def force_request_ok_def)
  from assms(1) Inr c show ?thesis
    by (auto simp: set_ref_coord_def abind_Some with_globals_def update_world_def force_step_def
        frame_ok_def dest!: called return_ret_effect)
qed

lemma run_force_step:
  assumes "run_force R c w = Some (r, w')" and "frame_ok w"
  shows "force_step w w'"
proof (cases c)
  case (FComplianceCtrl stx time)
  with assms(1) have "task_compliance_ctrl R stx time w = Some (r, w')" by simp
  then show ?thesis unfolding task_compliance_ctrl_def
    by (rule force_service_step [OF _ assms(2)])
      (simp add: force_request_ok_def stiffness_request_ok assms(2))
next
  case (FStiffness stx time)
  with assms(1) have "set_stiffnessx R stx time w = Some (r, w')" by simp
  then show ?thesis unfolding set_stiffnessx_def
    by (rule force_service_step [OF _ assms(2)])
      (simp add: force_request_ok_def stiffness_request_ok assms(2))
next
  case (FDesiredForce fd dir time md)
  with assms(1) have "set_desired_force R fd dir time md w = Some (r, w')" by simp
  then show ?thesis unfolding set_desired_force_def
    by (rule force_service_step [OF _ assms(2)])
      (simp add: force_request_ok_def desired_force_ok [OF _ assms(2)] del: set_fields.simps)
next
  case (FReleaseForce time)
  with assms(1) have "release_force R time w = Some (r, w')" by simp
  then show ?thesis unfolding release_force_def
    by (rule force_service_step [OF _ assms(2)])
      (auto simp: force_request_ok_def field_simps intro: force_time_field simp del: set_fields.simps)
next
  case (FBoltTightening m timeout axis)
  with assms(1) have "is_done_bolt_tightening R m timeout axis w = Some (r, w')" by simp
  then show ?thesis unfolding is_done_bolt_tightening_def
    by (rule force_service_step [OF _ assms(2)])
      (auto simp: force_request_ok_def field_simps check_xyz_Inr simp del: set_fields.simps)
next
  case (FPositionCondition axis mn mx ref md pos)
  with assms(1) have "check_position_condition R axis mn mx ref md pos w = Some (r, w')" by simp
  then show ?thesis unfolding check_position_condition_def
    by (rule force_service_step [OF _ assms(2)])
      (simp add: force_request_ok_def position_condition_ok)
next
  case (FForceCondition axis mn mx ref)
  with assms(1) have "check_force_condition R axis mn mx ref w = Some (r, w')" by simp
  then show ?thesis unfolding check_force_condition_def
    by (rule force_service_step [OF _ assms(2)])
      (simp add: force_request_ok_def force_condition_ok)
next
  case (FOrientationCondition axis mn mx ref md pos)
  with assms(1) have "check_orientation_condition R axis mn mx ref md pos w = Some (r, w')" by simp
  then show ?thesis unfolding check_orientation_condition_def
    by (rule call_target_step [OF _ assms(2)]) (rule orientation_target_ok)
next
  case (FParallelAxis args kargs)
  with assms(1) have "parallel_axis R args kargs w = Some (r, w')" by simp
  then show ?thesis unfolding parallel_axis_def
    by (rule call_target_step [OF _ assms(2)])
      (auto simp: rbind_Inr_iff intro: parallel_axis_target_ok)
next
  case (FAlignAxis args kargs)
  with assms(1) have "align_axis R args kargs w = Some (r, w')" by simp
  then show ?thesis unfolding align_axis_def
    by (rule call_target_step [OF _ assms(2)])
      (auto simp: rbind_Inr_iff dest: align_axis_target_fails)
next
  case (FCalcCoord args kargs)
  with assms(1) have "calc_coord R args kargs w = Some (r, w')" by simp
  then show ?thesis unfolding calc_coord_def
    by (rule call_target_step [OF _ assms(2)])
      (auto simp: rbind_Inr_iff intro: calc_coord_ok calc_coord_args_type simp del: set_fields.simps)
next
  case (FSetUserCoord args kargs)
  with assms(1) have "set_user_cart_coord R args kargs w = Some (r, w')" by simp
  then show ?thesis unfolding set_user_cart_coord_def
    by (rule call_target_step [OF _ assms(2)])
      (auto simp: rbind_Inr_iff intro: user_coord_target_ok)
next
  case (FOverwriteUserCoord i pos ref gol)
  with assms(1) have "overwrite_user_cart_coord R i pos ref gol w = Some (r, w')" by simp
  then show ?thesis unfolding overwrite_user_cart_coord_def
    by (rule force_service_step [OF _ assms(2)])
      (auto simp: force_request_ok_def field_simps base_world_ref_Inr simp del: set_fields.simps)
qed (use assms set_ref_coord_force_step in auto)

interpretation force: session "run_force R" trace frame_ok "\<lambda>_. True" force_event_ok
  by unfold_locales (use run_force_step in \<open>auto simp: force_step_def\<close>)

end
