(* ===== verification/IoProperties.thy ===== *)
theory IoProperties
  imports ForceSession MotionProperties
begin

text \<open>
  The properties of the functions of input and output, of force, and of the coordinate functions.
\<close>

lemma modes_ok_init: "modes_ok (init_globals w)"
  by (simp add: modes_ok_def init_globals_def between_def)

text \<open>C21: whatever calls of the input and output functions a program makes and however the
  controller answers, every request that is sent has its indices, channels, modes, ports, slave ids
  and analog values in the ranges of \<open>io_request_ok\<close>, which are those the code checks: they are the
  documented ones except for the index of a Modbus signal, which the code lets go up to 65535 where
  ConfigCreateModbus.srv documents 0 to 9999. An input signal of Modbus starts with the value 0, and
  the recorded mode of each analog output stays one of unset, current and voltage.\<close>

theorem io_session_requests_ok:
  assumes "run_all (run_io R) cs (init_globals w) = Some w'" and "trace w = []"
  shows "modes_ok w' \<and> (\<forall>srv fs. Called srv fs \<in> set (trace w') \<longrightarrow> io_request_ok srv fs)"
  using io.run_all_safe [OF assms(1) modes_ok_init] assms(2)
  by (fastforce simp: list_all_iff init_globals_def)

lemma io_session_requests_ok_witness:
  "\<exists>w'. run_all (run_io ideal_ros) [CSetDigitalOutput (PInt (-3)) PNone] (init_globals start) = Some w' \<and>
     Called ''io/set_ctrl_box_digital_output'' [(''index'', PInt 3), (''value'', PInt 0)] \<in> set (trace w') \<and>
     io_request_ok ''io/set_ctrl_box_digital_output'' [(''index'', PInt 3), (''value'', PInt 0)]"
proof -
  obtain w' where run: "run_all (run_io ideal_ros) [CSetDigitalOutput (PInt (-3)) PNone]
      (init_globals start) = Some w'"
    and tr: "trace w' = [Called ''io/set_ctrl_box_digital_output'' [(''index'', PInt 3), (''value'', PInt 0)]]"
    by (simp add: set_digital_output_def write_signal_def output_signal_def negated_def between_def
        check_int_def)
  with io_session_requests_ok [OF run] show ?thesis by auto
qed



text \<open>\<^verbatim>\<open>set_mode_analog_output\<close> with a channel and a mode in range records the mode even when the
  controller refuses it or its answer raises, so that afterwards \<^verbatim>\<open>set_analog_output\<close> refuses a float
  for that channel with a value error exactly when it is outside 4 to 20 (current) or 0 to 10
  (voltage); the recorded mode of the other channel is unchanged.\<close>

theorem analog_modes_limit_outputs:
  assumes "set_mode_analog_output R (PInt ch) (PInt md) w = Some (r, w')"
    and "between 1 2 ch" and "zero_or_one md"
  shows "(analog_output_request R (PInt ch) (PFloat f) w' = Inl (DRError DR_ERROR_VALUE) \<longleftrightarrow>
            \<not> (if md = 0 then float_within 4 20 f else float_within 0 10 f)) \<and>
         (ch = 1 \<longrightarrow> g_analog_output_mode_ch2 w' = g_analog_output_mode_ch2 w) \<and>
         (ch = 2 \<longrightarrow> g_analog_output_mode_ch1 w' = g_analog_output_mode_ch1 w)"
  using set_mode_analog_output_modes [OF assms] assms(2,3)
  by (auto simp: analog_request_refused between_def zero_or_one_def)

lemma analog_modes_limit_outputs_witness:
  "\<exists>r w'. set_mode_analog_output ideal_ros (PInt 1) (PInt 0) start = Some (r, w') \<and>
     (analog_output_request ideal_ros (PInt 1) (PFloat (Fin 3)) w' = Inl (DRError DR_ERROR_VALUE) \<longleftrightarrow>
        \<not> float_within 4 20 (Fin 3))"
proof -
  obtain r w' where "set_mode_analog_output ideal_ros (PInt 1) (PInt 0) start = Some (r, w')"
    by (simp add: set_mode_analog_output_def abind_def update_world_def check_analog_mode_def
        check_int_def between_def)
  with analog_modes_limit_outputs [OF this, of "Fin 3"] show ?thesis
    by (intro exI [of _ r] exI [of _ w']) (simp add: between_def zero_or_one_def)
qed

text \<open>Forms of the coordinate functions that cannot succeed. \<^verbatim>\<open>parallel_axis\<close> with a vector and no
  frame always raises, NameError for a good vector and axis; the documented forms of
  \<^verbatim>\<open>set_user_cart_coord\<close> with a keyword position after two vectors or three points are refused; with
  three points and no position it always raises; and a frame given as fifth positional argument is
  ignored.\<close>

theorem coordinate_forms_fail:
  "(\<exists>e. parallel_axis R [v, ax] [] w = Some (Inl e, note_exc e w)) \<and>
   parallel_axis R [PList [a, b, c], PInt 2] [] w = Some (Inl NameError, w) \<and>
   set_user_cart_coord R [u1, v1] [(''pos'', PPosx xs)] w = Some (Inl (DRError DR_ERROR_TYPE), log Shutdown w) \<and>
   set_user_cart_coord R [x1, x2, x3] [(''pos'', PPosx xs)] w =
     Some (Inl (DRError DR_ERROR_TYPE), log Shutdown w) \<and>
   (\<exists>e. set_user_cart_coord R [] [(''x1'', PPosx xs), (''x2'', x2), (''x3'', x3)] w =
     Some (Inl e, note_exc e w)) \<and>
   set_user_cart_coord R [x1, x2, x3, pos, ref] [] w = set_user_cart_coord R [x1, x2, x3, pos] [] w"
proof (intro conjI)
  show "\<exists>e. parallel_axis R [v, ax] [] w = Some (Inl e, note_exc e w)"
    unfolding parallel_axis_def using parallel_axis_vector_raises by (metis call_target_Inl)
  show "\<exists>e. set_user_cart_coord R [] [(''x1'', PPosx xs), (''x2'', x2), (''x3'', x3)] w =
      Some (Inl e, note_exc e w)"
    unfolding set_user_cart_coord_def
    using user_coord_three_points [of "PPosx xs"] by (metis call_target_Inl py_ne_none_simps)
  show "set_user_cart_coord R [x1, x2, x3, pos, ref] [] w = set_user_cart_coord R [x1, x2, x3, pos] [] w"
    by (simp add: set_user_cart_coord_def user_coord_ref_ignored)
qed (simp_all add: parallel_axis_def parallel_axis_vector check_points_or_vect_def check_xyz_def
    check_int_def is_list_of_len_def parallel_axis_target_def set_user_cart_coord_def
    user_coord_args_def call_form_simps
    note_exc_def)

end
