(* ===== verification/RobotSync.thy ===== *)
theory RobotSync
  imports Prelude "HOL-Library.Word"
begin

text \<open>
  DSR_util2.py: \<^verbatim>\<open>CRobotSync\<close>, with which the threads of several robots wait for each other. One
  lock and one flag per robot, a bit mask of all robots and one of the robots seen waiting.
  Any number of threads call its methods at the same time; a configuration is the object's
  fields and the point each thread has reached, and a step is one statement of one thread. The
  update \<^verbatim>\<open>nCurBit |= 1 << i\<close> is two steps, a read and a write, since Python may switch
  threads in between. Robots are named by indices that are not negative.
\<close>

unbundle bit_operations_syntax

section \<open>The object\<close>

record robots =
  nRobot :: nat
  nIsRun :: bool
  nWaitBit :: int
  nCurBit :: int
  bIsWait :: "bool list"
  held :: "bool list"

text \<open>One iteration of the loop of the constructor: a lock that is not held, a flag, a bit.\<close>

definition add_robot :: "nat \<Rightarrow> robots \<Rightarrow> robots" where
  "add_robot i s =
     s\<lparr>held := held s @ [False], bIsWait := bIsWait s @ [False],
       nWaitBit := nWaitBit s OR push_bit i 1\<rparr>"

definition sync_init :: "nat \<Rightarrow> robots" where
  "sync_init r =
     fold add_robot [0..<r]
       \<lparr>nRobot = r, nIsRun = True, nWaitBit = 0, nCurBit = 0, bIsWait = [], held = []\<rparr>"

section \<open>Threads\<close>

text \<open>
  Where a thread is: between calls, after an exception, or before a statement of \<^verbatim>\<open>Wait\<close>,
  \<^verbatim>\<open>WakeUp\<close>, \<^verbatim>\<open>WakeUpAll\<close> or \<^verbatim>\<open>CleanUp\<close>.
\<close>

datatype point =
    Idle
  | Raised exc
  | WaitSet nat
  | WaitAcquire nat
  | WaitClear nat
  | WakeLoop nat
  | WakeTest nat
  | WakeRelease nat
  | AllReset
  | AllLoop
  | AllScan nat
  | AllRead nat
  | AllWrite nat int
  | AllRelease nat
  | CleanUp

datatype call = Wait nat | WakeUp nat | WakeUpAll | DoCleanUp

fun entry :: "call \<Rightarrow> point" where
  "entry (Wait r) = WaitSet r"
| "entry (WakeUp r) = WakeLoop r"
| "entry WakeUpAll = AllReset"
| "entry DoCleanUp = CleanUp"

definition resting :: "point \<Rightarrow> bool" where
  "resting p = (case p of Idle \<Rightarrow> True | Raised _ \<Rightarrow> True | _ \<Rightarrow> False)"

text \<open>\<^verbatim>\<open>lock[i].release()\<close>: a lock that is not held raises RuntimeError.\<close>

definition release :: "nat \<Rightarrow> point \<Rightarrow> robots \<Rightarrow> point \<times> robots" where
  "release i nxt s =
     (if i < length (held s) then
        (if held s ! i then (nxt, s\<lparr>held := (held s)[i := False]\<rparr>) else (Raised RuntimeError, s))
      else (Raised IndexError, s))"

text \<open>One statement; \<^const>\<open>None\<close> while \<^verbatim>\<open>acquire\<close> blocks.\<close>

fun exec :: "point \<Rightarrow> robots \<Rightarrow> (point \<times> robots) option" where
  "exec Idle s = None"
| "exec (Raised e) s = None"
| "exec (WaitSet r) s =
     Some (if r < length (bIsWait s) then (WaitAcquire r, s\<lparr>bIsWait := (bIsWait s)[r := True]\<rparr>)
           else (Raised IndexError, s))"
| "exec (WaitAcquire r) s =
     (if r < length (held s) then
        (if held s ! r then None else Some (WaitClear r, s\<lparr>held := (held s)[r := True]\<rparr>))
      else Some (Raised IndexError, s))"
| "exec (WaitClear r) s =
     Some (if r < length (bIsWait s) then (Idle, s\<lparr>bIsWait := (bIsWait s)[r := False]\<rparr>)
           else (Raised IndexError, s))"
| "exec (WakeLoop r) s = Some (if nIsRun s then WakeTest r else Idle, s)"
| "exec (WakeTest r) s =
     Some (if r < length (bIsWait s) then (if bIsWait s ! r then WakeRelease r else WakeLoop r)
           else Raised IndexError, s)"
| "exec (WakeRelease r) s = Some (release r Idle s)"
| "exec AllReset s = Some (AllLoop, s\<lparr>nCurBit := 0\<rparr>)"
| "exec AllLoop s = Some (if nIsRun s then AllScan 0 else AllRelease 0, s)"
| "exec (AllScan i) s =
     Some (if i < nRobot s then
             (if i < length (bIsWait s) then (if bIsWait s ! i then AllRead i else AllScan (Suc i))
              else Raised IndexError)
           else if nWaitBit s = nCurBit s then AllRelease 0 else AllLoop, s)"
| "exec (AllRead i) s = Some (AllWrite i (nCurBit s), s)"
| "exec (AllWrite i v) s = Some (AllScan (Suc i), s\<lparr>nCurBit := v OR push_bit i 1\<rparr>)"
| "exec (AllRelease i) s = Some (if i < nRobot s then release i (AllRelease (Suc i)) s else (Idle, s))"
| "exec CleanUp s = Some (Idle, s\<lparr>nIsRun := False\<rparr>)"

record conf =
  shared :: robots
  points :: "nat \<Rightarrow> point"

text \<open>\<open>sync_step c t c'\<close>: thread \<open>t\<close> starts a call, or executes its next statement.\<close>

inductive sync_step :: "conf \<Rightarrow> nat \<Rightarrow> conf \<Rightarrow> bool" where
  start_call: "resting (points c t) \<Longrightarrow>
    sync_step c t (c\<lparr>points := (points c)(t := entry k)\<rparr>)"
| run_thread: "exec (points c t) (shared c) = Some (p, s) \<Longrightarrow>
    sync_step c t \<lparr>shared = s, points = (points c)(t := p)\<rparr>"

inductive_cases sync_stepE: "sync_step c t c'"

text \<open>A run, with the configuration before each step and the thread that made it, oldest first.\<close>

inductive sync_run :: "conf \<Rightarrow> (conf \<times> nat) list \<Rightarrow> conf \<Rightarrow> bool" where
  run_start: "sync_run c [] c"
| run_step: "sync_run c tr c' \<Longrightarrow> sync_step c' t c'' \<Longrightarrow> sync_run c (tr @ [(c', t)]) c''"

definition conf_init :: "nat \<Rightarrow> conf" where
  "conf_init r = \<lparr>shared = sync_init r, points = (\<lambda>_. Idle)\<rparr>"

section \<open>The constructor\<close>

lemma fold_add_robot:
  "fold add_robot [0..<k] s =
     s\<lparr>held := held s @ replicate k False, bIsWait := bIsWait s @ replicate k False,
       nWaitBit := nWaitBit s OR mask k\<rparr>"
proof (induction k)
  case (Suc k)
  have "mask k OR push_bit k 1 = (mask (Suc k) :: int)"
    by (rule bit_eqI) (auto simp: bit_simps less_Suc_eq)
  with Suc show ?case
    by (simp add: add_robot_def replicate_append_same or.assoc)
qed simp

lemma sync_init_fields:
  "nRobot (sync_init r) = r" "nIsRun (sync_init r)" "nWaitBit (sync_init r) = mask r"
  "nCurBit (sync_init r) = 0" "bIsWait (sync_init r) = replicate r False"
  "held (sync_init r) = replicate r False"
  by (simp_all add: sync_init_def fold_add_robot)

lemma sync_init_eq:
  "sync_init r = \<lparr>nRobot = r, nIsRun = True, nWaitBit = mask r, nCurBit = 0,
     bIsWait = replicate r False, held = replicate r False\<rparr>"
  by (simp add: sync_init_def fold_add_robot)

section \<open>Schedules\<close>

text \<open>A run computed from a list of threads: one that starts a call, or goes on.\<close>

fun next_conf :: "nat \<Rightarrow> call option \<Rightarrow> conf \<Rightarrow> conf option" where
  "next_conf t (Some k) c =
     (if resting (points c t) then Some (c\<lparr>points := (points c)(t := entry k)\<rparr>) else None)"
| "next_conf t None c =
     (case exec (points c t) (shared c) of
        None \<Rightarrow> None
      | Some (p, s) \<Rightarrow> Some \<lparr>shared = s, points = (points c)(t := p)\<rparr>)"

fun schedule :: "(nat \<times> call option) list \<Rightarrow> conf \<Rightarrow> ((conf \<times> nat) list \<times> conf) option" where
  "schedule [] c = Some ([], c)"
| "schedule ((t, k) # es) c =
     (case next_conf t k c of
        None \<Rightarrow> None
      | Some c' \<Rightarrow> (case schedule es c' of
            None \<Rightarrow> None
          | Some (tr, c'') \<Rightarrow> Some ((c, t) # tr, c'')))"

lemma next_conf_step: "next_conf t k c = Some c' \<Longrightarrow> sync_step c t c'"
  by (cases "(t, k, c)" rule: next_conf.cases)
    (auto intro: sync_step.intros split: if_splits option.splits)

lemma schedule_run:
  assumes "schedule es c = Some (tr, c')" and "sync_run c0 tr0 c"
  shows "sync_run c0 (tr0 @ tr) c'"
  using assms
proof (induction es c arbitrary: tr tr0 rule: schedule.induct)
  case (2 t k es c)
  from "2.prems"(1) obtain d tr1 where d: "next_conf t k c = Some d"
    and tr1: "schedule es d = Some (tr1, c')" and tr: "tr = (c, t) # tr1"
    by (auto split: option.splits)
  have "sync_run c0 (tr0 @ [(c, t)]) d"
    by (rule run_step [OF "2.prems"(2) next_conf_step [OF d]])
  from "2.IH" [OF d tr1 this] tr show ?case by simp
qed simp

lemmas scheduled = schedule_run [OF _ run_start, simplified]

section \<open>The invariant\<close>

text \<open>The object's fields fit together, and so do the values threads hold.\<close>

definition robots_ok :: "nat \<Rightarrow> robots \<Rightarrow> bool" where
  "robots_ok r s \<longleftrightarrow>
     nRobot s = r \<and> nWaitBit s = mask r \<and> length (bIsWait s) = r \<and> length (held s) = r \<and>
     take_bit r (nCurBit s) = nCurBit s"

definition point_ok :: "nat \<Rightarrow> point \<Rightarrow> bool" where
  "point_ok r p = (case p of
       WaitAcquire i \<Rightarrow> i < r
     | WaitClear i \<Rightarrow> i < r
     | WakeRelease i \<Rightarrow> i < r
     | AllRead i \<Rightarrow> i < r
     | AllWrite i v \<Rightarrow> i < r \<and> take_bit r v = v
     | _ \<Rightarrow> True)"

lemma take_bit_or_push:
  assumes "i < r" and "take_bit r v = (v :: int)"
  shows "take_bit r (v OR push_bit i 1) = v OR push_bit i 1"
proof -
  have "take_bit r (push_bit i 1 :: int) = push_bit i 1"
    using assms(1) by (intro bit_eqI) (auto simp: bit_simps)
  with assms(2) show ?thesis by (simp add: take_bit_or)
qed

lemma exec_ok:
  assumes "exec p s = Some (p', s')" and "robots_ok r s" and "point_ok r p"
  shows "robots_ok r s' \<and> point_ok r p'"
  using assms
  by (cases p)
    (auto simp: robots_ok_def point_ok_def release_def take_bit_or_push split: if_splits)

lemma resting_ok: "resting p \<Longrightarrow> point_ok r p"
  by (auto simp: resting_def point_ok_def split: point.splits)

lemma entry_ok: "point_ok r (entry k)"
  by (cases k) (auto simp: point_ok_def)

definition conf_ok :: "nat \<Rightarrow> conf \<Rightarrow> bool" where
  "conf_ok r c \<longleftrightarrow> robots_ok r (shared c) \<and> (\<forall>t. point_ok r (points c t))"

lemma conf_init_ok: "conf_ok r (conf_init r)"
  by (auto simp: conf_ok_def conf_init_def robots_ok_def point_ok_def sync_init_fields)

lemma sync_step_ok:
  assumes "sync_step c t c'" and "conf_ok r c"
  shows "conf_ok r c'"
  using assms
  by (elim sync_stepE) (auto simp: conf_ok_def entry_ok dest!: exec_ok)

lemma sync_run_ok:
  assumes "sync_run c tr c'" and "conf_ok r c"
  shows "conf_ok r c'"
  using assms by induction (auto intro: sync_step_ok)

section \<open>Locks\<close>

text \<open>
  The acquisitions and the releases of a lock in a run: a release of a lock that is not held
  raises and does not count.
\<close>

definition acquired :: "nat \<Rightarrow> (conf \<times> nat) list \<Rightarrow> nat" where
  "acquired i tr = length (filter (\<lambda>(c, t). points c t = WaitAcquire i) tr)"

definition released :: "nat \<Rightarrow> (conf \<times> nat) list \<Rightarrow> nat" where
  "released i tr =
     length (filter (\<lambda>(c, t). points c t \<in> {WakeRelease i, AllRelease i} \<and> held (shared c) ! i) tr)"

lemma exec_held:
  assumes "exec p s = Some (p', s')" and "robots_ok r s" and "i < r"
  shows "of_bool (p = WaitAcquire i) + of_bool (held s ! i) =
         of_bool (p \<in> {WakeRelease i, AllRelease i} \<and> held s ! i) + (of_bool (held s' ! i) :: nat)"
  using assms
  by (cases p) (auto simp: robots_ok_def release_def nth_list_update split: if_splits)

lemma locks_accounted:
  assumes "sync_run c0 tr c" and "conf_ok r c0" and "i < r"
  shows "of_bool (held (shared c0) ! i) + acquired i tr = released i tr + of_bool (held (shared c) ! i)"
  using assms
proof induction
  case (run_start c)
  then show ?case by (simp add: acquired_def released_def)
next
  case (run_step c0 tr c t c')
  from run_step have ok: "robots_ok r (shared c)"
    by (auto dest: sync_run_ok simp: conf_ok_def)
  from run_step have IH: "of_bool (held (shared c0) ! i) + acquired i tr =
    released i tr + of_bool (held (shared c) ! i)" by simp
  from \<open>sync_step c t c'\<close> show ?case
  proof (rule sync_stepE)
    fix k
    assume "c' = c\<lparr>points := (points c)(t := entry k)\<rparr>" and "resting (points c t)"
    with IH show ?thesis
      by (auto simp: acquired_def released_def resting_def split: point.splits)
  next
    fix p s
    assume c': "c' = \<lparr>shared = s, points = (points c)(t := p)\<rparr>"
      and ex: "exec (points c t) (shared c) = Some (p, s)"
    from exec_held [OF ex ok \<open>i < r\<close>] IH c' show ?thesis
      by (auto simp: acquired_def released_def of_bool_def split: if_splits)
  qed
qed

section \<open>Waking all robots\<close>

text \<open>The robots some configuration of a run had waiting, and the bits that stand for them.\<close>

definition seen_waiting :: "(conf \<times> nat) list \<Rightarrow> nat \<Rightarrow> bool" where
  "seen_waiting tr i \<longleftrightarrow> (\<exists>(c, t) \<in> set tr. bIsWait (shared c) ! i)"

definition bits_seen :: "nat \<Rightarrow> (conf \<times> nat) list \<Rightarrow> int \<Rightarrow> bool" where
  "bits_seen r tr v \<longleftrightarrow> (\<forall>i<r. bit v i \<longrightarrow> seen_waiting tr i)"

definition waking_all :: "point \<Rightarrow> bool" where
  "waking_all p = (case p of
       AllReset \<Rightarrow> True | AllLoop \<Rightarrow> True | AllScan _ \<Rightarrow> True | AllRead _ \<Rightarrow> True | AllWrite _ _ \<Rightarrow> True
     | AllRelease _ \<Rightarrow> True | _ \<Rightarrow> False)"

text \<open>What a thread in \<^verbatim>\<open>WakeUpAll\<close> knows about the flags it has read.\<close>

fun knows :: "nat \<Rightarrow> (conf \<times> nat) list \<Rightarrow> robots \<Rightarrow> point \<Rightarrow> bool" where
  "knows r tr s AllLoop = bits_seen r tr (nCurBit s)"
| "knows r tr s (AllScan i) = bits_seen r tr (nCurBit s)"
| "knows r tr s (AllRead i) = (bits_seen r tr (nCurBit s) \<and> seen_waiting tr i)"
| "knows r tr s (AllWrite i v) = (bits_seen r tr v \<and> seen_waiting tr i)"
| "knows r tr s (AllRelease i) = (nIsRun s \<longrightarrow> bits_seen r tr (mask r))"
| "knows r tr s p = True"

lemma bits_seen_mono: "bits_seen r tr v \<Longrightarrow> bits_seen r (tr @ es) v"
  by (auto simp: bits_seen_def seen_waiting_def)

lemma seen_waiting_mono: "seen_waiting tr i \<Longrightarrow> seen_waiting (tr @ es) i"
  by (auto simp: seen_waiting_def)

lemma seen_waiting_here: "bIsWait (shared c) ! i \<Longrightarrow> seen_waiting (tr @ [(c, t)]) i"
  by (auto simp: seen_waiting_def)

lemma bits_seen_zero: "bits_seen r tr 0"
  by (simp add: bits_seen_def)

lemma bits_seen_add:
  "bits_seen r tr v \<Longrightarrow> seen_waiting tr i \<Longrightarrow> bits_seen r (tr @ es) (v OR 2 ^ i)"
  by (auto simp: bits_seen_def seen_waiting_def bit_or_iff bit_exp_iff)

lemmas seen_intros = bits_seen_mono seen_waiting_mono seen_waiting_here bits_seen_zero bits_seen_add

text \<open>A step of the thread itself, and one of another thread that is not in \<^verbatim>\<open>WakeUpAll\<close>.\<close>

lemma knows_own_step:
  assumes "exec p (shared c) = Some (p', s')" and "robots_ok r (shared c)"
    and "knows r tr (shared c) p"
  shows "knows r (tr @ [(c, t)]) s' p'"
  using assms
  by (cases p) (auto simp: release_def robots_ok_def intro: seen_intros split: if_splits)

lemma exec_keeps_bits:
  assumes "exec p s = Some (p', s')" and "\<not> waking_all p"
  shows "nCurBit s' = nCurBit s \<and> (nIsRun s' \<longrightarrow> nIsRun s)"
  using assms by (cases p) (auto simp: release_def waking_all_def split: if_splits)

lemma knows_other_step:
  assumes "nCurBit s' = nCurBit s" and "nIsRun s' \<longrightarrow> nIsRun s" and "knows r tr s p"
  shows "knows r (tr @ es) s' p"
  using assms by (cases p) (auto intro: seen_intros)

lemma knows_entry: "knows r tr s (entry k)"
  by (cases k) simp_all

lemma sync_run_knows:
  assumes "sync_run c0 tr c" and "conf_ok r c0" and "points c0 t0 = AllReset"
    and "\<forall>(d, t) \<in> set tr. t \<noteq> t0 \<longrightarrow> \<not> waking_all (points d t)"
  shows "knows r tr (shared c) (points c t0)"
  using assms
proof induction
  case (run_start c)
  then show ?case by simp
next
  case (run_step c0 tr c t c')
  from run_step have ok: "robots_ok r (shared c)" and IH: "knows r tr (shared c) (points c t0)"
    by (auto dest: sync_run_ok simp: conf_ok_def)
  from \<open>sync_step c t c'\<close> show ?case
  proof (rule sync_stepE)
    fix k
    assume "c' = c\<lparr>points := (points c)(t := entry k)\<rparr>"
    with knows_other_step [OF refl _ IH] show ?thesis by (simp add: knows_entry)
  next
    fix p s
    assume c': "c' = \<lparr>shared = s, points = (points c)(t := p)\<rparr>"
      and ex: "exec (points c t) (shared c) = Some (p, s)"
    show ?thesis
    proof (cases "t = t0")
      case True
      with knows_own_step [OF _ ok IH] ex c' show ?thesis by simp
    next
      case False
      with run_step.prems(3) have "\<not> waking_all (points c t)" by simp
      from exec_keeps_bits [OF ex this] knows_other_step [OF _ _ IH] False c' show ?thesis by simp
    qed
  qed
qed

section \<open>A thread alone\<close>

text \<open>The statements one thread executes while the others do nothing.\<close>

inductive alone :: "point \<Rightarrow> robots \<Rightarrow> point \<Rightarrow> robots \<Rightarrow> bool" where
  alone_start: "alone p s p s"
| alone_step: "exec p s = Some (p', s') \<Longrightarrow> alone p' s' q u \<Longrightarrow> alone p s q u"

lemma alone_trans:
  assumes "alone p s p' s'" and "alone p' s' q u"
  shows "alone p s q u"
  using assms by induction (auto intro: alone_step)

lemma alone_run:
  assumes "alone p s q u" and "points c t = p" and "shared c = s" and "sync_run c0 tr0 c"
  shows "\<exists>tr. (\<forall>(d, v) \<in> set tr. v = t) \<and>
    sync_run c0 (tr0 @ tr) \<lparr>shared = u, points = (points c)(t := q)\<rparr>"
  using assms
proof (induction arbitrary: c tr0)
  case (alone_start p s)
  then have "\<lparr>shared = s, points = (points c)(t := p)\<rparr> = c" by (cases c) (auto simp: fun_upd_idem)
  with alone_start show ?case by (intro exI [of _ "[]"]) (simp del: fun_upd_apply)
next
  case (alone_step p s p' s' q u)
  let ?c = "\<lparr>shared = s', points = (points c)(t := p')\<rparr>"
  have "points ?c t = p'" and "shared ?c = s'" by simp_all
  moreover have "sync_run c0 (tr0 @ [(c, t)]) ?c"
    using alone_step by (auto intro: run_step run_thread)
  ultimately obtain tr where "\<forall>(d, v) \<in> set tr. v = t" and
    "sync_run c0 ((tr0 @ [(c, t)]) @ tr) \<lparr>shared = u, points = (points ?c)(t := q)\<rparr>"
    using alone_step.IH by blast
  then have "(\<forall>(d, v) \<in> set ((c, t) # tr). v = t) \<and>
      sync_run c0 (tr0 @ (c, t) # tr) \<lparr>shared = u, points = (points c)(t := q)\<rparr>" by simp
  then show ?case by (rule exI)
qed

text \<open>The scan of \<^verbatim>\<open>WakeUpAll\<close> over robots that all wait, and the release of all locks.\<close>

lemma mask_add: "mask k OR 2 ^ k = (mask (Suc k) :: int)"
  by (rule bit_eqI) (auto simp: bit_simps less_Suc_eq)

lemma alone_one: "exec p s = Some (p', s') \<Longrightarrow> alone p s p' s'"
  by (rule alone_step [OF _ alone_start])

lemma alone_scan:
  assumes "robots_ok r s" and "\<forall>i<r. bIsWait s ! i" and "k \<le> r"
  shows "alone (AllScan 0) (s\<lparr>nCurBit := 0\<rparr>) (AllScan k) (s\<lparr>nCurBit := mask k\<rparr>)"
  using \<open>k \<le> r\<close>
proof (induction k)
  case 0
  show ?case by (simp add: alone_start)
next
  case (Suc k)
  let ?s = "s\<lparr>nCurBit := mask k\<rparr>"
  have "exec (AllScan k) ?s = Some (AllRead k, ?s)"
    using assms(1,2) Suc.prems by (simp add: robots_ok_def)
  moreover have "exec (AllRead k) ?s = Some (AllWrite k (mask k), ?s)" by simp
  moreover have "exec (AllWrite k (mask k)) ?s = Some (AllScan (Suc k), s\<lparr>nCurBit := mask (Suc k)\<rparr>)"
    by (simp add: mask_add)
  ultimately have "alone (AllScan k) ?s (AllScan (Suc k)) (s\<lparr>nCurBit := mask (Suc k)\<rparr>)"
    by (rule alone_step [OF _ alone_step [OF _ alone_one]])
  moreover have "alone (AllScan 0) (s\<lparr>nCurBit := 0\<rparr>) (AllScan k) ?s"
    using Suc by simp
  ultimately show ?case by (rule alone_trans [rotated])
qed

lemma release_rest:
  assumes "k < length xs"
  shows "take (Suc k) (xs[k := False]) @ replicate (length xs - Suc k) False =
         take k xs @ replicate (length xs - k) False"
  using assms by (intro nth_equalityI) (auto simp: nth_append nth_list_update)

lemma alone_releases:
  assumes "nRobot s = length (held s)" and "\<forall>i. k \<le> i \<and> i < length (held s) \<longrightarrow> held s ! i"
    and "k \<le> length (held s)"
  shows "alone (AllRelease k) s Idle
    (s\<lparr>held := take k (held s) @ replicate (length (held s) - k) False\<rparr>)"
  using assms
proof (induction "length (held s) - k" arbitrary: k s)
  case 0
  then have "exec (AllRelease k) s = Some (Idle, s)" by simp
  with 0 show ?case by (simp add: alone_one)
next
  case (Suc n)
  let ?s = "s\<lparr>held := (held s)[k := False]\<rparr>"
  from Suc.hyps(2) have k: "k < length (held s)" by simp
  with Suc.prems have "exec (AllRelease k) s = Some (AllRelease (Suc k), ?s)"
    by (simp add: release_def)
  moreover have "alone (AllRelease (Suc k)) ?s Idle
      (?s\<lparr>held := take (Suc k) (held ?s) @ replicate (length (held ?s) - Suc k) False\<rparr>)"
    using Suc.prems Suc.hyps(2) k by (intro Suc.hyps(1)) (simp_all add: nth_list_update)
  ultimately have "alone (AllRelease k) s Idle
      (?s\<lparr>held := take (Suc k) (held ?s) @ replicate (length (held ?s) - Suc k) False\<rparr>)"
    by (rule alone_step)
  with release_rest [OF k] show ?case by simp
qed

lemma alone_wake_all:
  assumes ok: "robots_ok r s" and run: "nIsRun s"
    and "\<forall>i<r. bIsWait s ! i" and "\<forall>i<r. held s ! i"
  shows "alone AllReset s Idle (s\<lparr>nCurBit := mask r, held := replicate r False\<rparr>)"
proof -
  have "exec AllReset s = Some (AllLoop, s\<lparr>nCurBit := 0\<rparr>)"
    and "exec AllLoop (s\<lparr>nCurBit := 0\<rparr>) = Some (AllScan 0, s\<lparr>nCurBit := 0\<rparr>)"
    using run by simp_all
  then have "alone AllReset s (AllScan 0) (s\<lparr>nCurBit := 0\<rparr>)"
    by (rule alone_step [OF _ alone_one])
  moreover have "alone (AllScan 0) (s\<lparr>nCurBit := 0\<rparr>) (AllScan r) (s\<lparr>nCurBit := mask r\<rparr>)"
    using alone_scan [OF ok assms(3)] by simp
  moreover have "alone (AllScan r) (s\<lparr>nCurBit := mask r\<rparr>) (AllRelease 0) (s\<lparr>nCurBit := mask r\<rparr>)"
    using ok by (intro alone_one) (simp add: robots_ok_def)
  moreover have "alone (AllRelease 0) (s\<lparr>nCurBit := mask r\<rparr>) Idle
      (s\<lparr>nCurBit := mask r, held := replicate r False\<rparr>)"
    using alone_releases [of "s\<lparr>nCurBit := mask r\<rparr>" 0] ok assms(4) by (simp add: robots_ok_def)
  ultimately show ?thesis by (blast intro: alone_trans)
qed

end
