(* ===== verification/SyncProperties.thy ===== *)
theory SyncProperties
  imports RobotSync
begin

text \<open>Properties of the synchronisation of robots, for every interleaving of its threads.\<close>

text \<open>C23: whatever the threads call and however their statements interleave, the lists and bit
  masks of the object keep the size its constructor gave them, and a lock is acquired exactly as
  often as it is released, once more while it is held. So the calls of \<^verbatim>\<open>Wait\<close> for a robot that get
  past its lock are at most one more than the wake-ups of that robot.\<close>

theorem locks_balance:
  assumes "sync_run (conf_init r) tr c" and "i < r"
  shows "robots_ok r (shared c) \<and> acquired i tr = released i tr + of_bool (held (shared c) ! i)"
proof
  show "robots_ok r (shared c)"
    using sync_run_ok [OF assms(1) conf_init_ok] by (simp add: conf_ok_def)
  show "acquired i tr = released i tr + of_bool (held (shared c) ! i)"
    using locks_accounted [OF assms(1) conf_init_ok assms(2)] assms(2)
    by (simp add: conf_init_def sync_init_fields)
qed

lemma locks_balance_witness:
  "\<exists>tr c. sync_run (conf_init 1) tr c \<and> acquired 0 tr = 1 \<and>
     1 = released 0 tr + of_bool (held (shared c) ! 0)"
proof -
  obtain tr c where run: "schedule [(0, Some (Wait 0)), (0, None), (0, None)] (conf_init 1) = Some (tr, c)"
    and one: "acquired 0 tr = 1"
    by (auto simp: conf_init_def sync_init_eq resting_def acquired_def)
  from locks_balance [OF scheduled [OF run], of 0] one scheduled [OF run] show ?thesis
    by (intro exI [of _ tr] exI [of _ c]) simp
qed

text \<open>C24: a thread that is releasing the locks in \<^verbatim>\<open>WakeUpAll\<close> while \<^verbatim>\<open>CleanUp\<close> has not been called
  has seen every robot waiting since the call began, as long as no other thread is inside
  \<^verbatim>\<open>WakeUpAll\<close>; other threads may call anything else meanwhile.\<close>

theorem wake_all_is_a_barrier:
  assumes "sync_run (conf_init r) tr0 c0" and "points c0 t0 = AllReset"
    and "sync_run c0 tr c" and "points c t0 = AllRelease k" and "nIsRun (shared c)"
    and "\<forall>(d, t) \<in> set tr. t \<noteq> t0 \<longrightarrow> \<not> waking_all (points d t)"
    and "i < r"
  shows "seen_waiting tr i"
  using sync_run_knows [OF assms(3) sync_run_ok [OF assms(1) conf_init_ok] assms(2,6)] assms(4,5,7)
  by (simp add: bits_seen_def bit_mask_iff)

lemma wake_all_is_a_barrier_witness:
  "\<exists>tr. seen_waiting tr 0 \<and> tr \<noteq> []"
proof -
  let ?calls = "[(0, Some (Wait 0)), (0, None), (0, None), (0, None), (0, Some (Wait 0)), (0, None),
    (1, Some WakeUpAll)]"
  let ?wakes = "[(1, None), (1, None), (1, None), (1, None), (1, None), (1, None)]"
  obtain tr0 c0 where c0: "schedule ?calls (conf_init 1) = Some (tr0, c0)" "points c0 1 = AllReset"
    and shared: "shared c0 = \<lparr>nRobot = 1, nIsRun = True, nWaitBit = mask 1, nCurBit = 0,
      bIsWait = [True], held = [True]\<rparr>"
    by (auto simp: conf_init_def sync_init_eq resting_def)
  obtain tr c where c: "schedule ?wakes c0 = Some (tr, c)" "points c 1 = AllRelease 0"
    "nIsRun (shared c)" "\<forall>(d, t) \<in> set tr. t = 1" "tr \<noteq> []"
    using c0(2) by (simp add: shared)
  from wake_all_is_a_barrier [OF scheduled [OF c0(1)] c0(2) scheduled [OF c(1)] c(2,3), of 0] c(4,5)
  show ?thesis by fastforce
qed

text \<open>C25: when every robot waits at its lock, \<^verbatim>\<open>WakeUpAll\<close> returns: run on from there, it alone
  leads to the end of the call with every lock released.\<close>

theorem wake_all_returns:
  assumes "sync_run (conf_init r) tr c" and "points c t = AllReset" and "nIsRun (shared c)"
    and "\<forall>i<r. bIsWait (shared c) ! i \<and> held (shared c) ! i"
  shows "\<exists>tr' s. (\<forall>(d, u) \<in> set tr'. u = t) \<and>
    sync_run (conf_init r) (tr @ tr') \<lparr>shared = s, points = (points c)(t := Idle)\<rparr> \<and>
    held s = replicate r False"
proof -
  from sync_run_ok [OF assms(1) conf_init_ok] have "robots_ok r (shared c)"
    by (simp add: conf_ok_def)
  with assms have "alone AllReset (shared c) Idle
      (shared c\<lparr>nCurBit := mask r, held := replicate r False\<rparr>)"
    by (intro alone_wake_all) simp_all
  from alone_run [OF this assms(2) refl assms(1)] show ?thesis by fastforce
qed

lemma wake_all_returns_witness:
  "\<exists>tr c. sync_run (conf_init 1) tr c \<and> points c 1 = Idle \<and> held (shared c) = [False]"
proof -
  let ?calls = "[(0, Some (Wait 0)), (0, None), (0, None), (0, None), (0, Some (Wait 0)), (0, None),
    (1, Some WakeUpAll)]"
  obtain tr c where c: "schedule ?calls (conf_init 1) = Some (tr, c)" "points c 1 = AllReset"
    "nIsRun (shared c)" "\<forall>i<1. bIsWait (shared c) ! i \<and> held (shared c) ! i"
    by (auto simp: conf_init_def sync_init_eq resting_def)
  from wake_all_returns [OF scheduled [OF c(1)] c(2,3,4)] show ?thesis by fastforce
qed

text \<open>Three ways the calls go wrong. A wake-up between the two statements with which \<^verbatim>\<open>Wait\<close>
  announces itself and takes its lock raises RuntimeError; the first \<^verbatim>\<open>Wait\<close> for a robot returns
  although nobody wakes it, since its lock starts free; and \<^verbatim>\<open>WakeUpAll\<close> after \<^verbatim>\<open>CleanUp\<close> waits for
  nobody and raises RuntimeError when the first robot is not waiting.\<close>

theorem sync_calls_can_fail:
  "(\<exists>tr c. schedule [(0, Some (Wait 0)), (1, Some (WakeUp 0)), (0, None), (1, None), (1, None), (1, None)]
        (conf_init (Suc n)) = Some (tr, c) \<and> points c 1 = Raised RuntimeError) \<and>
   (\<exists>tr c. schedule [(0, Some (Wait 0)), (0, None), (0, None), (0, None)]
        (conf_init (Suc n)) = Some (tr, c) \<and> points c 0 = Idle \<and> released 0 tr = 0) \<and>
   (\<exists>tr c. schedule [(0, Some DoCleanUp), (0, None), (0, Some WakeUpAll), (0, None), (0, None), (0, None)]
        (conf_init (Suc n)) = Some (tr, c) \<and> points c 0 = Raised RuntimeError)"
  by (auto simp: conf_init_def sync_init_eq resting_def release_def released_def)

end
