(* ===== verification/RobotClass.thy ===== *)
theory RobotClass
  imports SystemApi CoordApi
begin

text \<open>
  The class \<^verbatim>\<open>CDsrRobot\<close> of DSR_ROBOT2.py (from line 6537), which repeats the functions of the
  module as methods: the text is the same, with clients and request objects of the object, and
  without the loops that wait for a service. What differs is which variables are read.

  The methods \<^verbatim>\<open>movejx\<close>, \<^verbatim>\<open>movel\<close>, \<^verbatim>\<open>movec\<close>, \<^verbatim>\<open>movesj\<close>, \<^verbatim>\<open>movesx\<close>, \<^verbatim>\<open>moveb\<close>, \<^verbatim>\<open>move_spiral\<close>,
  \<^verbatim>\<open>move_periodic\<close> and their asynchronous forms, \<^verbatim>\<open>mwait\<close> and \<^verbatim>\<open>set_singularity_handling\<close> call
  \<^verbatim>\<open>_movejx(...)\<close> and so on without \<^verbatim>\<open>self\<close>. Inside a method such a name is the function of the
  module, so these methods use the module's globals, its clients and its waiting loops. Only
  \<^verbatim>\<open>movej\<close> and \<^verbatim>\<open>amovej\<close> call the method of the object, \<^verbatim>\<open>self._movej\<close>, which reads the velocities,
  accelerations and blending state of \<^verbatim>\<open>self\<close>; nothing but the constructor assigns these. The
  other private methods, \<^verbatim>\<open>_movejx\<close> and so on, are part of the class but no method of it calls them:
  they are the definitions \<open>cls_x_impl\<close>, of which \<^verbatim>\<open>_movejx\<close>, \<^verbatim>\<open>_movel\<close> and \<^verbatim>\<open>_moveb\<close> read the frame of
  \<^verbatim>\<open>self\<close> and the others that of the module.

  The analog modes are those of the module. So a method whose text is that of a function reading
  only the module's variables is that function here. The request objects live as long as the
  object, but each method assigns every field it uses before a call, so they carry nothing from one
  call to the next. The clients of the class name services with a leading slash, those of the
  module without. In a method that uses clients of the object the parameter \<open>ros\<close> describes the
  services under the former names, in one that calls a function of the module under the latter.
\<close>

section \<open>The object\<close>

text \<open>The attributes, as the constructor leaves them; they have the names of the module's globals.\<close>

definition robot_init :: globals where
  "robot_init = \<lparr>
     g_blend_state = False,
     g_blend_radius = PFloat (Fin 0),
     g_velj = PList (replicate DR_VELJ_DT_LEN (PFloat (Fin 0))),
     g_accj = PList (replicate DR_VELJ_DT_LEN (PFloat (Fin 0))),
     g_velx = PList [PFloat (Fin 0), PInt DR_COND_NONE],
     g_accx = PList [PFloat (Fin 0), PInt DR_COND_NONE],
     g_coord = PInt DR_BASE,
     g_analog_output_mode_ch1 = PInt (-1),
     g_analog_output_mode_ch2 = PInt (-1)\<rparr>"

text \<open>What a method sees that reads \<^verbatim>\<open>self\<close> but the frame of the module, and one that reads both of \<^verbatim>\<open>self\<close>.\<close>

definition own_params :: "globals \<Rightarrow> world \<Rightarrow> world" where
  "own_params self w = w\<lparr>
     g_blend_state := g_blend_state self,
     g_blend_radius := g_blend_radius self,
     g_velj := g_velj self,
     g_accj := g_accj self,
     g_velx := g_velx self,
     g_accx := g_accx self\<rparr>"

definition own_frame :: "globals \<Rightarrow> world \<Rightarrow> world" where
  "own_frame self w = (own_params self w)\<lparr>g_coord := g_coord self\<rparr>"

section \<open>Motion commands\<close>

definition cls_movej_impl ::
  "ros \<Rightarrow> globals \<Rightarrow> pyval \<Rightarrow> pyval \<Rightarrow> pyval \<Rightarrow> pyval \<Rightarrow> pyval \<Rightarrow> pyval \<Rightarrow> pyval \<Rightarrow> pyval \<Rightarrow>
   pyval \<Rightarrow> pyval \<Rightarrow> pyval \<Rightarrow> int \<Rightarrow> pyval act" where
  "cls_movej_impl R self pos vel acc time radius md ra v a t r async =
     service_fun R False ''motion/move_joint''
       (\<lambda>w. movej_request R pos vel acc time radius md ra v a t r async
            (own_params self w))
       None success_code"

definition cls_movej ::
  "ros \<Rightarrow> globals \<Rightarrow> pyval \<Rightarrow> pyval \<Rightarrow> pyval \<Rightarrow> pyval \<Rightarrow> pyval \<Rightarrow> pyval \<Rightarrow> pyval \<Rightarrow> pyval \<Rightarrow>
   pyval \<Rightarrow> pyval \<Rightarrow> pyval \<Rightarrow> pyval act" where
  "cls_movej R self pos vel acc time radius md ra v a t r =
     cls_movej_impl R self pos vel acc time radius md ra v a t r 0"

definition cls_amovej ::
  "ros \<Rightarrow> globals \<Rightarrow> pyval \<Rightarrow> pyval \<Rightarrow> pyval \<Rightarrow> pyval \<Rightarrow> pyval \<Rightarrow> pyval \<Rightarrow> pyval \<Rightarrow> pyval \<Rightarrow>
   pyval \<Rightarrow> pyval \<Rightarrow> pyval \<Rightarrow> pyval act" where
  "cls_amovej R self pos vel acc time radius md ra v a t r =
     cls_movej_impl R self pos vel acc time radius md ra v a t r 1"

definition cls_movejx_impl ::
  "ros \<Rightarrow> globals \<Rightarrow> pyval \<Rightarrow> pyval \<Rightarrow> pyval \<Rightarrow> pyval \<Rightarrow> pyval \<Rightarrow> pyval \<Rightarrow> pyval \<Rightarrow> pyval \<Rightarrow>
   pyval \<Rightarrow> pyval \<Rightarrow> pyval \<Rightarrow> pyval \<Rightarrow> pyval \<Rightarrow> int \<Rightarrow> pyval act" where
  "cls_movejx_impl R self pos vel acc time radius ref md ra sol v a t r async =
     service_fun R False ''motion/move_jointx''
       (\<lambda>w. movejx_request R pos vel acc time radius ref md ra sol v a t r async
            (own_frame self w))
       None success_code"

definition cls_movejx ::
  "ros \<Rightarrow> pyval \<Rightarrow> pyval \<Rightarrow> pyval \<Rightarrow> pyval \<Rightarrow> pyval \<Rightarrow> pyval \<Rightarrow> pyval \<Rightarrow> pyval \<Rightarrow>
   pyval \<Rightarrow> pyval \<Rightarrow> pyval \<Rightarrow> pyval \<Rightarrow> pyval \<Rightarrow> pyval act" where
  "cls_movejx R pos vel acc time radius ref md ra sol v a t r =
     movejx_impl R pos vel acc time radius ref md ra sol v a t r 0"

definition cls_amovejx ::
  "ros \<Rightarrow> pyval \<Rightarrow> pyval \<Rightarrow> pyval \<Rightarrow> pyval \<Rightarrow> pyval \<Rightarrow> pyval \<Rightarrow> pyval \<Rightarrow> pyval \<Rightarrow>
   pyval \<Rightarrow> pyval \<Rightarrow> pyval \<Rightarrow> pyval \<Rightarrow> pyval \<Rightarrow> pyval act" where
  "cls_amovejx R pos vel acc time radius ref md ra sol v a t r =
     movejx_impl R pos vel acc time radius ref md ra sol v a t r 1"

definition cls_movel_impl ::
  "ros \<Rightarrow> globals \<Rightarrow> pyval \<Rightarrow> pyval \<Rightarrow> pyval \<Rightarrow> pyval \<Rightarrow> pyval \<Rightarrow> pyval \<Rightarrow> pyval \<Rightarrow> pyval \<Rightarrow>
   pyval \<Rightarrow> pyval \<Rightarrow> pyval \<Rightarrow> pyval \<Rightarrow> int \<Rightarrow> pyval act" where
  "cls_movel_impl R self pos vel acc time radius ref md ra v a t r async =
     service_fun R False ''motion/move_line''
       (\<lambda>w. movel_request R pos vel acc time radius ref md ra v a t r async
            (own_frame self w))
       None success_code"

definition cls_movel ::
  "ros \<Rightarrow> pyval \<Rightarrow> pyval \<Rightarrow> pyval \<Rightarrow> pyval \<Rightarrow> pyval \<Rightarrow> pyval \<Rightarrow> pyval \<Rightarrow> pyval \<Rightarrow>
   pyval \<Rightarrow> pyval \<Rightarrow> pyval \<Rightarrow> pyval \<Rightarrow> pyval act" where
  "cls_movel R pos vel acc time radius ref md ra v a t r =
     movel_impl R pos vel acc time radius ref md ra v a t r 0"

definition cls_amovel ::
  "ros \<Rightarrow> pyval \<Rightarrow> pyval \<Rightarrow> pyval \<Rightarrow> pyval \<Rightarrow> pyval \<Rightarrow> pyval \<Rightarrow> pyval \<Rightarrow> pyval \<Rightarrow>
   pyval \<Rightarrow> pyval \<Rightarrow> pyval \<Rightarrow> pyval \<Rightarrow> pyval act" where
  "cls_amovel R pos vel acc time radius ref md ra v a t r =
     movel_impl R pos vel acc time radius ref md ra v a t r 1"

definition cls_movec_impl ::
  "ros \<Rightarrow> globals \<Rightarrow> pyval \<Rightarrow> pyval \<Rightarrow> pyval \<Rightarrow> pyval \<Rightarrow> pyval \<Rightarrow> pyval \<Rightarrow> pyval \<Rightarrow> pyval \<Rightarrow>
   pyval \<Rightarrow> pyval \<Rightarrow> pyval \<Rightarrow> pyval \<Rightarrow> pyval \<Rightarrow> pyval \<Rightarrow> pyval \<Rightarrow> int \<Rightarrow> pyval act" where
  "cls_movec_impl R self pos1 pos2 vel acc time radius ref md angle ra v a t r an async =
     service_fun R False ''motion/move_circle''
       (\<lambda>w. movec_request R pos1 pos2 vel acc time radius ref md angle ra v a t r an async
            (own_params self w))
       None success_code"

definition cls_movec ::
  "ros \<Rightarrow> pyval \<Rightarrow> pyval \<Rightarrow> pyval \<Rightarrow> pyval \<Rightarrow> pyval \<Rightarrow> pyval \<Rightarrow> pyval \<Rightarrow> pyval \<Rightarrow>
   pyval \<Rightarrow> pyval \<Rightarrow> pyval \<Rightarrow> pyval \<Rightarrow> pyval \<Rightarrow> pyval \<Rightarrow> pyval \<Rightarrow> pyval act" where
  "cls_movec R pos1 pos2 vel acc time radius ref md angle ra v a t r an =
     movec_impl R pos1 pos2 vel acc time radius ref md angle ra v a t r an 0"

definition cls_amovec ::
  "ros \<Rightarrow> pyval \<Rightarrow> pyval \<Rightarrow> pyval \<Rightarrow> pyval \<Rightarrow> pyval \<Rightarrow> pyval \<Rightarrow> pyval \<Rightarrow> pyval \<Rightarrow>
   pyval \<Rightarrow> pyval \<Rightarrow> pyval \<Rightarrow> pyval \<Rightarrow> pyval \<Rightarrow> pyval \<Rightarrow> pyval \<Rightarrow> pyval act" where
  "cls_amovec R pos1 pos2 vel acc time radius ref md angle ra v a t r an =
     movec_impl R pos1 pos2 vel acc time radius ref md angle ra v a t r an 1"

definition cls_movesx_impl ::
  "ros \<Rightarrow> globals \<Rightarrow> pyval \<Rightarrow> pyval \<Rightarrow> pyval \<Rightarrow> pyval \<Rightarrow> pyval \<Rightarrow> pyval \<Rightarrow> pyval \<Rightarrow> pyval \<Rightarrow>
   pyval \<Rightarrow> pyval \<Rightarrow> int \<Rightarrow> pyval act" where
  "cls_movesx_impl R self pos_list vel acc time ref md vel_opt v a t async =
     service_fun R False ''motion/move_spline_task''
       (\<lambda>w. movesx_request R pos_list vel acc time ref md vel_opt v a t async
            (own_params self w))
       None success_code"

definition cls_movesx ::
  "ros \<Rightarrow> pyval \<Rightarrow> pyval \<Rightarrow> pyval \<Rightarrow> pyval \<Rightarrow> pyval \<Rightarrow> pyval \<Rightarrow> pyval \<Rightarrow> pyval \<Rightarrow>
   pyval \<Rightarrow> pyval \<Rightarrow> pyval act" where
  "cls_movesx R pos_list vel acc time ref md vel_opt v a t =
     movesx_impl R pos_list vel acc time ref md vel_opt v a t 0"

definition cls_amovesx ::
  "ros \<Rightarrow> pyval \<Rightarrow> pyval \<Rightarrow> pyval \<Rightarrow> pyval \<Rightarrow> pyval \<Rightarrow> pyval \<Rightarrow> pyval \<Rightarrow> pyval \<Rightarrow>
   pyval \<Rightarrow> pyval \<Rightarrow> pyval act" where
  "cls_amovesx R pos_list vel acc time ref md vel_opt v a t =
     movesx_impl R pos_list vel acc time ref md vel_opt v a t 1"

definition cls_moveb_impl ::
  "ros \<Rightarrow> globals \<Rightarrow> pyval \<Rightarrow> pyval \<Rightarrow> pyval \<Rightarrow> pyval \<Rightarrow> pyval \<Rightarrow> pyval \<Rightarrow> pyval \<Rightarrow> pyval \<Rightarrow>
   pyval \<Rightarrow> int \<Rightarrow> pyval act" where
  "cls_moveb_impl R self seg_list vel acc ref time md v a t async =
     service_fun R False ''motion/move_blending''
       (\<lambda>w. moveb_request R seg_list vel acc ref time md v a t async
            (own_frame self w))
       None success_code"

definition cls_moveb ::
  "ros \<Rightarrow> pyval \<Rightarrow> pyval \<Rightarrow> pyval \<Rightarrow> pyval \<Rightarrow> pyval \<Rightarrow> pyval \<Rightarrow> pyval \<Rightarrow> pyval \<Rightarrow>
   pyval \<Rightarrow> pyval act" where
  "cls_moveb R seg_list vel acc ref time md v a t =
     moveb_impl R seg_list vel acc ref time md v a t 0"

definition cls_amoveb ::
  "ros \<Rightarrow> pyval \<Rightarrow> pyval \<Rightarrow> pyval \<Rightarrow> pyval \<Rightarrow> pyval \<Rightarrow> pyval \<Rightarrow> pyval \<Rightarrow> pyval \<Rightarrow>
   pyval \<Rightarrow> pyval act" where
  "cls_amoveb R seg_list vel acc ref time md v a t =
     moveb_impl R seg_list vel acc ref time md v a t 1"

definition cls_move_spiral_impl ::
  "ros \<Rightarrow> globals \<Rightarrow> pyval \<Rightarrow> pyval \<Rightarrow> pyval \<Rightarrow> pyval \<Rightarrow> pyval \<Rightarrow> pyval \<Rightarrow> pyval \<Rightarrow> pyval \<Rightarrow>
   pyval \<Rightarrow> pyval \<Rightarrow> pyval \<Rightarrow> int \<Rightarrow> pyval act" where
  "cls_move_spiral_impl R self rev_n rmax lmax vel acc time axis ref v a t async =
     service_fun R False ''motion/move_spiral''
       (\<lambda>w. spiral_request R rev_n rmax lmax vel acc time axis ref v a t async
            (own_params self w))
       None success_code"

definition cls_move_spiral ::
  "ros \<Rightarrow> pyval \<Rightarrow> pyval \<Rightarrow> pyval \<Rightarrow> pyval \<Rightarrow> pyval \<Rightarrow> pyval \<Rightarrow> pyval \<Rightarrow> pyval \<Rightarrow>
   pyval \<Rightarrow> pyval \<Rightarrow> pyval \<Rightarrow> pyval act" where
  "cls_move_spiral R rev_n rmax lmax vel acc time axis ref v a t =
     move_spiral_impl R rev_n rmax lmax vel acc time axis ref v a t 0"

definition cls_amove_spiral ::
  "ros \<Rightarrow> pyval \<Rightarrow> pyval \<Rightarrow> pyval \<Rightarrow> pyval \<Rightarrow> pyval \<Rightarrow> pyval \<Rightarrow> pyval \<Rightarrow> pyval \<Rightarrow>
   pyval \<Rightarrow> pyval \<Rightarrow> pyval \<Rightarrow> pyval act" where
  "cls_amove_spiral R rev_n rmax lmax vel acc time axis ref v a t =
     move_spiral_impl R rev_n rmax lmax vel acc time axis ref v a t 1"

definition cls_move_periodic_impl ::
  "ros \<Rightarrow> globals \<Rightarrow> pyval \<Rightarrow> pyval \<Rightarrow> pyval \<Rightarrow> pyval \<Rightarrow> pyval \<Rightarrow> int \<Rightarrow> pyval act" where
  "cls_move_periodic_impl R self amp period atime repeat ref async =
     service_fun R False ''motion/move_periodic''
       (\<lambda>w. periodic_request R amp period atime repeat ref async
            (own_params self w))
       None success_code"

definition cls_move_periodic ::
  "ros \<Rightarrow> pyval \<Rightarrow> pyval \<Rightarrow> pyval \<Rightarrow> pyval \<Rightarrow> pyval \<Rightarrow> pyval act" where
  "cls_move_periodic R amp period atime repeat ref =
     move_periodic_impl R amp period atime repeat ref 0"

definition cls_amove_periodic ::
  "ros \<Rightarrow> pyval \<Rightarrow> pyval \<Rightarrow> pyval \<Rightarrow> pyval \<Rightarrow> pyval \<Rightarrow> pyval act" where
  "cls_amove_periodic R amp period atime repeat ref =
     move_periodic_impl R amp period atime repeat ref 1"

text \<open>
  The private method \<^verbatim>\<open>_movesj\<close> differs from the function: it sends the first velocity and acceleration as a float, to fields that are
  arrays.
\<close>

definition first_float :: "pyval \<Rightarrow> pyval res" where
  "first_float v =
     (if py_type v = TList then rbind (py_index v 0) float_field else Inr v)"

definition cls_movesj_request ::
  "ros \<Rightarrow> pyval \<Rightarrow> pyval \<Rightarrow> pyval \<Rightarrow> pyval \<Rightarrow> pyval \<Rightarrow> pyval \<Rightarrow> pyval \<Rightarrow> pyval \<Rightarrow> int \<Rightarrow> world \<Rightarrow>
   fields res" where
  "cls_movesj_request R pos_list vel acc time md v a t async w =
     rbind (check_pos_list TPosj pos_list) (\<lambda>ps.
     rbind (joint_param (g_velj w) vel v) (\<lambda>vl.
     rbind (joint_param (g_accj w) acc a) (\<lambda>ac.
     rbind (time_param time t) (\<lambda>tm.
     rbind (check_valid_vel_acc_joint vl ac tm) (\<lambda>_.
     rbind (check_mod md) (\<lambda>_.
     set_fields R ''motion/move_spline_joint''
       [(''pos'', list_to_multiarray ps),
        (''pos_cnt'', Inr (PInt (int (length ps)))),
        (''vel'', first_float vl),
        (''acc'', first_float ac),
        (''time'', float_field tm),
        (''mode'', int_field md),
        (''sync_type'', Inr (PInt async))]))))))"

definition cls_movesj_impl ::
  "ros \<Rightarrow> globals \<Rightarrow> pyval \<Rightarrow> pyval \<Rightarrow> pyval \<Rightarrow> pyval \<Rightarrow> pyval \<Rightarrow> pyval \<Rightarrow> pyval \<Rightarrow> pyval \<Rightarrow>
   int \<Rightarrow> pyval act" where
  "cls_movesj_impl R self pos_list vel acc time md v a t async =
     service_fun R False ''motion/move_spline_joint''
       (\<lambda>w. cls_movesj_request R pos_list vel acc time md v a t async (own_params self w))
       None success_code"

definition cls_movesj ::
  "ros \<Rightarrow> pyval \<Rightarrow> pyval \<Rightarrow> pyval \<Rightarrow> pyval \<Rightarrow> pyval \<Rightarrow> pyval \<Rightarrow> pyval \<Rightarrow> pyval \<Rightarrow>
   pyval act" where
  "cls_movesj R pos_list vel acc time md v a t =
     movesj_impl R pos_list vel acc time md v a t 0"

definition cls_amovesj ::
  "ros \<Rightarrow> pyval \<Rightarrow> pyval \<Rightarrow> pyval \<Rightarrow> pyval \<Rightarrow> pyval \<Rightarrow> pyval \<Rightarrow> pyval \<Rightarrow> pyval \<Rightarrow>
   pyval act" where
  "cls_amovesj R pos_list vel acc time md v a t =
     movesj_impl R pos_list vel acc time md v a t 1"

section \<open>Methods that differ otherwise\<close>

definition cls_set_robot_mode :: "ros \<Rightarrow> pyval \<Rightarrow> pyval act" where
  "cls_set_robot_mode R robot_mode =
     int_setter R False ''system/set_robot_mode'' ''robot_mode'' robot_mode"

text \<open>An older form, without the tool frame, and without the handling of exceptions.\<close>

definition cls_get_tool_force :: "ros \<Rightarrow> pyval \<Rightarrow> pyval act" where
  "cls_get_tool_force R ref =
     base_world_getter R ''aux_control/get_tool_force'' ''tool_force'' py_list ref"

text \<open>The module's frame is assigned, not the object's.\<close>

definition cls_set_ref_coord :: "ros \<Rightarrow> pyval \<Rightarrow> pyval act" where
  "cls_set_ref_coord R coord = set_ref_coord R coord"

text \<open>\<^verbatim>\<open>return 0\<close>, whatever the call came to.\<close>

definition cls_move_home :: "ros \<Rightarrow> pyval \<Rightarrow> pyval act" where
  "cls_move_home R target =
     abind (with_globals (\<lambda>w.
       rbind (default_ref (PInt 0) target) (\<lambda>tg.
       set_fields R ''motion/move_home'' [(''target'', Inr tg)]))) (\<lambda>fs.
     abind (call_service R ''motion/move_home'' fs None success_code) (\<lambda>_.
     lift_res (Inr (PInt 0))))"

text \<open>The bounds of a force must not be negative: a check the module has commented out.\<close>

definition given_nonneg :: "pyval \<Rightarrow> unit res" where
  "given_nonneg v =
     rbind (py_ne v DR_COND_NONE) (\<lambda>given.
     if given then raise_when (py_lt v 0) DR_ERROR_VALUE else Inr ())"

definition cls_force_condition_request ::
  "ros \<Rightarrow> pyval \<Rightarrow> pyval \<Rightarrow> pyval \<Rightarrow> pyval \<Rightarrow> world \<Rightarrow> fields res" where
  "cls_force_condition_request R axis mn mx ref w =
     rbind (check_int axis) (\<lambda>_.
     rbind (raise_when (py_and (py_ne axis DR_AXIS_X) (py_and (py_ne axis DR_AXIS_Y)
              (py_and (py_ne axis DR_AXIS_Z) (py_and (py_ne axis DR_AXIS_A)
              (py_and (py_ne axis DR_AXIS_B) (py_ne axis DR_AXIS_C)))))) DR_ERROR_VALUE) (\<lambda>_.
     rbind (check_num mn) (\<lambda>_.
     rbind (check_num mx) (\<lambda>_.
     rbind (raise_when (py_and (py_eq mn DR_COND_NONE) (py_eq mx DR_COND_NONE)) DR_ERROR_VALUE) (\<lambda>_.
     rbind (given_nonneg mn) (\<lambda>_.
     rbind (given_nonneg mx) (\<lambda>_.
     rbind (py_and (py_ne mn DR_COND_NONE) (py_ne mx DR_COND_NONE)) (\<lambda>both.
     rbind (if both then raise_when (num_gt mn mx) DR_ERROR_VALUE else Inr ()) (\<lambda>_.
     rbind (motion_ref w ref) (\<lambda>rf.
     rbind (is_abc axis) (\<lambda>abc.
     set_fields R ''force/check_force_condition''
       [(''axis'', Inr axis), (''min'', float_field mn), (''max'', float_field mx),
        (''ref'', Inr (if abc then PInt DR_TOOL else rf))])))))))))))"

definition cls_check_force_condition ::
  "ros \<Rightarrow> pyval \<Rightarrow> pyval \<Rightarrow> pyval \<Rightarrow> pyval \<Rightarrow> pyval act" where
  "cls_check_force_condition R axis mn mx ref =
     service_fun R False ''force/check_force_condition''
       (cls_force_condition_request R axis mn mx ref) None success_code"

text \<open>With numeric bounds it reads an attribute that does not exist, \<^verbatim>\<open>self.CheckOrientationCondition2\<close>.\<close>

definition cls_check_orientation_condition ::
  "ros \<Rightarrow> pyval \<Rightarrow> pyval \<Rightarrow> pyval \<Rightarrow> pyval \<Rightarrow> pyval \<Rightarrow> pyval \<Rightarrow> pyval act" where
  "cls_check_orientation_condition R axis mn mx ref md pos w =
     call_target R
       (rbind (orientation_target axis mn mx ref md pos w) (\<lambda>(srv, fields).
        if srv = ''force/check_orientation_condition2'' then Inl AttributeError
        else Inr (srv, fields)))
       success_code w"

section \<open>Methods with the text of a function\<close>

subsection \<open>System and auxiliary control\<close>

definition cls_get_robot_mode :: "ros \<Rightarrow> pyval act" where
  "cls_get_robot_mode R = get_robot_mode R"

definition cls_set_robot_system :: "ros \<Rightarrow> pyval \<Rightarrow> pyval act" where
  "cls_set_robot_system R robot_system = set_robot_system R robot_system"

definition cls_get_robot_system :: "ros \<Rightarrow> pyval act" where
  "cls_get_robot_system R = get_robot_system R"

definition cls_get_robot_state :: "ros \<Rightarrow> pyval act" where
  "cls_get_robot_state R = get_robot_state R"

definition cls_set_robot_speed_mode :: "ros \<Rightarrow> pyval \<Rightarrow> pyval act" where
  "cls_set_robot_speed_mode R speed_mode = set_robot_speed_mode R speed_mode"

definition cls_get_robot_speed_mode :: "ros \<Rightarrow> pyval act" where
  "cls_get_robot_speed_mode R = get_robot_speed_mode R"

definition cls_set_safe_stop_reset_type :: "ros \<Rightarrow> pyval \<Rightarrow> pyval act" where
  "cls_set_safe_stop_reset_type R reset_type = set_safe_stop_reset_type R reset_type"

definition cls_get_current_pose :: "ros \<Rightarrow> pyval \<Rightarrow> pyval act" where
  "cls_get_current_pose R space_type = get_current_pose R space_type"

definition cls_get_last_alarm :: "ros \<Rightarrow> pyval act" where
  "cls_get_last_alarm R = get_last_alarm R"

definition cls_get_control_mode :: "ros \<Rightarrow> pyval act" where
  "cls_get_control_mode R = get_control_mode R"

definition cls_get_control_space :: "ros \<Rightarrow> pyval act" where
  "cls_get_control_space R = get_control_space R"

definition cls_get_current_posj :: "ros \<Rightarrow> pyval act" where
  "cls_get_current_posj R = get_current_posj R"

definition cls_get_current_velj :: "ros \<Rightarrow> pyval act" where
  "cls_get_current_velj R = get_current_velj R"

definition cls_get_desired_posj :: "ros \<Rightarrow> pyval act" where
  "cls_get_desired_posj R = get_desired_posj R"

definition cls_get_desired_velj :: "ros \<Rightarrow> pyval act" where
  "cls_get_desired_velj R = get_desired_velj R"

definition cls_get_current_posx :: "ros \<Rightarrow> pyval \<Rightarrow> pyval act" where
  "cls_get_current_posx R ref = get_current_posx R ref"

definition cls_get_current_tool_flange_posx ::
  "ros \<Rightarrow> pyval \<Rightarrow> pyval act" where
  "cls_get_current_tool_flange_posx R ref = get_current_tool_flange_posx R ref"

definition cls_get_current_velx :: "ros \<Rightarrow> pyval \<Rightarrow> pyval act" where
  "cls_get_current_velx R ref = get_current_velx R ref"

definition cls_get_desired_posx :: "ros \<Rightarrow> pyval \<Rightarrow> pyval act" where
  "cls_get_desired_posx R ref = get_desired_posx R ref"

definition cls_get_desired_velx :: "ros \<Rightarrow> pyval \<Rightarrow> pyval act" where
  "cls_get_desired_velx R ref = get_desired_velx R ref"

definition cls_get_current_solution_space :: "ros \<Rightarrow> pyval act" where
  "cls_get_current_solution_space R = get_current_solution_space R"

definition cls_get_current_rotm :: "ros \<Rightarrow> pyval \<Rightarrow> pyval act" where
  "cls_get_current_rotm R ref = get_current_rotm R ref"

definition cls_get_joint_torque :: "ros \<Rightarrow> pyval act" where
  "cls_get_joint_torque R = get_joint_torque R"

definition cls_get_external_torque :: "ros \<Rightarrow> pyval act" where
  "cls_get_external_torque R = get_external_torque R"

definition cls_get_solution_space :: "ros \<Rightarrow> pyval \<Rightarrow> pyval act" where
  "cls_get_solution_space R pos = get_solution_space R pos"

definition cls_get_orientation_error ::
  "ros \<Rightarrow> pyval \<Rightarrow> pyval \<Rightarrow> pyval \<Rightarrow> pyval act" where
  "cls_get_orientation_error R xd xc axis = get_orientation_error R xd xc axis"

subsection \<open>Motion\<close>

definition cls_trans_pose ::
  "ros \<Rightarrow> pyval \<Rightarrow> pyval \<Rightarrow> pyval \<Rightarrow> pyval \<Rightarrow> pyval act" where
  "cls_trans_pose R pos delta ref ref_out = trans_pose R pos delta ref ref_out"

definition cls_fkin :: "ros \<Rightarrow> pyval \<Rightarrow> pyval \<Rightarrow> pyval act" where
  "cls_fkin R pos ref = fkin R pos ref"

definition cls_ikin ::
  "ros \<Rightarrow> pyval \<Rightarrow> pyval \<Rightarrow> pyval \<Rightarrow> pyval act" where
  "cls_ikin R pos sol_space ref = ikin R pos sol_space ref"

definition cls_mwait :: "ros \<Rightarrow> pyval \<Rightarrow> pyval act" where
  "cls_mwait R time = move_wait R time"

definition cls_move_wait :: "ros \<Rightarrow> pyval \<Rightarrow> pyval act" where
  "cls_move_wait R time = move_wait R time"

definition cls_check_motion :: "ros \<Rightarrow> pyval act" where
  "cls_check_motion R = check_motion R"

definition cls_change_operation_speed :: "ros \<Rightarrow> pyval \<Rightarrow> pyval act" where
  "cls_change_operation_speed R speed = change_operation_speed R speed"

definition cls_enable_alter_motion ::
  "ros \<Rightarrow> pyval \<Rightarrow> pyval \<Rightarrow> pyval \<Rightarrow> pyval \<Rightarrow> pyval \<Rightarrow> pyval act" where
  "cls_enable_alter_motion R n mode ref limit_dPOS limit_dPOS_per = enable_alter_motion R n mode ref limit_dPOS limit_dPOS_per"

definition cls_alter_motion :: "ros \<Rightarrow> pyval \<Rightarrow> pyval act" where
  "cls_alter_motion R dposx = alter_motion R dposx"

definition cls_disable_alter_motion :: "ros \<Rightarrow> pyval act" where
  "cls_disable_alter_motion R = disable_alter_motion R"

definition cls_set_singular_handling :: "ros \<Rightarrow> pyval \<Rightarrow> pyval act" where
  "cls_set_singular_handling R mode = set_singular_handling R mode"

definition cls_set_singularity_handling :: "ros \<Rightarrow> pyval \<Rightarrow> pyval act" where
  "cls_set_singularity_handling R mode = set_singular_handling R mode"

definition cls_jog ::
  "ros \<Rightarrow> pyval \<Rightarrow> pyval \<Rightarrow> pyval \<Rightarrow> pyval act" where
  "cls_jog R jog_axis ref speed = jog R jog_axis ref speed"

definition cls_jog_multi ::
  "ros \<Rightarrow> pyval \<Rightarrow> pyval \<Rightarrow> pyval \<Rightarrow> pyval act" where
  "cls_jog_multi R jog_axis_list ref speed = jog_multi R jog_axis_list ref speed"

subsection \<open>Force and coordinates\<close>

definition cls_get_workpiece_weight :: "ros \<Rightarrow> pyval act" where
  "cls_get_workpiece_weight R = get_workpiece_weight R"

definition cls_reset_workpiece_weight :: "ros \<Rightarrow> pyval act" where
  "cls_reset_workpiece_weight R = reset_workpiece_weight R"

definition cls_parallel_axis ::
  "ros \<Rightarrow> pyval list \<Rightarrow> (string \<times> pyval) list \<Rightarrow> pyval act" where
  "cls_parallel_axis R args kargs = parallel_axis R args kargs"

definition cls_align_axis ::
  "ros \<Rightarrow> pyval list \<Rightarrow> (string \<times> pyval) list \<Rightarrow> pyval act" where
  "cls_align_axis R args kargs = align_axis R args kargs"

definition cls_is_done_bolt_tightening ::
  "ros \<Rightarrow> pyval \<Rightarrow> pyval \<Rightarrow> pyval \<Rightarrow> pyval act" where
  "cls_is_done_bolt_tightening R m timeout axis = is_done_bolt_tightening R m timeout axis"

definition cls_release_compliance_ctrl :: "ros \<Rightarrow> pyval act" where
  "cls_release_compliance_ctrl R = release_compliance_ctrl R"

definition cls_task_compliance_ctrl ::
  "ros \<Rightarrow> pyval \<Rightarrow> pyval \<Rightarrow> pyval act" where
  "cls_task_compliance_ctrl R stx time = task_compliance_ctrl R stx time"

definition cls_set_stiffnessx ::
  "ros \<Rightarrow> pyval \<Rightarrow> pyval \<Rightarrow> pyval act" where
  "cls_set_stiffnessx R stx time = set_stiffnessx R stx time"

definition cls_set_desired_force ::
  "ros \<Rightarrow> pyval \<Rightarrow> pyval \<Rightarrow> pyval \<Rightarrow> pyval \<Rightarrow> pyval act" where
  "cls_set_desired_force R fd dir time md = set_desired_force R fd dir time md"

definition cls_release_force :: "ros \<Rightarrow> pyval \<Rightarrow> pyval act" where
  "cls_release_force R time = release_force R time"

definition cls_calc_coord ::
  "ros \<Rightarrow> pyval list \<Rightarrow> (string \<times> pyval) list \<Rightarrow> pyval act" where
  "cls_calc_coord R args kargs = calc_coord R args kargs"

definition cls_set_user_cart_coord ::
  "ros \<Rightarrow> pyval list \<Rightarrow> (string \<times> pyval) list \<Rightarrow> pyval act" where
  "cls_set_user_cart_coord R args kargs = set_user_cart_coord R args kargs"

definition cls_overwrite_user_cart_coord ::
  "ros \<Rightarrow> pyval \<Rightarrow> pyval \<Rightarrow> pyval \<Rightarrow> pyval \<Rightarrow> pyval act" where
  "cls_overwrite_user_cart_coord R id_n pos ref gol = overwrite_user_cart_coord R id_n pos ref gol"

definition cls_get_user_cart_coord :: "ros \<Rightarrow> pyval \<Rightarrow> pyval act" where
  "cls_get_user_cart_coord R id_n = get_user_cart_coord R id_n"

definition cls_check_position_condition ::
  "ros \<Rightarrow> pyval \<Rightarrow> pyval \<Rightarrow> pyval \<Rightarrow> pyval \<Rightarrow> pyval \<Rightarrow> pyval \<Rightarrow> pyval act" where
  "cls_check_position_condition R axis mn mx ref md pos = check_position_condition R axis mn mx ref md pos"

definition cls_coord_transform ::
  "ros \<Rightarrow> pyval \<Rightarrow> pyval \<Rightarrow> pyval \<Rightarrow> pyval act" where
  "cls_coord_transform R pose_in ref_in ref_out = coord_transform R pose_in ref_in ref_out"

subsection \<open>Input, output, tools and scripts\<close>

definition cls_get_digital_input :: "ros \<Rightarrow> pyval \<Rightarrow> pyval act" where
  "cls_get_digital_input R index = get_digital_input R index"

definition cls_get_analog_input :: "ros \<Rightarrow> pyval \<Rightarrow> pyval act" where
  "cls_get_analog_input R ch = get_analog_input R ch"

definition cls_get_tool_digital_input :: "ros \<Rightarrow> pyval \<Rightarrow> pyval act" where
  "cls_get_tool_digital_input R index = get_tool_digital_input R index"

definition cls_set_digital_output ::
  "ros \<Rightarrow> pyval \<Rightarrow> pyval \<Rightarrow> pyval act" where
  "cls_set_digital_output R index val = set_digital_output R index val"

definition cls_get_digital_output :: "ros \<Rightarrow> pyval \<Rightarrow> pyval act" where
  "cls_get_digital_output R index = get_digital_output R index"

definition cls_set_analog_output ::
  "ros \<Rightarrow> pyval \<Rightarrow> pyval \<Rightarrow> pyval act" where
  "cls_set_analog_output R ch val = set_analog_output R ch val"

definition cls_set_mode_analog_output ::
  "ros \<Rightarrow> pyval \<Rightarrow> pyval \<Rightarrow> pyval act" where
  "cls_set_mode_analog_output R ch md = set_mode_analog_output R ch md"

definition cls_set_mode_analog_input ::
  "ros \<Rightarrow> pyval \<Rightarrow> pyval \<Rightarrow> pyval act" where
  "cls_set_mode_analog_input R ch md = set_mode_analog_input R ch md"

definition cls_set_tool_digital_output ::
  "ros \<Rightarrow> pyval \<Rightarrow> pyval \<Rightarrow> pyval act" where
  "cls_set_tool_digital_output R index val = set_tool_digital_output R index val"

definition cls_get_tool_digital_output :: "ros \<Rightarrow> pyval \<Rightarrow> pyval act" where
  "cls_get_tool_digital_output R index = get_tool_digital_output R index"

definition cls_add_modbus_signal ::
  "ros \<Rightarrow> pyval \<Rightarrow> pyval \<Rightarrow> pyval \<Rightarrow> pyval \<Rightarrow> pyval \<Rightarrow> pyval \<Rightarrow> pyval \<Rightarrow> pyval act" where
  "cls_add_modbus_signal R ip port name reg_type index value_n slaveid = add_modbus_signal R ip port name reg_type index value_n slaveid"

definition cls_del_modbus_signal :: "ros \<Rightarrow> pyval \<Rightarrow> pyval act" where
  "cls_del_modbus_signal R name = del_modbus_signal R name"

definition cls_set_modbus_output ::
  "ros \<Rightarrow> pyval \<Rightarrow> pyval \<Rightarrow> pyval act" where
  "cls_set_modbus_output R iobus val = set_modbus_output R iobus val"

definition cls_get_modbus_input :: "ros \<Rightarrow> pyval \<Rightarrow> pyval act" where
  "cls_get_modbus_input R iobus = get_modbus_input R iobus"

definition cls_set_tcp :: "ros \<Rightarrow> pyval \<Rightarrow> pyval act" where
  "cls_set_tcp R name = set_tcp R name"

definition cls_get_tcp :: "ros \<Rightarrow> pyval act" where
  "cls_get_tcp R = get_tcp R"

definition cls_set_tool :: "ros \<Rightarrow> pyval \<Rightarrow> pyval act" where
  "cls_set_tool R name = set_tool R name"

definition cls_get_tool :: "ros \<Rightarrow> pyval act" where
  "cls_get_tool R = get_tool R"

definition cls_set_tool_shape :: "ros \<Rightarrow> pyval \<Rightarrow> pyval act" where
  "cls_set_tool_shape R name = set_tool_shape R name"

definition cls_add_tcp ::
  "ros \<Rightarrow> pyval \<Rightarrow> pyval \<Rightarrow> pyval act" where
  "cls_add_tcp R name pos = add_tcp R name pos"

definition cls_del_tcp :: "ros \<Rightarrow> pyval \<Rightarrow> pyval act" where
  "cls_del_tcp R name = del_tcp R name"

definition cls_add_tool ::
  "ros \<Rightarrow> pyval \<Rightarrow> pyval \<Rightarrow> pyval \<Rightarrow> pyval \<Rightarrow> pyval act" where
  "cls_add_tool R name weight cog inertia = add_tool R name weight cog inertia"

definition cls_del_tool :: "ros \<Rightarrow> pyval \<Rightarrow> pyval act" where
  "cls_del_tool R name = del_tool R name"

definition cls_drl_script_run ::
  "ros \<Rightarrow> pyval \<Rightarrow> pyval \<Rightarrow> pyval act" where
  "cls_drl_script_run R robotSystem code = drl_script_run R robotSystem code"

definition cls_drl_script_stop :: "ros \<Rightarrow> pyval \<Rightarrow> pyval act" where
  "cls_drl_script_stop R stop_mode = drl_script_stop R stop_mode"

definition cls_drl_script_pause :: "ros \<Rightarrow> pyval act" where
  "cls_drl_script_pause R = drl_script_pause R"

definition cls_drl_script_resume :: "ros \<Rightarrow> pyval act" where
  "cls_drl_script_resume R = drl_script_resume R"

definition cls_get_drl_state :: "ros \<Rightarrow> pyval act" where
  "cls_get_drl_state R = get_drl_state R"

end
