(* ===== verification/RobotSession.thy ===== *)
theory RobotSession
  imports RobotClass MotionSession
begin

text \<open>
  The motion interface of \<^verbatim>\<open>CDsrRobot\<close> as calls, programs that mix methods of an object with
  functions of the module, and how the two compare: the effect of not waiting for a service, the
  attributes that \<^verbatim>\<open>movej\<close> reads, and the private methods that no method calls.
\<close>

section \<open>Calls\<close>

text \<open>
  \<open>M\<close> describes the services under the names of the module's clients, \<open>R\<close> under those of the
  object's clients. The class has no setters: a call of one finds no attribute.
\<close>

fun run_obj :: "ros \<Rightarrow> ros \<Rightarrow> globals \<Rightarrow> api_call \<Rightarrow> pyval act" where
  "run_obj M R self (CSetRefCoord c) = cls_set_ref_coord R c"
| "run_obj M R self (CMovej asyn pos vel acc time radius md ra v a t r) =
     (if asyn then cls_amovej else cls_movej) R self pos vel acc time radius md ra v a t r"
| "run_obj M R self (CMovejx asyn pos vel acc time radius ref md ra sol v a t r) =
     (if asyn then cls_amovejx else cls_movejx) M pos vel acc time radius ref md ra sol v a t r"
| "run_obj M R self (CMovel asyn pos vel acc time radius ref md ra v a t r) =
     (if asyn then cls_amovel else cls_movel) M pos vel acc time radius ref md ra v a t r"
| "run_obj M R self (CMovec asyn pos1 pos2 vel acc time radius ref md angle ra v a t r an) =
     (if asyn then cls_amovec else cls_movec) M pos1 pos2 vel acc time radius ref md angle ra
       v a t r an"
| "run_obj M R self (CMovesj asyn l vel acc time md v a t) =
     (if asyn then cls_amovesj else cls_movesj) M l vel acc time md v a t"
| "run_obj M R self (CMovesx asyn l vel acc time ref md vel_opt v a t) =
     (if asyn then cls_amovesx else cls_movesx) M l vel acc time ref md vel_opt v a t"
| "run_obj M R self (CMoveb asyn l vel acc ref time md v a t) =
     (if asyn then cls_amoveb else cls_moveb) M l vel acc ref time md v a t"
| "run_obj M R self (CMoveSpiral asyn rev_n rmax lmax vel acc time axis ref v a t) =
     (if asyn then cls_amove_spiral else cls_move_spiral) M rev_n rmax lmax vel acc time axis
       ref v a t"
| "run_obj M R self (CMovePeriodic asyn amp period atime repeat ref) =
     (if asyn then cls_amove_periodic else cls_move_periodic) M amp period atime repeat ref"
| "run_obj M R self _ = lift_res (Inl AttributeError)"

text \<open>A step of a program that uses an object beside the functions of the module.\<close>

datatype robot_call =
    Method api_call
  | Function api_call

fun run_mixed :: "ros \<Rightarrow> ros \<Rightarrow> globals \<Rightarrow> robot_call \<Rightarrow> pyval act" where
  "run_mixed M R self (Method c) = run_obj M R self c"
| "run_mixed M R self (Function c) = run_api M c"

fun call_of :: "robot_call \<Rightarrow> api_call" where
  "call_of (Method c) = c"
| "call_of (Function c) = c"

text \<open>An argument with two names, of which one is given (or is refused before it is compared).\<close>

definition given :: "pyval \<Rightarrow> pyval \<Rightarrow> bool" where
  "given long short \<longleftrightarrow> rbind (get_param long short) py_eq_none \<noteq> Inr True"

text \<open>A call that is a method of the class, and reads no speed of the object.\<close>

fun is_method :: "api_call \<Rightarrow> bool" where
  "is_method (CSetRefCoord _) = True"
| "is_method c = is_motion c"

fun own_speeds_unread :: "api_call \<Rightarrow> bool" where
  "own_speeds_unread (CMovej _ _ vel acc _ _ _ _ v a _ _) = (given vel v \<and> given acc a)"
| "own_speeds_unread _ = True"

fun mixed_ok :: "robot_call \<Rightarrow> bool" where
  "mixed_ok (Method c) = (is_method c \<and> own_speeds_unread c)"
| "mixed_ok (Function c) = True"

fun is_movej :: "api_call \<Rightarrow> bool" where
  "is_movej (CMovej _ _ _ _ _ _ _ _ _ _ _ _) = True"
| "is_movej _ = False"

lemmas object_defs =
  cls_movejx_def cls_amovejx_def cls_movel_def cls_amovel_def cls_movec_def cls_amovec_def
  cls_movesj_def cls_amovesj_def cls_movesx_def cls_amovesx_def cls_moveb_def cls_amoveb_def
  cls_move_spiral_def cls_amove_spiral_def cls_move_periodic_def cls_amove_periodic_def
  cls_set_ref_coord_def

lemma run_obj_movej:
  "run_obj M R self (CMovej asyn pos vel acc time radius md ra v a t r) =
     service_fun R False ''motion/move_joint''
       (\<lambda>w. movej_request R pos vel acc time radius md ra v a t r (async_code asyn)
            (own_params self w))
       None success_code"
  by (simp add: cls_movej_def cls_amovej_def cls_movej_impl_def async_code_def)

text \<open>Every other method is the function of the module; only the frame's setter uses a client of the object.\<close>

lemma run_obj_other: "is_method c \<Longrightarrow> \<not> is_movej c \<Longrightarrow> run_obj R R self c = run_api R c"
  by (cases c) (auto simp: object_defs motion_defs fun_eq_iff)

section \<open>Waiting for a service\<close>

fun is_poll :: "event \<Rightarrow> bool" where
  "is_poll (Polled _ _) = True"
| "is_poll _ = False"

definition done_to :: "world \<Rightarrow> event list" where
  "done_to w = filter (\<lambda>e. \<not> is_poll e) (trace w)"

text \<open>The same result, the same globals, the same calls; only the polls differ.\<close>

definition same_world :: "world \<Rightarrow> world \<Rightarrow> bool" where
  "same_world w w' \<longleftrightarrow> globals.truncate w = globals.truncate w' \<and> done_to w = done_to w'"

fun same_outcome :: "('a res \<times> world) option \<Rightarrow> ('a res \<times> world) option \<Rightarrow> bool" where
  "same_outcome None None = True"
| "same_outcome (Some (r, w)) (Some (r', w')) = (r = r' \<and> same_world w w')"
| "same_outcome _ _ = False"

lemma same_world_refl [simp]: "same_world w w"
  by (simp add: same_world_def)

lemma same_outcome_refl [simp]: "same_outcome x x"
  by (cases x) auto

text \<open>Replies do not depend on the polls made before.\<close>

definition poll_blind :: "ros \<Rightarrow> bool" where
  "poll_blind R \<longleftrightarrow>
     (\<forall>w w' srv fs. done_to w = done_to w' \<longrightarrow>
        reply_of R (trace w) srv fs = reply_of R (trace w') srv fs)"

lemma done_to_log: "done_to (log e w) = done_to w @ (if is_poll e then [] else [e])"
  by (simp add: done_to_def)

lemma same_world_log: "same_world w w' \<Longrightarrow> same_world (log e w) (log e w')"
  by (simp add: same_world_def done_to_log)

lemma same_world_poll: "same_world (log (Polled srv b) w) w"
  by (simp add: same_world_def done_to_log)

lemma lift_res_same: "same_world w w' \<Longrightarrow> same_outcome (lift_res r w) (lift_res r w')"
  by (cases r) (auto simp: note_exc_def same_world_log)

lemma return_ret_same: "same_world w w' \<Longrightarrow> same_outcome (return_ret ret w) (return_ret ret w')"
  by (simp add: return_ret_def lift_res_same)

lemma abind_same:
  assumes "same_outcome (m w) (m w')"
    and "\<And>x u u'. same_world u u' \<Longrightarrow> same_outcome (f x u) (f x u')"
  shows "same_outcome (abind m f w) (abind m f w')"
  using assms
  by (cases "m w"; cases "m w'") (auto simp: abind_def split: sum.splits)

lemma call_service_same:
  assumes "same_world w w'" and "poll_blind R"
  shows "same_outcome (call_service R srv fs before on_result w)
    (call_service R srv fs before on_result w')"
proof -
  have "reply_of R (trace w) srv fs = reply_of R (trace w') srv fs"
    using assms unfolding poll_blind_def same_world_def by blast
  with same_world_log [OF assms(1)] show ?thesis
    by (auto simp: call_service_def Let_def lift_res_same split: reply.splits)
qed

lemma service_fun_same:
  assumes "\<And>tr. available R tr srv" and "poll_blind R" and "same_world w w'"
    and "request w = request' w'"
  shows "same_outcome (service_fun R waits srv request before on_result w)
    (service_fun R waits' srv request' before on_result w')"
proof (cases "request w")
  case (Inl e)
  with assms(4) have "request' w' = Inl e" by simp
  with Inl lift_res_same [OF assms(3), of "Inl e"] show ?thesis
    by (simp add: service_fun_raises)
next
  case (Inr fs)
  have call: "same_outcome (abind (call_service R srv fs before on_result) return_ret u)
      (abind (call_service R srv fs before on_result) return_ret u')" if "same_world u u'" for u u'
    using that assms(2) by (intro abind_same call_service_same return_ret_same)
  have polled: "same_world (log (Polled srv True) w) w'" "same_world w (log (Polled srv True) w')"
    using assms(3) same_world_poll [of srv True] by (simp_all add: same_world_def)
  from call [OF polled(1)] call [OF polled(2)] call [OF assms(3)]
    call [OF same_world_log [OF assms(3), of "Polled srv True"]] Inr assms(1,4)
  show ?thesis
    by (cases waits; cases waits') (simp_all add: service_fun_def abind_def with_globals_def
        await_service_def wait_for_service.simps)
qed

section \<open>The private method for splines\<close>

lemma joint_param_list:
  assumes "joint_param dflt long short = Inr v" and "py_type dflt = TList"
  shows "py_type v = TList"
  using assms
  by (auto simp: joint_param_def choose_param_def rbind_Inr_iff is_list_of_len_iff split: if_splits)

text \<open>The generated setter of an array refuses a float.\<close>

lemma cls_movesj_request_refused:
  assumes "\<And>f. \<not> setter_ok R ''motion/move_spline_joint'' ''vel'' (PFloat f)"
    and "py_type (g_velj w) = TList"
  shows "\<exists>e. cls_movesj_request R l vel acc time md v a t asyn w = Inl e"
proof (cases "cls_movesj_request R l vel acc time md v a t asyn w")
  case (Inr fs)
  then obtain vl u where vl: "joint_param (g_velj w) vel v = Inr vl" "first_float vl = Inr u"
    and ok: "setter_ok R ''motion/move_spline_joint'' ''vel'' u"
    by (auto simp: cls_movesj_request_def rbind_Inr_iff set_fields_Inr_Cons
        simp del: set_fields.simps)
  from joint_param_list [OF vl(1) assms(2)] vl(2) obtain f where "u = PFloat f"
    by (auto simp: first_float_def rbind_Inr_iff float_field_def)
  with ok assms(1) show ?thesis by simp
qed simp

lemma cls_movesj_refused:
  assumes "\<And>f. \<not> setter_ok R ''motion/move_spline_joint'' ''vel'' (PFloat f)"
  shows "\<exists>e. cls_movesj_impl R robot_init l vel acc time md v a t asyn w = Some (Inl e, note_exc e w)"
proof -
  have "py_type (g_velj (own_params robot_init w)) = TList"
    by (simp add: own_params_def robot_init_def)
  from cls_movesj_request_refused [OF assms this, of l vel acc time md v a t asyn]
  obtain e where "cls_movesj_request R l vel acc time md v a t asyn (own_params robot_init w) = Inl e" ..
  then show ?thesis by (simp add: cls_movesj_impl_def service_fun_raises)
qed

section \<open>Programs of motion commands\<close>

lemma param_trace [simp]:
  "radius_param (w\<lparr>trace := t\<rparr>) = radius_param w" "motion_ref (w\<lparr>trace := t\<rparr>) = motion_ref w"
  by (simp_all add: radius_param_def motion_ref_def Let_def fun_eq_iff cong: if_cong)

lemma call_request_trace: "call_request R c (w\<lparr>trace := t\<rparr>) = call_request R c w"
  by (cases c)
    (simp_all add: movej_request_def movejx_request_def movel_request_def movec_request_def
      movesj_request_def movesx_request_def moveb_request_def spiral_request_def
      periodic_request_def del: set_fields.simps)

lemma same_globals_eq:
  assumes "globals.truncate w = globals.truncate (w' :: world)"
  shows "w = w'\<lparr>trace := trace w\<rparr>"
  using assms by (cases w; cases w') (simp add: globals.defs)

lemma call_request_globals:
  "globals.truncate w = globals.truncate w' \<Longrightarrow> call_request R c w = call_request R c w'"
  by (metis call_request_trace same_globals_eq)

section \<open>The attributes that movej reads\<close>

lemma joint_param_given: "given long short \<Longrightarrow> joint_param d long short = joint_param d' long short"
  by (auto simp: given_def joint_param_def choose_param_def fun_eq_iff rbind_def split: sum.splits)

lemma radius_param_unblended:
  "\<not> g_blend_state w \<Longrightarrow> \<not> g_blend_state w' \<Longrightarrow> radius_param w = radius_param w'"
  by (simp add: radius_param_def fun_eq_iff)

lemma movej_request_own:
  assumes "given vel v" and "given acc a" and "\<not> g_blend_state w"
  shows "movej_request R pos vel acc time radius md ra v a t r asyn w =
    movej_request R pos vel acc time radius md ra v a t r asyn (own_params robot_init w')"
proof -
  have "radius_param w = radius_param (own_params robot_init w')"
    using assms(3) by (intro radius_param_unblended) (simp_all add: own_params_def robot_init_def)
  then show ?thesis
    unfolding movej_request_def
    using joint_param_given [OF assms(1), of "g_velj w" "g_velj (own_params robot_init w')"]
      joint_param_given [OF assms(2), of "g_accj w" "g_accj (own_params robot_init w')"]
    by simp
qed

lemma check_items_number: "rbind (check_items b v) (\<lambda>_. Inr v) = Inr u \<Longrightarrow> u = v"
  by (auto simp: rbind_Inr_iff)

lemma joint_param_missing:
  assumes "\<not> given long short" and "joint_param d long short = Inr x"
  shows "x = d"
  using assms by (auto simp: given_def joint_param_def choose_param_def rbind_Inr_iff)

text \<open>Without a speed it sends the zeros of the constructor, and only with a time.\<close>

lemma movej_request_unset:
  assumes "movej_request R pos vel acc time radius md ra v a t r asyn (own_params robot_init w) = Inr fs"
  shows "(\<not> given vel v \<longrightarrow> fld fs ''vel'' = PFloat (Fin 0)) \<and>
    (\<not> given acc a \<longrightarrow> fld fs ''acc'' = PFloat (Fin 0)) \<and>
    (\<not> given vel v \<or> \<not> given acc a \<longrightarrow> rbind (time_param time t) time_unused = Inr False)"
proof -
  let ?z = "PList (replicate 6 (PFloat (Fin 0)))"
  have z: "g_velj (own_params robot_init w) = ?z" "g_accj (own_params robot_init w) = ?z"
    by (simp_all add: own_params_def robot_init_def)
  from assms obtain vl ac tm x y where
    vl: "joint_param ?z vel v = Inr vl" "rbind (py_index vl 0) float_field = Inr x" "fld fs ''vel'' = x"
    and ac: "joint_param ?z acc a = Inr ac" "rbind (py_index ac 0) float_field = Inr y" "fld fs ''acc'' = y"
    and tm: "time_param time t = Inr tm" "check_valid_vel_acc_joint vl ac tm = Inr ()"
    unfolding movej_request_def z
    by (auto simp: rbind_Inr_iff set_fields_Inr_Cons set_fields_Inr_Nil simp del: set_fields.simps)
  have "\<not> given vel v \<Longrightarrow> vl = ?z" "\<not> given acc a \<Longrightarrow> ac = ?z"
    using joint_param_missing vl(1) ac(1) by blast+
  moreover have "py_index ?z 0 = Inr (PFloat (Fin 0))" "float_field (PFloat (Fin 0)) = Inr (PFloat (Fin 0))"
    by (simp_all add: py_index_def float_field_def)
  moreover have "rbind (py_items ?z) all_zero = Inr True"
    by (simp add: numeral_eq_Suc)
  ultimately show ?thesis
    using vl(2,3) ac(2,3) tm
    by (auto simp: check_valid_vel_acc_joint_def rbind_Inr_iff split: if_splits)
qed

section \<open>The same outcome\<close>

lemma with_globals_same:
  "same_world w w' \<Longrightarrow> f w = f w' \<Longrightarrow> same_outcome (with_globals f w) (with_globals f w')"
  by (simp add: with_globals_def lift_res_same)

lemma update_world_same:
  "same_world (f w) (f w') \<Longrightarrow> same_outcome (update_world f w) (update_world f w')"
  by (simp add: update_world_def)

lemma same_world_update:
  assumes "same_world w w'"
  shows "same_world (w\<lparr>g_velj := v\<rparr>) (w'\<lparr>g_velj := v\<rparr>)" "same_world (w\<lparr>g_accj := v\<rparr>) (w'\<lparr>g_accj := v\<rparr>)"
    "same_world (w\<lparr>g_velx := v\<rparr>) (w'\<lparr>g_velx := v\<rparr>)" "same_world (w\<lparr>g_accx := v\<rparr>) (w'\<lparr>g_accx := v\<rparr>)"
    "same_world (w\<lparr>g_coord := v\<rparr>) (w'\<lparr>g_coord := v\<rparr>)"
  using assms by (simp_all add: same_world_def done_to_def globals.defs)

lemma run_api_same:
  assumes "poll_blind R" and "\<And>tr srv. available R tr srv" and "same_world w w'"
  shows "same_outcome (run_api R c w) (run_api R c w')"
proof (cases "is_motion c")
  case True
  have "call_request R c w = call_request R c w'"
    using assms(3) by (intro call_request_globals) (simp add: same_world_def)
  then show ?thesis
    unfolding run_api_motion [OF True] by (intro service_fun_same assms)
next
  case False
  then show ?thesis
    using assms(1,3)
    by (cases c) (auto simp: set_velj_def set_accj_def set_velx_def set_accx_def set_ref_coord_def
        with_globals_def intro!: abind_same lift_res_same update_world_same same_world_update
        call_service_same return_ret_same)
qed

lemma mixed_same:
  assumes "poll_blind R" and "\<And>tr srv. available R tr srv" and "same_world w w'"
    and "mixed_ok p" and "\<not> g_blend_state w"
  shows "same_outcome (run_api R (call_of p) w) (run_mixed R R robot_init p w')"
proof (cases p)
  case (Function c)
  with run_api_same [OF assms(1-3)] show ?thesis by simp
next
  case (Method c)
  show ?thesis
  proof (cases "is_movej c")
    case False
    with Method assms(4) run_api_same [OF assms(1-3)] show ?thesis
      by (simp add: run_obj_other del: run_obj.simps)
  next
    case True
    then obtain asyn pos vel acc time radius md ra v a t r
      where c: "c = CMovej asyn pos vel acc time radius md ra v a t r"
      by (cases c) auto
    with Method assms(4) have "given vel v" "given acc a" by simp_all
    from movej_request_own [OF this assms(5)]
    have "same_outcome (run_api R c w) (run_obj R R robot_init c w')"
      unfolding c run_obj_movej by (simp add: run_api_motion service_fun_same assms del: run_api.simps)
    with Method show ?thesis by simp
  qed
qed

text \<open>Nothing assigns the module's blending state.\<close>

lemma run_api_blend:
  assumes "run_api R c w = Some (r, w')"
  shows "g_blend_state w' = g_blend_state w"
proof (cases "is_motion c")
  case True
  with assms service_fun_globals have "globals.truncate w' = globals.truncate w"
    unfolding run_api_motion [OF True] by blast
  then show ?thesis by (simp add: globals.defs)
next
  case False
  with assms show ?thesis
    by (cases c)
      (auto simp: set_velj_def set_accj_def set_velx_def set_accx_def set_ref_coord_def abind_Some
        update_world_def with_globals_def note_exc_def
        dest!: lift_res_effect call_service_effect return_ret_effect)
qed

lemma mixed_programs_same:
  assumes "poll_blind R" and "\<And>tr srv. available R tr srv"
    and "list_all mixed_ok ps" and "same_world w w'" and "\<not> g_blend_state w"
  shows "rel_option same_world (run_all (run_api R) (map call_of ps) w)
    (run_all (run_mixed R R robot_init) ps w')"
  using assms(3-5)
proof (induction ps arbitrary: w w')
  case (Cons p ps)
  note same = mixed_same [OF assms(1,2) Cons.prems(2) _ Cons.prems(3), of p]
  from Cons.prems(1) have p: "mixed_ok p" by simp
  show ?case
  proof (cases "run_api R (call_of p) w")
    case (Some rw)
    then obtain r w1 where w1: "run_api R (call_of p) w = Some (r, w1)" by (cases rw) auto
    with same [OF p] obtain w2
      where w2: "run_mixed R R robot_init p w' = Some (r, w2)" "same_world w1 w2"
      by (cases "run_mixed R R robot_init p w'") auto
    from Cons.IH [OF _ w2(2)] run_api_blend [OF w1] Cons.prems(1,3) w1 w2(1) show ?thesis by simp
  next
    case None
    with same [OF p] show ?thesis by (cases "run_mixed R R robot_init p w'") simp_all
  qed
qed simp

end
