(* ===== verification/Clients.thy ===== *)
theory Clients
  imports MotionSession
begin

text \<open>
  The service clients and publishers that DSR_ROBOT2.py creates, at its import (from line 52) and
  in the constructor of \<^verbatim>\<open>CDsrRobot\<close> (from line 6551): variable, kind, message type and name, in
  the order of the code. The prefix added to each name is the empty string in both. How a node
  resolves a name in its namespace is a parameter of the lemmas.
\<close>

section \<open>Tables\<close>

datatype endpoint_kind = Client | Publisher

type_synonym endpoint = "string \<times> endpoint_kind \<times> string \<times> string"

definition module_system_endpoints :: "endpoint list" where
  "module_system_endpoints = [
     (''_ros2_set_robot_mode'', Client, ''SetRobotMode'', ''system/set_robot_mode''),
     (''_ros2_get_robot_mode'', Client, ''GetRobotMode'', ''system/get_robot_mode''),
     (''_ros2_set_robot_system'', Client, ''SetRobotSystem'', ''system/set_robot_system''),
     (''_ros2_get_robot_system'', Client, ''GetRobotSystem'', ''system/get_robot_system''),
     (''_ros2_get_robot_state'', Client, ''GetRobotState'', ''system/get_robot_state''),
     (''_ros2_set_robot_speed_mode'', Client, ''SetRobotSpeedMode'', ''system/set_robot_speed_mode''),
     (''_ros2_get_robot_speed_mode'', Client, ''GetRobotSpeedMode'', ''system/get_robot_speed_mode''),
     (''_ros2_set_safe_stop_reset_type'', Client, ''SetSafeStopResetType'', ''system/set_safe_stop_reset_type''),
     (''_ros2_get_last_alarm'', Client, ''GetLastAlarm'', ''system/get_last_alarm''),
     (''_ros2_get_current_pose'', Client, ''GetCurrentPose'', ''system/get_current_pose'')]"

definition module_stream_endpoints :: "endpoint list" where
  "module_stream_endpoints = [
     (''_ros2_servoj_stream_pub'', Publisher, ''ServojStream'', ''servoj_stream''),
     (''_ros2_servol_stream_pub'', Publisher, ''ServolStream'', ''servol_stream''),
     (''_ros2_speedj_stream_pub'', Publisher, ''SpeedjStream'', ''speedj_stream''),
     (''_ros2_speedl_stream_pub'', Publisher, ''SpeedlStream'', ''speedl_stream''),
     (''_ros2_servoj_rt_stream_pub'', Publisher, ''ServojRtStream'', ''servoj_rt_stream''),
     (''_ros2_servol_rt_stream_pub'', Publisher, ''ServolRtStream'', ''servol_rt_stream''),
     (''_ros2_speedj_rt_stream_pub'', Publisher, ''SpeedjRtStream'', ''speedj_rt_stream''),
     (''_ros2_speedl_rt_stream_pub'', Publisher, ''SpeedlRtStream'', ''speedl_rt_stream''),
     (''_ros2_torque_rt_stream_pub'', Publisher, ''TorqueRtStream'', ''torque_rt_stream''),
     (''_ros2_alter_motion_stream_pub'', Publisher, ''AlterMotionStream'', ''alter_motion_stream'')]"

definition module_safety_endpoints :: "endpoint list" where
  "module_safety_endpoints = [
     (''_ros2_set_safety_mode'', Client, ''SetSafetyMode'', ''system/set_safety_mode'')]"

definition module_motion_endpoints :: "endpoint list" where
  "module_motion_endpoints = [
     (''_ros2_movej'', Client, ''MoveJoint'', ''motion/move_joint''),
     (''_ros2_movel'', Client, ''MoveLine'', ''motion/move_line''),
     (''_ros2_movejx'', Client, ''MoveJointx'', ''motion/move_jointx''),
     (''_ros2_movec'', Client, ''MoveCircle'', ''motion/move_circle''),
     (''_ros2_movesj'', Client, ''MoveSplineJoint'', ''motion/move_spline_joint''),
     (''_ros2_movesx'', Client, ''MoveSplineTask'', ''motion/move_spline_task''),
     (''_ros2_moveb'', Client, ''MoveBlending'', ''motion/move_blending''),
     (''_ros2_move_spiral'', Client, ''MoveSpiral'', ''motion/move_spiral''),
     (''_ros2_move_periodic'', Client, ''MovePeriodic'', ''motion/move_periodic''),
     (''_ros2_move_wait'', Client, ''MoveWait'', ''motion/move_wait''),
     (''_ros2_jog'', Client, ''Jog'', ''motion/jog''),
     (''_ros2_jog_multi'', Client, ''JogMulti'', ''motion/jog_multi''),
     (''_ros2_trans'', Client, ''Trans'', ''motion/trans''),
     (''_ros2_fkin'', Client, ''Fkin'', ''motion/fkin''),
     (''_ros2_ikin'', Client, ''Ikin'', ''motion/ikin''),
     (''_ros2_set_ref_coord'', Client, ''SetRefCoord'', ''motion/set_ref_coord''),
     (''_ros2_move_home'', Client, ''MoveHome'', ''motion/move_home''),
     (''_ros2_check_motion'', Client, ''CheckMotion'', ''motion/check_motion''),
     (''_ros2_change_operation_speed'', Client, ''ChangeOperationSpeed'', ''motion/change_operation_speed''),
     (''_ros2_enable_alter_motion'', Client, ''EnableAlterMotion'', ''motion/enable_alter_motion''),
     (''_ros2_alter_motion'', Client, ''AlterMotion'', ''motion/alter_motion''),
     (''_ros2_disable_alter_motion'', Client, ''DisableAlterMotion'', ''motion/disable_alter_motion''),
     (''_ros2_set_singularity_handling'', Client, ''SetSingularityHandling'', ''motion/set_singularity_handling'')]"

definition module_aux_endpoints :: "endpoint list" where
  "module_aux_endpoints = [
     (''_ros2_get_control_mode'', Client, ''GetControlMode'', ''aux_control/get_control_mode''),
     (''_ros2_get_control_space'', Client, ''GetControlSpace'', ''aux_control/get_control_space''),
     (''_ros2_get_current_posj'', Client, ''GetCurrentPosj'', ''aux_control/get_current_posj''),
     (''_ros2_get_current_velj'', Client, ''GetCurrentVelj'', ''aux_control/get_current_velj''),
     (''_ros2_get_desired_posj'', Client, ''GetDesiredPosj'', ''aux_control/get_desired_posj''),
     (''_ros2_get_desired_velj'', Client, ''GetDesiredVelj'', ''aux_control/get_desired_velj''),
     (''_ros2_get_current_posx'', Client, ''GetCurrentPosx'', ''aux_control/get_current_posx''),
     (''_ros2_get_current_velx'', Client, ''GetCurrentVelx'', ''aux_control/get_current_velx''),
     (''_ros2_get_desired_posx'', Client, ''GetDesiredPosx'', ''aux_control/get_desired_posx''),
     (''_ros2_get_desired_velx'', Client, ''GetDesiredVelx'', ''aux_control/get_desired_velx''),
     (''_ros2_get_current_tool_flange_posx'', Client, ''GetCurrentToolFlangePosx'', ''aux_control/get_current_tool_flange_posx''),
     (''_ros2_get_current_solution_space'', Client, ''GetCurrentSolutionSpace'', ''aux_control/get_current_solution_space''),
     (''_ros2_get_current_rotm'', Client, ''GetCurrentRotm'', ''aux_control/get_current_rotm''),
     (''_ros2_get_joint_torque'', Client, ''GetJointTorque'', ''aux_control/get_joint_torque''),
     (''_ros2_get_external_torque'', Client, ''GetExternalTorque'', ''aux_control/get_external_torque''),
     (''_ros2_get_tool_force'', Client, ''GetToolForce'', ''aux_control/get_tool_force''),
     (''_ros2_get_solution_space'', Client, ''GetSolutionSpace'', ''aux_control/get_solution_space''),
     (''_ros2_get_orientation_error'', Client, ''GetOrientationError'', ''aux_control/get_orientation_error'')]"

definition module_force_endpoints :: "endpoint list" where
  "module_force_endpoints = [
     (''_ros2_get_workpiece_weight'', Client, ''GetWorkpieceWeight'', ''force/get_workpiece_weight''),
     (''_ros2_reset_workpiece_weight'', Client, ''ResetWorkpieceWeight'', ''force/reset_workpiece_weight''),
     (''_ros2_parallel_axis1'', Client, ''ParallelAxis1'', ''force/parallel_axis1''),
     (''_ros2_parallel_axis2'', Client, ''ParallelAxis2'', ''force/parallel_axis2''),
     (''_ros2_align_axis1'', Client, ''AlignAxis1'', ''force/align_axis1''),
     (''_ros2_align_axis2'', Client, ''AlignAxis2'', ''force/align_axis2''),
     (''_ros2_is_done_bolt_tightening'', Client, ''IsDoneBoltTightening'', ''force/is_done_bolt_tightening''),
     (''_ros2_release_compliance_ctrl'', Client, ''ReleaseComplianceCtrl'', ''force/release_compliance_ctrl''),
     (''_ros2_task_compliance_ctrl'', Client, ''TaskComplianceCtrl'', ''force/task_compliance_ctrl''),
     (''_ros2_set_stiffnessx'', Client, ''SetStiffnessx'', ''force/set_stiffnessx''),
     (''_ros2_calc_coord'', Client, ''CalcCoord'', ''force/calc_coord''),
     (''_ros2_set_user_cart_coord1'', Client, ''SetUserCartCoord1'', ''force/set_user_cart_coord1''),
     (''_ros2_set_user_cart_coord2'', Client, ''SetUserCartCoord2'', ''force/set_user_cart_coord2''),
     (''_ros2_set_user_cart_coord3'', Client, ''SetUserCartCoord3'', ''force/set_user_cart_coord3''),
     (''_ros2_overwrite_user_cart_coord'', Client, ''OverwriteUserCartCoord'', ''force/overwrite_user_cart_coord''),
     (''_ros2_get_user_cart_coord'', Client, ''GetUserCartCoord'', ''force/get_user_cart_coord''),
     (''_ros2_set_desired_force'', Client, ''SetDesiredForce'', ''force/set_desired_force''),
     (''_ros2_release_force'', Client, ''ReleaseForce'', ''force/release_force''),
     (''_ros2_check_position_condition'', Client, ''CheckPositionCondition'', ''force/check_position_condition''),
     (''_ros2_check_force_condition'', Client, ''CheckForceCondition'', ''force/check_force_condition''),
     (''_ros2_check_orientation_condition1'', Client, ''CheckOrientationCondition1'', ''force/check_orientation_condition1''),
     (''_ros2_check_orientation_condition2'', Client, ''CheckOrientationCondition2'', ''force/check_orientation_condition2''),
     (''_ros2_coord_transform'', Client, ''CoordTransform'', ''force/coord_transform'')]"

definition module_io_endpoints :: "endpoint list" where
  "module_io_endpoints = [
     (''_ros2_set_digital_output'', Client, ''SetCtrlBoxDigitalOutput'', ''io/set_ctrl_box_digital_output''),
     (''_ros2_get_digital_input'', Client, ''GetCtrlBoxDigitalInput'', ''io/get_ctrl_box_digital_input''),
     (''_ros2_set_tool_digital_output'', Client, ''SetToolDigitalOutput'', ''io/set_tool_digital_output''),
     (''_ros2_get_tool_digital_input'', Client, ''GetToolDigitalInput'', ''io/get_tool_digital_input''),
     (''_ros2_set_analog_output'', Client, ''SetCtrlBoxAnalogOutput'', ''io/set_ctrl_box_analog_output''),
     (''_ros2_get_analog_input'', Client, ''GetCtrlBoxAnalogInput'', ''io/get_ctrl_box_analog_input''),
     (''_ros2_set_mode_analog_output'', Client, ''SetCtrlBoxAnalogOutputType'', ''io/set_ctrl_box_analog_output_type''),
     (''_ros2_set_mode_analog_input'', Client, ''SetCtrlBoxAnalogInputType'', ''io/set_ctrl_box_analog_input_type''),
     (''_ros2_get_digital_output'', Client, ''GetCtrlBoxDigitalOutput'', ''io/get_ctrl_box_digital_output''),
     (''_ros2_get_tool_digital_output'', Client, ''GetToolDigitalOutput'', ''io/get_tool_digital_output'')]"

definition module_modbus_endpoints :: "endpoint list" where
  "module_modbus_endpoints = [
     (''_ros2_set_modbus_output'', Client, ''SetModbusOutput'', ''modbus/set_modbus_output''),
     (''_ros2_get_modbus_input'', Client, ''GetModbusInput'', ''modbus/get_modbus_input''),
     (''_ros2_add_modbus_signal'', Client, ''ConfigCreateModbus'', ''modbus/config_create_modbus''),
     (''_ros2_del_modbus_signal'', Client, ''ConfigDeleteModbus'', ''modbus/config_delete_modbus'')]"

definition module_tcp_endpoints :: "endpoint list" where
  "module_tcp_endpoints = [
     (''_ros2_set_current_tcp'', Client, ''SetCurrentTcp'', ''tcp/set_current_tcp''),
     (''_ros2_get_current_tcp'', Client, ''GetCurrentTcp'', ''tcp/get_current_tcp''),
     (''_ros2_config_create_tcp'', Client, ''ConfigCreateTcp'', ''tcp/config_create_tcp''),
     (''_ros2_config_delete_tcp'', Client, ''ConfigDeleteTcp'', ''tcp/config_delete_tcp'')]"

definition module_tool_endpoints :: "endpoint list" where
  "module_tool_endpoints = [
     (''_ros2_set_current_tool'', Client, ''SetCurrentTool'', ''tool/set_current_tool''),
     (''_ros2_get_current_tool'', Client, ''GetCurrentTool'', ''tool/get_current_tool''),
     (''_ros2_config_create_tool'', Client, ''ConfigCreateTool'', ''tool/config_create_tool''),
     (''_ros2_config_delete_tool'', Client, ''ConfigDeleteTool'', ''tool/config_delete_tool''),
     (''_ros2_set_tool_shape'', Client, ''SetToolShape'', ''tool/set_tool_shape'')]"

definition module_drl_endpoints :: "endpoint list" where
  "module_drl_endpoints = [
     (''_ros2_drl_pause'', Client, ''DrlPause'', ''drl/drl_pause''),
     (''_ros2_drl_resume'', Client, ''DrlResume'', ''drl/drl_resume''),
     (''_ros2_drl_start'', Client, ''DrlStart'', ''drl/drl_start''),
     (''_ros2_drl_stop'', Client, ''DrlStop'', ''drl/drl_stop''),
     (''_ros2_get_drl_state'', Client, ''GetDrlState'', ''drl/get_drl_state'')]"

definition module_rt_endpoints :: "endpoint list" where
  "module_rt_endpoints = [
     (''_ros2_connect_rt_control'', Client, ''ConnectRtControl'', ''realtime/connect_rt_control''),
     (''_ros2_disconnect_rt_control'', Client, ''DisconnectRtControl'', ''realtime/disconnect_rt_control''),
     (''_ros2_get_rt_control_output_version_list'', Client, ''GetRtControlOutputVersionList'', ''realtime/get_rt_control_output_version_list''),
     (''_ros2_get_rt_control_input_version_list'', Client, ''GetRtControlInputVersionList'', ''realtime/get_rt_control_input_version_list''),
     (''_ros2_get_rt_control_input_data_list'', Client, ''GetRtControlInputDataList'', ''realtime/get_rt_control_input_data_list''),
     (''_ros2_get_rt_control_output_data_list'', Client, ''GetRtControlOutputDataList'', ''realtime/get_rt_control_output_data_list''),
     (''_ros2_start_rt_control'', Client, ''StartRtControl'', ''realtime/start_rt_control''),
     (''_ros2_stop_rt_control'', Client, ''StopRtControl'', ''realtime/stop_rt_control''),
     (''_ros2_set_rt_control_input'', Client, ''SetRtControlInput'', ''realtime/set_rt_control_input''),
     (''_ros2_set_rt_control_output'', Client, ''SetRtControlOutput'', ''realtime/set_rt_control_output''),
     (''_ros2_set_velj_rt'', Client, ''SetVeljRt'', ''realtime/set_velj_rt''),
     (''_ros2_set_accj_rt'', Client, ''SetAccjRt'', ''realtime/set_accj_rt''),
     (''_ros2_set_velx_rt'', Client, ''SetVelxRt'', ''realtime/set_velx_rt''),
     (''_ros2_set_accx_rt'', Client, ''SetAccxRt'', ''realtime/set_accx_rt''),
     (''_ros2_read_data_rt'', Client, ''ReadDataRt'', ''realtime/read_data_rt''),
     (''_ros2_write_data_rt'', Client, ''WriteDataRt'', ''realtime/write_data_rt'')]"

definition object_system_endpoints :: "endpoint list" where
  "object_system_endpoints = [
     (''_ros2_set_robot_mode'', Client, ''SetRobotMode'', ''/system/set_robot_mode''),
     (''_ros2_get_robot_mode'', Client, ''GetRobotMode'', ''/system/get_robot_mode''),
     (''_ros2_set_robot_system'', Client, ''SetRobotSystem'', ''/system/set_robot_system''),
     (''_ros2_get_robot_system'', Client, ''GetRobotSystem'', ''/system/get_robot_system''),
     (''_ros2_get_robot_state'', Client, ''GetRobotState'', ''/system/get_robot_state''),
     (''_ros2_set_robot_speed_mode'', Client, ''SetRobotSpeedMode'', ''/system/set_robot_speed_mode''),
     (''_ros2_get_robot_speed_mode'', Client, ''GetRobotSpeedMode'', ''/system/get_robot_speed_mode''),
     (''_ros2_set_safe_stop_reset_type'', Client, ''SetSafeStopResetType'', ''/system/set_safe_stop_reset_type''),
     (''_ros2_get_last_alarm'', Client, ''GetLastAlarm'', ''/system/get_last_alarm''),
     (''_ros2_get_current_pose'', Client, ''GetCurrentPose'', ''/system/get_current_pose'')]"

definition object_motion_endpoints :: "endpoint list" where
  "object_motion_endpoints = [
     (''_ros2_movej'', Client, ''MoveJoint'', ''/motion/move_joint''),
     (''_ros2_movel'', Client, ''MoveLine'', ''/motion/move_line''),
     (''_ros2_movejx'', Client, ''MoveJointx'', ''/motion/move_jointx''),
     (''_ros2_movec'', Client, ''MoveCircle'', ''/motion/move_circle''),
     (''_ros2_movesj'', Client, ''MoveSplineJoint'', ''/motion/move_spline_joint''),
     (''_ros2_movesx'', Client, ''MoveSplineTask'', ''/motion/move_spline_task''),
     (''_ros2_moveb'', Client, ''MoveBlending'', ''/motion/move_blending''),
     (''_ros2_move_spiral'', Client, ''MoveSpiral'', ''/motion/move_spiral''),
     (''_ros2_move_periodic'', Client, ''MovePeriodic'', ''/motion/move_periodic''),
     (''_ros2_move_wait'', Client, ''MoveWait'', ''/motion/move_wait''),
     (''_ros2_jog'', Client, ''Jog'', ''/motion/jog''),
     (''_ros2_jog_multi'', Client, ''JogMulti'', ''/motion/jog_multi''),
     (''_ros2_trans'', Client, ''Trans'', ''/motion/trans''),
     (''_ros2_fkin'', Client, ''Fkin'', ''/motion/fkin''),
     (''_ros2_ikin'', Client, ''Ikin'', ''/motion/ikin''),
     (''_ros2_set_ref_coord'', Client, ''SetRefCoord'', ''/motion/set_ref_coord''),
     (''_ros2_move_home'', Client, ''MoveHome'', ''/motion/move_home''),
     (''_ros2_check_motion'', Client, ''CheckMotion'', ''/motion/check_motion''),
     (''_ros2_change_operation_speed'', Client, ''ChangeOperationSpeed'', ''/motion/change_operation_speed''),
     (''_ros2_enable_alter_motion'', Client, ''EnableAlterMotion'', ''/motion/enable_alter_motion''),
     (''_ros2_alter_motion'', Client, ''AlterMotion'', ''/motion/alter_motion''),
     (''_ros2_disable_alter_motion'', Client, ''DisableAlterMotion'', ''/motion/disable_alter_motion''),
     (''_ros2_set_singularity_handling'', Client, ''SetSingularityHandling'', ''/motion/set_singularity_handling'')]"

definition object_aux_endpoints :: "endpoint list" where
  "object_aux_endpoints = [
     (''_ros2_get_control_mode'', Client, ''GetControlMode'', ''/aux_control/get_control_mode''),
     (''_ros2_get_control_space'', Client, ''GetControlSpace'', ''/aux_control/get_control_space''),
     (''_ros2_get_current_posj'', Client, ''GetCurrentPosj'', ''/aux_control/get_current_posj''),
     (''_ros2_get_current_velj'', Client, ''GetCurrentVelj'', ''/aux_control/get_current_velj''),
     (''_ros2_get_desired_posj'', Client, ''GetDesiredPosj'', ''/aux_control/get_desired_posj''),
     (''_ros2_get_desired_velj'', Client, ''GetDesiredVelj'', ''/aux_control/get_desired_velj''),
     (''_ros2_get_current_posx'', Client, ''GetCurrentPosx'', ''/aux_control/get_current_posx''),
     (''_ros2_get_current_velx'', Client, ''GetCurrentVelx'', ''/aux_control/get_current_velx''),
     (''_ros2_get_desired_posx'', Client, ''GetDesiredPosx'', ''/aux_control/get_desired_posx''),
     (''_ros2_get_desired_velx'', Client, ''GetDesiredVelx'', ''/aux_control/get_desired_velx''),
     (''_ros2_get_current_tool_flange_posx'', Client, ''GetCurrentToolFlangePosx'', ''/aux_control/get_current_tool_flange_posx''),
     (''_ros2_get_current_solution_space'', Client, ''GetCurrentSolutionSpace'', ''/aux_control/get_current_solution_space''),
     (''_ros2_get_current_rotm'', Client, ''GetCurrentRotm'', ''/aux_control/get_current_rotm''),
     (''_ros2_get_joint_torque'', Client, ''GetJointTorque'', ''/aux_control/get_joint_torque''),
     (''_ros2_get_external_torque'', Client, ''GetExternalTorque'', ''/aux_control/get_external_torque''),
     (''_ros2_get_tool_force'', Client, ''GetToolForce'', ''/aux_control/get_tool_force''),
     (''_ros2_get_solution_space'', Client, ''GetSolutionSpace'', ''/aux_control/get_solution_space''),
     (''_ros2_get_orientation_error'', Client, ''GetOrientationError'', ''/aux_control/get_orientation_error'')]"

definition object_force_endpoints :: "endpoint list" where
  "object_force_endpoints = [
     (''_ros2_get_workpiece_weight'', Client, ''GetWorkpieceWeight'', ''/force/get_workpiece_weight''),
     (''_ros2_reset_workpiece_weight'', Client, ''ResetWorkpieceWeight'', ''/force/reset_workpiece_weight''),
     (''_ros2_parallel_axis1'', Client, ''ParallelAxis1'', ''/force/parallel_axis1''),
     (''_ros2_parallel_axis2'', Client, ''ParallelAxis2'', ''/force/parallel_axis2''),
     (''_ros2_align_axis1'', Client, ''AlignAxis1'', ''/force/align_axis1''),
     (''_ros2_align_axis2'', Client, ''AlignAxis2'', ''/force/align_axis2''),
     (''_ros2_is_done_bolt_tightening'', Client, ''IsDoneBoltTightening'', ''/force/is_done_bolt_tightening''),
     (''_ros2_release_compliance_ctrl'', Client, ''ReleaseComplianceCtrl'', ''/force/release_compliance_ctrl''),
     (''_ros2_task_compliance_ctrl'', Client, ''TaskComplianceCtrl'', ''/force/task_compliance_ctrl''),
     (''_ros2_set_stiffnessx'', Client, ''SetStiffnessx'', ''/force/set_stiffnessx''),
     (''_ros2_calc_coord'', Client, ''CalcCoord'', ''/force/calc_coord''),
     (''_ros2_set_user_cart_coord1'', Client, ''SetUserCartCoord1'', ''/force/set_user_cart_coord1''),
     (''_ros2_set_user_cart_coord2'', Client, ''SetUserCartCoord2'', ''/force/set_user_cart_coord2''),
     (''_ros2_set_user_cart_coord3'', Client, ''SetUserCartCoord3'', ''/force/set_user_cart_coord3''),
     (''_ros2_overwrite_user_cart_coord'', Client, ''OverwriteUserCartCoord'', ''/force/overwrite_user_cart_coord''),
     (''_ros2_get_user_cart_coord'', Client, ''GetUserCartCoord'', ''/force/get_user_cart_coord''),
     (''_ros2_set_desired_force'', Client, ''SetDesiredForce'', ''/force/set_desired_force''),
     (''_ros2_release_force'', Client, ''ReleaseForce'', ''/force/release_force''),
     (''_ros2_check_position_condition'', Client, ''CheckPositionCondition'', ''/force/check_position_condition''),
     (''_ros2_check_force_condition'', Client, ''CheckForceCondition'', ''/force/check_force_condition''),
     (''_ros2_check_orientation_condition1'', Client, ''CheckOrientationCondition1'', ''/force/check_orientation_condition1''),
     (''_ros2_check_orientation_condition2'', Client, ''CheckOrientationCondition2'', ''/force/check_orientation_condition2''),
     (''_ros2_coord_transform'', Client, ''CoordTransform'', ''/force/coord_transform'')]"

definition object_io_endpoints :: "endpoint list" where
  "object_io_endpoints = [
     (''_ros2_set_digital_output'', Client, ''SetCtrlBoxDigitalOutput'', ''io/set_ctrl_box_digital_output''),
     (''_ros2_get_digital_input'', Client, ''GetCtrlBoxDigitalInput'', ''io/get_ctrl_box_digital_input''),
     (''_ros2_set_tool_digital_output'', Client, ''SetToolDigitalOutput'', ''io/set_tool_digital_output''),
     (''_ros2_get_tool_digital_input'', Client, ''GetToolDigitalInput'', ''io/get_tool_digital_input''),
     (''_ros2_set_analog_output'', Client, ''SetCtrlBoxAnalogOutput'', ''io/set_ctrl_box_analog_output''),
     (''_ros2_get_analog_input'', Client, ''GetCtrlBoxAnalogInput'', ''io/get_ctrl_box_analog_input''),
     (''_ros2_set_mode_analog_output'', Client, ''SetCtrlBoxAnalogOutputType'', ''io/set_ctrl_box_analog_output_type''),
     (''_ros2_set_mode_analog_input'', Client, ''SetCtrlBoxAnalogInputType'', ''io/set_ctrl_box_analog_input_type''),
     (''_ros2_get_digital_output'', Client, ''GetCtrlBoxDigitalOutput'', ''io/get_ctrl_box_digital_output''),
     (''_ros2_get_tool_digital_output'', Client, ''GetToolDigitalOutput'', ''io/get_tool_digital_output'')]"

definition object_modbus_endpoints :: "endpoint list" where
  "object_modbus_endpoints = [
     (''_ros2_set_modbus_output'', Client, ''SetModbusOutput'', ''/modbus/set_modbus_output''),
     (''_ros2_get_modbus_input'', Client, ''GetModbusInput'', ''/modbus/get_modbus_input''),
     (''_ros2_add_modbus_signal'', Client, ''ConfigCreateModbus'', ''/modbus/config_create_modbus''),
     (''_ros2_del_modbus_signal'', Client, ''ConfigDeleteModbus'', ''/modbus/config_delete_modbus'')]"

definition object_tcp_endpoints :: "endpoint list" where
  "object_tcp_endpoints = [
     (''_ros2_set_current_tcp'', Client, ''SetCurrentTcp'', ''/tcp/set_current_tcp''),
     (''_ros2_get_current_tcp'', Client, ''GetCurrentTcp'', ''/tcp/get_current_tcp''),
     (''_ros2_config_create_tcp'', Client, ''ConfigCreateTcp'', ''/tcp/config_create_tcp''),
     (''_ros2_config_delete_tcp'', Client, ''ConfigDeleteTcp'', ''/tcp/config_delete_tcp'')]"

definition object_tool_endpoints :: "endpoint list" where
  "object_tool_endpoints = [
     (''_ros2_set_current_tool'', Client, ''SetCurrentTool'', ''/tool/set_current_tool''),
     (''_ros2_get_current_tool'', Client, ''GetCurrentTool'', ''/tool/get_current_tool''),
     (''_ros2_config_create_tool'', Client, ''ConfigCreateTool'', ''/tool/config_create_tool''),
     (''_ros2_config_delete_tool'', Client, ''ConfigDeleteTool'', ''/tool/config_delete_tool''),
     (''_ros2_set_tool_shape'', Client, ''SetToolShape'', ''/tool/set_tool_shape'')]"

definition object_drl_endpoints :: "endpoint list" where
  "object_drl_endpoints = [
     (''_ros2_drl_pause'', Client, ''DrlPause'', ''/drl/drl_pause''),
     (''_ros2_drl_resume'', Client, ''DrlResume'', ''/drl/drl_resume''),
     (''_ros2_drl_start'', Client, ''DrlStart'', ''/drl/drl_start''),
     (''_ros2_drl_stop'', Client, ''DrlStop'', ''/drl/drl_stop''),
     (''_ros2_get_drl_state'', Client, ''GetDrlState'', ''/drl/get_drl_state'')]"

section \<open>The whole tables\<close>

definition module_endpoints :: "endpoint list" where
  "module_endpoints =
     module_system_endpoints @ module_stream_endpoints @ module_safety_endpoints @
     module_motion_endpoints @ module_aux_endpoints @ module_force_endpoints @
     module_io_endpoints @ module_modbus_endpoints @ module_tcp_endpoints @
     module_tool_endpoints @ module_drl_endpoints @ module_rt_endpoints"

definition object_endpoints :: "endpoint list" where
  "object_endpoints =
     object_system_endpoints @ object_motion_endpoints @ object_aux_endpoints @
     object_force_endpoints @ object_io_endpoints @ object_modbus_endpoints @
     object_tcp_endpoints @ object_tool_endpoints @ object_drl_endpoints"

text \<open>The same endpoint under an absolute name.\<close>

definition absolute :: "endpoint \<Rightarrow> endpoint" where
  "absolute e = (case e of (v, k, ty, name) \<Rightarrow> (v, k, ty, CHR ''/'' # name))"

fun endpoint_var :: "endpoint \<Rightarrow> string" where "endpoint_var (v, k, ty, name) = v"
fun endpoint_name :: "endpoint \<Rightarrow> string" where "endpoint_name (v, k, ty, name) = name"

section \<open>Lemmas\<close>

lemma object_tables:
  "object_system_endpoints = map absolute module_system_endpoints"
  "object_motion_endpoints = map absolute module_motion_endpoints"
  "object_aux_endpoints = map absolute module_aux_endpoints"
  "object_force_endpoints = map absolute module_force_endpoints"
  "object_io_endpoints = module_io_endpoints"
  "object_modbus_endpoints = map absolute module_modbus_endpoints"
  "object_tcp_endpoints = map absolute module_tcp_endpoints"
  "object_tool_endpoints = map absolute module_tool_endpoints"
  "object_drl_endpoints = map absolute module_drl_endpoints"
  unfolding object_system_endpoints_def module_system_endpoints_def
    object_motion_endpoints_def module_motion_endpoints_def
    object_aux_endpoints_def module_aux_endpoints_def
    object_force_endpoints_def module_force_endpoints_def
    object_io_endpoints_def module_io_endpoints_def
    object_modbus_endpoints_def module_modbus_endpoints_def
    object_tcp_endpoints_def module_tcp_endpoints_def
    object_tool_endpoints_def module_tool_endpoints_def
    object_drl_endpoints_def module_drl_endpoints_def absolute_def
  by simp_all

text \<open>No name of the module starts with a slash.\<close>

lemma module_names_relative:
  "(v, k, ty, name) \<in> set module_endpoints \<Longrightarrow> name \<noteq> [] \<and> hd name \<noteq> CHR ''/''"
  unfolding module_endpoints_def module_system_endpoints_def module_stream_endpoints_def
    module_safety_endpoints_def module_motion_endpoints_def module_aux_endpoints_def
    module_force_endpoints_def module_io_endpoints_def module_modbus_endpoints_def
    module_tcp_endpoints_def module_tool_endpoints_def module_drl_endpoints_def
    module_rt_endpoints_def
  by auto

text \<open>Each motion command calls a service for which the module has a client.\<close>

lemma motion_services_have_clients:
  "is_motion c \<Longrightarrow> \<exists>v ty. (v, Client, ty, service_of c) \<in> set module_endpoints"
  unfolding module_endpoints_def module_motion_endpoints_def
  by (cases c) auto

lemma object_endpoint_cases:
  assumes "e \<in> set object_endpoints"
  obtains "e \<in> set module_io_endpoints"
  | e' where "e = absolute e'" "e' \<in> set module_endpoints" "e \<notin> set module_io_endpoints"
proof (cases "e \<in> set module_io_endpoints")
  case False
  with assms have "e \<in> absolute ` set module_endpoints"
    unfolding object_endpoints_def object_tables module_endpoints_def by auto
  with False that(2) show ?thesis by blast
qed (rule that(1))

end
