(* ===== verification/RobotProperties.thy ===== *)
theory RobotProperties
  imports RobotSession Clients MotionProperties
begin

text \<open>The properties of the class \<^verbatim>\<open>CDsrRobot\<close>, compared with the module whose functions it repeats.\<close>

text \<open>C26: methods of a new object of \<^verbatim>\<open>CDsrRobot\<close> and functions of the module may be mixed in a program
  of motion commands and frame settings: it sends the same requests in the same order, leaves the
  same globals, and blocks exactly when the program with every method replaced by the function of
  its name does. This needs that each \<^verbatim>\<open>movej\<close> and \<^verbatim>\<open>amovej\<close> of the object is given a velocity and an
  acceleration, for these two are the only methods that read the attributes of the object; the other
  motion methods use the globals of the module, the frame set by either side included. It is stated
  for a node whose clients of both spellings reach the same services, all of them available, with
  replies that do not depend on polling, and for blending off, as the import of the module leaves
  it and no code changes it.\<close>

theorem object_matches_module:
  assumes "poll_blind R" and "\<And>tr srv. available R tr srv"
    and "list_all mixed_ok ps" and "\<not> g_blend_state w"
  shows "rel_option same_world (run_all (run_api R) (map call_of ps) w)
           (run_all (run_mixed R R robot_init) ps w)"
  using mixed_programs_same [OF assms(1-3) same_world_refl assms(4)] .

definition mixed_program :: "robot_call list" where
  "mixed_program = [Function (CSetVelj (PInt 30)), Function (CSetAccj (PInt 40)),
     Method (plain_movej (PInt 30) (PInt 60)),
     Method (CMovejx False (PPosx (replicate 6 (PFloat (Fin 0)))) PNone PNone PNone PNone PNone (PInt 0) (PInt 0) (PInt 0)
       PNone PNone PNone PNone)]"

lemma object_matches_module_witness:
  "\<exists>w1 w2 fs fs'. run_all (run_api ideal_ros) (map call_of mixed_program) start = Some w1 \<and>
     run_all (run_mixed ideal_ros ideal_ros robot_init) mixed_program start = Some w2 \<and>
     done_to w1 = done_to w2 \<and>
     done_to w1 = [Called ''motion/move_joint'' fs, Called ''motion/move_jointx'' fs'] \<and>
     fld fs' ''vel'' = PFloat (Fin 30)"
proof -
  have "list_all mixed_ok mixed_program"
    by (simp add: mixed_program_def given_def)
  moreover have "poll_blind ideal_ros" by (simp add: poll_blind_def)
  ultimately have "rel_option same_world (run_all (run_api ideal_ros) (map call_of mixed_program) start)
      (run_all (run_mixed ideal_ros ideal_ros robot_init) mixed_program start)"
    by (intro object_matches_module) simp_all
  moreover have "\<exists>w1 fs fs'. run_all (run_api ideal_ros) (map call_of mixed_program) start = Some w1 \<and>
      done_to w1 = [Called ''motion/move_joint'' fs, Called ''motion/move_jointx'' fs'] \<and>
      fld fs' ''vel'' = PFloat (Fin 30)"
    by (simp add: mixed_program_def set_velj_def set_accj_def abind_def update_world_def
      velj_value_def accj_value_def movej_def movej_impl_def movej_request_def movejx_def
      movejx_impl_def movejx_request_def check_sol_def block_defs log_def done_to_def)
  ultimately show ?thesis
    by (auto simp: option_rel_Some1 same_world_def)
qed

text \<open>C37: \<^verbatim>\<open>movej\<close> and \<^verbatim>\<open>amovej\<close> of a new object take no notice of the velocity and acceleration that
  \<^verbatim>\<open>set_velj\<close> and \<^verbatim>\<open>set_accj\<close> stored, whatever the state of the module: called without one of the two,
  whenever they return, they have called the controller once, a time was given that counts and 0 was
  sent for what is missing, or they have raised and sent nothing. (The object's other motion methods, and \<^verbatim>\<open>movej\<close> of the module,
  use the stored values.)\<close>

theorem object_movej_ignores_defaults:
  assumes "run_obj M R robot_init (CMovej asyn pos vel acc time radius md ra v a t r) w = Some (x, w')"
    and "\<not> given vel v \<or> \<not> given acc a"
  shows "(\<exists>e. x = Inl e \<and> w' = note_exc e w) \<or>
    (\<exists>fs sd. w' = w\<lparr>trace := trace w @ Called ''motion/move_joint'' fs # sd\<rparr> \<and> sd \<in> {[], [Shutdown]} \<and>
       (\<not> given vel v \<longrightarrow> fld fs ''vel'' = PFloat (Fin 0)) \<and>
       (\<not> given acc a \<longrightarrow> fld fs ''acc'' = PFloat (Fin 0)) \<and>
       rbind (time_param time t) time_unused = Inr False)"
  using service_fun_effect_polls [OF assms(1) [unfolded run_obj_movej]] assms(2) movej_request_unset
  by (fastforce simp: polls_for_def)

lemma object_movej_ignores_defaults_witness:
  "\<exists>w w' e. run_all (run_api ideal_ros) [CSetVelj (PInt 30), CSetAccj (PInt 40)] start = Some w \<and>
     run_obj ideal_ros ideal_ros robot_init (plain_movej PNone PNone) w = Some (Inl e, w') \<and>
     w' = note_exc e w"
proof -
  obtain w where w: "run_all (run_api ideal_ros) [CSetVelj (PInt 30), CSetAccj (PInt 40)] start = Some w"
    by (simp add: set_velj_def set_accj_def abind_def update_world_def velj_value_def accj_value_def)
  obtain x w' where run: "run_obj ideal_ros ideal_ros robot_init (plain_movej PNone PNone) w = Some (x, w')"
    unfolding run_obj_movej
    by (cases "movej_request ideal_ros six_zeros PNone PNone PNone PNone (PInt 0) (PInt 0) PNone PNone PNone
        PNone (async_code False) (own_params robot_init w)") simp_all
  have "rbind (time_param PNone PNone) time_unused \<noteq> Inr False"
    by (simp add: time_param_def time_unused_def)
  with object_movej_ignores_defaults [OF run] have "\<exists>e. x = Inl e \<and> w' = note_exc e w"
    by (simp add: given_def)
  with w run show ?thesis by blast
qed

section \<open>Names of services\<close>

lemma motion_services_of_object:
  "is_motion c \<Longrightarrow> (v, Client, ty, service_of c) \<in> set module_motion_endpoints \<Longrightarrow>
   (v, Client, ty, CHR ''/'' # service_of c) \<in> set object_endpoints"
  unfolding object_endpoints_def object_tables(2) by (force simp: absolute_def)

lemma motion_service_client:
  "is_motion c \<Longrightarrow> \<exists>v ty. (v, Client, ty, service_of c) \<in> set module_motion_endpoints"
  unfolding module_motion_endpoints_def by (cases c) auto

text \<open>For every motion command, the module and an object have a client of the same variable and
  type, the object's under the module's name with a slash before it. A node in a namespace, as the
  launch files and examples use it, resolves the module's name inside its namespace and leaves
  the absolute one as it is, so that a method that uses its object's client, as \<^verbatim>\<open>movej\<close> does, asks for
  another service than the function of the module, and than the methods that call functions of the
  module, as \<^verbatim>\<open>movel\<close> does; only the clients of inputs and outputs have the same names.\<close>

theorem object_clients_leave_namespace:
  assumes "\<And>n. resolve (CHR ''/'' # n) = CHR ''/'' # n"
    and "\<And>n. n \<noteq> [] \<Longrightarrow> hd n \<noteq> CHR ''/'' \<Longrightarrow> resolve n = CHR ''/'' # ns @ CHR ''/'' # n"
    and "is_motion c"
  shows "(\<exists>v ty. (v, Client, ty, service_of c) \<in> set module_endpoints \<and>
      (v, Client, ty, CHR ''/'' # service_of c) \<in> set object_endpoints) \<and>
    resolve (CHR ''/'' # service_of c) \<noteq> resolve (service_of c) \<and>
    (\<forall>e \<in> set object_endpoints. endpoint_name e \<in> endpoint_name ` set module_io_endpoints \<or>
      (\<exists>e' \<in> set module_endpoints. e = absolute e' \<and>
        resolve (endpoint_name e) \<noteq> resolve (endpoint_name e')))"
proof (intro conjI ballI)
  have other: "resolve (CHR ''/'' # n) \<noteq> resolve n" if "(v, k, ty, n) \<in> set module_endpoints" for v k ty n
  proof -
    have "length (CHR ''/'' # n) < length (CHR ''/'' # ns @ CHR ''/'' # n)" by simp
    then have "CHR ''/'' # n \<noteq> CHR ''/'' # ns @ CHR ''/'' # n" by (metis less_irrefl)
    with module_names_relative [OF that] show ?thesis by (simp add: assms(1,2))
  qed
  obtain v ty where v: "(v, Client, ty, service_of c) \<in> set module_motion_endpoints"
    using motion_service_client [OF assms(3)] by blast
  then have m: "(v, Client, ty, service_of c) \<in> set module_endpoints"
    by (simp add: module_endpoints_def)
  with motion_services_of_object [OF assms(3) v]
  show "\<exists>v ty. (v, Client, ty, service_of c) \<in> set module_endpoints \<and>
      (v, Client, ty, CHR ''/'' # service_of c) \<in> set object_endpoints"
    by blast
  from other [OF m] show "resolve (CHR ''/'' # service_of c) \<noteq> resolve (service_of c)" .
  fix e assume "e \<in> set object_endpoints"
  then show "endpoint_name e \<in> endpoint_name ` set module_io_endpoints \<or>
      (\<exists>e' \<in> set module_endpoints. e = absolute e' \<and> resolve (endpoint_name e) \<noteq> resolve (endpoint_name e'))"
  proof (cases rule: object_endpoint_cases)
    case (2 e')
    obtain v k ty n where e': "e' = (v, k, ty, n)" by (cases e')
    with 2 other show ?thesis by (intro disjI2 bexI [of _ e']) (auto simp: absolute_def)
  qed blast
qed

definition node_resolve :: "string \<Rightarrow> string \<Rightarrow> string" where
  "node_resolve ns n = (if n \<noteq> [] \<and> hd n = CHR ''/'' then n else CHR ''/'' # ns @ CHR ''/'' # n)"

lemma object_clients_leave_namespace_witness:
  "node_resolve ''dsr01'' ''/motion/move_joint'' \<noteq> node_resolve ''dsr01'' ''motion/move_joint''"
  using object_clients_leave_namespace [of "node_resolve ''dsr01''" "''dsr01''"
      "plain_movej (PInt 30) (PInt 60)"]
  by (simp add: node_resolve_def)

end
