(* ===== verification/Nodes.thy ===== *)
theory Nodes
  imports PyFloat "HOL-Library.Extended_Nat"
begin

text \<open>
  A ROS node that only reacts: its callback takes the state of the node and a message and comes
  to the messages it published, and the new state or the exception that left it. \<^verbatim>\<open>rclpy.spin\<close>
  calls it for each message and passes an exception on, which ends the node. The contract of a
  node that publishes a command when it changed is proved here once; the bridges to the
  simulators are its instances.
\<close>

section \<open>Spinning\<close>

type_synonym ('s, 'm, 'o) callback = "'s \<Rightarrow> 'm \<Rightarrow> 'o list \<times> 's res"

fun spin :: "('s, 'm, 'o) callback \<Rightarrow> 's \<Rightarrow> 'm list \<Rightarrow> 'o list \<times> 's res" where
  "spin cb s [] = ([], Inr s)"
| "spin cb s (m # ms) =
     (case cb s m of
        (out, Inl e) \<Rightarrow> (out, Inl e)
      | (out, Inr s') \<Rightarrow> (case spin cb s' ms of (out', r) \<Rightarrow> (out @ out', r)))"

definition outputs :: "('s, 'm, 'o) callback \<Rightarrow> 's \<Rightarrow> 'm list \<Rightarrow> 'o list" where
  "outputs cb s ms = fst (spin cb s ms)"

lemma outputs_simps [simp]:
  "outputs cb s [] = []"
  "cb s m = (out, Inr s') \<Longrightarrow> outputs cb s (m # ms) = out @ outputs cb s' ms"
  "cb s m = (out, Inl e) \<Longrightarrow> outputs cb s (m # ms) = out"
  by (simp_all add: outputs_def split: prod.split)

section \<open>Nodes that publish changes\<close>

text \<open>
  The command a message asks for is \<open>command m\<close>; the node remembers the last one it published.
\<close>

locale change_publisher =
  fixes cb :: "('s, 'm, 'o) callback"
    and sent :: "'o \<Rightarrow> 'c option"
    and command :: "'m \<Rightarrow> 'c"
    and remembered :: "'s \<Rightarrow> 'c option"
    and good :: "'m \<Rightarrow> bool"
    and ok :: "'s \<Rightarrow> bool"
  assumes step: "ok s \<Longrightarrow> good m \<Longrightarrow>
      \<exists>out s'. cb s m = (out, Inr s') \<and> ok s' \<and> remembered s' = Some (command m) \<and>
      List.map_filter sent out = (if remembered s = Some (command m) then [] else [command m])"
begin

lemma never_raises: "ok s \<Longrightarrow> list_all good ms \<Longrightarrow> \<exists>s'. snd (spin cb s ms) = Inr s'"
proof (induction ms arbitrary: s)
  case (Cons m ms)
  then obtain out s1 where m: "cb s m = (out, Inr s1)" "ok s1" using step [of s m] by auto
  from Cons.IH [of s1] Cons.prems m show ?case by (auto split: prod.split)
qed simp

lemma publishes_from:
  "ok s \<Longrightarrow> list_all good ms \<Longrightarrow>
   (case remembered s of None \<Rightarrow> [] | Some c \<Rightarrow> [c]) @ List.map_filter sent (outputs cb s ms) =
     remdups_adj ((case remembered s of None \<Rightarrow> [] | Some c \<Rightarrow> [c]) @ map command ms)"
proof (induction ms arbitrary: s)
  case Nil
  then show ?case by (cases "remembered s") (simp_all add: map_filter_def)
next
  case (Cons m ms)
  then obtain out s1 where m: "cb s m = (out, Inr s1)" "remembered s1 = Some (command m)"
    "ok s1" "List.map_filter sent out = (if remembered s = Some (command m) then [] else [command m])"
    using step [of s m] by auto
  from Cons.IH [of s1] Cons.prems m(2,3)
  have rest: "command m # List.map_filter sent (outputs cb s1 ms) =
      remdups_adj (command m # map command ms)"
    by simp
  from m rest show ?case
    by (cases "remembered s") (auto simp: map_filter_def)
qed

text \<open>Started without a memory, the node publishes the commands without immediate repetitions.\<close>

lemma publishes_changes:
  "ok s \<Longrightarrow> list_all good ms \<Longrightarrow> remembered s = None \<Longrightarrow>
   List.map_filter sent (outputs cb s ms) = remdups_adj (map command ms)"
  using publishes_from [of s ms] by simp

end

end
