(* ===== verification/Relays.thy ===== *)
theory Relays
  imports Nodes "HOL-Library.Multiset"
begin

text \<open>
  The relay nodes of dsr_bringup2: gazebo_connection.py, gazebo_connection_pos.py and
  dsr_mujoco_bridge.py bring the joint states of the controller to a simulator, sorted by the
  number in the name of the joint. Publishing is taken to succeed. The header of a message is
  passed on unread.
\<close>

section \<open>Messages\<close>

record joint_state =
  js_header :: string
  js_name :: "string list"
  js_position :: "pyfloat list"
  js_velocity :: "pyfloat list"
  js_effort :: "pyfloat list"

datatype relay_out =
    GzJointStates joint_state
  | Commands "pyfloat list"

text \<open>\<^verbatim>\<open>xs[i]\<close> and \<^verbatim>\<open>[xs[i] for i in idx]\<close> for indices that are not negative.\<close>

definition at_index :: "'a list \<Rightarrow> nat \<Rightarrow> 'a res" where
  "at_index xs i = (if i < length xs then Inr (xs ! i) else Inl IndexError)"

definition pick :: "'a list \<Rightarrow> nat list \<Rightarrow> 'a list res" where
  "pick xs idx = map_res (at_index xs) idx"

section \<open>The number in a joint's name\<close>

definition nat_of_digits :: "string \<Rightarrow> nat" where
  "nat_of_digits ds = foldl (\<lambda>n c. 10 * n + digit_val c) 0 ds"

text \<open>\<^verbatim>\<open>re.search(r'(\d+)', name)\<close>: the first run of digits. Without one the key is infinite.\<close>

definition first_number :: "string \<Rightarrow> enat" where
  "first_number name =
     (let ds = takeWhile is_digit (dropWhile (\<lambda>c. \<not> is_digit c) name)
      in if ds = [] then \<infinity> else enat (nat_of_digits ds))"

text \<open>\<^verbatim>\<open>re.search(r'joint_(\d+)', name)\<close>: the first place where digits follow the prefix.\<close>

fun joint_number :: "string \<Rightarrow> enat" where
  "joint_number [] = \<infinity>"
| "joint_number (c # cs) =
     (let ds = takeWhile is_digit (drop 6 (c # cs))
      in if take 6 (c # cs) = ''joint_'' \<and> ds \<noteq> [] then enat (nat_of_digits ds)
         else joint_number cs)"

text \<open>\<^verbatim>\<open>sorted(range(len(msg.name)), key=...)\<close>, which is stable.\<close>

definition sorted_indices :: "(string \<Rightarrow> enat) \<Rightarrow> string list \<Rightarrow> nat list" where
  "sorted_indices key names = sort_key (\<lambda>i. key (names ! i)) [0..<length names]"

text \<open>\<^verbatim>\<open>next((i for i in sorted_indices if "joint_4" in msg.name[i]), None)\<close>\<close>

definition joint_4_index :: "string list \<Rightarrow> nat list \<Rightarrow> nat option" where
  "joint_4_index names idx = List.find (\<lambda>i. substring ''joint_4'' (names ! i)) idx"

text \<open>The five-axis model has no fourth joint.\<close>

definition model_indices :: "string \<Rightarrow> string list \<Rightarrow> nat list \<Rightarrow> nat list" where
  "model_indices model names idx =
     (if model = ''p3020'' then filter (\<lambda>i. Some i \<noteq> joint_4_index names idx) idx else idx)"

section \<open>Sorting a message\<close>

text \<open>The assignments to the sorted message in their order: each raises when its array is short.\<close>

definition sort_message :: "joint_state \<Rightarrow> nat list \<Rightarrow> joint_state res" where
  "sort_message msg idx =
     rbind (pick (js_name msg) idx) (\<lambda>names.
     rbind (pick (js_position msg) idx) (\<lambda>ps.
     rbind (pick (js_velocity msg) idx) (\<lambda>vs.
     rbind (pick (js_effort msg) idx) (\<lambda>es.
     Inr \<lparr>js_header = js_header msg, js_name = names, js_position = ps, js_velocity = vs,
          js_effort = map (\<lambda>e. if e = NaN then Fin 0 else e) es\<rparr>))))"

section \<open>GazeboConnection\<close>

text \<open>
  The data of \<^verbatim>\<open>command_msg\<close> and \<^verbatim>\<open>previous_command\<close>. \<open>as_list\<close> says whether the generated
  message class gives an empty \<^verbatim>\<open>data\<close> that equals the list \<^verbatim>\<open>[]\<close> (an array does not).
\<close>

record gazebo_node =
  gz_command :: "pyfloat list"
  gz_previous :: "pyfloat list"

definition gazebo_init :: gazebo_node where
  "gazebo_init = \<lparr>gz_command = [], gz_previous = []\<rparr>"

definition gz_sort_joint_states :: "string \<Rightarrow> joint_state \<Rightarrow> (joint_state \<times> pyfloat list) res" where
  "gz_sort_joint_states model msg =
     (let idx = sorted_indices first_number (js_name msg)
      in rbind (sort_message msg idx) (\<lambda>srt.
         rbind (pick (js_position msg) (model_indices model (js_name msg) idx)) (\<lambda>cur.
         Inr (srt, cur))))"

text \<open>\<^verbatim>\<open>list(a) != list(b)\<close> on floats: a NaN differs from itself.\<close>

definition lists_differ :: "pyfloat list \<Rightarrow> pyfloat list \<Rightarrow> bool" where
  "lists_differ xs ys = (\<not> list_all2 feq xs ys)"

definition gz_listener_callback ::
  "bool \<Rightarrow> string \<Rightarrow> (gazebo_node, joint_state, relay_out) callback" where
  "gz_listener_callback as_list model s msg =
     (case gz_sort_joint_states model msg of
        Inl e \<Rightarrow> ([], Inl e)
      | Inr (srt, cur) \<Rightarrow>
          if (as_list \<and> gz_previous s = []) \<or> lists_differ (gz_previous s) cur
          then ([GzJointStates srt, Commands cur],
                Inr (s\<lparr>gz_command := cur, gz_previous := cur\<rparr>))
          else ([GzJointStates srt], Inr (s\<lparr>gz_command := cur\<rparr>)))"

section \<open>MuJoCoBridge\<close>

record mujoco_node =
  mj_previous :: "pyfloat list"
  mj_first :: bool

definition mujoco_init :: mujoco_node where
  "mujoco_init = \<lparr>mj_previous = [], mj_first = True\<rparr>"

text \<open>The sorted message is built and dropped; building it can raise.\<close>

definition mj_sort_joint_states :: "string \<Rightarrow> joint_state \<Rightarrow> nat list res" where
  "mj_sort_joint_states model msg =
     (let idx = sorted_indices joint_number (js_name msg)
      in rbind (sort_message msg idx) (\<lambda>_. Inr (model_indices model (js_name msg) idx)))"

definition mj_listener_callback ::
  "string \<Rightarrow> (mujoco_node, joint_state, relay_out) callback" where
  "mj_listener_callback model s msg =
     (case rbind (mj_sort_joint_states model msg) (pick (js_position msg)) of
        Inl e \<Rightarrow> ([], Inl e)
      | Inr ps \<Rightarrow>
          if mj_first s \<or> lists_differ ps (mj_previous s)
          then ([Commands ps], Inr (s\<lparr>mj_previous := ps, mj_first := False\<rparr>))
          else ([], Inr s))"

section \<open>The position bridge\<close>

text \<open>gazebo_connection_pos.py: the first six positions of every second message, unsorted.\<close>

definition pos_listener_callback :: "(nat, joint_state, relay_out) callback" where
  "pos_listener_callback buffer msg =
     (case pick (js_position msg) [0..<6] of
        Inl e \<Rightarrow> ([], Inl e)
      | Inr ps \<Rightarrow>
          if buffer + 1 = 2 then ([Commands ps], Inr 0) else ([], Inr (buffer + 1)))"


section \<open>What sorting does\<close>

definition commanded :: "string \<Rightarrow> (string \<Rightarrow> enat) \<Rightarrow> joint_state \<Rightarrow> pyfloat list" where
  "commanded model key msg =
     map ((!) (js_position msg))
       (model_indices model (js_name msg) (sorted_indices key (js_name msg)))"

text \<open>
  A message whose arrays are as long as its list of names, with finite positions, of which the
  model has at least one.
\<close>

definition whole_message :: "joint_state \<Rightarrow> bool" where
  "whole_message msg \<longleftrightarrow>
     length (js_position msg) = length (js_name msg) \<and>
     length (js_velocity msg) = length (js_name msg) \<and>
     length (js_effort msg) = length (js_name msg) \<and>
     (\<forall>p \<in> set (js_position msg). \<exists>q. p = Fin q)"

lemma sorted_indices_props:
  "mset (sorted_indices key names) = mset [0..<length names]"
  "distinct (sorted_indices key names)"
  "set (sorted_indices key names) = {..<length names}"
  "sorted (map (\<lambda>i. key (names ! i)) (sorted_indices key names))"
  by (auto simp: sorted_indices_def)

lemma sort_key_agree: "\<forall>x \<in> set xs. f x = g x \<Longrightarrow> sort_key f xs = sort_key g xs"
proof (induction xs)
  case (Cons x xs)
  have "insort_key f x ys = insort_key g x ys" if "\<forall>y \<in> set (x # ys). f y = g y" for ys
    using that by (induction ys) auto
  from this [of "sort_key g xs"] Cons show ?case by simp
qed simp

lemma model_indices_subset: "set (model_indices model names idx) \<subseteq> set idx"
  by (simp add: model_indices_def)

lemma pick_in_range:
  "\<forall>i \<in> set idx. i < length xs \<Longrightarrow> pick xs idx = Inr (map ((!) xs) idx)"
  by (simp add: pick_def at_index_def map_res_map)

lemma pick_short: "i \<in> set idx \<Longrightarrow> length xs \<le> i \<Longrightarrow> pick xs idx = Inl IndexError"
  unfolding pick_def at_index_def by (induction idx) (auto simp: rbind_def split: sum.splits)

text \<open>The only exception is of an array that is too short.\<close>

lemma pick_sorted:
  "pick xs (sorted_indices key names) =
     (if length names \<le> length xs then Inr (map ((!) xs) (sorted_indices key names)) else Inl IndexError)"
proof (cases "length names \<le> length xs")
  case True
  then show ?thesis by (auto intro!: pick_in_range simp: sorted_indices_props)
next
  case False
  then have "length xs \<in> set (sorted_indices key names)" by (simp add: sorted_indices_props)
  from pick_short [OF this, of xs] False show ?thesis by simp
qed

lemma sort_message_raises:
  "sort_message msg (sorted_indices key (js_name msg)) = Inl e \<longleftrightarrow>
     e = IndexError \<and>
     (length (js_position msg) < length (js_name msg) \<or> length (js_velocity msg) < length (js_name msg) \<or>
      length (js_effort msg) < length (js_name msg))"
  by (auto simp: sort_message_def pick_sorted rbind_Inl_iff)

lemma whole_message_sorts:
  assumes "whole_message msg"
  shows "\<exists>srt. sort_message msg (sorted_indices key (js_name msg)) = Inr srt"
    and "pick (js_position msg) (model_indices model (js_name msg) (sorted_indices key (js_name msg)))
      = Inr (commanded model key msg)"
  using assms model_indices_subset [of model "js_name msg" "sorted_indices key (js_name msg)"]
  by (auto simp: whole_message_def sort_message_def pick_sorted commanded_def
      sorted_indices_props(3) intro!: pick_in_range)

lemma commanded_finite:
  assumes "whole_message msg" and "p \<in> set (commanded model key msg)"
  shows "\<exists>q. p = Fin q"
proof -
  from assms(2) obtain i where "p = js_position msg ! i" "i < length (js_name msg)"
    using model_indices_subset [of model "js_name msg" "sorted_indices key (js_name msg)"]
    by (auto simp: commanded_def sorted_indices_props)
  with assms(1) show ?thesis unfolding whole_message_def by (metis nth_mem)
qed

lemma lists_differ_finite:
  assumes "\<forall>p \<in> set xs. \<exists>q. p = Fin q" and "\<forall>p \<in> set ys. \<exists>q. p = Fin q"
  shows "lists_differ xs ys \<longleftrightarrow> xs \<noteq> ys"
proof -
  have "list_all2 feq xs ys \<longleftrightarrow> xs = ys"
    using assms
  proof (induction xs arbitrary: ys)
    case (Cons x xs)
    then show ?case by (cases ys) auto
  qed auto
  then show ?thesis by (simp add: lists_differ_def)
qed


section \<open>The bridges publish changes\<close>

definition commands_of :: "relay_out list \<Rightarrow> pyfloat list list" where
  "commands_of out = List.map_filter (\<lambda>m. case m of Commands c \<Rightarrow> Some c | _ \<Rightarrow> None) out"

definition finite_list :: "pyfloat list \<Rightarrow> bool" where
  "finite_list xs \<longleftrightarrow> (\<forall>p \<in> set xs. \<exists>q. p = Fin q)"

lemma commanded_finite_list: "whole_message msg \<Longrightarrow> finite_list (commanded model key msg)"
  using commanded_finite by (auto simp: finite_list_def)

lemma lists_differ_iff: "finite_list xs \<Longrightarrow> finite_list ys \<Longrightarrow> lists_differ xs ys \<longleftrightarrow> xs \<noteq> ys"
  by (simp add: finite_list_def lists_differ_finite)

lemma gz_callback_whole:
  assumes "whole_message msg"
  shows "\<exists>srt. gz_listener_callback as_list model s msg =
    (let cur = commanded model first_number msg
     in if (as_list \<and> gz_previous s = []) \<or> lists_differ (gz_previous s) cur
        then ([GzJointStates srt, Commands cur], Inr (s\<lparr>gz_command := cur, gz_previous := cur\<rparr>))
        else ([GzJointStates srt], Inr (s\<lparr>gz_command := cur\<rparr>)))"
proof -
  from whole_message_sorts(1) [OF assms] obtain srt
    where "sort_message msg (sorted_indices first_number (js_name msg)) = Inr srt" ..
  then have "gz_sort_joint_states model msg = Inr (srt, commanded model first_number msg)"
    by (simp add: gz_sort_joint_states_def whole_message_sorts(2) [OF assms])
  then show ?thesis by (intro exI [of _ srt]) (simp add: gz_listener_callback_def Let_def)
qed

interpretation gazebo: change_publisher "gz_listener_callback as_list model"
  "\<lambda>m. case m of Commands c \<Rightarrow> Some c | _ \<Rightarrow> None" "commanded model first_number"
  "\<lambda>s :: gazebo_node. if gz_previous s = [] then None else Some (gz_previous s)"
  "\<lambda>msg. whole_message msg \<and> commanded model first_number msg \<noteq> []"
  "\<lambda>s. finite_list (gz_previous s)"
  for as_list model
proof
  fix s :: gazebo_node and msg
  assume s: "finite_list (gz_previous s)"
    and m: "whole_message msg \<and> commanded model first_number msg \<noteq> []"
  from gz_callback_whole [of msg as_list model s] m obtain srt
    where "gz_listener_callback as_list model s msg =
      (let cur = commanded model first_number msg
       in if (as_list \<and> gz_previous s = []) \<or> lists_differ (gz_previous s) cur
          then ([GzJointStates srt, Commands cur], Inr (s\<lparr>gz_command := cur, gz_previous := cur\<rparr>))
          else ([GzJointStates srt], Inr (s\<lparr>gz_command := cur\<rparr>)))"
    by blast
  with m s commanded_finite_list [of msg model first_number]
  show "\<exists>out s'. gz_listener_callback as_list model s msg = (out, Inr s') \<and>
      finite_list (gz_previous s') \<and>
      (if gz_previous s' = [] then None else Some (gz_previous s')) =
        Some (commanded model first_number msg) \<and>
      List.map_filter (\<lambda>m. case m of Commands c \<Rightarrow> Some c | _ \<Rightarrow> None) out =
        (if (if gz_previous s = [] then None else Some (gz_previous s)) =
              Some (commanded model first_number msg)
         then [] else [commanded model first_number msg])"
    by (auto simp: Let_def lists_differ_iff map_filter_def)
qed

interpretation mujoco: change_publisher "mj_listener_callback model"
  "\<lambda>m. case m of Commands c \<Rightarrow> Some c | _ \<Rightarrow> None" "commanded model joint_number"
  "\<lambda>s :: mujoco_node. if mj_first s then None else Some (mj_previous s)"
  whole_message "\<lambda>s. finite_list (mj_previous s)"
  for model
proof
  fix s :: mujoco_node and msg
  assume s: "finite_list (mj_previous s)" and m: "whole_message msg"
  from whole_message_sorts [OF m]
  have "rbind (mj_sort_joint_states model msg) (pick (js_position msg)) =
      Inr (commanded model joint_number msg)"
    by (metis mj_sort_joint_states_def rbind_simps(2))
  with s commanded_finite_list [OF m, of model joint_number]
  show "\<exists>out s'. mj_listener_callback model s msg = (out, Inr s') \<and>
      finite_list (mj_previous s') \<and>
      (if mj_first s' then None else Some (mj_previous s')) = Some (commanded model joint_number msg) \<and>
      List.map_filter (\<lambda>m. case m of Commands c \<Rightarrow> Some c | _ \<Rightarrow> None) out =
        (if (if mj_first s then None else Some (mj_previous s)) =
              Some (commanded model joint_number msg)
         then [] else [commanded model joint_number msg])"
    by (auto simp: mj_listener_callback_def lists_differ_iff map_filter_def)
qed

end
