(* ===== verification/VisualServo.thy ===== *)
theory VisualServo
  imports Relays
begin

text \<open>
  The two nodes of dsr_visualservoing that move the robot: detect_marker_gz.py looks for a marker
  in each image and publishes its pose and id, send_pose_servol_gz.py streams the poses to the
  robot. The pose of a marker is a parameter here and computed in MarkerPose; the time is part of
  the frame; drawing, windows and logging are left out. The nodes run in their own processes and
  meet only in the queues of their two topics.
\<close>

section \<open>The detector\<close>

datatype 'c frame = Unreadable | Frame "'c list" "int list option"

record detector =
  dm_marker :: "int option"
  dm_last_time :: rat
  dm_joint :: "pyfloat list option"
  dm_joint_pubs :: nat

datatype servo_out =
    MarkerPose "pyfloat list"
  | MarkerId int
  | ServojStream "pyfloat list"
  | ServolStream "pyfloat list"

definition detector_init :: "rat \<Rightarrow> detector" where
  "detector_init now = \<lparr>dm_marker = None, dm_last_time = now, dm_joint = None, dm_joint_pubs = 0\<rparr>"

text \<open>The attribute \<^verbatim>\<open>current_joint\<close> does not exist before the first joint state.\<close>

definition waiting_pose :: "pyfloat list" where
  "waiting_pose = [Fin 0, Fin 0, Fin 90, Fin 0, Fin 90, Fin 0]"

text \<open>\<open>deg j\<close> is \<^verbatim>\<open>round(j * 180 / np.pi, 1)\<close>.\<close>

definition joint_callback ::
  "(pyfloat \<Rightarrow> pyfloat) \<Rightarrow> detector \<Rightarrow> pyfloat list \<Rightarrow> servo_out list \<times> detector res" where
  "joint_callback deg s position =
     (if length position < 5 then ([], Inl IndexError)
      else ([], Inr (s\<lparr>dm_joint := Some (map deg
             (position[2 := position ! 4, 3 := position ! 2, 4 := position ! 3]))\<rparr>)))"

definition MARKER_LOST :: int where "MARKER_LOST = 1000"

text \<open>A frame with markers: the followed one is kept while it is among them.\<close>

definition follow_marker :: "detector \<Rightarrow> rat \<Rightarrow> int list \<Rightarrow> (int \<times> detector) res" where
  "follow_marker s now ids =
     (case dm_marker s of
        Some k \<Rightarrow>
          if k \<in> set ids then Inr (k, s)
          else rbind (at_index ids 0) (\<lambda>i. Inr (i, s\<lparr>dm_marker := Some i, dm_last_time := now\<rparr>))
      | None \<Rightarrow>
          rbind (at_index ids 0) (\<lambda>i. Inr (i, s\<lparr>dm_marker := Some i, dm_last_time := now\<rparr>)))"

definition marker_index :: "int list \<Rightarrow> int \<Rightarrow> nat" where
  "marker_index ids k = length (takeWhile (\<lambda>i. i \<noteq> k) ids)"

text \<open>\<open>estimate\<close> is the pose in the robot's frame that the image processing finds at a corner.\<close>

definition detect_callback ::
  "('c \<Rightarrow> pyfloat list) \<Rightarrow> detector \<Rightarrow> rat \<Rightarrow> 'c frame \<Rightarrow> servo_out list \<times> detector res" where
  "detect_callback estimate s now f =
     (case f of
        Unreadable \<Rightarrow> ([], Inr s)
      | Frame corners ids_opt \<Rightarrow>
     (case (corners, ids_opt) of
        (c # cs, Some ids) \<Rightarrow>
          (case rbind (follow_marker s now ids) (\<lambda>(k, s').
                  rbind (at_index corners (marker_index ids k)) (\<lambda>corner. Inr (k, s', corner))) of
             Inl e \<Rightarrow> ([], Inl e)
           | Inr (k, s', corner) \<Rightarrow> ([MarkerPose (estimate corner), MarkerId k], Inr s'))
      | _ \<Rightarrow>
          if 2 < now - dm_last_time s then
            (case dm_joint s of
               None \<Rightarrow> ([], Inl AttributeError)
             | Some j \<Rightarrow>
                 if lists_differ j waiting_pose
                 then ([ServojStream waiting_pose, MarkerId MARKER_LOST],
                       Inr (s\<lparr>dm_marker := Some MARKER_LOST,
                              dm_joint_pubs := Suc (dm_joint_pubs s)\<rparr>))
                 else ([MarkerId MARKER_LOST], Inr (s\<lparr>dm_marker := Some MARKER_LOST\<rparr>)))
          else ([], Inr s)))"

datatype 'c detector_in = JointMsg "pyfloat list" | ImageMsg rat "'c frame"

fun detector_callback ::
  "(pyfloat \<Rightarrow> pyfloat) \<Rightarrow> ('c \<Rightarrow> pyfloat list) \<Rightarrow> (detector, 'c detector_in, servo_out) callback" where
  "detector_callback deg estimate s (JointMsg position) = joint_callback deg s position"
| "detector_callback deg estimate s (ImageMsg now f) = detect_callback estimate s now f"

section \<open>The sender\<close>

record sender =
  sp_marker :: "int option"
  sp_pose :: "pyfloat list option"
  sp_previous_marker :: "int option"
  sp_previous_pose :: "pyfloat list option"
  sp_pubs :: nat

definition sender_init :: sender where
  "sender_init = \<lparr>sp_marker = None, sp_pose = None, sp_previous_marker = None,
     sp_previous_pose = None, sp_pubs = 0\<rparr>"

text \<open>
  \<open>accepts\<close>: the generated setter of the six values takes the pose. A publisher is created for
  every message and destroyed only when the marker is lost; what follows the publication in the
  code only chooses a log message.
\<close>

definition check_and_process_data ::
  "(pyfloat list \<Rightarrow> bool) \<Rightarrow> sender \<Rightarrow> servo_out list \<times> sender res" where
  "check_and_process_data accepts s =
     (case (sp_marker s, sp_pose s) of
        (Some k, Some p) \<Rightarrow>
          let s' = s\<lparr>sp_previous_marker := Some k, sp_previous_pose := Some p\<rparr>
          in if k = MARKER_LOST then ([], Inr s')
             else if accepts p then ([ServolStream p], Inr (s'\<lparr>sp_pubs := Suc (sp_pubs s)\<rparr>))
             else ([], Inl AssertionError)
      | _ \<Rightarrow> ([], Inr s))"

definition marker_id_callback ::
  "(pyfloat list \<Rightarrow> bool) \<Rightarrow> sender \<Rightarrow> int \<Rightarrow> servo_out list \<times> sender res" where
  "marker_id_callback accepts s k = check_and_process_data accepts (s\<lparr>sp_marker := Some k\<rparr>)"

definition marker_pose_callback ::
  "(pyfloat list \<Rightarrow> bool) \<Rightarrow> sender \<Rightarrow> pyfloat list \<Rightarrow> servo_out list \<times> sender res" where
  "marker_pose_callback accepts s p = check_and_process_data accepts (s\<lparr>sp_pose := Some p\<rparr>)"

section \<open>Both nodes together\<close>

text \<open>
  The queues of the topics keep the last ten messages. \<open>vs_found\<close> and \<open>vs_robot\<close> are histories:
  the poses the detector published and the poses streamed to the robot, with the marker id the
  sender had.
\<close>

record servo_system =
  vs_detector :: detector
  vs_ids :: "int list"
  vs_poses :: "pyfloat list list"
  vs_sender :: sender
  vs_found :: "pyfloat list list"
  vs_robot :: "(int \<times> pyfloat list) list"

definition enqueue :: "'a list \<Rightarrow> 'a list \<Rightarrow> 'a list" where
  "enqueue new q = (let r = q @ new in drop (length r - 10) r)"

definition poses_of :: "servo_out list \<Rightarrow> pyfloat list list" where
  "poses_of out = List.map_filter (\<lambda>m. case m of MarkerPose p \<Rightarrow> Some p | _ \<Rightarrow> None) out"

definition ids_of :: "servo_out list \<Rightarrow> int list" where
  "ids_of out = List.map_filter (\<lambda>m. case m of MarkerId k \<Rightarrow> Some k | _ \<Rightarrow> None) out"

definition streamed :: "sender \<Rightarrow> servo_out list \<Rightarrow> (int \<times> pyfloat list) list" where
  "streamed s out =
     List.map_filter (\<lambda>m. case m of ServolStream p \<Rightarrow> Some (the (sp_marker s), p) | _ \<Rightarrow> None) out"

inductive servo_step ::
  "(pyfloat \<Rightarrow> pyfloat) \<Rightarrow> ('c \<Rightarrow> pyfloat list) \<Rightarrow> (pyfloat list \<Rightarrow> bool) \<Rightarrow>
   servo_system \<Rightarrow> servo_system \<Rightarrow> bool" for deg estimate accepts where
  detect: "detector_callback deg estimate (vs_detector S) m = (out, Inr d) \<Longrightarrow>
     servo_step deg estimate accepts S
       (S\<lparr>vs_detector := d, vs_ids := enqueue (ids_of out) (vs_ids S),
          vs_poses := enqueue (poses_of out) (vs_poses S),
          vs_found := vs_found S @ poses_of out\<rparr>)"
| take_id: "vs_ids S = k # ks \<Longrightarrow> marker_id_callback accepts (vs_sender S) k = (out, Inr s) \<Longrightarrow>
     servo_step deg estimate accepts S
       (S\<lparr>vs_ids := ks, vs_sender := s, vs_robot := vs_robot S @ streamed s out\<rparr>)"
| take_pose: "vs_poses S = p # ps \<Longrightarrow> marker_pose_callback accepts (vs_sender S) p = (out, Inr s) \<Longrightarrow>
     servo_step deg estimate accepts S
       (S\<lparr>vs_poses := ps, vs_sender := s, vs_robot := vs_robot S @ streamed s out\<rparr>)"

definition servo_start :: "rat \<Rightarrow> servo_system" where
  "servo_start now = \<lparr>vs_detector = detector_init now, vs_ids = [], vs_poses = [],
     vs_sender = sender_init, vs_found = [], vs_robot = []\<rparr>"

section \<open>Lemmas\<close>

lemma map_filter_simps [simp]:
  "List.map_filter f [] = []"
  "List.map_filter f (x # xs) = (case f x of None \<Rightarrow> [] | Some y \<Rightarrow> [y]) @ List.map_filter f xs"
  by (simp_all add: map_filter_def split: option.splits)

lemma set_enqueue: "set (enqueue new q) \<subseteq> set q \<union> set new"
  using set_drop_subset [of "length (q @ new) - 10" "q @ new"]
  by (auto simp: enqueue_def Let_def)

lemma length_enqueue: "length (enqueue new q) \<le> 10"
  by (simp add: enqueue_def Let_def)

text \<open>What the sender does: nothing, or one pose under an id that is not the lost one.\<close>

lemma process_cases:
  assumes "check_and_process_data accepts s = (out, Inr s')"
  shows "sp_marker s' = sp_marker s \<and> sp_pose s' = sp_pose s \<and>
    (out = [] \<and> streamed s' out = [] \<and> sp_pubs s' = sp_pubs s \<or>
     (\<exists>k p. sp_marker s = Some k \<and> k \<noteq> MARKER_LOST \<and> sp_pose s = Some p \<and> accepts p \<and>
        out = [ServolStream p] \<and> streamed s' out = [(k, p)] \<and> sp_pubs s' = Suc (sp_pubs s)))"
  using assms
  by (auto simp: check_and_process_data_def Let_def streamed_def split: option.split_asm if_split_asm)

text \<open>The joint states of the simulator come in the order 1, 2, 4, 5, 3, 6.\<close>

lemma joint_callback_order:
  "joint_callback deg s [j1, j2, j4, j5, j3, j6] =
     ([], Inr (s\<lparr>dm_joint := Some (map deg [j1, j2, j3, j4, j5, j6])\<rparr>))"
  by (simp add: joint_callback_def numeral_eq_Suc)

lemma marker_index_less: "k \<in> set ids \<Longrightarrow> marker_index ids k < length ids"
  unfolding marker_index_def by (induction ids) auto

text \<open>While a marker stays in view, the time of detection is that of its first frame.\<close>

lemma detect_kept:
  assumes "dm_marker s = Some k" and "k \<in> set ids" and "length ids \<le> length corners"
  shows "\<exists>c \<in> set corners. detect_callback estimate s now (Frame corners (Some ids)) =
    ([MarkerPose (estimate c), MarkerId k], Inr s)"
proof -
  from marker_index_less [OF assms(2)] assms(3) have "marker_index ids k < length corners" by simp
  moreover from this have "corners \<noteq> []" by auto
  ultimately show ?thesis
    using assms
    by (intro bexI [of _ "corners ! marker_index ids k"])
      (auto simp: detect_callback_def follow_marker_def at_index_def neq_Nil_conv)
qed

lemma detect_new:
  assumes "dm_marker s = None \<or> (\<exists>k. dm_marker s = Some k \<and> k \<notin> set (i # ids))"
    and "length (i # ids) \<le> length corners"
  shows "detect_callback estimate s now (Frame corners (Some (i # ids))) =
    ([MarkerPose (estimate (corners ! 0)), MarkerId i],
     Inr (s\<lparr>dm_marker := Some i, dm_last_time := now\<rparr>))"
  using assms
  by (cases corners) (auto simp: detect_callback_def follow_marker_def at_index_def marker_index_def)

text \<open>A frame shows marker \<open>k\<close>, whatever else it shows.\<close>

fun shows_marker :: "int \<Rightarrow> 'c detector_in \<Rightarrow> bool" where
  "shows_marker k (ImageMsg _ (Frame corners (Some ids))) = (k \<in> set ids \<and> length ids \<le> length corners)"
| "shows_marker k _ = False"

lemma followed_frames:
  assumes "dm_marker s = Some k" and "list_all (shows_marker k) fs"
  shows "snd (spin (detector_callback deg estimate) s fs) = Inr s"
  using assms(2)
proof (induction fs)
  case (Cons f fs)
  then obtain now corners ids where f: "f = ImageMsg now (Frame corners (Some ids))"
    "k \<in> set ids" "length ids \<le> length corners"
    by (cases "(k, f)" rule: shows_marker.cases) auto
  from detect_kept [OF assms(1) f(2,3), of estimate now] Cons f(1) show ?case
    by (auto split: prod.splits)
qed simp

end
