(* ===== verification/Geometry.thy ===== *)
theory Geometry
  imports Prelude "HOL-Library.Sublist"
begin

text \<open>
  The vectors and rigid transformations the mesh scripts compute with: what numpy's elementwise
  operations, \<^verbatim>\<open>dot\<close>, \<^verbatim>\<open>cross\<close>, \<^verbatim>\<open>norm\<close> and the matrix product mean on real numbers. The rounding of
  floats is not modelled in these theories.
\<close>

section \<open>Vectors\<close>

type_synonym vec = "real \<times> real \<times> real"

fun vx :: "vec \<Rightarrow> real" where "vx (x, y, z) = x"
fun vy :: "vec \<Rightarrow> real" where "vy (x, y, z) = y"
fun vz :: "vec \<Rightarrow> real" where "vz (x, y, z) = z"

fun vadd :: "vec \<Rightarrow> vec \<Rightarrow> vec" where
  "vadd (a, b, c) (x, y, z) = (a + x, b + y, c + z)"

fun vsub :: "vec \<Rightarrow> vec \<Rightarrow> vec" where
  "vsub (a, b, c) (x, y, z) = (a - x, b - y, c - z)"

fun vscale :: "real \<Rightarrow> vec \<Rightarrow> vec" where
  "vscale k (x, y, z) = (k * x, k * y, k * z)"

definition vneg :: "vec \<Rightarrow> vec" where "vneg v = vscale (-1) v"

definition vdiv :: "vec \<Rightarrow> real \<Rightarrow> vec" where "vdiv v k = vscale (1 / k) v"

fun vdot :: "vec \<Rightarrow> vec \<Rightarrow> real" where
  "vdot (a, b, c) (x, y, z) = a * x + b * y + c * z"

fun vcross :: "vec \<Rightarrow> vec \<Rightarrow> vec" where
  "vcross (a, b, c) (x, y, z) = (b * z - c * y, c * x - a * z, a * y - b * x)"

definition vnorm :: "vec \<Rightarrow> real" where "vnorm v = sqrt (vdot v v)"

definition vdist :: "vec \<Rightarrow> vec \<Rightarrow> real" where "vdist p q = vnorm (vsub p q)"

definition vsum :: "vec list \<Rightarrow> vec" where "vsum vs = foldr vadd vs (0, 0, 0)"

section \<open>Rigid transformations\<close>

text \<open>A matrix by its columns, and the 4 by 4 matrix of a pose by its two parts.\<close>

type_synonym mat = "vec \<times> vec \<times> vec"

record se3 =
  rot :: mat
  trans :: vec

fun mat_vec :: "mat \<Rightarrow> vec \<Rightarrow> vec" where
  "mat_vec (a, b, c) (x, y, z) = vadd (vscale x a) (vadd (vscale y b) (vscale z c))"

fun mat_mul :: "mat \<Rightarrow> mat \<Rightarrow> mat" where
  "mat_mul A (x, y, z) = (mat_vec A x, mat_vec A y, mat_vec A z)"

definition make_SE3 :: "mat \<Rightarrow> vec \<Rightarrow> se3" where
  "make_SE3 R_mat t = \<lparr>rot = R_mat, trans = t\<rparr>"

text \<open>\<^verbatim>\<open>T @ (p, 1)\<close>, first three components, and \<^verbatim>\<open>A @ B\<close>.\<close>

definition se3_apply :: "se3 \<Rightarrow> vec \<Rightarrow> vec" where
  "se3_apply T p = vadd (mat_vec (rot T) p) (trans T)"

definition se3_mul :: "se3 \<Rightarrow> se3 \<Rightarrow> se3" where
  "se3_mul A B = \<lparr>rot = mat_mul (rot A) (rot B), trans = se3_apply A (trans B)\<rparr>"

section \<open>Positions in arrays\<close>

text \<open>\<^verbatim>\<open>np.argmin\<close>: the first place of the least value, ValueError for an empty array.\<close>

definition argmin :: "real list \<Rightarrow> nat res" where
  "argmin xs =
     (if xs = [] then Inl ValueError
      else Inr (length (takeWhile (\<lambda>x. x \<noteq> Min (set xs)) xs)))"

lemma takeWhile_until: "a \<in> set xs \<Longrightarrow> length (takeWhile (\<lambda>x. x \<noteq> a) xs) < length xs"
  by (induction xs) auto

lemma argmin_least:
  assumes "argmin xs = Inr i"
  shows "i < length xs" and "\<forall>x \<in> set xs. xs ! i \<le> x"
proof -
  have ne: "xs \<noteq> []" and i: "i = length (takeWhile (\<lambda>x. x \<noteq> Min (set xs)) xs)"
    using assms by (auto simp: argmin_def split: if_split_asm)
  have "Min (set xs) \<in> set xs" using ne by simp
  then have less: "i < length xs" unfolding i by (rule takeWhile_until)
  then show "i < length xs" .
  from nth_length_takeWhile [of "\<lambda>x. x \<noteq> Min (set xs)" xs] less have "xs ! i = Min (set xs)"
    by (simp add: i)
  then show "\<forall>x \<in> set xs. xs ! i \<le> x" by simp
qed

section \<open>Laws\<close>

lemma vec_cases [cases type]:
  obtains a b c where "(v :: vec) = (a, b, c)"
  by (cases v)

named_theorems vec_simps

lemmas vec_defs [vec_simps] = vneg_def vdiv_def

lemma vdot_self_nonneg [simp]: "0 \<le> vdot v v"
  by (cases v) simp

lemma vnorm_nonneg [simp]: "0 \<le> vnorm v"
  by (simp add: vnorm_def)

lemma vnorm_sq: "vnorm v * vnorm v = vdot v v"
  by (simp add: vnorm_def)

lemma vdot_commute: "vdot u v = vdot v u"
  by (cases u; cases v) (simp add: algebra_simps)

lemma vdot_scale [vec_simps]: "vdot (vscale k u) v = k * vdot u v" "vdot u (vscale k v) = k * vdot u v"
  by (cases u; cases v; simp add: algebra_simps)+

lemma vcross_scale [vec_simps]:
  "vcross (vscale k u) v = vscale k (vcross u v)" "vcross u (vscale k v) = vscale k (vcross u v)"
  by (cases u; cases v; simp add: algebra_simps)+

lemma vscale_vscale [vec_simps]: "vscale k (vscale l v) = vscale (k * l) v" "vscale 1 v = v"
  by (cases v; simp add: algebra_simps)+

lemma vdot_cross [simp]:
  "vdot u (vcross u v) = 0" "vdot v (vcross u v) = 0" "vdot (vcross u v) u = 0" "vdot (vcross u v) v = 0"
  by (cases u; cases v; simp add: algebra_simps)+

lemma vdot_cross_self: "vdot (vcross u v) (vcross u v) = vdot u u * vdot v v - (vdot u v)\<^sup>2"
  by (cases u; cases v) (simp add: algebra_simps power2_eq_square)

lemma vcross_vcross:
  "vcross u (vcross v w) = vsub (vscale (vdot u w) v) (vscale (vdot u v) w)"
  by (cases u; cases v; cases w) (simp add: algebra_simps)

lemma vcross_anti: "vcross v u = vscale (-1) (vcross u v)"
  by (cases u; cases v) (simp add: algebra_simps)

lemma vnorm_scale [vec_simps]: "vnorm (vscale k v) = \<bar>k\<bar> * vnorm v"
  by (simp add: vnorm_def vdot_scale real_sqrt_mult flip: mult.assoc)

lemma vnorm_unit: "vdot v v = 1 \<Longrightarrow> vnorm v = 1"
  by (simp add: vnorm_def)

text \<open>Dividing by the norm gives a unit vector.\<close>

lemma normalised_unit: "vnorm v \<noteq> 0 \<Longrightarrow> vdot (vdiv v (vnorm v)) (vdiv v (vnorm v)) = 1"
  by (simp add: vdiv_def vdot_scale vnorm_sq [of v, symmetric])

end
