(* ===== verification/MarkerPose.thy ===== *)
theory MarkerPose
  imports VisualServo Geometry
begin

text \<open>
  The pose that detect_marker_gz.py computes for a marker, on real numbers: the pose the camera
  sees, brought to the frame of the robot, rounded and in millimetres and degrees. Pose
  estimation and Rodrigues' formula (OpenCV) and the conversions of Euler angles
  (tf_transformations) are parameters.
\<close>

section \<open>The libraries\<close>

text \<open>\<open>vl_estimate\<close> gives the rotation vector and the translation of a marker's corners.\<close>

record 'c vision_lib =
  vl_estimate :: "'c \<Rightarrow> vec \<times> vec"
  vl_rodrigues :: "vec \<Rightarrow> mat"
  vl_euler_matrix :: "real \<Rightarrow> real \<Rightarrow> real \<Rightarrow> mat"
  vl_euler :: "mat \<Rightarrow> vec"

text \<open>\<^verbatim>\<open>np.round\<close> to \<open>n\<close> places: the nearest, of two the even one; on vectors by component.\<close>

definition nearest_even :: "real \<Rightarrow> int" where
  "nearest_even x =
     (let n = \<lfloor>x\<rfloor>; d = x - of_int n
      in if d < 1 / 2 then n else if 1 / 2 < d then n + 1 else if even n then n else n + 1)"

definition round_places :: "nat \<Rightarrow> real \<Rightarrow> real" where
  "round_places n x = of_int (nearest_even (x * 10 ^ n)) / 10 ^ n"

fun round_vec :: "nat \<Rightarrow> vec \<Rightarrow> vec" where
  "round_vec n (x, y, z) = (round_places n x, round_places n y, round_places n z)"

section \<open>The camera and the marker\<close>

definition camera_rotation :: "'c vision_lib \<Rightarrow> mat" where
  "camera_rotation V =
     (let R_z_180 = vl_euler_matrix V 0 0 pi; R_y_180 = vl_euler_matrix V 0 pi 0;
          R_z_90 = vl_euler_matrix V 0 0 (pi / 2)
      in mat_mul (mat_mul R_z_180 R_y_180) R_z_90)"

definition T_cobot_camera :: "'c vision_lib \<Rightarrow> se3" where
  "T_cobot_camera V =
     (let (a, b, c) = camera_rotation V
      in make_SE3 (round_vec 9 a, round_vec 9 b, round_vec 9 c) (round_vec 9 (1, 0, 12 / 10)))"

definition marker_position :: "'c vision_lib \<Rightarrow> vec \<Rightarrow> vec" where
  "marker_position V tvec = round_vec 4 (vscale 1000 (se3_apply (T_cobot_camera V) tvec))"

definition marker_angles :: "'c vision_lib \<Rightarrow> vec \<Rightarrow> vec" where
  "marker_angles V rvec =
     round_vec 4 (vscale (180 / pi) (vl_euler V (mat_mul (camera_rotation V) (vl_rodrigues V rvec))))"

text \<open>\<open>single\<close> is the number as the message of 32-bit floats holds it.\<close>

definition marker_pose :: "'c vision_lib \<Rightarrow> (real \<Rightarrow> pyfloat) \<Rightarrow> 'c \<Rightarrow> pyfloat list" where
  "marker_pose V single corner =
     (let (rvec, tvec) = vl_estimate V corner;
          (x, y, z) = marker_position V tvec;
          (rx, ry, rz) = marker_angles V rvec
      in map single [x, y, z + 200, rx, ry + 180, rz])"

text \<open>The node with its computation.\<close>

definition detect_marker_gz ::
  "'c vision_lib \<Rightarrow> (real \<Rightarrow> pyfloat) \<Rightarrow> (pyfloat \<Rightarrow> pyfloat) \<Rightarrow>
   (detector, 'c detector_in, servo_out) callback" where
  "detect_marker_gz V single deg = detector_callback deg (marker_pose V single)"

section \<open>Lemmas\<close>

lemma nearest_even_int [simp]: "nearest_even (of_int n) = n"
  by (simp add: nearest_even_def)

lemma nearest_even_close: "\<bar>x - of_int (nearest_even x)\<bar> \<le> 1 / 2"
  unfolding nearest_even_def Let_def by (auto simp: abs_if; linarith)

lemma round_places_close: "\<bar>x - round_places n x\<bar> \<le> 1 / (2 * 10 ^ n)"
proof -
  have "\<bar>x - round_places n x\<bar> = \<bar>x * 10 ^ n - of_int (nearest_even (x * 10 ^ n))\<bar> / 10 ^ n"
    by (simp add: round_places_def divide_simps abs_mult)
  also have "\<dots> \<le> (1 / 2) / 10 ^ n"
    by (intro divide_right_mono nearest_even_close) simp
  finally show ?thesis by simp
qed

lemma round_places_exact: "x * 10 ^ n = of_int k \<Longrightarrow> round_places n x = x"
  by (simp add: round_places_def) (metis nonzero_mult_div_cancel_right power_eq_0_iff zero_neq_numeral)

text \<open>Rotations about one axis, which the angles in use stand for.\<close>

definition euler_laws :: "'c vision_lib \<Rightarrow> bool" where
  "euler_laws V \<longleftrightarrow>
     (\<forall>a. vl_euler_matrix V 0 0 a = ((cos a, sin a, 0), (- sin a, cos a, 0), (0, 0, 1))) \<and>
     (\<forall>a. vl_euler_matrix V 0 a 0 = ((cos a, 0, - sin a), (0, 1, 0), (sin a, 0, cos a)))"

lemma camera_rotation_value:
  assumes "euler_laws V"
  shows "camera_rotation V = ((0, - 1, 0), (- 1, 0, 0), (0, 0, - 1))"
  using assms by (simp add: camera_rotation_def euler_laws_def)

text \<open>
  The camera looks down from 1.2 metres above a point one metre in front of the robot: what it sees
  to the right and below is to the robot's right and nearer, in millimetres, each coordinate within
  the rounding of four places.
\<close>

theorem marker_position_value:
  assumes "euler_laws V"
  shows "marker_position V (tx, ty, tz) =
    round_vec 4 (1000 * (1 - ty), - (1000 * tx), 1000 * (12 / 10 - tz))"
proof -
  have exact: "round_places 9 0 = 0" "round_places 9 1 = 1" "round_places 9 (- 1) = - 1"
    "round_places 9 (6 / 5) = 6 / 5"
    by (rule round_places_exact [of _ _ 0] round_places_exact [of _ _ "10 ^ 9"]
        round_places_exact [of _ _ "- (10 ^ 9)"] round_places_exact [of _ _ 1200000000]; simp)+
  show ?thesis
    using camera_rotation_value [OF assms]
    by (simp add: marker_position_def T_cobot_camera_def se3_apply_def make_SE3_def exact algebra_simps)
qed

end
