(* ===== verification/Bringup.thy ===== *)
theory Bringup
  imports Ros
begin

text \<open>
  The helpers of dsr_bringup2: the search for the repository and the update rate of utils.py, the
  emulator control of run_emulator.py, and the node of moveit_connection.py that turns the states
  of the planner's scene into joint motions. The file system, git, the YAML reader and the shell
  are parameters; printing and logging are left out.
\<close>

section \<open>Finding the repository\<close>

text \<open>An absolute path, its last component first.\<close>

type_synonym path = "string list"

definition path_name :: "path \<Rightarrow> string" where
  "path_name p = (case p of [] \<Rightarrow> '''' | x # _ \<Rightarrow> x)"

definition path_parent :: "path \<Rightarrow> path" where
  "path_parent p = tl p"

fun path_parents :: "path \<Rightarrow> path list" where
  "path_parents [] = []"
| "path_parents (x # xs) = xs # path_parents xs"

record files =
  fs_exists :: "path \<Rightarrow> bool"
  fs_rglob :: "path \<Rightarrow> string \<Rightarrow> path list res"

definition closest_git :: "files \<Rightarrow> path list \<Rightarrow> path option" where
  "closest_git F ps = List.find (\<lambda>p. fs_exists F (''.git'' # p)) ps"

definition find_git_root_for_package :: "files \<Rightarrow> path \<Rightarrow> path option res" where
  "find_git_root_for_package F here =
     (case List.find (\<lambda>p. path_name p = ''lib'') (path_parents here) of
        None \<Rightarrow> Inr None
      | Some lib \<Rightarrow>
     (case List.find (\<lambda>p. path_name p = ''install'') (path_parents here) of
        None \<Rightarrow> Inr None
      | Some install \<Rightarrow>
        let pkg_name = path_name (path_parent lib); src_dir = ''src'' # path_parent install
        in if \<not> fs_exists F src_dir then Inr None
           else rbind (fs_rglob F src_dir pkg_name) (\<lambda>candidates.
             case candidates of
               [] \<Rightarrow> Inr None
             | c # _ \<Rightarrow> Inr (closest_git F (c # path_parents c)))))"

definition find_any_git_in_src :: "files \<Rightarrow> path \<Rightarrow> path option res" where
  "find_any_git_in_src F ws_root =
     (let src_dir = ''src'' # ws_root
      in if \<not> fs_exists F src_dir then Inr None
         else rbind (fs_rglob F src_dir ''*'') (\<lambda>children. Inr (closest_git F children)))"

definition git_root :: "files \<Rightarrow> path \<Rightarrow> path option res" where
  "git_root F here =
     rbind (find_git_root_for_package F here) (\<lambda>root.
     case root of
       Some r \<Rightarrow> Inr (Some r)
     | None \<Rightarrow>
        (case List.find (\<lambda>p. path_name p = ''install'') (path_parents here) of
           None \<Rightarrow> Inr None
         | Some install \<Rightarrow> find_any_git_in_src F (path_parent install)))"

text \<open>\<open>git root args\<close> is the output of a git command, \<^const>\<open>None\<close> when it raised.\<close>

definition show_git_info ::
  "files \<Rightarrow> (path \<Rightarrow> string list \<Rightarrow> string option) \<Rightarrow> path \<Rightarrow> (string \<times> string) list res" where
  "show_git_info F git here =
     rbind (git_root F here) (\<lambda>root.
     let run = (\<lambda>args. case root of
           None \<Rightarrow> ''unknown''
         | Some r \<Rightarrow> (case git r args of None \<Rightarrow> ''unknown'' | Some out \<Rightarrow> out))
     in Inr [(''commit'', run [''rev-parse'', ''--short'', ''HEAD'']),
             (''branch'', run [''rev-parse'', ''--abbrev-ref'', ''HEAD'']),
             (''user'', run [''config'', ''user.name'']),
             (''email'', run [''config'', ''user.email''])])"

section \<open>The update rate\<close>

text \<open>What \<^verbatim>\<open>yaml.safe_load\<close> returns, as far as the function looks into it.\<close>

datatype yaml = YNone | YScalar pyval | YString string | YList "yaml list" | YMap "(string \<times> yaml) list"

text \<open>\<^verbatim>\<open>key in data\<close>\<close>

definition yaml_in :: "string \<Rightarrow> yaml \<Rightarrow> bool res" where
  "yaml_in key y = (case y of
       YMap m \<Rightarrow> Inr (key \<in> fst ` set m)
     | YList ys \<Rightarrow> Inr (YString key \<in> set ys)
     | YString s \<Rightarrow> Inr (substring key s)
     | _ \<Rightarrow> Inl TypeError)"

text \<open>\<^verbatim>\<open>data[key]\<close> and \<^verbatim>\<open>data.get(key, default)\<close>\<close>

definition yaml_index :: "yaml \<Rightarrow> string \<Rightarrow> yaml res" where
  "yaml_index y key = (case y of
       YMap m \<Rightarrow> (case map_of m key of None \<Rightarrow> Inl KeyError | Some v \<Rightarrow> Inr v)
     | _ \<Rightarrow> Inl TypeError)"

definition yaml_get :: "yaml \<Rightarrow> string \<Rightarrow> yaml \<Rightarrow> yaml res" where
  "yaml_get y key dflt = (case y of
       YMap m \<Rightarrow> Inr (case map_of m key of None \<Rightarrow> dflt | Some v \<Rightarrow> v)
     | _ \<Rightarrow> Inl AttributeError)"

definition default_rate :: yaml where
  "default_rate = YScalar (PInt 100)"

definition rate_of :: "yaml \<Rightarrow> yaml res" where
  "rate_of data =
     rbind (yaml_in ''/**'' data) (\<lambda>wild.
     rbind (if wild then yaml_index data ''/**'' else Inr data) (\<lambda>root.
     rbind (yaml_get root ''controller_manager'' (YMap [])) (\<lambda>cm.
     rbind (yaml_get cm ''ros__parameters'' (YMap [])) (\<lambda>ps.
     yaml_get ps ''update_rate'' default_rate))))"

text \<open>\<open>found\<close>: the file exists; \<open>loaded\<close>: opening and reading it. Every exception is caught.\<close>

definition read_update_rate :: "bool \<Rightarrow> yaml res \<Rightarrow> yaml" where
  "read_update_rate found loaded =
     (if \<not> found then default_rate
      else case rbind loaded rate_of of Inl _ \<Rightarrow> default_rate | Inr rate \<Rightarrow> rate)"

section \<open>The emulator\<close>

definition emulator_name :: "string \<Rightarrow> string" where
  "emulator_name name = (if name = [] then ''emulator'' else name @ ''_'' @ ''emulator'')"

text \<open>\<open>port\<close> is the number as \<^verbatim>\<open>str\<close> prints it, \<open>bin\<close> the directory of the script.\<close>

definition run_drcf :: "string \<Rightarrow> string \<Rightarrow> string \<Rightarrow> string \<Rightarrow> string" where
  "run_drcf bin port model name =
     bin @ ''/run_drcf.sh '' @ '' '' @ port @ '' '' @ model @ '' '' @ name"

definition terminate_drcf :: "string \<Rightarrow> string" where
  "terminate_drcf emulator =
     ''docker ps -a --filter name='' @ emulator @ '' -q | xargs -r docker rm -f''"

text \<open>The shell commands of the node's life: its constructor, and its destructor in every mode.\<close>

definition virtual_drcf_init :: "string \<Rightarrow> string \<Rightarrow> string \<Rightarrow> string \<Rightarrow> string \<Rightarrow> string list" where
  "virtual_drcf_init bin mode port model name =
     (if mode = ''virtual'' then [run_drcf bin port model name] else [])"

definition virtual_drcf_del :: "string \<Rightarrow> string list" where
  "virtual_drcf_del name = [terminate_drcf (emulator_name name)]"

section \<open>Following the planning scene\<close>

text \<open>\<^verbatim>\<open>radians * (180 / math.pi)\<close>, where the factor is the double of that quotient.\<close>

definition degrees_per_radian :: pyfloat where
  "degrees_per_radian = Fin (1007958012753983 / 17592186044416)"

definition rad_to_deg :: "pyfloat \<Rightarrow> pyfloat" where
  "rad_to_deg radians = float_mul radians degrees_per_radian"

text \<open>
  One message: the request is sent without waiting for the reply, which is only logged; a reply
  of the previous request may be outstanding. Velocity, acceleration, radius, mode and blending
  keep the values a new request has.
\<close>

definition follower_listener :: "ros \<Rightarrow> string \<Rightarrow> pyfloat list \<Rightarrow> unit act" where
  "follower_listener R name_value positions =
     (let srv = name_value @ ''/motion/move_joint''
      in abind (lift_res (set_fields R srv
           [(''pos'', Inr (PList (map (PFloat \<circ> rad_to_deg) positions))),
            (''time'', Inr (PFloat (float_of_rat (7 / 10)))),
            (''sync_type'', Inr (PInt 1))])) (\<lambda>fs w.
         (case reply_of R (trace w) srv fs of
            CallRaises e \<Rightarrow> Some (Inl e, log (Called srv fs) w)
          | _ \<Rightarrow> Some (Inr (), log (Called srv fs) w))))"

section \<open>Lemmas\<close>

lemma closest_git_sound: "closest_git F ps = Some r \<Longrightarrow> fs_exists F (''.git'' # r) \<and> r \<in> set ps"
  by (auto simp: closest_git_def find_Some_iff)

text \<open>
  A repository that is found holds a \<^verbatim>\<open>.git\<close>; it is the first match of the package's name under
  the workspace's sources or a directory above it, possibly above the workspace.
\<close>

lemma find_git_root_sound:
  assumes "find_git_root_for_package F here = Inr (Some r)"
  shows "fs_exists F (''.git'' # r)"
    and "\<exists>src_dir pkg c cs. fs_rglob F src_dir pkg = Inr (c # cs) \<and> r \<in> set (c # path_parents c)"
proof -
  from assms obtain src_dir pkg c cs where c: "fs_rglob F src_dir pkg = Inr (c # cs)"
    "closest_git F (c # path_parents c) = Some r"
    by (auto simp: find_git_root_for_package_def Let_def
        elim!: rbind_InrE split: option.split_asm if_split_asm list.split_asm)
  from closest_git_sound [OF c(2)] show "fs_exists F (''.git'' # r)" ..
  from closest_git_sound [OF c(2)] c(1)
  show "\<exists>src_dir pkg c cs. fs_rglob F src_dir pkg = Inr (c # cs) \<and> r \<in> set (c # path_parents c)"
    by blast
qed

lemma path_parents_suffix: "q \<in> set (path_parents p) \<Longrightarrow> \<exists>xs. xs \<noteq> [] \<and> p = xs @ q"
proof (induction p)
  case (Cons x p)
  then consider "q = p" | ys where "ys \<noteq> []" "p = ys @ q" by auto
  then show ?case by cases (force, metis append_Cons list.distinct(1))
qed simp

text \<open>Whatever the file holds, the function returns: a missing or malformed entry means 100.\<close>

lemma read_update_rate_default:
  "\<not> found \<or> rbind loaded rate_of = Inl e \<Longrightarrow> read_update_rate found loaded = default_rate"
  by (auto simp: read_update_rate_def)

lemma read_update_rate_nested:
  "read_update_rate True (Inr (YMap [(''/**'', YMap [(''controller_manager'',
     YMap [(''ros__parameters'', YMap [(''update_rate'', rate)])])])])) = rate"
  by (simp add: read_update_rate_def rate_of_def yaml_in_def yaml_index_def yaml_get_def)

text \<open>A controller manager without parameters (\<^verbatim>\<open>null\<close>) is not a mapping: the default.\<close>

lemma read_update_rate_null:
  "read_update_rate True (Inr (YMap [(''controller_manager'', YNone)])) = default_rate"
  by (simp add: read_update_rate_def rate_of_def yaml_in_def yaml_get_def)

text \<open>
  Docker's filter by name matches substrings: the node of a robot without a name asks to remove
  the emulators of all robots.
\<close>

lemma unnamed_emulator_matches_all: "substring (emulator_name []) (emulator_name name)"
  using substring_append [of "''emulator''" "name @ ''_''" "[]"] substring_append [of "''emulator''" "[]" "[]"]
  by (simp add: emulator_name_def)

text \<open>One message leads to at most one request, of positions in degrees.\<close>

lemma follower_listener_effect:
  assumes "follower_listener R name ps w = Some (r, w')"
  shows "w' = w \<and> r = Inl AssertionError \<or>
    (\<exists>fs. w' = log (Called (name @ ''/motion/move_joint'') fs) w \<and>
       map_of fs ''pos'' = Some (PList (map (PFloat \<circ> rad_to_deg) ps)))"
  using assms
  by (auto simp: follower_listener_def Let_def abind_Some note_exc_def split: if_splits reply.splits)

end
