(* ===== verification/NodeProperties.thy ===== *)
theory NodeProperties
  imports MarkerPose Bringup
begin

text \<open>The properties of the relay nodes and of the visual servoing pair.\<close>

section \<open>The bridges to the simulators\<close>

text \<open>What a command is: the positions of all joints, without the first joint whose name contains
  \<^verbatim>\<open>joint_4\<close> for the five-axis model, in the order of their numbers, joints of equal number in the
  order of the message.\<close>

definition joints_in_order :: "(string \<Rightarrow> enat) \<Rightarrow> string \<Rightarrow> joint_state \<Rightarrow> nat list \<Rightarrow> bool" where
  "joints_in_order key model msg idx \<longleftrightarrow>
     distinct idx \<and> sorted (map (\<lambda>i. key (js_name msg ! i)) idx) \<and>
     (\<forall>i < length (js_name msg). i \<in> set idx \<or>
        model = ''p3020'' \<and> substring ''joint_4'' (js_name msg ! i)) \<and>
     set idx \<subseteq> {..<length (js_name msg)}"

lemma joint_4_contains: "joint_4_index names idx = Some i \<Longrightarrow> substring ''joint_4'' (names ! i)"
  by (auto simp: joint_4_index_def find_Some_iff)

lemma commanded_in_order:
  "\<exists>idx. joints_in_order key model msg idx \<and> commanded model key msg = map ((!) (js_position msg)) idx"
proof (intro exI conjI)
  let ?all = "sorted_indices key (js_name msg)"
  let ?idx = "model_indices model (js_name msg) ?all"
  show "commanded model key msg = map ((!) (js_position msg)) ?idx" by (simp add: commanded_def)
  have "sorted (map (\<lambda>i. key (js_name msg ! i)) ?idx)"
    unfolding model_indices_def using sorted_indices_props(4) [of key "js_name msg"]
    by (simp add: sorted_filter)
  then show "joints_in_order key model msg ?idx"
    using sorted_indices_props(2,3) [of key "js_name msg"] joint_4_contains
    by (auto simp: joints_in_order_def model_indices_def)
qed

text \<open>C27: the bridges to Gazebo and MuJoCo, started and given messages with full arrays and finite
  positions of which each commands at least one joint, never fail and publish the commands of the messages without immediate repetitions:
  the positions in the order of the numbers in the joints' names. Where the two patterns find the
  same numbers in the names, the two bridges publish the same commands.\<close>

theorem bridges_publish_changes:
  assumes "list_all (\<lambda>msg. whole_message msg \<and> commanded model first_number msg \<noteq> []) msgs"
  shows "(\<exists>s. snd (spin (gz_listener_callback as_list model) gazebo_init msgs) = Inr s) \<and>
    (\<exists>s. snd (spin (mj_listener_callback model) mujoco_init msgs) = Inr s) \<and>
    commands_of (outputs (gz_listener_callback as_list model) gazebo_init msgs) =
      remdups_adj (map (commanded model first_number) msgs) \<and>
    commands_of (outputs (mj_listener_callback model) mujoco_init msgs) =
      remdups_adj (map (commanded model joint_number) msgs) \<and>
    (\<forall>msg \<in> set msgs. \<exists>idx. joints_in_order first_number model msg idx \<and>
      commanded model first_number msg = map ((!) (js_position msg)) idx) \<and>
    ((\<forall>msg \<in> set msgs. \<forall>n \<in> set (js_name msg). first_number n = joint_number n) \<longrightarrow>
      commands_of (outputs (gz_listener_callback as_list model) gazebo_init msgs) =
      commands_of (outputs (mj_listener_callback model) mujoco_init msgs))"
proof -
  have init: "finite_list (gz_previous gazebo_init)" "finite_list (mj_previous mujoco_init)"
    "gz_previous gazebo_init = []" "mj_first mujoco_init"
    by (simp_all add: gazebo_init_def mujoco_init_def finite_list_def)
  have whole: "list_all whole_message msgs" using assms by (auto simp: list_all_iff)
  have gz: "commands_of (outputs (gz_listener_callback as_list model) gazebo_init msgs) =
      remdups_adj (map (commanded model first_number) msgs)"
    using gazebo.publishes_changes [OF init(1) assms] init(3) by (simp add: commands_of_def)
  have mj: "commands_of (outputs (mj_listener_callback model) mujoco_init msgs) =
      remdups_adj (map (commanded model joint_number) msgs)"
    using mujoco.publishes_changes [OF init(2) whole] init(4) by (simp add: commands_of_def)
  have same: "commanded model first_number msg = commanded model joint_number msg"
    if "\<forall>n \<in> set (js_name msg). first_number n = joint_number n" for msg
  proof -
    have "sorted_indices first_number (js_name msg) = sorted_indices joint_number (js_name msg)"
      unfolding sorted_indices_def using that by (intro sort_key_agree) auto
    then show ?thesis by (simp add: commanded_def)
  qed
  show ?thesis
    using gz mj same commanded_in_order gazebo.never_raises [OF init(1) assms]
      mujoco.never_raises [OF init(2) whole]
    by (simp cong: map_cong)
qed

definition two_joints :: joint_state where
  "two_joints = \<lparr>js_header = [], js_name = [''joint_2'', ''joint_1''],
     js_position = [Fin 2, Fin 1], js_velocity = [Fin 0, Fin 0], js_effort = [NaN, Fin 0]\<rparr>"

lemma bridges_publish_changes_witness:
  "commands_of (outputs (gz_listener_callback False ''m1013'') gazebo_init [two_joints, two_joints]) =
     [[Fin 1, Fin 2]] \<and>
   commands_of (outputs (mj_listener_callback ''m1013'') mujoco_init [two_joints, two_joints]) =
     [[Fin 1, Fin 2]]"
proof -
  have cmd: "commanded ''m1013'' first_number two_joints = [Fin 1, Fin 2]"
    "commanded ''m1013'' joint_number two_joints = [Fin 1, Fin 2]"
    by (simp_all add: commanded_def two_joints_def sorted_indices_def model_indices_def
        first_number_def nat_of_digits_def is_digit_def digit_val_def upt_rec)
  have "list_all (\<lambda>msg. whole_message msg \<and> commanded ''m1013'' first_number msg \<noteq> [])
      [two_joints, two_joints]"
    using cmd by (simp add: whole_message_def two_joints_def)
  from bridges_publish_changes [OF this, of False] cmd show ?thesis by simp
qed

section \<open>Visual servoing\<close>

text \<open>The detector records the time of detection only when it turns to another marker. A marker
  that stayed in view for more than two seconds is declared lost by the first frame that misses
  it, however short ago it was seen, and the robot is sent to its waiting pose.\<close>

theorem missed_frame_is_loss:
  assumes "dm_marker s = None \<or> (\<exists>j. dm_marker s = Some j \<and> j \<notin> set (k # ids))"
    and "length (k # ids) \<le> length corners"
    and "list_all (shows_marker k) fs"
    and "2 < t - since" and "dm_joint s = Some j" and "lists_differ j waiting_pose"
  shows "\<exists>s'. snd (spin (detector_callback deg estimate) s
        (ImageMsg since (Frame corners (Some (k # ids))) # fs)) = Inr s' \<and>
      dm_marker s' = Some k \<and>
      (\<exists>s''. detector_callback deg estimate s' (ImageMsg t (Frame [] None)) =
        ([ServojStream waiting_pose, MarkerId MARKER_LOST], Inr s'') \<and>
        dm_marker s'' = Some MARKER_LOST)"
proof (intro exI conjI)
  let ?s = "s\<lparr>dm_marker := Some k, dm_last_time := since\<rparr>"
  show "snd (spin (detector_callback deg estimate) s
      (ImageMsg since (Frame corners (Some (k # ids))) # fs)) = Inr ?s"
    using detect_new [OF assms(1,2), of estimate since] followed_frames [of ?s k fs deg estimate] assms(3)
    by (auto split: prod.splits)
  show "detector_callback deg estimate ?s (ImageMsg t (Frame [] None)) =
      ([ServojStream waiting_pose, MarkerId MARKER_LOST],
       Inr (?s\<lparr>dm_marker := Some MARKER_LOST, dm_joint_pubs := Suc (dm_joint_pubs ?s)\<rparr>))"
    using assms(4-6) by (simp add: detect_callback_def)
qed simp_all

lemma missed_frame_is_loss_witness:
  "\<exists>s'. snd (spin (detector_callback id (\<lambda>_ :: unit. replicate 6 (Fin 1)))
      ((detector_init 0)\<lparr>dm_joint := Some (replicate 6 (Fin 1))\<rparr>)
      [ImageMsg 1 (Frame [()] (Some [7])), ImageMsg 5 (Frame [()] (Some [7]))]) = Inr s' \<and>
    fst (detector_callback id (\<lambda>_ :: unit. replicate 6 (Fin 1)) s' (ImageMsg (51 / 10) (Frame [] None))) =
      [ServojStream waiting_pose, MarkerId MARKER_LOST]"
proof -
  let ?s = "(detector_init 0)\<lparr>dm_joint := Some (replicate 6 (Fin 1))\<rparr>"
  have "dm_marker ?s = None" "dm_joint ?s = Some (replicate 6 (Fin 1))"
    "lists_differ (replicate 6 (Fin 1)) waiting_pose"
    by (simp_all add: detector_init_def lists_differ_def waiting_pose_def numeral_eq_Suc)
  from missed_frame_is_loss [where ids = "[]" and corners = "[()]" and since = 1 and k = 7 and
      fs = "[ImageMsg 5 (Frame [()] (Some [7]))]" and t = "51 / 10" and deg = id and
      estimate = "\<lambda>_. replicate 6 (Fin 1)", OF disjI1, OF this(1) _ _ _ this(2,3)]
  obtain s' s'' where "snd (spin (detector_callback id (\<lambda>_ :: unit. replicate 6 (Fin 1))) ?s
      [ImageMsg 1 (Frame [()] (Some [7])), ImageMsg 5 (Frame [()] (Some [7]))]) = Inr s'"
    "detector_callback id (\<lambda>_ :: unit. replicate 6 (Fin 1)) s' (ImageMsg (51 / 10) (Frame [] None)) =
      ([ServojStream waiting_pose, MarkerId MARKER_LOST], Inr s'')"
    by (auto simp del: spin.simps detector_callback.simps)
  then show ?thesis by (intro exI [of _ s']) (simp del: spin.simps detector_callback.simps)
qed

text \<open>What holds of both nodes and their queues in every reachable state.\<close>

definition servo_inv :: "(pyfloat list \<Rightarrow> bool) \<Rightarrow> servo_system \<Rightarrow> bool" where
  "servo_inv accepts S \<longleftrightarrow>
     length (vs_ids S) \<le> 10 \<and> length (vs_poses S) \<le> 10 \<and>
     set (vs_poses S) \<subseteq> set (vs_found S) \<and>
     (\<forall>p. sp_pose (vs_sender S) = Some p \<longrightarrow> p \<in> set (vs_found S)) \<and>
     (\<forall>(k, p) \<in> set (vs_robot S). p \<in> set (vs_found S) \<and> k \<noteq> MARKER_LOST \<and> accepts p) \<and>
     sp_pubs (vs_sender S) = length (vs_robot S)"

lemma servo_step_inv:
  assumes "servo_step deg estimate accepts S S'" and "servo_inv accepts S"
  shows "servo_inv accepts S'"
  using assms
proof cases
  case (detect m out d)
  from set_enqueue [of "poses_of out" "vs_poses S"] assms(2)
  have "set (enqueue (poses_of out) (vs_poses S)) \<subseteq> set (vs_found S) \<union> set (poses_of out)"
    by (auto simp: servo_inv_def)
  with assms(2) show ?thesis
    unfolding detect(1) by (auto simp: servo_inv_def length_enqueue)
next
  case (take_id k ks out s)
  from take_id(3) assms(2) take_id(2) show ?thesis
    unfolding take_id(1) marker_id_callback_def servo_inv_def
    by (auto dest!: process_cases)
next
  case (take_pose p ps out s)
  from take_pose(3) assms(2) take_pose(2) show ?thesis
    unfolding take_pose(1) marker_pose_callback_def servo_inv_def
    by (auto dest!: process_cases)
qed

text \<open>C28: in every state the two nodes can reach, however their callbacks interleave and whatever the
  queues of ten messages drop, each pose streamed to the robot is one the detector found, was
  accepted by the message, and was sent under the id of a marker that is not lost; and the sender
  holds one open publisher for every pose it ever sent, so their number has no bound.\<close>

theorem streamed_poses_were_found:
  assumes "(servo_step deg estimate accepts)\<^sup>*\<^sup>* (servo_start now) S"
  shows "(\<forall>(k, p) \<in> set (vs_robot S). p \<in> set (vs_found S) \<and> k \<noteq> MARKER_LOST \<and> accepts p) \<and>
    sp_pubs (vs_sender S) = length (vs_robot S)"
proof -
  have "servo_inv accepts S"
    using assms
  proof (induction rule: rtranclp_induct)
    case base
    show ?case by (simp add: servo_inv_def servo_start_def sender_init_def)
  qed (rule servo_step_inv)
  then show ?thesis
    by (simp_all add: servo_inv_def)
qed

lemma streamed_poses_were_found_witness:
  "\<exists>S. (servo_step id (\<lambda>_ :: unit. [Fin 1]) (\<lambda>_. True))\<^sup>*\<^sup>* (servo_start 0) S \<and>
     vs_robot S = [(7, [Fin 1])] \<and> [Fin 1] \<in> set (vs_found S) \<and> sp_pubs (vs_sender S) = 1"
proof -
  let ?step = "servo_step id (\<lambda>_ :: unit. [Fin 1]) (\<lambda>_. True)"
  let ?d = "(detector_init 0)\<lparr>dm_marker := Some 7, dm_last_time := 1\<rparr>"
  let ?S1 = "(servo_start 0)\<lparr>vs_detector := ?d, vs_ids := [7], vs_poses := [[Fin 1]], vs_found := [[Fin 1]]\<rparr>"
  let ?s2 = "sender_init\<lparr>sp_pose := Some [Fin 1]\<rparr>"
  let ?S2 = "?S1\<lparr>vs_poses := [], vs_sender := ?s2\<rparr>"
  let ?s3 = "?s2\<lparr>sp_marker := Some 7, sp_previous_marker := Some 7, sp_previous_pose := Some [Fin 1], sp_pubs := 1\<rparr>"
  let ?S3 = "?S2\<lparr>vs_ids := [], vs_sender := ?s3, vs_robot := [(7, [Fin 1])]\<rparr>"
  have "?step (servo_start 0) ?S1"
    using servo_step.detect [of id "\<lambda>_ :: unit. [Fin 1]" "servo_start 0" "ImageMsg 1 (Frame [()] (Some [7]))"
        "[MarkerPose [Fin 1], MarkerId 7]" ?d "\<lambda>_. True"]
    by (simp add: servo_start_def detector_init_def detect_callback_def follow_marker_def at_index_def
        marker_index_def ids_of_def poses_of_def enqueue_def)
  moreover have "?step ?S1 ?S2"
    using servo_step.take_pose [of ?S1 "[Fin 1]" "[]" "\<lambda>_. True" "[]" ?s2 id "\<lambda>_ :: unit. [Fin 1]"]
    by (simp add: servo_start_def sender_init_def marker_pose_callback_def check_and_process_data_def
        streamed_def)
  moreover have "?step ?S2 ?S3"
    using servo_step.take_id [of ?S2 7 "[]" "\<lambda>_. True" "[ServolStream [Fin 1]]" ?s3 id "\<lambda>_ :: unit. [Fin 1]"]
    by (simp add: servo_start_def sender_init_def marker_id_callback_def check_and_process_data_def
        streamed_def MARKER_LOST_def)
  ultimately have run: "?step\<^sup>*\<^sup>* (servo_start 0) ?S3"
    by (meson rtranclp.rtrancl_into_rtrancl rtranclp.rtrancl_refl)
  from run streamed_poses_were_found [OF run] show ?thesis by (intro exI [of _ ?S3] conjI) simp_all
qed

end
