(* ===== verification/MeshQuery.thy ===== *)
theory MeshQuery
  imports Geometry
begin

text \<open>
  The module EEpose_from_mesh/mesh_utils.py: from a point on a mesh to the normals around it and
  the pose of the tool above it. Ray casting and sampling (trimesh), clustering (scikit-learn)
  and the order in which Python walks through a set are parameters. The two parallel arrays of a
  point cloud are a list of pairs of a point and its normal. Drawing is left out.
\<close>

section \<open>The mesh\<close>

text \<open>
  \<open>ms_cast origin direction\<close>: the places where the ray hits, with the normals of their faces;
  \<open>ms_sample n\<close>: \<open>n\<close> points on the surface, with the normals of their faces.
\<close>

record mesh =
  ms_min :: vec
  ms_max :: vec
  ms_area :: real
  ms_cast :: "vec \<Rightarrow> vec \<Rightarrow> (vec \<times> vec) list"
  ms_sample :: "nat \<Rightarrow> (vec \<times> vec) list"

record cluster_lib =
  cl_dbscan :: "real \<Rightarrow> nat \<Rightarrow> vec list \<Rightarrow> int list"
  cl_order :: "int set \<Rightarrow> int list"

text \<open>What they promise: a label for each point, and every member of the set once.\<close>

definition cluster_lib_ok :: "cluster_lib \<Rightarrow> bool" where
  "cluster_lib_ok L \<longleftrightarrow>
     (\<forall>eps k ps. length (cl_dbscan L eps k ps) = length ps) \<and>
     (\<forall>A. finite A \<longrightarrow> set (cl_order L A) = A)"

definition mesh_to_pointcloud :: "mesh \<Rightarrow> real option \<Rightarrow> nat \<Rightarrow> (vec \<times> vec) list" where
  "mesh_to_pointcloud M points_per_unit_area total_points =
     ms_sample M (case points_per_unit_area of
         None \<Rightarrow> total_points
       | Some d \<Rightarrow> max 1000 (nat \<lfloor>ms_area M * d\<rfloor>))"

definition find_topmost_z :: "mesh \<Rightarrow> real \<Rightarrow> real \<Rightarrow> real option" where
  "find_topmost_z M x y =
     (let z_start = vz (ms_max M) + 1;
          hits = ms_cast M (x, y, z_start) (0, 0, -1);
          upward = filter (\<lambda>(p, n). 0 < vz n) hits
      in if hits = [] then None
         else if upward \<noteq> [] then Some (Max (set (map (vz \<circ> fst) upward)))
         else Some (Max (set (map (vz \<circ> fst) hits))))"

section \<open>Clusters\<close>

definition bounding_diagonal :: "vec list \<Rightarrow> real" where
  "bounding_diagonal ps =
     vnorm (vsub (Max (set (map vx ps)), Max (set (map vy ps)), Max (set (map vz ps)))
                 (Min (set (map vx ps)), Min (set (map vy ps)), Min (set (map vz ps))))"

text \<open>\<^verbatim>\<open>xs[mask]\<close>\<close>

definition masked :: "(int \<Rightarrow> bool) \<Rightarrow> int list \<Rightarrow> 'a list \<Rightarrow> 'a list" where
  "masked P labels xs = map snd (filter (\<lambda>(l, x). P l) (zip labels xs))"

definition cluster_dist :: "vec \<Rightarrow> int list \<Rightarrow> (vec \<times> vec) list \<Rightarrow> int \<Rightarrow> real" where
  "cluster_dist center labels cloud l =
     Min (set (map (\<lambda>(p, n). vdist p center) (masked (\<lambda>k. k = l) labels cloud)))"

text \<open>The loop over the labels, with the best label and distance so far: none and infinity at first.\<close>

fun best_label :: "(int \<Rightarrow> real) \<Rightarrow> (int \<times> real) option \<Rightarrow> int list \<Rightarrow> (int \<times> real) option" where
  "best_label d best [] = best"
| "best_label d best (l # ls) =
     best_label d (case best of
         None \<Rightarrow> Some (l, d l)
       | Some (b, m) \<Rightarrow> if d l < m then Some (l, d l) else Some (b, m)) ls"

definition keep_closest_cluster ::
  "cluster_lib \<Rightarrow> (vec \<times> vec) list \<Rightarrow> vec \<Rightarrow> real \<Rightarrow> nat \<Rightarrow> (vec \<times> vec) list" where
  "keep_closest_cluster L cloud center eps_frac min_samples =
     (if length cloud < min_samples then cloud
      else
        let eps = max (bounding_diagonal (map fst cloud) * eps_frac) (1 / 10 ^ 6);
            labels = cl_dbscan L eps min_samples (map fst cloud);
            unique_labels = set labels - {-1}
        in if card unique_labels \<le> 1 then
             (if unique_labels = {} then cloud else masked (\<lambda>l. l \<noteq> -1) labels cloud)
           else
             (case best_label (cluster_dist center labels cloud) None (cl_order L unique_labels) of
                None \<Rightarrow> []
              | Some (b, _) \<Rightarrow> masked (\<lambda>l. l = b) labels cloud))"

section \<open>Normals\<close>

definition deg2rad :: "real \<Rightarrow> real" where "deg2rad d = d * pi / 180"

definition unit_normal :: "vec \<Rightarrow> vec" where
  "unit_normal n = vdiv n (vnorm n + 1 / 10 ^ 12)"

text \<open>\<^verbatim>\<open>np.arccos(np.clip(u @ n, -1.0, 1.0))\<close>\<close>

definition angle :: "vec \<Rightarrow> vec \<Rightarrow> real" where
  "angle u n = arccos (min 1 (max (-1) (vdot u n)))"

text \<open>The loop over the normals, with those kept so far.\<close>

fun keep_distinct :: "real \<Rightarrow> vec list \<Rightarrow> vec list \<Rightarrow> vec list" where
  "keep_distinct threshold unique [] = unique"
| "keep_distinct threshold unique (n # ns) =
     keep_distinct threshold
       (if unique = [] \<or> list_all (\<lambda>u. threshold < angle u n) unique then unique @ [n] else unique) ns"

definition upward_normals :: "vec list \<Rightarrow> vec list" where
  "upward_normals normals = filter (\<lambda>n. 0 \<le> vz n) (map unit_normal normals)"

definition deduplicate_normals :: "vec list \<Rightarrow> real \<Rightarrow> vec list" where
  "deduplicate_normals normals angular_threshold_deg =
     keep_distinct (deg2rad angular_threshold_deg) [] (upward_normals normals)"

section \<open>The query\<close>

record roi =
  surface_point :: vec
  roi_points :: "vec list"
  all_normals :: "vec list"
  unique_normals :: "vec list"

definition sample_normals_in_roi ::
  "cluster_lib \<Rightarrow> mesh \<Rightarrow> (vec \<times> vec) list \<Rightarrow> real \<Rightarrow> real \<Rightarrow> real \<Rightarrow> real \<Rightarrow> real option \<Rightarrow> roi res" where
  "sample_normals_in_roi L M cloud x y R angular_threshold_deg z =
     (let z_found = (case z of None \<Rightarrow> find_topmost_z M x y | Some h \<Rightarrow> Some h)
      in rbind (case z_found of
             Some h \<Rightarrow> Inr h
           | None \<Rightarrow>
               rbind (argmin (map (\<lambda>(p, n). vdist (vx p, vy p, 0) (x, y, 0)) cloud)) (\<lambda>i.
               Inr (vz (fst (cloud ! i))))) (\<lambda>z_surface.
     let sp = (x, y, z_surface);
         near = filter (\<lambda>(p, n). vdist p sp \<le> R) cloud
     in rbind (if near \<noteq> [] then Inr near
               else rbind (argmin (map (\<lambda>(p, n). vdist p sp) cloud)) (\<lambda>i. Inr [cloud ! i])) (\<lambda>cl.
     let kept = keep_closest_cluster L cl sp (3 / 10) 3
     in Inr \<lparr>surface_point = sp, roi_points = map fst kept, all_normals = map snd kept,
             unique_normals = deduplicate_normals (map snd kept) angular_threshold_deg\<rparr>)))"

definition query_mesh_normals ::
  "cluster_lib \<Rightarrow> mesh \<Rightarrow> real \<Rightarrow> real \<Rightarrow> real \<Rightarrow> real \<Rightarrow> nat \<Rightarrow> real option \<Rightarrow> roi res" where
  "query_mesh_normals L M x y R angular_threshold_deg total_points z =
     sample_normals_in_roi L M (mesh_to_pointcloud M None total_points) x y R angular_threshold_deg z"

section \<open>The pose\<close>

record tool_pose =
  tp_position :: vec
  tp_rotation :: mat
  tp_v :: vec
  tp_T :: se3

text \<open>
  The axes for an approach direction: \<open>x\<close> horizontal, \<open>y\<close> across, both turned over when \<open>y\<close>
  points downward.
\<close>

definition tool_axes :: "vec \<Rightarrow> mat" where
  "tool_axes z_axis =
     (let world_Z = (0, 0, 1);
          cross = vcross z_axis world_Z;
          cross' = (if vnorm cross < 1 / 10 ^ 6 then vcross z_axis (1, 0, 0) else cross);
          x_axis = vdiv cross' (vnorm cross');
          y_raw = vcross z_axis x_axis;
          y_axis = vdiv y_raw (vnorm y_raw)
      in if vdot world_Z y_axis < 0 then
           (let y_axis' = vneg y_axis; x_raw = vcross y_axis' z_axis
            in (vdiv x_raw (vnorm x_raw), y_axis', z_axis))
         else (x_axis, y_axis, z_axis))"

definition compute_se3_pose :: "roi \<Rightarrow> real \<Rightarrow> tool_pose res" where
  "compute_se3_pose result d =
     (let v_raw = vsum (unique_normals result); v_norm = vnorm v_raw
      in if v_norm < 1 / 10 ^ 12 then Inl ValueError
         else
           let v = vdiv v_raw v_norm;
               position = vadd (surface_point result) (vscale d v);
               R_mat = tool_axes (vneg v)
           in Inr \<lparr>tp_position = position, tp_rotation = R_mat, tp_v = v,
                   tp_T = make_SE3 R_mat position\<rparr>)"

section \<open>Lemmas: clusters\<close>

lemma best_label_least:
  "best_label d (Some (b, d b)) ls = Some (c, m) \<Longrightarrow>
   m = d c \<and> c \<in> insert b (set ls) \<and> (\<forall>l \<in> insert b (set ls). d c \<le> d l)"
proof (induction ls arbitrary: b)
  case (Cons l ls)
  show ?case
  proof (cases "d l < d b")
    case True
    with Cons.prems Cons.IH [of l] show ?thesis by fastforce
  next
    case False
    with Cons.prems Cons.IH [of b] show ?thesis by fastforce
  qed
qed simp

lemma best_label_total: "\<exists>c m. best_label d (Some x) ls = Some (c, m)"
  by (induction ls arbitrary: x) (auto split: prod.split)

lemma best_label_None:
  assumes "ls \<noteq> []"
  shows "\<exists>c. best_label d None ls = Some (c, d c) \<and> c \<in> set ls \<and> (\<forall>l \<in> set ls. d c \<le> d l)"
proof -
  obtain l ls' where ls: "ls = l # ls'" using assms by (cases ls) auto
  obtain c m where cm: "best_label d (Some (l, d l)) ls' = Some (c, m)"
    using best_label_total [of d "(l, d l)" ls'] by auto
  from best_label_least [OF cm] cm ls show ?thesis by auto
qed

lemma set_masked:
  "length labels = length xs \<Longrightarrow>
   set (masked P labels xs) = {xs ! i | i. i < length xs \<and> P (labels ! i)}"
  by (fastforce simp: masked_def set_zip image_iff)

lemma masked_subset: "set (masked P labels xs) \<subseteq> set xs"
  by (auto simp: masked_def dest: set_zip_rightD)

section \<open>Lemmas: normals\<close>

text \<open>The invariant of the loop: kept normals differ from each other, and stand for all seen.\<close>

definition apart :: "real \<Rightarrow> vec list \<Rightarrow> bool" where
  "apart threshold us \<longleftrightarrow> sorted_wrt (\<lambda>u n. threshold < angle u n) us"

lemma keep_distinct_prefix: "prefix us (keep_distinct t us ns)"
proof (induction ns arbitrary: us)
  case (Cons n ns)
  show ?case
    by (simp add: Cons.IH) (meson Cons.IH prefix_order.order_trans prefixI)
qed simp

lemma keep_distinct_apart: "apart t us \<Longrightarrow> apart t (keep_distinct t us ns)"
proof (induction ns arbitrary: us)
  case (Cons n ns)
  then show ?case
    by (auto simp: apart_def sorted_wrt_append list_all_iff)
qed simp

lemma keep_distinct_subseq: "\<exists>vs. subseq vs ns \<and> keep_distinct t us ns = us @ vs"
proof (induction ns arbitrary: us)
  case (Cons n ns)
  from Cons.IH [of "us @ [n]"] Cons.IH [of us] show ?case
    by (auto simp: subseq_Cons' intro: exI [of _ "n # _"])
qed simp

lemma keep_distinct_covers:
  assumes "n \<in> set ns" and "n \<notin> set (keep_distinct t us ns)"
  shows "\<exists>u \<in> set (keep_distinct t us ns). angle u n \<le> t"
  using assms
proof (induction ns arbitrary: us)
  case (Cons m ns)
  let ?us = "if us = [] \<or> list_all (\<lambda>u. t < angle u m) us then us @ [m] else us"
  have pre: "set ?us \<subseteq> set (keep_distinct t ?us ns)"
    by (rule set_mono_prefix) (rule keep_distinct_prefix)
  show ?case
  proof (cases "n \<in> set ns")
    case True
    with Cons show ?thesis by simp
  next
    case False
    with Cons.prems have n: "n = m" by simp
    with Cons.prems pre have "n \<notin> set ?us" by auto
    with n obtain u where "u \<in> set us" "angle u n \<le> t"
      by (auto simp: list_all_iff not_less split: if_split_asm)
    with pre show ?thesis by (auto split: if_split_asm)
  qed
qed simp

lemma keep_distinct_nonempty: "ns \<noteq> [] \<Longrightarrow> keep_distinct t us ns \<noteq> []"
proof (cases ns)
  case (Cons n ns')
  have "prefix (if us = [] \<or> list_all (\<lambda>u. t < angle u n) us then us @ [n] else us)
      (keep_distinct t us ns)"
    using keep_distinct_prefix Cons by simp
  then show ?thesis by (cases "us = []") (auto split: if_split_asm)
qed simp

lemma cluster_dist_least:
  assumes len: "length labels = length cloud" and l: "l \<in> set labels"
  shows "masked (\<lambda>k. k = l) labels cloud \<noteq> []"
    and "\<exists>q \<in> set (masked (\<lambda>k. k = l) labels cloud). vdist (fst q) center = cluster_dist center labels cloud l"
    and "i < length cloud \<Longrightarrow> labels ! i = l \<Longrightarrow>
      cluster_dist center labels cloud l \<le> vdist (fst (cloud ! i)) center"
proof -
  let ?m = "masked (\<lambda>k. k = l) labels cloud"
  from l len obtain j where j: "j < length cloud" "labels ! j = l" by (auto simp: in_set_conv_nth)
  have set: "set ?m = {cloud ! i | i. i < length cloud \<and> labels ! i = l}"
    using set_masked [OF len] .
  with j show ne: "?m \<noteq> []" by (metis (mono_tags, lifting) empty_iff list.set(1) mem_Collect_eq)
  have "cluster_dist center labels cloud l \<in> set (map (\<lambda>(p, n). vdist p center) ?m)"
    unfolding cluster_dist_def using ne by (intro Min_in) auto
  then show "\<exists>q \<in> set ?m. vdist (fst q) center = cluster_dist center labels cloud l"
    by force
  show "cluster_dist center labels cloud l \<le> vdist (fst (cloud ! i)) center"
    if "i < length cloud" "labels ! i = l"
  proof -
    have "cloud ! i \<in> set ?m" using set that by auto
    then have "vdist (fst (cloud ! i)) center \<in> set (map (\<lambda>(p, n). vdist p center) ?m)"
      by (auto simp: image_iff split: prod.splits intro!: bexI [of _ "cloud ! i"])
    then show ?thesis unfolding cluster_dist_def by (intro Min_le) auto
  qed
qed

section \<open>Lemmas: axes\<close>

text \<open>A right-handed orthonormal frame.\<close>

fun right_handed :: "mat \<Rightarrow> bool" where
  "right_handed (x, y, z) \<longleftrightarrow>
     vdot x x = 1 \<and> vdot y y = 1 \<and> vdot z z = 1 \<and>
     vdot x y = 0 \<and> vdot y z = 0 \<and> vdot x z = 0 \<and> vcross x y = z"

lemma vcross_unit:
  assumes "vdot u u = 1" and "vdot v v = 1" and "vdot u v = 0"
  shows "vdot (vcross u v) (vcross u v) = 1" and "vdiv (vcross u v) (vnorm (vcross u v)) = vcross u v"
proof -
  show one: "vdot (vcross u v) (vcross u v) = 1" by (simp add: vdot_cross_self assms)
  show "vdiv (vcross u v) (vnorm (vcross u v)) = vcross u v"
    by (simp add: vnorm_unit [OF one] vdiv_def vscale_vscale)
qed

text \<open>The frame built on a horizontal axis \<open>x\<close> and the approach \<open>z\<close>, before and after turning over.\<close>

lemma frame_right_handed:
  assumes "vdot x x = 1" and "vdot z z = 1" and "vdot z x = 0"
  shows "right_handed (x, vcross z x, z)"
    and "right_handed (vcross (vneg (vcross z x)) z, vneg (vcross z x), z)"
    and "vdot (vcross (vneg (vcross z x)) z) (vcross (vneg (vcross z x)) z) = 1"
proof -
  have xz: "vcross x (vcross z x) = z"
    unfolding vcross_vcross using assms by (cases x; cases z) (simp add: vdot_commute)
  have zx: "vdot x z = 0" using assms(3) by (simp add: vdot_commute)
  show r: "right_handed (x, vcross z x, z)"
    using assms vcross_unit(1) [OF assms(2,1,3)] zx xz by (simp add: vdot_commute)
  have turned: "vcross (vneg (vcross z x)) z = vneg x"
  proof -
    have "vcross (vneg (vcross z x)) z = vcross z (vcross z x)"
      unfolding vneg_def vcross_scale vcross_anti [of z "vcross z x"] by (simp add: vscale_vscale)
    also have "\<dots> = vneg x"
      unfolding vcross_vcross using assms by (cases x; cases z) (simp add: vneg_def)
    finally show ?thesis .
  qed
  show "right_handed (vcross (vneg (vcross z x)) z, vneg (vcross z x), z)"
    unfolding turned using r by (simp add: vneg_def vdot_scale vcross_scale vscale_vscale)
  show "vdot (vcross (vneg (vcross z x)) z) (vcross (vneg (vcross z x)) z) = 1"
    unfolding turned by (simp add: vneg_def vdot_scale assms(1))
qed

text \<open>The reference direction is never parallel to the approach.\<close>

lemma reference_not_parallel:
  assumes "vdot z z = 1"
  shows "vnorm (if vnorm (vcross z (0, 0, 1)) < 1 / 10 ^ 6 then vcross z (1, 0, 0)
                else vcross z (0, 0, 1)) \<noteq> 0"
proof (cases "vnorm (vcross z (0, 0, 1)) < 1 / 10 ^ 6")
  case True
  obtain a b c where z: "z = (a, b, c)" by (cases z)
  from True have "a\<^sup>2 + b\<^sup>2 < (1 / 10 ^ 6)\<^sup>2"
    using vnorm_sq [of "vcross z (0, 0, 1)"] vnorm_nonneg [of "vcross z (0, 0, 1)"]
      mult_strict_mono' [OF True True]
    by (simp add: z power2_eq_square algebra_simps)
  moreover have "a\<^sup>2 + b\<^sup>2 + c\<^sup>2 = 1" using assms by (simp add: z power2_eq_square)
  moreover have "(1 / 10 ^ 6)\<^sup>2 \<le> (1 :: real)" by (simp add: power2_eq_square)
  ultimately have "0 < b\<^sup>2 + c\<^sup>2" using zero_le_power2 [of b] by linarith
  then have "vdot (vcross z (1, 0, 0)) (vcross z (1, 0, 0)) \<noteq> 0"
    by (auto simp: z power2_eq_square)
  with True show ?thesis by (simp add: vnorm_def)
qed auto

lemma tool_axes_right_handed:
  assumes "vdot z z = 1"
  shows "right_handed (tool_axes z) \<and> snd (snd (tool_axes z)) = z \<and> 0 \<le> vz (fst (snd (tool_axes z)))"
proof -
  define c where "c = (if vnorm (vcross z (0, 0, 1)) < 1 / 10 ^ 6 then vcross z (1, 0, 0)
                       else vcross z (0, 0, 1))"
  define x where "x = vdiv c (vnorm c)"
  define y where "y = vcross z x"
  have "vnorm c \<noteq> 0" unfolding c_def by (rule reference_not_parallel [OF assms])
  then have unit: "vdot x x = 1" unfolding x_def by (rule normalised_unit)
  have orth: "vdot z x = 0" by (simp add: x_def c_def vdiv_def vdot_scale)
  note y = vcross_unit(2) [OF assms unit orth, folded y_def]
  note frame = frame_right_handed [OF unit assms orth, folded y_def]
  have x': "vdiv (vcross (vneg y) z) (vnorm (vcross (vneg y) z)) = vcross (vneg y) z"
    by (simp add: vnorm_unit [OF frame(3)] vdiv_def vscale_vscale)
  have axes: "tool_axes z = (if vdot (0, 0, 1) y < 0 then (vcross (vneg y) z, vneg y, z) else (x, y, z))"
    unfolding tool_axes_def Let_def c_def [symmetric] x_def [symmetric] y_def [symmetric] y x' ..
  have vz: "vz u = vdot (0, 0, 1) u" for u by (cases u) simp
  show ?thesis
  proof (cases "vdot (0, 0, 1) y < 0")
    case True
    then have "0 \<le> vz (vneg y)" by (simp add: vz vneg_def vdot_scale)
    with True frame(2) show ?thesis by (simp add: axes del: right_handed.simps)
  next
    case False
    with frame(1) show ?thesis by (simp add: axes vz del: right_handed.simps)
  qed
qed

end
