(* ===== verification/Trajectory.thy ===== *)
theory Trajectory
  imports MeshQuery
begin

text \<open>
  The geometric part of scripts/blow_from_mesh.py: from a pixel of the camera to a point of the
  mesh, and from the key poses to the waypoints that are sent to the robot. Matrix inversion
  (numpy), rotations, splines and spherical interpolation (scipy) are parameters.
\<close>

section \<open>The libraries\<close>

type_synonym quat = "real \<times> real \<times> real \<times> real"

fun qdot :: "quat \<Rightarrow> quat \<Rightarrow> real" where
  "qdot (a, b, c, d) (x, y, z, w) = a * x + b * y + c * z + d * w"

fun qneg :: "quat \<Rightarrow> quat" where
  "qneg (x, y, z, w) = (- x, - y, - z, - w)"

text \<open>
  \<open>pl_euler\<close> is \<^verbatim>\<open>as_euler("ZYZ", degrees=True)\<close>; \<open>pl_spline knots points t\<close> and
  \<open>pl_slerp knots quaternions t\<close> are the interpolations at \<open>t\<close>.
\<close>

record pose_lib =
  pl_inv :: "se3 \<Rightarrow> se3"
  pl_inv3 :: "mat \<Rightarrow> mat"
  pl_quat :: "mat \<Rightarrow> quat"
  pl_mat :: "quat \<Rightarrow> mat"
  pl_euler :: "mat \<Rightarrow> vec"
  pl_spline :: "real list \<Rightarrow> vec list \<Rightarrow> real \<Rightarrow> vec"
  pl_slerp :: "real list \<Rightarrow> quat list \<Rightarrow> real \<Rightarrow> mat"

section \<open>Pixels\<close>

definition fx :: real where "fx = 76272 / 100"
definition fy :: real where "fy = fx"
definition cx_k :: real where "cx_k = 640"
definition cy_k :: real where "cy_k = 360"

text \<open>By columns.\<close>

definition camera_K :: mat where
  "camera_K = ((fx, 0, 0), (0, fy, 0), (cx_k, cy_k, 1))"

definition MESH_DIMENSION :: real where "MESH_DIMENSION = 1000"

definition pixel_to_world :: "real \<Rightarrow> real \<Rightarrow> real \<Rightarrow> se3 \<Rightarrow> vec" where
  "pixel_to_world pu pv z_cam T_w_cm =
     (let x_cam = (pu - cx_k) / fx * z_cam; y_cam = (pv - cy_k) / fy * z_cam
      in se3_apply T_w_cm (x_cam, y_cam, z_cam))"

definition world_to_mesh :: "vec \<Rightarrow> real \<times> real" where
  "world_to_mesh query_world = (vx query_world * MESH_DIMENSION, vy query_world * MESH_DIMENSION)"

text \<open>The ray through a pixel, in the coordinates of the mesh.\<close>

definition pixel_ray :: "pose_lib \<Rightarrow> real \<Rightarrow> real \<Rightarrow> se3 \<Rightarrow> vec" where
  "pixel_ray P pu pv T_w_cm =
     (let p_cam_unit = mat_vec (pl_inv3 P camera_K) (pu, pv, 1);
          ray_world = mat_vec (rot T_w_cm) p_cam_unit;
          ray_world' = vdiv ray_world (vnorm ray_world)
      in vdiv ray_world' (vnorm ray_world'))"

definition get_depth_from_mesh :: "pose_lib \<Rightarrow> real \<Rightarrow> real \<Rightarrow> se3 \<Rightarrow> mesh \<Rightarrow> real res" where
  "get_depth_from_mesh P pu pv T_w_cm M =
     (let cam_pos_mesh = vscale MESH_DIMENSION (trans T_w_cm);
          locations = map fst (ms_cast M cam_pos_mesh (pixel_ray P pu pv T_w_cm))
      in if locations = [] then Inl RuntimeError
         else rbind (argmin (map (\<lambda>p. vdist p cam_pos_mesh) locations)) (\<lambda>i.
           let hit_world = vdiv (locations ! i) MESH_DIMENSION
           in Inr (vz (se3_apply (pl_inv P T_w_cm) hit_world))))"

text \<open>The vertices are shifted; the comment speaks of a flip as well.\<close>

definition match_mesh_with_world :: "vec \<Rightarrow> vec list \<Rightarrow> vec list" where
  "match_mesh_with_world mesh_max vertices =
     map (\<lambda>v. vsub v (vx mesh_max, vy mesh_max, 0)) vertices"

section \<open>Key poses\<close>

text \<open>The loop that makes consecutive quaternions agree in sign.\<close>

fun fix_signs :: "quat \<Rightarrow> quat list \<Rightarrow> quat list" where
  "fix_signs prev [] = []"
| "fix_signs prev (q # qs) =
     (let q' = (if qdot prev q < 0 then qneg q else q) in q' # fix_signs q' qs)"

definition consistent_quats :: "quat list \<Rightarrow> quat list" where
  "consistent_quats qs = (case qs of [] \<Rightarrow> [] | q # qs' \<Rightarrow> q # fix_signs q qs')"

text \<open>The first pose is left as it is; the others get the matrix of their quaternion.\<close>

definition consistent_rotations :: "pose_lib \<Rightarrow> se3 list \<Rightarrow> se3 list" where
  "consistent_rotations P poses =
     (case poses of
        [] \<Rightarrow> []
      | T # Ts \<Rightarrow>
          T # map2 (\<lambda>U q. U\<lparr>rot := pl_mat P q\<rparr>) Ts
                (tl (consistent_quats (map (\<lambda>U. pl_quat P (rot U)) poses))))"

definition mesh_pose_to_base :: "pose_lib \<Rightarrow> se3 \<Rightarrow> se3 \<Rightarrow> se3" where
  "mesh_pose_to_base P T_world_ee T_w_b = se3_mul (pl_inv P T_w_b) T_world_ee"

definition se3_to_doosan_posx :: "pose_lib \<Rightarrow> se3 \<Rightarrow> real list" where
  "se3_to_doosan_posx P T_b_ee =
     (let t_mm = vscale 1000 (trans T_b_ee); (rz1, ry, rz2) = pl_euler P (rot T_b_ee)
      in [vx t_mm, vy t_mm, vz t_mm + 35, rz1, ry, rz2])"

section \<open>The trajectory\<close>

definition steps_between :: "vec list \<Rightarrow> real list" where
  "steps_between ts = map (\<lambda>(p, q). max (vdist q p) (1 / 10 ^ 8)) (zip ts (tl ts))"

fun cumsum :: "real \<Rightarrow> real list \<Rightarrow> real list" where
  "cumsum acc [] = []"
| "cumsum acc (x # xs) = (acc + x) # cumsum (acc + x) xs"

definition arc_knots :: "vec list \<Rightarrow> real list" where
  "arc_knots ts =
     (let ks = 0 # cumsum 0 (steps_between ts) in map (\<lambda>s. s / last ks) ks)"

definition linspace01 :: "nat \<Rightarrow> real list" where
  "linspace01 n = map (\<lambda>i. real i / real n) [0..<Suc n]"

text \<open>\<^verbatim>\<open>CubicSpline\<close> raises ValueError unless the knots increase strictly.\<close>

definition generate_smooth_trajectory :: "pose_lib \<Rightarrow> se3 list \<Rightarrow> nat \<Rightarrow> se3 list res" where
  "generate_smooth_trajectory P poses n_interp =
     (if length poses < 2 then Inl ValueError
      else
        let translations = map trans poses;
            t_knots = arc_knots translations;
            quats = consistent_quats (map (\<lambda>T. pl_quat P (rot T)) poses)
        in if \<not> sorted_wrt (<) t_knots then Inl ValueError
           else Inr (map (\<lambda>t. \<lparr>rot = pl_slerp P t_knots quats t, trans = pl_spline P t_knots translations t\<rparr>)
                  (linspace01 ((length poses - 1) * n_interp))))"

section \<open>Waypoints\<close>

definition check_reachable :: "se3 \<Rightarrow> real \<Rightarrow> bool" where
  "check_reachable T_base_ee robot_reach =
     (\<not> robot_reach < vnorm (trans T_base_ee) \<and> \<not> vz (trans T_base_ee) < - (5 / 100))"

text \<open>\<^verbatim>\<open>xs[::k]\<close> for a positive \<open>k\<close>.\<close>

definition stride :: "nat \<Rightarrow> 'a list \<Rightarrow> 'a list" where
  "stride k xs = map ((!) xs) (filter (\<lambda>i. i mod k = 0) [0..<length xs])"

text \<open>
  The poses of a trajectory are distinct objects, so that the test \<^verbatim>\<open>trajectory[-1] is not
  waypoints[-1]\<close> asks whether the last place is one of those taken.
\<close>

definition waypoints_of :: "nat \<Rightarrow> 'a list \<Rightarrow> 'a list res" where
  "waypoints_of skip trajectory =
     (if skip = 0 then Inl ValueError
      else if trajectory = [] then Inl IndexError
      else Inr (stride skip trajectory @
                (if (length trajectory - 1) mod skip \<noteq> 0 then [last trajectory] else [])))"

section \<open>Lemmas: knots\<close>

lemma length_cumsum [simp]: "length (cumsum acc xs) = length xs"
  by (induction xs arbitrary: acc) simp_all

lemma cumsum_increasing:
  "\<forall>x \<in> set xs. 0 < x \<Longrightarrow> sorted_wrt (<) (acc # cumsum acc xs)"
proof (induction xs arbitrary: acc)
  case (Cons x xs)
  then have "sorted_wrt (<) ((acc + x) # cumsum (acc + x) xs)" and "0 < x" by simp_all
  then show ?case by fastforce
qed simp

lemma steps_positive: "x \<in> set (steps_between ts) \<Longrightarrow> 0 < x"
  by (auto simp: steps_between_def less_max_iff_disj)

lemma length_steps: "length (steps_between ts) = length ts - 1"
  by (simp add: steps_between_def)

lemma sorted_wrt_divide:
  "sorted_wrt (<) xs \<Longrightarrow> 0 < c \<Longrightarrow> sorted_wrt (<) (map (\<lambda>s. s / c) (xs :: real list))"
  by (induction xs) (auto simp: divide_strict_right_mono)

lemma knots_increase:
  assumes "2 \<le> length ts"
  shows "sorted_wrt (<) (arc_knots ts)" and "hd (arc_knots ts) = 0" and "last (arc_knots ts) = 1"
    and "length (arc_knots ts) = length ts"
proof -
  let ?s = "0 # cumsum 0 (steps_between ts)"
  have inc: "sorted_wrt (<) ?s" using cumsum_increasing steps_positive by blast
  obtain a b ts' where "ts = a # b # ts'"
    using assms by (cases ts rule: remdups_adj.cases) auto
  then have "cumsum 0 (steps_between ts) \<noteq> []" by (simp add: steps_between_def)
  then have pos: "0 < last ?s" using inc by auto
  show "hd (arc_knots ts) = 0" by (simp add: arc_knots_def Let_def)
  have "last (map (\<lambda>s. s / last ?s) ?s) = last ?s / last ?s" by (rule last_map) simp
  also have "\<dots> = 1" using pos by (intro divide_self) simp
  finally show "last (arc_knots ts) = 1" by (simp only: arc_knots_def Let_def)
  from inc pos show "sorted_wrt (<) (arc_knots ts)"
    unfolding arc_knots_def Let_def by (intro sorted_wrt_divide)
  from assms length_steps [of ts] show "length (arc_knots ts) = length ts"
    by (simp add: arc_knots_def)
qed

lemma length_linspace [simp]: "length (linspace01 n) = Suc n"
  by (simp add: linspace01_def)

lemma linspace_ends: "hd (linspace01 n) = 0" "0 < n \<Longrightarrow> last (linspace01 n) = 1"
proof -
  show "hd (linspace01 n) = 0" by (simp add: linspace01_def upt_conv_Cons del: upt_Suc)
  show "0 < n \<Longrightarrow> last (linspace01 n) = 1" by (simp add: linspace01_def)
qed

section \<open>Lemmas: signs\<close>

lemma qdot_neg: "qdot p (qneg q) = - qdot p q"
  by (cases p; cases q) simp

lemma fix_signs_agree:
  "successively (\<lambda>p q. 0 \<le> qdot p q) (prev # fix_signs prev qs)"
  by (induction qs arbitrary: prev) (auto simp: Let_def qdot_neg)

lemma fix_signs_rel: "list_all2 (\<lambda>q r. r = q \<or> r = qneg q) qs (fix_signs prev qs)"
  by (induction qs arbitrary: prev) (auto simp: Let_def)

text \<open>The conversions of the rotations in use: back and forth, and the double cover.\<close>

definition rotation_laws :: "pose_lib \<Rightarrow> mat set \<Rightarrow> bool" where
  "rotation_laws P rotations \<longleftrightarrow>
     (\<forall>q. pl_mat P (qneg q) = pl_mat P q) \<and>
     (\<forall>R \<in> rotations. pl_mat P (pl_quat P R) = R)"

text \<open>The function that is to make rotations consistent changes nothing: it turns each quaternion, of
  whichever sign, back into a matrix, and both signs stand for the same.\<close>

lemma consistent_rotations_id:
  assumes "rotation_laws P (rot ` set poses)"
  shows "consistent_rotations P poses = poses"
proof (cases poses)
  case (Cons T Ts)
  let ?qs = "map (\<lambda>U. pl_quat P (rot U)) Ts"
  have same: "map2 (\<lambda>U q. U\<lparr>rot := pl_mat P q\<rparr>) Ts rs = Ts"
    if "list_all2 (\<lambda>q r. r = q \<or> r = qneg q) (map (\<lambda>U. pl_quat P (rot U)) Ts) rs"
      and "rot ` set Ts \<subseteq> rot ` set poses" for rs Ts
    using that
  proof (induction Ts arbitrary: rs)
    case (Cons U Ts)
    from Cons.prems(1) obtain r rs' where rs: "rs = r # rs'"
      "r = pl_quat P (rot U) \<or> r = qneg (pl_quat P (rot U))"
      "list_all2 (\<lambda>q r. r = q \<or> r = qneg q) (map (\<lambda>U. pl_quat P (rot U)) Ts) rs'"
      unfolding list.map list_all2_Cons1 by blast
    have "rot U \<in> rot ` set poses" using Cons.prems(2) by simp
    with rs(2) assms have "pl_mat P r = rot U" unfolding rotation_laws_def by metis
    with Cons.IH [OF rs(3)] Cons.prems(2) rs(1) show ?case by simp
  qed simp
  have "rot ` set Ts \<subseteq> rot ` set poses" by (auto simp: Cons)
  from same [OF fix_signs_rel [of ?qs "pl_quat P (rot T)"] this] Cons show ?thesis
    by (simp add: consistent_rotations_def consistent_quats_def)
qed (simp add: consistent_rotations_def)

section \<open>Lemmas: waypoints\<close>

lemma set_stride: "set (stride k xs) \<subseteq> set xs"
  by (auto simp: stride_def)

lemma stride_Cons: "stride k (x # xs) = x # map ((!) (x # xs)) (filter (\<lambda>i. i mod k = 0) [1..<Suc (length xs)])"
  by (simp add: stride_def upt_conv_Cons del: upt_Suc)

lemma stride_last:
  assumes "xs \<noteq> []" and "(length xs - 1) mod k = 0"
  shows "last (stride k xs) = last xs"
proof -
  have "[0..<length xs] = [0..<length xs - 1] @ [length xs - 1]"
    using assms(1) by (metis Suc_pred' length_greater_0_conv upt_Suc_append zero_le)
  then show ?thesis using assms by (simp add: stride_def last_conv_nth)
qed

lemma waypoints_ends:
  assumes "waypoints_of skip trajectory = Inr ws"
  shows "ws \<noteq> []" and "hd ws = hd trajectory" and "last ws = last trajectory"
    and "set ws \<subseteq> set trajectory"
proof -
  from assms have t: "trajectory \<noteq> []" and ws: "ws = stride skip trajectory @
      (if (length trajectory - 1) mod skip \<noteq> 0 then [last trajectory] else [])"
    by (auto simp: waypoints_of_def split: if_split_asm)
  then obtain x xs where "trajectory = x # xs" by (cases trajectory) auto
  with ws show "ws \<noteq> []" and "hd ws = hd trajectory" by (simp_all add: stride_Cons)
  from ws t stride_last [of trajectory skip] show "last ws = last trajectory" by auto
  from ws t set_stride [of skip trajectory] show "set ws \<subseteq> set trajectory" by auto
qed


section \<open>Lemmas: pixels\<close>

lemma mat_vec_scale: "mat_vec A (vscale k v) = vscale k (mat_vec A v)"
proof -
  obtain a b c where "A = (a, b, c)" by (cases A)
  then show ?thesis by (cases a; cases b; cases c; cases v) (simp add: algebra_simps)
qed

lemma camera_K_solve:
  assumes "mat_vec camera_K k = (pu, pv, 1)"
  shows "k = ((pu - cx_k) / fx, (pv - cy_k) / fy, 1)"
  using assms by (cases k) (auto simp: camera_K_def fx_def fy_def field_simps)

text \<open>What a ray cast promises: its hits lie on the ray. And the two matrix inverses.\<close>

definition hits_on_ray :: "mesh \<Rightarrow> bool" where
  "hits_on_ray M \<longleftrightarrow> (\<forall>s d. \<forall>(p, n) \<in> set (ms_cast M s d). \<exists>t. p = vadd s (vscale t d))"

lemma pixel_of_ray_point:
  assumes "mat_vec camera_K (mat_vec (pl_inv3 P camera_K) (pu, pv, 1)) = (pu, pv, 1)"
    and "\<And>p. se3_apply (pl_inv P T) (se3_apply T p) = p"
    and "h = vadd (vscale MESH_DIMENSION (trans T)) (vscale t (pixel_ray P pu pv T))"
  shows "pixel_to_world pu pv (vz (se3_apply (pl_inv P T) (vdiv h MESH_DIMENSION))) T = vdiv h MESH_DIMENSION"
proof -
  define k where "k = mat_vec (pl_inv3 P camera_K) (pu, pv, 1)"
  from camera_K_solve assms(1) have k: "k = ((pu - cx_k) / fx, (pv - cy_k) / fy, 1)"
    unfolding k_def by blast
  obtain c where c: "pixel_ray P pu pv T = vscale c (mat_vec (rot T) k)"
    by (simp add: pixel_ray_def Let_def vdiv_def vscale_vscale k_def)
  have "vdiv h MESH_DIMENSION = vadd (trans T) (vscale (t * c / 1000) (mat_vec (rot T) k))"
    unfolding assms(3) c
    by (cases "trans T"; cases "mat_vec (rot T) k") (simp add: vdiv_def MESH_DIMENSION_def)
  also have "\<dots> = se3_apply T (vscale (t * c / 1000) k)"
    unfolding se3_apply_def mat_vec_scale
    by (cases "trans T"; cases "mat_vec (rot T) k") simp
  finally have h: "vdiv h MESH_DIMENSION = se3_apply T (vscale (t * c / 1000) k)" .
  show ?thesis
    unfolding h assms(2) by (simp add: pixel_to_world_def k Let_def mult.commute)
qed

lemma depth_of_closest_hit:
  assumes "get_depth_from_mesh P pu pv T M = Inr z"
  shows "\<exists>h n. (h, n) \<in> set (ms_cast M (vscale MESH_DIMENSION (trans T)) (pixel_ray P pu pv T)) \<and>
    z = vz (se3_apply (pl_inv P T) (vdiv h MESH_DIMENSION)) \<and>
    (\<forall>(q, m) \<in> set (ms_cast M (vscale MESH_DIMENSION (trans T)) (pixel_ray P pu pv T)).
       vdist h (vscale MESH_DIMENSION (trans T)) \<le> vdist q (vscale MESH_DIMENSION (trans T)))"
proof -
  let ?o = "vscale MESH_DIMENSION (trans T)"
  let ?hits = "ms_cast M ?o (pixel_ray P pu pv T)"
  from assms obtain i where i: "argmin (map (\<lambda>p. vdist p ?o) (map fst ?hits)) = Inr i"
    "z = vz (se3_apply (pl_inv P T) (vdiv (map fst ?hits ! i) MESH_DIMENSION))"
    by (auto simp: get_depth_from_mesh_def Let_def rbind_Inr_iff split: if_split_asm)
  from argmin_least [OF i(1)] have less: "i < length ?hits"
    and least: "\<forall>q \<in> set ?hits. vdist (fst (?hits ! i)) ?o \<le> vdist (fst q) ?o"
    by (auto simp: nth_map)
  from less have "?hits ! i \<in> set ?hits" by simp
  with i(2) less least show ?thesis
    by (intro exI [of _ "fst (?hits ! i)"] exI [of _ "snd (?hits ! i)"]) auto
qed

end
