(* ===== verification/MeshProperties.thy ===== *)
theory MeshProperties
  imports Trajectory
begin

text \<open>The properties of the geometric part of the mesh scripts.\<close>

section \<open>Normals and clusters\<close>

text \<open>C30: the deduplication of normals keeps a subsequence of the upward normals that begins with the
  first one: any two kept normals are more than the threshold apart, and every upward normal is
  kept or within the threshold of a kept one.\<close>

theorem normals_deduplicated:
  assumes "us = deduplicate_normals normals threshold"
  shows "subseq us (upward_normals normals) \<and>
    (\<forall>i j. i < j \<and> j < length us \<longrightarrow> deg2rad threshold < angle (us ! i) (us ! j)) \<and>
    (\<forall>n \<in> set (upward_normals normals). n \<in> set us \<or> (\<exists>u \<in> set us. angle u n \<le> deg2rad threshold)) \<and>
    (upward_normals normals \<noteq> [] \<longrightarrow> us \<noteq> [] \<and> hd us = hd (upward_normals normals)) \<and>
    (\<forall>u \<in> set us. 0 \<le> vz u)"
proof (intro conjI)
  let ?t = "deg2rad threshold" and ?ns = "upward_normals normals"
  have us: "us = keep_distinct ?t [] ?ns" by (simp add: assms deduplicate_normals_def)
  show sub: "subseq us ?ns"
    using keep_distinct_subseq [of ?ns ?t "[]"] us by auto
  have "apart ?t us" unfolding us by (rule keep_distinct_apart) (simp add: apart_def)
  then show "\<forall>i j. i < j \<and> j < length us \<longrightarrow> ?t < angle (us ! i) (us ! j)"
    by (auto simp: apart_def sorted_wrt_iff_nth_less)
  show "\<forall>n \<in> set ?ns. n \<in> set us \<or> (\<exists>u \<in> set us. angle u n \<le> ?t)"
    unfolding us using keep_distinct_covers by blast
  show "?ns \<noteq> [] \<longrightarrow> us \<noteq> [] \<and> hd us = hd ?ns"
  proof
    assume "?ns \<noteq> []"
    then obtain n ns where ns: "?ns = n # ns" by (cases ?ns) auto
    have "prefix [n] us" using keep_distinct_prefix [of "[n]" ?t ns] by (simp add: us ns)
    then show "us \<noteq> [] \<and> hd us = hd ?ns" by (auto simp: ns prefix_def)
  qed
  show "\<forall>u \<in> set us. 0 \<le> vz u"
  proof
    fix u assume "u \<in> set us"
    from list_emb_set [OF sub this] show "0 \<le> vz u" by (auto simp: upward_normals_def)
  qed
qed

lemma normals_deduplicated_witness:
  "hd (deduplicate_normals [(0, 0, - 2), (0, 0, 3)] 5) = unit_normal (0, 0, 3)"
proof -
  have "upward_normals [(0, 0, - 2), (0, 0, 3)] = [unit_normal (0, 0, 3)]"
    by (simp add: upward_normals_def unit_normal_def vdiv_def vnorm_def)
  with normals_deduplicated [OF refl, of "[(0, 0, - 2), (0, 0, 3)]" 5] show ?thesis by simp
qed

text \<open>Where there are several clusters, the one with a point closest to the centre is kept, all of
  it and nothing else; in every case what is kept is not empty.\<close>

lemma closest_cluster_kept:
  assumes "cluster_lib_ok L" and "cloud \<noteq> []"
    and "labels = cl_dbscan L (max (bounding_diagonal (map fst cloud) * eps_frac) (1 / 10 ^ 6)) k (map fst cloud)"
  shows "set (keep_closest_cluster L cloud center eps_frac k) \<subseteq> set cloud \<and>
    keep_closest_cluster L cloud center eps_frac k \<noteq> [] \<and>
    (k \<le> length cloud \<and> 1 < card (set labels - {-1}) \<longrightarrow>
      (\<exists>b \<in> set labels - {-1}. keep_closest_cluster L cloud center eps_frac k = masked (\<lambda>l. l = b) labels cloud \<and>
        (\<forall>i < length cloud. labels ! i \<noteq> -1 \<longrightarrow>
          (\<exists>q \<in> set (keep_closest_cluster L cloud center eps_frac k).
             vdist (fst q) center \<le> vdist (fst (cloud ! i)) center))))"
proof -
  let ?kept = "keep_closest_cluster L cloud center eps_frac k"
  let ?u = "set labels - {-1}"
  have len: "length labels = length cloud"
    using assms(1,3) by (simp add: cluster_lib_ok_def)
  have unfolded: "?kept = (if length cloud < k then cloud
      else if card ?u \<le> 1 then (if ?u = {} then cloud else masked (\<lambda>l. l \<noteq> -1) labels cloud)
      else (case best_label (cluster_dist center labels cloud) None (cl_order L ?u) of
              None \<Rightarrow> [] | Some (b, _) \<Rightarrow> masked (\<lambda>l. l = b) labels cloud))"
    unfolding keep_closest_cluster_def Let_def assms(3) ..
  consider (few) "length cloud < k" | (none) "k \<le> length cloud" "?u = {}"
    | (one) "k \<le> length cloud" "?u \<noteq> {}" "card ?u \<le> 1" | (many) "k \<le> length cloud" "1 < card ?u"
    by linarith
  then show ?thesis
  proof cases
    case few
    then have "?kept = cloud" unfolding unfolded by simp
    with assms(2) few show ?thesis by simp
  next
    case none
    then have "?kept = cloud" unfolding unfolded by (simp only: card.empty if_True) simp
    moreover have "\<not> 1 < card ?u" unfolding none(2) by simp
    ultimately show ?thesis using assms(2) by simp
  next
    case one
    then have kept: "?kept = masked (\<lambda>l. l \<noteq> -1) labels cloud"
      unfolding unfolded by auto
    from one(2) obtain l where "l \<in> set labels" "l \<noteq> -1" by blast
    then obtain i where "i < length cloud" "labels ! i \<noteq> -1"
      using len by (metis in_set_conv_nth)
    then have "cloud ! i \<in> set ?kept" unfolding kept set_masked [OF len] by blast
    then have "?kept \<noteq> []" by auto
    with kept one(3) masked_subset [of "\<lambda>l. l \<noteq> -1" labels cloud] show ?thesis by simp
  next
    case many
    let ?order = "cl_order L ?u"
    have order: "set ?order = ?u" using assms(1) by (simp add: cluster_lib_ok_def)
    then have "?order \<noteq> []" using many(2) by (metis card.empty empty_set not_one_less_zero)
    from best_label_None [OF this, of "cluster_dist center labels cloud"] obtain b
      where b: "best_label (cluster_dist center labels cloud) None ?order = Some (b, cluster_dist center labels cloud b)"
        "b \<in> ?u" "\<forall>l \<in> ?u. cluster_dist center labels cloud b \<le> cluster_dist center labels cloud l"
      unfolding order by blast
    have kept: "?kept = masked (\<lambda>l. l = b) labels cloud"
      unfolding unfolded b(1) using many by auto
    have bl: "b \<in> set labels" using b(2) by simp
    note dist = cluster_dist_least [OF len bl]
    have "\<exists>q \<in> set ?kept. vdist (fst q) center \<le> vdist (fst (cloud ! i)) center"
      if i: "i < length cloud" "labels ! i \<noteq> -1" for i
    proof -
      have "labels ! i \<in> set labels" using i(1) len by simp
      from b(3) cluster_dist_least(3) [OF len this i(1) refl, of center] i(2) this
      have "cluster_dist center labels cloud b \<le> vdist (fst (cloud ! i)) center" by force
      with dist(2) [of center] show ?thesis unfolding kept by (metis (no_types))
    qed
    with kept b(2) dist(1) masked_subset [of "\<lambda>l. l = b" labels cloud] show ?thesis by auto
  qed
qed

section \<open>The pose of the tool\<close>

text \<open>C29: the pose of the tool is computed exactly when the sum of the normals is at least \<open>10 ^ -12\<close>
  long; otherwise, and in particular without any upward normal, there is a ValueError. A computed
  pose is a right-handed orthonormal frame whose third axis points against the normalised sum of
  the normals and whose second never points down, at the given distance from the surface point
  along that sum.\<close>

theorem pose_right_handed:
  "(if vnorm (vsum (unique_normals result)) < 1 / 10 ^ 12
    then compute_se3_pose result d = Inl ValueError
    else \<exists>pose. compute_se3_pose result d = Inr pose \<and>
      right_handed (tp_rotation pose) \<and>
      snd (snd (tp_rotation pose)) = vneg (tp_v pose) \<and> 0 \<le> vz (fst (snd (tp_rotation pose))) \<and>
      vdot (tp_v pose) (tp_v pose) = 1 \<and>
      vscale (vnorm (vsum (unique_normals result))) (tp_v pose) = vsum (unique_normals result) \<and>
      tp_position pose = vadd (surface_point result) (vscale d (tp_v pose)) \<and>
      tp_T pose = \<lparr>rot = tp_rotation pose, trans = tp_position pose\<rparr>) \<and>
   (unique_normals result = [] \<longrightarrow> compute_se3_pose result d = Inl ValueError)"
proof (cases "vnorm (vsum (unique_normals result)) < 1 / 10 ^ 12")
  case True
  then have "compute_se3_pose result d = Inl ValueError" by (simp add: compute_se3_pose_def Let_def)
  with True show ?thesis by simp
next
  case False
  let ?s = "vsum (unique_normals result)"
  let ?v = "vdiv ?s (vnorm ?s)"
  have pos: "vnorm ?s \<noteq> 0" using False by auto
  have ne: "unique_normals result \<noteq> []" using pos by (auto simp: vsum_def vnorm_def)
  have unit: "vdot ?v ?v = 1" by (rule normalised_unit [OF pos])
  then have "vdot (vneg ?v) (vneg ?v) = 1" by (simp add: vneg_def vdot_scale)
  note axes = tool_axes_right_handed [OF this]
  have "vscale (vnorm ?s) ?v = ?s"
    unfolding vdiv_def using pos by (simp add: vscale_vscale)
  with False ne unit axes show ?thesis
    by (simp add: compute_se3_pose_def Let_def make_SE3_def)
qed

lemma pose_right_handed_witness:
  "\<exists>pose. compute_se3_pose \<lparr>surface_point = (0, 0, 5), roi_points = [], all_normals = [],
       unique_normals = [(0, 0, 1)]\<rparr> 2 = Inr pose \<and> right_handed (tp_rotation pose)"
  using pose_right_handed [of "\<lparr>surface_point = (0, 0, 5), roi_points = [], all_normals = [],
      unique_normals = [(0, 0, 1)]\<rparr>" 2]
  by (auto simp: vsum_def vnorm_def)

section \<open>Pixels\<close>

text \<open>C32: the depth computed for a pixel leads back to the mesh: if the hits of a ray lie on it and the
  two matrix inverses invert, then the pixel, unprojected at its depth, is in the world the hit
  of its ray that is closest to the camera.\<close>

theorem pixel_depth_roundtrip:
  assumes "hits_on_ray M"
    and "mat_vec camera_K (mat_vec (pl_inv3 P camera_K) (pu, pv, 1)) = (pu, pv, 1)"
    and "\<And>p. se3_apply (pl_inv P T) (se3_apply T p) = p"
    and "get_depth_from_mesh P pu pv T M = Inr z"
  shows "\<exists>h n. (h, n) \<in> set (ms_cast M (vscale MESH_DIMENSION (trans T)) (pixel_ray P pu pv T)) \<and>
    vscale MESH_DIMENSION (pixel_to_world pu pv z T) = h \<and>
    (\<forall>(q, m) \<in> set (ms_cast M (vscale MESH_DIMENSION (trans T)) (pixel_ray P pu pv T)).
       vdist h (vscale MESH_DIMENSION (trans T)) \<le> vdist q (vscale MESH_DIMENSION (trans T)))"
proof -
  let ?hits = "ms_cast M (vscale MESH_DIMENSION (trans T)) (pixel_ray P pu pv T)"
  from depth_of_closest_hit [OF assms(4)] obtain h n where h: "(h, n) \<in> set ?hits"
    "z = vz (se3_apply (pl_inv P T) (vdiv h MESH_DIMENSION))"
    "\<forall>(q, m) \<in> set ?hits. vdist h (vscale MESH_DIMENSION (trans T)) \<le> vdist q (vscale MESH_DIMENSION (trans T))"
    by blast
  from assms(1) h(1) obtain t where "h = vadd (vscale MESH_DIMENSION (trans T)) (vscale t (pixel_ray P pu pv T))"
    unfolding hits_on_ray_def by blast
  from pixel_of_ray_point [OF assms(2,3) this] have "pixel_to_world pu pv z T = vdiv h MESH_DIMENSION"
    by (simp add: h(2))
  then have "vscale MESH_DIMENSION (pixel_to_world pu pv z T) = h"
    by (simp add: vdiv_def vscale_vscale MESH_DIMENSION_def)
  with h(1,3) show ?thesis by blast
qed

text \<open>A camera one metre above the plane of height zero, looking up at a plane at two metres.\<close>

definition flat_lib :: pose_lib where
  "flat_lib = \<lparr>pl_inv = (\<lambda>T. \<lparr>rot = rot T, trans = vneg (trans T)\<rparr>),
     pl_inv3 = (\<lambda>_. ((1 / fx, 0, 0), (0, 1 / fy, 0), (- cx_k / fx, - cy_k / fy, 1))),
     pl_quat = (\<lambda>_. (0, 0, 0, 1)), pl_mat = (\<lambda>_. ((1, 0, 0), (0, 1, 0), (0, 0, 1))),
     pl_euler = (\<lambda>_. (0, 0, 0)), pl_spline = (\<lambda>_ ps _. hd ps),
     pl_slerp = (\<lambda>_ _ _. ((1, 0, 0), (0, 1, 0), (0, 0, 1)))\<rparr>"

definition flat_camera :: se3 where
  "flat_camera = \<lparr>rot = ((1, 0, 0), (0, 1, 0), (0, 0, 1)), trans = (0, 0, 1)\<rparr>"

definition flat_mesh :: mesh where
  "flat_mesh = \<lparr>ms_min = (0, 0, 0), ms_max = (0, 0, 2000), ms_area = 1,
     ms_cast = (\<lambda>s d. [(vadd s (vscale 1000 d), (0, 0, 1))]), ms_sample = (\<lambda>_. [])\<rparr>"

lemma flat_ray: "pixel_ray flat_lib 640 360 flat_camera = (0, 0, 1)"
  by (simp add: pixel_ray_def flat_lib_def flat_camera_def fx_def fy_def cx_k_def cy_k_def vdiv_def
      vnorm_def Let_def)

lemma flat_hits: "ms_cast flat_mesh (vscale MESH_DIMENSION (trans flat_camera))
    (pixel_ray flat_lib 640 360 flat_camera) = [((0, 0, 2000), (0, 0, 1))]"
  unfolding flat_ray by (simp add: flat_mesh_def flat_camera_def MESH_DIMENSION_def)

lemma pixel_depth_roundtrip_witness:
  "\<exists>z. get_depth_from_mesh flat_lib 640 360 flat_camera flat_mesh = Inr z \<and>
     vscale MESH_DIMENSION (pixel_to_world 640 360 z flat_camera) = (0, 0, 2000)"
proof -
  have ray: "hits_on_ray flat_mesh" by (auto simp: hits_on_ray_def flat_mesh_def)
  have inv3: "mat_vec camera_K (mat_vec (pl_inv3 flat_lib camera_K) (640, 360, 1)) = (640, 360, 1)"
    by (simp add: flat_lib_def camera_K_def fx_def fy_def cx_k_def cy_k_def)
  have inv: "se3_apply (pl_inv flat_lib flat_camera) (se3_apply flat_camera p) = p" for p
    by (cases p) (simp add: flat_lib_def flat_camera_def se3_apply_def vneg_def)
  obtain z where z: "get_depth_from_mesh flat_lib 640 360 flat_camera flat_mesh = Inr z"
    by (simp add: get_depth_from_mesh_def flat_mesh_def Let_def argmin_def)
  from pixel_depth_roundtrip [OF ray inv3 inv z] z show ?thesis
    unfolding flat_hits by auto
qed

section \<open>The trajectory\<close>

text \<open>What the interpolations promise: at a knot they take its value.\<close>

definition interpolation_laws :: "pose_lib \<Rightarrow> bool" where
  "interpolation_laws P \<longleftrightarrow>
     (\<forall>ks ps i. sorted_wrt (<) ks \<longrightarrow> length ks = length ps \<longrightarrow> i < length ks \<longrightarrow>
        pl_spline P ks ps (ks ! i) = ps ! i) \<and>
     (\<forall>ks qs i. sorted_wrt (<) ks \<longrightarrow> length ks = length qs \<longrightarrow> i < length ks \<longrightarrow>
        pl_slerp P ks qs (ks ! i) = pl_mat P (qs ! i))"

lemma consistent_quats_rel: "list_all2 (\<lambda>q r. r = q \<or> r = qneg q) qs (consistent_quats qs)"
  using fix_signs_rel by (cases qs) (simp_all add: consistent_quats_def)

lemma consistent_quats_props:
  "length (consistent_quats qs) = length qs"
  "i < length qs \<Longrightarrow> consistent_quats qs ! i = qs ! i \<or> consistent_quats qs ! i = qneg (qs ! i)"
  using list_all2_lengthD [OF consistent_quats_rel [of qs]]
    list_all2_nthD [OF consistent_quats_rel [of qs]]
  by simp_all

lemma consistent_quats_agree: "successively (\<lambda>p q. 0 \<le> qdot p q) (consistent_quats qs)"
  using fix_signs_agree by (cases qs) (simp_all add: consistent_quats_def)

text \<open>At the knot of a key pose both interpolations give that pose.\<close>

lemma pose_at_knot:
  assumes "2 \<le> length poses" and "interpolation_laws P" and "rotation_laws P (rot ` set poses)"
    and i: "i < length poses"
  defines "ts \<equiv> map trans poses" and "qs \<equiv> consistent_quats (map (\<lambda>T. pl_quat P (rot T)) poses)"
  shows "\<lparr>rot = pl_slerp P (arc_knots ts) qs (arc_knots ts ! i),
      trans = pl_spline P (arc_knots ts) ts (arc_knots ts ! i)\<rparr> = poses ! i"
proof -
  have two: "2 \<le> length ts" using assms(1) by (simp add: ts_def)
  note knots = knots_increase [OF two]
  have lens: "length (arc_knots ts) = length poses" "length qs = length poses" "length ts = length poses"
    using knots(4) by (simp_all add: consistent_quats_props(1) ts_def qs_def)
  have "pl_spline P (arc_knots ts) ts (arc_knots ts ! i) = trans (poses ! i)"
    using assms(2) knots(1) lens i unfolding interpolation_laws_def ts_def by (metis nth_map)
  moreover have "pl_slerp P (arc_knots ts) qs (arc_knots ts ! i) = pl_mat P (qs ! i)"
    using assms(2) knots(1) lens i unfolding interpolation_laws_def by metis
  moreover have "qs ! i = pl_quat P (rot (poses ! i)) \<or> qs ! i = qneg (pl_quat P (rot (poses ! i)))"
    using consistent_quats_props(2) [of i "map (\<lambda>T. pl_quat P (rot T)) poses"] i by (simp add: qs_def)
  then have "pl_mat P (qs ! i) = rot (poses ! i)"
    using assms(3) i unfolding rotation_laws_def by (metis image_eqI nth_mem)
  ultimately show ?thesis by simp
qed

text \<open>C31: from two poses on, and with a positive number of poses per interval, the trajectory is always
  computed: its knots, one per pose, increase strictly from 0 to 1 (also where poses coincide), it has
  \<open>n_interp\<close> poses for each of the intervals and one more, and it begins and ends exactly in the first
  and last pose, whatever signs the quaternions were given. This rests on what the library promises: a
  spline and a spherical interpolation take the given values at their knots, and the rotation of a
  quaternion, or of its negative, made from a rotation is that rotation. With fewer poses it raises
  ValueError.\<close>

theorem trajectory_joins_ends:
  assumes "2 \<le> length poses" and "0 < n_interp"
    and "interpolation_laws P" and "rotation_laws P (rot ` set poses)"
  shows "(\<exists>trajectory. generate_smooth_trajectory P poses n_interp = Inr trajectory \<and>
      length trajectory = (length poses - 1) * n_interp + 1 \<and>
      hd trajectory = hd poses \<and> last trajectory = last poses) \<and>
    length (arc_knots (map trans poses)) = length poses \<and>
    sorted_wrt (<) (arc_knots (map trans poses)) \<and>
    hd (arc_knots (map trans poses)) = 0 \<and> last (arc_knots (map trans poses)) = 1 \<and>
    successively (\<lambda>p q. 0 \<le> qdot p q) (consistent_quats (map (\<lambda>T. pl_quat P (rot T)) poses)) \<and>
    (length short < 2 \<longrightarrow> generate_smooth_trajectory P short n_interp = Inl ValueError)"
proof -
  let ?ts = "map trans poses" and ?qs = "consistent_quats (map (\<lambda>T. pl_quat P (rot T)) poses)"
  let ?ks = "arc_knots ?ts" and ?n = "(length poses - 1) * n_interp"
  let ?at = "\<lambda>t. \<lparr>rot = pl_slerp P ?ks ?qs t, trans = pl_spline P ?ks ?ts t\<rparr>"
  have two: "2 \<le> length ?ts" using assms(1) by simp
  note knots = knots_increase [OF two]
  have lens: "length ?ks = length poses" "length ?qs = length poses"
    using knots(4) by (simp_all add: consistent_quats_props(1))
  have n: "0 < ?n" using assms(1,2) by simp
  have gen: "generate_smooth_trajectory P poses n_interp = Inr (map ?at (linspace01 ?n))"
    using assms(1) knots(1) by (simp add: generate_smooth_trajectory_def Let_def)
  have pose_at: "?at (?ks ! i) = poses ! i" if "i < length poses" for i
    using pose_at_knot [OF assms(1,3,4) that] .
  have ne: "poses \<noteq> []" "linspace01 ?n \<noteq> []" "?ks \<noteq> []"
    using assms(1) lens(1) by (auto simp: linspace01_def)
  have ends: "?ks ! 0 = 0" "?ks ! (length poses - 1) = 1"
    using knots(2,3) lens(1) ne(3) by (metis hd_conv_nth, metis last_conv_nth)
  have "hd (map ?at (linspace01 ?n)) = ?at (hd (linspace01 ?n))"
    using ne(2) by (rule list.map_sel(1))
  then have "hd (map ?at (linspace01 ?n)) = ?at (?ks ! 0)"
    by (simp only: ends linspace_ends(1))
  moreover have "last (map ?at (linspace01 ?n)) = ?at (last (linspace01 ?n))"
    using ne(2) by (rule last_map)
  then have "last (map ?at (linspace01 ?n)) = ?at (?ks ! (length poses - 1))"
    by (simp only: ends linspace_ends(2) [OF n])
  ultimately have "hd (map ?at (linspace01 ?n)) = hd poses" "last (map ?at (linspace01 ?n)) = last poses"
    using pose_at [of 0] pose_at [of "length poses - 1"] ne(1) by (simp_all add: hd_conv_nth last_conv_nth)
  with gen consistent_quats_agree knots(1-3) lens(1) show ?thesis
    by (auto simp: generate_smooth_trajectory_def)
qed

text \<open>Interpolations that know the knots only.\<close>

definition knot_index :: "real list \<Rightarrow> real \<Rightarrow> nat" where
  "knot_index ks t = length (takeWhile (\<lambda>k. k \<noteq> t) ks)"

definition knot_lib :: pose_lib where
  "knot_lib = flat_lib\<lparr>pl_spline := (\<lambda>ks ps t. ps ! knot_index ks t),
     pl_slerp := (\<lambda>ks qs t. ((1, 0, 0), (0, 1, 0), (0, 0, 1)))\<rparr>"

lemma knot_index_nth: "sorted_wrt (<) ks \<Longrightarrow> i < length ks \<Longrightarrow> knot_index ks (ks ! i) = i"
  unfolding knot_index_def
proof (induction ks arbitrary: i)
  case (Cons k ks)
  then show ?case by (cases i) fastforce+
qed simp

lemma trajectory_joins_ends_witness:
  "\<exists>trajectory. generate_smooth_trajectory knot_lib [flat_camera, flat_camera\<lparr>trans := (3, 0, 4)\<rparr>] 2 =
      Inr trajectory \<and> length trajectory = 3 \<and> last trajectory = flat_camera\<lparr>trans := (3, 0, 4)\<rparr>"
proof -
  have "interpolation_laws knot_lib"
    by (simp add: interpolation_laws_def knot_lib_def flat_lib_def knot_index_nth)
  moreover have "rotation_laws knot_lib (rot ` set [flat_camera, flat_camera\<lparr>trans := (3, 0, 4)\<rparr>])"
    by (simp add: rotation_laws_def knot_lib_def flat_lib_def flat_camera_def)
  ultimately show ?thesis
    using trajectory_joins_ends [of "[flat_camera, flat_camera\<lparr>trans := (3, 0, 4)\<rparr>]" 2 knot_lib "[]"]
    by auto
qed

end
