(* ===== verification/BlowScript.thy ===== *)
theory BlowScript
  imports Trajectory SystemApi MoveJoint MoveTask
begin

text \<open>
  The program scripts/blow_from_mesh.py: it moves the robot to its initial pose, takes a picture,
  lets the user pick points of the machine, computes a pose of the tool for each, and after a
  confirmation sends the waypoints of the trajectory through these poses to the robot, using
  DSR_ROBOT2.py. What the outside does in each round of a loop (the clock, the frames, the
  transforms, the user) is a stream or list of inputs. Printing, drawing and the CSV file are
  left out.
\<close>

section \<open>Waiting for inputs\<close>

text \<open>
  \<open>arrived i\<close>: what the callback holds after the spin of round \<open>i\<close>, or its exception; \<open>clock i\<close>:
  the time read after it.
\<close>

partial_function (option) grab_loop ::
  "(nat \<Rightarrow> 'img option res) \<Rightarrow> (nat \<Rightarrow> rat) \<Rightarrow> rat \<Rightarrow> nat \<Rightarrow> 'img res option" where
  "grab_loop arrived clock start i =
     (case arrived i of
        Inl e \<Rightarrow> Some (Inl e)
      | Inr latest \<Rightarrow>
          if 5 < clock i - start then Some (Inl RuntimeError)
          else (case latest of
                  Some img \<Rightarrow> Some (Inr img)
                | None \<Rightarrow> grab_loop arrived clock start (Suc i)))"

definition grab_image :: "(nat \<Rightarrow> 'img option res) \<Rightarrow> (nat \<Rightarrow> rat) \<Rightarrow> rat \<Rightarrow> 'img res option" where
  "grab_image arrived clock start = grab_loop arrived clock start 0"

datatype tf_answer =
    Transform quat vec
  | LookupFailed
  | Extrapolated
  | OtherFailure exc

partial_function (option) warm_up :: "(nat \<Rightarrow> rat) \<Rightarrow> rat \<Rightarrow> nat \<Rightarrow> unit option" where
  "warm_up clock start i =
     (if clock i - start < 1 then warm_up clock start (Suc i) else Some ())"

text \<open>The time is read only after a failed lookup.\<close>

partial_function (option) lookup_loop ::
  "(nat \<Rightarrow> tf_answer) \<Rightarrow> (nat \<Rightarrow> rat) \<Rightarrow> rat \<Rightarrow> nat \<Rightarrow> (quat \<times> vec) res option" where
  "lookup_loop answer clock start i =
     (case answer i of
        Transform q t \<Rightarrow> Some (Inr (q, t))
      | LookupFailed \<Rightarrow>
          if 5 < clock i - start then Some (Inl RuntimeError)
          else lookup_loop answer clock start (Suc i)
      | Extrapolated \<Rightarrow> Some (Inl RuntimeError)
      | OtherFailure e \<Rightarrow> Some (Inl e))"

record tf_input =
  tf_warm_clock :: "nat \<Rightarrow> rat"
  tf_warm_start :: rat
  tf_answer_at :: "nat \<Rightarrow> tf_answer"
  tf_clock :: "nat \<Rightarrow> rat"
  tf_start :: rat

definition get_base_to_link6 :: "pose_lib \<Rightarrow> tf_input \<Rightarrow> (mat \<times> vec) res option" where
  "get_base_to_link6 P I =
     (case warm_up (tf_warm_clock I) (tf_warm_start I) 0 of
        None \<Rightarrow> None
      | Some _ \<Rightarrow>
          map_option (\<lambda>r. rbind r (\<lambda>(q, t). Inr (pl_mat P q, t)))
            (lookup_loop (tf_answer_at I) (tf_clock I) (tf_start I) 0))"

section \<open>Picking a point\<close>

text \<open>A click has coordinates when it is inside the image.\<close>

datatype ui_event = Click "(real \<times> real) option" | Key string | Confirm | CloseWindow

text \<open>\<^const>\<open>None\<close> while the window is open, otherwise the selection at its closing.\<close>

fun picker :: "(real \<times> real) option \<Rightarrow> ui_event list \<Rightarrow> (real \<times> real) option option" where
  "picker sel [] = None"
| "picker sel (Click None # es) = picker sel es"
| "picker sel (Click (Some p) # es) = picker (Some p) es"
| "picker sel (Key k # es) = (if k = ''enter'' \<and> sel \<noteq> None then Some sel else picker sel es)"
| "picker sel (Confirm # es) = (if sel \<noteq> None then Some sel else picker sel es)"
| "picker sel (CloseWindow # es) = Some sel"

definition pick_xy_from_camera :: "ui_event list \<Rightarrow> (real \<times> real) res option" where
  "pick_xy_from_camera es =
     map_option (\<lambda>sel. case sel of None \<Rightarrow> Inl RuntimeError | Some p \<Rightarrow> Inr p) (picker None es)"

text \<open>The picker of mesh_utils.py on a top view: the same callbacks.\<close>

definition pick_xy_from_topview :: "ui_event list \<Rightarrow> (real \<times> real) res option" where
  "pick_xy_from_topview es =
     map_option (\<lambda>sel. case sel of None \<Rightarrow> Inl RuntimeError | Some p \<Rightarrow> Inr p) (picker None es)"

section \<open>Motions\<close>

text \<open>A statement whose value is not used, and the next.\<close>

definition then_do :: "'a act \<Rightarrow> 'b act \<Rightarrow> 'b act" where
  "then_do m n = abind m (\<lambda>_. n)"

definition init_joints :: "int list list" where
  "init_joints = [
     [90, 0, -90, 0, 0, 0],
     [-70, 0, -90, 0, 0, 0],
     [-70, -30, -60, 0, 0, 0],
     [-75, -30, -60, 0, -90, 0]]"

definition script_movej :: "ros \<Rightarrow> int list \<Rightarrow> pyval \<Rightarrow> pyval \<Rightarrow> pyval act" where
  "script_movej R q vel acc =
     abind (lift_res (posj_init (PInt (q ! 0)) (PInt (q ! 1)) (PInt (q ! 2)) (PInt (q ! 3))
                        (PInt (q ! 4)) (PInt (q ! 5)))) (\<lambda>p.
     movej R p vel acc PNone PNone (PInt 0) (PInt 0) PNone PNone PNone PNone)"

fun move_through :: "ros \<Rightarrow> int list list \<Rightarrow> unit act" where
  "move_through R [] = lift_res (Inr ())"
| "move_through R (q # qs) = then_do (script_movej R q (PInt 60) (PInt 60)) (move_through R qs)"

definition move_to_init :: "ros \<Rightarrow> unit act" where
  "move_to_init R = move_through R init_joints"

text \<open>\<open>dbl\<close> is the double of a number; the pose a waypoint is commanded as.\<close>

definition doosan_pose :: "pose_lib \<Rightarrow> (real \<Rightarrow> pyfloat) \<Rightarrow> se3 \<Rightarrow> se3 \<Rightarrow> pyfloat list" where
  "doosan_pose P dbl T_w_b T = map dbl (se3_to_doosan_posx P (mesh_pose_to_base P T T_w_b))"

definition script_movel :: "ros \<Rightarrow> pyfloat list \<Rightarrow> pyval \<Rightarrow> pyval \<Rightarrow> pyval act" where
  "script_movel R p vel acc =
     abind (lift_res (posx_init (PFloat (p ! 0)) (PFloat (p ! 1)) (PFloat (p ! 2)) (PFloat (p ! 3))
                        (PFloat (p ! 4)) (PFloat (p ! 5)))) (\<lambda>pos.
     movel R pos vel acc PNone PNone PNone (PInt 0) (PInt 0) PNone PNone PNone PNone)"

text \<open>\<^verbatim>\<open>f'{v:.1f}'\<close>\<close>

definition format_1f :: "pyval \<Rightarrow> unit res" where
  "format_1f v =
     (if py_type v \<in> {TBool, TInt, TFloat, TNpFloat} then Inr ()
      else if py_type v = TStr then Inl ValueError else Inl TypeError)"

text \<open>\<^verbatim>\<open>actual, _ = get_current_posx()\<close> and the two lines that print \<^verbatim>\<open>actual\<close>.\<close>

definition verify_pose :: "pyval \<Rightarrow> unit res" where
  "verify_pose answer =
     rbind (py_items answer) (\<lambda>xs.
     if length xs \<noteq> 2 then Inl ValueError
     else rbind (py_items (xs ! 0)) (\<lambda>actual.
       rbind (for_each format_1f actual) (\<lambda>_.
       if length actual < 6 then Inl IndexError else Inr ())))"

fun execute_loop ::
  "ros \<Rightarrow> pose_lib \<Rightarrow> (real \<Rightarrow> pyfloat) \<Rightarrow> se3 \<Rightarrow> pyval \<Rightarrow> pyval \<Rightarrow> se3 list \<Rightarrow> unit act" where
  "execute_loop R P dbl T_w_b vel acc [] = lift_res (Inr ())"
| "execute_loop R P dbl T_w_b vel acc (T # Ts) =
     then_do (script_movel R (doosan_pose P dbl T_w_b T) vel acc)
       (abind (get_current_posx R PNone) (\<lambda>answer.
        abind (lift_res (verify_pose answer)) (\<lambda>_.
        execute_loop R P dbl T_w_b vel acc Ts)))"

definition robot_reach :: real where "robot_reach = 9 / 10"

definition reachable_from :: "pose_lib \<Rightarrow> se3 \<Rightarrow> se3 \<Rightarrow> bool" where
  "reachable_from P T_w_b T = check_reachable (mesh_pose_to_base P T T_w_b) robot_reach"

definition execute_trajectory ::
  "ros \<Rightarrow> pose_lib \<Rightarrow> (real \<Rightarrow> pyfloat) \<Rightarrow> se3 list \<Rightarrow> se3 \<Rightarrow> pyval \<Rightarrow> pyval \<Rightarrow> nat \<Rightarrow> unit act" where
  "execute_trajectory R P dbl trajectory T_w_b vel acc skip =
     abind (lift_res (waypoints_of skip trajectory)) (\<lambda>waypoints.
     abind (lift_res (if list_all (reachable_from P T_w_b) waypoints then Inr ()
                      else Inl RuntimeError)) (\<lambda>_.
     execute_loop R P dbl T_w_b vel acc waypoints))"

section \<open>Key poses\<close>

definition keyframe ::
  "pose_lib \<Rightarrow> cluster_lib \<Rightarrow> mesh \<Rightarrow> se3 \<Rightarrow> real \<times> real \<Rightarrow> se3 res" where
  "keyframe P L M T_w_cm pixel =
     (let (pu, pv) = pixel
      in rbind (get_depth_from_mesh P pu pv T_w_cm M) (\<lambda>z_cam.
         let query_world = pixel_to_world pu pv z_cam T_w_cm;
             (mesh_x, mesh_y) = world_to_mesh query_world;
             mesh_z = vz query_world * MESH_DIMENSION
         in rbind (query_mesh_normals L M mesh_x mesh_y 10 5 5000000 (Some mesh_z)) (\<lambda>normals.
            rbind (compute_se3_pose normals (2 / 10 * MESH_DIMENSION)) (\<lambda>pose.
            Inr ((tp_T pose)\<lparr>trans := vdiv (trans (tp_T pose)) MESH_DIMENSION\<rparr>)))))"

text \<open>\<^verbatim>\<open>input(...).strip().lower() == "y"\<close>\<close>

definition says_yes :: "string \<Rightarrow> bool" where
  "says_yes s = (map to_lower (rev (dropWhile is_space (rev (dropWhile is_space s)))) = ''y'')"

text \<open>
  One round: the events of the picker's window, and the answer to the question for another point.
  \<^const>\<open>None\<close> while the user has not come to an end.
\<close>

fun collect_keyframes ::
  "pose_lib \<Rightarrow> cluster_lib \<Rightarrow> mesh \<Rightarrow> se3 \<Rightarrow> (ui_event list \<times> string) list \<Rightarrow> se3 list res option" where
  "collect_keyframes P L M T_w_cm [] = None"
| "collect_keyframes P L M T_w_cm ((es, ans) # rounds) =
     (case pick_xy_from_camera es of
        None \<Rightarrow> None
      | Some (Inl e) \<Rightarrow> Some (Inl e)
      | Some (Inr pixel) \<Rightarrow>
     (case keyframe P L M T_w_cm pixel of
        Inl e \<Rightarrow> Some (Inl e)
      | Inr T \<Rightarrow>
          if says_yes ans
          then map_option (\<lambda>r. rbind r (\<lambda>Ts. Inr (T # Ts))) (collect_keyframes P L M T_w_cm rounds)
          else Some (Inr [T])))"

section \<open>The program\<close>

text \<open>
  \<open>sc_w_b\<close> and \<open>sc_6_cm\<close>: the matrices scipy computes from the Euler angles of the two fixed
  rotations.
\<close>

record 'img script =
  sc_mesh :: mesh
  sc_w_b :: mat
  sc_6_cm :: mat
  sc_arrived :: "nat \<Rightarrow> 'img option res"
  sc_img_clock :: "nat \<Rightarrow> rat"
  sc_img_start :: rat
  sc_tf :: tf_input
  sc_rounds :: "(ui_event list \<times> string) list"
  sc_confirm :: string

definition ROBOT_MODE_AUTONOMOUS :: int where "ROBOT_MODE_AUTONOMOUS = 1"

definition T_w_b :: "'img script \<Rightarrow> se3" where
  "T_w_b S = make_SE3 (sc_w_b S) (- (61 / 100), 365 / 1000, 91 / 100)"

definition T_w_cm :: "'img script \<Rightarrow> mat \<times> vec \<Rightarrow> se3" where
  "T_w_cm S base_6 =
     se3_mul (se3_mul (T_w_b S) (make_SE3 (fst base_6) (snd base_6)))
       (make_SE3 (sc_6_cm S) (5 / 100, 0, 1 / 100))"

text \<open>An input that may not come, as an action that leaves the robot alone.\<close>

definition await_input :: "'a res option \<Rightarrow> 'a act" where
  "await_input i w = (case i of None \<Rightarrow> None | Some r \<Rightarrow> lift_res r w)"

definition plan :: "pose_lib \<Rightarrow> se3 list \<Rightarrow> se3 list res" where
  "plan P keyframes =
     (let ks = consistent_rotations P keyframes
      in if 2 \<le> length ks then generate_smooth_trajectory P ks 50 else Inr ks)"

definition blow_main ::
  "ros \<Rightarrow> pose_lib \<Rightarrow> cluster_lib \<Rightarrow> (real \<Rightarrow> pyfloat) \<Rightarrow> 'img script \<Rightarrow> unit act" where
  "blow_main R P L dbl S =
     then_do (set_robot_mode R (PInt ROBOT_MODE_AUTONOMOUS))
    (then_do (move_to_init R)
    (then_do (await_input (grab_image (sc_arrived S) (sc_img_clock S) (sc_img_start S)))
    (abind (await_input (get_base_to_link6 P (sc_tf S))) (\<lambda>base_6.
     abind (await_input (collect_keyframes P L (sc_mesh S) (T_w_cm S base_6) (sc_rounds S))) (\<lambda>keyframes.
     abind (lift_res (plan P keyframes)) (\<lambda>trajectory.
     then_do (if says_yes (sc_confirm S)
              then execute_trajectory R P dbl trajectory (T_w_b S) (PInt 50) (PInt 50) 5
              else lift_res (Inr ()))
       (update_world (log Shutdown))))))))"

end
