(* ===== verification/Waypoint.thy ===== *)
theory Waypoint
  imports BlowScript
begin

text \<open>
  The smaller scripts: plan_points.py moves the robot through the planner to a goal the user sets
  in the display, load_traj_exec.py replays the poses that blow_from_mesh.py saved, and
  tool_control.py switches the air gun. The action server of the planner, the transforms, the
  file and the user are inputs; printing and logging are left out.
\<close>

section \<open>plan_points.py\<close>

text \<open>The rounds of the loop: the time read before each, and the lookup in it.\<close>

partial_function (option) pose_loop ::
  "(nat \<Rightarrow> rat) \<Rightarrow> (nat \<Rightarrow> 'p res) \<Rightarrow> rat \<Rightarrow> nat \<Rightarrow> 'p res option" where
  "pose_loop clock lookup deadline i =
     (if clock i < deadline
      then (case lookup i of
              Inr pose \<Rightarrow> Some (Inr pose)
            | Inl e \<Rightarrow> pose_loop clock lookup deadline (Suc i))
      else Some (Inl RuntimeError))"

definition current_pose_of ::
  "(nat \<Rightarrow> rat) \<Rightarrow> (nat \<Rightarrow> 'p res) \<Rightarrow> rat \<Rightarrow> 'p res option" where
  "current_pose_of clock lookup now = pose_loop clock lookup (now + 5) 0"

text \<open>A marker of the display that was moved: the node keeps the pose of the goal's.\<close>

definition goal_callback :: "'p option \<Rightarrow> string \<times> 'p \<Rightarrow> 'p option" where
  "goal_callback goal_pose msg = (if substring ''goal'' (fst msg) then Some (snd msg) else goal_pose)"

text \<open>
  A round of the wait: whether Enter was seen before it, and the message its spin handles. The
  value is \<^const>\<open>None\<close> while the user has not pressed Enter.
\<close>

type_synonym 'p wait_round = "bool \<times> (string \<times> 'p) option"

fun goal_loop :: "'p option \<Rightarrow> 'p wait_round list \<Rightarrow> 'p option option" where
  "goal_loop goal_pose [] = None"
| "goal_loop goal_pose ((entered, m) # rounds) =
     (if entered then Some goal_pose
      else goal_loop (case m of None \<Rightarrow> goal_pose | Some msg \<Rightarrow> goal_callback goal_pose msg) rounds)"

definition wait_for_goal_pose :: "'p wait_round list \<Rightarrow> 'p res option" where
  "wait_for_goal_pose rounds =
     map_option (\<lambda>goal. case goal of None \<Rightarrow> Inl RuntimeError | Some p \<Rightarrow> Inr p)
       (goal_loop None rounds)"

text \<open>The fields of the goal: the planner's options and the two constraints on the last link.\<close>

record 'p move_group_goal =
  mg_group :: string
  mg_attempts :: nat
  mg_planning_time :: rat
  mg_velocity_scale :: rat
  mg_acceleration_scale :: rat
  mg_frame :: string
  mg_link :: string
  mg_sphere_radius :: rat
  mg_sphere_pose :: 'p
  mg_orientation_pose :: 'p
  mg_axis_tolerance :: rat

definition goal_for :: "'p \<Rightarrow> 'p move_group_goal" where
  "goal_for pose =
     \<lparr>mg_group = ''manipulator'', mg_attempts = 10, mg_planning_time = 10,
      mg_velocity_scale = 1 / 10, mg_acceleration_scale = 1 / 10, mg_frame = ''world'',
      mg_link = ''link_6'', mg_sphere_radius = 1 / 100, mg_sphere_pose = pose,
      mg_orientation_pose = pose, mg_axis_tolerance = 1 / 10\<rparr>"

text \<open>
  \<open>sent\<close>: what the future of the goal holds after 15 seconds, \<^const>\<open>None\<close> or whether the goal was
  accepted, or its exception; \<open>outcome\<close>: the code of the result, if it came within 60 seconds.
\<close>

datatype move_report = Rejected | NoResultYet | Succeeded | FailedWith int

definition move_to_pose :: "bool option res \<Rightarrow> int res option \<Rightarrow> move_report res" where
  "move_to_pose sent outcome =
     rbind sent (\<lambda>handle.
     if handle \<noteq> Some True then Inr Rejected
     else (case outcome of
             None \<Rightarrow> Inr NoResultYet
           | Some r \<Rightarrow> rbind r (\<lambda>code. Inr (if code = 1 then Succeeded else FailedWith code))))"

text \<open>
  The goals that are sent and how the program ends; the waits for the action server and for the
  user may not return.
\<close>

record 'p runner =
  wr_clock :: "nat \<Rightarrow> rat"
  wr_lookup :: "nat \<Rightarrow> 'p res"
  wr_now :: rat
  wr_rounds :: "'p wait_round list"
  wr_server_ready :: bool
  wr_sent :: "'p move_group_goal \<Rightarrow> bool option res"
  wr_outcome :: "'p move_group_goal \<Rightarrow> int res option"

definition waypoint_main :: "'p runner \<Rightarrow> ('p move_group_goal list \<times> move_report res) option" where
  "waypoint_main I =
     (case current_pose_of (wr_clock I) (wr_lookup I) (wr_now I) of
        None \<Rightarrow> None
      | Some (Inl e) \<Rightarrow> Some ([], Inl e)
      | Some (Inr current) \<Rightarrow>
     (case wait_for_goal_pose (wr_rounds I) of
        None \<Rightarrow> None
      | Some (Inl e) \<Rightarrow> Some ([], Inl e)
      | Some (Inr goal) \<Rightarrow>
          if wr_server_ready I
          then Some ([goal_for goal],
                     move_to_pose (wr_sent I (goal_for goal)) (wr_outcome I (goal_for goal)))
          else None))"

section \<open>load_traj_exec.py\<close>

text \<open>One row of the file, as the list \<^verbatim>\<open>tolist()\<close> gives; there is no check of the poses.\<close>

fun replay :: "ros \<Rightarrow> pyval list list \<Rightarrow> unit act" where
  "replay R [] = lift_res (Inr ())"
| "replay R (pose # poses) =
     then_do (abind (lift_res (posx (PList pose))) (\<lambda>p.
              movel R p (PInt 30) (PInt 30) PNone PNone PNone (PInt 0) (PInt 0) PNone PNone PNone PNone))
       (replay R poses)"

definition read_from_csv_and_exec :: "ros \<Rightarrow> pyval list list res \<Rightarrow> unit act" where
  "read_from_csv_and_exec R pose_np = abind (lift_res pose_np) (replay R)"

definition load_main :: "ros \<Rightarrow> pyval list list res \<Rightarrow> unit act" where
  "load_main R pose_np =
     then_do (set_robot_mode R (PInt ROBOT_MODE_AUTONOMOUS))
    (then_do (move_to_init R)
    (then_do (read_from_csv_and_exec R pose_np)
       (update_world (log Shutdown))))"

section \<open>tool_control.py\<close>

definition tool_service :: string where
  "tool_service = ''io/set_tool_digital_output''"

definition tool_init :: "ros \<Rightarrow> unit act" where
  "tool_init R = await_service R True tool_service"

text \<open>
  The result of the call is only logged; the state is put in the request as it is. \<open>failure\<close> is the
  exception a future holds, which is not caught here.
\<close>

definition tool_airgun :: "ros \<Rightarrow> exc \<Rightarrow> pyval \<Rightarrow> unit act" where
  "tool_airgun R failure state =
     abind (lift_res (set_fields R tool_service [(''index'', Inr (PInt 6)), (''value'', Inr state)])) (\<lambda>fs w.
     let w' = log (Called tool_service fs) w
     in (case reply_of R (trace w) tool_service fs of
           Hangs \<Rightarrow> None
         | CallRaises e \<Rightarrow> Some (Inl e, w')
         | FutureRaises \<Rightarrow> Some (Inl failure, w')
         | _ \<Rightarrow> Some (Inr (), w')))"

end
