(* ===== verification/Demos.thy ===== *)
theory Demos
  imports Waypoint MotionSession
begin

text \<open>
  The example programs: scripts/demo.py and scripts/demo2.py, and of dsr_example2 the programs
  single_robot_simple.py, dance_m1013.py and slope_demo.py. Each sets the robot's mode or the
  speeds and then moves the robot through DSR_ROBOT2.py. Printing and \<^verbatim>\<open>time.sleep\<close> are left out.
  The answers of \<^verbatim>\<open>rclpy.ok()\<close>, asked before each round of a loop, are a stream.
\<close>

section \<open>Numbers\<close>

text \<open>The sum of two doubles.\<close>

definition float_add :: "pyfloat \<Rightarrow> pyfloat \<Rightarrow> pyfloat" where
  "float_add x y =
     (let q = finite_val x + finite_val y
      in if x = NaN \<or> y = NaN then NaN
         else if is_infinite x then (if is_infinite y \<and> x \<noteq> y then NaN else x)
         else if is_infinite y then y
         else if x = NegZero \<and> y = NegZero then NegZero
         else float_of_rat q)"

text \<open>The operand of an arithmetic operation with a number.\<close>

definition operand :: "pyval \<Rightarrow> pyfloat res" where
  "operand v = (case v of
       PInt n \<Rightarrow> float_of_int n
     | PBool b \<Rightarrow> Inr (Fin (if b then 1 else 0))
     | PFloat f \<Rightarrow> Inr f
     | PNpFloat f \<Rightarrow> Inr f
     | _ \<Rightarrow> Inl TypeError)"

text \<open>\<^verbatim>\<open>v + f\<close> and \<^verbatim>\<open>v + n\<close> for a float \<open>f\<close> and an integer \<open>n\<close>; a difference adds the negated number.\<close>

definition plus_float :: "pyval \<Rightarrow> pyfloat \<Rightarrow> pyval res" where
  "plus_float v f =
     rbind (operand v) (\<lambda>x.
     Inr ((if py_type v = TNpFloat then PNpFloat else PFloat) (float_add x f)))"

definition plus_int :: "pyval \<Rightarrow> int \<Rightarrow> pyval res" where
  "plus_int v n =
     (case v of
        PInt m \<Rightarrow> Inr (PInt (m + n))
      | PBool b \<Rightarrow> Inr (PInt ((if b then 1 else 0) + n))
      | _ \<Rightarrow> rbind (operand v) (\<lambda>x.
             rbind (float_of_int n) (\<lambda>y.
             Inr ((if py_type v = TNpFloat then PNpFloat else PFloat) (float_add x y)))))"

text \<open>The first three numbers of \<^verbatim>\<open>posx(x, y, z, rx, ry, rz)\<close>, and the other three.\<close>

definition posx_from :: "pyval \<Rightarrow> pyval \<Rightarrow> pyval \<Rightarrow> pyval list \<Rightarrow> pyval res" where
  "posx_from x y z r = posx_init x y z (r ! 0) (r ! 1) (r ! 2)"

section \<open>Calls\<close>

definition call_movel :: "ros \<Rightarrow> pyval \<Rightarrow> pyval \<Rightarrow> pyval \<Rightarrow> pyval act" where
  "call_movel R p vel acc =
     movel R p vel acc PNone PNone PNone (PInt 0) (PInt 0) PNone PNone PNone PNone"

definition call_movej :: "ros \<Rightarrow> pyval \<Rightarrow> pyval \<Rightarrow> pyval \<Rightarrow> pyval act" where
  "call_movej R q vel acc =
     movej R q vel acc PNone PNone (PInt 0) (PInt 0) PNone PNone PNone PNone"

fun run_calls :: "ros \<Rightarrow> api_call list \<Rightarrow> unit act" where
  "run_calls R [] = lift_res (Inr ())"
| "run_calls R (c # cs) = then_do (run_api R c) (run_calls R cs)"

text \<open>\<^verbatim>\<open>while rclpy.ok(): ...\<close>\<close>

partial_function (option) while_ok :: "(nat \<Rightarrow> bool) \<Rightarrow> unit act \<Rightarrow> nat \<Rightarrow> unit act" where
  "while_ok ok body i w =
     (if ok i then (case body w of
                      None \<Rightarrow> None
                    | Some (r, w') \<Rightarrow>
                        (case r of Inl e \<Rightarrow> Some (Inl e, w') | Inr _ \<Rightarrow> while_ok ok body (Suc i) w'))
      else Some (Inr (), w))"

text \<open>\<^verbatim>\<open>get_current_posx()[0]\<close>\<close>

definition current_position :: "ros \<Rightarrow> pyval act" where
  "current_position R = abind (get_current_posx R PNone) (\<lambda>answer. lift_res (py_index answer 0))"

definition items_of :: "pyval \<Rightarrow> nat list \<Rightarrow> pyval list res" where
  "items_of v is = map_res (py_index v) is"

section \<open>demo.py\<close>

text \<open>The two targets: 20 mm below the position, and 10 mm beside it without a rotation.\<close>

definition demo_below :: "pyval \<Rightarrow> pyval res" where
  "demo_below cur_x =
     rbind (items_of cur_x [0, 1, 2]) (\<lambda>p.
     rbind (plus_int (p ! 2) (- 20)) (\<lambda>z.
     rbind (items_of cur_x [3, 4, 5]) (\<lambda>r.
     posx_from (p ! 0) (p ! 1) z r)))"

definition demo_beside :: "pyval \<Rightarrow> pyval res" where
  "demo_beside cur_x =
     rbind (items_of cur_x [0, 1]) (\<lambda>p.
     rbind (plus_int (p ! 1) 10) (\<lambda>y.
     rbind (py_index cur_x 2) (\<lambda>z.
     posx_from (p ! 0) y z [PInt 0, PInt 0, PInt 0])))"

definition demo_main :: "ros \<Rightarrow> unit act" where
  "demo_main R =
     then_do (set_robot_mode R (PInt ROBOT_MODE_AUTONOMOUS))
    (then_do (script_movej R [0, 0, 0, 0, 0, 0] (PInt 100) (PInt 100))
    (abind (current_position R) (\<lambda>cur_x.
     abind (lift_res (demo_below cur_x)) (\<lambda>target_x.
     then_do (call_movel R target_x (PInt 30) (PInt 60))
    (abind (current_position R) (\<lambda>cur_x.
     abind (lift_res (demo_beside cur_x)) (\<lambda>target_x.
     then_do (call_movel R target_x (PInt 30) (PInt 60))
       (update_world (log Shutdown)))))))))"

section \<open>demo2.py\<close>

definition box_width :: rat where "box_width = 250"
definition box_height :: rat where "box_height = 170"
definition line_spacing :: rat where "line_spacing = 10"

text \<open>The two ends of line \<open>i\<close>, in the order they are visited.\<close>

definition zigzag_line :: "pyval \<Rightarrow> pyval \<Rightarrow> pyval \<Rightarrow> pyval list \<Rightarrow> nat \<Rightarrow> pyval list res" where
  "zigzag_line start_x start_y start_z r i =
     (let y_offset = float_mul (Fin (of_nat i)) (Fin line_spacing);
          left = rbind (plus_float start_y y_offset) (\<lambda>y. posx_from start_x y start_z r);
          right = rbind (plus_float start_x (Fin box_width)) (\<lambda>x.
                  rbind (plus_float start_y y_offset) (\<lambda>y. posx_from x y start_z r))
      in if even i then rbind left (\<lambda>p. rbind right (\<lambda>q. Inr [p, q]))
         else rbind right (\<lambda>p. rbind left (\<lambda>q. Inr [p, q])))"

definition zigzag_path :: "pyval \<Rightarrow> pyval list res" where
  "zigzag_path center =
     rbind (items_of center [3, 4, 5]) (\<lambda>r.
     rbind (rbind (py_index center 0) (\<lambda>x. plus_float x (Fin (- (box_width / 2))))) (\<lambda>start_x.
     rbind (rbind (py_index center 1) (\<lambda>y. plus_float y (Fin (- (box_height / 2))))) (\<lambda>start_y.
     rbind (py_index center 2) (\<lambda>start_z.
     rbind (int_of_float (float_of_rat (box_height / line_spacing))) (\<lambda>k.
     rbind (map_res (zigzag_line start_x start_y start_z r) [0..<nat (k + 1)]) (\<lambda>ends.
     Inr (concat ends)))))))"

fun follow_path :: "ros \<Rightarrow> pyval list \<Rightarrow> unit act" where
  "follow_path R [] = lift_res (Inr ())"
| "follow_path R (p # ps) = then_do (call_movel R p (PInt 30) (PInt 30)) (follow_path R ps)"

definition return_to :: "ros \<Rightarrow> pyval \<Rightarrow> pyval act" where
  "return_to R center =
     abind (lift_res (rbind (items_of center [0, 1, 2]) (\<lambda>p.
                      rbind (items_of center [3, 4, 5]) (\<lambda>r.
                      posx_from (p ! 0) (p ! 1) (p ! 2) r)))) (\<lambda>center_pos.
     call_movel R center_pos (PInt 30) (PInt 30))"

definition cover_area :: "ros \<Rightarrow> exc \<Rightarrow> pyval \<Rightarrow> unit act" where
  "cover_area R failure center =
     abind (lift_res (zigzag_path center)) (\<lambda>path.
     then_do (tool_airgun R failure (PBool True))
    (then_do (follow_path R path)
    (then_do (tool_airgun R failure (PBool False))
    (then_do (return_to R center)
       (update_world (log Shutdown))))))"

definition coverage_main :: "ros \<Rightarrow> exc \<Rightarrow> unit act" where
  "coverage_main R failure =
     then_do (set_robot_mode R (PInt ROBOT_MODE_AUTONOMOUS))
    (then_do (tool_init R)
    (then_do (tool_airgun R failure (PBool True))
    (then_do (script_movej R [90, 0, -90, 0, 0, 0] (PInt 30) (PInt 30))
    (then_do (tool_airgun R failure (PBool False))
    (then_do (script_movej R [-70, 0, -90, 0, 0, 0] (PInt 30) (PInt 30))
    (then_do (script_movej R [-70, -30, -60, 0, 0, 0] (PInt 30) (PInt 30))
    (then_do (script_movej R [-70, -30, -60, 0, -70, 0] (PInt 30) (PInt 30))
    (abind (current_position R) (cover_area R failure)))))))))"

section \<open>Positions written in the programs\<close>

text \<open>A literal with a decimal point.\<close>

abbreviation dec :: "rat \<Rightarrow> pyval" where
  "dec q \<equiv> PFloat (float_of_rat q)"

definition posj_of :: "pyval list \<Rightarrow> pyval res" where
  "posj_of q = posj_init (q ! 0) (q ! 1) (q ! 2) (q ! 3) (q ! 4) (q ! 5)"

definition posx_of_items :: "pyval list \<Rightarrow> pyval res" where
  "posx_of_items p = posx_from (p ! 0) (p ! 1) (p ! 2) (drop 3 p)"

section \<open>single_robot_simple.py\<close>

definition single_joints :: "pyval list list" where
  "single_joints = [
     [PInt 0, PInt 0, PInt 0, PInt 0, PInt 0, PInt 0],
     [dec 0, dec 0, dec 90, dec 0, dec 90, dec 0]]"

definition single_poses :: "pyval list list" where
  "single_poses = [
     [PInt 400, PInt 500, dec 800, dec 0, dec 180, dec 0],
     [PInt 400, PInt 500, dec 500, dec 0, dec 180, dec 0],
     [PInt 559, dec (869 / 2), dec (1303 / 2), PInt 0, PInt 180, PInt 0],
     [PInt 559, dec (869 / 2), dec (503 / 2), PInt 0, PInt 180, PInt 0]]"

definition single_qlist :: "pyval list list" where
  "single_qlist = [
     [PInt 0, PInt 0, PInt 0, PInt 0, PInt 0, PInt 0],
     [PInt 10, PInt (- 10), PInt 20, PInt (- 30), PInt 10, PInt 20],
     [PInt 25, PInt 0, PInt 10, PInt (- 50), PInt 20, PInt 40],
     [PInt 50, PInt 50, PInt 50, PInt 50, PInt 50, PInt 50],
     [PInt 30, PInt 10, PInt 30, PInt (- 20), PInt 10, PInt 60],
     [PInt 20, PInt 20, PInt 40, PInt 20, PInt 0, PInt 90]]"

definition single_xlist :: "pyval list list" where
  "single_xlist = [
     [PInt 150, PInt 150, PInt 150, PInt 0, PInt 175, PInt 0],
     [PInt 600, PInt 750, PInt 600, PInt 0, PInt 175, PInt 0],
     [PInt 150, PInt 600, PInt 450, PInt 0, PInt 175, PInt 0],
     [PInt (- 300), PInt 300, PInt 300, PInt 0, PInt 175, PInt 0],
     [PInt (- 200), PInt 700, PInt 500, PInt 0, PInt 175, PInt 0],
     [PInt 600, PInt 600, PInt 400, PInt 0, PInt 175, PInt 0]]"

text \<open>\<^verbatim>\<open>X1\<close>, \<^verbatim>\<open>X1a\<close>, \<^verbatim>\<open>X1a2\<close>, \<^verbatim>\<open>X1b\<close>, \<^verbatim>\<open>X1b2\<close>, \<^verbatim>\<open>X1c\<close>, \<^verbatim>\<open>X1c2\<close>, \<^verbatim>\<open>X1d\<close>, \<^verbatim>\<open>X1d2\<close>\<close>

definition single_blend_points :: "pyval list list" where
  "single_blend_points = [
     [PInt 370, PInt 670, PInt 650, PInt 0, PInt 180, PInt 0],
     [PInt 370, PInt 670, PInt 400, PInt 0, PInt 180, PInt 0],
     [PInt 370, PInt 545, PInt 400, PInt 0, PInt 180, PInt 0],
     [PInt 370, PInt 595, PInt 400, PInt 0, PInt 180, PInt 0],
     [PInt 370, PInt 670, PInt 400, PInt 0, PInt 180, PInt 0],
     [PInt 370, PInt 420, PInt 150, PInt 0, PInt 180, PInt 0],
     [PInt 370, PInt 545, PInt 150, PInt 0, PInt 180, PInt 0],
     [PInt 370, PInt 670, PInt 275, PInt 0, PInt 180, PInt 0],
     [PInt 370, PInt 795, PInt 150, PInt 0, PInt 180, PInt 0]]"

definition single_segments :: "pyval list \<Rightarrow> pyval list res" where
  "single_segments X =
     map_res (\<lambda>(kind, p, q, radius). posb_init (PInt kind) p q (PInt radius))
       [(DR_LINE, X ! 0, PNone, 20), (DR_CIRCLE, X ! 1, X ! 2, 21), (DR_LINE, X ! 4, PNone, 20),
        (DR_CIRCLE, X ! 5, X ! 6, 22), (DR_CIRCLE, X ! 7, X ! 8, 23)]"

text \<open>The positions are made in this order; \<^verbatim>\<open>p2\<close> and the second \<^verbatim>\<open>x1\<close> are used.\<close>

definition single_positions :: "(pyval \<times> pyval) res" where
  "single_positions =
     rbind (map_res posj_of single_joints) (\<lambda>ps.
     rbind (map_res posx_of_items single_poses) (\<lambda>_.
     rbind (map_res posj_of single_qlist) (\<lambda>_.
     rbind (map_res posx_of_items single_xlist) (\<lambda>xs.
     rbind (map_res posx_of_items single_blend_points) (\<lambda>X.
     rbind (single_segments X) (\<lambda>_.
     Inr (ps ! 1, xs ! 0)))))))"

definition single_round :: "ros \<Rightarrow> pyval \<times> pyval \<Rightarrow> unit act" where
  "single_round R p =
     then_do (call_movej R (fst p) (PInt 100) (PInt 100))
    (then_do (call_movel R (snd p) (PList [PInt 50, PInt 50]) (PList [PInt 100, PInt 100]))
       (lift_res (Inr ())))"

definition single_main :: "ros \<Rightarrow> (nat \<Rightarrow> bool) \<Rightarrow> unit act" where
  "single_main R ok =
     then_do (set_robot_mode R (PInt ROBOT_MODE_AUTONOMOUS))
    (then_do (set_velx (PInt 30) (PInt 20))
    (then_do (set_accx (PInt 60) (PInt 40))
    (abind (lift_res single_positions) (\<lambda>p.
     then_do (while_ok ok (single_round R p) 0)
       (update_world (log Shutdown))))))"

section \<open>slope_demo.py\<close>

definition gripper_topic :: string where
  "gripper_topic = ''/dsr01/mj/left_knuckle_position_controller/commands''"

definition move_gripper :: "ros \<Rightarrow> pyval \<Rightarrow> unit act" where
  "move_gripper R command =
     abind (lift_res (set_fields R gripper_topic [(''data'', Inr (PList [command]))]))
       (publish R gripper_topic)"

abbreviation gripper_open :: pyval where "gripper_open \<equiv> dec (- (1 / 10))"
abbreviation gripper_closed :: pyval where "gripper_closed \<equiv> dec (4 / 5)"

text \<open>\<^verbatim>\<open>p1\<close>, \<^verbatim>\<open>p2\<close>; \<^verbatim>\<open>x1\<close> and the positions of \<^verbatim>\<open>xlist\<close>\<close>

definition slope_joints :: "pyval list list" where
  "slope_joints = [
     [PInt 0, PInt 0, PInt 0, PInt 0, PInt 0, PInt 0],
     [dec 0, dec 0, dec 90, dec 0, dec 90, dec 0]]"

definition slope_poses :: "pyval list list" where
  "slope_poses = [
     [PInt 503, PInt (- 353), dec 190, dec 0, dec 180, dec 0],
     [PInt 503, PInt (- 353), dec 290, dec 0, dec 180, dec 0],
     [PInt 503, PInt 210, dec 400, dec 0, dec 180, dec 0],
     [PInt 503, PInt 550, PInt 420, PInt 0, PInt 180, PInt 0]]"

definition slope_round :: "ros \<Rightarrow> pyval list \<Rightarrow> pyval list \<Rightarrow> unit act" where
  "slope_round R ps xs =
     then_do (call_movel R (xs ! 1) PNone PNone)
    (then_do (call_movel R (xs ! 0) PNone PNone)
    (then_do (move_gripper R gripper_closed)
    (then_do (movesx R (PList (tl xs)) (PInt 500) (PInt 200) PNone PNone (PInt DR_MV_MOD_ABS)
                (PInt 0) PNone PNone PNone)
    (then_do (move_gripper R gripper_open)
    (then_do (call_movej R (ps ! 1) (PInt 80) (PInt 50))
       (lift_res (Inr ())))))))"

definition slope_main :: "ros \<Rightarrow> (nat \<Rightarrow> bool) \<Rightarrow> unit act" where
  "slope_main R ok =
     then_do (set_robot_mode R (PInt ROBOT_MODE_AUTONOMOUS))
    (then_do (set_velx (PInt 300) (PInt 80))
    (then_do (set_accx (PInt 100) (PInt 40))
    (abind (lift_res (map_res posj_of slope_joints)) (\<lambda>ps.
     abind (lift_res (map_res posx_of_items slope_poses)) (\<lambda>xs.
     then_do (call_movej R (ps ! 0) (PInt 100) (PInt 30))
    (then_do (call_movej R (ps ! 1) (PInt 100) (PInt 30))
    (then_do (move_gripper R gripper_open)
    (then_do (while_ok ok (slope_round R ps xs) 0)
       (update_world (log Shutdown))))))))))"

section \<open>dance_m1013.py\<close>

abbreviation dance_movej :: "pyval \<Rightarrow> pyval \<Rightarrow> pyval \<Rightarrow> pyval \<Rightarrow> pyval \<Rightarrow> api_call" where
  "dance_movej q radius v a t \<equiv>
     CMovej False q PNone PNone PNone radius (PInt DR_MV_MOD_ABS) (PInt DR_MV_RA_DUPLICATE)
       v a t PNone"

definition dance_JReady :: pyval where
  "dance_JReady = PList [PInt 0, PInt (- 20), PInt 110, PInt 0, PInt 60, PInt 0]"

definition dance_TCP_POS :: pyval where
  "dance_TCP_POS = PList [PInt 0, PInt 0, PInt 0, PInt 0, PInt 0, PInt 0]"

definition dance_J00 :: pyval where
  "dance_J00 = PList [PInt (- 180), PInt 0, PInt (- 145), PInt 0, PInt (- 35), PInt 0]"

definition dance_J01r :: pyval where
  "dance_J01r = PList [dec (- 180), dec (357 / 5), dec (- 145), dec 0, dec (- (97 / 10)), dec
       0]"

definition dance_J02r :: pyval where
  "dance_J02r = PList [dec (- 180), dec (677 / 10), dec (- 144), dec 0, dec (763 / 10), dec
       0]"

definition dance_J03r :: pyval where
  "dance_J03r = PList [dec (- 180), dec 0, dec 0, dec 0, dec 0, dec 0]"

definition dance_J04r :: pyval where
  "dance_J04r = PList [dec (- 90), dec 0, dec 0, dec 0, dec 0, dec 0]"

definition dance_J04r1 :: pyval where
  "dance_J04r1 = PList [dec (- 90), dec 30, dec (- 60), dec 0, dec 30, PFloat NegZero]"

definition dance_J04r2 :: pyval where
  "dance_J04r2 = PList [dec (- 90), dec (- 45), dec 90, dec 0, dec (- 45), PFloat NegZero]"

definition dance_J04r3 :: pyval where
  "dance_J04r3 = PList [dec (- 90), dec 60, dec (- 120), dec 0, dec 60, PFloat NegZero]"

definition dance_J04r4 :: pyval where
  "dance_J04r4 = PList [dec (- 90), dec 0, PFloat NegZero, dec 0, dec 0, PFloat NegZero]"

definition dance_J05r :: pyval where
  "dance_J05r = PList [dec (- 144), dec (- 4), dec (- (424 / 5)), dec (- (909 / 10)), dec 54,
       dec (- (11 / 10))]"

definition dance_J07r :: pyval where
  "dance_J07r = PList [dec (- (762 / 5)), dec (62 / 5), dec (- (393 / 5)), dec (187 / 10), dec
       (- (683 / 10)), dec (- (377 / 10))]"

definition dance_J08r :: pyval where
  "dance_J08r = PList [dec (- 90), dec 30, dec (- 120), dec (- 90), dec (- 90), dec 0]"

definition dance_JEnd :: pyval where
  "dance_JEnd = PList [dec 0, dec (- (63 / 5)), dec (1011 / 10), dec 0, dec (183 / 2), PFloat
       NegZero]"

definition dance_dREL1 :: pyval where
  "dance_dREL1 = PList [PInt 0, PInt 0, PInt 350, PInt 0, PInt 0, PInt 0]"

definition dance_dREL2 :: pyval where
  "dance_dREL2 = PList [PInt 0, PInt 0, PInt (- 350), PInt 0, PInt 0, PInt 0]"

definition dance_velx :: pyval where
  "dance_velx = PList [PInt 0, PInt 0]"

definition dance_accx :: pyval where
  "dance_accx = PList [PInt 0, PInt 0]"

definition dance_vel_spi :: pyval where
  "dance_vel_spi = PList [PInt 400, PInt 400]"

definition dance_acc_spi :: pyval where
  "dance_acc_spi = PList [PInt 150, PInt 150]"

definition dance_J1 :: pyval where
  "dance_J1 = PList [dec (406 / 5), dec (104 / 5), dec (639 / 5), dec (325 / 2), dec (561 /
       10), dec (- (371 / 10))]"

definition dance_X0 :: pyval where
  "dance_X0 = PList [dec (- (887 / 10)), dec 799, dec (1823 / 10), dec (957 / 10), dec (937 /
       10), dec (1339 / 10)]"

definition dance_X1 :: pyval where
  "dance_X1 = PList [dec (1521 / 5), dec (4359 / 5), dec (283 / 2), dec (199 / 2), dec (849 /
       10), dec (667 / 5)]"

definition dance_X2 :: pyval where
  "dance_X2 = PList [dec (4371 / 10), dec (8769 / 10), dec (3621 / 10), dec (498 / 5), dec 84,
       dec (1321 / 10)]"

definition dance_X3 :: pyval where
  "dance_X3 = PList [dec (- (579 / 10)), dec (3912 / 5), dec (2392 / 5), dec (498 / 5), dec
       84, dec (1321 / 10)]"

definition dance_amp :: pyval where
  "dance_amp = PList [PInt 0, PInt 0, PInt 0, PInt 30, PInt 30, PInt 0]"

definition dance_period :: pyval where
  "dance_period = PList [PInt 0, PInt 0, PInt 0, PInt 3, PInt 6, PInt 0]"

definition dance_x01 :: pyval where
  "dance_x01 = PList [dec (2118 / 5), dec (669 / 2), dec (3256 / 5), dec (847 / 10), dec (-
       180), dec (847 / 10)]"

definition dance_x02 :: pyval where
  "dance_x02 = PList [dec (2118 / 5), dec (69 / 2), dec (4756 / 5), dec (341 / 5), dec (-
       180), dec (341 / 5)]"

definition dance_x03 :: pyval where
  "dance_x03 = PList [dec (2118 / 5), dec (- (531 / 2)), dec (3256 / 5), dec (761 / 10), dec
       (- 180), dec (761 / 10)]"

definition dance_x04 :: pyval where
  "dance_x04 = PList [dec (2118 / 5), dec (69 / 2), dec (1756 / 5), dec (813 / 10), dec (-
       180), dec (813 / 10)]"

definition dance_x0204c :: pyval where
  "dance_x0204c = PList [dance_x02, dance_x04]"

text \<open>\<^verbatim>\<open>movel(p, velx, accx, t=t, radius=radius, ref=ref)\<close>\<close>

abbreviation dance_movel :: "pyval \<Rightarrow> pyval \<Rightarrow> pyval \<Rightarrow> pyval \<Rightarrow> api_call" where
  "dance_movel p radius ref t \<equiv>
     CMovel False p dance_velx dance_accx PNone radius ref (PInt DR_MV_MOD_ABS)
       (PInt DR_MV_RA_DUPLICATE) PNone PNone t PNone"

definition dance_setup :: "api_call list" where
  "dance_setup = [
     CSetVelx (PInt 30) (PInt 20),
     CSetAccx (PInt 60) (PInt 40)]"

definition dance_round :: "api_call list" where
  "dance_round = [
     dance_movej dance_JReady PNone (PInt 20) (PInt 20) PNone,
     dance_movej dance_J1 PNone (PInt 0) (PInt 0) (PInt 3),
     dance_movel dance_X3 PNone PNone (dec (5 / 2)),
     dance_movel dance_X2 (PInt 50) (PInt DR_BASE) (dec (5 / 2)),
     dance_movel dance_X1 (PInt 50) (PInt DR_BASE) (dec (3 / 2)),
     dance_movel dance_X0 PNone PNone (dec (5 / 2)),
     dance_movel dance_X1 (PInt 50) (PInt DR_BASE) (dec (5 / 2)),
     dance_movel dance_X2 (PInt 50) (PInt DR_BASE) (dec (3 / 2)),
     dance_movel dance_X3 (PInt 50) (PInt DR_BASE) (dec (5 / 2)),
     dance_movej dance_J00 PNone (PInt 60) (PInt 60) (PInt 6),
     dance_movej dance_J01r (PInt 100) (PInt 0) (PInt 0) (PInt 2),
     dance_movej dance_J02r (PInt 50) (PInt 0) (PInt 0) (PInt 2),
     dance_movej dance_J03r PNone (PInt 0) (PInt 0) (PInt 2),
     dance_movej dance_J04r PNone (PInt 0) (PInt 0) (dec (3 / 2)),
     dance_movej dance_J04r1 (PInt 50) (PInt 0) (PInt 0) (PInt 2),
     dance_movej dance_J04r2 (PInt 50) (PInt 0) (PInt 0) (PInt 4),
     dance_movej dance_J04r3 (PInt 50) (PInt 0) (PInt 0) (PInt 4),
     dance_movej dance_J04r4 PNone (PInt 0) (PInt 0) (PInt 2),
     dance_movej dance_J05r (PInt 100) (PInt 0) (PInt 0) (dec (5 / 2)),
     dance_movel dance_dREL1 (PInt 50) (PInt DR_TOOL) (PInt 1),
     dance_movel dance_dREL2 (PInt 100) (PInt DR_TOOL) (dec (3 / 2)),
     dance_movej dance_J07r (PInt 100) (PInt 60) (PInt 60) (dec (3 / 2)),
     dance_movej dance_J08r PNone (PInt 60) (PInt 60) (PInt 2),
     dance_movej dance_JEnd PNone (PInt 60) (PInt 60) (PInt 4),
     CMovePeriodic False dance_amp dance_period (PInt 0) (PInt 1) (PInt DR_TOOL),
     CMoveSpiral False (PInt 3) (PInt 200) (PInt 100) PNone PNone PNone (PInt DR_AXIS_X) (PInt
       DR_TOOL) dance_vel_spi dance_acc_spi (PInt 0),
     dance_movel dance_x01 PNone PNone (PInt 2),
     dance_movel dance_x04 (PInt 100) (PInt DR_BASE) (PInt 2),
     dance_movel dance_x03 (PInt 100) (PInt DR_BASE) (PInt 2),
     dance_movel dance_x02 (PInt 100) (PInt DR_BASE) (PInt 2),
     dance_movel dance_x01 PNone PNone (PInt 2),
     CMovec False dance_x02 dance_x04 PNone PNone PNone (PInt 360) (PInt DR_BASE) (PInt
       DR_MV_MOD_ABS) PNone (PInt DR_MV_RA_DUPLICATE) dance_velx dance_accx (PInt 4) PNone PNone]"

definition dance_main :: "ros \<Rightarrow> (nat \<Rightarrow> bool) \<Rightarrow> unit act" where
  "dance_main R ok =
     then_do (run_calls R dance_setup)
    (then_do (while_ok ok (run_calls R dance_round) 0)
       (update_world (log Shutdown)))"

end
