(* ===== verification/BlowProperties.thy ===== *)
theory BlowProperties
  imports BlowScript MotionProperties
begin

text \<open>The properties of the program blow_from_mesh.py that concern the robot and its waiting loops.\<close>

section \<open>Requests for linear motion\<close>

text \<open>The positions of the requests to the service of \<^verbatim>\<open>movel\<close> among some events.\<close>

definition line_positions :: "event list \<Rightarrow> pyval list" where
  "line_positions es = List.map_filter (\<lambda>e. case e of
       Called srv fs \<Rightarrow> if srv = ''motion/move_line'' then Some (fld fs ''pos'') else None
     | _ \<Rightarrow> None) es"

lemma line_positions_simps [simp]:
  "line_positions [] = []"
  "line_positions (Called srv fs # es) =
     (if srv = ''motion/move_line'' then [fld fs ''pos''] else []) @ line_positions es"
  "line_positions (Polled srv b # es) = line_positions es"
  "line_positions (Shutdown # es) = line_positions es"
  by (simp_all add: line_positions_def map_filter_def)

lemma line_positions_append [simp]:
  "line_positions (es @ es') = line_positions es @ line_positions es'"
  by (simp add: line_positions_def map_filter_def)

lemma line_positions_polls: "only_polls ps \<Longrightarrow> line_positions ps = []"
  by (induction ps) (auto simp: only_polls_def)

text \<open>An action that asks for no linear motion.\<close>

definition quiet :: "'a act \<Rightarrow> bool" where
  "quiet m \<longleftrightarrow> (\<forall>w r w'. m w = Some (r, w') \<longrightarrow>
     (\<exists>es. trace w' = trace w @ es \<and> line_positions es = []))"

named_theorems quiet_intros

lemma quiet_abind [quiet_intros]: "quiet m \<Longrightarrow> (\<And>x. quiet (f x)) \<Longrightarrow> quiet (abind m f)"
  unfolding quiet_def by (fastforce simp: abind_Some)

lemma quiet_prefix:
  assumes "quiet m" and "abind m f w = Some (r, w')"
  shows "\<exists>es. line_positions es = [] \<and>
    ((\<exists>e. r = Inl e \<and> trace w' = trace w @ es) \<or>
     (\<exists>x w1. trace w1 = trace w @ es \<and> f x w1 = Some (r, w')))"
  using assms unfolding quiet_def by (fastforce simp: abind_Some)

lemma quiet_then_do [quiet_intros]: "quiet m \<Longrightarrow> quiet n \<Longrightarrow> quiet (then_do m n)"
  unfolding then_do_def by (intro quiet_intros)

lemma note_exc_trace: "\<exists>es. trace (note_exc e w) = trace w @ es \<and> line_positions es = []"
  by (auto simp: note_exc_def)

lemma quiet_lift_res [quiet_intros]: "quiet (lift_res r)"
  unfolding quiet_def using note_exc_trace by (cases r) auto

lemma quiet_await_input [quiet_intros]: "quiet (await_input i)"
proof (cases i)
  case (Some r)
  with quiet_lift_res [of r] show ?thesis by (simp add: quiet_def await_input_def)
qed (simp add: quiet_def await_input_def)

lemma quiet_return [quiet_intros]: "quiet (\<lambda>w. Some (r, w))"
  by (simp add: quiet_def)

lemma quiet_service_fun [quiet_intros]:
  "srv \<noteq> ''motion/move_line'' \<Longrightarrow> quiet (service_fun R waits srv request before on_result)"
  unfolding quiet_def
  by (fastforce dest: service_fun_effect simp: line_positions_polls note_exc_def)

lemma quiet_set_robot_mode [quiet_intros]: "quiet (set_robot_mode R m)"
  unfolding set_robot_mode_def int_setter_def by (intro quiet_intros) simp

lemma quiet_script_movej [quiet_intros]: "quiet (script_movej R q vel acc)"
  unfolding script_movej_def movej_def movej_impl_def by (intro quiet_intros) simp

lemma quiet_move_through [quiet_intros]: "quiet (move_through R qs)"
  by (induction qs) (auto intro: quiet_intros)

lemma quiet_move_to_init [quiet_intros]: "quiet (move_to_init R)"
  unfolding move_to_init_def by (rule quiet_intros)

lemma quiet_get_current_posx [quiet_intros]: "quiet (get_current_posx R ref)"
  unfolding get_current_posx_def by (intro quiet_intros) simp

lemma quiet_log_Shutdown [quiet_intros]: "quiet (update_world (log Shutdown))"
  by (simp add: quiet_def update_world_def)

section \<open>One waypoint\<close>

lemma movel_request_position:
  "movel_request R (PPosx (map PFloat p)) vel acc time radius ref md ra v a t r async w = Inr fs \<Longrightarrow>
   fld fs ''pos'' = floats p"
  by (auto simp: movel_request_def rbind_Inr_iff set_fields_Inr_Cons set_fields_Inr_Nil
      get_normal_pos_def get_posx_def float_list_def get_kargs_def simp del: set_fields.simps)

lemma six_floats:
  assumes "length p = 6"
  obtains b c d e f g where "p = [b, c, d, e, f, g]"
    and "check_number (PList [PFloat b, PFloat c, PFloat d, PFloat e, PFloat f, PFloat g])
      DR_ERROR_TYPE = Inr ()"
proof -
  obtain b c d e f g where p: "p = [b, c, d, e, f, g]"
    using assms by (auto simp: numeral_eq_Suc length_Suc_conv)
  have ok: "check_number (PList [PFloat b, PFloat c, PFloat d, PFloat e, PFloat f, PFloat g])
      DR_ERROR_TYPE = Inr ()"
    using check_number_floats [of "[b, c, d, e, f, g]" DR_ERROR_TYPE] by (simp only: list.map)
  with p show ?thesis by (rule that)
qed

lemma posx_of_floats:
  assumes "length p = 6"
  shows "posx_init (PFloat (p ! 0)) (PFloat (p ! 1)) (PFloat (p ! 2)) (PFloat (p ! 3)) (PFloat (p ! 4))
    (PFloat (p ! 5)) = Inr (PPosx (map PFloat p))"
proof (rule six_floats [OF assms])
  fix b c d e f g
  assume p: "p = [b, c, d, e, f, g]"
    and ok: "check_number (PList [PFloat b, PFloat c, PFloat d, PFloat e, PFloat f, PFloat g])
      DR_ERROR_TYPE = Inr ()"
  show ?thesis by (simp add: p ok posx_init_def is_list_of_len_def)
qed

lemma length_doosan_pose [simp]: "length (doosan_pose P dbl T T') = 6"
  by (simp add: doosan_pose_def se3_to_doosan_posx_def Let_def split: prod.split)

lemma movel_floats_effect:
  assumes "movel R (PPosx (map PFloat p)) vel acc PNone PNone PNone (PInt 0) (PInt 0)
      PNone PNone PNone PNone w = Some (r, w')"
  shows "\<exists>es. trace w' = trace w @ es \<and>
    (line_positions es = [floats p] \<or> line_positions es = [] \<and> (\<exists>e. r = Inl e))"
proof -
  from assms have "service_fun R True ''motion/move_line''
      (movel_request R (PPosx (map PFloat p)) vel acc PNone PNone PNone (PInt 0) (PInt 0)
         PNone PNone PNone PNone 0) None success_code w = Some (r, w')"
    by (simp add: movel_def movel_impl_def)
  from service_fun_success_effect [OF this] movel_request_position show ?thesis
    by (fastforce simp: line_positions_polls note_exc_def dest: polls_for_only)
qed

lemma script_movel_effect:
  assumes "script_movel R p vel acc w = Some (r, w')" and "length p = 6"
  shows "\<exists>es. trace w' = trace w @ es \<and>
    (line_positions es = [floats p] \<or> line_positions es = [] \<and> (\<exists>e. r = Inl e))"
  using assms(1) unfolding script_movel_def posx_of_floats [OF assms(2)]
  by (intro movel_floats_effect) (simp add: abind_def)

lemma execute_loop_effect:
  "execute_loop R P dbl Tb vel acc Ts w = Some (r, w') \<Longrightarrow>
   \<exists>es k. trace w' = trace w @ es \<and> k \<le> length Ts \<and>
     line_positions es = map (\<lambda>T. floats (doosan_pose P dbl Tb T)) (take k Ts) \<and>
     (r = Inr () \<longrightarrow> k = length Ts)"
proof (induction Ts arbitrary: w)
  case Nil
  then show ?case by auto
next
  case (Cons T Ts)
  let ?p = "doosan_pose P dbl Tb T"
  let ?rest = "abind (get_current_posx R PNone) (\<lambda>answer.
      abind (lift_res (verify_pose answer)) (\<lambda>_. execute_loop R P dbl Tb vel acc Ts))"
  from Cons.prems obtain r1 w1 where m: "script_movel R ?p vel acc w = Some (r1, w1)"
    by (auto simp: then_do_def abind_Some)
  from script_movel_effect [OF m] obtain es1 where es1: "trace w1 = trace w @ es1"
    "line_positions es1 = [floats ?p] \<or> line_positions es1 = [] \<and> (\<exists>e. r1 = Inl e)"
    by auto
  show ?case
  proof (cases r1)
    case (Inl e)
    with Cons.prems m have "r = Inl e" "w' = w1" by (auto simp: then_do_def abind_Some)
    with es1 show ?thesis
      by (intro exI [of _ es1] exI [of _ "if line_positions es1 = [] then 0 else 1"]) auto
  next
    case (Inr x)
    with es1 have pos: "line_positions es1 = [floats ?p]" by auto
    from Cons.prems m Inr have "?rest w1 = Some (r, w')" by (auto simp: then_do_def abind_def)
    from quiet_prefix [OF quiet_get_current_posx this] obtain es2 where es2: "line_positions es2 = []"
      "(\<exists>e. r = Inl e \<and> trace w' = trace w1 @ es2) \<or>
       (\<exists>x w2. trace w2 = trace w1 @ es2 \<and>
          abind (lift_res (verify_pose x)) (\<lambda>_. execute_loop R P dbl Tb vel acc Ts) w2 = Some (r, w'))"
      by blast
    then consider
      (fails) e where "r = Inl e" "\<exists>es. trace w' = trace w1 @ es \<and> line_positions es = []"
    | (goes_on) w3 where "execute_loop R P dbl Tb vel acc Ts w3 = Some (r, w')"
        "\<exists>es. trace w3 = trace w1 @ es \<and> line_positions es = []"
    proof (elim disjE exE conjE)
      fix x w2 assume w2: "trace w2 = trace w1 @ es2"
        "abind (lift_res (verify_pose x)) (\<lambda>_. execute_loop R P dbl Tb vel acc Ts) w2 = Some (r, w')"
      from quiet_prefix [OF quiet_lift_res this(2)] obtain es3 where es3: "line_positions es3 = []"
        "(\<exists>e. r = Inl e \<and> trace w' = trace w2 @ es3) \<or>
         (\<exists>w3. trace w3 = trace w2 @ es3 \<and> execute_loop R P dbl Tb vel acc Ts w3 = Some (r, w'))"
        by blast
      have "line_positions (es2 @ es3) = []" using es2(1) es3(1) by simp
      with es3(2) w2(1) that show ?thesis by (metis append_assoc)
    qed (use es2(1) that in blast)
    then show ?thesis
    proof cases
      case fails
      with es1 pos show ?thesis
        by (auto intro!: exI [of _ 1])
    next
      case goes_on
      from Cons.IH [OF goes_on(1)] goes_on(2) es1(1) pos show ?thesis
        by clarsimp (metis (no_types, lifting) Suc_le_mono append_Cons append_assoc append_Nil
            line_positions_append list.simps(9) take_Suc_Cons)
    qed
  qed
qed

section \<open>Executing a trajectory\<close>

lemma execute_checked:
  assumes "execute_trajectory R P dbl trajectory Tb vel acc skip w = Some (r, w')"
    and "waypoints_of skip trajectory = Inr ws"
  shows "\<exists>es k. trace w' = trace w @ es \<and> k \<le> length ws \<and>
    line_positions es = map (\<lambda>T. floats (doosan_pose P dbl Tb T)) (take k ws) \<and>
    (r = Inr () \<longrightarrow> k = length ws) \<and>
    (\<not> list_all (reachable_from P Tb) ws \<longrightarrow> k = 0 \<and> r = Inl RuntimeError \<and> w' = w)"
proof (cases "list_all (reachable_from P Tb) ws")
  case True
  with assms have "execute_loop R P dbl Tb vel acc ws w = Some (r, w')"
    by (simp add: execute_trajectory_def abind_def)
  from execute_loop_effect [OF this] True show ?thesis by blast
next
  case False
  with assms have "r = Inl RuntimeError" "w' = w"
    by (auto simp: execute_trajectory_def abind_def note_exc_def)
  with False show ?thesis by (intro exI [of _ "[]"] exI [of _ 0]) simp
qed

text \<open>C8: before anything is sent, every waypoint of a trajectory is checked. Whatever the
  controller answers, the linear motions asked for are those to the first waypoints, in their
  order and each in the position computed from the pose; all of them if the call returns; none,
  with RuntimeError, if some waypoint is out of reach; none if there are no waypoints. The waypoints
  begin with the first pose of the trajectory and end with its last.\<close>

theorem execute_trajectory_safe:
  assumes "execute_trajectory R P dbl trajectory Tb vel acc skip w = Some (r, w')"
  shows "(\<exists>ws es k. waypoints_of skip trajectory = Inr ws \<and>
      hd ws = hd trajectory \<and> last ws = last trajectory \<and> set ws \<subseteq> set trajectory \<and>
      trace w' = trace w @ es \<and> k \<le> length ws \<and>
      line_positions es = map (\<lambda>T. floats (doosan_pose P dbl Tb T)) (take k ws) \<and>
      (r = Inr () \<longrightarrow> k = length ws) \<and>
      (\<not> list_all (reachable_from P Tb) ws \<longrightarrow> k = 0 \<and> r = Inl RuntimeError \<and> w' = w)) \<or>
    (\<exists>e. waypoints_of skip trajectory = Inl e \<and> r = Inl e \<and> w' = w \<and> (skip = 0 \<or> trajectory = []))"
proof (cases "waypoints_of skip trajectory")
  case (Inl e)
  with assms show ?thesis
    by (auto simp: execute_trajectory_def abind_def note_exc_def waypoints_of_def split: if_split_asm)
next
  case (Inr ws)
  from execute_checked [OF assms Inr] waypoints_ends [OF Inr] Inr show ?thesis by blast
qed

text \<open>Libraries for an example: an identity camera and base, and a robot at its origin.\<close>

definition plain_lib :: pose_lib where
  "plain_lib = \<lparr>pl_inv = id, pl_inv3 = id, pl_quat = (\<lambda>_. (0, 0, 0, 1)),
     pl_mat = (\<lambda>_. ((1, 0, 0), (0, 1, 0), (0, 0, 1))), pl_euler = (\<lambda>_. (0, 0, 0)),
     pl_spline = (\<lambda>_ ps _. hd ps), pl_slerp = (\<lambda>_ _ _. ((1, 0, 0), (0, 1, 0), (0, 0, 1)))\<rparr>"

definition origin_pose :: se3 where
  "origin_pose = \<lparr>rot = ((1, 0, 0), (0, 1, 0), (0, 0, 1)), trans = (0, 0, 0)\<rparr>"

definition far_pose :: se3 where
  "far_pose = \<lparr>rot = ((1, 0, 0), (0, 1, 0), (0, 0, 1)), trans = (0, 0, - 1)\<rparr>"

lemma origin_reachable: "reachable_from plain_lib origin_pose origin_pose"
  by (simp add: reachable_from_def check_reachable_def mesh_pose_to_base_def plain_lib_def
      origin_pose_def se3_mul_def se3_apply_def vnorm_def robot_reach_def)

lemma far_unreachable: "\<not> reachable_from plain_lib origin_pose far_pose"
  by (simp add: reachable_from_def check_reachable_def mesh_pose_to_base_def plain_lib_def
      origin_pose_def far_pose_def se3_mul_def se3_apply_def)

lemma execute_trajectory_safe_witness:
  "\<exists>es. execute_trajectory ideal_ros plain_lib (\<lambda>_. Fin 1) [origin_pose, far_pose] origin_pose
      (PInt 50) (PInt 50) 5 start = Some (Inl RuntimeError, start\<lparr>trace := trace start @ es\<rparr>) \<and>
    line_positions es = []"
proof -
  have run: "execute_trajectory ideal_ros plain_lib (\<lambda>_. Fin 1) [origin_pose, far_pose] origin_pose
      (PInt 50) (PInt 50) 5 start = Some (Inl RuntimeError, start)"
    by (simp add: execute_trajectory_def waypoints_of_def stride_def abind_def far_unreachable note_exc_def)
  have "line_positions es = []" if "trace start = trace start @ es" for es using that by simp
  with execute_trajectory_safe [OF run] show ?thesis
    unfolding run by (intro exI [of _ "[]"]) auto
qed

section \<open>The whole program\<close>

text \<open>An action whose linear motions, if it asks for any, satisfy a condition.\<close>

definition moves_only :: "(pyval list \<Rightarrow> bool) \<Rightarrow> 'a act \<Rightarrow> bool" where
  "moves_only Q m \<longleftrightarrow> (\<forall>w r w'. m w = Some (r, w') \<longrightarrow>
     (\<exists>es. trace w' = trace w @ es \<and> (line_positions es = [] \<or> Q (line_positions es))))"

lemma moves_only_quiet: "quiet m \<Longrightarrow> moves_only Q m"
  unfolding quiet_def moves_only_def by blast

lemma moves_only_after:
  assumes "quiet m" and "\<And>x w w'. m w = Some (Inr x, w') \<Longrightarrow> moves_only Q (f x)"
  shows "moves_only Q (abind m f)"
  unfolding moves_only_def
proof (intro allI impI)
  fix w r w' assume "abind m f w = Some (r, w')"
  then consider e where "m w = Some (Inl e, w')" | x w1 where "m w = Some (Inr x, w1)" "f x w1 = Some (r, w')"
    by (auto simp: abind_Some)
  then show "\<exists>es. trace w' = trace w @ es \<and> (line_positions es = [] \<or> Q (line_positions es))"
  proof cases
    case 1
    with assms(1) show ?thesis unfolding quiet_def by blast
  next
    case 2
    from assms(1) 2(1) obtain es1 where es1: "trace w1 = trace w @ es1" "line_positions es1 = []"
      unfolding quiet_def by blast
    from assms(2) [OF 2(1)] 2(2) obtain es2 where "trace w' = trace w1 @ es2"
      "line_positions es2 = [] \<or> Q (line_positions es2)"
      unfolding moves_only_def by blast
    with es1 show ?thesis by (intro exI [of _ "es1 @ es2"]) simp
  qed
qed

lemma moves_only_before:
  assumes "moves_only Q m" and "quiet n"
  shows "moves_only Q (then_do m n)"
  unfolding moves_only_def then_do_def
proof (intro allI impI)
  fix w r w' assume run: "abind m (\<lambda>_. n) w = Some (r, w')"
  then obtain r1 w1 where m: "m w = Some (r1, w1)" by (auto simp: abind_Some)
  with assms(1) obtain es1 where es1: "trace w1 = trace w @ es1"
    "line_positions es1 = [] \<or> Q (line_positions es1)"
    unfolding moves_only_def by blast
  from run m have "w' = w1 \<or> n w1 = Some (r, w')" by (auto simp: abind_Some)
  with assms(2) obtain es2 where "trace w' = trace w1 @ es2" "line_positions es2 = []"
    unfolding quiet_def by fastforce
  with es1 show "\<exists>es. trace w' = trace w @ es \<and> (line_positions es = [] \<or> Q (line_positions es))"
    by (intro exI [of _ "es1 @ es2"]) auto
qed

lemma moves_only_then:
  "quiet m \<Longrightarrow> moves_only Q n \<Longrightarrow> moves_only Q (then_do m n)"
  unfolding then_do_def by (rule moves_only_after)

lemma moves_only_execute:
  assumes "\<And>ws ps. waypoints_of skip trajectory = Inr ws \<Longrightarrow> list_all (reachable_from P Tb) ws \<Longrightarrow>
      prefix ps (map (\<lambda>T. floats (doosan_pose P dbl Tb T)) ws) \<Longrightarrow> Q ps"
  shows "moves_only Q (execute_trajectory R P dbl trajectory Tb vel acc skip)"
  unfolding moves_only_def
proof (intro allI impI)
  fix w r w' assume run: "execute_trajectory R P dbl trajectory Tb vel acc skip w = Some (r, w')"
  show "\<exists>es. trace w' = trace w @ es \<and> (line_positions es = [] \<or> Q (line_positions es))"
  proof (cases "waypoints_of skip trajectory")
    case (Inl e)
    with run show ?thesis
      using note_exc_trace by (auto simp: execute_trajectory_def abind_def)
  next
    case (Inr ws)
    from execute_checked [OF run Inr] obtain es k where es: "trace w' = trace w @ es"
      "line_positions es = map (\<lambda>T. floats (doosan_pose P dbl Tb T)) (take k ws)"
      "\<not> list_all (reachable_from P Tb) ws \<longrightarrow> k = 0"
      by blast
    then show ?thesis
      using assms [OF Inr, of "line_positions es"]
      by (metis list.simps(8) map_mono_prefix take0 take_is_prefix)
  qed
qed

lemma await_input_Some: "await_input i w = Some (Inr x, w') \<Longrightarrow> i = Some (Inr x)"
  by (cases i; cases "the i") (auto simp: await_input_def)

lemma lift_res_Some: "lift_res r w = Some (Inr x, w') \<Longrightarrow> r = Inr x"
  by (cases r) auto

text \<open>C9: however the libraries, the controller and the user behave, the program asks for a linear
  motion only after the user confirmed it, and then only for motions to waypoints of the planned
  trajectory, in their order, all of which were found in reach.\<close>

theorem program_moves_after_confirmation:
  assumes "blow_main R P L dbl S w = Some (r, w')"
  shows "\<exists>es. trace w' = trace w @ es \<and> (line_positions es = [] \<or>
    says_yes (sc_confirm S) \<and>
    (\<exists>base_6 keyframes trajectory ws.
       get_base_to_link6 P (sc_tf S) = Some (Inr base_6) \<and>
       collect_keyframes P L (sc_mesh S) (T_w_cm S base_6) (sc_rounds S) = Some (Inr keyframes) \<and>
       plan P keyframes = Inr trajectory \<and> waypoints_of 5 trajectory = Inr ws \<and>
       list_all (reachable_from P (T_w_b S)) ws \<and>
       prefix (line_positions es) (map (\<lambda>T. floats (doosan_pose P dbl (T_w_b S) T)) ws)))"
proof -
  let ?Q = "\<lambda>ps. says_yes (sc_confirm S) \<and>
    (\<exists>base_6 keyframes trajectory ws.
       get_base_to_link6 P (sc_tf S) = Some (Inr base_6) \<and>
       collect_keyframes P L (sc_mesh S) (T_w_cm S base_6) (sc_rounds S) = Some (Inr keyframes) \<and>
       plan P keyframes = Inr trajectory \<and> waypoints_of 5 trajectory = Inr ws \<and>
       list_all (reachable_from P (T_w_b S)) ws \<and>
       prefix ps (map (\<lambda>T. floats (doosan_pose P dbl (T_w_b S) T)) ws))"
  have "moves_only ?Q (blow_main R P L dbl S)"
    unfolding blow_main_def
  proof (rule moves_only_then, rule quiet_set_robot_mode, rule moves_only_then, rule quiet_move_to_init,
      rule moves_only_then, rule quiet_await_input, rule moves_only_after, rule quiet_await_input,
      rule moves_only_after, rule quiet_await_input, rule moves_only_after, rule quiet_lift_res,
      rule moves_only_before [OF _ quiet_log_Shutdown])
    fix base_6 u u' keyframes v v' trajectory x x'
    assume "await_input (get_base_to_link6 P (sc_tf S)) u = Some (Inr base_6, u')"
      and "await_input (collect_keyframes P L (sc_mesh S) (T_w_cm S base_6) (sc_rounds S)) v =
        Some (Inr keyframes, v')"
      and "lift_res (plan P keyframes) x = Some (Inr trajectory, x')"
    then have facts: "get_base_to_link6 P (sc_tf S) = Some (Inr base_6)"
      "collect_keyframes P L (sc_mesh S) (T_w_cm S base_6) (sc_rounds S) = Some (Inr keyframes)"
      "plan P keyframes = Inr trajectory"
      by (blast dest: await_input_Some lift_res_Some)+
    show "moves_only ?Q (if says_yes (sc_confirm S)
        then execute_trajectory R P dbl trajectory (T_w_b S) (PInt 50) (PInt 50) 5 else lift_res (Inr ()))"
    proof (cases "says_yes (sc_confirm S)")
      case True
      then show ?thesis
        unfolding if_P [OF True] using facts by (intro moves_only_execute) blast
    next
      case False
      then show ?thesis
        unfolding if_not_P [OF False] by (intro moves_only_quiet quiet_intros)
    qed
  qed
  with assms show ?thesis unfolding moves_only_def by blast
qed

text \<open>The user closes the first window without a choice.\<close>

definition closing_script :: "unit script" where
  "closing_script = \<lparr>
     sc_mesh = \<lparr>ms_min = (0, 0, 0), ms_max = (1, 1, 1), ms_area = 6, ms_cast = (\<lambda>_ _. []),
                ms_sample = (\<lambda>_. [])\<rparr>,
     sc_w_b = ((1, 0, 0), (0, 1, 0), (0, 0, 1)), sc_6_cm = ((1, 0, 0), (0, 1, 0), (0, 0, 1)),
     sc_arrived = (\<lambda>_. Inr (Some ())), sc_img_clock = (\<lambda>_. 0), sc_img_start = 0,
     sc_tf = \<lparr>tf_warm_clock = (\<lambda>_. 1), tf_warm_start = 0, tf_answer_at = (\<lambda>_. Transform (0, 0, 0, 1) (0, 0, 0)),
              tf_clock = (\<lambda>_. 0), tf_start = 0\<rparr>,
     sc_rounds = [([CloseWindow], ''n'')], sc_confirm = ''y''\<rparr>"

section \<open>The waiting loops\<close>

lemma grab_loop_skip:
  assumes "i \<le> n" and "\<forall>j. i \<le> j \<and> j < n \<longrightarrow> arrived j = Inr None \<and> \<not> 5 < clock j - since"
  shows "grab_loop arrived clock since i = grab_loop arrived clock since n"
  using assms
proof (induction "n - i" arbitrary: i)
  case (Suc k)
  then have "i < n" by simp
  with Suc.prems(2) have "grab_loop arrived clock since i = grab_loop arrived clock since (Suc i)"
    by (subst grab_loop.simps) simp
  with Suc.hyps(1) [of "Suc i"] Suc.hyps(2) Suc.prems show ?case by simp
qed simp

lemma lookup_loop_skip:
  assumes "i \<le> n" and "\<forall>j. i \<le> j \<and> j < n \<longrightarrow> answer j = LookupFailed \<and> \<not> 5 < clock j - since"
  shows "lookup_loop answer clock since i = lookup_loop answer clock since n"
  using assms
proof (induction "n - i" arbitrary: i)
  case (Suc k)
  then have "i < n" by simp
  with Suc.prems(2) have "lookup_loop answer clock since i = lookup_loop answer clock since (Suc i)"
    by (subst lookup_loop.simps) simp
  with Suc.hyps(1) [of "Suc i"] Suc.hyps(2) Suc.prems show ?case by simp
qed simp

lemma warm_up_returns: "1 \<le> clock (i + n) - since \<Longrightarrow> warm_up clock since i = Some ()"
proof (induction n arbitrary: i)
  case (Suc n)
  then show ?case using Suc.IH [of "Suc i"] by (subst warm_up.simps) simp
qed (simp add: warm_up.simps)

text \<open>The first round in which something happens decides.\<close>

lemma first_round:
  assumes "P (n :: nat)"
  obtains m where "P m" and "\<forall>j < m. \<not> P j"
  using assms by (metis exists_least_iff)

lemma grab_loop_first:
  assumes "arrived n \<noteq> Inr None \<or> 5 < clock n - since"
    and "\<forall>j < n. \<not> (arrived j \<noteq> Inr None \<or> 5 < clock j - since)"
  shows "grab_image arrived clock since =
    Some (case arrived n of
            Inl e \<Rightarrow> Inl e
          | Inr latest \<Rightarrow> if 5 < clock n - since then Inl RuntimeError else Inr (the latest))"
proof -
  have "grab_image arrived clock since = grab_loop arrived clock since n"
    unfolding grab_image_def using assms(2) by (intro grab_loop_skip) auto
  also have "\<dots> = Some (case arrived n of Inl e \<Rightarrow> Inl e
      | Inr latest \<Rightarrow> if 5 < clock n - since then Inl RuntimeError else Inr (the latest))"
    using assms(1) by (subst grab_loop.simps) (auto split: sum.split option.split)
  finally show ?thesis .
qed

lemma lookup_loop_returns:
  assumes "answer n \<noteq> LookupFailed \<or> 5 < clock n - since"
  shows "\<exists>r. lookup_loop answer clock since 0 = Some r"
proof -
  obtain m where m: "answer m \<noteq> LookupFailed \<or> 5 < clock m - since"
    "\<forall>j < m. \<not> (answer j \<noteq> LookupFailed \<or> 5 < clock j - since)"
    using assms first_round [of "\<lambda>n. answer n \<noteq> LookupFailed \<or> 5 < clock n - since" n] by blast
  from m(2) have "lookup_loop answer clock since 0 = lookup_loop answer clock since m"
    by (intro lookup_loop_skip) auto
  also have "\<exists>r. lookup_loop answer clock since m = Some r"
    using m(1) by (subst lookup_loop.simps) (auto split: tf_answer.split)
  finally show ?thesis .
qed

text \<open>The picture is taken within five seconds or the wait fails: if some round brings a frame or
  passes the five seconds, the wait returns; it returns a frame exactly when one arrived in a
  round that ended in time and nothing failed before. A frame that arrives in the round in which
  the time runs out is dropped.\<close>

theorem grab_image_outcome:
  assumes "arrived n \<noteq> Inr None \<or> 5 < clock n - since"
  shows "(\<exists>r. grab_image arrived clock since = Some r) \<and>
    (grab_image arrived clock since = Some (Inr img) \<longleftrightarrow>
      (\<exists>m. arrived m = Inr (Some img) \<and> clock m - since \<le> 5 \<and>
         (\<forall>j < m. arrived j = Inr None \<and> clock j - since \<le> 5))) \<and>
    (arrived 0 = Inr (Some img) \<and> 5 < clock 0 - since \<longrightarrow>
      grab_image arrived clock since = Some (Inl RuntimeError))"
proof -
  obtain m where m: "arrived m \<noteq> Inr None \<or> 5 < clock m - since"
    "\<forall>j < m. \<not> (arrived j \<noteq> Inr None \<or> 5 < clock j - since)"
    using assms first_round [of "\<lambda>n. arrived n \<noteq> Inr None \<or> 5 < clock n - since" n] by blast
  note grab = grab_loop_first [of arrived m clock since, OF m]
  have unique: "k = m" if "arrived k = Inr (Some img)" "\<forall>j < k. arrived j = Inr None \<and> clock j - since \<le> 5" for k
  proof (rule antisym)
    show "k \<le> m" using that(2) m(1) by (meson leI not_less)
    show "m \<le> k" using that(1) m(2) by (metis leI option.distinct(1) sum.inject(2))
  qed
  show ?thesis
  proof (intro conjI impI)
    show "\<exists>r. grab_image arrived clock since = Some r" using grab by blast
    show "grab_image arrived clock since = Some (Inr img) \<longleftrightarrow>
      (\<exists>m. arrived m = Inr (Some img) \<and> clock m - since \<le> 5 \<and>
         (\<forall>j < m. arrived j = Inr None \<and> clock j - since \<le> 5))"
    proof
      assume "grab_image arrived clock since = Some (Inr img)"
      with grab m(1) have "arrived m = Inr (Some img) \<and> clock m - since \<le> 5"
        by (auto split: sum.split_asm if_split_asm option.split_asm)
      with m(2) show "\<exists>m. arrived m = Inr (Some img) \<and> clock m - since \<le> 5 \<and>
         (\<forall>j < m. arrived j = Inr None \<and> clock j - since \<le> 5)"
        by (metis not_less)
    next
      assume "\<exists>m. arrived m = Inr (Some img) \<and> clock m - since \<le> 5 \<and>
         (\<forall>j < m. arrived j = Inr None \<and> clock j - since \<le> 5)"
      with unique have "arrived m = Inr (Some img)" "clock m - since \<le> 5" by blast+
      with grab show "grab_image arrived clock since = Some (Inr img)" by simp
    qed
    show "grab_image arrived clock since = Some (Inl RuntimeError)"
      if "arrived 0 = Inr (Some img) \<and> 5 < clock 0 - since"
      unfolding grab_image_def using that by (subst grab_loop.simps) simp
  qed
qed

lemma grab_image_outcome_witness:
  "\<exists>r. grab_image (\<lambda>i. Inr (if i = 3 then Some () else None)) (\<lambda>i. of_nat i) 0 = Some r"
  using grab_image_outcome [of "\<lambda>i. Inr (if i = 3 then Some () else None)" 3 "\<lambda>i. of_nat i" 0 "()"]
  by simp

section \<open>The program returns\<close>

definition returns :: "'a act \<Rightarrow> bool" where
  "returns m \<longleftrightarrow> (\<forall>w. m w \<noteq> None)"

named_theorems returns_intros

lemma returns_abind [returns_intros]: "returns m \<Longrightarrow> (\<And>x. returns (f x)) \<Longrightarrow> returns (abind m f)"
  unfolding returns_def abind_def by (auto split: option.split sum.split)

lemma returns_then_do [returns_intros]: "returns m \<Longrightarrow> returns n \<Longrightarrow> returns (then_do m n)"
  unfolding then_do_def by (intro returns_intros)

lemma returns_lift_res [returns_intros]: "returns (lift_res r)"
  by (cases r) (simp_all add: returns_def)

lemma returns_await_input [returns_intros]: "\<exists>r. i = Some r \<Longrightarrow> returns (await_input i)"
  using returns_lift_res unfolding returns_def await_input_def by (metis option.case(2))

lemma returns_return [returns_intros]: "returns (\<lambda>w. Some (r, w))"
  by (simp add: returns_def)

lemma returns_update [returns_intros]: "returns (update_world f)"
  by (simp add: returns_def update_world_def)

lemma returns_with_globals [returns_intros]: "returns (with_globals f)"
  using returns_lift_res unfolding returns_def with_globals_def by metis

lemma returns_service_fun [returns_intros]:
  assumes "reachable_services R"
  shows "returns (service_fun R waits srv request before on_result)"
proof -
  have "returns (await_service R waits srv)"
    using await_service_returns [OF assms, of waits srv] unfolding returns_def by (metis option.distinct(1))
  moreover have "returns (call_service R srv fs before on_result)" for fs
    using assms returns_lift_res
    by (auto simp: returns_def call_service_def reachable_services_def Let_def split: reply.splits)
  moreover have "returns (return_ret ret)" for ret
    unfolding return_ret_def by (rule returns_intros)
  ultimately show ?thesis unfolding service_fun_def by (intro returns_intros)
qed

lemma returns_motions:
  assumes "reachable_services R"
  shows "returns (set_robot_mode R m)" and "returns (script_movej R q vel acc)"
    and "returns (script_movel R p vel acc)" and "returns (get_current_posx R ref)"
  unfolding set_robot_mode_def int_setter_def script_movej_def movej_def movej_impl_def
    script_movel_def movel_def movel_impl_def get_current_posx_def
  by (intro returns_intros assms)+

lemma returns_move_to_init: "reachable_services R \<Longrightarrow> returns (move_to_init R)"
proof -
  assume "reachable_services R"
  then have "returns (move_through R qs)" for qs
    by (induction qs) (auto intro: returns_intros returns_motions)
  then show ?thesis by (simp add: move_to_init_def)
qed

lemma returns_execute:
  assumes "reachable_services R"
  shows "returns (execute_trajectory R P dbl trajectory Tb vel acc skip)"
proof -
  have "returns (execute_loop R P dbl Tb vel acc Ts)" for Ts
    by (induction Ts) (auto intro!: returns_intros returns_motions assms)
  then show ?thesis unfolding execute_trajectory_def by (intro returns_intros)
qed

text \<open>A user who closes every window and at some point wants no further point.\<close>

definition user_finishes :: "(ui_event list \<times> string) list \<Rightarrow> bool" where
  "user_finishes rounds \<longleftrightarrow>
     (\<forall>(es, ans) \<in> set rounds. picker None es \<noteq> None) \<and> (\<exists>(es, ans) \<in> set rounds. \<not> says_yes ans)"

lemma collect_returns:
  "user_finishes rounds \<Longrightarrow> \<exists>r. collect_keyframes P L M T rounds = Some r"
proof (induction rounds)
  case (Cons round rounds)
  obtain es ans where round: "round = (es, ans)" by (cases round)
  from Cons.prems round obtain sel where sel: "picker None es = Some sel"
    by (auto simp: user_finishes_def)
  have "says_yes ans \<Longrightarrow> user_finishes rounds" using Cons.prems round by (auto simp: user_finishes_def)
  with Cons.IH sel show ?case
    by (cases "says_yes ans") (auto simp: round pick_xy_from_camera_def split: option.split sum.split)
qed (simp add: user_finishes_def)

lemma blow_main_total:
  assumes "reachable_services R"
    and "\<exists>n. sc_arrived S n \<noteq> Inr None \<or> 5 < sc_img_clock S n - sc_img_start S"
    and "\<exists>n. 1 \<le> tf_warm_clock (sc_tf S) n - tf_warm_start (sc_tf S)"
    and "\<exists>n. tf_answer_at (sc_tf S) n \<noteq> LookupFailed \<or> 5 < tf_clock (sc_tf S) n - tf_start (sc_tf S)"
    and "user_finishes (sc_rounds S)"
  shows "returns (blow_main R P L dbl S)"
proof -
  obtain n where n: "sc_arrived S n \<noteq> Inr None \<or> 5 < sc_img_clock S n - sc_img_start S"
    using assms(2) ..
  have grab: "\<exists>r. grab_image (sc_arrived S) (sc_img_clock S) (sc_img_start S) = Some r"
    using grab_loop_first first_round
      [of "\<lambda>n. sc_arrived S n \<noteq> Inr None \<or> 5 < sc_img_clock S n - sc_img_start S", OF n]
    by metis
  have "warm_up (tf_warm_clock (sc_tf S)) (tf_warm_start (sc_tf S)) 0 = Some ()"
    using assms(3) warm_up_returns [of "tf_warm_clock (sc_tf S)" 0] by auto
  moreover have "\<exists>r. lookup_loop (tf_answer_at (sc_tf S)) (tf_clock (sc_tf S)) (tf_start (sc_tf S)) 0 = Some r"
    using assms(4) lookup_loop_returns by blast
  ultimately have link: "\<exists>r. get_base_to_link6 P (sc_tf S) = Some r"
    by (auto simp: get_base_to_link6_def)
  show ?thesis
    unfolding blow_main_def
    using grab link collect_returns [OF assms(5)]
    by (auto intro!: returns_intros returns_motions returns_move_to_init returns_execute assms(1))
qed

text \<open>C33: the program ends, normally or with an exception, once the outside plays along: the services
  appear and the client library answers, the picture's wait and the search for the transform each
  see an answer or five seconds pass, the warm-up sees one second pass, and the user closes the
  windows and at some point wants no further one.\<close>

theorem blow_main_returns:
  assumes "reachable_services R"
    and "\<exists>n. sc_arrived S n \<noteq> Inr None \<or> 5 < sc_img_clock S n - sc_img_start S"
    and "\<exists>n. 1 \<le> tf_warm_clock (sc_tf S) n - tf_warm_start (sc_tf S)"
    and "\<exists>n. tf_answer_at (sc_tf S) n \<noteq> LookupFailed \<or> 5 < tf_clock (sc_tf S) n - tf_start (sc_tf S)"
    and "user_finishes (sc_rounds S)"
  shows "\<exists>r w'. blow_main R P L dbl S w = Some (r, w')"
  using blow_main_total [OF assms] unfolding returns_def by (metis not_None_eq surj_pair)

lemma ideal_reachable: "reachable_services ideal_ros"
  by (simp add: reachable_services_def)

lemma blow_main_returns_witness:
  "\<exists>r w'. blow_main ideal_ros plain_lib \<lparr>cl_dbscan = (\<lambda>_ _ _. []), cl_order = (\<lambda>_. [])\<rparr> (\<lambda>_. Fin 1)
     closing_script start = Some (r, w')"
  by (rule blow_main_returns [OF ideal_reachable])
    (simp_all add: closing_script_def user_finishes_def says_yes_def is_space_def to_lower_def)

lemma program_moves_after_confirmation_witness:
  "\<exists>r w' es. blow_main ideal_ros plain_lib \<lparr>cl_dbscan = (\<lambda>_ _ _. []), cl_order = (\<lambda>_. [])\<rparr> (\<lambda>_. Fin 1)
     closing_script start = Some (r, w') \<and> trace w' = trace start @ es \<and> line_positions es = []"
proof -
  let ?L = "\<lparr>cl_dbscan = (\<lambda>_ _ _. []), cl_order = (\<lambda>_. [])\<rparr>"
  have "returns (blow_main ideal_ros plain_lib ?L (\<lambda>_. Fin 1) closing_script)"
    by (rule blow_main_total [OF ideal_reachable])
      (simp_all add: closing_script_def user_finishes_def says_yes_def is_space_def to_lower_def)
  then obtain r w' where run: "blow_main ideal_ros plain_lib ?L (\<lambda>_. Fin 1) closing_script start = Some (r, w')"
    unfolding returns_def by (metis not_None_eq surj_pair)
  have "collect_keyframes plain_lib ?L (sc_mesh closing_script) T (sc_rounds closing_script) =
      Some (Inl RuntimeError)" for T
    by (simp add: closing_script_def pick_xy_from_camera_def)
  with program_moves_after_confirmation [OF run] run show ?thesis by fastforce
qed

end
