(* ===== verification/WaypointProperties.thy ===== *)
theory WaypointProperties
  imports BlowProperties Waypoint
begin

text \<open>What the smaller scripts send: the goal of the display, and the rows of the saved file.\<close>

section \<open>The current pose\<close>

text \<open>A failing lookup ends at the deadline, an answer before it is returned.\<close>

lemma pose_loop_returns:
  "deadline \<le> clock (i + n) \<Longrightarrow> \<exists>r. pose_loop clock lookup deadline i = Some r"
proof (induction n arbitrary: i)
  case 0
  then show ?case by (simp add: pose_loop.simps)
next
  case (Suc n)
  then show ?case
    using Suc.IH [of "Suc i"] by (subst pose_loop.simps) (simp split: sum.split)
qed

lemma pose_loop_skip:
  "\<forall>j < n. clock (i + j) < deadline \<and> (\<exists>e. lookup (i + j) = Inl e) \<Longrightarrow>
   pose_loop clock lookup deadline i = pose_loop clock lookup deadline (i + n)"
proof (induction n arbitrary: i)
  case (Suc n)
  from Suc.prems have "clock i < deadline" "\<exists>e. lookup i = Inl e"
    by (auto dest: spec [of _ 0])
  then have "pose_loop clock lookup deadline i = pose_loop clock lookup deadline (Suc i)"
    by (subst pose_loop.simps) auto
  also have "\<dots> = pose_loop clock lookup deadline (Suc i + n)"
    using Suc.prems by (intro Suc.IH) (metis Suc_less_eq add_Suc_shift)
  finally show ?case by simp
qed simp

lemma current_pose_outcome:
  assumes "\<forall>j < n. clock j < now + 5 \<and> (\<exists>e. lookup j = Inl e)"
  shows "clock n < now + 5 \<Longrightarrow> lookup n = Inr pose \<Longrightarrow> current_pose_of clock lookup now = Some (Inr pose)"
    and "now + 5 \<le> clock n \<Longrightarrow> current_pose_of clock lookup now = Some (Inl RuntimeError)"
  using pose_loop_skip [of n clock 0 "now + 5" lookup] assms
  by (simp_all add: current_pose_of_def pose_loop.simps)

section \<open>The goal\<close>

text \<open>The poses of the goal's marker among the messages handled before Enter was seen.\<close>

definition goal_poses :: "'p wait_round list \<Rightarrow> 'p list" where
  "goal_poses rounds =
     map snd (filter (\<lambda>m. substring ''goal'' (fst m))
       (List.map_filter snd (takeWhile (\<lambda>(entered, m). \<not> entered) rounds)))"

lemma goal_loop_value:
  "goal_loop g rounds =
     (if \<exists>(entered, m) \<in> set rounds. entered
      then Some (if goal_poses rounds = [] then g else Some (last (goal_poses rounds))) else None)"
  by (induction g rounds rule: goal_loop.induct)
    (auto simp: goal_poses_def map_filter_def goal_callback_def split: option.split)

text \<open>
  A goal is sent only for a marker that was moved while the script waited, and it is the last
  one; moves made before do not count. At most one goal is sent.
\<close>

theorem runner_sends_last_goal:
  assumes "waypoint_main I = Some (goals, r)"
  shows "(\<exists>e. goals = [] \<and> r = Inl e) \<or>
    goal_poses (wr_rounds I) \<noteq> [] \<and> goals = [goal_for (last (goal_poses (wr_rounds I)))] \<and>
      (r = Inr Succeeded \<longrightarrow> wr_sent I (hd goals) = Inr (Some True) \<and> wr_outcome I (hd goals) = Some (Inr 1))"
  using assms
  by (auto simp: waypoint_main_def wait_for_goal_pose_def goal_loop_value move_to_pose_def rbind_Inr_iff
      split: option.split_asm sum.split_asm if_split_asm)

section \<open>Replaying the file\<close>

lemma posx_of_float_list:
  assumes "length p = 6"
  shows "posx (PList (map PFloat p)) = Inr (PPosx (map PFloat p))"
proof (rule six_floats [OF assms])
  fix b c d e f g
  assume p: "p = [b, c, d, e, f, g]"
    and ok: "check_number (PList [PFloat b, PFloat c, PFloat d, PFloat e, PFloat f, PFloat g])
      DR_ERROR_TYPE = Inr ()"
  show ?thesis by (simp add: p ok posx_init_def is_list_of_len_def POINT_COUNT_def six_of_def)
qed

text \<open>
  The rows of the file become the positions of linear motions in their order, up to the first call
  that raises, and all of them if the replay returns, whether or not the robot can reach them and
  whatever the controller answers.
\<close>

theorem replay_sends_rows:
  assumes "replay R (map (map PFloat) ps) w = Some (r, w')" and "\<forall>p \<in> set ps. length p = 6"
  shows "\<exists>es k. trace w' = trace w @ es \<and> k \<le> length ps \<and>
    line_positions es = map floats (take k ps) \<and> (r = Inr () \<longrightarrow> k = length ps)"
  using assms
proof (induction ps arbitrary: w)
  case Nil
  then show ?case by auto
next
  case (Cons p ps)
  let ?m = "movel R (PPosx (map PFloat p)) (PInt 30) (PInt 30) PNone PNone PNone (PInt 0) (PInt 0)
      PNone PNone PNone PNone"
  have p: "posx (PList (map PFloat p)) = Inr (PPosx (map PFloat p))"
    using Cons.prems(2) by (intro posx_of_float_list) simp
  from Cons.prems(1) p consider
    (fails) e where "?m w = Some (Inl e, w')" "r = Inl e"
  | (goes_on) x w1 where "?m w = Some (Inr x, w1)" "replay R (map (map PFloat) ps) w1 = Some (r, w')"
    by (auto simp: then_do_def abind_Some)
  then show ?case
  proof cases
    case fails
    from movel_floats_effect [OF fails(1)] obtain es where "trace w' = trace w @ es"
      "line_positions es = [floats p] \<or> line_positions es = []" by blast
    with fails(2) show ?thesis
      by (intro exI [of _ es] exI [of _ "if line_positions es = [] then 0 else 1"]) auto
  next
    case goes_on
    from movel_floats_effect [OF goes_on(1)] obtain es1 where es1: "trace w1 = trace w @ es1"
      "line_positions es1 = [floats p]" by blast
    from Cons.IH [OF goes_on(2)] Cons.prems(2) obtain es2 k where es2: "trace w' = trace w1 @ es2"
      "k \<le> length ps" "line_positions es2 = map floats (take k ps)" "r = Inr () \<longrightarrow> k = length ps"
      by auto
    with es1 show ?thesis by (intro exI [of _ "es1 @ es2"] exI [of _ "Suc k"]) simp
  qed
qed

section \<open>The air gun\<close>

text \<open>Each switch calls the service once, for the sixth output; a refused state calls nothing.\<close>

lemma tool_airgun_effect:
  assumes "tool_airgun R failure state w = Some (r, w')"
  shows "r = Inl AssertionError \<and> w' = w \<or>
    trace w' = trace w @ [Called tool_service [(''index'', PInt 6), (''value'', state)]]"
  using assms
  by (auto simp: tool_airgun_def Let_def abind_Some note_exc_def split: if_splits reply.splits)

end
