(* ===== verification/Views.thy ===== *)
theory Views
  imports Demos WaypointProperties
begin

text \<open>
  What a program asks for, in order: a view keeps some of the events and names them, and an action
  emits a list when every run of it shows a prefix of the list, and the whole list if it returns
  without an exception. The rules follow the structure of the actions; a view has to ignore the
  polls for a service and the shutdown, and is then enough for all service functions.
\<close>

section \<open>Emitted steps\<close>

definition seen :: "(event \<Rightarrow> 'x option) \<Rightarrow> event list \<Rightarrow> 'x list" where
  "seen f es = List.map_filter f es"

lemma seen_simps [simp]:
  "seen f [] = []"
  "seen f (e # es) = (case f e of None \<Rightarrow> [] | Some x \<Rightarrow> [x]) @ seen f es"
  "seen f (es @ es') = seen f es @ seen f es'"
  by (simp_all add: seen_def map_filter_def split: option.split)

definition emits :: "(event \<Rightarrow> 'x option) \<Rightarrow> 'a act \<Rightarrow> 'x list \<Rightarrow> bool" where
  "emits f m xs \<longleftrightarrow> (\<forall>w r w'. m w = Some (r, w') \<longrightarrow>
     (\<exists>es. trace w' = trace w @ es \<and> prefix (seen f es) xs \<and> (\<forall>x. r = Inr x \<longrightarrow> seen f es = xs)))"

lemma emits_abind:
  assumes "emits f m xs" and "\<And>w x w'. m w = Some (Inr x, w') \<Longrightarrow> emits f (g x) ys"
  shows "emits f (abind m g) (xs @ ys)"
  unfolding emits_def
proof (intro allI impI)
  fix w r w' assume "abind m g w = Some (r, w')"
  then consider e where "m w = Some (Inl e, w')" "r = Inl e"
    | x w1 where "m w = Some (Inr x, w1)" "g x w1 = Some (r, w')"
    by (auto simp: abind_Some)
  then show "\<exists>es. trace w' = trace w @ es \<and> prefix (seen f es) (xs @ ys) \<and>
      (\<forall>x. r = Inr x \<longrightarrow> seen f es = xs @ ys)"
  proof cases
    case 1
    from assms(1) 1(1) obtain es where "trace w' = trace w @ es" "prefix (seen f es) xs"
      unfolding emits_def by blast
    with 1(2) show ?thesis by (intro exI [of _ es] conjI) (auto intro: prefix_prefix)
  next
    case 2
    with assms(1) obtain es1 where 3: "trace w1 = trace w @ es1" "seen f es1 = xs"
      unfolding emits_def by blast
    from assms(2) [OF 2(1)] have "emits f (g x) ys" .
    from this [unfolded emits_def, rule_format, OF 2(2)] obtain es2 where "trace w' = trace w1 @ es2"
      "prefix (seen f es2) ys" "\<forall>x. r = Inr x \<longrightarrow> seen f es2 = ys"
      by auto
    with 3 show ?thesis by (intro exI [of _ "es1 @ es2"]) simp
  qed
qed

lemma emits_then_do:
  "emits f m xs \<Longrightarrow> emits f n ys \<Longrightarrow> emits f (then_do m n) (xs @ ys)"
  unfolding then_do_def by (intro emits_abind)

lemma emits_return: "emits f (\<lambda>w. Some (r, w)) []"
  by (simp add: emits_def)

text \<open>A view of the events that ignores polls and shutdowns.\<close>

locale view =
  fixes f :: "event \<Rightarrow> 'x option"
  assumes polled: "f (Polled srv b) = None"
    and shut: "f Shutdown = None"
begin

lemma seen_polls: "only_polls ps \<Longrightarrow> seen f ps = []"
  by (induction ps) (auto simp: only_polls_def polled)

lemma emits_lift_res: "emits f (lift_res r) []"
  unfolding emits_def by (auto simp: lift_res_def note_exc_def log_def shut split: sum.split_asm)

lemma emits_after_value:
  assumes "\<And>x. r = Inr x \<Longrightarrow> emits f (g x) ys"
  shows "emits f (abind (lift_res r) g) ys"
proof (cases r)
  case (Inl e)
  then show ?thesis by (auto simp: emits_def abind_def note_exc_def log_def shut)
next
  case (Inr x)
  then have "abind (lift_res r) g = g x" by (simp add: abind_def fun_eq_iff)
  with assms [OF Inr] show ?thesis by simp
qed

lemma emits_update: "(\<And>w. trace (h w) = trace w) \<Longrightarrow> emits f (update_world h) []"
  by (auto simp: emits_def update_world_def)

lemma emits_shutdown: "emits f (update_world (log Shutdown)) []"
  by (auto simp: emits_def update_world_def shut)

lemma emits_service_fun:
  assumes "\<And>w fs. request w = Inr fs \<Longrightarrow> seen f [Called srv fs] = xs"
  shows "emits f (service_fun R waits srv request before on_result) xs"
  unfolding emits_def
proof (intro allI impI)
  fix w r w' assume "service_fun R waits srv request before on_result w = Some (r, w')"
  from service_fun_effect [OF this] consider e where "r = Inl e" "w' = note_exc e w"
    | fs ps sd where "request w = Inr fs" "only_polls ps" "sd = [] \<or> sd = [Shutdown]"
      "w' = w\<lparr>trace := trace w @ ps @ Called srv fs # sd\<rparr>"
    by blast
  then show "\<exists>es. trace w' = trace w @ es \<and> prefix (seen f es) xs \<and> (\<forall>x. r = Inr x \<longrightarrow> seen f es = xs)"
  proof cases
    case 1
    then show ?thesis by (auto simp: note_exc_def log_def shut intro!: exI [of _ "[Shutdown]"])
  next
    case (2 fs ps sd)
    have "seen f (ps @ Called srv fs # sd) = xs"
      using 2(3) assms [OF 2(1)] by (auto simp: seen_polls [OF 2(2)] shut)
    with 2(4) show ?thesis by (intro exI [of _ "ps @ Called srv fs # sd"]) simp
  qed
qed

end

text \<open>The rounds of a loop.\<close>

definition emits_rounds :: "(event \<Rightarrow> 'x option) \<Rightarrow> 'a act \<Rightarrow> 'x list \<Rightarrow> 'x list \<Rightarrow> bool" where
  "emits_rounds f m ys xs \<longleftrightarrow> (\<forall>w r w'. m w = Some (r, w') \<longrightarrow>
     (\<exists>n es. trace w' = trace w @ es \<and> prefix (seen f es) (ys @ concat (replicate n xs))))"

lemma emits_before_rounds:
  assumes "emits f m ps" and "emits_rounds f n ys xs"
  shows "emits_rounds f (then_do m n) (ps @ ys) xs"
  unfolding emits_rounds_def then_do_def
proof (intro allI impI)
  fix w r w' assume "abind m (\<lambda>_. n) w = Some (r, w')"
  then consider e where "m w = Some (Inl e, w')" | x w1 where "m w = Some (Inr x, w1)" "n w1 = Some (r, w')"
    by (auto simp: abind_Some)
  then show "\<exists>k es. trace w' = trace w @ es \<and> prefix (seen f es) ((ps @ ys) @ concat (replicate k xs))"
  proof cases
    case 1
    from assms(1) [unfolded emits_def, rule_format, OF 1] show ?thesis
      by (auto intro: prefix_prefix)
  next
    case 2
    from assms(1) [unfolded emits_def, rule_format, OF 2(1)] obtain es1
      where es1: "trace w1 = trace w @ es1" "seen f es1 = ps" by auto
    from assms(2) [unfolded emits_rounds_def, rule_format, OF 2(2)] obtain k es2
      where "trace w' = trace w1 @ es2" "prefix (seen f es2) (ys @ concat (replicate k xs))" by auto
    with es1 show ?thesis by (intro exI [of _ k] exI [of _ "es1 @ es2"]) simp
  qed
qed

lemma emits_after_rounds:
  assumes "emits_rounds f m ys xs" and "emits f n []"
  shows "emits_rounds f (then_do m n) ys xs"
  unfolding emits_rounds_def then_do_def
proof (intro allI impI)
  fix w r w' assume "abind m (\<lambda>_. n) w = Some (r, w')"
  then obtain r1 w1 where m: "m w = Some (r1, w1)"
    and rest: "w' = w1 \<or> n w1 = Some (r, w')"
    by (auto simp: abind_Some)
  from assms(1) [unfolded emits_rounds_def, rule_format, OF m] obtain k es1
    where es1: "trace w1 = trace w @ es1" "prefix (seen f es1) (ys @ concat (replicate k xs))" by auto
  obtain es2 where "trace w' = trace w1 @ es2" "seen f es2 = []"
    using rest assms(2) [unfolded emits_def, rule_format, of w1 r w'] by auto
  with es1 show "\<exists>k es. trace w' = trace w @ es \<and> prefix (seen f es) (ys @ concat (replicate k xs))"
    by (intro exI [of _ k] exI [of _ "es1 @ es2"]) simp
qed

lemma emits_while:
  assumes "emits f body xs"
  shows "emits_rounds f (while_ok ok body i) [] xs"
  unfolding emits_rounds_def append_Nil
proof (intro allI impI)
  fix w r w'
  let ?Q = "\<lambda>w w'. \<exists>n es. trace w' = trace w @ es \<and> prefix (seen f es) (concat (replicate n xs))"
  let ?P = "\<lambda>ok b i w y. b = body \<longrightarrow> ?Q w (snd y)"
  assume "while_ok ok body i w = Some (r, w')"
  then have "?P ok body i w (r, w')"
  proof (rule while_ok.raw_induct [of ?P, rotated])
    fix loop ok b i w y
    assume IH: "\<And>ok b i w y. loop ok b i w = Some y \<Longrightarrow> ?P ok b i w y"
      and step: "(if ok i then case b w of None \<Rightarrow> None | Some (Inl e, w') \<Rightarrow> Some (Inl e, w')
          | Some (Inr x, w') \<Rightarrow> loop ok b (Suc i) w' else Some (Inr (), w)) = Some y"
    show "?P ok b i w y"
    proof (cases "ok i")
      case False
      with step show ?thesis by (auto intro!: exI [of _ 0] exI [of _ "[]"])
    next
      case True
      show ?thesis
      proof
        assume "b = body"
        with True step consider e w1 where "body w = Some (Inl e, w1)" "y = (Inl e, w1)"
          | w1 where "body w = Some (Inr (), w1)" "loop ok body (Suc i) w1 = Some y"
          by (auto split: option.splits sum.splits)
        then show "?Q w (snd y)"
        proof cases
          case 1
          from assms [unfolded emits_def, rule_format, OF 1(1)] 1(2) show ?thesis
            by (auto intro: exI [of _ 1])
        next
          case 2
          from assms [unfolded emits_def, rule_format, OF 2(1)] obtain es1
            where es1: "trace w1 = trace w @ es1" "seen f es1 = xs" by auto
          from IH [OF 2(2)] obtain n es2 where "trace (snd y) = trace w1 @ es2"
            "prefix (seen f es2) (concat (replicate n xs))" by auto
          with es1 show ?thesis by (intro exI [of _ "Suc n"] exI [of _ "es1 @ es2"]) simp
        qed
      qed
    qed
  qed
  then show "?Q w w'" by simp
qed

context view
begin

lemma rounds_after_value:
  assumes "\<And>x. r = Inr x \<Longrightarrow> emits_rounds f (g x) ys xs"
  shows "emits_rounds f (abind (lift_res r) g) ys xs"
proof (cases r)
  case (Inl e)
  then show ?thesis by (auto simp: emits_rounds_def abind_def note_exc_def log_def shut)
next
  case (Inr x)
  then have "abind (lift_res r) g = g x" by (simp add: abind_def fun_eq_iff)
  with assms [OF Inr] show ?thesis by simp
qed

lemma emits_limits:
  "emits f (set_velx v1 v2) []" "emits f (set_accx v1 v2) []"
proof -
  have "emits f (abind (update_world h) (\<lambda>_. lift_res (Inr (PInt 0)))) ([] @ [])"
    if "\<And>w. trace (h w) = trace w" for h
    by (intro emits_abind emits_update emits_lift_res that)
  then show "emits f (set_velx v1 v2) []" "emits f (set_accx v1 v2) []"
    unfolding set_velx_def set_accx_def by (auto intro!: emits_after_value)
qed

end

end
