(* ===== verification/DanceProperties.thy ===== *)
theory DanceProperties
  imports Views
begin

text \<open>
  The example programs as sequences of services, and that the library refuses no call of
  dance_m1013.py.
\<close>

section \<open>Programs as sequences of services\<close>

definition called :: "event \<Rightarrow> string option" where
  "called e = (case e of Called srv fs \<Rightarrow> Some srv | _ \<Rightarrow> None)"

interpretation calls: view called
  by unfold_locales (simp_all add: called_def)

lemma run_calls_emits: "list_all is_motion cs \<Longrightarrow> emits called (run_calls R cs) (map service_of cs)"
proof (induction cs)
  case Nil
  then show ?case by (simp add: emits_return)
next
  case (Cons c cs)
  have "emits called (run_api R c) [service_of c]"
    using Cons.prems by (simp add: run_api_motion calls.emits_service_fun called_def)
  from emits_then_do [OF this Cons.IH] Cons.prems show ?case by simp
qed

lemma calls_service: "emits called (service_fun R waits srv request before on_result) [srv]"
  by (rule calls.emits_service_fun) (simp add: called_def)

lemma calls_of_functions:
  "emits called (set_robot_mode R m) [''system/set_robot_mode'']"
  "emits called (call_movej R q vel acc) [''motion/move_joint'']"
  "emits called (call_movel R p vel acc) [''motion/move_line'']"
  "emits called (get_current_posx R ref) [''aux_control/get_current_posx'']"
  unfolding set_robot_mode_def int_setter_def call_movej_def movej_def movej_impl_def
    call_movel_def movel_def movel_impl_def get_current_posx_def
  by (rule calls_service)+

lemma calls_script_movej: "emits called (script_movej R q vel acc) [''motion/move_joint'']"
  unfolding script_movej_def movej_def movej_impl_def
  by (intro calls.emits_after_value calls_service)

lemma calls_current_position: "emits called (current_position R) ([''aux_control/get_current_posx''] @ [])"
  unfolding current_position_def by (intro emits_abind calls_of_functions calls.emits_lift_res)

text \<open>demo.py reads the position before each linear motion, and moves nothing on a failed answer.\<close>

theorem demo_calls:
  "emits called (demo_main R)
     [''system/set_robot_mode'', ''motion/move_joint'', ''aux_control/get_current_posx'',
      ''motion/move_line'', ''aux_control/get_current_posx'', ''motion/move_line'']"
proof -
  have "emits called (demo_main R)
     ([''system/set_robot_mode''] @ [''motion/move_joint''] @ ([''aux_control/get_current_posx''] @ []) @
      [''motion/move_line''] @ ([''aux_control/get_current_posx''] @ []) @ [''motion/move_line''] @ [])"
    unfolding demo_main_def
    by (intro emits_then_do emits_abind calls.emits_after_value calls_of_functions calls_script_movej
        calls_current_position calls.emits_shutdown)
  then show ?thesis by simp
qed

text \<open>single_robot_simple.py makes all its positions and then alternates two motions.\<close>

theorem single_calls:
  "emits_rounds called (single_main R ok) [''system/set_robot_mode'']
     [''motion/move_joint'', ''motion/move_line'']"
proof -
  have "emits called (single_round R p) ([''motion/move_joint''] @ [''motion/move_line''] @ [])" for p
    unfolding single_round_def by (intro emits_then_do calls_of_functions calls.emits_lift_res)
  then have "emits_rounds called (single_main R ok) ([''system/set_robot_mode''] @ [] @ [] @ [])
      [''motion/move_joint'', ''motion/move_line'']"
    unfolding single_main_def
    by (intro emits_before_rounds calls.rounds_after_value emits_after_rounds emits_while
        calls_of_functions calls.emits_limits calls.emits_shutdown) simp
  then show ?thesis by simp
qed

section \<open>dance_m1013.py\<close>

fun literal :: "pyval \<Rightarrow> bool" where
  "literal (PInt n) \<longleftrightarrow> \<bar>n\<bar> < 2 ^ 53"
| "literal (PFloat f) \<longleftrightarrow> True"
| "literal _ \<longleftrightarrow> False"

definition six_literals :: "pyval \<Rightarrow> bool" where
  "six_literals p = (case p of PList xs \<Rightarrow> length xs = 6 \<and> list_all literal xs | _ \<Rightarrow> False)"

lemma literal_float: "literal v \<Longrightarrow> \<exists>f. py_float v = Inr f"
  by (cases v rule: literal.cases) auto

lemma literal_number: "literal x \<Longrightarrow> py_type x \<noteq> TStr \<and> is_number x = Inr True"
  by (cases x rule: literal.cases) auto

lemma literals_floats: "list_all literal xs \<Longrightarrow> \<exists>fs. map_res py_float xs = Inr fs"
  by (induction xs) (auto simp: rbind_Inr_iff dest: literal_float)

lemma six_literalsE:
  assumes "six_literals p"
  obtains x xs fs where "p = PList (x # xs)" "literal x" "length xs = 5" "map_res py_float (x # xs) = Inr fs"
  using assms literals_floats [of "_ # _"]
  by (force simp: six_literals_def length_Suc_conv numeral_eq_Suc split: pyval.splits simp del: map_res.simps)
lemma literal_positions:
  assumes "six_literals p"
  shows "\<exists>xs fs. p = PList xs \<and> get_posj p = Inr (PPosj xs) \<and> get_normal_pos p (Some TPosx) = Inr (PPosx xs) \<and>
    float_list (PPosj xs) = Inr (floats fs) \<and> float_list (PPosx xs) = Inr (floats fs)"
proof (rule six_literalsE [OF assms])
  fix x xs fs
  assume p: "p = PList (x # xs)" and x: "literal x" and l: "length xs = 5"
    and f: "map_res py_float (x # xs) = Inr fs"
  obtain b c d e g where xs: "xs = [b, c, d, e, g]" using l by (auto simp: numeral_eq_Suc length_Suc_conv)
  have six: "six_of [x, b, c, d, e, g] = Inr [x, b, c, d, e, g]" by (simp add: six_of_def POINT_COUNT_def)
  show ?thesis
    using f literal_number [OF x]
    by (intro exI [of _ "x # xs"] exI [of _ fs])
      (simp add: p xs six get_posj_def get_normal_pos_def is_list_of_len_def POINT_COUNT_def
       check_number_def posj_init_def posx_init_def raise_if_def float_list_def py_floats_def 
       del: map_res.simps)
qed

definition positive_time :: "pyval \<Rightarrow> bool" where
  "positive_time t \<longleftrightarrow> (\<exists>n. t = PInt n \<and> 0 < n \<and> n < 2 ^ 53) \<or> (\<exists>q. t = PFloat (Fin q) \<and> 0 < q) \<or>
     t = PFloat PosInf"

definition radius_given :: "pyval \<Rightarrow> bool" where
  "radius_given r \<longleftrightarrow> r = PNone \<or> (\<exists>n. r = PInt n \<and> 0 \<le> n \<and> n < 2 ^ 53)"

lemma time_positive:
  assumes "positive_time t"
  shows "\<exists>f. time_param PNone t = Inr t \<and> time_unused t = Inr False \<and> py_float t = Inr f"
  using assms by (auto simp: positive_time_def time_param_def time_unused_def raise_if_def Let_def)

lemma radius_accepted:
  assumes "radius_given r" and "\<not> g_blend_state w"
  shows "\<exists>v f. radius_param w r PNone = Inr v \<and> py_float v = Inr f"
  using assms by (auto simp: radius_given_def radius_param_def raise_if_def Let_def)

lemma joint_accepted: "0 \<le> n \<Longrightarrow> n < 2 ^ 53 \<Longrightarrow>
    joint_param d PNone (PInt n) = Inr (PList (replicate 6 (PInt n)))"
  by (simp add: joint_param_def choose_param_def check_items_def check_number_def negative_item_def
      raise_if_def numeral_eq_Suc)

text \<open>The state the setters of the program leave.\<close>

definition dance_state :: "world \<Rightarrow> bool" where
  "dance_state w \<longleftrightarrow> \<not> g_blend_state w \<and> g_coord w = PInt DR_BASE \<and>
     g_velx w = PList [PInt 30, PInt 20] \<and> g_accx w = PList [PInt 60, PInt 40]"

lemmas accepted_defs = check_two_values_int async_code_def async_radius_def float_field_def
  raise_if_def

lemma movej_accepted:
  assumes "six_literals q" and "radius_given r" and "0 \<le> n" "n < 2 ^ 53" and "positive_time t"
    and "dance_state w"
  shows "\<exists>fs. call_request ideal_ros (dance_movej q r (PInt n) (PInt n) t) w = Inr fs"
proof -
  obtain xs fs where p: "get_posj q = Inr (PPosj xs)" "float_list (PPosj xs) = Inr (floats fs)"
    using literal_positions [OF assms(1)] by blast
  obtain v f where r: "radius_param w r PNone = Inr v" "py_float v = Inr f"
    using radius_accepted [OF assms(2), of w] assms(6) unfolding dance_state_def by blast
  obtain g where t: "time_param PNone t = Inr t" "time_unused t = Inr False" "py_float t = Inr g"
    using time_positive [OF assms(5)] by blast
  have m: "py_index (PList (replicate 6 (PInt n))) 0 = Inr (PInt n)" "float_of_int n = Inr (Fin (of_int n))"
    using assms(3,4) by (auto simp: py_index_def)
  show ?thesis
    by (simp add: movej_request_def p r t m joint_accepted [OF assms(3,4)] check_valid_vel_acc_joint_def
        accepted_defs)
qed

lemma movel_accepted:
  assumes "six_literals p" and "radius_given r" and "ref \<in> {PNone, PInt DR_BASE, PInt DR_TOOL}"
    and "positive_time t" and "dance_state w"
  shows "\<exists>fs. call_request ideal_ros (dance_movel p r ref t) w = Inr fs"
proof -
  obtain xs fs where p: "get_normal_pos p (Some TPosx) = Inr (PPosx xs)" "float_list (PPosx xs) = Inr (floats fs)"
    using literal_positions [OF assms(1)] by blast
  obtain v f where r: "radius_param w r PNone = Inr v" "py_float v = Inr f"
    using radius_accepted [OF assms(2), of w] assms(5) unfolding dance_state_def by blast
  obtain g where t: "time_param PNone t = Inr t" "time_unused t = Inr False" "py_float t = Inr g"
    using time_positive [OF assms(4)] by blast
  obtain c where c: "motion_ref w ref = Inr (PInt c)"
    using assms(3,5) by (auto simp: motion_ref_def default_ref_def dance_state_def raise_if_def)
  have vel: "task_param d dance_velx PNone = Inr dance_velx" "task_param d dance_accx PNone = Inr dance_accx"
    "float_list dance_velx = Inr (floats [Fin 0, Fin 0])" "float_list dance_accx = Inr (floats [Fin 0, Fin 0])" for d
    by (simp_all add: dance_velx_def dance_accx_def task_param_def choose_param_def check_items_def
        check_number_def negative_task_item_def raise_if_def is_list_of_len_def float_list_def py_floats_def)
  show ?thesis
    by (simp add: movel_request_def p r t c vel check_valid_vel_acc_task_def accepted_defs)
qed

lemma dance_positions_literal:
  "list_all six_literals [dance_JReady, dance_J00, dance_J01r, dance_J02r, dance_J03r, dance_J04r,
     dance_J04r1, dance_J04r2, dance_J04r3, dance_J04r4, dance_J05r, dance_J07r, dance_J08r,
     dance_JEnd, dance_dREL1, dance_dREL2, dance_J1, dance_X0, dance_X1, dance_X2, dance_X3,
     dance_x01, dance_x02, dance_x03, dance_x04]"
  by (simp add: six_literals_def dance_JReady_def dance_J00_def dance_J01r_def dance_J02r_def
      dance_J03r_def dance_J04r_def dance_J04r1_def dance_J04r2_def dance_J04r3_def dance_J04r4_def
      dance_J05r_def dance_J07r_def dance_J08r_def dance_JEnd_def dance_dREL1_def dance_dREL2_def
      dance_J1_def dance_X0_def dance_X1_def dance_X2_def dance_X3_def dance_x01_def dance_x02_def
      dance_x03_def dance_x04_def)

lemma ready_accepted:
  "dance_state w \<Longrightarrow>
   \<exists>fs. call_request ideal_ros (dance_movej dance_JReady PNone (PInt 20) (PInt 20) PNone) w = Inr fs"
  using literal_positions [of dance_JReady] dance_positions_literal
  by (auto simp: movej_request_def joint_accepted time_param_def radius_param_def Let_def
      check_valid_vel_acc_joint_def time_unused_def accepted_defs dance_state_def py_index_def numeral_eq_Suc)


lemma positive_time_int: "0 < n \<Longrightarrow> n < 2 ^ 53 \<Longrightarrow> positive_time (PInt n)"
  by (simp add: positive_time_def)

lemma positive_time_dec: "1 / 100 \<le> q \<Longrightarrow> positive_time (dec q)"
  using float_of_rat_half [of q] by (fastforce simp: positive_time_def)

lemma dance_arguments:
  "positive_time (PInt 1)" "positive_time (PInt 2)" "positive_time (PInt 3)" "positive_time (PInt 4)"
  "positive_time (PInt 6)" "positive_time (dec (5 / 2))" "positive_time (dec (3 / 2))"
  "radius_given PNone" "radius_given (PInt 50)" "radius_given (PInt 100)"
  by (simp_all add: positive_time_int positive_time_dec radius_given_def)

lemma periodic_accepted:
  "\<exists>fs. call_request ideal_ros
     (CMovePeriodic False dance_amp dance_period (PInt 0) (PInt 1) (PInt DR_TOOL)) w = Inr fs"
  by (simp add: periodic_request_def dance_amp_def dance_period_def float_list_def py_floats_def accepted_defs
      py_len_def period_param_def nonneg_or_default_def periodic_ref_def POINT_COUNT_def check_num_def int_field_def)

lemma spiral_accepted:
  "\<exists>fs. call_request ideal_ros
     (CMoveSpiral False (PInt 3) (PInt 200) (PInt 100) PNone PNone PNone (PInt DR_AXIS_X) (PInt
       DR_TOOL) dance_vel_spi dance_acc_spi (PInt 0)) w = Inr fs"
  by (simp add: spiral_request_def dance_vel_spi_def dance_acc_spi_def spiral_param_def
      choose_param_def check_items_def check_number_def negative_item_def time_param_def Let_def
      check_valid_vel_acc_joint_def time_unused_def is_list_of_len_def accepted_defs float_list_def
      py_floats_def check_positive_def check_num_def)

lemma circle_accepted:
  assumes "dance_state w" shows "\<exists>fs. call_request ideal_ros
    (CMovec False dance_x02 dance_x04 PNone PNone PNone (PInt 360) (PInt DR_BASE) (PInt
       DR_MV_MOD_ABS) PNone (PInt DR_MV_RA_DUPLICATE) dance_velx dance_accx (PInt 4) PNone PNone) w = Inr fs"
  using assms
  by (simp add: movec_request_def dance_state_def dance_x02_def dance_x04_def dance_velx_def
      dance_accx_def get_normal_pos_def check_number_def posx_init_def six_of_def POINT_COUNT_def
      is_list_of_len_def task_param_def choose_param_def check_items_def negative_task_item_def
      time_param_def time_unused_def radius_param_def motion_ref_def default_ref_def Let_def
      check_valid_vel_acc_task_def accepted_defs float_list_def py_floats_def angle_param_def negative_item_def
      list_to_multiarray_def py_index_def)

lemma round_accepted:
  assumes "dance_state w"
  shows "\<forall>c \<in> set dance_round. \<exists>fs. call_request ideal_ros c w = Inr fs"
proof -
  note six = dance_positions_literal [unfolded list.pred_inject]
  show ?thesis
    unfolding dance_round_def list.set ball_simps
    by (intro conjI TrueI movej_accepted movel_accepted ready_accepted periodic_accepted
        spiral_accepted circle_accepted assms dance_arguments) (simp_all add: six)
qed

lemma accepted_run:
  "\<forall>c \<in> set cs. is_motion c \<and> (\<forall>w. dance_state w \<longrightarrow> (\<exists>fs. call_request ideal_ros c w = Inr fs)) \<Longrightarrow>
   dance_state w \<Longrightarrow> \<exists>w'. run_calls ideal_ros cs w = Some (Inr (), w') \<and> dance_state w'"
proof (induction cs arbitrary: w)
  case (Cons c cs)
  then obtain fs where "is_motion c" "call_request ideal_ros c w = Inr fs" by auto
  then obtain es where run: "run_api ideal_ros c w = Some (Inr (PInt 0), w\<lparr>trace := trace w @ es\<rparr>)"
    by (simp add: run_api_motion)
  have "dance_state (w\<lparr>trace := trace w @ es\<rparr>)" using Cons.prems(2) by (simp add: dance_state_def)
  with Cons.IH Cons.prems(1) run show ?case by (simp add: then_do_def abind_def)
qed simp

lemma dance_motions: "list_all is_motion dance_round"
  by (simp add: dance_round_def)

lemma dance_round_runs:
  assumes "dance_state w"
  obtains w' es where "run_calls ideal_ros dance_round w = Some (Inr (), w')" "dance_state w'"
    "trace w' = trace w @ es" "seen called es = map service_of dance_round"
proof -
  obtain w' where w': "run_calls ideal_ros dance_round w = Some (Inr (), w')" "dance_state w'"
    using accepted_run [OF _ assms, of dance_round] round_accepted dance_motions
    unfolding list_all_iff by blast
  from run_calls_emits [OF dance_motions, unfolded emits_def, rule_format, OF w'(1)] that [OF w']
  show ?thesis by auto
qed

lemma dance_loop:
  "dance_state w \<Longrightarrow> (\<forall>j < n. ok (i + j)) \<Longrightarrow> \<not> ok (i + n) \<Longrightarrow>
   \<exists>w' es. while_ok ok (run_calls ideal_ros dance_round) i w = Some (Inr (), w') \<and>
     trace w' = trace w @ es \<and> seen called es = concat (replicate n (map service_of dance_round))"
proof (induction n arbitrary: i w)
  case 0
  then show ?case by (subst while_ok.simps) (auto intro: exI [of _ "[]"])
next
  case (Suc n)
  obtain w1 es1 where 1: "run_calls ideal_ros dance_round w = Some (Inr (), w1)" "dance_state w1"
    "trace w1 = trace w @ es1" "seen called es1 = map service_of dance_round"
    using dance_round_runs [OF Suc.prems(1)] by blast
  have "\<forall>j < n. ok (Suc i + j)" "\<not> ok (Suc i + n)" "ok i"
    using Suc.prems by (auto dest: spec [of _ 0] spec [of _ "Suc _"])
  with Suc.IH [OF 1(2), of "Suc i"] obtain w2 es2
    where "while_ok ok (run_calls ideal_ros dance_round) (Suc i) w1 = Some (Inr (), w2)"
      "trace w2 = trace w1 @ es2" "seen called es2 = concat (replicate n (map service_of dance_round))"
    by blast
  with 1 \<open>ok i\<close> show ?case
    by (subst while_ok.simps) (auto intro!: exI [of _ "es1 @ es2"])
qed

text \<open>
  On a robot that accepts and confirms everything, no call of the dance is refused by the library:
  while \<^verbatim>\<open>rclpy.ok()\<close> is true each round asks for its motions in their order, and then the program
  ends without an exception.
\<close>

theorem dance_runs:
  assumes "\<forall>j < n. ok j" and "\<not> ok n"
  shows "\<exists>w'. dance_main ideal_ros ok start = Some (Inr (), w') \<and>
    seen called (trace w') = concat (replicate n (map service_of dance_round))"
proof -
  obtain w where w: "run_calls ideal_ros dance_setup start = Some (Inr (), w)" "dance_state w" "trace w = []"
    by (simp add: dance_setup_def then_do_def abind_def set_velx_def set_accx_def update_world_def
        task_pair_value_def dance_state_def start_def)
  from dance_loop [OF w(2), of n ok 0] assms obtain w' es
    where "while_ok ok (run_calls ideal_ros dance_round) 0 w = Some (Inr (), w')"
      "trace w' = trace w @ es" "seen called es = concat (replicate n (map service_of dance_round))"
    by auto
  with w show ?thesis
    by (simp add: dance_main_def then_do_def abind_def update_world_def called_def)
qed

end
