(* ===== verification/DemoProperties.thy ===== *)
theory DemoProperties
  imports DanceProperties
begin

text \<open>
  What demo2.py asks of the robot and the air gun, and slope_demo.py of the robot and the gripper, in any
  environment, with a whole run of demo2.py.
\<close>

section \<open>demo2.py\<close>




















section \<open>A whole run of demo2.py\<close>
























section \<open>slope_demo.py\<close>

datatype slope_step = Grip pyval | Approach | Carry | Swing

definition slope_view :: "event \<Rightarrow> slope_step option" where
  "slope_view e = (case e of
       Published topic fs \<Rightarrow> if topic = gripper_topic then Some (Grip (fld fs ''data'')) else None
     | Called srv fs \<Rightarrow>
         if srv = ''motion/move_line'' then Some Approach
         else if srv = ''motion/move_spline_task'' then Some Carry
         else if srv = ''motion/move_joint'' then Some Swing else None
     | _ \<Rightarrow> None)"

interpretation slope: view slope_view
  by unfold_locales (simp_all add: slope_view_def)

lemma slope_moves:
  "emits slope_view (call_movel R p vel acc) [Approach]"
  "emits slope_view (call_movej R p vel acc) [Swing]"
  "emits slope_view (movesx R l vel acc time ref md opt v a t) [Carry]"
  "emits slope_view (set_robot_mode R m) []"
  unfolding call_movel_def movel_def movel_impl_def call_movej_def movej_def movej_impl_def
    movesx_def movesx_impl_def set_robot_mode_def int_setter_def
  by (rule slope.emits_service_fun; simp add: slope_view_def)+

lemma slope_gripper: "emits slope_view (move_gripper R d) [Grip (PList [d])]"
  unfolding move_gripper_def
proof (rule slope.emits_after_value)
  fix fs assume fs: "set_fields R gripper_topic [(''data'', Inr (PList [d]))] = Inr fs"
  then have "fs = [(''data'', PList [d])]" by (auto split: if_splits)
  then show "emits slope_view (publish R gripper_topic fs) [Grip (PList [d])]"
    by (auto simp: emits_def publish_def log_def slope_view_def split: option.splits)
qed

definition round_steps :: "slope_step list" where
  "round_steps =
     [Approach, Approach, Grip (PList [gripper_closed]), Carry, Grip (PList [gripper_open]), Swing]"

lemma slope_round_steps: "emits slope_view (slope_round R ps xs) round_steps"
proof -
  have "emits slope_view (slope_round R ps xs) ([Approach] @ [Approach] @ [Grip (PList [gripper_closed])] @
      [Carry] @ [Grip (PList [gripper_open])] @ [Swing] @ [])"
    unfolding slope_round_def by (intro emits_then_do slope_moves slope_gripper slope.emits_lift_res)
  then show ?thesis by (simp add: round_steps_def)
qed

text \<open>Only the spline moves with the gripper closed; \<open>g\<close>: the last command of the gripper.\<close>

fun carries :: "pyval \<Rightarrow> slope_step list \<Rightarrow> bool" where
  "carries g [] \<longleftrightarrow> True"
| "carries g (Grip d # s) \<longleftrightarrow> carries d s"
| "carries g (Carry # s) \<longleftrightarrow> g = PList [gripper_closed] \<and> carries g s"
| "carries g (m # s) \<longleftrightarrow> g \<noteq> PList [gripper_closed] \<and> carries g s"

lemma carries_prefix: "carries g (xs @ ys) \<Longrightarrow> carries g xs"
  by (induction g xs rule: carries.induct) auto

lemma float_of_rat_sign:
  assumes "q \<noteq> 0"
  shows "is_negative (float_of_rat q) \<longleftrightarrow> q < 0"
proof -
  define k where "k = max (lead_exp \<bar>q\<bar> - 52) (-1074)"
  define a where "a = of_int (round_half_even (\<bar>q\<bar> / pow2 k)) * pow2 k"
  have "0 \<le> a" by (simp add: a_def less_imp_le round_half_even_nonneg)
  moreover have "float_of_rat q =
      (if 2 ^ 1024 \<le> a then (if q < 0 then NegInf else PosInf)
       else if q < 0 then (if a = 0 then NegZero else Fin (- a)) else Fin a)"
    using assms by (simp add: float_of_rat_def Let_def k_def a_def)
  ultimately show ?thesis by (auto simp: is_negative_def simp del: power_numeral)
qed

lemma gripper_commands: "gripper_open \<noteq> gripper_closed"
  using float_of_rat_sign [of "- (1 / 10)"] float_of_rat_sign [of "4 / 5"] by auto

lemma carries_rounds: "g \<noteq> PList [gripper_closed] \<Longrightarrow> carries g (concat (replicate n round_steps))"
  using gripper_commands by (induction n arbitrary: g) (auto simp: round_steps_def)

text \<open>
  slope_demo.py moves along the spline only after the gripper was told to close, and makes every other move
  while the last command, if any, was to open.
\<close>

theorem slope_carries_closed:
  assumes "slope_main R ok w = Some (r, w')"
  shows "\<exists>es. trace w' = trace w @ es \<and> carries PNone (seen slope_view es)"
proof -
  let ?first = "[] @ [] @ [] @ [Swing] @ [Swing] @ [Grip (PList [gripper_open])] @ []"
  have "emits_rounds slope_view (slope_main R ok) ?first round_steps"
    unfolding slope_main_def 
    by (intro emits_before_rounds slope.rounds_after_value emits_after_rounds emits_while
        slope_moves slope.emits_limits slope_gripper slope_round_steps slope.emits_shutdown)
  from this [unfolded emits_rounds_def, rule_format, OF assms] obtain n es
    where es: "trace w' = trace w @ es" "prefix (seen slope_view es) (?first @ concat (replicate n round_steps))"
    by auto
  have "carries PNone (?first @ concat (replicate n round_steps))"
    using carries_rounds gripper_commands by simp
  with es(2) have "carries PNone (seen slope_view es)"
    by (auto simp only: prefix_def dest: carries_prefix)
  with es(1) show ?thesis by blast
qed

end
