(* ===== verification/LaunchModel.thy ===== *)
theory LaunchModel
  imports Prelude
begin

text \<open>
  What a ROS 2 launch file builds: a list of actions over substitutions, nodes and event
  handlers, with the constructors of the launch and launch_ros packages. The launch service itself
  is not part of the repository. A run of it is a list of events, the newest first, and
  \<open>obeys\<close> states the documented behaviour that the theorems assume of it: a node is started, a
  function called or a file included only where the description asks for it, under the conditions
  of the enclosing groups and after the events of the enclosing handlers.
\<close>

section \<open>Descriptions\<close>

datatype subst =
    Text string
  | LaunchConfiguration string
  | PathJoin "subst list"
  | FindExecutable string
  | FindPackageShare string
  | Command "subst list"
  | PythonExpression "subst list"

datatype condition = IfCondition subst | UnlessCondition subst

text \<open>The value of a parameter: a constant or a substitution (a Python string is a text).\<close>

datatype pvalue = PvBool bool | PvInt int | PvSubst subst

text \<open>
  The result of \<^verbatim>\<open>MoveItConfigsBuilder\<close> with the calls made on it, and the parts of it that are
  handed to a node.
\<close>

record moveit_config =
  mc_robot :: string
  mc_package :: "string option"
  mc_urdf :: string
  mc_srdf :: string
  mc_controllers :: string
  mc_pipelines :: "(string list \<times> string \<times> bool) option"

datatype moveit_part =
  WholeConfig | RobotDescription | RobotSemantic | PlanningPipelines | RobotKinematics | JointLimits

datatype param =
    Params "(string \<times> pvalue) list"
  | ParamFile "subst list"
  | ParamMoveIt moveit_config moveit_part

text \<open>The arguments of \<^verbatim>\<open>Node(...)\<close>; an argument that is not given is \<^const>\<open>None\<close> or empty.\<close>

record ros_node =
  node_package :: string
  node_executable :: string
  node_name :: "string option"
  node_namespace :: "subst option"
  node_arguments :: "subst list"
  node_parameters :: "param list"
  node_remappings :: "(string \<times> string) list"
  node_condition :: "condition option"
  node_output :: "string option"

definition plain_node :: "string \<Rightarrow> string \<Rightarrow> ros_node" where
  "plain_node pkg exe =
     \<lparr>node_package = pkg, node_executable = exe, node_name = None, node_namespace = None,
      node_arguments = [], node_parameters = [], node_remappings = [], node_condition = None,
      node_output = None\<rparr>"

datatype action =
    DeclareLaunchArgument string string
  | SetLaunchConfiguration string string
  | Node ros_node
  | IncludeLaunchDescription "subst list" "(string \<times> subst) list"
  | GroupAction condition "action list"
  | SetRemap string string
  | OnProcessExit ros_node "action list"
  | OnProcessStart ros_node "action list"
  | TimerAction rat "action list"
  | OpaqueFunction string

text \<open>
  What the files read while they build a description: the share directory of a package and the
  update rate (\<^verbatim>\<open>str(read_update_rate())\<close>).
\<close>

record build =
  share :: "string \<Rightarrow> string"
  update_rate :: string

text \<open>\<^verbatim>\<open>os.path.join\<close>\<close>

fun join_two :: "string \<Rightarrow> string \<Rightarrow> string" where
  "join_two a b =
     (if b \<noteq> [] \<and> hd b = CHR ''/'' then b
      else if a = [] \<or> last a = CHR ''/'' then a @ b
      else a @ ''/'' @ b)"

fun path_join :: "string \<Rightarrow> string list \<Rightarrow> string" where
  "path_join a [] = a"
| "path_join a (b # bs) = path_join (join_two a b) bs"

definition example_build :: build where
  "example_build = \<lparr>share = (\<lambda>p. ''/opt/'' @ p), update_rate = ''100''\<rparr>"

section \<open>Where an action stands in a description\<close>

datatype guard = AfterExit ros_node | AfterStart ros_node

text \<open>
  The actions that can be carried out on their own, each with the conditions and the events it
  waits for.
\<close>

type_synonym site = "condition list \<times> guard list \<times> action"

fun sites :: "action \<Rightarrow> site list" where
  "sites (GroupAction c acts) =
     map (\<lambda>(cs, gs, a). (c # cs, gs, a)) (concat (map sites acts))"
| "sites (OnProcessExit n acts) =
     map (\<lambda>(cs, gs, a). (cs, AfterExit n # gs, a)) (concat (map sites acts))"
| "sites (OnProcessStart n acts) =
     map (\<lambda>(cs, gs, a). (cs, AfterStart n # gs, a)) (concat (map sites acts))"
| "sites (TimerAction t acts) = concat (map sites acts)"
| "sites (Node n) = [(case node_condition n of None \<Rightarrow> [] | Some c \<Rightarrow> [c], [], Node n)]"
| "sites a = [([], [], a)]"

definition all_sites :: "action list \<Rightarrow> site list" where
  "all_sites d = concat (map sites d)"

definition actions_in :: "action list \<Rightarrow> action list" where
  "actions_in d = map (\<lambda>(_, _, a). a) (all_sites d)"

definition nodes_in :: "action list \<Rightarrow> ros_node list" where
  "nodes_in d = concat (map (\<lambda>a. case a of Node n \<Rightarrow> [n] | _ \<Rightarrow> []) (actions_in d))"

section \<open>Runs of the launch service\<close>

datatype event =
    Started ros_node
  | Exited ros_node
  | Called string "action list"
  | Included "subst list" "(string \<times> subst) list" "action list"

text \<open>
  What a run depends on beside the description: which conditions hold, which actions a function
  may return and which description an included file may give.
\<close>

record launcher =
  holds :: "condition \<Rightarrow> bool"
  returns :: "string \<Rightarrow> action list \<Rightarrow> bool"
  loads :: "subst list \<Rightarrow> action list \<Rightarrow> bool"

fun occurred :: "event list \<Rightarrow> guard \<Rightarrow> bool" where
  "occurred es (AfterExit n) = (Exited n \<in> set es)"
| "occurred es (AfterStart n) = (Started n \<in> set es)"

fun brings :: "event \<Rightarrow> action list" where
  "brings (Called f acts) = acts"
| "brings (Included s args acts) = acts"
| "brings _ = []"

fun loaded :: "event list \<Rightarrow> action list" where
  "loaded [] = []"
| "loaded (e # es) = loaded es @ brings e"

definition permitted :: "launcher \<Rightarrow> action list \<Rightarrow> event list \<Rightarrow> action \<Rightarrow> bool" where
  "permitted L d es a =
     list_ex (\<lambda>(cs, gs, b). b = a \<and> list_all (holds L) cs \<and> list_all (occurred es) gs)
       (all_sites (d @ loaded es))"

fun justified :: "launcher \<Rightarrow> action list \<Rightarrow> event list \<Rightarrow> event \<Rightarrow> bool" where
  "justified L d es (Started n) = permitted L d es (Node n)"
| "justified L d es (Exited n) = (Started n \<in> set es)"
| "justified L d es (Called f acts) = (permitted L d es (OpaqueFunction f) \<and> returns L f acts)"
| "justified L d es (Included s args acts) =
     (permitted L d es (IncludeLaunchDescription s args) \<and> loads L s acts)"

fun obeys :: "launcher \<Rightarrow> action list \<Rightarrow> event list \<Rightarrow> bool" where
  "obeys L d [] = True"
| "obeys L d (e # es) = (obeys L d es \<and> justified L d es e)"

text \<open>\<open>precedes a b tr\<close>: every \<open>b\<close> of the run comes after an \<open>a\<close>.\<close>

definition precedes :: "event \<Rightarrow> event \<Rightarrow> event list \<Rightarrow> bool" where
  "precedes a b tr = (\<forall>xs ys. tr = xs @ b # ys \<longrightarrow> a \<in> set ys)"

section \<open>What the conditions mean\<close>

text \<open>
  The documented values: a configuration as a condition is true or 1, false or 0; a Python
  expression that compares a configuration with a constant compares the two strings.
\<close>

definition quote :: string where
  "quote = [CHR 0x27]"

definition conditions_mean :: "(condition \<Rightarrow> bool) \<Rightarrow> (string \<Rightarrow> string) \<Rightarrow> bool" where
  "conditions_mean h cfg \<longleftrightarrow>
     (\<forall>x. h (IfCondition (LaunchConfiguration x)) \<longrightarrow> cfg x \<in> {''true'', ''1''}) \<and>
     (\<forall>x. h (UnlessCondition (LaunchConfiguration x)) \<longrightarrow> cfg x \<in> {''false'', ''0''}) \<and>
     (\<forall>x v. h (IfCondition (PythonExpression [Text quote, LaunchConfiguration x,
              Text (quote @ '' == '' @ quote @ v @ quote)])) \<longrightarrow> cfg x = v)"

section \<open>Reading the configurations\<close>

text \<open>The configurations that a substitution, a parameter, a condition or a node reads.\<close>

fun subst_reads :: "subst \<Rightarrow> string list" where
  "subst_reads (LaunchConfiguration x) = [x]"
| "subst_reads (PathJoin ss) = concat (map subst_reads ss)"
| "subst_reads (Command ss) = concat (map subst_reads ss)"
| "subst_reads (PythonExpression ss) = concat (map subst_reads ss)"
| "subst_reads _ = []"

fun condition_reads :: "condition \<Rightarrow> string list" where
  "condition_reads (IfCondition s) = subst_reads s"
| "condition_reads (UnlessCondition s) = subst_reads s"

fun pvalue_reads :: "pvalue \<Rightarrow> string list" where
  "pvalue_reads (PvSubst s) = subst_reads s"
| "pvalue_reads _ = []"

fun param_reads :: "param \<Rightarrow> string list" where
  "param_reads (Params kvs) = concat (map (\<lambda>(k, v). pvalue_reads v) kvs)"
| "param_reads (ParamFile ss) = concat (map subst_reads ss)"
| "param_reads (ParamMoveIt m part) = []"

definition node_reads :: "ros_node \<Rightarrow> string list" where
  "node_reads n =
     (case node_condition n of None \<Rightarrow> [] | Some c \<Rightarrow> condition_reads c) @
     (case node_namespace n of None \<Rightarrow> [] | Some s \<Rightarrow> subst_reads s) @
     concat (map subst_reads (node_arguments n)) @
     concat (map param_reads (node_parameters n))"

text \<open>
  The configurations that are read before the description has given them a value, when \<open>B\<close> are
  set already; \<open>sets\<close> are those that a function sets. A group keeps what it sets to itself, and
  the actions of a handler see what is set when it is registered.
\<close>

fun unset_action :: "(string \<Rightarrow> string list) \<Rightarrow> string list \<Rightarrow> action \<Rightarrow> string list \<times> string list"
and unset_actions ::
  "(string \<Rightarrow> string list) \<Rightarrow> string list \<Rightarrow> action list \<Rightarrow> string list \<times> string list" where
  "unset_action S B (DeclareLaunchArgument x v) = (x # B, [])"
| "unset_action S B (SetLaunchConfiguration x v) = (x # B, [])"
| "unset_action S B (Node n) = (B, filter (\<lambda>x. x \<notin> set B) (node_reads n))"
| "unset_action S B (IncludeLaunchDescription s args) =
     (map fst args @ B,
      filter (\<lambda>x. x \<notin> set B)
        (concat (map subst_reads s) @ concat (map (\<lambda>(k, v). subst_reads v) args)))"
| "unset_action S B (GroupAction c acts) =
     (B, filter (\<lambda>x. x \<notin> set B) (condition_reads c) @ snd (unset_actions S B acts))"
| "unset_action S B (SetRemap a b) = (B, [])"
| "unset_action S B (OnProcessExit n acts) = (B, snd (unset_actions S B acts))"
| "unset_action S B (OnProcessStart n acts) = (B, snd (unset_actions S B acts))"
| "unset_action S B (TimerAction t acts) = (B, snd (unset_actions S B acts))"
| "unset_action S B (OpaqueFunction f) = (S f @ B, [])"
| "unset_actions S B [] = (B, [])"
| "unset_actions S B (a # acts) =
     (case unset_action S B a of (B1, xs) \<Rightarrow>
        case unset_actions S B1 acts of (B2, ys) \<Rightarrow> (B2, xs @ ys))"

definition reads_unset :: "action list \<Rightarrow> string list" where
  "reads_unset d = remdups (snd (unset_actions (\<lambda>_. []) [] d))"

section \<open>Lemmas on runs\<close>

lemma precedesI:
  assumes "\<And>xs ys. tr = xs @ b # ys \<Longrightarrow> a \<in> set ys"
  shows "precedes a b tr"
  using assms unfolding precedes_def by blast

lemma precedesD: "precedes a b (xs @ b # ys) \<Longrightarrow> a \<in> set ys"
  unfolding precedes_def by blast

lemma precedes_suffix: "precedes a b (xs @ ys) \<Longrightarrow> precedes a b ys"
  unfolding precedes_def by (metis append_assoc)

lemma precedes_trans:
  assumes "precedes a b tr" "precedes b c tr"
  shows "precedes a c tr"
proof (rule precedesI)
  fix xs ys
  assume tr: "tr = xs @ c # ys"
  then obtain us vs where ys: "ys = us @ b # vs"
    using assms(2) precedesD by (metis split_list)
  then have "a \<in> set vs"
    using assms(1) tr precedesD[of a b "xs @ c # us" vs] by simp
  then show "a \<in> set ys"
    using ys by simp
qed

lemma precedes_occurs:
  assumes "precedes a b tr" "b \<in> set tr"
  shows "a \<in> set tr"
  using assms by (metis precedesD in_set_conv_decomp in_set_conv_decomp_first Un_iff set_append list.set_intros(2))

lemma obeys_append: "obeys L d (xs @ ys) \<Longrightarrow> obeys L d ys"
  by (induction xs) auto

lemma obeys_split: "obeys L d (xs @ e # ys) \<Longrightarrow> obeys L d ys \<and> justified L d ys e"
  by (drule obeys_append) simp

lemma exit_after_start: "obeys L d tr \<Longrightarrow> precedes (Started n) (Exited n) tr"
  by (rule precedesI) (auto dest: obeys_split)

lemma all_sites_simps [simp]:
  "all_sites [] = []"
  "all_sites (a # d) = sites a @ all_sites d"
  "all_sites (d @ d') = all_sites d @ all_sites d'"
  by (simp_all add: all_sites_def)

text \<open>A property of the sites of every description that a run can load holds of those it loaded.\<close>

definition closed_under :: "(site \<Rightarrow> bool) \<Rightarrow> launcher \<Rightarrow> action list \<Rightarrow> bool" where
  "closed_under P L d \<longleftrightarrow> list_all P (all_sites d) \<and>
     (\<forall>f acts. returns L f acts \<longrightarrow> list_all P (all_sites acts)) \<and>
     (\<forall>s acts. loads L s acts \<longrightarrow> list_all P (all_sites acts))"

lemma loaded_sites:
  assumes "closed_under P L d" "obeys L d tr"
  shows "list_all P (all_sites (d @ loaded tr))"
  using assms(2)
proof (induction tr)
  case Nil
  then show ?case
    using assms(1) by (simp add: closed_under_def)
next
  case (Cons e es)
  then show ?case
    using assms(1) by (cases e) (auto simp: closed_under_def)
qed

text \<open>
  An action whose every site waits for an event, is carried out after that event; one whose every
  site has a condition, only when that holds.
\<close>

definition waits_for :: "action \<Rightarrow> guard \<Rightarrow> site \<Rightarrow> bool" where
  "waits_for a g x = (case x of (cs, gs, b) \<Rightarrow> b = a \<longrightarrow> g \<in> set gs)"

definition needs :: "action \<Rightarrow> condition \<Rightarrow> site \<Rightarrow> bool" where
  "needs a c x = (case x of (cs, gs, b) \<Rightarrow> b = a \<longrightarrow> c \<in> set cs)"

lemma permitted_waits:
  assumes "closed_under (waits_for a g) L d" "obeys L d es" "permitted L d es a"
  shows "occurred es g"
  using loaded_sites[OF assms(1,2)] assms(3)
  unfolding permitted_def waits_for_def list_ex_iff list_all_iff by fastforce

lemma permitted_needs:
  assumes "closed_under (needs a c) L d" "obeys L d es" "permitted L d es a"
  shows "holds L c"
  using loaded_sites[OF assms(1,2)] assms(3)
  unfolding permitted_def needs_def list_ex_iff list_all_iff by fastforce

text \<open>An action without a site is never carried out.\<close>

lemma permitted_absent:
  assumes "closed_under (\<lambda>(cs, gs, b). b \<noteq> a) L d" "obeys L d es"
  shows "\<not> permitted L d es a"
  using loaded_sites[OF assms]
  unfolding permitted_def list_ex_iff list_all_iff by fastforce

lemma start_after:
  assumes "closed_under (waits_for (Node n) g) L d" "obeys L d tr"
  shows "precedes (case g of AfterExit m \<Rightarrow> Exited m | AfterStart m \<Rightarrow> Started m) (Started n) tr"
proof (rule precedesI)
  fix xs ys
  assume "tr = xs @ Started n # ys"
  then have "occurred ys g"
    using assms obeys_split permitted_waits by (metis justified.simps(1))
  then show "(case g of AfterExit m \<Rightarrow> Exited m | AfterStart m \<Rightarrow> Started m) \<in> set ys"
    by (cases g) simp_all
qed

lemmas start_after_exit = start_after[where g = "AfterExit m" for m, simplified]
lemmas start_after_start = start_after[where g = "AfterStart m" for m, simplified]

text \<open>Where an action that is carried out comes from.\<close>

lemma set_loaded:
  "x \<in> set (all_sites (loaded es)) \<longleftrightarrow> (\<exists>e\<in>set es. x \<in> set (all_sites (brings e)))"
  by (induction es) auto

lemma permitted_from:
  assumes "permitted L d es a"
  shows "a \<in> set (actions_in d) \<or> (\<exists>e\<in>set es. a \<in> set (actions_in (brings e)))"
  using assms unfolding permitted_def list_ex_iff actions_in_def
  by (force simp: set_loaded)

lemma obeys_member:
  assumes "obeys L d tr" "e \<in> set tr"
  obtains xs ys where "tr = xs @ e # ys" "obeys L d ys" "justified L d ys e"
proof -
  obtain xs ys where "tr = xs @ e # ys"
    using assms(2) by (metis split_list)
  then show thesis
    using that obeys_split assms(1) by metis
qed

lemma call_after:
  assumes "closed_under (waits_for (OpaqueFunction f) (AfterExit n)) L d" "obeys L d tr"
  shows "precedes (Exited n) (Called f acts) tr"
  using assms permitted_waits obeys_split
  by (intro precedesI) (metis justified.simps(3) occurred.simps(1))

lemma include_after:
  assumes "\<And>args. closed_under (waits_for (IncludeLaunchDescription s args) (AfterExit n)) L d"
    "obeys L d tr"
  shows "precedes (Exited n) (Included s args acts) tr"
  using assms permitted_waits obeys_split
  by (intro precedesI) (metis justified.simps(4) occurred.simps(1))

lemma nodes_in_iff: "n \<in> set (nodes_in d) \<longleftrightarrow> Node n \<in> set (actions_in d)"
  by (auto simp: nodes_in_def split: action.splits intro: bexI[of _ "Node n"])

lemma in_nothing [simp]: "actions_in [] = []" "nodes_in [] = []"
  by (simp_all add: actions_in_def nodes_in_def)

end
