(* ===== verification/LaunchBringup.thy ===== *)
theory LaunchBringup
  imports LaunchModel
begin

text \<open>
  The launch files of dsr_bringup2 and dsr_tests. There is one definition per variable of a file, with the name of the
  variable after the name of the file; the definition with the file's name alone is the description
  that the file returns. The descriptions of arguments, printing and \<^verbatim>\<open>show_git_info\<close> are
  left out.
\<close>

section \<open>dsr_bringup2_rviz.launch.py\<close>

definition bringup_rviz_ARGUMENTS :: "action list" where
  "bringup_rviz_ARGUMENTS =
     [DeclareLaunchArgument ''name'' ''dsr01'',
      DeclareLaunchArgument ''host'' ''127.0.0.1'',
      DeclareLaunchArgument ''port'' ''12345'',
      DeclareLaunchArgument ''mode'' ''virtual'',
      DeclareLaunchArgument ''model'' ''m1013'',
      DeclareLaunchArgument ''color'' ''white'',
      DeclareLaunchArgument ''gui'' ''false'',
      DeclareLaunchArgument ''gz'' ''false'',
      DeclareLaunchArgument ''rt_host'' ''192.168.137.50'',
      DeclareLaunchArgument ''remap_tf'' ''false'']"

definition bringup_rviz_xacro_path :: "build \<Rightarrow> string" where
  "bringup_rviz_xacro_path B = path_join (share B ''dsr_description2'') [''xacro'']"

definition bringup_rviz_mode :: subst where
  "bringup_rviz_mode = LaunchConfiguration ''mode''"

definition bringup_rviz_update_rate :: "build \<Rightarrow> string" where
  "bringup_rviz_update_rate B = update_rate B"

definition bringup_rviz_robot_description_content :: "build \<Rightarrow> subst" where
  "bringup_rviz_robot_description_content B =
     Command [PathJoin [FindExecutable ''xacro''], Text '' '',
      PathJoin [FindPackageShare ''dsr_description2'', Text ''xacro'',
      LaunchConfiguration ''model''], Text ''.urdf.xacro'', Text '' name:='',
      LaunchConfiguration ''name'', Text '' host:='', LaunchConfiguration ''host'',
      Text '' rt_host:='', LaunchConfiguration ''rt_host'', Text '' port:='',
      LaunchConfiguration ''port'', Text '' mode:='', LaunchConfiguration ''mode'',
      Text '' model:='', LaunchConfiguration ''model'', Text '' update_rate:='',
      Text (bringup_rviz_update_rate B)]"

definition bringup_rviz_robot_description :: "build \<Rightarrow> (string \<times> pvalue) list" where
  "bringup_rviz_robot_description B =
     [(''robot_description'', PvSubst (bringup_rviz_robot_description_content B))]"

definition bringup_rviz_robot_controllers :: "subst list" where
  "bringup_rviz_robot_controllers =
     [PathJoin [FindPackageShare ''dsr_controller2'', Text ''config'',
      Text ''dsr_update_rate.yaml''], PathJoin [FindPackageShare ''dsr_controller2'',
      Text ''config'', Text ''dsr_controller2.yaml'']]"

definition bringup_rviz_rviz_config_file :: subst where
  "bringup_rviz_rviz_config_file =
     PathJoin [FindPackageShare ''dsr_description2'', Text ''rviz'', Text ''default.rviz'']"

definition bringup_rviz_run_emulator_node :: ros_node where
  "bringup_rviz_run_emulator_node =
     (plain_node ''dsr_bringup2'' ''run_emulator'')
      \<lparr>node_namespace := Some (LaunchConfiguration ''name''),
       node_parameters := [Params [(''name'', PvSubst (LaunchConfiguration ''name''))],
        Params [(''rate'', PvInt 100)],
        Params [(''standby'', PvInt 5000)],
        Params [(''command'', PvBool True)],
        Params [(''host'', PvSubst (LaunchConfiguration ''host''))],
        Params [(''port'', PvSubst (LaunchConfiguration ''port''))],
        Params [(''mode'', PvSubst (LaunchConfiguration ''mode''))],
        Params [(''model'', PvSubst (LaunchConfiguration ''model''))],
        Params [(''gripper'', PvSubst (Text ''none''))],
        Params [(''mobile'', PvSubst (Text ''none''))],
        Params [(''rt_host'', PvSubst (LaunchConfiguration ''rt_host''))]],
       node_condition := Some (IfCondition (PythonExpression [Text quote, bringup_rviz_mode,
       Text (quote @ '' == '' @ quote @ ''virtual'' @ quote)])),
       node_output := Some ''screen''\<rparr>"

definition bringup_rviz_control_node :: "build \<Rightarrow> ros_node" where
  "bringup_rviz_control_node B =
     (plain_node ''controller_manager'' ''ros2_control_node'')
      \<lparr>node_namespace := Some (LaunchConfiguration ''name''),
       node_parameters := ([Params (bringup_rviz_robot_description B)]
       @ map (\<lambda>s. ParamFile [s]) bringup_rviz_robot_controllers),
       node_output := Some ''both''\<rparr>"

definition bringup_rviz_robot_state_pub_node :: "build \<Rightarrow> ros_node" where
  "bringup_rviz_robot_state_pub_node B =
     (plain_node ''robot_state_publisher'' ''robot_state_publisher'')
      \<lparr>node_name := Some ''robot_state_publisher'',
       node_namespace := Some (LaunchConfiguration ''name''),
       node_parameters := [Params [(''robot_description'', PvSubst (Command [Text ''xacro'',
       Text '' '', Text (bringup_rviz_xacro_path B), Text ''/'', LaunchConfiguration ''model'',
       Text ''.urdf.xacro color:='', LaunchConfiguration ''color'', Text '' name:='',
       LaunchConfiguration ''name'', Text '' host:='', LaunchConfiguration ''host'',
       Text '' rt_host:='', LaunchConfiguration ''rt_host'', Text '' port:='',
       LaunchConfiguration ''port'', Text '' mode:='', LaunchConfiguration ''mode'',
       Text '' model:='', LaunchConfiguration ''model'', Text '' update_rate:='',
       Text (bringup_rviz_update_rate B)]))]],
       node_output := Some ''both''\<rparr>"

definition bringup_rviz_rviz_node :: ros_node where
  "bringup_rviz_rviz_node =
     (plain_node ''rviz2'' ''rviz2'')
      \<lparr>node_name := Some ''rviz2'',
       node_namespace := Some (LaunchConfiguration ''name''),
       node_arguments := [Text ''-d'', bringup_rviz_rviz_config_file],
       node_output := Some ''log''\<rparr>"

definition bringup_rviz_original_tf_nodes :: "build \<Rightarrow> action" where
  "bringup_rviz_original_tf_nodes B =
     GroupAction (UnlessCondition (LaunchConfiguration ''remap_tf''))
      [Node (bringup_rviz_robot_state_pub_node B),
      Node bringup_rviz_rviz_node]"

definition bringup_rviz_remapped_tf_nodes :: "build \<Rightarrow> action" where
  "bringup_rviz_remapped_tf_nodes B =
     GroupAction (IfCondition (LaunchConfiguration ''remap_tf''))
      [SetRemap ''/tf'' ''tf'',
      SetRemap ''/tf_static'' ''tf_static'',
      Node (bringup_rviz_robot_state_pub_node B),
      Node bringup_rviz_rviz_node]"

definition bringup_rviz_joint_state_broadcaster_spawner :: ros_node where
  "bringup_rviz_joint_state_broadcaster_spawner =
     (plain_node ''controller_manager'' ''spawner'')
      \<lparr>node_namespace := Some (LaunchConfiguration ''name''),
       node_arguments := [Text ''joint_state_broadcaster'', Text ''-c'',
       Text ''controller_manager'']\<rparr>"

definition bringup_rviz_robot_controller_spawner :: ros_node where
  "bringup_rviz_robot_controller_spawner =
     (plain_node ''controller_manager'' ''spawner'')
      \<lparr>node_namespace := Some (LaunchConfiguration ''name''),
       node_arguments := [Text ''dsr_controller2'', Text ''-c'',
       Text ''controller_manager'']\<rparr>"

definition bringup_rviz_delay_rviz_after_joint_state_broadcaster_spawner :: action where
  "bringup_rviz_delay_rviz_after_joint_state_broadcaster_spawner =
     OnProcessExit bringup_rviz_robot_controller_spawner
     [Node bringup_rviz_rviz_node]"

definition bringup_rviz_delay_robot_controller_spawner_after_joint_state_broadcaster_spawner :: action where
  "bringup_rviz_delay_robot_controller_spawner_after_joint_state_broadcaster_spawner =
     OnProcessExit bringup_rviz_joint_state_broadcaster_spawner
     [Node bringup_rviz_robot_controller_spawner]"

definition bringup_rviz_nodes :: "build \<Rightarrow> action list" where
  "bringup_rviz_nodes B =
     [Node bringup_rviz_run_emulator_node,
      bringup_rviz_original_tf_nodes B,
      bringup_rviz_remapped_tf_nodes B,
      Node bringup_rviz_robot_controller_spawner,
      Node bringup_rviz_joint_state_broadcaster_spawner,
      Node (bringup_rviz_control_node B)]"

definition bringup_rviz :: "build \<Rightarrow> action list" where
  "bringup_rviz B = bringup_rviz_ARGUMENTS @ (bringup_rviz_nodes B)"

lemmas bringup_rviz_defs = bringup_rviz_ARGUMENTS_def bringup_rviz_xacro_path_def
  bringup_rviz_mode_def bringup_rviz_update_rate_def bringup_rviz_robot_description_content_def
  bringup_rviz_robot_description_def bringup_rviz_robot_controllers_def
  bringup_rviz_rviz_config_file_def bringup_rviz_run_emulator_node_def
  bringup_rviz_control_node_def bringup_rviz_robot_state_pub_node_def bringup_rviz_rviz_node_def
  bringup_rviz_original_tf_nodes_def bringup_rviz_remapped_tf_nodes_def
  bringup_rviz_joint_state_broadcaster_spawner_def bringup_rviz_robot_controller_spawner_def
  bringup_rviz_delay_rviz_after_joint_state_broadcaster_spawner_def
  bringup_rviz_delay_robot_controller_spawner_after_joint_state_broadcaster_spawner_def
  bringup_rviz_nodes_def bringup_rviz_def

section \<open>dsr_bringup2_gazebo.launch.py\<close>

definition bringup_gazebo_ARGUMENTS :: "action list" where
  "bringup_gazebo_ARGUMENTS =
     [DeclareLaunchArgument ''name'' ''dsr01'',
      DeclareLaunchArgument ''host'' ''127.0.0.1'',
      DeclareLaunchArgument ''port'' ''12345'',
      DeclareLaunchArgument ''mode'' ''virtual'',
      DeclareLaunchArgument ''model'' ''m1013'',
      DeclareLaunchArgument ''color'' ''white'',
      DeclareLaunchArgument ''gui'' ''false'',
      DeclareLaunchArgument ''gz'' ''true'',
      DeclareLaunchArgument ''x'' ''0'',
      DeclareLaunchArgument ''y'' ''0'',
      DeclareLaunchArgument ''z'' ''0'',
      DeclareLaunchArgument ''R'' ''0'',
      DeclareLaunchArgument ''P'' ''0'',
      DeclareLaunchArgument ''Y'' ''0'',
      DeclareLaunchArgument ''rt_host'' ''192.168.137.50'',
      DeclareLaunchArgument ''use_sim_time'' ''true'',
      DeclareLaunchArgument ''remap_tf'' ''false'']"

definition bringup_gazebo_set_use_sim_time :: action where
  "bringup_gazebo_set_use_sim_time = SetLaunchConfiguration ''use_sim_time'' ''true''"

definition bringup_gazebo_xacro_path :: "build \<Rightarrow> string" where
  "bringup_gazebo_xacro_path B = path_join (share B ''dsr_description2'') [''xacro'']"

definition bringup_gazebo_gui :: subst where
  "bringup_gazebo_gui = LaunchConfiguration ''gui''"

definition bringup_gazebo_mode :: subst where
  "bringup_gazebo_mode = LaunchConfiguration ''mode''"

definition bringup_gazebo_update_rate :: "build \<Rightarrow> string" where
  "bringup_gazebo_update_rate B = update_rate B"

definition bringup_gazebo_robot_description_content :: "build \<Rightarrow> subst" where
  "bringup_gazebo_robot_description_content B =
     Command [PathJoin [FindExecutable ''xacro''], Text '' '',
      PathJoin [FindPackageShare ''dsr_description2'', Text ''xacro'',
      LaunchConfiguration ''model''], Text ''.urdf.xacro'', Text '' name:='',
      LaunchConfiguration ''name'', Text '' host:='', LaunchConfiguration ''host'',
      Text '' rt_host:='', LaunchConfiguration ''rt_host'', Text '' port:='',
      LaunchConfiguration ''port'', Text '' mode:='', LaunchConfiguration ''mode'',
      Text '' model:='', LaunchConfiguration ''model'', Text '' update_rate:='',
      Text (bringup_gazebo_update_rate B)]"

definition bringup_gazebo_robot_description :: "build \<Rightarrow> (string \<times> pvalue) list" where
  "bringup_gazebo_robot_description B =
     [(''robot_description'', PvSubst (bringup_gazebo_robot_description_content B))]"

definition bringup_gazebo_robot_controllers :: subst where
  "bringup_gazebo_robot_controllers =
     PathJoin [FindPackageShare ''dsr_controller2'', Text ''config'', Text ''dsr_controller2.yaml'']"

definition bringup_gazebo_rviz_config_file :: subst where
  "bringup_gazebo_rviz_config_file =
     PathJoin [FindPackageShare ''dsr_description2'', Text ''rviz'', Text ''default.rviz'']"

definition bringup_gazebo_run_emulator_node :: ros_node where
  "bringup_gazebo_run_emulator_node =
     (plain_node ''dsr_bringup2'' ''run_emulator'')
      \<lparr>node_namespace := Some (LaunchConfiguration ''name''),
       node_parameters := [Params [(''name'', PvSubst (LaunchConfiguration ''name''))],
        Params [(''rate'', PvInt 100)],
        Params [(''standby'', PvInt 5000)],
        Params [(''command'', PvBool True)],
        Params [(''host'', PvSubst (LaunchConfiguration ''host''))],
        Params [(''port'', PvSubst (LaunchConfiguration ''port''))],
        Params [(''mode'', PvSubst (LaunchConfiguration ''mode''))],
        Params [(''model'', PvSubst (LaunchConfiguration ''model''))],
        Params [(''gripper'', PvSubst (Text ''none''))],
        Params [(''mobile'', PvSubst (Text ''none''))],
        Params [(''rt_host'', PvSubst (LaunchConfiguration ''rt_host''))]],
       node_condition := Some (IfCondition (PythonExpression [Text quote, bringup_gazebo_mode,
       Text (quote @ '' == '' @ quote @ ''virtual'' @ quote)])),
       node_output := Some ''screen''\<rparr>"

definition bringup_gazebo_gazebo_connection_node :: ros_node where
  "bringup_gazebo_gazebo_connection_node =
     (plain_node ''dsr_bringup2'' ''gazebo_connection'')
      \<lparr>node_namespace := Some (LaunchConfiguration ''name''),
       node_parameters := [Params [(''model'', PvSubst (LaunchConfiguration ''model''))]],
       node_output := Some ''log''\<rparr>"

definition bringup_gazebo_control_node :: "build \<Rightarrow> ros_node" where
  "bringup_gazebo_control_node B =
     (plain_node ''controller_manager'' ''ros2_control_node'')
      \<lparr>node_namespace := Some (LaunchConfiguration ''name''),
       node_parameters := [Params (bringup_gazebo_robot_description B),
        ParamFile [bringup_gazebo_robot_controllers]]\<rparr>"

definition bringup_gazebo_robot_state_pub_node :: "build \<Rightarrow> ros_node" where
  "bringup_gazebo_robot_state_pub_node B =
     (plain_node ''robot_state_publisher'' ''robot_state_publisher'')
      \<lparr>node_name := Some ''robot_state_publisher'',
       node_namespace := Some (LaunchConfiguration ''name''),
       node_parameters := [Params [(''robot_description'', PvSubst (Command [Text ''xacro'',
       Text '' '', Text (bringup_gazebo_xacro_path B), Text ''/'', LaunchConfiguration ''model'',
       Text ''.urdf.xacro color:='', LaunchConfiguration ''color'']))]],
       node_output := Some ''both''\<rparr>"

definition bringup_gazebo_rviz_node :: ros_node where
  "bringup_gazebo_rviz_node =
     (plain_node ''rviz2'' ''rviz2'')
      \<lparr>node_name := Some ''rviz2'',
       node_namespace := Some (LaunchConfiguration ''name''),
       node_arguments := [Text ''-d'', bringup_gazebo_rviz_config_file],
       node_condition := Some (IfCondition bringup_gazebo_gui),
       node_output := Some ''log''\<rparr>"

definition bringup_gazebo_robot_controller_spawner :: ros_node where
  "bringup_gazebo_robot_controller_spawner =
     (plain_node ''controller_manager'' ''spawner'')
      \<lparr>node_namespace := Some (LaunchConfiguration ''name''),
       node_arguments := [Text ''dsr_controller2'', Text ''-c'',
       Text ''controller_manager'']\<rparr>"

definition bringup_gazebo_delay_rviz_after_joint_state_broadcaster_spawner :: action where
  "bringup_gazebo_delay_rviz_after_joint_state_broadcaster_spawner =
     OnProcessExit bringup_gazebo_robot_controller_spawner
     [Node bringup_gazebo_rviz_node]"

definition bringup_gazebo_original_tf_nodes :: "build \<Rightarrow> action" where
  "bringup_gazebo_original_tf_nodes B =
     GroupAction (UnlessCondition (LaunchConfiguration ''remap_tf''))
      [Node (bringup_gazebo_robot_state_pub_node B),
      Node bringup_gazebo_rviz_node]"

definition bringup_gazebo_remapped_tf_nodes :: "build \<Rightarrow> action" where
  "bringup_gazebo_remapped_tf_nodes B =
     GroupAction (IfCondition (LaunchConfiguration ''remap_tf''))
      [SetRemap ''/tf'' ''tf'',
      SetRemap ''/tf_static'' ''tf_static'',
      Node (bringup_gazebo_robot_state_pub_node B),
      Node bringup_gazebo_rviz_node]"

definition bringup_gazebo_joint_state_broadcaster_spawner :: ros_node where
  "bringup_gazebo_joint_state_broadcaster_spawner =
     (plain_node ''controller_manager'' ''spawner'')
      \<lparr>node_namespace := Some (LaunchConfiguration ''name''),
       node_arguments := [Text ''joint_state_broadcaster'', Text ''-c'',
       Text ''controller_manager''],
       node_parameters := [ParamFile [PathJoin [FindPackageShare ''dsr_controller2'',
       Text ''config'', Text ''joint_state_broadcaster.yaml'']]]\<rparr>"

definition bringup_gazebo_included_launch_file_path :: "build \<Rightarrow> string" where
  "bringup_gazebo_included_launch_file_path B =
     path_join (share B ''dsr_gazebo2'') [''launch'', ''dsr_gazebo.launch.py'']"

definition bringup_gazebo_included_launch :: "build \<Rightarrow> action" where
  "bringup_gazebo_included_launch B =
     IncludeLaunchDescription [Text (bringup_gazebo_included_launch_file_path B)]
     [(''use_gazebo'', LaunchConfiguration ''gz''), (''name'', LaunchConfiguration ''name''),
      (''color'', LaunchConfiguration ''color''), (''x'', LaunchConfiguration ''x''), (''y'',
      LaunchConfiguration ''y''), (''z'', LaunchConfiguration ''z''), (''R'',
      LaunchConfiguration ''R''), (''P'', LaunchConfiguration ''P''), (''Y'',
      LaunchConfiguration ''Y''), (''use_sim_time'', LaunchConfiguration ''use_sim_time'')]"

definition bringup_gazebo_included_launch_after_robot_controller_spawner :: "build \<Rightarrow> action" where
  "bringup_gazebo_included_launch_after_robot_controller_spawner B =
     OnProcessExit bringup_gazebo_robot_controller_spawner
     [bringup_gazebo_included_launch B]"

definition bringup_gazebo_nodes :: "build \<Rightarrow> action list" where
  "bringup_gazebo_nodes B =
     [bringup_gazebo_set_use_sim_time,
      Node bringup_gazebo_run_emulator_node,
      Node bringup_gazebo_gazebo_connection_node,
      bringup_gazebo_original_tf_nodes B,
      bringup_gazebo_remapped_tf_nodes B,
      Node bringup_gazebo_robot_controller_spawner,
      Node bringup_gazebo_joint_state_broadcaster_spawner,
      bringup_gazebo_included_launch_after_robot_controller_spawner B,
      Node (bringup_gazebo_control_node B)]"

definition bringup_gazebo :: "build \<Rightarrow> action list" where
  "bringup_gazebo B = bringup_gazebo_ARGUMENTS @ (bringup_gazebo_nodes B)"

lemmas bringup_gazebo_defs = bringup_gazebo_ARGUMENTS_def bringup_gazebo_set_use_sim_time_def
  bringup_gazebo_xacro_path_def bringup_gazebo_gui_def bringup_gazebo_mode_def
  bringup_gazebo_update_rate_def bringup_gazebo_robot_description_content_def
  bringup_gazebo_robot_description_def bringup_gazebo_robot_controllers_def
  bringup_gazebo_rviz_config_file_def bringup_gazebo_run_emulator_node_def
  bringup_gazebo_gazebo_connection_node_def bringup_gazebo_control_node_def
  bringup_gazebo_robot_state_pub_node_def bringup_gazebo_rviz_node_def
  bringup_gazebo_robot_controller_spawner_def
  bringup_gazebo_delay_rviz_after_joint_state_broadcaster_spawner_def
  bringup_gazebo_original_tf_nodes_def bringup_gazebo_remapped_tf_nodes_def
  bringup_gazebo_joint_state_broadcaster_spawner_def bringup_gazebo_included_launch_file_path_def
  bringup_gazebo_included_launch_def
  bringup_gazebo_included_launch_after_robot_controller_spawner_def bringup_gazebo_nodes_def
  bringup_gazebo_def

section \<open>dsr_bringup2_spawn_on_gazebo.launch.py\<close>

definition bringup_spawn_ARGUMENTS :: "action list" where
  "bringup_spawn_ARGUMENTS =
     [DeclareLaunchArgument ''name'' ''dsr01'',
      DeclareLaunchArgument ''host'' ''127.0.0.1'',
      DeclareLaunchArgument ''port'' ''12345'',
      DeclareLaunchArgument ''mode'' ''virtual'',
      DeclareLaunchArgument ''model'' ''m1013'',
      DeclareLaunchArgument ''color'' ''white'',
      DeclareLaunchArgument ''gui'' ''false'',
      DeclareLaunchArgument ''gz'' ''true'',
      DeclareLaunchArgument ''x'' ''0'',
      DeclareLaunchArgument ''y'' ''0'',
      DeclareLaunchArgument ''z'' ''0'',
      DeclareLaunchArgument ''R'' ''0'',
      DeclareLaunchArgument ''P'' ''0'',
      DeclareLaunchArgument ''Y'' ''0'',
      DeclareLaunchArgument ''rt_host'' ''192.168.137.50'',
      DeclareLaunchArgument ''use_sim_time'' ''true'',
      DeclareLaunchArgument ''remap_tf'' ''false'']"

definition bringup_spawn_set_use_sim_time :: action where
  "bringup_spawn_set_use_sim_time = SetLaunchConfiguration ''use_sim_time'' ''true''"

definition bringup_spawn_xacro_path :: "build \<Rightarrow> string" where
  "bringup_spawn_xacro_path B = path_join (share B ''dsr_description2'') [''xacro'']"

definition bringup_spawn_gui :: subst where
  "bringup_spawn_gui = LaunchConfiguration ''gui''"

definition bringup_spawn_mode :: subst where
  "bringup_spawn_mode = LaunchConfiguration ''mode''"

definition bringup_spawn_update_rate :: "build \<Rightarrow> string" where
  "bringup_spawn_update_rate B = update_rate B"

definition bringup_spawn_robot_description_content :: "build \<Rightarrow> subst" where
  "bringup_spawn_robot_description_content B =
     Command [PathJoin [FindExecutable ''xacro''], Text '' '',
      PathJoin [FindPackageShare ''dsr_description2'', Text ''xacro'',
      LaunchConfiguration ''model''], Text ''.urdf.xacro'', Text '' name:='',
      LaunchConfiguration ''name'', Text '' host:='', LaunchConfiguration ''host'',
      Text '' rt_host:='', LaunchConfiguration ''rt_host'', Text '' port:='',
      LaunchConfiguration ''port'', Text '' mode:='', LaunchConfiguration ''mode'',
      Text '' model:='', LaunchConfiguration ''model'', Text '' update_rate:='',
      Text (bringup_spawn_update_rate B)]"

definition bringup_spawn_robot_description :: "build \<Rightarrow> (string \<times> pvalue) list" where
  "bringup_spawn_robot_description B =
     [(''robot_description'', PvSubst (bringup_spawn_robot_description_content B))]"

definition bringup_spawn_robot_controllers :: subst where
  "bringup_spawn_robot_controllers =
     PathJoin [FindPackageShare ''dsr_controller2'', Text ''config'', Text ''dsr_controller2.yaml'']"

definition bringup_spawn_rviz_config_file :: subst where
  "bringup_spawn_rviz_config_file =
     PathJoin [FindPackageShare ''dsr_description2'', Text ''rviz'', Text ''default.rviz'']"

definition bringup_spawn_run_emulator_node :: ros_node where
  "bringup_spawn_run_emulator_node =
     (plain_node ''dsr_bringup2'' ''run_emulator'')
      \<lparr>node_namespace := Some (LaunchConfiguration ''name''),
       node_parameters := [Params [(''name'', PvSubst (LaunchConfiguration ''name''))],
        Params [(''rate'', PvInt 100)],
        Params [(''standby'', PvInt 5000)],
        Params [(''command'', PvBool True)],
        Params [(''host'', PvSubst (LaunchConfiguration ''host''))],
        Params [(''port'', PvSubst (LaunchConfiguration ''port''))],
        Params [(''mode'', PvSubst (LaunchConfiguration ''mode''))],
        Params [(''model'', PvSubst (LaunchConfiguration ''model''))],
        Params [(''gripper'', PvSubst (Text ''none''))],
        Params [(''mobile'', PvSubst (Text ''none''))],
        Params [(''rt_host'', PvSubst (LaunchConfiguration ''rt_host''))]],
       node_condition := Some (IfCondition (PythonExpression [Text quote, bringup_spawn_mode,
       Text (quote @ '' == '' @ quote @ ''virtual'' @ quote)])),
       node_output := Some ''screen''\<rparr>"

definition bringup_spawn_gazebo_connection_node :: ros_node where
  "bringup_spawn_gazebo_connection_node =
     (plain_node ''dsr_bringup2'' ''gazebo_connection'')
      \<lparr>node_namespace := Some (LaunchConfiguration ''name''),
       node_parameters := [Params [(''model'', PvSubst (LaunchConfiguration ''model''))]],
       node_output := Some ''log''\<rparr>"

definition bringup_spawn_control_node :: "build \<Rightarrow> ros_node" where
  "bringup_spawn_control_node B =
     (plain_node ''controller_manager'' ''ros2_control_node'')
      \<lparr>node_namespace := Some (LaunchConfiguration ''name''),
       node_parameters := [Params (bringup_spawn_robot_description B),
        ParamFile [bringup_spawn_robot_controllers]]\<rparr>"

definition bringup_spawn_robot_state_pub_node :: "build \<Rightarrow> ros_node" where
  "bringup_spawn_robot_state_pub_node B =
     (plain_node ''robot_state_publisher'' ''robot_state_publisher'')
      \<lparr>node_name := Some ''robot_state_publisher'',
       node_namespace := Some (LaunchConfiguration ''name''),
       node_parameters := [Params [(''robot_description'', PvSubst (Command [Text ''xacro'',
       Text '' '', Text (bringup_spawn_xacro_path B), Text ''/'', LaunchConfiguration ''model'',
       Text ''.urdf.xacro color:='', LaunchConfiguration ''color'']))]],
       node_output := Some ''both''\<rparr>"

definition bringup_spawn_rviz_node :: ros_node where
  "bringup_spawn_rviz_node =
     (plain_node ''rviz2'' ''rviz2'')
      \<lparr>node_name := Some ''rviz2'',
       node_namespace := Some (LaunchConfiguration ''name''),
       node_arguments := [Text ''-d'', bringup_spawn_rviz_config_file],
       node_condition := Some (IfCondition bringup_spawn_gui),
       node_output := Some ''log''\<rparr>"

definition bringup_spawn_robot_controller_spawner :: ros_node where
  "bringup_spawn_robot_controller_spawner =
     (plain_node ''controller_manager'' ''spawner'')
      \<lparr>node_namespace := Some (LaunchConfiguration ''name''),
       node_arguments := [Text ''dsr_controller2'', Text ''-c'',
       Text ''controller_manager'']\<rparr>"

definition bringup_spawn_delay_rviz_after_joint_state_broadcaster_spawner :: action where
  "bringup_spawn_delay_rviz_after_joint_state_broadcaster_spawner =
     OnProcessExit bringup_spawn_robot_controller_spawner
     [Node bringup_spawn_rviz_node]"

definition bringup_spawn_original_tf_nodes :: "build \<Rightarrow> action" where
  "bringup_spawn_original_tf_nodes B =
     GroupAction (UnlessCondition (LaunchConfiguration ''remap_tf''))
      [Node (bringup_spawn_robot_state_pub_node B),
      Node bringup_spawn_rviz_node]"

definition bringup_spawn_remapped_tf_nodes :: "build \<Rightarrow> action" where
  "bringup_spawn_remapped_tf_nodes B =
     GroupAction (IfCondition (LaunchConfiguration ''remap_tf''))
      [SetRemap ''/tf'' ''tf'',
      SetRemap ''/tf_static'' ''tf_static'',
      Node (bringup_spawn_robot_state_pub_node B),
      Node bringup_spawn_rviz_node]"

definition bringup_spawn_joint_state_broadcaster_spawner :: ros_node where
  "bringup_spawn_joint_state_broadcaster_spawner =
     (plain_node ''controller_manager'' ''spawner'')
      \<lparr>node_namespace := Some (LaunchConfiguration ''name''),
       node_arguments := [Text ''joint_state_broadcaster'', Text ''-c'',
       Text ''controller_manager'']\<rparr>"

definition bringup_spawn_joint_trajectory_controller_spawner :: ros_node where
  "bringup_spawn_joint_trajectory_controller_spawner =
     (plain_node ''controller_manager'' ''spawner'')
      \<lparr>node_namespace := Some (LaunchConfiguration ''name''),
       node_arguments := [Text ''dsr_joint_trajectory'', Text ''-c'',
       Text ''controller_manager'']\<rparr>"

definition bringup_spawn_delay_robot_controller_spawner_after_joint_state_broadcaster_spawner :: action where
  "bringup_spawn_delay_robot_controller_spawner_after_joint_state_broadcaster_spawner =
     OnProcessExit bringup_spawn_joint_state_broadcaster_spawner
     [Node bringup_spawn_robot_controller_spawner]"

definition bringup_spawn_included_launch_file_path :: "build \<Rightarrow> string" where
  "bringup_spawn_included_launch_file_path B =
     path_join (share B ''dsr_gazebo2'') [''launch'', ''dsr_spawn_on_gazebo.launch.py'']"

definition bringup_spawn_included_launch :: "build \<Rightarrow> action" where
  "bringup_spawn_included_launch B =
     IncludeLaunchDescription [Text (bringup_spawn_included_launch_file_path B)]
     [(''use_gazebo'', LaunchConfiguration ''gz''), (''name'', LaunchConfiguration ''name''),
      (''color'', LaunchConfiguration ''color''), (''x'', LaunchConfiguration ''x''), (''y'',
      LaunchConfiguration ''y''), (''z'', LaunchConfiguration ''z''), (''R'',
      LaunchConfiguration ''R''), (''P'', LaunchConfiguration ''P''), (''Y'',
      LaunchConfiguration ''Y''), (''use_sim_time'', LaunchConfiguration ''use_sim_time''),
      (''remap_tf'', LaunchConfiguration ''remap_tf'')]"

definition bringup_spawn_included_launch_after_robot_controller_spawner :: "build \<Rightarrow> action" where
  "bringup_spawn_included_launch_after_robot_controller_spawner B =
     OnProcessExit bringup_spawn_robot_controller_spawner
     [bringup_spawn_included_launch B]"

definition bringup_spawn_nodes :: "build \<Rightarrow> action list" where
  "bringup_spawn_nodes B =
     [bringup_spawn_set_use_sim_time,
      Node bringup_spawn_run_emulator_node,
      Node bringup_spawn_gazebo_connection_node,
      bringup_spawn_original_tf_nodes B,
      bringup_spawn_remapped_tf_nodes B,
      Node bringup_spawn_robot_controller_spawner,
      Node bringup_spawn_joint_state_broadcaster_spawner,
      bringup_spawn_included_launch_after_robot_controller_spawner B,
      Node (bringup_spawn_control_node B)]"

definition bringup_spawn :: "build \<Rightarrow> action list" where
  "bringup_spawn B = bringup_spawn_ARGUMENTS @ (bringup_spawn_nodes B)"

lemmas bringup_spawn_defs = bringup_spawn_ARGUMENTS_def bringup_spawn_set_use_sim_time_def
  bringup_spawn_xacro_path_def bringup_spawn_gui_def bringup_spawn_mode_def
  bringup_spawn_update_rate_def bringup_spawn_robot_description_content_def
  bringup_spawn_robot_description_def bringup_spawn_robot_controllers_def
  bringup_spawn_rviz_config_file_def bringup_spawn_run_emulator_node_def
  bringup_spawn_gazebo_connection_node_def bringup_spawn_control_node_def
  bringup_spawn_robot_state_pub_node_def bringup_spawn_rviz_node_def
  bringup_spawn_robot_controller_spawner_def
  bringup_spawn_delay_rviz_after_joint_state_broadcaster_spawner_def
  bringup_spawn_original_tf_nodes_def bringup_spawn_remapped_tf_nodes_def
  bringup_spawn_joint_state_broadcaster_spawner_def
  bringup_spawn_joint_trajectory_controller_spawner_def
  bringup_spawn_delay_robot_controller_spawner_after_joint_state_broadcaster_spawner_def
  bringup_spawn_included_launch_file_path_def bringup_spawn_included_launch_def
  bringup_spawn_included_launch_after_robot_controller_spawner_def bringup_spawn_nodes_def
  bringup_spawn_def

section \<open>dsr_bringup2_mujoco.launch.py\<close>

definition bringup_mujoco_ARGUMENTS :: "action list" where
  "bringup_mujoco_ARGUMENTS =
     [DeclareLaunchArgument ''name'' ''dsr01'',
      DeclareLaunchArgument ''host'' ''127.0.0.1'',
      DeclareLaunchArgument ''port'' ''12345'',
      DeclareLaunchArgument ''mode'' ''virtual'',
      DeclareLaunchArgument ''model'' ''m1013'',
      DeclareLaunchArgument ''color'' ''white'',
      DeclareLaunchArgument ''gui'' ''true'',
      DeclareLaunchArgument ''mj'' ''true'',
      DeclareLaunchArgument ''rt_host'' ''192.168.137.50'',
      DeclareLaunchArgument ''use_sim_time'' ''true'',
      DeclareLaunchArgument ''gripper'' ''none'',
      DeclareLaunchArgument ''scene_path'' ''none'']"

definition bringup_mujoco_set_use_sim_time :: action where
  "bringup_mujoco_set_use_sim_time = SetLaunchConfiguration ''use_sim_time'' ''true''"

definition bringup_mujoco_xacro_path :: "build \<Rightarrow> string" where
  "bringup_mujoco_xacro_path B = path_join (share B ''dsr_description2'') [''xacro'']"

definition bringup_mujoco_gui :: subst where
  "bringup_mujoco_gui = LaunchConfiguration ''gui''"

definition bringup_mujoco_update_rate :: "build \<Rightarrow> string" where
  "bringup_mujoco_update_rate B = update_rate B"

definition bringup_mujoco_robot_description_content :: "build \<Rightarrow> subst" where
  "bringup_mujoco_robot_description_content B =
     Command [PathJoin [FindExecutable ''xacro''], Text '' '',
      PathJoin [FindPackageShare ''dsr_description2'', Text ''xacro'',
      LaunchConfiguration ''model''], Text ''.urdf.xacro'', Text '' name:='',
      LaunchConfiguration ''name'', Text '' host:='', LaunchConfiguration ''host'',
      Text '' rt_host:='', LaunchConfiguration ''rt_host'', Text '' port:='',
      LaunchConfiguration ''port'', Text '' mode:='', LaunchConfiguration ''mode'',
      Text '' model:='', LaunchConfiguration ''model'', Text '' update_rate:='',
      Text (bringup_mujoco_update_rate B)]"

definition bringup_mujoco_robot_description :: "build \<Rightarrow> (string \<times> pvalue) list" where
  "bringup_mujoco_robot_description B =
     [(''robot_description'', PvSubst (bringup_mujoco_robot_description_content B))]"

definition bringup_mujoco_robot_controllers :: subst where
  "bringup_mujoco_robot_controllers =
     PathJoin [FindPackageShare ''dsr_controller2'', Text ''config'', Text ''dsr_controller2.yaml'']"

definition bringup_mujoco_rviz_config_file :: subst where
  "bringup_mujoco_rviz_config_file =
     PathJoin [FindPackageShare ''dsr_description2'', Text ''rviz'', Text ''default.rviz'']"

definition bringup_mujoco_run_emulator_node :: ros_node where
  "bringup_mujoco_run_emulator_node =
     (plain_node ''dsr_bringup2'' ''run_emulator'')
      \<lparr>node_namespace := Some (LaunchConfiguration ''name''),
       node_parameters := [Params [(''name'', PvSubst (LaunchConfiguration ''name''))],
        Params [(''rate'', PvInt 100)],
        Params [(''standby'', PvInt 5000)],
        Params [(''command'', PvBool True)],
        Params [(''host'', PvSubst (LaunchConfiguration ''host''))],
        Params [(''port'', PvSubst (LaunchConfiguration ''port''))],
        Params [(''mode'', PvSubst (LaunchConfiguration ''mode''))],
        Params [(''model'', PvSubst (LaunchConfiguration ''model''))],
        Params [(''gripper'', PvSubst (Text ''none''))],
        Params [(''mobile'', PvSubst (Text ''none''))],
        Params [(''rt_host'', PvSubst (LaunchConfiguration ''rt_host''))]],
       node_condition := Some (IfCondition (PythonExpression [Text quote,
       LaunchConfiguration ''mode'', Text (quote @ '' == '' @ quote @ ''virtual'' @ quote)])),
       node_output := Some ''screen''\<rparr>"

definition bringup_mujoco_node_mujoco_bridge :: ros_node where
  "bringup_mujoco_node_mujoco_bridge =
     (plain_node ''dsr_bringup2'' ''mujoco_bridge'')
      \<lparr>node_namespace := Some (LaunchConfiguration ''name''),
       node_parameters := [Params [(''model'', PvSubst (LaunchConfiguration ''model''))]],
       node_output := Some ''log''\<rparr>"

definition bringup_mujoco_control_node :: "build \<Rightarrow> ros_node" where
  "bringup_mujoco_control_node B =
     (plain_node ''controller_manager'' ''ros2_control_node'')
      \<lparr>node_namespace := Some (LaunchConfiguration ''name''),
       node_parameters := [Params (bringup_mujoco_robot_description B),
        ParamFile [bringup_mujoco_robot_controllers]],
       node_output := Some ''screen''\<rparr>"

definition bringup_mujoco_robot_state_pub_node :: "build \<Rightarrow> ros_node" where
  "bringup_mujoco_robot_state_pub_node B =
     (plain_node ''robot_state_publisher'' ''robot_state_publisher'')
      \<lparr>node_name := Some ''robot_state_publisher'',
       node_namespace := Some (LaunchConfiguration ''name''),
       node_parameters := [Params [(''robot_description'', PvSubst (Command [Text ''xacro'',
       Text '' '', Text (bringup_mujoco_xacro_path B), Text ''/'', LaunchConfiguration ''model'',
       Text ''.urdf.xacro color:='', LaunchConfiguration ''color'']))],
        Params [(''use_sim_time'', PvBool True)]],
       node_output := Some ''both''\<rparr>"

definition bringup_mujoco_rviz_node :: ros_node where
  "bringup_mujoco_rviz_node =
     (plain_node ''rviz2'' ''rviz2'')
      \<lparr>node_name := Some ''rviz2'',
       node_namespace := Some (LaunchConfiguration ''name''),
       node_arguments := [Text ''-d'', bringup_mujoco_rviz_config_file],
       node_parameters := [Params [(''use_sim_time'', PvBool True)]],
       node_condition := Some (IfCondition bringup_mujoco_gui),
       node_output := Some ''log''\<rparr>"

definition bringup_mujoco_joint_state_broadcaster_spawner :: ros_node where
  "bringup_mujoco_joint_state_broadcaster_spawner =
     (plain_node ''controller_manager'' ''spawner'')
      \<lparr>node_namespace := Some (LaunchConfiguration ''name''),
       node_arguments := [Text ''joint_state_broadcaster'', Text ''-c'',
       Text ''controller_manager'']\<rparr>"

definition bringup_mujoco_robot_controller_spawner :: ros_node where
  "bringup_mujoco_robot_controller_spawner =
     (plain_node ''controller_manager'' ''spawner'')
      \<lparr>node_namespace := Some (LaunchConfiguration ''name''),
       node_arguments := [Text ''dsr_controller2'', Text ''-c'',
       Text ''controller_manager'']\<rparr>"

definition bringup_mujoco_included_launch_file_path :: "build \<Rightarrow> string" where
  "bringup_mujoco_included_launch_file_path B =
     path_join (share B ''dsr_mujoco'') [''launch'', ''dsr_mujoco.launch.py'']"

definition bringup_mujoco_mujoco_included_launch :: "build \<Rightarrow> action" where
  "bringup_mujoco_mujoco_included_launch B =
     IncludeLaunchDescription [Text (bringup_mujoco_included_launch_file_path B)]
     [(''use_mujoco'', LaunchConfiguration ''mj''), (''name'', LaunchConfiguration ''name''),
      (''color'', LaunchConfiguration ''color''), (''use_sim_time'',
      LaunchConfiguration ''use_sim_time''), (''gripper'', LaunchConfiguration ''gripper''),
      (''scene_path'', LaunchConfiguration ''scene_path'')]"

definition bringup_mujoco_delay_rviz_after_joint_state_broadcaster_spawner :: action where
  "bringup_mujoco_delay_rviz_after_joint_state_broadcaster_spawner =
     OnProcessExit bringup_mujoco_robot_controller_spawner
     [Node bringup_mujoco_rviz_node]"

definition bringup_mujoco_mujoco_included_launch_after_robot_controller_spawner :: "build \<Rightarrow> action" where
  "bringup_mujoco_mujoco_included_launch_after_robot_controller_spawner B =
     OnProcessExit bringup_mujoco_robot_controller_spawner
     [bringup_mujoco_mujoco_included_launch B]"

definition bringup_mujoco_nodes :: "build \<Rightarrow> action list" where
  "bringup_mujoco_nodes B =
     [bringup_mujoco_set_use_sim_time,
      Node bringup_mujoco_run_emulator_node,
      Node (bringup_mujoco_robot_state_pub_node B),
      Node bringup_mujoco_robot_controller_spawner,
      Node bringup_mujoco_joint_state_broadcaster_spawner,
      bringup_mujoco_delay_rviz_after_joint_state_broadcaster_spawner,
      Node (bringup_mujoco_control_node B),
      bringup_mujoco_mujoco_included_launch_after_robot_controller_spawner B,
      Node bringup_mujoco_node_mujoco_bridge]"

definition bringup_mujoco :: "build \<Rightarrow> action list" where
  "bringup_mujoco B = bringup_mujoco_ARGUMENTS @ (bringup_mujoco_nodes B)"

lemmas bringup_mujoco_defs = bringup_mujoco_ARGUMENTS_def bringup_mujoco_set_use_sim_time_def
  bringup_mujoco_xacro_path_def bringup_mujoco_gui_def bringup_mujoco_update_rate_def
  bringup_mujoco_robot_description_content_def bringup_mujoco_robot_description_def
  bringup_mujoco_robot_controllers_def bringup_mujoco_rviz_config_file_def
  bringup_mujoco_run_emulator_node_def bringup_mujoco_node_mujoco_bridge_def
  bringup_mujoco_control_node_def bringup_mujoco_robot_state_pub_node_def
  bringup_mujoco_rviz_node_def bringup_mujoco_joint_state_broadcaster_spawner_def
  bringup_mujoco_robot_controller_spawner_def bringup_mujoco_included_launch_file_path_def
  bringup_mujoco_mujoco_included_launch_def
  bringup_mujoco_delay_rviz_after_joint_state_broadcaster_spawner_def
  bringup_mujoco_mujoco_included_launch_after_robot_controller_spawner_def
  bringup_mujoco_nodes_def bringup_mujoco_def

section \<open>dsr_bringup2_moveit.launch.py\<close>

text \<open>\<^verbatim>\<open>include_launch_description\<close> of the same file\<close>

definition bringup_moveit_fn_model_value :: "string \<Rightarrow> string" where
  "bringup_moveit_fn_model_value m = m"

definition bringup_moveit_fn_package_name_str :: "string \<Rightarrow> string" where
  "bringup_moveit_fn_package_name_str m =
     ''dsr_moveit_config_'' @ (bringup_moveit_fn_model_value m)"

definition bringup_moveit_fn_package_path_str :: "build \<Rightarrow> string \<Rightarrow> string" where
  "bringup_moveit_fn_package_path_str B m = share B (bringup_moveit_fn_package_name_str m)"

definition bringup_moveit_fn_included_launch_file_path :: "build \<Rightarrow> string \<Rightarrow> string" where
  "bringup_moveit_fn_included_launch_file_path B m =
     path_join (bringup_moveit_fn_package_path_str B m) [''launch'', ''start.launch.py'']"

definition bringup_moveit_include_launch_description :: "build \<Rightarrow> string \<Rightarrow> action list" where
  "bringup_moveit_include_launch_description B m =
     [IncludeLaunchDescription [Text (bringup_moveit_fn_included_launch_file_path B m)]
     [(''mode'', LaunchConfiguration ''mode''), (''name'', LaunchConfiguration ''name''),
      (''color'', LaunchConfiguration ''color''), (''model'', LaunchConfiguration ''model''),
      (''host'', LaunchConfiguration ''host''), (''port'', LaunchConfiguration ''port''),
      (''rt_host'', LaunchConfiguration ''rt_host'')]]"

definition bringup_moveit_ARGUMENTS :: "action list" where
  "bringup_moveit_ARGUMENTS =
     [DeclareLaunchArgument ''name'' '''',
      DeclareLaunchArgument ''host'' ''127.0.0.1'',
      DeclareLaunchArgument ''port'' ''12345'',
      DeclareLaunchArgument ''mode'' ''virtual'',
      DeclareLaunchArgument ''model'' ''m1013'',
      DeclareLaunchArgument ''color'' ''white'',
      DeclareLaunchArgument ''gz'' ''false'',
      DeclareLaunchArgument ''rt_host'' ''192.168.137.50'']"

definition bringup_moveit_included_launch :: action where
  "bringup_moveit_included_launch = OpaqueFunction ''include_launch_description''"

definition bringup_moveit :: "action list" where
  "bringup_moveit = bringup_moveit_ARGUMENTS @ [bringup_moveit_included_launch]"

lemmas bringup_moveit_defs = bringup_moveit_fn_model_value_def
  bringup_moveit_fn_package_name_str_def bringup_moveit_fn_package_path_str_def
  bringup_moveit_fn_included_launch_file_path_def bringup_moveit_include_launch_description_def
  bringup_moveit_ARGUMENTS_def bringup_moveit_included_launch_def bringup_moveit_def

section \<open>dsr_bringup_without_spawner_test.launch.py\<close>

definition test_bringup_ARGUMENTS :: "action list" where
  "test_bringup_ARGUMENTS =
     [DeclareLaunchArgument ''name'' ''dsr01'',
      DeclareLaunchArgument ''host'' ''127.0.0.1'',
      DeclareLaunchArgument ''port'' ''12345'',
      DeclareLaunchArgument ''mode'' ''virtual'',
      DeclareLaunchArgument ''model'' ''m1013'',
      DeclareLaunchArgument ''color'' ''white'',
      DeclareLaunchArgument ''rt_host'' ''192.168.137.50'',
      DeclareLaunchArgument ''rviz'' ''false'',
      DeclareLaunchArgument ''start_emulator'' ''false'']"

definition test_bringup_xacro_path :: "build \<Rightarrow> string" where
  "test_bringup_xacro_path B = path_join (share B ''dsr_description2'') [''xacro'']"

definition test_bringup_rviz :: subst where
  "test_bringup_rviz = LaunchConfiguration ''rviz''"

definition test_bringup_start_emulator :: subst where
  "test_bringup_start_emulator = LaunchConfiguration ''start_emulator''"

definition test_bringup_robot_description_content :: subst where
  "test_bringup_robot_description_content =
     Command [PathJoin [FindExecutable ''xacro''], Text '' '',
      PathJoin [FindPackageShare ''dsr_description2'', Text ''xacro'',
      LaunchConfiguration ''model''], Text ''.urdf.xacro'', Text '' host:='',
      LaunchConfiguration ''host'', Text '' rt_host:='', LaunchConfiguration ''rt_host'',
      Text '' port:='', LaunchConfiguration ''port'', Text '' mode:='',
      LaunchConfiguration ''mode'', Text '' model:='', LaunchConfiguration ''model'']"

definition test_bringup_robot_description :: "(string \<times> pvalue) list" where
  "test_bringup_robot_description =
     [(''robot_description'', PvSubst test_bringup_robot_description_content)]"

definition test_bringup_robot_controllers :: subst where
  "test_bringup_robot_controllers =
     PathJoin [FindPackageShare ''dsr_controller2'', Text ''config'', Text ''dsr_controller2.yaml'']"

definition test_bringup_run_emulator_node :: ros_node where
  "test_bringup_run_emulator_node =
     (plain_node ''dsr_bringup2'' ''run_emulator'')
      \<lparr>node_namespace := Some (LaunchConfiguration ''name''),
       node_parameters := [Params [(''name'', PvSubst (LaunchConfiguration ''name''))],
        Params [(''rate'', PvInt 100)],
        Params [(''standby'', PvInt 5000)],
        Params [(''command'', PvBool True)],
        Params [(''host'', PvSubst (LaunchConfiguration ''host''))],
        Params [(''port'', PvSubst (LaunchConfiguration ''port''))],
        Params [(''mode'', PvSubst (LaunchConfiguration ''mode''))],
        Params [(''model'', PvSubst (LaunchConfiguration ''model''))],
        Params [(''gripper'', PvSubst (Text ''none''))],
        Params [(''mobile'', PvSubst (Text ''none''))],
        Params [(''rt_host'', PvSubst (LaunchConfiguration ''rt_host''))]],
       node_condition := Some (IfCondition test_bringup_start_emulator),
       node_output := Some ''screen''\<rparr>"

definition test_bringup_control_node :: ros_node where
  "test_bringup_control_node =
     (plain_node ''controller_manager'' ''ros2_control_node'')
      \<lparr>node_namespace := Some (LaunchConfiguration ''name''),
       node_parameters := [Params test_bringup_robot_description,
        ParamFile [test_bringup_robot_controllers]],
       node_output := Some ''both''\<rparr>"

definition test_bringup_robot_state_pub_node :: "build \<Rightarrow> ros_node" where
  "test_bringup_robot_state_pub_node B =
     (plain_node ''robot_state_publisher'' ''robot_state_publisher'')
      \<lparr>node_name := Some ''robot_state_publisher'',
       node_namespace := Some (LaunchConfiguration ''name''),
       node_parameters := [Params [(''robot_description'', PvSubst (Command [Text ''xacro'',
       Text '' '', Text (test_bringup_xacro_path B), Text ''/'', LaunchConfiguration ''model'',
       Text ''.urdf.xacro color:='', LaunchConfiguration ''color'']))]],
       node_output := Some ''both''\<rparr>"

definition test_bringup_rviz_config_file :: subst where
  "test_bringup_rviz_config_file =
     PathJoin [FindPackageShare ''dsr_description2'', Text ''rviz'', Text ''default.rviz'']"

definition test_bringup_rviz_node :: ros_node where
  "test_bringup_rviz_node =
     (plain_node ''rviz2'' ''rviz2'')
      \<lparr>node_name := Some ''rviz2'',
       node_namespace := Some (LaunchConfiguration ''name''),
       node_arguments := [Text ''-d'', test_bringup_rviz_config_file],
       node_condition := Some (IfCondition test_bringup_rviz),
       node_output := Some ''log''\<rparr>"

definition test_bringup_nodes :: "build \<Rightarrow> action list" where
  "test_bringup_nodes B =
     [Node test_bringup_run_emulator_node,
      Node (test_bringup_robot_state_pub_node B),
      Node test_bringup_rviz_node,
      Node test_bringup_control_node]"

definition test_bringup :: "build \<Rightarrow> action list" where
  "test_bringup B = test_bringup_ARGUMENTS @ (test_bringup_nodes B)"

lemmas test_bringup_defs = test_bringup_ARGUMENTS_def test_bringup_xacro_path_def
  test_bringup_rviz_def test_bringup_start_emulator_def test_bringup_robot_description_content_def
  test_bringup_robot_description_def test_bringup_robot_controllers_def
  test_bringup_run_emulator_node_def test_bringup_control_node_def
  test_bringup_robot_state_pub_node_def test_bringup_rviz_config_file_def
  test_bringup_rviz_node_def test_bringup_nodes_def test_bringup_def

section \<open>dsr_spawner_cli_test.launch.py\<close>

definition test_spawners_ARGUMENTS :: "action list" where
  "test_spawners_ARGUMENTS = [DeclareLaunchArgument ''name'' ''dsr01'']"

definition test_spawners_robot_controller_spawner :: ros_node where
  "test_spawners_robot_controller_spawner =
     (plain_node ''controller_manager'' ''spawner'')
      \<lparr>node_namespace := Some (LaunchConfiguration ''name''),
       node_arguments := [Text ''dsr_controller2'', Text ''-c'',
       Text ''controller_manager'']\<rparr>"

definition test_spawners_joint_state_broadcaster_spawner :: ros_node where
  "test_spawners_joint_state_broadcaster_spawner =
     (plain_node ''controller_manager'' ''spawner'')
      \<lparr>node_namespace := Some (LaunchConfiguration ''name''),
       node_arguments := [Text ''joint_state_broadcaster'', Text ''-c'',
       Text ''controller_manager'']\<rparr>"

definition test_spawners_nodes :: "action list" where
  "test_spawners_nodes =
     [Node test_spawners_robot_controller_spawner,
      Node test_spawners_joint_state_broadcaster_spawner]"

definition test_spawners :: "action list" where
  "test_spawners = test_spawners_ARGUMENTS @ test_spawners_nodes"

lemmas test_spawners_defs = test_spawners_ARGUMENTS_def test_spawners_robot_controller_spawner_def
  test_spawners_joint_state_broadcaster_spawner_def test_spawners_nodes_def test_spawners_def

end
