(* ===== verification/LaunchSim.thy ===== *)
theory LaunchSim
  imports LaunchModel
begin

text \<open>
  The launch files of dsr_gazebo2, dsr_mujoco, dsr_controller2, dsr_description2 and the visual servoing example. There is one definition per variable of a file, with the name of the
  variable after the name of the file; the definition with the file's name alone is the description
  that the file returns. The descriptions of arguments, printing and \<^verbatim>\<open>show_git_info\<close> are
  left out.
\<close>

section \<open>dsr_gazebo.launch.py\<close>

definition gz_sim_ARGUMENTS :: "action list" where
  "gz_sim_ARGUMENTS =
     [DeclareLaunchArgument ''name'' '''',
      DeclareLaunchArgument ''model'' ''m1013'',
      DeclareLaunchArgument ''color'' ''white'',
      DeclareLaunchArgument ''gui'' ''false'',
      DeclareLaunchArgument ''use_gazebo'' ''true'',
      DeclareLaunchArgument ''x'' ''0'',
      DeclareLaunchArgument ''y'' ''0'',
      DeclareLaunchArgument ''z'' ''0'',
      DeclareLaunchArgument ''R'' ''0'',
      DeclareLaunchArgument ''P'' ''0'',
      DeclareLaunchArgument ''Y'' ''0'',
      DeclareLaunchArgument ''use_sim_time'' ''true'',
      DeclareLaunchArgument ''remap_tf'' ''false'']"

definition gz_sim_gui :: subst where
  "gz_sim_gui = LaunchConfiguration ''gui''"

definition gz_sim_gazebo :: action where
  "gz_sim_gazebo =
     IncludeLaunchDescription [FindPackageShare ''ros_gz_sim'', Text ''/launch/gz_sim.launch.py'']
     [(''gz_args'', Text '' -r -v 3 empty.sdf'')]"

definition gz_sim_gz_spawn_entity :: ros_node where
  "gz_sim_gz_spawn_entity =
     (plain_node ''ros_gz_sim'' ''create'')
      \<lparr>node_namespace := Some (PathJoin [LaunchConfiguration ''name'', Text ''gz'']),
       node_arguments := [Text ''-topic'', Text ''robot_description'', Text ''-name'',
       LaunchConfiguration ''model'', Text ''-allow_renaming'', Text ''true'', Text ''-x'',
       LaunchConfiguration ''x'', Text ''-y'', LaunchConfiguration ''y'', Text ''-z'',
       LaunchConfiguration ''z'', Text ''-R'', LaunchConfiguration ''R'', Text ''-P'',
       LaunchConfiguration ''P'', Text ''-Y'', LaunchConfiguration ''Y''],
       node_output := Some ''screen''\<rparr>"

definition gz_sim_robot_description_content :: subst where
  "gz_sim_robot_description_content =
     Command [PathJoin [FindExecutable ''xacro''], Text '' '',
      PathJoin [FindPackageShare ''dsr_description2'', Text ''xacro'',
      LaunchConfiguration ''model''], Text ''.urdf.xacro'', Text '' '', Text ''use_gazebo:='',
      LaunchConfiguration ''use_gazebo'', Text '' '', Text ''color:='',
      LaunchConfiguration ''color'', Text '' '', Text ''namespace:='',
      PathJoin [LaunchConfiguration ''name'', Text ''gz'']]"

definition gz_sim_robot_description :: "(string \<times> pvalue) list" where
  "gz_sim_robot_description = [(''robot_description'', PvSubst gz_sim_robot_description_content)]"

definition gz_sim_rviz_config_file :: subst where
  "gz_sim_rviz_config_file =
     PathJoin [FindPackageShare ''dsr_description2'', Text ''rviz'', Text ''default.rviz'']"

definition gz_sim_node_robot_state_publisher :: ros_node where
  "gz_sim_node_robot_state_publisher =
     (plain_node ''robot_state_publisher'' ''robot_state_publisher'')
      \<lparr>node_namespace := Some (PathJoin [LaunchConfiguration ''name'', Text ''gz'']),
       node_parameters := [Params gz_sim_robot_description],
       node_output := Some ''screen''\<rparr>"

definition gz_sim_rviz_node :: ros_node where
  "gz_sim_rviz_node =
     (plain_node ''rviz2'' ''rviz2'')
      \<lparr>node_name := Some ''rviz2'',
       node_arguments := [Text ''-d'', gz_sim_rviz_config_file],
       node_condition := Some (IfCondition gz_sim_gui),
       node_output := Some ''log''\<rparr>"

definition gz_sim_joint_state_broadcaster_spawner :: ros_node where
  "gz_sim_joint_state_broadcaster_spawner =
     (plain_node ''controller_manager'' ''spawner'')
      \<lparr>node_namespace := Some (PathJoin [LaunchConfiguration ''name'', Text ''gz'']),
       node_arguments := [Text ''joint_state_broadcaster'', Text ''--controller-manager'',
       Text ''controller_manager'']\<rparr>"

definition gz_sim_delay_rviz_after_joint_state_broadcaster_spawner :: action where
  "gz_sim_delay_rviz_after_joint_state_broadcaster_spawner =
     OnProcessExit gz_sim_joint_state_broadcaster_spawner
     [Node gz_sim_rviz_node]"

definition gz_sim_original_tf_nodes :: action where
  "gz_sim_original_tf_nodes =
     GroupAction (UnlessCondition (LaunchConfiguration ''remap_tf''))
      [Node gz_sim_node_robot_state_publisher]"

definition gz_sim_remapped_tf_nodes :: action where
  "gz_sim_remapped_tf_nodes =
     GroupAction (IfCondition (LaunchConfiguration ''remap_tf''))
      [SetRemap ''/tf'' ''tf'',
      SetRemap ''/tf_static'' ''tf_static'',
      Node gz_sim_node_robot_state_publisher]"

definition gz_sim_dsr_position_controller_spawner :: ros_node where
  "gz_sim_dsr_position_controller_spawner =
     (plain_node ''controller_manager'' ''spawner'')
      \<lparr>node_namespace := Some (PathJoin [LaunchConfiguration ''name'', Text ''gz'']),
       node_arguments := [Text ''dsr_position_controller'', Text ''--controller-manager'',
       Text ''controller_manager'']\<rparr>"

definition gz_sim_dsr_position_controller_spawner_action :: action where
  "gz_sim_dsr_position_controller_spawner_action =
     TimerAction 2 [Node gz_sim_dsr_position_controller_spawner]"

definition gz_sim_nodes :: "action list" where
  "gz_sim_nodes =
     [gz_sim_gazebo,
      gz_sim_original_tf_nodes,
      gz_sim_remapped_tf_nodes,
      Node gz_sim_gz_spawn_entity,
      gz_sim_dsr_position_controller_spawner_action]"

definition gz_sim :: "action list" where
  "gz_sim = gz_sim_ARGUMENTS @ gz_sim_nodes"

lemmas gz_sim_defs = gz_sim_ARGUMENTS_def gz_sim_gui_def gz_sim_gazebo_def
  gz_sim_gz_spawn_entity_def gz_sim_robot_description_content_def gz_sim_robot_description_def
  gz_sim_rviz_config_file_def gz_sim_node_robot_state_publisher_def gz_sim_rviz_node_def
  gz_sim_joint_state_broadcaster_spawner_def
  gz_sim_delay_rviz_after_joint_state_broadcaster_spawner_def gz_sim_original_tf_nodes_def
  gz_sim_remapped_tf_nodes_def gz_sim_dsr_position_controller_spawner_def
  gz_sim_dsr_position_controller_spawner_action_def gz_sim_nodes_def gz_sim_def

section \<open>dsr_spawn_on_gazebo.launch.py\<close>

definition gz_spawn_ARGUMENTS :: "action list" where
  "gz_spawn_ARGUMENTS =
     [DeclareLaunchArgument ''name'' '''',
      DeclareLaunchArgument ''model'' ''m1013'',
      DeclareLaunchArgument ''color'' ''white'',
      DeclareLaunchArgument ''gui'' ''false'',
      DeclareLaunchArgument ''use_gazebo'' ''true'',
      DeclareLaunchArgument ''x'' ''0'',
      DeclareLaunchArgument ''y'' ''0'',
      DeclareLaunchArgument ''z'' ''0'',
      DeclareLaunchArgument ''R'' ''0'',
      DeclareLaunchArgument ''P'' ''0'',
      DeclareLaunchArgument ''Y'' ''0'',
      DeclareLaunchArgument ''use_sim_time'' ''true'',
      DeclareLaunchArgument ''remap_tf'' ''false'']"

definition gz_spawn_gui :: subst where
  "gz_spawn_gui = LaunchConfiguration ''gui''"

definition gz_spawn_gazebo :: action where
  "gz_spawn_gazebo =
     IncludeLaunchDescription [FindPackageShare ''ros_gz_sim'', Text ''/launch/gz_sim.launch.py'']
     [(''gz_args'', Text '' -r -v 3 empty.sdf'')]"

definition gz_spawn_gz_spawn_entity :: ros_node where
  "gz_spawn_gz_spawn_entity =
     (plain_node ''ros_gz_sim'' ''create'')
      \<lparr>node_namespace := Some (PathJoin [LaunchConfiguration ''name'', Text ''gz'']),
       node_arguments := [Text ''-topic'', Text ''robot_description'', Text ''-name'',
       LaunchConfiguration ''model'', Text ''-allow_renaming'', Text ''true'', Text ''-x'',
       LaunchConfiguration ''x'', Text ''-y'', LaunchConfiguration ''y'', Text ''-z'',
       LaunchConfiguration ''z'', Text ''-R'', LaunchConfiguration ''R'', Text ''-P'',
       LaunchConfiguration ''P'', Text ''-Y'', LaunchConfiguration ''Y''],
       node_output := Some ''screen''\<rparr>"

definition gz_spawn_robot_description_content :: subst where
  "gz_spawn_robot_description_content =
     Command [PathJoin [FindExecutable ''xacro''], Text '' '',
      PathJoin [FindPackageShare ''dsr_description2'', Text ''xacro'',
      LaunchConfiguration ''model''], Text ''.urdf.xacro'', Text '' '', Text ''use_gazebo:='',
      LaunchConfiguration ''use_gazebo'', Text '' '', Text ''color:='',
      LaunchConfiguration ''color'', Text '' '', Text ''namespace:='',
      PathJoin [LaunchConfiguration ''name'', Text ''gz'']]"

definition gz_spawn_robot_description :: "(string \<times> pvalue) list" where
  "gz_spawn_robot_description =
     [(''robot_description'', PvSubst gz_spawn_robot_description_content)]"

definition gz_spawn_rviz_config_file :: subst where
  "gz_spawn_rviz_config_file =
     PathJoin [FindPackageShare ''dsr_description2'', Text ''rviz'', Text ''default.rviz'']"

definition gz_spawn_node_robot_state_publisher :: ros_node where
  "gz_spawn_node_robot_state_publisher =
     (plain_node ''robot_state_publisher'' ''robot_state_publisher'')
      \<lparr>node_namespace := Some (PathJoin [LaunchConfiguration ''name'', Text ''gz'']),
       node_parameters := [Params gz_spawn_robot_description],
       node_output := Some ''screen''\<rparr>"

definition gz_spawn_original_tf_nodes :: action where
  "gz_spawn_original_tf_nodes =
     GroupAction (UnlessCondition (LaunchConfiguration ''remap_tf''))
      [Node gz_spawn_node_robot_state_publisher]"

definition gz_spawn_remapped_tf_nodes :: action where
  "gz_spawn_remapped_tf_nodes =
     GroupAction (IfCondition (LaunchConfiguration ''remap_tf''))
      [SetRemap ''/tf'' ''tf'',
      SetRemap ''/tf_static'' ''tf_static'',
      Node gz_spawn_node_robot_state_publisher]"

definition gz_spawn_joint_state_broadcaster_spawner :: ros_node where
  "gz_spawn_joint_state_broadcaster_spawner =
     (plain_node ''controller_manager'' ''spawner'')
      \<lparr>node_namespace := Some (PathJoin [LaunchConfiguration ''name'', Text ''gz'']),
       node_arguments := [Text ''joint_state_broadcaster'', Text ''--controller-manager'',
       Text ''controller_manager'']\<rparr>"

definition gz_spawn_dsr_position_controller_spawner :: ros_node where
  "gz_spawn_dsr_position_controller_spawner =
     (plain_node ''controller_manager'' ''spawner'')
      \<lparr>node_namespace := Some (PathJoin [LaunchConfiguration ''name'', Text ''gz'']),
       node_arguments := [Text ''dsr_position_controller'', Text ''--controller-manager'',
       Text ''controller_manager'']\<rparr>"

definition gz_spawn_rviz_node :: ros_node where
  "gz_spawn_rviz_node =
     (plain_node ''rviz2'' ''rviz2'')
      \<lparr>node_name := Some ''rviz2'',
       node_arguments := [Text ''-d'', gz_spawn_rviz_config_file],
       node_condition := Some (IfCondition gz_spawn_gui),
       node_output := Some ''log''\<rparr>"

definition gz_spawn_delay_rviz_after_joint_state_broadcaster_spawner :: action where
  "gz_spawn_delay_rviz_after_joint_state_broadcaster_spawner =
     OnProcessExit gz_spawn_joint_state_broadcaster_spawner
     [Node gz_spawn_rviz_node]"

definition gz_spawn_dsr_position_controller_spawner_action :: action where
  "gz_spawn_dsr_position_controller_spawner_action =
     TimerAction 2 [Node gz_spawn_dsr_position_controller_spawner]"

definition gz_spawn_nodes :: "action list" where
  "gz_spawn_nodes =
     [gz_spawn_original_tf_nodes,
      gz_spawn_remapped_tf_nodes,
      Node gz_spawn_gz_spawn_entity,
      gz_spawn_dsr_position_controller_spawner_action]"

definition gz_spawn :: "action list" where
  "gz_spawn = gz_spawn_ARGUMENTS @ gz_spawn_nodes"

lemmas gz_spawn_defs = gz_spawn_ARGUMENTS_def gz_spawn_gui_def gz_spawn_gazebo_def
  gz_spawn_gz_spawn_entity_def gz_spawn_robot_description_content_def
  gz_spawn_robot_description_def gz_spawn_rviz_config_file_def
  gz_spawn_node_robot_state_publisher_def gz_spawn_original_tf_nodes_def
  gz_spawn_remapped_tf_nodes_def gz_spawn_joint_state_broadcaster_spawner_def
  gz_spawn_dsr_position_controller_spawner_def gz_spawn_rviz_node_def
  gz_spawn_delay_rviz_after_joint_state_broadcaster_spawner_def
  gz_spawn_dsr_position_controller_spawner_action_def gz_spawn_nodes_def gz_spawn_def

section \<open>dsr_mujoco.launch.py\<close>

definition mj_sim_ARGUMENTS :: "action list" where
  "mj_sim_ARGUMENTS =
     [DeclareLaunchArgument ''name'' '''',
      DeclareLaunchArgument ''model'' ''m1013'',
      DeclareLaunchArgument ''color'' ''white'',
      DeclareLaunchArgument ''use_mujoco'' ''true'',
      DeclareLaunchArgument ''use_sim_time'' ''true'',
      DeclareLaunchArgument ''gripper'' ''none'',
      DeclareLaunchArgument ''scene_path'' ''none'']"

definition mj_sim_robot_description_content :: subst where
  "mj_sim_robot_description_content =
     Command [PathJoin [FindExecutable ''xacro''], Text '' '',
      PathJoin [FindPackageShare ''dsr_description2'', Text ''xacro'',
      LaunchConfiguration ''model''], Text ''.urdf.xacro'', Text '' '', Text ''use_mujoco:='',
      LaunchConfiguration ''use_mujoco'', Text '' '', Text ''color:='',
      LaunchConfiguration ''color'', Text '' '', Text ''namespace:='',
      PathJoin [LaunchConfiguration ''name'', Text ''mj''], Text '' '', Text ''gripper:='',
      LaunchConfiguration ''gripper'']"

definition mj_sim_robot_description :: "(string \<times> pvalue) list" where
  "mj_sim_robot_description = [(''robot_description'', PvSubst mj_sim_robot_description_content)]"

definition mj_sim_controller_param_file :: subst where
  "mj_sim_controller_param_file = LaunchConfiguration ''controller_param_file''"

definition mj_sim_node_mujoco :: ros_node where
  "mj_sim_node_mujoco =
     (plain_node ''mujoco_ros2_control'' ''mujoco_ros2_control'')
      \<lparr>node_namespace := Some (PathJoin [LaunchConfiguration ''name'', Text ''mj'']),
       node_parameters := [Params mj_sim_robot_description,
        ParamFile [mj_sim_controller_param_file],
        Params [(''mujoco_model_path'', PvSubst (LaunchConfiguration ''scene_path''))],
        Params [(''use_sim_time'', PvSubst (LaunchConfiguration ''use_sim_time''))]],
       node_output := Some ''screen''\<rparr>"

definition mj_sim_joint_state_broadcaster_spawner :: ros_node where
  "mj_sim_joint_state_broadcaster_spawner =
     (plain_node ''controller_manager'' ''spawner'')
      \<lparr>node_namespace := Some (PathJoin [LaunchConfiguration ''name'', Text ''mj'']),
       node_arguments := [Text ''joint_state_broadcaster'', Text ''-c'',
       Text ''controller_manager''],
       node_output := Some ''screen''\<rparr>"

definition mj_sim_dsr_position_controller_spawner :: ros_node where
  "mj_sim_dsr_position_controller_spawner =
     (plain_node ''controller_manager'' ''spawner'')
      \<lparr>node_namespace := Some (PathJoin [LaunchConfiguration ''name'', Text ''mj'']),
       node_arguments := [Text ''dsr_position_controller'', Text ''-c'',
       Text ''controller_manager''],
       node_output := Some ''screen''\<rparr>"

definition mj_sim_gripper_controller_spawner :: ros_node where
  "mj_sim_gripper_controller_spawner =
     (plain_node ''controller_manager'' ''spawner'')
      \<lparr>node_namespace := Some (PathJoin [LaunchConfiguration ''name'', Text ''mj'']),
       node_arguments := [Text ''left_knuckle_position_controller'', Text ''-c'',
       Text ''controller_manager''],
       node_condition := Some (IfCondition (PythonExpression [Text quote,
       LaunchConfiguration ''gripper'', Text (quote @ '' == '' @ quote @ ''2f85'' @ quote)])),
       node_output := Some ''screen''\<rparr>"

definition mj_sim_delay_joint_state_broadcaster :: action where
  "mj_sim_delay_joint_state_broadcaster =
     OnProcessStart mj_sim_node_mujoco
     [TimerAction (1 / 5) [Node mj_sim_joint_state_broadcaster_spawner]]"

definition mj_sim_delay_dsr_position_controller :: action where
  "mj_sim_delay_dsr_position_controller =
     OnProcessStart mj_sim_node_mujoco
     [TimerAction (1 / 5) [Node mj_sim_dsr_position_controller_spawner,
      Node mj_sim_gripper_controller_spawner]]"

definition mj_sim :: "action list" where
  "mj_sim =
     mj_sim_ARGUMENTS @ [OpaqueFunction ''prepare_mjcf_files_for_mujoco'',
      OpaqueFunction ''prepare_controller_config'',
      Node mj_sim_node_mujoco,
      mj_sim_delay_joint_state_broadcaster,
      mj_sim_delay_dsr_position_controller]"

lemmas mj_sim_defs = mj_sim_ARGUMENTS_def mj_sim_robot_description_content_def
  mj_sim_robot_description_def mj_sim_controller_param_file_def mj_sim_node_mujoco_def
  mj_sim_joint_state_broadcaster_spawner_def mj_sim_dsr_position_controller_spawner_def
  mj_sim_gripper_controller_spawner_def mj_sim_delay_joint_state_broadcaster_def
  mj_sim_delay_dsr_position_controller_def mj_sim_def

section \<open>dsr_mujoco_default.launch.py\<close>

definition mj_default_ARGUMENTS :: "action list" where
  "mj_default_ARGUMENTS =
     [DeclareLaunchArgument ''name'' '''',
      DeclareLaunchArgument ''model'' ''m1013'',
      DeclareLaunchArgument ''color'' ''white'',
      DeclareLaunchArgument ''use_mujoco'' ''true'',
      DeclareLaunchArgument ''use_sim_time'' ''true'']"

definition mj_default_robot_description_content :: subst where
  "mj_default_robot_description_content =
     Command [PathJoin [FindExecutable ''xacro''], Text '' '',
      PathJoin [FindPackageShare ''dsr_description2'', Text ''xacro'',
      LaunchConfiguration ''model''], Text ''.urdf.xacro'', Text '' '', Text ''use_mujoco:='',
      LaunchConfiguration ''use_mujoco'', Text '' '', Text ''color:='',
      LaunchConfiguration ''color'', Text '' '', Text ''namespace:='',
      PathJoin [LaunchConfiguration ''name'', Text ''mj'']]"

definition mj_default_robot_description :: "(string \<times> pvalue) list" where
  "mj_default_robot_description =
     [(''robot_description'', PvSubst mj_default_robot_description_content)]"

definition mj_default_mujoco_model_path :: subst where
  "mj_default_mujoco_model_path =
     PathJoin [FindPackageShare ''dsr_description2'', Text ''mujoco_models'',
      LaunchConfiguration ''model'', Text ''scene.xml'']"

definition mj_default_controller_param_file :: subst where
  "mj_default_controller_param_file =
     PathJoin [FindPackageShare ''dsr_mujoco'', Text ''config'',
      Text ''dsr_mujoco_controller.yaml'']"

definition mj_default_node_mujoco :: ros_node where
  "mj_default_node_mujoco =
     (plain_node ''mujoco_ros2_control'' ''mujoco_ros2_control'')
      \<lparr>node_namespace := Some (PathJoin [LaunchConfiguration ''name'', Text ''mj'']),
       node_parameters := [Params mj_default_robot_description,
        ParamFile [mj_default_controller_param_file],
        Params [(''mujoco_model_path'', PvSubst mj_default_mujoco_model_path)],
        Params [(''use_sim_time'', PvBool True)]],
       node_output := Some ''screen''\<rparr>"

definition mj_default_joint_state_broadcaster_spawner :: ros_node where
  "mj_default_joint_state_broadcaster_spawner =
     (plain_node ''controller_manager'' ''spawner'')
      \<lparr>node_namespace := Some (PathJoin [LaunchConfiguration ''name'', Text ''mj'']),
       node_arguments := [Text ''joint_state_broadcaster'', Text ''-c'',
       Text ''controller_manager''],
       node_output := Some ''screen''\<rparr>"

definition mj_default_dsr_position_controller_spawner :: ros_node where
  "mj_default_dsr_position_controller_spawner =
     (plain_node ''controller_manager'' ''spawner'')
      \<lparr>node_namespace := Some (PathJoin [LaunchConfiguration ''name'', Text ''mj'']),
       node_arguments := [Text ''dsr_position_controller'', Text ''-c'',
       Text ''controller_manager''],
       node_output := Some ''screen''\<rparr>"

definition mj_default_delay_joint_state_broadcaster :: action where
  "mj_default_delay_joint_state_broadcaster =
     OnProcessStart mj_default_node_mujoco
     [TimerAction 1 [Node mj_default_joint_state_broadcaster_spawner]]"

definition mj_default_delay_dsr_position_controller :: action where
  "mj_default_delay_dsr_position_controller =
     OnProcessStart mj_default_node_mujoco
     [TimerAction 1 [Node mj_default_dsr_position_controller_spawner]]"

definition mj_default :: "action list" where
  "mj_default =
     mj_default_ARGUMENTS @ [Node mj_default_node_mujoco,
      mj_default_delay_joint_state_broadcaster,
      mj_default_delay_dsr_position_controller]"

lemmas mj_default_defs = mj_default_ARGUMENTS_def mj_default_robot_description_content_def
  mj_default_robot_description_def mj_default_mujoco_model_path_def
  mj_default_controller_param_file_def mj_default_node_mujoco_def
  mj_default_joint_state_broadcaster_spawner_def mj_default_dsr_position_controller_spawner_def
  mj_default_delay_joint_state_broadcaster_def mj_default_delay_dsr_position_controller_def
  mj_default_def

section \<open>dsr_controller2.launch.py\<close>

definition controller2_ARGUMENTS :: "action list" where
  "controller2_ARGUMENTS =
     [DeclareLaunchArgument ''model'' ''m1013'',
      DeclareLaunchArgument ''color'' ''white'',
      DeclareLaunchArgument ''name'' '''']"

definition controller2_robot_description_content :: subst where
  "controller2_robot_description_content =
     Command [PathJoin [FindExecutable ''xacro''], Text '' '',
      PathJoin [FindPackageShare ''dsr_description2'', Text ''xacro'', Text ''m1013.urdf.xacro'']]"

definition controller2_robot_description :: "(string \<times> pvalue) list" where
  "controller2_robot_description =
     [(''robot_description'', PvSubst controller2_robot_description_content)]"

definition controller2_robot_controllers :: subst where
  "controller2_robot_controllers =
     PathJoin [FindPackageShare ''dsr_controller2'', Text ''config'', Text ''dsr_controller2.yaml'']"

definition controller2_rviz_config_file :: subst where
  "controller2_rviz_config_file =
     PathJoin [FindPackageShare ''dsr_description2'', Text ''rviz'', Text ''default.rviz'']"

definition controller2_control_node :: ros_node where
  "controller2_control_node =
     (plain_node ''controller_manager'' ''ros2_control_node'')
      \<lparr>node_namespace := Some (LaunchConfiguration ''name''),
       node_parameters := [Params controller2_robot_description,
        ParamFile [controller2_robot_controllers]],
       node_remappings := [(''/forward_position_controller/commands'', ''/position_commands'')],
       node_output := Some ''both''\<rparr>"

definition controller2_robot_state_pub_node :: ros_node where
  "controller2_robot_state_pub_node =
     (plain_node ''robot_state_publisher'' ''robot_state_publisher'')
      \<lparr>node_namespace := Some (LaunchConfiguration ''name''),
       node_parameters := [Params controller2_robot_description],
       node_remappings := [(''/joint_states'', ''/dsr/joint_states'')],
       node_output := Some ''both''\<rparr>"

definition controller2_rviz_node :: ros_node where
  "controller2_rviz_node =
     (plain_node ''rviz2'' ''rviz2'')
      \<lparr>node_name := Some ''rviz2'',
       node_namespace := Some (LaunchConfiguration ''name''),
       node_arguments := [Text ''-d'', controller2_rviz_config_file],
       node_output := Some ''log''\<rparr>"

definition controller2_joint_state_broadcaster_spawner :: ros_node where
  "controller2_joint_state_broadcaster_spawner =
     (plain_node ''controller_manager'' ''spawner'')
      \<lparr>node_namespace := Some (LaunchConfiguration ''name''),
       node_arguments := [Text ''joint_state_broadcaster'', Text ''--controller-manager'',
       Text ''/controller_manager'']\<rparr>"

definition controller2_robot_controller_spawner :: ros_node where
  "controller2_robot_controller_spawner =
     (plain_node ''controller_manager'' ''spawner'')
      \<lparr>node_namespace := Some (LaunchConfiguration ''name''),
       node_arguments := [Text ''dsr_controller2'', Text ''-c'',
       Text ''/controller_manager'']\<rparr>"

definition controller2_joint_trajectory_controller_spawner :: ros_node where
  "controller2_joint_trajectory_controller_spawner =
     (plain_node ''controller_manager'' ''spawner'')
      \<lparr>node_namespace := Some (LaunchConfiguration ''name''),
       node_arguments := [Text ''dsr_joint_trajectory'', Text ''-c'',
       Text ''/controller_manager'']\<rparr>"

definition controller2_delay_rviz_after_joint_state_broadcaster_spawner :: action where
  "controller2_delay_rviz_after_joint_state_broadcaster_spawner =
     OnProcessExit controller2_joint_state_broadcaster_spawner
     [Node controller2_rviz_node]"

definition controller2_delay_robot_controller_spawner_after_joint_state_broadcaster_spawner :: action where
  "controller2_delay_robot_controller_spawner_after_joint_state_broadcaster_spawner =
     OnProcessExit controller2_joint_state_broadcaster_spawner
     [Node controller2_robot_controller_spawner]"

definition controller2_delay_robot_controller_spawner_after_joint_trajectory_controller_spawner :: action where
  "controller2_delay_robot_controller_spawner_after_joint_trajectory_controller_spawner =
     OnProcessExit controller2_joint_state_broadcaster_spawner
     [Node controller2_joint_trajectory_controller_spawner]"

definition controller2_nodes :: "action list" where
  "controller2_nodes =
     [Node controller2_control_node,
      Node controller2_robot_state_pub_node,
      Node controller2_joint_state_broadcaster_spawner,
      controller2_delay_rviz_after_joint_state_broadcaster_spawner,
      controller2_delay_robot_controller_spawner_after_joint_state_broadcaster_spawner]"

definition controller2 :: "action list" where
  "controller2 = controller2_ARGUMENTS @ controller2_nodes"

lemmas controller2_defs = controller2_ARGUMENTS_def controller2_robot_description_content_def
  controller2_robot_description_def controller2_robot_controllers_def
  controller2_rviz_config_file_def controller2_control_node_def
  controller2_robot_state_pub_node_def controller2_rviz_node_def
  controller2_joint_state_broadcaster_spawner_def controller2_robot_controller_spawner_def
  controller2_joint_trajectory_controller_spawner_def
  controller2_delay_rviz_after_joint_state_broadcaster_spawner_def
  controller2_delay_robot_controller_spawner_after_joint_state_broadcaster_spawner_def
  controller2_delay_robot_controller_spawner_after_joint_trajectory_controller_spawner_def
  controller2_nodes_def controller2_def

section \<open>dsr_description.launch.py\<close>

definition description2_ARGUMENTS :: "action list" where
  "description2_ARGUMENTS =
     [DeclareLaunchArgument ''model'' ''m1013'',
      DeclareLaunchArgument ''color'' ''white'']"

definition description2_xacro_path :: "build \<Rightarrow> string" where
  "description2_xacro_path B = path_join (share B ''dsr_description2'') [''xacro'']"

definition description2_rviz_config_file :: "build \<Rightarrow> string" where
  "description2_rviz_config_file B = (share B ''dsr_description2'') @ ''/rviz/default.rviz''"

definition description2_rviz_node :: "build \<Rightarrow> ros_node" where
  "description2_rviz_node B =
     (plain_node ''rviz2'' ''rviz2'')
      \<lparr>node_name := Some ''rviz2'',
       node_arguments := [Text ''-d'', Text (description2_rviz_config_file B)],
       node_output := Some ''log''\<rparr>"

definition description2_static_tf :: ros_node where
  "description2_static_tf =
     (plain_node ''tf2_ros'' ''static_transform_publisher'')
      \<lparr>node_name := Some ''static_transform_publisher'',
       node_arguments := [Text ''0.0'', Text ''0.0'', Text ''0.0'', Text ''0.0'', Text ''0.0'',
       Text ''0.0'', Text ''base'', Text ''base_link''],
       node_output := Some ''log''\<rparr>"

definition description2_robot_state_publisher :: "build \<Rightarrow> ros_node" where
  "description2_robot_state_publisher B =
     (plain_node ''robot_state_publisher'' ''robot_state_publisher'')
      \<lparr>node_name := Some ''robot_state_publisher'',
       node_parameters := [Params [(''robot_description'', PvSubst (Command [Text ''xacro'',
       Text '' '', Text (description2_xacro_path B), Text ''/'', LaunchConfiguration ''model'',
       Text ''.urdf.xacro color:='', LaunchConfiguration ''color'']))]],
       node_output := Some ''both''\<rparr>"

definition description2_joint_state_publisher_gui :: ros_node where
  "description2_joint_state_publisher_gui =
     (plain_node ''joint_state_publisher_gui'' ''joint_state_publisher_gui'')
      \<lparr>node_name := Some ''joint_state_publisher_gui''\<rparr>"

definition description2 :: "build \<Rightarrow> action list" where
  "description2 B =
     description2_ARGUMENTS @ [Node description2_static_tf,
      Node (description2_robot_state_publisher B),
      Node description2_joint_state_publisher_gui,
      Node (description2_rviz_node B)]"

lemmas description2_defs = description2_ARGUMENTS_def description2_xacro_path_def
  description2_rviz_config_file_def description2_rviz_node_def description2_static_tf_def
  description2_robot_state_publisher_def description2_joint_state_publisher_gui_def
  description2_def

section \<open>dsr_bringup2_visual_servoing_gazebo.launch.py\<close>

definition vs_bringup_ARGUMENTS :: "action list" where
  "vs_bringup_ARGUMENTS =
     [DeclareLaunchArgument ''name'' ''dsr01'',
      DeclareLaunchArgument ''host'' ''127.0.0.1'',
      DeclareLaunchArgument ''port'' ''12345'',
      DeclareLaunchArgument ''mode'' ''virtual'',
      DeclareLaunchArgument ''model'' ''m1013'',
      DeclareLaunchArgument ''color'' ''white'',
      DeclareLaunchArgument ''gui'' ''false'',
      DeclareLaunchArgument ''gz'' ''true'',
      DeclareLaunchArgument ''x'' ''0'',
      DeclareLaunchArgument ''y'' ''0'',
      DeclareLaunchArgument ''z'' ''0'',
      DeclareLaunchArgument ''R'' ''0'',
      DeclareLaunchArgument ''P'' ''0'',
      DeclareLaunchArgument ''Y'' ''0'']"

definition vs_bringup_xacro_path :: "build \<Rightarrow> string" where
  "vs_bringup_xacro_path B = path_join (share B ''dsr_description2'') [''xacro'']"

definition vs_bringup_gui :: subst where
  "vs_bringup_gui = LaunchConfiguration ''gui''"

definition vs_bringup_robot_description_content :: subst where
  "vs_bringup_robot_description_content =
     Command [PathJoin [FindExecutable ''xacro''], Text '' '',
      PathJoin [FindPackageShare ''dsr_description2'', Text ''xacro'',
      LaunchConfiguration ''model''], Text ''.urdf.xacro'']"

definition vs_bringup_robot_description :: "(string \<times> pvalue) list" where
  "vs_bringup_robot_description =
     [(''robot_description'', PvSubst vs_bringup_robot_description_content)]"

definition vs_bringup_robot_controllers :: subst where
  "vs_bringup_robot_controllers =
     PathJoin [FindPackageShare ''dsr_controller2'', Text ''config'', Text ''dsr_controller2.yaml'']"

definition vs_bringup_rviz_config_file :: subst where
  "vs_bringup_rviz_config_file =
     PathJoin [FindPackageShare ''dsr_description2'', Text ''rviz'', Text ''default.rviz'']"

definition vs_bringup_run_emulator_node :: ros_node where
  "vs_bringup_run_emulator_node =
     (plain_node ''dsr_bringup2'' ''run_emulator'')
      \<lparr>node_namespace := Some (LaunchConfiguration ''name''),
       node_parameters := [Params [(''name'', PvSubst (LaunchConfiguration ''name''))],
        Params [(''rate'', PvInt 100)],
        Params [(''standby'', PvInt 5000)],
        Params [(''command'', PvBool True)],
        Params [(''host'', PvSubst (LaunchConfiguration ''host''))],
        Params [(''port'', PvSubst (LaunchConfiguration ''port''))],
        Params [(''mode'', PvSubst (LaunchConfiguration ''mode''))],
        Params [(''model'', PvSubst (LaunchConfiguration ''model''))],
        Params [(''gripper'', PvSubst (Text ''none''))],
        Params [(''mobile'', PvSubst (Text ''none''))],
        Params [(''rt_host'', PvSubst (LaunchConfiguration ''rt_host''))]],
       node_output := Some ''screen''\<rparr>"

definition vs_bringup_gazebo_connection_node :: ros_node where
  "vs_bringup_gazebo_connection_node =
     (plain_node ''dsr_bringup2'' ''gazebo_connection'')
      \<lparr>node_namespace := Some (LaunchConfiguration ''name''),
       node_output := Some ''log''\<rparr>"

definition vs_bringup_control_node :: ros_node where
  "vs_bringup_control_node =
     (plain_node ''controller_manager'' ''ros2_control_node'')
      \<lparr>node_namespace := Some (LaunchConfiguration ''name''),
       node_parameters := [Params vs_bringup_robot_description,
        ParamFile [vs_bringup_robot_controllers]]\<rparr>"

definition vs_bringup_robot_state_pub_node :: "build \<Rightarrow> ros_node" where
  "vs_bringup_robot_state_pub_node B =
     (plain_node ''robot_state_publisher'' ''robot_state_publisher'')
      \<lparr>node_name := Some ''robot_state_publisher'',
       node_namespace := Some (LaunchConfiguration ''name''),
       node_parameters := [Params [(''robot_description'', PvSubst (Command [Text ''xacro'',
       Text '' '', Text (vs_bringup_xacro_path B), Text ''/'', LaunchConfiguration ''model'',
       Text ''.urdf.xacro color:='', LaunchConfiguration ''color'']))]],
       node_output := Some ''both''\<rparr>"

definition vs_bringup_rgbd_camera_bridge :: action where
  "vs_bringup_rgbd_camera_bridge =
     IncludeLaunchDescription [FindPackageShare ''dsr_visualservoing'',
      Text ''/launch/rgbd_camera.launch.py'']
     [(''image_topic'', Text ''/rgbd_camera'')]"

definition vs_bringup_rviz_node :: ros_node where
  "vs_bringup_rviz_node =
     (plain_node ''rviz2'' ''rviz2'')
      \<lparr>node_name := Some ''rviz2'',
       node_namespace := Some (LaunchConfiguration ''name''),
       node_arguments := [Text ''-d'', vs_bringup_rviz_config_file],
       node_condition := Some (IfCondition vs_bringup_gui),
       node_output := Some ''log''\<rparr>"

definition vs_bringup_joint_state_broadcaster_spawner :: ros_node where
  "vs_bringup_joint_state_broadcaster_spawner =
     (plain_node ''controller_manager'' ''spawner'')
      \<lparr>node_namespace := Some (LaunchConfiguration ''name''),
       node_arguments := [Text ''joint_state_broadcaster'', Text ''-c'',
       Text ''controller_manager'']\<rparr>"

definition vs_bringup_robot_controller_spawner :: ros_node where
  "vs_bringup_robot_controller_spawner =
     (plain_node ''controller_manager'' ''spawner'')
      \<lparr>node_namespace := Some (LaunchConfiguration ''name''),
       node_arguments := [Text ''dsr_controller2'', Text ''-c'',
       Text ''controller_manager'']\<rparr>"

definition vs_bringup_joint_trajectory_controller_spawner :: ros_node where
  "vs_bringup_joint_trajectory_controller_spawner =
     (plain_node ''controller_manager'' ''spawner'')
      \<lparr>node_namespace := Some (LaunchConfiguration ''name''),
       node_arguments := [Text ''dsr_joint_trajectory'', Text ''-c'',
       Text ''controller_manager'']\<rparr>"

definition vs_bringup_delay_rviz_after_joint_state_broadcaster_spawner :: action where
  "vs_bringup_delay_rviz_after_joint_state_broadcaster_spawner =
     OnProcessExit vs_bringup_robot_controller_spawner
     [Node vs_bringup_rviz_node]"

definition vs_bringup_delay_robot_controller_spawner_after_joint_state_broadcaster_spawner :: action where
  "vs_bringup_delay_robot_controller_spawner_after_joint_state_broadcaster_spawner =
     OnProcessExit vs_bringup_joint_state_broadcaster_spawner
     [Node vs_bringup_robot_controller_spawner]"

definition vs_bringup_included_launch_file_path :: "build \<Rightarrow> string" where
  "vs_bringup_included_launch_file_path B =
     path_join (share B ''dsr_visualservoing'') [''launch'',
      ''dsr_gazebo_visual_servoing.launch.py'']"

definition vs_bringup_included_launch :: "build \<Rightarrow> action" where
  "vs_bringup_included_launch B =
     IncludeLaunchDescription [Text (vs_bringup_included_launch_file_path B)]
     [(''use_gazebo'', LaunchConfiguration ''gz''), (''name'', LaunchConfiguration ''name''),
      (''color'', LaunchConfiguration ''color''), (''x'', LaunchConfiguration ''x''), (''y'',
      LaunchConfiguration ''y''), (''z'', LaunchConfiguration ''z''), (''R'',
      LaunchConfiguration ''R''), (''P'', LaunchConfiguration ''P''), (''Y'',
      LaunchConfiguration ''Y'')]"

definition vs_bringup_included_launch_after_robot_controller_spawner :: "build \<Rightarrow> action" where
  "vs_bringup_included_launch_after_robot_controller_spawner B =
     OnProcessExit vs_bringup_robot_controller_spawner
     [vs_bringup_included_launch B]"

definition vs_bringup_nodes :: "build \<Rightarrow> action list" where
  "vs_bringup_nodes B =
     [Node vs_bringup_run_emulator_node,
      Node vs_bringup_gazebo_connection_node,
      Node (vs_bringup_robot_state_pub_node B),
      vs_bringup_rgbd_camera_bridge,
      Node vs_bringup_robot_controller_spawner,
      vs_bringup_delay_rviz_after_joint_state_broadcaster_spawner,
      vs_bringup_delay_robot_controller_spawner_after_joint_state_broadcaster_spawner,
      vs_bringup_included_launch_after_robot_controller_spawner B,
      Node vs_bringup_control_node]"

definition vs_bringup :: "build \<Rightarrow> action list" where
  "vs_bringup B = vs_bringup_ARGUMENTS @ (vs_bringup_nodes B)"

lemmas vs_bringup_defs = vs_bringup_ARGUMENTS_def vs_bringup_xacro_path_def vs_bringup_gui_def
  vs_bringup_robot_description_content_def vs_bringup_robot_description_def
  vs_bringup_robot_controllers_def vs_bringup_rviz_config_file_def
  vs_bringup_run_emulator_node_def vs_bringup_gazebo_connection_node_def
  vs_bringup_control_node_def vs_bringup_robot_state_pub_node_def
  vs_bringup_rgbd_camera_bridge_def vs_bringup_rviz_node_def
  vs_bringup_joint_state_broadcaster_spawner_def vs_bringup_robot_controller_spawner_def
  vs_bringup_joint_trajectory_controller_spawner_def
  vs_bringup_delay_rviz_after_joint_state_broadcaster_spawner_def
  vs_bringup_delay_robot_controller_spawner_after_joint_state_broadcaster_spawner_def
  vs_bringup_included_launch_file_path_def vs_bringup_included_launch_def
  vs_bringup_included_launch_after_robot_controller_spawner_def vs_bringup_nodes_def
  vs_bringup_def

section \<open>dsr_gazebo_visual_servoing.launch.py\<close>

definition vs_gazebo_ARGUMENTS :: "action list" where
  "vs_gazebo_ARGUMENTS =
     [DeclareLaunchArgument ''name'' '''',
      DeclareLaunchArgument ''model'' ''m1013'',
      DeclareLaunchArgument ''color'' ''white'',
      DeclareLaunchArgument ''gui'' ''false'',
      DeclareLaunchArgument ''use_gazebo'' ''true'',
      DeclareLaunchArgument ''x'' ''0'',
      DeclareLaunchArgument ''y'' ''0'',
      DeclareLaunchArgument ''z'' ''0'',
      DeclareLaunchArgument ''R'' ''0'',
      DeclareLaunchArgument ''P'' ''0'',
      DeclareLaunchArgument ''Y'' ''0'']"

definition vs_gazebo_gui :: subst where
  "vs_gazebo_gui = LaunchConfiguration ''gui''"

definition vs_gazebo_gazebo :: action where
  "vs_gazebo_gazebo =
     IncludeLaunchDescription [FindPackageShare ''ros_gz_sim'', Text ''/launch/gz_sim.launch.py'']
     [(''gz_args'', Text '' -r -v 3 empty.sdf'')]"

definition vs_gazebo_gz_spawn_entity :: ros_node where
  "vs_gazebo_gz_spawn_entity =
     (plain_node ''ros_gz_sim'' ''create'')
      \<lparr>node_namespace := Some (PathJoin [LaunchConfiguration ''name'', Text ''gz'']),
       node_arguments := [Text ''-topic'', Text ''robot_description'', Text ''-name'',
       LaunchConfiguration ''model'', Text ''-allow_renaming'', Text ''true'', Text ''-x'',
       LaunchConfiguration ''x'', Text ''-y'', LaunchConfiguration ''y'', Text ''-z'',
       LaunchConfiguration ''z'', Text ''-R'', LaunchConfiguration ''R'', Text ''-P'',
       LaunchConfiguration ''P'', Text ''-Y'', LaunchConfiguration ''Y''],
       node_output := Some ''screen''\<rparr>"

definition vs_gazebo_robot_description_content :: subst where
  "vs_gazebo_robot_description_content =
     Command [PathJoin [FindExecutable ''xacro''], Text '' '',
      PathJoin [FindPackageShare ''dsr_description2'', Text ''xacro'',
      LaunchConfiguration ''model''], Text ''.urdf.xacro'', Text '' '', Text ''use_gazebo:='',
      LaunchConfiguration ''use_gazebo'', Text '' '', Text ''color:='',
      LaunchConfiguration ''color'', Text '' '', Text ''namespace:='',
      PathJoin [LaunchConfiguration ''name'', Text ''gz'']]"

definition vs_gazebo_robot_description :: "(string \<times> pvalue) list" where
  "vs_gazebo_robot_description =
     [(''robot_description'', PvSubst vs_gazebo_robot_description_content)]"

definition vs_gazebo_rviz_config_file :: subst where
  "vs_gazebo_rviz_config_file =
     PathJoin [FindPackageShare ''dsr_description2'', Text ''rviz'', Text ''default.rviz'']"

definition vs_gazebo_node_robot_state_publisher :: ros_node where
  "vs_gazebo_node_robot_state_publisher =
     (plain_node ''robot_state_publisher'' ''robot_state_publisher'')
      \<lparr>node_namespace := Some (PathJoin [LaunchConfiguration ''name'', Text ''gz'']),
       node_parameters := [Params vs_gazebo_robot_description],
       node_output := Some ''screen''\<rparr>"

definition vs_gazebo_joint_state_broadcaster_spawner :: ros_node where
  "vs_gazebo_joint_state_broadcaster_spawner =
     (plain_node ''controller_manager'' ''spawner'')
      \<lparr>node_namespace := Some (PathJoin [LaunchConfiguration ''name'', Text ''gz'']),
       node_arguments := [Text ''joint_state_broadcaster'', Text ''--controller-manager'',
       Text ''controller_manager'']\<rparr>"

definition vs_gazebo_dsr_position_controller_spawner :: ros_node where
  "vs_gazebo_dsr_position_controller_spawner =
     (plain_node ''controller_manager'' ''spawner'')
      \<lparr>node_namespace := Some (PathJoin [LaunchConfiguration ''name'', Text ''gz'']),
       node_arguments := [Text ''dsr_position_controller'', Text ''--controller-manager'',
       Text ''controller_manager'']\<rparr>"

definition vs_gazebo_rviz_node :: ros_node where
  "vs_gazebo_rviz_node =
     (plain_node ''rviz2'' ''rviz2'')
      \<lparr>node_name := Some ''rviz2'',
       node_arguments := [Text ''-d'', vs_gazebo_rviz_config_file],
       node_condition := Some (IfCondition vs_gazebo_gui),
       node_output := Some ''log''\<rparr>"

definition vs_gazebo_delay_rviz_after_joint_state_broadcaster_spawner :: action where
  "vs_gazebo_delay_rviz_after_joint_state_broadcaster_spawner =
     OnProcessExit vs_gazebo_joint_state_broadcaster_spawner
     [Node vs_gazebo_rviz_node]"

definition vs_gazebo_dsr_position_controller_spawner_action :: action where
  "vs_gazebo_dsr_position_controller_spawner_action =
     TimerAction 2 [Node vs_gazebo_dsr_position_controller_spawner]"

definition vs_gazebo_delay_dsr_position_controller_spawner_after_joint_state_broadcaster_spawner :: action where
  "vs_gazebo_delay_dsr_position_controller_spawner_after_joint_state_broadcaster_spawner =
     OnProcessExit vs_gazebo_joint_state_broadcaster_spawner
     [vs_gazebo_dsr_position_controller_spawner_action]"

definition vs_gazebo_nodes :: "action list" where
  "vs_gazebo_nodes =
     [Node vs_gazebo_node_robot_state_publisher,
      Node vs_gazebo_gz_spawn_entity,
      Node vs_gazebo_joint_state_broadcaster_spawner,
      vs_gazebo_delay_dsr_position_controller_spawner_after_joint_state_broadcaster_spawner]"

definition vs_gazebo :: "action list" where
  "vs_gazebo = vs_gazebo_ARGUMENTS @ vs_gazebo_nodes"

lemmas vs_gazebo_defs = vs_gazebo_ARGUMENTS_def vs_gazebo_gui_def vs_gazebo_gazebo_def
  vs_gazebo_gz_spawn_entity_def vs_gazebo_robot_description_content_def
  vs_gazebo_robot_description_def vs_gazebo_rviz_config_file_def
  vs_gazebo_node_robot_state_publisher_def vs_gazebo_joint_state_broadcaster_spawner_def
  vs_gazebo_dsr_position_controller_spawner_def vs_gazebo_rviz_node_def
  vs_gazebo_delay_rviz_after_joint_state_broadcaster_spawner_def
  vs_gazebo_dsr_position_controller_spawner_action_def
  vs_gazebo_delay_dsr_position_controller_spawner_after_joint_state_broadcaster_spawner_def
  vs_gazebo_nodes_def vs_gazebo_def

section \<open>visual_servoing_gz.launch.py\<close>

definition vs_nodes :: "action list" where
  "vs_nodes =
     [Node ((plain_node ''dsr_visualservoing'' ''detect_marker_gz'')
      \<lparr>node_name := Some ''detect_marker_gz'',
       node_output := Some ''screen''\<rparr>),
      Node ((plain_node ''dsr_visualservoing'' ''send_pose_servol_gz'')
      \<lparr>node_name := Some ''send_pose_servol_gz'',
       node_output := Some ''screen''\<rparr>)]"

lemmas vs_nodes_defs = vs_nodes_def

section \<open>camera_calibration.launch.py\<close>

definition vs_calib_pkg_ros_gz_sim :: "build \<Rightarrow> string" where
  "vs_calib_pkg_ros_gz_sim B = share B ''ros_gz_sim''"

definition vs_calib_descp_path :: "build \<Rightarrow> string" where
  "vs_calib_descp_path B = share B ''dsr_visualservoing''"

definition vs_calib_gz_sim :: "build \<Rightarrow> action" where
  "vs_calib_gz_sim B =
     IncludeLaunchDescription [Text (path_join (vs_calib_pkg_ros_gz_sim B) [''launch'',
      ''gz_sim.launch.py''])]
     [(''gz_args'',
      Text ((''-r '' @ (vs_calib_descp_path B)) @ ''/description/visual_servoing.sdf''))]"

definition vs_calib_rqt :: ros_node where
  "vs_calib_rqt =
     (plain_node ''rqt_image_view'' ''rqt_image_view'')
      \<lparr>node_arguments := [LaunchConfiguration ''image_topic''],
       node_condition := Some (IfCondition (LaunchConfiguration ''rqt''))\<rparr>"

definition vs_calib_bridge :: ros_node where
  "vs_calib_bridge =
     (plain_node ''ros_gz_image'' ''image_bridge'')
      \<lparr>node_arguments := [Text ''rgbd_camera/image'', Text ''rgbd_camera/depth_image''],
       node_output := Some ''screen''\<rparr>"

definition vs_calib :: "build \<Rightarrow> action list" where
  "vs_calib B =
     [vs_calib_gz_sim B,
      DeclareLaunchArgument ''rqt'' ''true'',
      DeclareLaunchArgument ''image_topic'' ''/camera'',
      Node vs_calib_bridge,
      Node vs_calib_rqt]"

lemmas vs_calib_defs = vs_calib_pkg_ros_gz_sim_def vs_calib_descp_path_def vs_calib_gz_sim_def
  vs_calib_rqt_def vs_calib_bridge_def vs_calib_def

section \<open>rgbd_camera.launch.py\<close>

definition vs_rgbd_pkg_ros_gz_sim :: "build \<Rightarrow> string" where
  "vs_rgbd_pkg_ros_gz_sim B = share B ''ros_gz_sim''"

definition vs_rgbd_descp_path :: "build \<Rightarrow> string" where
  "vs_rgbd_descp_path B = share B ''dsr_visualservoing''"

definition vs_rgbd_gz_sim :: "build \<Rightarrow> action" where
  "vs_rgbd_gz_sim B =
     IncludeLaunchDescription [Text (path_join (vs_rgbd_pkg_ros_gz_sim B) [''launch'',
      ''gz_sim.launch.py''])]
     [(''gz_args'',
      Text ((''-r '' @ (vs_rgbd_descp_path B)) @ ''/description/visual_servoing.sdf''))]"

definition vs_rgbd_rqt :: ros_node where
  "vs_rgbd_rqt =
     (plain_node ''rqt_image_view'' ''rqt_image_view'')
      \<lparr>node_arguments := [LaunchConfiguration ''image_topic''],
       node_condition := Some (IfCondition (LaunchConfiguration ''rqt''))\<rparr>"

definition vs_rgbd_bridge :: ros_node where
  "vs_rgbd_bridge =
     (plain_node ''ros_gz_image'' ''image_bridge'')
      \<lparr>node_arguments := [Text ''rgbd_camera/image'', Text ''rgbd_camera/depth_image''],
       node_output := Some ''screen''\<rparr>"

definition vs_rgbd :: "build \<Rightarrow> action list" where
  "vs_rgbd B =
     [vs_rgbd_gz_sim B,
      DeclareLaunchArgument ''rqt'' ''true'',
      DeclareLaunchArgument ''image_topic'' ''/camera'',
      Node vs_rgbd_bridge,
      Node vs_rgbd_rqt]"

lemmas vs_rgbd_defs = vs_rgbd_pkg_ros_gz_sim_def vs_rgbd_descp_path_def vs_rgbd_gz_sim_def
  vs_rgbd_rqt_def vs_rgbd_bridge_def vs_rgbd_def

end
