(* ===== verification/LaunchStart.thy ===== *)
theory LaunchStart
  imports LaunchModel
begin

text \<open>
  The launch files of the MoveIt configuration packages: start.launch.py. There is one definition per variable of a file, with the name of the
  variable after the name of the file; the definition with the file's name alone is the description
  that the file returns. The descriptions of arguments, printing and \<^verbatim>\<open>show_git_info\<close> are
  left out.
\<close>

section \<open>start.launch.py of dsr_moveit_config_a0509\<close>

text \<open>\<^verbatim>\<open>rviz_node_function\<close> of the same file\<close>

definition a0509_start_fn_model_value :: "string \<Rightarrow> string" where
  "a0509_start_fn_model_value m = m"

definition a0509_start_fn_model_value_str :: "string \<Rightarrow> string" where
  "a0509_start_fn_model_value_str m = a0509_start_fn_model_value m"

definition a0509_start_fn_package_name_str :: "string \<Rightarrow> string" where
  "a0509_start_fn_package_name_str m = ''dsr_moveit_config_'' @ (a0509_start_fn_model_value m)"

definition a0509_start_fn_package_path_str :: "build \<Rightarrow> string \<Rightarrow> string" where
  "a0509_start_fn_package_path_str B m = share B (a0509_start_fn_package_name_str m)"

definition a0509_start_fn_moveit_config :: "string \<Rightarrow> moveit_config" where
  "a0509_start_fn_moveit_config m =
     \<lparr>mc_robot = (a0509_start_fn_model_value_str m),
      mc_package = Some (a0509_start_fn_package_name_str m),
      mc_urdf = (''config/'' @ (a0509_start_fn_model_value m) @ ''.urdf.xacro''),
      mc_srdf = ''config/dsr.srdf'',
      mc_controllers = ''config/moveit_controllers.yaml'',
      mc_pipelines = Some ([''ompl'', ''chomp'', ''pilz_industrial_motion_planner''], ''ompl'',
      False)\<rparr>"

definition a0509_start_fn_run_move_group_node :: "string \<Rightarrow> ros_node" where
  "a0509_start_fn_run_move_group_node m =
     (plain_node ''moveit_ros_move_group'' ''move_group'')
      \<lparr>node_parameters := [ParamMoveIt (a0509_start_fn_moveit_config m) WholeConfig],
       node_output := Some ''screen''\<rparr>"

definition a0509_start_fn_rviz_base :: "build \<Rightarrow> string \<Rightarrow> string" where
  "a0509_start_fn_rviz_base B m =
     path_join (share B (a0509_start_fn_package_name_str m)) [''launch'']"

definition a0509_start_fn_rviz_full_config :: "build \<Rightarrow> string \<Rightarrow> string" where
  "a0509_start_fn_rviz_full_config B m =
     path_join (a0509_start_fn_rviz_base B m) [''moveit.rviz'']"

definition a0509_start_fn_rviz_node :: "build \<Rightarrow> string \<Rightarrow> ros_node" where
  "a0509_start_fn_rviz_node B m =
     (plain_node ''rviz2'' ''rviz2'')
      \<lparr>node_name := Some ''rviz2'',
       node_arguments := [Text ''-d'', Text (a0509_start_fn_rviz_full_config B m)],
       node_parameters := [ParamMoveIt (a0509_start_fn_moveit_config m) RobotDescription,
        ParamMoveIt (a0509_start_fn_moveit_config m) RobotSemantic,
        ParamMoveIt (a0509_start_fn_moveit_config m) PlanningPipelines,
        ParamMoveIt (a0509_start_fn_moveit_config m) RobotKinematics,
        ParamMoveIt (a0509_start_fn_moveit_config m) JointLimits],
       node_output := Some ''log''\<rparr>"

definition a0509_start_rviz_node_function :: "build \<Rightarrow> string \<Rightarrow> action list" where
  "a0509_start_rviz_node_function B m =
     [Node (a0509_start_fn_run_move_group_node m),
      Node (a0509_start_fn_rviz_node B m)]"

definition a0509_start_ARGUMENTS :: "action list" where
  "a0509_start_ARGUMENTS =
     [DeclareLaunchArgument ''name'' '''',
      DeclareLaunchArgument ''host'' ''127.0.0.1'',
      DeclareLaunchArgument ''port'' ''12345'',
      DeclareLaunchArgument ''mode'' ''virtual'',
      DeclareLaunchArgument ''model'' ''a0509'',
      DeclareLaunchArgument ''color'' ''white'',
      DeclareLaunchArgument ''gui'' ''false'',
      DeclareLaunchArgument ''gz'' ''false'',
      DeclareLaunchArgument ''rt_host'' ''192.168.137.50'']"

definition a0509_start_xacro_path :: "build \<Rightarrow> string" where
  "a0509_start_xacro_path B = path_join (share B ''dsr_description2'') [''xacro'']"

definition a0509_start_update_rate :: "build \<Rightarrow> string" where
  "a0509_start_update_rate B = update_rate B"

definition a0509_start_robot_description_content :: "build \<Rightarrow> subst" where
  "a0509_start_robot_description_content B =
     Command [PathJoin [FindExecutable ''xacro''], Text '' '',
      PathJoin [FindPackageShare ''dsr_description2'', Text ''xacro'',
      LaunchConfiguration ''model''], Text ''.urdf.xacro'', Text '' name:='',
      LaunchConfiguration ''name'', Text '' host:='', LaunchConfiguration ''host'',
      Text '' rt_host:='', LaunchConfiguration ''rt_host'', Text '' port:='',
      LaunchConfiguration ''port'', Text '' mode:='', LaunchConfiguration ''mode'',
      Text '' model:='', LaunchConfiguration ''model'', Text '' update_rate:='',
      Text (a0509_start_update_rate B)]"

definition a0509_start_robot_description :: "build \<Rightarrow> (string \<times> pvalue) list" where
  "a0509_start_robot_description B =
     [(''robot_description'', PvSubst (a0509_start_robot_description_content B))]"

definition a0509_start_robot_controllers :: "subst list" where
  "a0509_start_robot_controllers =
     [PathJoin [FindPackageShare ''dsr_controller2'', Text ''config'',
      Text ''dsr_controller2.yaml'']]"

definition a0509_start_run_emulator_node :: ros_node where
  "a0509_start_run_emulator_node =
     (plain_node ''dsr_bringup2'' ''run_emulator'')
      \<lparr>node_namespace := Some (LaunchConfiguration ''name''),
       node_parameters := [Params [(''name'', PvSubst (LaunchConfiguration ''name''))],
        Params [(''rate'', PvInt 100)],
        Params [(''standby'', PvInt 5000)],
        Params [(''command'', PvBool True)],
        Params [(''host'', PvSubst (LaunchConfiguration ''host''))],
        Params [(''port'', PvSubst (LaunchConfiguration ''port''))],
        Params [(''mode'', PvSubst (LaunchConfiguration ''mode''))],
        Params [(''model'', PvSubst (LaunchConfiguration ''model''))],
        Params [(''gripper'', PvSubst (Text ''none''))],
        Params [(''mobile'', PvSubst (Text ''none''))],
        Params [(''rt_host'', PvSubst (LaunchConfiguration ''rt_host''))]],
       node_output := Some ''screen''\<rparr>"

definition a0509_start_control_node :: "build \<Rightarrow> ros_node" where
  "a0509_start_control_node B =
     (plain_node ''controller_manager'' ''ros2_control_node'')
      \<lparr>node_namespace := Some (LaunchConfiguration ''name''),
       node_parameters := [Params (a0509_start_robot_description B),
        ParamFile a0509_start_robot_controllers],
       node_output := Some ''both''\<rparr>"

definition a0509_start_robot_state_pub_node :: "build \<Rightarrow> ros_node" where
  "a0509_start_robot_state_pub_node B =
     (plain_node ''robot_state_publisher'' ''robot_state_publisher'')
      \<lparr>node_namespace := Some (LaunchConfiguration ''name''),
       node_parameters := [Params [(''robot_description'', PvSubst (Command [Text ''xacro'',
       Text '' '', Text (a0509_start_xacro_path B), Text ''/'', LaunchConfiguration ''model'',
       Text ''.urdf.xacro color:='', LaunchConfiguration ''color'']))]],
       node_output := Some ''both''\<rparr>"

definition a0509_start_joint_state_broadcaster_spawner :: ros_node where
  "a0509_start_joint_state_broadcaster_spawner =
     (plain_node ''controller_manager'' ''spawner'')
      \<lparr>node_namespace := Some (LaunchConfiguration ''name''),
       node_arguments := [Text ''joint_state_broadcaster'', Text ''-c'',
       Text ''controller_manager'', Text ''--controller-manager-timeout'', Text ''120'']\<rparr>"

definition a0509_start_robot_controller_spawner :: ros_node where
  "a0509_start_robot_controller_spawner =
     (plain_node ''controller_manager'' ''spawner'')
      \<lparr>node_namespace := Some (LaunchConfiguration ''name''),
       node_arguments := [Text ''dsr_controller2'', Text ''-c'', Text ''controller_manager'',
       Text ''--controller-manager-timeout'', Text ''120'']\<rparr>"

definition a0509_start_dsr_moveit_controller_spawner :: ros_node where
  "a0509_start_dsr_moveit_controller_spawner =
     (plain_node ''controller_manager'' ''spawner'')
      \<lparr>node_namespace := Some (LaunchConfiguration ''name''),
       node_arguments := [Text ''dsr_moveit_controller'', Text ''-c'',
       Text ''controller_manager'', Text ''--controller-manager-timeout'', Text ''120'']\<rparr>"

definition a0509_start_rviz_node :: action where
  "a0509_start_rviz_node = OpaqueFunction ''rviz_node_function''"

definition a0509_start_delay_jsb_after_control_node :: "build \<Rightarrow> action" where
  "a0509_start_delay_jsb_after_control_node B =
     OnProcessStart (a0509_start_control_node B)
     [TimerAction 5 [Node a0509_start_joint_state_broadcaster_spawner]]"

definition a0509_start_delay_robot_controller_after_joint_state :: action where
  "a0509_start_delay_robot_controller_after_joint_state =
     OnProcessExit a0509_start_joint_state_broadcaster_spawner
     [Node a0509_start_robot_controller_spawner]"

definition a0509_start_delay_dsr_moveit_controller_after_robot_controller :: action where
  "a0509_start_delay_dsr_moveit_controller_after_robot_controller =
     OnProcessExit a0509_start_robot_controller_spawner
     [Node a0509_start_dsr_moveit_controller_spawner]"

definition a0509_start_delay_rviz_after_dsr_moveit_controller :: action where
  "a0509_start_delay_rviz_after_dsr_moveit_controller =
     OnProcessExit a0509_start_dsr_moveit_controller_spawner
     [a0509_start_rviz_node]"

definition a0509_start_nodes :: "build \<Rightarrow> action list" where
  "a0509_start_nodes B =
     [Node a0509_start_run_emulator_node,
      Node (a0509_start_robot_state_pub_node B),
      Node (a0509_start_control_node B),
      a0509_start_delay_jsb_after_control_node B,
      a0509_start_delay_robot_controller_after_joint_state,
      a0509_start_delay_dsr_moveit_controller_after_robot_controller,
      a0509_start_delay_rviz_after_dsr_moveit_controller]"

definition a0509_start :: "build \<Rightarrow> action list" where
  "a0509_start B = a0509_start_ARGUMENTS @ (a0509_start_nodes B)"

lemmas a0509_start_defs = a0509_start_fn_model_value_def a0509_start_fn_model_value_str_def
  a0509_start_fn_package_name_str_def a0509_start_fn_package_path_str_def
  a0509_start_fn_moveit_config_def a0509_start_fn_run_move_group_node_def
  a0509_start_fn_rviz_base_def a0509_start_fn_rviz_full_config_def a0509_start_fn_rviz_node_def
  a0509_start_rviz_node_function_def a0509_start_ARGUMENTS_def a0509_start_xacro_path_def
  a0509_start_update_rate_def a0509_start_robot_description_content_def
  a0509_start_robot_description_def a0509_start_robot_controllers_def
  a0509_start_run_emulator_node_def a0509_start_control_node_def
  a0509_start_robot_state_pub_node_def a0509_start_joint_state_broadcaster_spawner_def
  a0509_start_robot_controller_spawner_def a0509_start_dsr_moveit_controller_spawner_def
  a0509_start_rviz_node_def a0509_start_delay_jsb_after_control_node_def
  a0509_start_delay_robot_controller_after_joint_state_def
  a0509_start_delay_dsr_moveit_controller_after_robot_controller_def
  a0509_start_delay_rviz_after_dsr_moveit_controller_def a0509_start_nodes_def a0509_start_def

section \<open>start.launch.py of dsr_moveit_config_a0912\<close>

text \<open>\<^verbatim>\<open>rviz_node_function\<close> of the same file\<close>

definition a0912_start_fn_model_value :: "string \<Rightarrow> string" where
  "a0912_start_fn_model_value m = m"

definition a0912_start_fn_model_value_str :: "string \<Rightarrow> string" where
  "a0912_start_fn_model_value_str m = a0912_start_fn_model_value m"

definition a0912_start_fn_package_name_str :: "string \<Rightarrow> string" where
  "a0912_start_fn_package_name_str m = ''dsr_moveit_config_'' @ (a0912_start_fn_model_value m)"

definition a0912_start_fn_package_path_str :: "build \<Rightarrow> string \<Rightarrow> string" where
  "a0912_start_fn_package_path_str B m = share B (a0912_start_fn_package_name_str m)"

definition a0912_start_fn_moveit_config :: "string \<Rightarrow> moveit_config" where
  "a0912_start_fn_moveit_config m =
     \<lparr>mc_robot = (a0912_start_fn_model_value_str m),
      mc_package = Some (a0912_start_fn_package_name_str m),
      mc_urdf = (''config/'' @ (a0912_start_fn_model_value m) @ ''.urdf.xacro''),
      mc_srdf = ''config/dsr.srdf'',
      mc_controllers = ''config/moveit_controllers.yaml'',
      mc_pipelines = Some ([''ompl'', ''chomp'', ''pilz_industrial_motion_planner''], ''ompl'',
      False)\<rparr>"

definition a0912_start_fn_run_move_group_node :: "string \<Rightarrow> ros_node" where
  "a0912_start_fn_run_move_group_node m =
     (plain_node ''moveit_ros_move_group'' ''move_group'')
      \<lparr>node_parameters := [ParamMoveIt (a0912_start_fn_moveit_config m) WholeConfig],
       node_output := Some ''screen''\<rparr>"

definition a0912_start_fn_rviz_base :: "build \<Rightarrow> string \<Rightarrow> string" where
  "a0912_start_fn_rviz_base B m =
     path_join (share B (a0912_start_fn_package_name_str m)) [''launch'']"

definition a0912_start_fn_rviz_full_config :: "build \<Rightarrow> string \<Rightarrow> string" where
  "a0912_start_fn_rviz_full_config B m =
     path_join (a0912_start_fn_rviz_base B m) [''moveit.rviz'']"

definition a0912_start_fn_rviz_node :: "build \<Rightarrow> string \<Rightarrow> ros_node" where
  "a0912_start_fn_rviz_node B m =
     (plain_node ''rviz2'' ''rviz2'')
      \<lparr>node_name := Some ''rviz2'',
       node_arguments := [Text ''-d'', Text (a0912_start_fn_rviz_full_config B m)],
       node_parameters := [ParamMoveIt (a0912_start_fn_moveit_config m) RobotDescription,
        ParamMoveIt (a0912_start_fn_moveit_config m) RobotSemantic,
        ParamMoveIt (a0912_start_fn_moveit_config m) PlanningPipelines,
        ParamMoveIt (a0912_start_fn_moveit_config m) RobotKinematics,
        ParamMoveIt (a0912_start_fn_moveit_config m) JointLimits],
       node_output := Some ''log''\<rparr>"

definition a0912_start_rviz_node_function :: "build \<Rightarrow> string \<Rightarrow> action list" where
  "a0912_start_rviz_node_function B m =
     [Node (a0912_start_fn_run_move_group_node m),
      Node (a0912_start_fn_rviz_node B m)]"

definition a0912_start_ARGUMENTS :: "action list" where
  "a0912_start_ARGUMENTS =
     [DeclareLaunchArgument ''name'' '''',
      DeclareLaunchArgument ''host'' ''127.0.0.1'',
      DeclareLaunchArgument ''port'' ''12345'',
      DeclareLaunchArgument ''mode'' ''virtual'',
      DeclareLaunchArgument ''model'' ''a0912'',
      DeclareLaunchArgument ''color'' ''white'',
      DeclareLaunchArgument ''gui'' ''false'',
      DeclareLaunchArgument ''gz'' ''false'',
      DeclareLaunchArgument ''rt_host'' ''192.168.137.50'']"

definition a0912_start_xacro_path :: "build \<Rightarrow> string" where
  "a0912_start_xacro_path B = path_join (share B ''dsr_description2'') [''xacro'']"

definition a0912_start_update_rate :: "build \<Rightarrow> string" where
  "a0912_start_update_rate B = update_rate B"

definition a0912_start_robot_description_content :: "build \<Rightarrow> subst" where
  "a0912_start_robot_description_content B =
     Command [PathJoin [FindExecutable ''xacro''], Text '' '',
      PathJoin [FindPackageShare ''dsr_description2'', Text ''xacro'',
      LaunchConfiguration ''model''], Text ''.urdf.xacro'', Text '' name:='',
      LaunchConfiguration ''name'', Text '' host:='', LaunchConfiguration ''host'',
      Text '' rt_host:='', LaunchConfiguration ''rt_host'', Text '' port:='',
      LaunchConfiguration ''port'', Text '' mode:='', LaunchConfiguration ''mode'',
      Text '' model:='', LaunchConfiguration ''model'', Text '' update_rate:='',
      Text (a0912_start_update_rate B)]"

definition a0912_start_robot_description :: "build \<Rightarrow> (string \<times> pvalue) list" where
  "a0912_start_robot_description B =
     [(''robot_description'', PvSubst (a0912_start_robot_description_content B))]"

definition a0912_start_robot_controllers :: "subst list" where
  "a0912_start_robot_controllers =
     [PathJoin [FindPackageShare ''dsr_controller2'', Text ''config'',
      Text ''dsr_controller2.yaml'']]"

definition a0912_start_run_emulator_node :: ros_node where
  "a0912_start_run_emulator_node =
     (plain_node ''dsr_bringup2'' ''run_emulator'')
      \<lparr>node_namespace := Some (LaunchConfiguration ''name''),
       node_parameters := [Params [(''name'', PvSubst (LaunchConfiguration ''name''))],
        Params [(''rate'', PvInt 100)],
        Params [(''standby'', PvInt 5000)],
        Params [(''command'', PvBool True)],
        Params [(''host'', PvSubst (LaunchConfiguration ''host''))],
        Params [(''port'', PvSubst (LaunchConfiguration ''port''))],
        Params [(''mode'', PvSubst (LaunchConfiguration ''mode''))],
        Params [(''model'', PvSubst (LaunchConfiguration ''model''))],
        Params [(''gripper'', PvSubst (Text ''none''))],
        Params [(''mobile'', PvSubst (Text ''none''))],
        Params [(''rt_host'', PvSubst (LaunchConfiguration ''rt_host''))]],
       node_output := Some ''screen''\<rparr>"

definition a0912_start_control_node :: "build \<Rightarrow> ros_node" where
  "a0912_start_control_node B =
     (plain_node ''controller_manager'' ''ros2_control_node'')
      \<lparr>node_namespace := Some (LaunchConfiguration ''name''),
       node_parameters := [Params (a0912_start_robot_description B),
        ParamFile a0912_start_robot_controllers],
       node_output := Some ''both''\<rparr>"

definition a0912_start_robot_state_pub_node :: "build \<Rightarrow> ros_node" where
  "a0912_start_robot_state_pub_node B =
     (plain_node ''robot_state_publisher'' ''robot_state_publisher'')
      \<lparr>node_namespace := Some (LaunchConfiguration ''name''),
       node_parameters := [Params [(''robot_description'', PvSubst (Command [Text ''xacro'',
       Text '' '', Text (a0912_start_xacro_path B), Text ''/'', LaunchConfiguration ''model'',
       Text ''.urdf.xacro color:='', LaunchConfiguration ''color'']))]],
       node_output := Some ''both''\<rparr>"

definition a0912_start_joint_state_broadcaster_spawner :: ros_node where
  "a0912_start_joint_state_broadcaster_spawner =
     (plain_node ''controller_manager'' ''spawner'')
      \<lparr>node_namespace := Some (LaunchConfiguration ''name''),
       node_arguments := [Text ''joint_state_broadcaster'', Text ''-c'',
       Text ''controller_manager'', Text ''--controller-manager-timeout'', Text ''120'']\<rparr>"

definition a0912_start_robot_controller_spawner :: ros_node where
  "a0912_start_robot_controller_spawner =
     (plain_node ''controller_manager'' ''spawner'')
      \<lparr>node_namespace := Some (LaunchConfiguration ''name''),
       node_arguments := [Text ''dsr_controller2'', Text ''-c'', Text ''controller_manager'',
       Text ''--controller-manager-timeout'', Text ''120'']\<rparr>"

definition a0912_start_dsr_moveit_controller_spawner :: ros_node where
  "a0912_start_dsr_moveit_controller_spawner =
     (plain_node ''controller_manager'' ''spawner'')
      \<lparr>node_namespace := Some (LaunchConfiguration ''name''),
       node_arguments := [Text ''dsr_moveit_controller'', Text ''-c'',
       Text ''controller_manager'', Text ''--controller-manager-timeout'', Text ''120'']\<rparr>"

definition a0912_start_rviz_node :: action where
  "a0912_start_rviz_node = OpaqueFunction ''rviz_node_function''"

definition a0912_start_delay_jsb_after_control_node :: "build \<Rightarrow> action" where
  "a0912_start_delay_jsb_after_control_node B =
     OnProcessStart (a0912_start_control_node B)
     [TimerAction 5 [Node a0912_start_joint_state_broadcaster_spawner]]"

definition a0912_start_delay_robot_controller_after_joint_state :: action where
  "a0912_start_delay_robot_controller_after_joint_state =
     OnProcessExit a0912_start_joint_state_broadcaster_spawner
     [Node a0912_start_robot_controller_spawner]"

definition a0912_start_delay_dsr_moveit_controller_after_robot_controller :: action where
  "a0912_start_delay_dsr_moveit_controller_after_robot_controller =
     OnProcessExit a0912_start_robot_controller_spawner
     [Node a0912_start_dsr_moveit_controller_spawner]"

definition a0912_start_delay_rviz_after_dsr_moveit_controller :: action where
  "a0912_start_delay_rviz_after_dsr_moveit_controller =
     OnProcessExit a0912_start_dsr_moveit_controller_spawner
     [a0912_start_rviz_node]"

definition a0912_start_nodes :: "build \<Rightarrow> action list" where
  "a0912_start_nodes B =
     [Node a0912_start_run_emulator_node,
      Node (a0912_start_robot_state_pub_node B),
      Node (a0912_start_control_node B),
      a0912_start_delay_jsb_after_control_node B,
      a0912_start_delay_robot_controller_after_joint_state,
      a0912_start_delay_dsr_moveit_controller_after_robot_controller,
      a0912_start_delay_rviz_after_dsr_moveit_controller]"

definition a0912_start :: "build \<Rightarrow> action list" where
  "a0912_start B = a0912_start_ARGUMENTS @ (a0912_start_nodes B)"

lemmas a0912_start_defs = a0912_start_fn_model_value_def a0912_start_fn_model_value_str_def
  a0912_start_fn_package_name_str_def a0912_start_fn_package_path_str_def
  a0912_start_fn_moveit_config_def a0912_start_fn_run_move_group_node_def
  a0912_start_fn_rviz_base_def a0912_start_fn_rviz_full_config_def a0912_start_fn_rviz_node_def
  a0912_start_rviz_node_function_def a0912_start_ARGUMENTS_def a0912_start_xacro_path_def
  a0912_start_update_rate_def a0912_start_robot_description_content_def
  a0912_start_robot_description_def a0912_start_robot_controllers_def
  a0912_start_run_emulator_node_def a0912_start_control_node_def
  a0912_start_robot_state_pub_node_def a0912_start_joint_state_broadcaster_spawner_def
  a0912_start_robot_controller_spawner_def a0912_start_dsr_moveit_controller_spawner_def
  a0912_start_rviz_node_def a0912_start_delay_jsb_after_control_node_def
  a0912_start_delay_robot_controller_after_joint_state_def
  a0912_start_delay_dsr_moveit_controller_after_robot_controller_def
  a0912_start_delay_rviz_after_dsr_moveit_controller_def a0912_start_nodes_def a0912_start_def

section \<open>start.launch.py of dsr_moveit_config_e0509\<close>

text \<open>\<^verbatim>\<open>rviz_node_function\<close> of the same file\<close>

definition e0509_start_fn_model_value :: "string \<Rightarrow> string" where
  "e0509_start_fn_model_value m = m"

definition e0509_start_fn_model_value_str :: "string \<Rightarrow> string" where
  "e0509_start_fn_model_value_str m = e0509_start_fn_model_value m"

definition e0509_start_fn_package_name_str :: "string \<Rightarrow> string" where
  "e0509_start_fn_package_name_str m = ''dsr_moveit_config_'' @ (e0509_start_fn_model_value m)"

definition e0509_start_fn_package_path_str :: "build \<Rightarrow> string \<Rightarrow> string" where
  "e0509_start_fn_package_path_str B m = share B (e0509_start_fn_package_name_str m)"

definition e0509_start_fn_moveit_config :: "string \<Rightarrow> moveit_config" where
  "e0509_start_fn_moveit_config m =
     \<lparr>mc_robot = (e0509_start_fn_model_value_str m),
      mc_package = Some (e0509_start_fn_package_name_str m),
      mc_urdf = (''config/'' @ (e0509_start_fn_model_value m) @ ''.urdf.xacro''),
      mc_srdf = ''config/dsr.srdf'',
      mc_controllers = ''config/moveit_controllers.yaml'',
      mc_pipelines = Some ([''ompl'', ''chomp'', ''pilz_industrial_motion_planner''], ''ompl'',
      False)\<rparr>"

definition e0509_start_fn_run_move_group_node :: "string \<Rightarrow> ros_node" where
  "e0509_start_fn_run_move_group_node m =
     (plain_node ''moveit_ros_move_group'' ''move_group'')
      \<lparr>node_parameters := [ParamMoveIt (e0509_start_fn_moveit_config m) WholeConfig],
       node_output := Some ''screen''\<rparr>"

definition e0509_start_fn_rviz_base :: "build \<Rightarrow> string \<Rightarrow> string" where
  "e0509_start_fn_rviz_base B m =
     path_join (share B (e0509_start_fn_package_name_str m)) [''launch'']"

definition e0509_start_fn_rviz_full_config :: "build \<Rightarrow> string \<Rightarrow> string" where
  "e0509_start_fn_rviz_full_config B m =
     path_join (e0509_start_fn_rviz_base B m) [''moveit.rviz'']"

definition e0509_start_fn_rviz_node :: "build \<Rightarrow> string \<Rightarrow> ros_node" where
  "e0509_start_fn_rviz_node B m =
     (plain_node ''rviz2'' ''rviz2'')
      \<lparr>node_name := Some ''rviz2'',
       node_arguments := [Text ''-d'', Text (e0509_start_fn_rviz_full_config B m)],
       node_parameters := [ParamMoveIt (e0509_start_fn_moveit_config m) RobotDescription,
        ParamMoveIt (e0509_start_fn_moveit_config m) RobotSemantic,
        ParamMoveIt (e0509_start_fn_moveit_config m) PlanningPipelines,
        ParamMoveIt (e0509_start_fn_moveit_config m) RobotKinematics,
        ParamMoveIt (e0509_start_fn_moveit_config m) JointLimits],
       node_output := Some ''log''\<rparr>"

definition e0509_start_rviz_node_function :: "build \<Rightarrow> string \<Rightarrow> action list" where
  "e0509_start_rviz_node_function B m =
     [Node (e0509_start_fn_run_move_group_node m),
      Node (e0509_start_fn_rviz_node B m)]"

definition e0509_start_ARGUMENTS :: "action list" where
  "e0509_start_ARGUMENTS =
     [DeclareLaunchArgument ''name'' '''',
      DeclareLaunchArgument ''host'' ''127.0.0.1'',
      DeclareLaunchArgument ''port'' ''12345'',
      DeclareLaunchArgument ''mode'' ''virtual'',
      DeclareLaunchArgument ''model'' ''e0509'',
      DeclareLaunchArgument ''color'' ''white'',
      DeclareLaunchArgument ''gui'' ''false'',
      DeclareLaunchArgument ''gz'' ''false'',
      DeclareLaunchArgument ''rt_host'' ''192.168.137.50'']"

definition e0509_start_xacro_path :: "build \<Rightarrow> string" where
  "e0509_start_xacro_path B = path_join (share B ''dsr_description2'') [''xacro'']"

definition e0509_start_update_rate :: "build \<Rightarrow> string" where
  "e0509_start_update_rate B = update_rate B"

definition e0509_start_robot_description_content :: "build \<Rightarrow> subst" where
  "e0509_start_robot_description_content B =
     Command [PathJoin [FindExecutable ''xacro''], Text '' '',
      PathJoin [FindPackageShare ''dsr_description2'', Text ''xacro'',
      LaunchConfiguration ''model''], Text ''.urdf.xacro'', Text '' name:='',
      LaunchConfiguration ''name'', Text '' host:='', LaunchConfiguration ''host'',
      Text '' rt_host:='', LaunchConfiguration ''rt_host'', Text '' port:='',
      LaunchConfiguration ''port'', Text '' mode:='', LaunchConfiguration ''mode'',
      Text '' model:='', LaunchConfiguration ''model'', Text '' update_rate:='',
      Text (e0509_start_update_rate B)]"

definition e0509_start_robot_description :: "build \<Rightarrow> (string \<times> pvalue) list" where
  "e0509_start_robot_description B =
     [(''robot_description'', PvSubst (e0509_start_robot_description_content B))]"

definition e0509_start_robot_controllers :: "subst list" where
  "e0509_start_robot_controllers =
     [PathJoin [FindPackageShare ''dsr_controller2'', Text ''config'',
      Text ''dsr_controller2.yaml'']]"

definition e0509_start_run_emulator_node :: ros_node where
  "e0509_start_run_emulator_node =
     (plain_node ''dsr_bringup2'' ''run_emulator'')
      \<lparr>node_namespace := Some (LaunchConfiguration ''name''),
       node_parameters := [Params [(''name'', PvSubst (LaunchConfiguration ''name''))],
        Params [(''rate'', PvInt 100)],
        Params [(''standby'', PvInt 5000)],
        Params [(''command'', PvBool True)],
        Params [(''host'', PvSubst (LaunchConfiguration ''host''))],
        Params [(''port'', PvSubst (LaunchConfiguration ''port''))],
        Params [(''mode'', PvSubst (LaunchConfiguration ''mode''))],
        Params [(''model'', PvSubst (LaunchConfiguration ''model''))],
        Params [(''gripper'', PvSubst (Text ''none''))],
        Params [(''mobile'', PvSubst (Text ''none''))],
        Params [(''rt_host'', PvSubst (LaunchConfiguration ''rt_host''))]],
       node_output := Some ''screen''\<rparr>"

definition e0509_start_control_node :: "build \<Rightarrow> ros_node" where
  "e0509_start_control_node B =
     (plain_node ''controller_manager'' ''ros2_control_node'')
      \<lparr>node_namespace := Some (LaunchConfiguration ''name''),
       node_parameters := [Params (e0509_start_robot_description B),
        ParamFile e0509_start_robot_controllers],
       node_output := Some ''both''\<rparr>"

definition e0509_start_robot_state_pub_node :: "build \<Rightarrow> ros_node" where
  "e0509_start_robot_state_pub_node B =
     (plain_node ''robot_state_publisher'' ''robot_state_publisher'')
      \<lparr>node_namespace := Some (LaunchConfiguration ''name''),
       node_parameters := [Params [(''robot_description'', PvSubst (Command [Text ''xacro'',
       Text '' '', Text (e0509_start_xacro_path B), Text ''/'', LaunchConfiguration ''model'',
       Text ''.urdf.xacro color:='', LaunchConfiguration ''color'']))]],
       node_output := Some ''both''\<rparr>"

definition e0509_start_joint_state_broadcaster_spawner :: ros_node where
  "e0509_start_joint_state_broadcaster_spawner =
     (plain_node ''controller_manager'' ''spawner'')
      \<lparr>node_namespace := Some (LaunchConfiguration ''name''),
       node_arguments := [Text ''joint_state_broadcaster'', Text ''-c'',
       Text ''controller_manager'', Text ''--controller-manager-timeout'', Text ''120'']\<rparr>"

definition e0509_start_robot_controller_spawner :: ros_node where
  "e0509_start_robot_controller_spawner =
     (plain_node ''controller_manager'' ''spawner'')
      \<lparr>node_namespace := Some (LaunchConfiguration ''name''),
       node_arguments := [Text ''dsr_controller2'', Text ''-c'', Text ''controller_manager'',
       Text ''--controller-manager-timeout'', Text ''120'']\<rparr>"

definition e0509_start_dsr_moveit_controller_spawner :: ros_node where
  "e0509_start_dsr_moveit_controller_spawner =
     (plain_node ''controller_manager'' ''spawner'')
      \<lparr>node_namespace := Some (LaunchConfiguration ''name''),
       node_arguments := [Text ''dsr_moveit_controller'', Text ''-c'',
       Text ''controller_manager'', Text ''--controller-manager-timeout'', Text ''120'']\<rparr>"

definition e0509_start_rviz_node :: action where
  "e0509_start_rviz_node = OpaqueFunction ''rviz_node_function''"

definition e0509_start_delay_jsb_after_control_node :: "build \<Rightarrow> action" where
  "e0509_start_delay_jsb_after_control_node B =
     OnProcessStart (e0509_start_control_node B)
     [TimerAction 5 [Node e0509_start_joint_state_broadcaster_spawner]]"

definition e0509_start_delay_robot_controller_after_joint_state :: action where
  "e0509_start_delay_robot_controller_after_joint_state =
     OnProcessExit e0509_start_joint_state_broadcaster_spawner
     [Node e0509_start_robot_controller_spawner]"

definition e0509_start_delay_dsr_moveit_controller_after_robot_controller :: action where
  "e0509_start_delay_dsr_moveit_controller_after_robot_controller =
     OnProcessExit e0509_start_robot_controller_spawner
     [Node e0509_start_dsr_moveit_controller_spawner]"

definition e0509_start_delay_rviz_after_dsr_moveit_controller :: action where
  "e0509_start_delay_rviz_after_dsr_moveit_controller =
     OnProcessExit e0509_start_dsr_moveit_controller_spawner
     [e0509_start_rviz_node]"

definition e0509_start_nodes :: "build \<Rightarrow> action list" where
  "e0509_start_nodes B =
     [Node e0509_start_run_emulator_node,
      Node (e0509_start_robot_state_pub_node B),
      Node (e0509_start_control_node B),
      e0509_start_delay_jsb_after_control_node B,
      e0509_start_delay_robot_controller_after_joint_state,
      e0509_start_delay_dsr_moveit_controller_after_robot_controller,
      e0509_start_delay_rviz_after_dsr_moveit_controller]"

definition e0509_start :: "build \<Rightarrow> action list" where
  "e0509_start B = e0509_start_ARGUMENTS @ (e0509_start_nodes B)"

lemmas e0509_start_defs = e0509_start_fn_model_value_def e0509_start_fn_model_value_str_def
  e0509_start_fn_package_name_str_def e0509_start_fn_package_path_str_def
  e0509_start_fn_moveit_config_def e0509_start_fn_run_move_group_node_def
  e0509_start_fn_rviz_base_def e0509_start_fn_rviz_full_config_def e0509_start_fn_rviz_node_def
  e0509_start_rviz_node_function_def e0509_start_ARGUMENTS_def e0509_start_xacro_path_def
  e0509_start_update_rate_def e0509_start_robot_description_content_def
  e0509_start_robot_description_def e0509_start_robot_controllers_def
  e0509_start_run_emulator_node_def e0509_start_control_node_def
  e0509_start_robot_state_pub_node_def e0509_start_joint_state_broadcaster_spawner_def
  e0509_start_robot_controller_spawner_def e0509_start_dsr_moveit_controller_spawner_def
  e0509_start_rviz_node_def e0509_start_delay_jsb_after_control_node_def
  e0509_start_delay_robot_controller_after_joint_state_def
  e0509_start_delay_dsr_moveit_controller_after_robot_controller_def
  e0509_start_delay_rviz_after_dsr_moveit_controller_def e0509_start_nodes_def e0509_start_def

section \<open>start.launch.py of dsr_moveit_config_h2017\<close>

text \<open>\<^verbatim>\<open>rviz_node_function\<close> of the same file\<close>

definition h2017_start_fn_model_value :: "string \<Rightarrow> string" where
  "h2017_start_fn_model_value m = m"

definition h2017_start_fn_model_value_str :: "string \<Rightarrow> string" where
  "h2017_start_fn_model_value_str m = h2017_start_fn_model_value m"

definition h2017_start_fn_package_name_str :: "string \<Rightarrow> string" where
  "h2017_start_fn_package_name_str m = ''dsr_moveit_config_'' @ (h2017_start_fn_model_value m)"

definition h2017_start_fn_package_path_str :: "build \<Rightarrow> string \<Rightarrow> string" where
  "h2017_start_fn_package_path_str B m = share B (h2017_start_fn_package_name_str m)"

definition h2017_start_fn_moveit_config :: "string \<Rightarrow> moveit_config" where
  "h2017_start_fn_moveit_config m =
     \<lparr>mc_robot = (h2017_start_fn_model_value_str m),
      mc_package = Some (h2017_start_fn_package_name_str m),
      mc_urdf = (''config/'' @ (h2017_start_fn_model_value m) @ ''.urdf.xacro''),
      mc_srdf = ''config/dsr.srdf'',
      mc_controllers = ''config/moveit_controllers.yaml'',
      mc_pipelines = Some ([''ompl'', ''chomp'', ''pilz_industrial_motion_planner''], ''ompl'',
      False)\<rparr>"

definition h2017_start_fn_run_move_group_node :: "string \<Rightarrow> ros_node" where
  "h2017_start_fn_run_move_group_node m =
     (plain_node ''moveit_ros_move_group'' ''move_group'')
      \<lparr>node_parameters := [ParamMoveIt (h2017_start_fn_moveit_config m) WholeConfig],
       node_output := Some ''screen''\<rparr>"

definition h2017_start_fn_rviz_base :: "build \<Rightarrow> string \<Rightarrow> string" where
  "h2017_start_fn_rviz_base B m =
     path_join (share B (h2017_start_fn_package_name_str m)) [''launch'']"

definition h2017_start_fn_rviz_full_config :: "build \<Rightarrow> string \<Rightarrow> string" where
  "h2017_start_fn_rviz_full_config B m =
     path_join (h2017_start_fn_rviz_base B m) [''moveit.rviz'']"

definition h2017_start_fn_rviz_node :: "build \<Rightarrow> string \<Rightarrow> ros_node" where
  "h2017_start_fn_rviz_node B m =
     (plain_node ''rviz2'' ''rviz2'')
      \<lparr>node_name := Some ''rviz2'',
       node_arguments := [Text ''-d'', Text (h2017_start_fn_rviz_full_config B m)],
       node_parameters := [ParamMoveIt (h2017_start_fn_moveit_config m) RobotDescription,
        ParamMoveIt (h2017_start_fn_moveit_config m) RobotSemantic,
        ParamMoveIt (h2017_start_fn_moveit_config m) PlanningPipelines,
        ParamMoveIt (h2017_start_fn_moveit_config m) RobotKinematics,
        ParamMoveIt (h2017_start_fn_moveit_config m) JointLimits],
       node_output := Some ''log''\<rparr>"

definition h2017_start_rviz_node_function :: "build \<Rightarrow> string \<Rightarrow> action list" where
  "h2017_start_rviz_node_function B m =
     [Node (h2017_start_fn_run_move_group_node m),
      Node (h2017_start_fn_rviz_node B m)]"

definition h2017_start_ARGUMENTS :: "action list" where
  "h2017_start_ARGUMENTS =
     [DeclareLaunchArgument ''name'' '''',
      DeclareLaunchArgument ''host'' ''127.0.0.1'',
      DeclareLaunchArgument ''port'' ''12345'',
      DeclareLaunchArgument ''mode'' ''virtual'',
      DeclareLaunchArgument ''model'' ''h2017'',
      DeclareLaunchArgument ''color'' ''white'',
      DeclareLaunchArgument ''gui'' ''false'',
      DeclareLaunchArgument ''gz'' ''false'',
      DeclareLaunchArgument ''rt_host'' ''192.168.137.50'']"

definition h2017_start_xacro_path :: "build \<Rightarrow> string" where
  "h2017_start_xacro_path B = path_join (share B ''dsr_description2'') [''xacro'']"

definition h2017_start_update_rate :: "build \<Rightarrow> string" where
  "h2017_start_update_rate B = update_rate B"

definition h2017_start_robot_description_content :: "build \<Rightarrow> subst" where
  "h2017_start_robot_description_content B =
     Command [PathJoin [FindExecutable ''xacro''], Text '' '',
      PathJoin [FindPackageShare ''dsr_description2'', Text ''xacro'',
      LaunchConfiguration ''model''], Text ''.urdf.xacro'', Text '' name:='',
      LaunchConfiguration ''name'', Text '' host:='', LaunchConfiguration ''host'',
      Text '' rt_host:='', LaunchConfiguration ''rt_host'', Text '' port:='',
      LaunchConfiguration ''port'', Text '' mode:='', LaunchConfiguration ''mode'',
      Text '' model:='', LaunchConfiguration ''model'', Text '' update_rate:='',
      Text (h2017_start_update_rate B)]"

definition h2017_start_robot_description :: "build \<Rightarrow> (string \<times> pvalue) list" where
  "h2017_start_robot_description B =
     [(''robot_description'', PvSubst (h2017_start_robot_description_content B))]"

definition h2017_start_robot_controllers :: "subst list" where
  "h2017_start_robot_controllers =
     [PathJoin [FindPackageShare ''dsr_controller2'', Text ''config'',
      Text ''dsr_controller2.yaml'']]"

definition h2017_start_run_emulator_node :: ros_node where
  "h2017_start_run_emulator_node =
     (plain_node ''dsr_bringup2'' ''run_emulator'')
      \<lparr>node_namespace := Some (LaunchConfiguration ''name''),
       node_parameters := [Params [(''name'', PvSubst (LaunchConfiguration ''name''))],
        Params [(''rate'', PvInt 100)],
        Params [(''standby'', PvInt 5000)],
        Params [(''command'', PvBool True)],
        Params [(''host'', PvSubst (LaunchConfiguration ''host''))],
        Params [(''port'', PvSubst (LaunchConfiguration ''port''))],
        Params [(''mode'', PvSubst (LaunchConfiguration ''mode''))],
        Params [(''model'', PvSubst (LaunchConfiguration ''model''))],
        Params [(''gripper'', PvSubst (Text ''none''))],
        Params [(''mobile'', PvSubst (Text ''none''))],
        Params [(''rt_host'', PvSubst (LaunchConfiguration ''rt_host''))]],
       node_output := Some ''screen''\<rparr>"

definition h2017_start_control_node :: "build \<Rightarrow> ros_node" where
  "h2017_start_control_node B =
     (plain_node ''controller_manager'' ''ros2_control_node'')
      \<lparr>node_namespace := Some (LaunchConfiguration ''name''),
       node_parameters := [Params (h2017_start_robot_description B),
        ParamFile h2017_start_robot_controllers],
       node_output := Some ''both''\<rparr>"

definition h2017_start_robot_state_pub_node :: "build \<Rightarrow> ros_node" where
  "h2017_start_robot_state_pub_node B =
     (plain_node ''robot_state_publisher'' ''robot_state_publisher'')
      \<lparr>node_namespace := Some (LaunchConfiguration ''name''),
       node_parameters := [Params [(''robot_description'', PvSubst (Command [Text ''xacro'',
       Text '' '', Text (h2017_start_xacro_path B), Text ''/'', LaunchConfiguration ''model'',
       Text ''.urdf.xacro color:='', LaunchConfiguration ''color'']))]],
       node_output := Some ''both''\<rparr>"

definition h2017_start_joint_state_broadcaster_spawner :: ros_node where
  "h2017_start_joint_state_broadcaster_spawner =
     (plain_node ''controller_manager'' ''spawner'')
      \<lparr>node_namespace := Some (LaunchConfiguration ''name''),
       node_arguments := [Text ''joint_state_broadcaster'', Text ''-c'',
       Text ''controller_manager'', Text ''--controller-manager-timeout'', Text ''120'']\<rparr>"

definition h2017_start_robot_controller_spawner :: ros_node where
  "h2017_start_robot_controller_spawner =
     (plain_node ''controller_manager'' ''spawner'')
      \<lparr>node_namespace := Some (LaunchConfiguration ''name''),
       node_arguments := [Text ''dsr_controller2'', Text ''-c'', Text ''controller_manager'',
       Text ''--controller-manager-timeout'', Text ''120'']\<rparr>"

definition h2017_start_dsr_moveit_controller_spawner :: ros_node where
  "h2017_start_dsr_moveit_controller_spawner =
     (plain_node ''controller_manager'' ''spawner'')
      \<lparr>node_namespace := Some (LaunchConfiguration ''name''),
       node_arguments := [Text ''dsr_moveit_controller'', Text ''-c'',
       Text ''controller_manager'', Text ''--controller-manager-timeout'', Text ''120'']\<rparr>"

definition h2017_start_rviz_node :: action where
  "h2017_start_rviz_node = OpaqueFunction ''rviz_node_function''"

definition h2017_start_delay_jsb_after_control_node :: "build \<Rightarrow> action" where
  "h2017_start_delay_jsb_after_control_node B =
     OnProcessStart (h2017_start_control_node B)
     [TimerAction 5 [Node h2017_start_joint_state_broadcaster_spawner]]"

definition h2017_start_delay_robot_controller_after_joint_state :: action where
  "h2017_start_delay_robot_controller_after_joint_state =
     OnProcessExit h2017_start_joint_state_broadcaster_spawner
     [Node h2017_start_robot_controller_spawner]"

definition h2017_start_delay_dsr_moveit_controller_after_robot_controller :: action where
  "h2017_start_delay_dsr_moveit_controller_after_robot_controller =
     OnProcessExit h2017_start_robot_controller_spawner
     [Node h2017_start_dsr_moveit_controller_spawner]"

definition h2017_start_delay_rviz_after_dsr_moveit_controller :: action where
  "h2017_start_delay_rviz_after_dsr_moveit_controller =
     OnProcessExit h2017_start_dsr_moveit_controller_spawner
     [h2017_start_rviz_node]"

definition h2017_start_nodes :: "build \<Rightarrow> action list" where
  "h2017_start_nodes B =
     [Node h2017_start_run_emulator_node,
      Node (h2017_start_robot_state_pub_node B),
      Node (h2017_start_control_node B),
      h2017_start_delay_jsb_after_control_node B,
      h2017_start_delay_robot_controller_after_joint_state,
      h2017_start_delay_dsr_moveit_controller_after_robot_controller,
      h2017_start_delay_rviz_after_dsr_moveit_controller]"

definition h2017_start :: "build \<Rightarrow> action list" where
  "h2017_start B = h2017_start_ARGUMENTS @ (h2017_start_nodes B)"

lemmas h2017_start_defs = h2017_start_fn_model_value_def h2017_start_fn_model_value_str_def
  h2017_start_fn_package_name_str_def h2017_start_fn_package_path_str_def
  h2017_start_fn_moveit_config_def h2017_start_fn_run_move_group_node_def
  h2017_start_fn_rviz_base_def h2017_start_fn_rviz_full_config_def h2017_start_fn_rviz_node_def
  h2017_start_rviz_node_function_def h2017_start_ARGUMENTS_def h2017_start_xacro_path_def
  h2017_start_update_rate_def h2017_start_robot_description_content_def
  h2017_start_robot_description_def h2017_start_robot_controllers_def
  h2017_start_run_emulator_node_def h2017_start_control_node_def
  h2017_start_robot_state_pub_node_def h2017_start_joint_state_broadcaster_spawner_def
  h2017_start_robot_controller_spawner_def h2017_start_dsr_moveit_controller_spawner_def
  h2017_start_rviz_node_def h2017_start_delay_jsb_after_control_node_def
  h2017_start_delay_robot_controller_after_joint_state_def
  h2017_start_delay_dsr_moveit_controller_after_robot_controller_def
  h2017_start_delay_rviz_after_dsr_moveit_controller_def h2017_start_nodes_def h2017_start_def

section \<open>start.launch.py of dsr_moveit_config_h2515\<close>

text \<open>\<^verbatim>\<open>rviz_node_function\<close> of the same file\<close>

definition h2515_start_fn_model_value :: "string \<Rightarrow> string" where
  "h2515_start_fn_model_value m = m"

definition h2515_start_fn_model_value_str :: "string \<Rightarrow> string" where
  "h2515_start_fn_model_value_str m = h2515_start_fn_model_value m"

definition h2515_start_fn_package_name_str :: "string \<Rightarrow> string" where
  "h2515_start_fn_package_name_str m = ''dsr_moveit_config_'' @ (h2515_start_fn_model_value m)"

definition h2515_start_fn_package_path_str :: "build \<Rightarrow> string \<Rightarrow> string" where
  "h2515_start_fn_package_path_str B m = share B (h2515_start_fn_package_name_str m)"

definition h2515_start_fn_moveit_config :: "string \<Rightarrow> moveit_config" where
  "h2515_start_fn_moveit_config m =
     \<lparr>mc_robot = (h2515_start_fn_model_value_str m),
      mc_package = Some (h2515_start_fn_package_name_str m),
      mc_urdf = (''config/'' @ (h2515_start_fn_model_value m) @ ''.urdf.xacro''),
      mc_srdf = ''config/dsr.srdf'',
      mc_controllers = ''config/moveit_controllers.yaml'',
      mc_pipelines = Some ([''ompl'', ''chomp'', ''pilz_industrial_motion_planner''], ''ompl'',
      False)\<rparr>"

definition h2515_start_fn_run_move_group_node :: "string \<Rightarrow> ros_node" where
  "h2515_start_fn_run_move_group_node m =
     (plain_node ''moveit_ros_move_group'' ''move_group'')
      \<lparr>node_parameters := [ParamMoveIt (h2515_start_fn_moveit_config m) WholeConfig],
       node_output := Some ''screen''\<rparr>"

definition h2515_start_fn_rviz_base :: "build \<Rightarrow> string \<Rightarrow> string" where
  "h2515_start_fn_rviz_base B m =
     path_join (share B (h2515_start_fn_package_name_str m)) [''launch'']"

definition h2515_start_fn_rviz_full_config :: "build \<Rightarrow> string \<Rightarrow> string" where
  "h2515_start_fn_rviz_full_config B m =
     path_join (h2515_start_fn_rviz_base B m) [''moveit.rviz'']"

definition h2515_start_fn_rviz_node :: "build \<Rightarrow> string \<Rightarrow> ros_node" where
  "h2515_start_fn_rviz_node B m =
     (plain_node ''rviz2'' ''rviz2'')
      \<lparr>node_name := Some ''rviz2'',
       node_arguments := [Text ''-d'', Text (h2515_start_fn_rviz_full_config B m)],
       node_parameters := [ParamMoveIt (h2515_start_fn_moveit_config m) RobotDescription,
        ParamMoveIt (h2515_start_fn_moveit_config m) RobotSemantic,
        ParamMoveIt (h2515_start_fn_moveit_config m) PlanningPipelines,
        ParamMoveIt (h2515_start_fn_moveit_config m) RobotKinematics,
        ParamMoveIt (h2515_start_fn_moveit_config m) JointLimits],
       node_output := Some ''log''\<rparr>"

definition h2515_start_rviz_node_function :: "build \<Rightarrow> string \<Rightarrow> action list" where
  "h2515_start_rviz_node_function B m =
     [Node (h2515_start_fn_run_move_group_node m),
      Node (h2515_start_fn_rviz_node B m)]"

definition h2515_start_ARGUMENTS :: "action list" where
  "h2515_start_ARGUMENTS =
     [DeclareLaunchArgument ''name'' '''',
      DeclareLaunchArgument ''host'' ''127.0.0.1'',
      DeclareLaunchArgument ''port'' ''12345'',
      DeclareLaunchArgument ''mode'' ''virtual'',
      DeclareLaunchArgument ''model'' ''h2515'',
      DeclareLaunchArgument ''color'' ''white'',
      DeclareLaunchArgument ''gui'' ''false'',
      DeclareLaunchArgument ''gz'' ''false'',
      DeclareLaunchArgument ''rt_host'' ''192.168.137.50'']"

definition h2515_start_xacro_path :: "build \<Rightarrow> string" where
  "h2515_start_xacro_path B = path_join (share B ''dsr_description2'') [''xacro'']"

definition h2515_start_update_rate :: "build \<Rightarrow> string" where
  "h2515_start_update_rate B = update_rate B"

definition h2515_start_robot_description_content :: "build \<Rightarrow> subst" where
  "h2515_start_robot_description_content B =
     Command [PathJoin [FindExecutable ''xacro''], Text '' '',
      PathJoin [FindPackageShare ''dsr_description2'', Text ''xacro'',
      LaunchConfiguration ''model''], Text ''.urdf.xacro'', Text '' name:='',
      LaunchConfiguration ''name'', Text '' host:='', LaunchConfiguration ''host'',
      Text '' rt_host:='', LaunchConfiguration ''rt_host'', Text '' port:='',
      LaunchConfiguration ''port'', Text '' mode:='', LaunchConfiguration ''mode'',
      Text '' model:='', LaunchConfiguration ''model'', Text '' update_rate:='',
      Text (h2515_start_update_rate B)]"

definition h2515_start_robot_description :: "build \<Rightarrow> (string \<times> pvalue) list" where
  "h2515_start_robot_description B =
     [(''robot_description'', PvSubst (h2515_start_robot_description_content B))]"

definition h2515_start_robot_controllers :: "subst list" where
  "h2515_start_robot_controllers =
     [PathJoin [FindPackageShare ''dsr_controller2'', Text ''config'',
      Text ''dsr_controller2.yaml'']]"

definition h2515_start_run_emulator_node :: ros_node where
  "h2515_start_run_emulator_node =
     (plain_node ''dsr_bringup2'' ''run_emulator'')
      \<lparr>node_namespace := Some (LaunchConfiguration ''name''),
       node_parameters := [Params [(''name'', PvSubst (LaunchConfiguration ''name''))],
        Params [(''rate'', PvInt 100)],
        Params [(''standby'', PvInt 5000)],
        Params [(''command'', PvBool True)],
        Params [(''host'', PvSubst (LaunchConfiguration ''host''))],
        Params [(''port'', PvSubst (LaunchConfiguration ''port''))],
        Params [(''mode'', PvSubst (LaunchConfiguration ''mode''))],
        Params [(''model'', PvSubst (LaunchConfiguration ''model''))],
        Params [(''gripper'', PvSubst (Text ''none''))],
        Params [(''mobile'', PvSubst (Text ''none''))],
        Params [(''rt_host'', PvSubst (LaunchConfiguration ''rt_host''))]],
       node_output := Some ''screen''\<rparr>"

definition h2515_start_control_node :: "build \<Rightarrow> ros_node" where
  "h2515_start_control_node B =
     (plain_node ''controller_manager'' ''ros2_control_node'')
      \<lparr>node_namespace := Some (LaunchConfiguration ''name''),
       node_parameters := [Params (h2515_start_robot_description B),
        ParamFile h2515_start_robot_controllers],
       node_output := Some ''both''\<rparr>"

definition h2515_start_robot_state_pub_node :: "build \<Rightarrow> ros_node" where
  "h2515_start_robot_state_pub_node B =
     (plain_node ''robot_state_publisher'' ''robot_state_publisher'')
      \<lparr>node_namespace := Some (LaunchConfiguration ''name''),
       node_parameters := [Params [(''robot_description'', PvSubst (Command [Text ''xacro'',
       Text '' '', Text (h2515_start_xacro_path B), Text ''/'', LaunchConfiguration ''model'',
       Text ''.urdf.xacro color:='', LaunchConfiguration ''color'']))]],
       node_output := Some ''both''\<rparr>"

definition h2515_start_joint_state_broadcaster_spawner :: ros_node where
  "h2515_start_joint_state_broadcaster_spawner =
     (plain_node ''controller_manager'' ''spawner'')
      \<lparr>node_namespace := Some (LaunchConfiguration ''name''),
       node_arguments := [Text ''joint_state_broadcaster'', Text ''-c'',
       Text ''controller_manager'', Text ''--controller-manager-timeout'', Text ''120'']\<rparr>"

definition h2515_start_robot_controller_spawner :: ros_node where
  "h2515_start_robot_controller_spawner =
     (plain_node ''controller_manager'' ''spawner'')
      \<lparr>node_namespace := Some (LaunchConfiguration ''name''),
       node_arguments := [Text ''dsr_controller2'', Text ''-c'', Text ''controller_manager'',
       Text ''--controller-manager-timeout'', Text ''120'']\<rparr>"

definition h2515_start_dsr_moveit_controller_spawner :: ros_node where
  "h2515_start_dsr_moveit_controller_spawner =
     (plain_node ''controller_manager'' ''spawner'')
      \<lparr>node_namespace := Some (LaunchConfiguration ''name''),
       node_arguments := [Text ''dsr_moveit_controller'', Text ''-c'',
       Text ''controller_manager'', Text ''--controller-manager-timeout'', Text ''120'']\<rparr>"

definition h2515_start_rviz_node :: action where
  "h2515_start_rviz_node = OpaqueFunction ''rviz_node_function''"

definition h2515_start_delay_jsb_after_control_node :: "build \<Rightarrow> action" where
  "h2515_start_delay_jsb_after_control_node B =
     OnProcessStart (h2515_start_control_node B)
     [TimerAction 5 [Node h2515_start_joint_state_broadcaster_spawner]]"

definition h2515_start_delay_robot_controller_after_joint_state :: action where
  "h2515_start_delay_robot_controller_after_joint_state =
     OnProcessExit h2515_start_joint_state_broadcaster_spawner
     [Node h2515_start_robot_controller_spawner]"

definition h2515_start_delay_dsr_moveit_controller_after_robot_controller :: action where
  "h2515_start_delay_dsr_moveit_controller_after_robot_controller =
     OnProcessExit h2515_start_robot_controller_spawner
     [Node h2515_start_dsr_moveit_controller_spawner]"

definition h2515_start_delay_rviz_after_dsr_moveit_controller :: action where
  "h2515_start_delay_rviz_after_dsr_moveit_controller =
     OnProcessExit h2515_start_dsr_moveit_controller_spawner
     [h2515_start_rviz_node]"

definition h2515_start_nodes :: "build \<Rightarrow> action list" where
  "h2515_start_nodes B =
     [Node h2515_start_run_emulator_node,
      Node (h2515_start_robot_state_pub_node B),
      Node (h2515_start_control_node B),
      h2515_start_delay_jsb_after_control_node B,
      h2515_start_delay_robot_controller_after_joint_state,
      h2515_start_delay_dsr_moveit_controller_after_robot_controller,
      h2515_start_delay_rviz_after_dsr_moveit_controller]"

definition h2515_start :: "build \<Rightarrow> action list" where
  "h2515_start B = h2515_start_ARGUMENTS @ (h2515_start_nodes B)"

lemmas h2515_start_defs = h2515_start_fn_model_value_def h2515_start_fn_model_value_str_def
  h2515_start_fn_package_name_str_def h2515_start_fn_package_path_str_def
  h2515_start_fn_moveit_config_def h2515_start_fn_run_move_group_node_def
  h2515_start_fn_rviz_base_def h2515_start_fn_rviz_full_config_def h2515_start_fn_rviz_node_def
  h2515_start_rviz_node_function_def h2515_start_ARGUMENTS_def h2515_start_xacro_path_def
  h2515_start_update_rate_def h2515_start_robot_description_content_def
  h2515_start_robot_description_def h2515_start_robot_controllers_def
  h2515_start_run_emulator_node_def h2515_start_control_node_def
  h2515_start_robot_state_pub_node_def h2515_start_joint_state_broadcaster_spawner_def
  h2515_start_robot_controller_spawner_def h2515_start_dsr_moveit_controller_spawner_def
  h2515_start_rviz_node_def h2515_start_delay_jsb_after_control_node_def
  h2515_start_delay_robot_controller_after_joint_state_def
  h2515_start_delay_dsr_moveit_controller_after_robot_controller_def
  h2515_start_delay_rviz_after_dsr_moveit_controller_def h2515_start_nodes_def h2515_start_def

section \<open>start.launch.py of dsr_moveit_config_m0609\<close>

text \<open>\<^verbatim>\<open>rviz_node_function\<close> of the same file\<close>

definition m0609_start_fn_model_value :: "string \<Rightarrow> string" where
  "m0609_start_fn_model_value m = m"

definition m0609_start_fn_model_value_str :: "string \<Rightarrow> string" where
  "m0609_start_fn_model_value_str m = m0609_start_fn_model_value m"

definition m0609_start_fn_package_name_str :: "string \<Rightarrow> string" where
  "m0609_start_fn_package_name_str m = ''dsr_moveit_config_'' @ (m0609_start_fn_model_value m)"

definition m0609_start_fn_package_path_str :: "build \<Rightarrow> string \<Rightarrow> string" where
  "m0609_start_fn_package_path_str B m = share B (m0609_start_fn_package_name_str m)"

definition m0609_start_fn_moveit_config :: "string \<Rightarrow> moveit_config" where
  "m0609_start_fn_moveit_config m =
     \<lparr>mc_robot = (m0609_start_fn_model_value_str m),
      mc_package = Some (m0609_start_fn_package_name_str m),
      mc_urdf = (''config/'' @ (m0609_start_fn_model_value m) @ ''.urdf.xacro''),
      mc_srdf = ''config/dsr.srdf'',
      mc_controllers = ''config/moveit_controllers.yaml'',
      mc_pipelines = Some ([''ompl'', ''chomp'', ''pilz_industrial_motion_planner''], ''ompl'',
      False)\<rparr>"

definition m0609_start_fn_run_move_group_node :: "string \<Rightarrow> ros_node" where
  "m0609_start_fn_run_move_group_node m =
     (plain_node ''moveit_ros_move_group'' ''move_group'')
      \<lparr>node_parameters := [ParamMoveIt (m0609_start_fn_moveit_config m) WholeConfig],
       node_output := Some ''screen''\<rparr>"

definition m0609_start_fn_rviz_base :: "build \<Rightarrow> string \<Rightarrow> string" where
  "m0609_start_fn_rviz_base B m =
     path_join (share B (m0609_start_fn_package_name_str m)) [''launch'']"

definition m0609_start_fn_rviz_full_config :: "build \<Rightarrow> string \<Rightarrow> string" where
  "m0609_start_fn_rviz_full_config B m =
     path_join (m0609_start_fn_rviz_base B m) [''moveit.rviz'']"

definition m0609_start_fn_rviz_node :: "build \<Rightarrow> string \<Rightarrow> ros_node" where
  "m0609_start_fn_rviz_node B m =
     (plain_node ''rviz2'' ''rviz2'')
      \<lparr>node_name := Some ''rviz2'',
       node_arguments := [Text ''-d'', Text (m0609_start_fn_rviz_full_config B m)],
       node_parameters := [ParamMoveIt (m0609_start_fn_moveit_config m) RobotDescription,
        ParamMoveIt (m0609_start_fn_moveit_config m) RobotSemantic,
        ParamMoveIt (m0609_start_fn_moveit_config m) PlanningPipelines,
        ParamMoveIt (m0609_start_fn_moveit_config m) RobotKinematics,
        ParamMoveIt (m0609_start_fn_moveit_config m) JointLimits],
       node_output := Some ''log''\<rparr>"

definition m0609_start_rviz_node_function :: "build \<Rightarrow> string \<Rightarrow> action list" where
  "m0609_start_rviz_node_function B m =
     [Node (m0609_start_fn_run_move_group_node m),
      Node (m0609_start_fn_rviz_node B m)]"

definition m0609_start_ARGUMENTS :: "action list" where
  "m0609_start_ARGUMENTS =
     [DeclareLaunchArgument ''name'' '''',
      DeclareLaunchArgument ''host'' ''127.0.0.1'',
      DeclareLaunchArgument ''port'' ''12345'',
      DeclareLaunchArgument ''mode'' ''virtual'',
      DeclareLaunchArgument ''model'' ''m0609'',
      DeclareLaunchArgument ''color'' ''white'',
      DeclareLaunchArgument ''gui'' ''false'',
      DeclareLaunchArgument ''gz'' ''false'',
      DeclareLaunchArgument ''rt_host'' ''192.168.137.50'']"

definition m0609_start_xacro_path :: "build \<Rightarrow> string" where
  "m0609_start_xacro_path B = path_join (share B ''dsr_description2'') [''xacro'']"

definition m0609_start_update_rate :: "build \<Rightarrow> string" where
  "m0609_start_update_rate B = update_rate B"

definition m0609_start_robot_description_content :: "build \<Rightarrow> subst" where
  "m0609_start_robot_description_content B =
     Command [PathJoin [FindExecutable ''xacro''], Text '' '',
      PathJoin [FindPackageShare ''dsr_description2'', Text ''xacro'',
      LaunchConfiguration ''model''], Text ''.urdf.xacro'', Text '' name:='',
      LaunchConfiguration ''name'', Text '' host:='', LaunchConfiguration ''host'',
      Text '' rt_host:='', LaunchConfiguration ''rt_host'', Text '' port:='',
      LaunchConfiguration ''port'', Text '' mode:='', LaunchConfiguration ''mode'',
      Text '' model:='', LaunchConfiguration ''model'', Text '' update_rate:='',
      Text (m0609_start_update_rate B)]"

definition m0609_start_robot_description :: "build \<Rightarrow> (string \<times> pvalue) list" where
  "m0609_start_robot_description B =
     [(''robot_description'', PvSubst (m0609_start_robot_description_content B))]"

definition m0609_start_robot_controllers :: "subst list" where
  "m0609_start_robot_controllers =
     [PathJoin [FindPackageShare ''dsr_controller2'', Text ''config'',
      Text ''dsr_controller2.yaml'']]"

definition m0609_start_run_emulator_node :: ros_node where
  "m0609_start_run_emulator_node =
     (plain_node ''dsr_bringup2'' ''run_emulator'')
      \<lparr>node_namespace := Some (LaunchConfiguration ''name''),
       node_parameters := [Params [(''name'', PvSubst (LaunchConfiguration ''name''))],
        Params [(''rate'', PvInt 100)],
        Params [(''standby'', PvInt 5000)],
        Params [(''command'', PvBool True)],
        Params [(''host'', PvSubst (LaunchConfiguration ''host''))],
        Params [(''port'', PvSubst (LaunchConfiguration ''port''))],
        Params [(''mode'', PvSubst (LaunchConfiguration ''mode''))],
        Params [(''model'', PvSubst (LaunchConfiguration ''model''))],
        Params [(''gripper'', PvSubst (Text ''none''))],
        Params [(''mobile'', PvSubst (Text ''none''))],
        Params [(''rt_host'', PvSubst (LaunchConfiguration ''rt_host''))]],
       node_output := Some ''screen''\<rparr>"

definition m0609_start_control_node :: "build \<Rightarrow> ros_node" where
  "m0609_start_control_node B =
     (plain_node ''controller_manager'' ''ros2_control_node'')
      \<lparr>node_namespace := Some (LaunchConfiguration ''name''),
       node_parameters := [Params (m0609_start_robot_description B),
        ParamFile m0609_start_robot_controllers],
       node_output := Some ''both''\<rparr>"

definition m0609_start_robot_state_pub_node :: "build \<Rightarrow> ros_node" where
  "m0609_start_robot_state_pub_node B =
     (plain_node ''robot_state_publisher'' ''robot_state_publisher'')
      \<lparr>node_namespace := Some (LaunchConfiguration ''name''),
       node_parameters := [Params [(''robot_description'', PvSubst (Command [Text ''xacro'',
       Text '' '', Text (m0609_start_xacro_path B), Text ''/'', LaunchConfiguration ''model'',
       Text ''.urdf.xacro color:='', LaunchConfiguration ''color'']))]],
       node_output := Some ''both''\<rparr>"

definition m0609_start_joint_state_broadcaster_spawner :: ros_node where
  "m0609_start_joint_state_broadcaster_spawner =
     (plain_node ''controller_manager'' ''spawner'')
      \<lparr>node_namespace := Some (LaunchConfiguration ''name''),
       node_arguments := [Text ''joint_state_broadcaster'', Text ''-c'',
       Text ''controller_manager'', Text ''--controller-manager-timeout'', Text ''120'']\<rparr>"

definition m0609_start_robot_controller_spawner :: ros_node where
  "m0609_start_robot_controller_spawner =
     (plain_node ''controller_manager'' ''spawner'')
      \<lparr>node_namespace := Some (LaunchConfiguration ''name''),
       node_arguments := [Text ''dsr_controller2'', Text ''-c'', Text ''controller_manager'',
       Text ''--controller-manager-timeout'', Text ''120'']\<rparr>"

definition m0609_start_dsr_moveit_controller_spawner :: ros_node where
  "m0609_start_dsr_moveit_controller_spawner =
     (plain_node ''controller_manager'' ''spawner'')
      \<lparr>node_namespace := Some (LaunchConfiguration ''name''),
       node_arguments := [Text ''dsr_moveit_controller'', Text ''-c'',
       Text ''controller_manager'', Text ''--controller-manager-timeout'', Text ''120'']\<rparr>"

definition m0609_start_rviz_node :: action where
  "m0609_start_rviz_node = OpaqueFunction ''rviz_node_function''"

definition m0609_start_static_tf :: ros_node where
  "m0609_start_static_tf =
     (plain_node ''tf2_ros'' ''static_transform_publisher'')
      \<lparr>node_name := Some ''static_transform_publisher'',
       node_arguments := [Text ''0.5'', Text ''0.0'', Text ''0.0'', Text ''0.0'', Text ''0.0'',
       Text ''0.0'', Text ''world'', Text ''base_link''],
       node_output := Some ''log''\<rparr>"

definition m0609_start_delay_jsb_after_control_node :: "build \<Rightarrow> action" where
  "m0609_start_delay_jsb_after_control_node B =
     OnProcessStart (m0609_start_control_node B)
     [TimerAction 5 [Node m0609_start_joint_state_broadcaster_spawner]]"

definition m0609_start_delay_robot_controller_after_joint_state :: action where
  "m0609_start_delay_robot_controller_after_joint_state =
     OnProcessExit m0609_start_joint_state_broadcaster_spawner
     [Node m0609_start_robot_controller_spawner]"

definition m0609_start_delay_dsr_moveit_controller_after_robot_controller :: action where
  "m0609_start_delay_dsr_moveit_controller_after_robot_controller =
     OnProcessExit m0609_start_robot_controller_spawner
     [Node m0609_start_dsr_moveit_controller_spawner]"

definition m0609_start_delay_rviz_after_dsr_moveit_controller :: action where
  "m0609_start_delay_rviz_after_dsr_moveit_controller =
     OnProcessExit m0609_start_dsr_moveit_controller_spawner
     [m0609_start_rviz_node]"

definition m0609_start_nodes :: "build \<Rightarrow> action list" where
  "m0609_start_nodes B =
     [Node m0609_start_static_tf,
      Node m0609_start_run_emulator_node,
      Node (m0609_start_robot_state_pub_node B),
      Node (m0609_start_control_node B),
      m0609_start_delay_jsb_after_control_node B,
      m0609_start_delay_robot_controller_after_joint_state,
      m0609_start_delay_dsr_moveit_controller_after_robot_controller,
      m0609_start_delay_rviz_after_dsr_moveit_controller]"

definition m0609_start :: "build \<Rightarrow> action list" where
  "m0609_start B = m0609_start_ARGUMENTS @ (m0609_start_nodes B)"

lemmas m0609_start_defs = m0609_start_fn_model_value_def m0609_start_fn_model_value_str_def
  m0609_start_fn_package_name_str_def m0609_start_fn_package_path_str_def
  m0609_start_fn_moveit_config_def m0609_start_fn_run_move_group_node_def
  m0609_start_fn_rviz_base_def m0609_start_fn_rviz_full_config_def m0609_start_fn_rviz_node_def
  m0609_start_rviz_node_function_def m0609_start_ARGUMENTS_def m0609_start_xacro_path_def
  m0609_start_update_rate_def m0609_start_robot_description_content_def
  m0609_start_robot_description_def m0609_start_robot_controllers_def
  m0609_start_run_emulator_node_def m0609_start_control_node_def
  m0609_start_robot_state_pub_node_def m0609_start_joint_state_broadcaster_spawner_def
  m0609_start_robot_controller_spawner_def m0609_start_dsr_moveit_controller_spawner_def
  m0609_start_rviz_node_def m0609_start_static_tf_def m0609_start_delay_jsb_after_control_node_def
  m0609_start_delay_robot_controller_after_joint_state_def
  m0609_start_delay_dsr_moveit_controller_after_robot_controller_def
  m0609_start_delay_rviz_after_dsr_moveit_controller_def m0609_start_nodes_def m0609_start_def

section \<open>start.launch.py of dsr_moveit_config_m0617\<close>

text \<open>\<^verbatim>\<open>rviz_node_function\<close> of the same file\<close>

definition m0617_start_fn_model_value :: "string \<Rightarrow> string" where
  "m0617_start_fn_model_value m = m"

definition m0617_start_fn_model_value_str :: "string \<Rightarrow> string" where
  "m0617_start_fn_model_value_str m = m0617_start_fn_model_value m"

definition m0617_start_fn_package_name_str :: "string \<Rightarrow> string" where
  "m0617_start_fn_package_name_str m = ''dsr_moveit_config_'' @ (m0617_start_fn_model_value m)"

definition m0617_start_fn_package_path_str :: "build \<Rightarrow> string \<Rightarrow> string" where
  "m0617_start_fn_package_path_str B m = share B (m0617_start_fn_package_name_str m)"

definition m0617_start_fn_moveit_config :: "string \<Rightarrow> moveit_config" where
  "m0617_start_fn_moveit_config m =
     \<lparr>mc_robot = (m0617_start_fn_model_value_str m),
      mc_package = Some (m0617_start_fn_package_name_str m),
      mc_urdf = (''config/'' @ (m0617_start_fn_model_value m) @ ''.urdf.xacro''),
      mc_srdf = ''config/dsr.srdf'',
      mc_controllers = ''config/moveit_controllers.yaml'',
      mc_pipelines = Some ([''ompl'', ''chomp'', ''pilz_industrial_motion_planner''], ''ompl'',
      False)\<rparr>"

definition m0617_start_fn_run_move_group_node :: "string \<Rightarrow> ros_node" where
  "m0617_start_fn_run_move_group_node m =
     (plain_node ''moveit_ros_move_group'' ''move_group'')
      \<lparr>node_parameters := [ParamMoveIt (m0617_start_fn_moveit_config m) WholeConfig],
       node_output := Some ''screen''\<rparr>"

definition m0617_start_fn_rviz_base :: "build \<Rightarrow> string \<Rightarrow> string" where
  "m0617_start_fn_rviz_base B m =
     path_join (share B (m0617_start_fn_package_name_str m)) [''launch'']"

definition m0617_start_fn_rviz_full_config :: "build \<Rightarrow> string \<Rightarrow> string" where
  "m0617_start_fn_rviz_full_config B m =
     path_join (m0617_start_fn_rviz_base B m) [''moveit.rviz'']"

definition m0617_start_fn_rviz_node :: "build \<Rightarrow> string \<Rightarrow> ros_node" where
  "m0617_start_fn_rviz_node B m =
     (plain_node ''rviz2'' ''rviz2'')
      \<lparr>node_name := Some ''rviz2'',
       node_arguments := [Text ''-d'', Text (m0617_start_fn_rviz_full_config B m)],
       node_parameters := [ParamMoveIt (m0617_start_fn_moveit_config m) RobotDescription,
        ParamMoveIt (m0617_start_fn_moveit_config m) RobotSemantic,
        ParamMoveIt (m0617_start_fn_moveit_config m) PlanningPipelines,
        ParamMoveIt (m0617_start_fn_moveit_config m) RobotKinematics,
        ParamMoveIt (m0617_start_fn_moveit_config m) JointLimits],
       node_output := Some ''log''\<rparr>"

definition m0617_start_rviz_node_function :: "build \<Rightarrow> string \<Rightarrow> action list" where
  "m0617_start_rviz_node_function B m =
     [Node (m0617_start_fn_run_move_group_node m),
      Node (m0617_start_fn_rviz_node B m)]"

definition m0617_start_ARGUMENTS :: "action list" where
  "m0617_start_ARGUMENTS =
     [DeclareLaunchArgument ''name'' '''',
      DeclareLaunchArgument ''host'' ''127.0.0.1'',
      DeclareLaunchArgument ''port'' ''12345'',
      DeclareLaunchArgument ''mode'' ''virtual'',
      DeclareLaunchArgument ''model'' ''m0617'',
      DeclareLaunchArgument ''color'' ''white'',
      DeclareLaunchArgument ''gui'' ''false'',
      DeclareLaunchArgument ''gz'' ''false'',
      DeclareLaunchArgument ''rt_host'' ''192.168.137.50'']"

definition m0617_start_xacro_path :: "build \<Rightarrow> string" where
  "m0617_start_xacro_path B = path_join (share B ''dsr_description2'') [''xacro'']"

definition m0617_start_update_rate :: "build \<Rightarrow> string" where
  "m0617_start_update_rate B = update_rate B"

definition m0617_start_robot_description_content :: "build \<Rightarrow> subst" where
  "m0617_start_robot_description_content B =
     Command [PathJoin [FindExecutable ''xacro''], Text '' '',
      PathJoin [FindPackageShare ''dsr_description2'', Text ''xacro'',
      LaunchConfiguration ''model''], Text ''.urdf.xacro'', Text '' name:='',
      LaunchConfiguration ''name'', Text '' host:='', LaunchConfiguration ''host'',
      Text '' rt_host:='', LaunchConfiguration ''rt_host'', Text '' port:='',
      LaunchConfiguration ''port'', Text '' mode:='', LaunchConfiguration ''mode'',
      Text '' model:='', LaunchConfiguration ''model'', Text '' update_rate:='',
      Text (m0617_start_update_rate B)]"

definition m0617_start_robot_description :: "build \<Rightarrow> (string \<times> pvalue) list" where
  "m0617_start_robot_description B =
     [(''robot_description'', PvSubst (m0617_start_robot_description_content B))]"

definition m0617_start_robot_controllers :: "subst list" where
  "m0617_start_robot_controllers =
     [PathJoin [FindPackageShare ''dsr_controller2'', Text ''config'',
      Text ''dsr_controller2.yaml'']]"

definition m0617_start_run_emulator_node :: ros_node where
  "m0617_start_run_emulator_node =
     (plain_node ''dsr_bringup2'' ''run_emulator'')
      \<lparr>node_namespace := Some (LaunchConfiguration ''name''),
       node_parameters := [Params [(''name'', PvSubst (LaunchConfiguration ''name''))],
        Params [(''rate'', PvInt 100)],
        Params [(''standby'', PvInt 5000)],
        Params [(''command'', PvBool True)],
        Params [(''host'', PvSubst (LaunchConfiguration ''host''))],
        Params [(''port'', PvSubst (LaunchConfiguration ''port''))],
        Params [(''mode'', PvSubst (LaunchConfiguration ''mode''))],
        Params [(''model'', PvSubst (LaunchConfiguration ''model''))],
        Params [(''gripper'', PvSubst (Text ''none''))],
        Params [(''mobile'', PvSubst (Text ''none''))],
        Params [(''rt_host'', PvSubst (LaunchConfiguration ''rt_host''))]],
       node_output := Some ''screen''\<rparr>"

definition m0617_start_control_node :: "build \<Rightarrow> ros_node" where
  "m0617_start_control_node B =
     (plain_node ''controller_manager'' ''ros2_control_node'')
      \<lparr>node_namespace := Some (LaunchConfiguration ''name''),
       node_parameters := [Params (m0617_start_robot_description B),
        ParamFile m0617_start_robot_controllers],
       node_output := Some ''both''\<rparr>"

definition m0617_start_robot_state_pub_node :: "build \<Rightarrow> ros_node" where
  "m0617_start_robot_state_pub_node B =
     (plain_node ''robot_state_publisher'' ''robot_state_publisher'')
      \<lparr>node_namespace := Some (LaunchConfiguration ''name''),
       node_parameters := [Params [(''robot_description'', PvSubst (Command [Text ''xacro'',
       Text '' '', Text (m0617_start_xacro_path B), Text ''/'', LaunchConfiguration ''model'',
       Text ''.urdf.xacro color:='', LaunchConfiguration ''color'']))]],
       node_output := Some ''both''\<rparr>"

definition m0617_start_joint_state_broadcaster_spawner :: ros_node where
  "m0617_start_joint_state_broadcaster_spawner =
     (plain_node ''controller_manager'' ''spawner'')
      \<lparr>node_namespace := Some (LaunchConfiguration ''name''),
       node_arguments := [Text ''joint_state_broadcaster'', Text ''-c'',
       Text ''controller_manager'', Text ''--controller-manager-timeout'', Text ''120'']\<rparr>"

definition m0617_start_robot_controller_spawner :: ros_node where
  "m0617_start_robot_controller_spawner =
     (plain_node ''controller_manager'' ''spawner'')
      \<lparr>node_namespace := Some (LaunchConfiguration ''name''),
       node_arguments := [Text ''dsr_controller2'', Text ''-c'', Text ''controller_manager'',
       Text ''--controller-manager-timeout'', Text ''120'']\<rparr>"

definition m0617_start_dsr_moveit_controller_spawner :: ros_node where
  "m0617_start_dsr_moveit_controller_spawner =
     (plain_node ''controller_manager'' ''spawner'')
      \<lparr>node_namespace := Some (LaunchConfiguration ''name''),
       node_arguments := [Text ''dsr_moveit_controller'', Text ''-c'',
       Text ''controller_manager'', Text ''--controller-manager-timeout'', Text ''120'']\<rparr>"

definition m0617_start_rviz_node :: action where
  "m0617_start_rviz_node = OpaqueFunction ''rviz_node_function''"

definition m0617_start_delay_jsb_after_control_node :: "build \<Rightarrow> action" where
  "m0617_start_delay_jsb_after_control_node B =
     OnProcessStart (m0617_start_control_node B)
     [TimerAction 5 [Node m0617_start_joint_state_broadcaster_spawner]]"

definition m0617_start_delay_robot_controller_after_joint_state :: action where
  "m0617_start_delay_robot_controller_after_joint_state =
     OnProcessExit m0617_start_joint_state_broadcaster_spawner
     [Node m0617_start_robot_controller_spawner]"

definition m0617_start_delay_dsr_moveit_controller_after_robot_controller :: action where
  "m0617_start_delay_dsr_moveit_controller_after_robot_controller =
     OnProcessExit m0617_start_robot_controller_spawner
     [Node m0617_start_dsr_moveit_controller_spawner]"

definition m0617_start_delay_rviz_after_dsr_moveit_controller :: action where
  "m0617_start_delay_rviz_after_dsr_moveit_controller =
     OnProcessExit m0617_start_dsr_moveit_controller_spawner
     [m0617_start_rviz_node]"

definition m0617_start_nodes :: "build \<Rightarrow> action list" where
  "m0617_start_nodes B =
     [Node m0617_start_run_emulator_node,
      Node (m0617_start_robot_state_pub_node B),
      Node (m0617_start_control_node B),
      m0617_start_delay_jsb_after_control_node B,
      m0617_start_delay_robot_controller_after_joint_state,
      m0617_start_delay_dsr_moveit_controller_after_robot_controller,
      m0617_start_delay_rviz_after_dsr_moveit_controller]"

definition m0617_start :: "build \<Rightarrow> action list" where
  "m0617_start B = m0617_start_ARGUMENTS @ (m0617_start_nodes B)"

lemmas m0617_start_defs = m0617_start_fn_model_value_def m0617_start_fn_model_value_str_def
  m0617_start_fn_package_name_str_def m0617_start_fn_package_path_str_def
  m0617_start_fn_moveit_config_def m0617_start_fn_run_move_group_node_def
  m0617_start_fn_rviz_base_def m0617_start_fn_rviz_full_config_def m0617_start_fn_rviz_node_def
  m0617_start_rviz_node_function_def m0617_start_ARGUMENTS_def m0617_start_xacro_path_def
  m0617_start_update_rate_def m0617_start_robot_description_content_def
  m0617_start_robot_description_def m0617_start_robot_controllers_def
  m0617_start_run_emulator_node_def m0617_start_control_node_def
  m0617_start_robot_state_pub_node_def m0617_start_joint_state_broadcaster_spawner_def
  m0617_start_robot_controller_spawner_def m0617_start_dsr_moveit_controller_spawner_def
  m0617_start_rviz_node_def m0617_start_delay_jsb_after_control_node_def
  m0617_start_delay_robot_controller_after_joint_state_def
  m0617_start_delay_dsr_moveit_controller_after_robot_controller_def
  m0617_start_delay_rviz_after_dsr_moveit_controller_def m0617_start_nodes_def m0617_start_def

section \<open>start.launch.py of dsr_moveit_config_m1013\<close>

text \<open>\<^verbatim>\<open>rviz_node_function\<close> of the same file\<close>

definition m1013_start_fn_model_value :: "string \<Rightarrow> string" where
  "m1013_start_fn_model_value m = m"

definition m1013_start_fn_model_value_str :: "string \<Rightarrow> string" where
  "m1013_start_fn_model_value_str m = m1013_start_fn_model_value m"

definition m1013_start_fn_package_name_str :: "string \<Rightarrow> string" where
  "m1013_start_fn_package_name_str m = ''dsr_moveit_config_'' @ (m1013_start_fn_model_value m)"

definition m1013_start_fn_package_path_str :: "build \<Rightarrow> string \<Rightarrow> string" where
  "m1013_start_fn_package_path_str B m = share B (m1013_start_fn_package_name_str m)"

definition m1013_start_fn_moveit_config :: "string \<Rightarrow> moveit_config" where
  "m1013_start_fn_moveit_config m =
     \<lparr>mc_robot = (m1013_start_fn_model_value_str m),
      mc_package = Some (m1013_start_fn_package_name_str m),
      mc_urdf = (''config/'' @ (m1013_start_fn_model_value m) @ ''.urdf.xacro''),
      mc_srdf = ''config/dsr.srdf'',
      mc_controllers = ''config/moveit_controllers.yaml'',
      mc_pipelines = Some ([''ompl'', ''chomp'', ''pilz_industrial_motion_planner''], ''ompl'',
      False)\<rparr>"

definition m1013_start_fn_run_move_group_node :: "string \<Rightarrow> ros_node" where
  "m1013_start_fn_run_move_group_node m =
     (plain_node ''moveit_ros_move_group'' ''move_group'')
      \<lparr>node_parameters := [ParamMoveIt (m1013_start_fn_moveit_config m) WholeConfig],
       node_output := Some ''screen''\<rparr>"

definition m1013_start_fn_rviz_base :: "build \<Rightarrow> string \<Rightarrow> string" where
  "m1013_start_fn_rviz_base B m =
     path_join (share B (m1013_start_fn_package_name_str m)) [''launch'']"

definition m1013_start_fn_rviz_full_config :: "build \<Rightarrow> string \<Rightarrow> string" where
  "m1013_start_fn_rviz_full_config B m =
     path_join (m1013_start_fn_rviz_base B m) [''moveit.rviz'']"

definition m1013_start_fn_rviz_node :: "build \<Rightarrow> string \<Rightarrow> ros_node" where
  "m1013_start_fn_rviz_node B m =
     (plain_node ''rviz2'' ''rviz2'')
      \<lparr>node_name := Some ''rviz2'',
       node_arguments := [Text ''-d'', Text (m1013_start_fn_rviz_full_config B m)],
       node_parameters := [ParamMoveIt (m1013_start_fn_moveit_config m) RobotDescription,
        ParamMoveIt (m1013_start_fn_moveit_config m) RobotSemantic,
        ParamMoveIt (m1013_start_fn_moveit_config m) PlanningPipelines,
        ParamMoveIt (m1013_start_fn_moveit_config m) RobotKinematics,
        ParamMoveIt (m1013_start_fn_moveit_config m) JointLimits],
       node_output := Some ''log''\<rparr>"

definition m1013_start_rviz_node_function :: "build \<Rightarrow> string \<Rightarrow> action list" where
  "m1013_start_rviz_node_function B m =
     [Node (m1013_start_fn_run_move_group_node m),
      Node (m1013_start_fn_rviz_node B m)]"

definition m1013_start_ARGUMENTS :: "action list" where
  "m1013_start_ARGUMENTS =
     [DeclareLaunchArgument ''name'' '''',
      DeclareLaunchArgument ''host'' ''127.0.0.1'',
      DeclareLaunchArgument ''port'' ''12345'',
      DeclareLaunchArgument ''mode'' ''virtual'',
      DeclareLaunchArgument ''model'' ''m1013'',
      DeclareLaunchArgument ''color'' ''white'',
      DeclareLaunchArgument ''gui'' ''false'',
      DeclareLaunchArgument ''gz'' ''false'',
      DeclareLaunchArgument ''rt_host'' ''192.168.137.50'']"

definition m1013_start_xacro_path :: "build \<Rightarrow> string" where
  "m1013_start_xacro_path B = path_join (share B ''dsr_description2'') [''xacro'']"

definition m1013_start_update_rate :: "build \<Rightarrow> string" where
  "m1013_start_update_rate B = update_rate B"

definition m1013_start_robot_description_content :: "build \<Rightarrow> subst" where
  "m1013_start_robot_description_content B =
     Command [PathJoin [FindExecutable ''xacro''], Text '' '',
      PathJoin [FindPackageShare ''dsr_description2'', Text ''xacro'',
      LaunchConfiguration ''model''], Text ''.urdf.xacro'', Text '' name:='',
      LaunchConfiguration ''name'', Text '' host:='', LaunchConfiguration ''host'',
      Text '' rt_host:='', LaunchConfiguration ''rt_host'', Text '' port:='',
      LaunchConfiguration ''port'', Text '' mode:='', LaunchConfiguration ''mode'',
      Text '' model:='', LaunchConfiguration ''model'', Text '' update_rate:='',
      Text (m1013_start_update_rate B)]"

definition m1013_start_robot_description :: "build \<Rightarrow> (string \<times> pvalue) list" where
  "m1013_start_robot_description B =
     [(''robot_description'', PvSubst (m1013_start_robot_description_content B))]"

definition m1013_start_robot_controllers :: "subst list" where
  "m1013_start_robot_controllers =
     [PathJoin [FindPackageShare ''dsr_controller2'', Text ''config'',
      Text ''dsr_controller2.yaml'']]"

definition m1013_start_run_emulator_node :: ros_node where
  "m1013_start_run_emulator_node =
     (plain_node ''dsr_bringup2'' ''run_emulator'')
      \<lparr>node_namespace := Some (LaunchConfiguration ''name''),
       node_parameters := [Params [(''name'', PvSubst (LaunchConfiguration ''name''))],
        Params [(''rate'', PvInt 100)],
        Params [(''standby'', PvInt 5000)],
        Params [(''command'', PvBool True)],
        Params [(''host'', PvSubst (LaunchConfiguration ''host''))],
        Params [(''port'', PvSubst (LaunchConfiguration ''port''))],
        Params [(''mode'', PvSubst (LaunchConfiguration ''mode''))],
        Params [(''model'', PvSubst (LaunchConfiguration ''model''))],
        Params [(''gripper'', PvSubst (Text ''none''))],
        Params [(''mobile'', PvSubst (Text ''none''))],
        Params [(''rt_host'', PvSubst (LaunchConfiguration ''rt_host''))]],
       node_output := Some ''screen''\<rparr>"

definition m1013_start_control_node :: "build \<Rightarrow> ros_node" where
  "m1013_start_control_node B =
     (plain_node ''controller_manager'' ''ros2_control_node'')
      \<lparr>node_namespace := Some (LaunchConfiguration ''name''),
       node_parameters := [Params (m1013_start_robot_description B),
        ParamFile m1013_start_robot_controllers],
       node_output := Some ''both''\<rparr>"

definition m1013_start_robot_state_pub_node :: "build \<Rightarrow> ros_node" where
  "m1013_start_robot_state_pub_node B =
     (plain_node ''robot_state_publisher'' ''robot_state_publisher'')
      \<lparr>node_namespace := Some (LaunchConfiguration ''name''),
       node_parameters := [Params [(''robot_description'', PvSubst (Command [Text ''xacro'',
       Text '' '', Text (m1013_start_xacro_path B), Text ''/'', LaunchConfiguration ''model'',
       Text ''.urdf.xacro color:='', LaunchConfiguration ''color'']))]],
       node_output := Some ''both''\<rparr>"

definition m1013_start_joint_state_broadcaster_spawner :: ros_node where
  "m1013_start_joint_state_broadcaster_spawner =
     (plain_node ''controller_manager'' ''spawner'')
      \<lparr>node_namespace := Some (LaunchConfiguration ''name''),
       node_arguments := [Text ''joint_state_broadcaster'', Text ''-c'',
       Text ''controller_manager'', Text ''--controller-manager-timeout'', Text ''120'']\<rparr>"

definition m1013_start_robot_controller_spawner :: ros_node where
  "m1013_start_robot_controller_spawner =
     (plain_node ''controller_manager'' ''spawner'')
      \<lparr>node_namespace := Some (LaunchConfiguration ''name''),
       node_arguments := [Text ''dsr_controller2'', Text ''-c'', Text ''controller_manager'',
       Text ''--controller-manager-timeout'', Text ''120'', Text ''--ros-args'',
       Text ''--log-level'', Text ''info'']\<rparr>"

definition m1013_start_dsr_moveit_controller_spawner :: ros_node where
  "m1013_start_dsr_moveit_controller_spawner =
     (plain_node ''controller_manager'' ''spawner'')
      \<lparr>node_namespace := Some (LaunchConfiguration ''name''),
       node_arguments := [Text ''dsr_moveit_controller'', Text ''-c'',
       Text ''controller_manager'', Text ''--controller-manager-timeout'', Text ''120'']\<rparr>"

definition m1013_start_rviz_node :: action where
  "m1013_start_rviz_node = OpaqueFunction ''rviz_node_function''"

definition m1013_start_delay_jsb_after_control_node :: "build \<Rightarrow> action" where
  "m1013_start_delay_jsb_after_control_node B =
     OnProcessStart (m1013_start_control_node B)
     [TimerAction 5 [Node m1013_start_joint_state_broadcaster_spawner]]"

definition m1013_start_delay_robot_controller_after_joint_state :: action where
  "m1013_start_delay_robot_controller_after_joint_state =
     OnProcessExit m1013_start_joint_state_broadcaster_spawner
     [Node m1013_start_robot_controller_spawner]"

definition m1013_start_delay_dsr_moveit_controller_after_robot_controller :: action where
  "m1013_start_delay_dsr_moveit_controller_after_robot_controller =
     OnProcessExit m1013_start_robot_controller_spawner
     [Node m1013_start_dsr_moveit_controller_spawner]"

definition m1013_start_delay_rviz_after_dsr_moveit_controller :: action where
  "m1013_start_delay_rviz_after_dsr_moveit_controller =
     OnProcessExit m1013_start_dsr_moveit_controller_spawner
     [m1013_start_rviz_node]"

definition m1013_start_nodes :: "build \<Rightarrow> action list" where
  "m1013_start_nodes B =
     [Node m1013_start_run_emulator_node,
      Node (m1013_start_robot_state_pub_node B),
      Node (m1013_start_control_node B),
      m1013_start_delay_jsb_after_control_node B,
      m1013_start_delay_robot_controller_after_joint_state,
      m1013_start_delay_dsr_moveit_controller_after_robot_controller,
      m1013_start_delay_rviz_after_dsr_moveit_controller]"

definition m1013_start :: "build \<Rightarrow> action list" where
  "m1013_start B = m1013_start_ARGUMENTS @ (m1013_start_nodes B)"

lemmas m1013_start_defs = m1013_start_fn_model_value_def m1013_start_fn_model_value_str_def
  m1013_start_fn_package_name_str_def m1013_start_fn_package_path_str_def
  m1013_start_fn_moveit_config_def m1013_start_fn_run_move_group_node_def
  m1013_start_fn_rviz_base_def m1013_start_fn_rviz_full_config_def m1013_start_fn_rviz_node_def
  m1013_start_rviz_node_function_def m1013_start_ARGUMENTS_def m1013_start_xacro_path_def
  m1013_start_update_rate_def m1013_start_robot_description_content_def
  m1013_start_robot_description_def m1013_start_robot_controllers_def
  m1013_start_run_emulator_node_def m1013_start_control_node_def
  m1013_start_robot_state_pub_node_def m1013_start_joint_state_broadcaster_spawner_def
  m1013_start_robot_controller_spawner_def m1013_start_dsr_moveit_controller_spawner_def
  m1013_start_rviz_node_def m1013_start_delay_jsb_after_control_node_def
  m1013_start_delay_robot_controller_after_joint_state_def
  m1013_start_delay_dsr_moveit_controller_after_robot_controller_def
  m1013_start_delay_rviz_after_dsr_moveit_controller_def m1013_start_nodes_def m1013_start_def

section \<open>start.launch.py of dsr_moveit_config_m1509\<close>

text \<open>\<^verbatim>\<open>rviz_node_function\<close> of the same file\<close>

definition m1509_start_fn_model_value :: "string \<Rightarrow> string" where
  "m1509_start_fn_model_value m = m"

definition m1509_start_fn_model_value_str :: "string \<Rightarrow> string" where
  "m1509_start_fn_model_value_str m = m1509_start_fn_model_value m"

definition m1509_start_fn_package_name_str :: "string \<Rightarrow> string" where
  "m1509_start_fn_package_name_str m = ''dsr_moveit_config_'' @ (m1509_start_fn_model_value m)"

definition m1509_start_fn_package_path_str :: "build \<Rightarrow> string \<Rightarrow> string" where
  "m1509_start_fn_package_path_str B m = share B (m1509_start_fn_package_name_str m)"

definition m1509_start_fn_moveit_config :: "string \<Rightarrow> moveit_config" where
  "m1509_start_fn_moveit_config m =
     \<lparr>mc_robot = (m1509_start_fn_model_value_str m),
      mc_package = Some (m1509_start_fn_package_name_str m),
      mc_urdf = (''config/'' @ (m1509_start_fn_model_value m) @ ''.urdf.xacro''),
      mc_srdf = ''config/dsr.srdf'',
      mc_controllers = ''config/moveit_controllers.yaml'',
      mc_pipelines = Some ([''ompl'', ''chomp'', ''pilz_industrial_motion_planner''], ''ompl'',
      False)\<rparr>"

definition m1509_start_fn_run_move_group_node :: "string \<Rightarrow> ros_node" where
  "m1509_start_fn_run_move_group_node m =
     (plain_node ''moveit_ros_move_group'' ''move_group'')
      \<lparr>node_parameters := [ParamMoveIt (m1509_start_fn_moveit_config m) WholeConfig],
       node_output := Some ''screen''\<rparr>"

definition m1509_start_fn_rviz_base :: "build \<Rightarrow> string \<Rightarrow> string" where
  "m1509_start_fn_rviz_base B m =
     path_join (share B (m1509_start_fn_package_name_str m)) [''launch'']"

definition m1509_start_fn_rviz_full_config :: "build \<Rightarrow> string \<Rightarrow> string" where
  "m1509_start_fn_rviz_full_config B m =
     path_join (m1509_start_fn_rviz_base B m) [''moveit.rviz'']"

definition m1509_start_fn_rviz_node :: "build \<Rightarrow> string \<Rightarrow> ros_node" where
  "m1509_start_fn_rviz_node B m =
     (plain_node ''rviz2'' ''rviz2'')
      \<lparr>node_name := Some ''rviz2'',
       node_arguments := [Text ''-d'', Text (m1509_start_fn_rviz_full_config B m)],
       node_parameters := [ParamMoveIt (m1509_start_fn_moveit_config m) RobotDescription,
        ParamMoveIt (m1509_start_fn_moveit_config m) RobotSemantic,
        ParamMoveIt (m1509_start_fn_moveit_config m) PlanningPipelines,
        ParamMoveIt (m1509_start_fn_moveit_config m) RobotKinematics,
        ParamMoveIt (m1509_start_fn_moveit_config m) JointLimits],
       node_output := Some ''log''\<rparr>"

definition m1509_start_rviz_node_function :: "build \<Rightarrow> string \<Rightarrow> action list" where
  "m1509_start_rviz_node_function B m =
     [Node (m1509_start_fn_run_move_group_node m),
      Node (m1509_start_fn_rviz_node B m)]"

definition m1509_start_ARGUMENTS :: "action list" where
  "m1509_start_ARGUMENTS =
     [DeclareLaunchArgument ''name'' '''',
      DeclareLaunchArgument ''host'' ''127.0.0.1'',
      DeclareLaunchArgument ''port'' ''12345'',
      DeclareLaunchArgument ''mode'' ''virtual'',
      DeclareLaunchArgument ''model'' ''m1509'',
      DeclareLaunchArgument ''color'' ''white'',
      DeclareLaunchArgument ''gui'' ''false'',
      DeclareLaunchArgument ''gz'' ''false'',
      DeclareLaunchArgument ''rt_host'' ''192.168.137.50'']"

definition m1509_start_xacro_path :: "build \<Rightarrow> string" where
  "m1509_start_xacro_path B = path_join (share B ''dsr_description2'') [''xacro'']"

definition m1509_start_update_rate :: "build \<Rightarrow> string" where
  "m1509_start_update_rate B = update_rate B"

definition m1509_start_robot_description_content :: "build \<Rightarrow> subst" where
  "m1509_start_robot_description_content B =
     Command [PathJoin [FindExecutable ''xacro''], Text '' '',
      PathJoin [FindPackageShare ''dsr_description2'', Text ''xacro'',
      LaunchConfiguration ''model''], Text ''.urdf.xacro'', Text '' name:='',
      LaunchConfiguration ''name'', Text '' host:='', LaunchConfiguration ''host'',
      Text '' rt_host:='', LaunchConfiguration ''rt_host'', Text '' port:='',
      LaunchConfiguration ''port'', Text '' mode:='', LaunchConfiguration ''mode'',
      Text '' model:='', LaunchConfiguration ''model'', Text '' update_rate:='',
      Text (m1509_start_update_rate B)]"

definition m1509_start_robot_description :: "build \<Rightarrow> (string \<times> pvalue) list" where
  "m1509_start_robot_description B =
     [(''robot_description'', PvSubst (m1509_start_robot_description_content B))]"

definition m1509_start_robot_controllers :: "subst list" where
  "m1509_start_robot_controllers =
     [PathJoin [FindPackageShare ''dsr_controller2'', Text ''config'',
      Text ''dsr_controller2.yaml'']]"

definition m1509_start_run_emulator_node :: ros_node where
  "m1509_start_run_emulator_node =
     (plain_node ''dsr_bringup2'' ''run_emulator'')
      \<lparr>node_namespace := Some (LaunchConfiguration ''name''),
       node_parameters := [Params [(''name'', PvSubst (LaunchConfiguration ''name''))],
        Params [(''rate'', PvInt 100)],
        Params [(''standby'', PvInt 5000)],
        Params [(''command'', PvBool True)],
        Params [(''host'', PvSubst (LaunchConfiguration ''host''))],
        Params [(''port'', PvSubst (LaunchConfiguration ''port''))],
        Params [(''mode'', PvSubst (LaunchConfiguration ''mode''))],
        Params [(''model'', PvSubst (LaunchConfiguration ''model''))],
        Params [(''gripper'', PvSubst (Text ''none''))],
        Params [(''mobile'', PvSubst (Text ''none''))],
        Params [(''rt_host'', PvSubst (LaunchConfiguration ''rt_host''))]],
       node_output := Some ''screen''\<rparr>"

definition m1509_start_control_node :: "build \<Rightarrow> ros_node" where
  "m1509_start_control_node B =
     (plain_node ''controller_manager'' ''ros2_control_node'')
      \<lparr>node_namespace := Some (LaunchConfiguration ''name''),
       node_parameters := [Params (m1509_start_robot_description B),
        ParamFile m1509_start_robot_controllers],
       node_output := Some ''both''\<rparr>"

definition m1509_start_robot_state_pub_node :: "build \<Rightarrow> ros_node" where
  "m1509_start_robot_state_pub_node B =
     (plain_node ''robot_state_publisher'' ''robot_state_publisher'')
      \<lparr>node_namespace := Some (LaunchConfiguration ''name''),
       node_parameters := [Params [(''robot_description'', PvSubst (Command [Text ''xacro'',
       Text '' '', Text (m1509_start_xacro_path B), Text ''/'', LaunchConfiguration ''model'',
       Text ''.urdf.xacro color:='', LaunchConfiguration ''color'']))]],
       node_output := Some ''both''\<rparr>"

definition m1509_start_joint_state_broadcaster_spawner :: ros_node where
  "m1509_start_joint_state_broadcaster_spawner =
     (plain_node ''controller_manager'' ''spawner'')
      \<lparr>node_namespace := Some (LaunchConfiguration ''name''),
       node_arguments := [Text ''joint_state_broadcaster'', Text ''-c'',
       Text ''controller_manager'', Text ''--controller-manager-timeout'', Text ''120'']\<rparr>"

definition m1509_start_robot_controller_spawner :: ros_node where
  "m1509_start_robot_controller_spawner =
     (plain_node ''controller_manager'' ''spawner'')
      \<lparr>node_namespace := Some (LaunchConfiguration ''name''),
       node_arguments := [Text ''dsr_controller2'', Text ''-c'', Text ''controller_manager'',
       Text ''--controller-manager-timeout'', Text ''120'']\<rparr>"

definition m1509_start_dsr_moveit_controller_spawner :: ros_node where
  "m1509_start_dsr_moveit_controller_spawner =
     (plain_node ''controller_manager'' ''spawner'')
      \<lparr>node_namespace := Some (LaunchConfiguration ''name''),
       node_arguments := [Text ''dsr_moveit_controller'', Text ''-c'',
       Text ''controller_manager'', Text ''--controller-manager-timeout'', Text ''120'']\<rparr>"

definition m1509_start_rviz_node :: action where
  "m1509_start_rviz_node = OpaqueFunction ''rviz_node_function''"

definition m1509_start_delay_jsb_after_control_node :: "build \<Rightarrow> action" where
  "m1509_start_delay_jsb_after_control_node B =
     OnProcessStart (m1509_start_control_node B)
     [TimerAction 5 [Node m1509_start_joint_state_broadcaster_spawner]]"

definition m1509_start_delay_robot_controller_after_joint_state :: action where
  "m1509_start_delay_robot_controller_after_joint_state =
     OnProcessExit m1509_start_joint_state_broadcaster_spawner
     [Node m1509_start_robot_controller_spawner]"

definition m1509_start_delay_dsr_moveit_controller_after_robot_controller :: action where
  "m1509_start_delay_dsr_moveit_controller_after_robot_controller =
     OnProcessExit m1509_start_robot_controller_spawner
     [Node m1509_start_dsr_moveit_controller_spawner]"

definition m1509_start_delay_rviz_after_dsr_moveit_controller :: action where
  "m1509_start_delay_rviz_after_dsr_moveit_controller =
     OnProcessExit m1509_start_dsr_moveit_controller_spawner
     [m1509_start_rviz_node]"

definition m1509_start_nodes :: "build \<Rightarrow> action list" where
  "m1509_start_nodes B =
     [Node m1509_start_run_emulator_node,
      Node (m1509_start_robot_state_pub_node B),
      Node (m1509_start_control_node B),
      m1509_start_delay_jsb_after_control_node B,
      m1509_start_delay_robot_controller_after_joint_state,
      m1509_start_delay_dsr_moveit_controller_after_robot_controller,
      m1509_start_delay_rviz_after_dsr_moveit_controller]"

definition m1509_start :: "build \<Rightarrow> action list" where
  "m1509_start B = m1509_start_ARGUMENTS @ (m1509_start_nodes B)"

lemmas m1509_start_defs = m1509_start_fn_model_value_def m1509_start_fn_model_value_str_def
  m1509_start_fn_package_name_str_def m1509_start_fn_package_path_str_def
  m1509_start_fn_moveit_config_def m1509_start_fn_run_move_group_node_def
  m1509_start_fn_rviz_base_def m1509_start_fn_rviz_full_config_def m1509_start_fn_rviz_node_def
  m1509_start_rviz_node_function_def m1509_start_ARGUMENTS_def m1509_start_xacro_path_def
  m1509_start_update_rate_def m1509_start_robot_description_content_def
  m1509_start_robot_description_def m1509_start_robot_controllers_def
  m1509_start_run_emulator_node_def m1509_start_control_node_def
  m1509_start_robot_state_pub_node_def m1509_start_joint_state_broadcaster_spawner_def
  m1509_start_robot_controller_spawner_def m1509_start_dsr_moveit_controller_spawner_def
  m1509_start_rviz_node_def m1509_start_delay_jsb_after_control_node_def
  m1509_start_delay_robot_controller_after_joint_state_def
  m1509_start_delay_dsr_moveit_controller_after_robot_controller_def
  m1509_start_delay_rviz_after_dsr_moveit_controller_def m1509_start_nodes_def m1509_start_def

section \<open>start.launch.py of dsr_moveit_config_p3020\<close>

text \<open>\<^verbatim>\<open>rviz_node_function\<close> of the same file\<close>

definition p3020_start_fn_model_value :: "string \<Rightarrow> string" where
  "p3020_start_fn_model_value m = m"

definition p3020_start_fn_model_value_str :: "string \<Rightarrow> string" where
  "p3020_start_fn_model_value_str m = p3020_start_fn_model_value m"

definition p3020_start_fn_package_name_str :: "string \<Rightarrow> string" where
  "p3020_start_fn_package_name_str m = ''dsr_moveit_config_'' @ (p3020_start_fn_model_value m)"

definition p3020_start_fn_package_path_str :: "build \<Rightarrow> string \<Rightarrow> string" where
  "p3020_start_fn_package_path_str B m = share B (p3020_start_fn_package_name_str m)"

definition p3020_start_fn_moveit_config :: "string \<Rightarrow> moveit_config" where
  "p3020_start_fn_moveit_config m =
     \<lparr>mc_robot = (p3020_start_fn_model_value_str m),
      mc_package = Some (p3020_start_fn_package_name_str m),
      mc_urdf = (''config/'' @ (p3020_start_fn_model_value m) @ ''.urdf.xacro''),
      mc_srdf = ''config/dsr.srdf'',
      mc_controllers = ''config/moveit_controllers.yaml'',
      mc_pipelines = Some ([''ompl'', ''chomp'', ''pilz_industrial_motion_planner''], ''ompl'',
      False)\<rparr>"

definition p3020_start_fn_run_move_group_node :: "string \<Rightarrow> ros_node" where
  "p3020_start_fn_run_move_group_node m =
     (plain_node ''moveit_ros_move_group'' ''move_group'')
      \<lparr>node_parameters := [ParamMoveIt (p3020_start_fn_moveit_config m) WholeConfig],
       node_output := Some ''screen''\<rparr>"

definition p3020_start_fn_rviz_base :: "build \<Rightarrow> string \<Rightarrow> string" where
  "p3020_start_fn_rviz_base B m =
     path_join (share B (p3020_start_fn_package_name_str m)) [''launch'']"

definition p3020_start_fn_rviz_full_config :: "build \<Rightarrow> string \<Rightarrow> string" where
  "p3020_start_fn_rviz_full_config B m =
     path_join (p3020_start_fn_rviz_base B m) [''moveit.rviz'']"

definition p3020_start_fn_rviz_node :: "build \<Rightarrow> string \<Rightarrow> ros_node" where
  "p3020_start_fn_rviz_node B m =
     (plain_node ''rviz2'' ''rviz2'')
      \<lparr>node_name := Some ''rviz2'',
       node_arguments := [Text ''-d'', Text (p3020_start_fn_rviz_full_config B m)],
       node_parameters := [ParamMoveIt (p3020_start_fn_moveit_config m) RobotDescription,
        ParamMoveIt (p3020_start_fn_moveit_config m) RobotSemantic,
        ParamMoveIt (p3020_start_fn_moveit_config m) PlanningPipelines,
        ParamMoveIt (p3020_start_fn_moveit_config m) RobotKinematics,
        ParamMoveIt (p3020_start_fn_moveit_config m) JointLimits],
       node_output := Some ''log''\<rparr>"

definition p3020_start_rviz_node_function :: "build \<Rightarrow> string \<Rightarrow> action list" where
  "p3020_start_rviz_node_function B m =
     [Node (p3020_start_fn_run_move_group_node m),
      Node (p3020_start_fn_rviz_node B m)]"

definition p3020_start_ARGUMENTS :: "action list" where
  "p3020_start_ARGUMENTS =
     [DeclareLaunchArgument ''name'' '''',
      DeclareLaunchArgument ''host'' ''127.0.0.1'',
      DeclareLaunchArgument ''port'' ''12345'',
      DeclareLaunchArgument ''mode'' ''virtual'',
      DeclareLaunchArgument ''model'' ''p3020'',
      DeclareLaunchArgument ''color'' ''white'',
      DeclareLaunchArgument ''gui'' ''false'',
      DeclareLaunchArgument ''gz'' ''false'',
      DeclareLaunchArgument ''rt_host'' ''192.168.137.50'']"

definition p3020_start_xacro_path :: "build \<Rightarrow> string" where
  "p3020_start_xacro_path B = path_join (share B ''dsr_description2'') [''xacro'']"

definition p3020_start_update_rate :: "build \<Rightarrow> string" where
  "p3020_start_update_rate B = update_rate B"

definition p3020_start_robot_description_content :: "build \<Rightarrow> subst" where
  "p3020_start_robot_description_content B =
     Command [PathJoin [FindExecutable ''xacro''], Text '' '',
      PathJoin [FindPackageShare ''dsr_description2'', Text ''xacro'',
      LaunchConfiguration ''model''], Text ''.urdf.xacro'', Text '' name:='',
      LaunchConfiguration ''name'', Text '' host:='', LaunchConfiguration ''host'',
      Text '' rt_host:='', LaunchConfiguration ''rt_host'', Text '' port:='',
      LaunchConfiguration ''port'', Text '' mode:='', LaunchConfiguration ''mode'',
      Text '' model:='', LaunchConfiguration ''model'', Text '' update_rate:='',
      Text (p3020_start_update_rate B)]"

definition p3020_start_robot_description :: "build \<Rightarrow> (string \<times> pvalue) list" where
  "p3020_start_robot_description B =
     [(''robot_description'', PvSubst (p3020_start_robot_description_content B))]"

definition p3020_start_robot_controllers :: "subst list" where
  "p3020_start_robot_controllers =
     [PathJoin [FindPackageShare ''dsr_controller2'', Text ''config'',
      Text ''dsr_controller2.yaml'']]"

definition p3020_start_run_emulator_node :: ros_node where
  "p3020_start_run_emulator_node =
     (plain_node ''dsr_bringup2'' ''run_emulator'')
      \<lparr>node_namespace := Some (LaunchConfiguration ''name''),
       node_parameters := [Params [(''name'', PvSubst (LaunchConfiguration ''name''))],
        Params [(''rate'', PvInt 100)],
        Params [(''standby'', PvInt 5000)],
        Params [(''command'', PvBool True)],
        Params [(''host'', PvSubst (LaunchConfiguration ''host''))],
        Params [(''port'', PvSubst (LaunchConfiguration ''port''))],
        Params [(''mode'', PvSubst (LaunchConfiguration ''mode''))],
        Params [(''model'', PvSubst (LaunchConfiguration ''model''))],
        Params [(''gripper'', PvSubst (Text ''none''))],
        Params [(''mobile'', PvSubst (Text ''none''))],
        Params [(''rt_host'', PvSubst (LaunchConfiguration ''rt_host''))]],
       node_output := Some ''screen''\<rparr>"

definition p3020_start_control_node :: "build \<Rightarrow> ros_node" where
  "p3020_start_control_node B =
     (plain_node ''controller_manager'' ''ros2_control_node'')
      \<lparr>node_namespace := Some (LaunchConfiguration ''name''),
       node_parameters := [Params (p3020_start_robot_description B),
        ParamFile p3020_start_robot_controllers],
       node_output := Some ''both''\<rparr>"

definition p3020_start_robot_state_pub_node :: "build \<Rightarrow> ros_node" where
  "p3020_start_robot_state_pub_node B =
     (plain_node ''robot_state_publisher'' ''robot_state_publisher'')
      \<lparr>node_namespace := Some (LaunchConfiguration ''name''),
       node_parameters := [Params [(''robot_description'', PvSubst (Command [Text ''xacro'',
       Text '' '', Text (p3020_start_xacro_path B), Text ''/'', LaunchConfiguration ''model'',
       Text ''.urdf.xacro color:='', LaunchConfiguration ''color'']))]],
       node_output := Some ''both''\<rparr>"

definition p3020_start_joint_state_broadcaster_spawner :: ros_node where
  "p3020_start_joint_state_broadcaster_spawner =
     (plain_node ''controller_manager'' ''spawner'')
      \<lparr>node_namespace := Some (LaunchConfiguration ''name''),
       node_arguments := [Text ''joint_state_broadcaster'', Text ''-c'',
       Text ''controller_manager'', Text ''--controller-manager-timeout'', Text ''120'']\<rparr>"

definition p3020_start_robot_controller_spawner :: ros_node where
  "p3020_start_robot_controller_spawner =
     (plain_node ''controller_manager'' ''spawner'')
      \<lparr>node_namespace := Some (LaunchConfiguration ''name''),
       node_arguments := [Text ''dsr_controller2'', Text ''-c'', Text ''controller_manager'',
       Text ''--controller-manager-timeout'', Text ''120'']\<rparr>"

definition p3020_start_dsr_moveit_controller_spawner :: ros_node where
  "p3020_start_dsr_moveit_controller_spawner =
     (plain_node ''controller_manager'' ''spawner'')
      \<lparr>node_namespace := Some (LaunchConfiguration ''name''),
       node_arguments := [Text ''dsr_moveit_controller'', Text ''-c'',
       Text ''controller_manager'', Text ''--controller-manager-timeout'', Text ''120'']\<rparr>"

definition p3020_start_rviz_node :: action where
  "p3020_start_rviz_node = OpaqueFunction ''rviz_node_function''"

definition p3020_start_delay_jsb_after_control_node :: "build \<Rightarrow> action" where
  "p3020_start_delay_jsb_after_control_node B =
     OnProcessStart (p3020_start_control_node B)
     [TimerAction 5 [Node p3020_start_joint_state_broadcaster_spawner]]"

definition p3020_start_delay_robot_controller_after_joint_state :: action where
  "p3020_start_delay_robot_controller_after_joint_state =
     OnProcessExit p3020_start_joint_state_broadcaster_spawner
     [Node p3020_start_robot_controller_spawner]"

definition p3020_start_delay_dsr_moveit_controller_after_robot_controller :: action where
  "p3020_start_delay_dsr_moveit_controller_after_robot_controller =
     OnProcessExit p3020_start_robot_controller_spawner
     [Node p3020_start_dsr_moveit_controller_spawner]"

definition p3020_start_delay_rviz_after_dsr_moveit_controller :: action where
  "p3020_start_delay_rviz_after_dsr_moveit_controller =
     OnProcessExit p3020_start_dsr_moveit_controller_spawner
     [p3020_start_rviz_node]"

definition p3020_start_nodes :: "build \<Rightarrow> action list" where
  "p3020_start_nodes B =
     [Node p3020_start_run_emulator_node,
      Node (p3020_start_robot_state_pub_node B),
      Node (p3020_start_control_node B),
      p3020_start_delay_jsb_after_control_node B,
      p3020_start_delay_robot_controller_after_joint_state,
      p3020_start_delay_dsr_moveit_controller_after_robot_controller,
      p3020_start_delay_rviz_after_dsr_moveit_controller]"

definition p3020_start :: "build \<Rightarrow> action list" where
  "p3020_start B = p3020_start_ARGUMENTS @ (p3020_start_nodes B)"

lemmas p3020_start_defs = p3020_start_fn_model_value_def p3020_start_fn_model_value_str_def
  p3020_start_fn_package_name_str_def p3020_start_fn_package_path_str_def
  p3020_start_fn_moveit_config_def p3020_start_fn_run_move_group_node_def
  p3020_start_fn_rviz_base_def p3020_start_fn_rviz_full_config_def p3020_start_fn_rviz_node_def
  p3020_start_rviz_node_function_def p3020_start_ARGUMENTS_def p3020_start_xacro_path_def
  p3020_start_update_rate_def p3020_start_robot_description_content_def
  p3020_start_robot_description_def p3020_start_robot_controllers_def
  p3020_start_run_emulator_node_def p3020_start_control_node_def
  p3020_start_robot_state_pub_node_def p3020_start_joint_state_broadcaster_spawner_def
  p3020_start_robot_controller_spawner_def p3020_start_dsr_moveit_controller_spawner_def
  p3020_start_rviz_node_def p3020_start_delay_jsb_after_control_node_def
  p3020_start_delay_robot_controller_after_joint_state_def
  p3020_start_delay_dsr_moveit_controller_after_robot_controller_def
  p3020_start_delay_rviz_after_dsr_moveit_controller_def p3020_start_nodes_def p3020_start_def

end
