(* ===== verification/LaunchDemo.thy ===== *)
theory LaunchDemo
  imports LaunchModel
begin

text \<open>
  The launch files of the MoveIt configuration packages: demo.launch.py. There is one definition per variable of a file, with the name of the
  variable after the name of the file; the definition with the file's name alone is the description
  that the file returns. The descriptions of arguments, printing and \<^verbatim>\<open>show_git_info\<close> are
  left out.
\<close>

section \<open>demo.launch.py of dsr_moveit_config_a0509\<close>

definition a0509_demo_ARGUMENTS :: "action list" where
  "a0509_demo_ARGUMENTS =
     [DeclareLaunchArgument ''name'' '''',
      DeclareLaunchArgument ''host'' ''192.168.137.100'',
      DeclareLaunchArgument ''port'' ''12345'',
      DeclareLaunchArgument ''mode'' ''real'',
      DeclareLaunchArgument ''model'' ''a0509'',
      DeclareLaunchArgument ''color'' ''white'',
      DeclareLaunchArgument ''gz'' ''false'']"

definition a0509_demo_db_arg :: action where
  "a0509_demo_db_arg = DeclareLaunchArgument ''db'' ''False''"

definition a0509_demo_moveit_config :: moveit_config where
  "a0509_demo_moveit_config =
     \<lparr>mc_robot = ''a0509'', mc_package = None,
      mc_urdf = ''config/a0509.urdf.xacro'',
      mc_srdf = ''config/dsr.srdf'',
      mc_controllers = ''config/moveit_controllers.yaml'',
      mc_pipelines = None\<rparr>"

definition a0509_demo_run_move_group_node :: ros_node where
  "a0509_demo_run_move_group_node =
     (plain_node ''moveit_ros_move_group'' ''move_group'')
      \<lparr>node_parameters := [ParamMoveIt a0509_demo_moveit_config WholeConfig],
       node_output := Some ''screen''\<rparr>"

definition a0509_demo_rviz_base :: "build \<Rightarrow> string" where
  "a0509_demo_rviz_base B = path_join (share B ''dsr_moveit_config_a0509'') [''launch'']"

definition a0509_demo_rviz_full_config :: "build \<Rightarrow> string" where
  "a0509_demo_rviz_full_config B = path_join (a0509_demo_rviz_base B) [''moveit.rviz'']"

definition a0509_demo_rviz_node :: "build \<Rightarrow> ros_node" where
  "a0509_demo_rviz_node B =
     (plain_node ''rviz2'' ''rviz2'')
      \<lparr>node_name := Some ''rviz2'',
       node_arguments := [Text ''-d'', Text (a0509_demo_rviz_full_config B)],
       node_parameters := [ParamMoveIt a0509_demo_moveit_config RobotDescription,
        ParamMoveIt a0509_demo_moveit_config RobotSemantic,
        ParamMoveIt a0509_demo_moveit_config PlanningPipelines,
        ParamMoveIt a0509_demo_moveit_config RobotKinematics],
       node_output := Some ''log''\<rparr>"

definition a0509_demo_static_tf :: ros_node where
  "a0509_demo_static_tf =
     (plain_node ''tf2_ros'' ''static_transform_publisher'')
      \<lparr>node_name := Some ''static_transform_publisher'',
       node_arguments := [Text ''0.0'', Text ''0.0'', Text ''0.0'', Text ''0.0'', Text ''0.0'',
       Text ''0.0'', Text ''world'', Text ''base_link''],
       node_output := Some ''log''\<rparr>"

definition a0509_demo_robot_state_publisher :: ros_node where
  "a0509_demo_robot_state_publisher =
     (plain_node ''robot_state_publisher'' ''robot_state_publisher'')
      \<lparr>node_name := Some ''robot_state_publisher'',
       node_parameters := [ParamMoveIt a0509_demo_moveit_config RobotDescription],
       node_remappings := [(''/joint_states'', ''/dsr01/joint_states'')],
       node_output := Some ''both''\<rparr>"

definition a0509_demo_ros2_controllers_path :: "build \<Rightarrow> string" where
  "a0509_demo_ros2_controllers_path B =
     path_join (share B ''dsr_moveit_config_a0509'') [''config'', ''ros2_controllers.yaml'']"

definition a0509_demo_robot_description_content :: subst where
  "a0509_demo_robot_description_content =
     Command [PathJoin [FindExecutable ''xacro''], Text '' '',
      PathJoin [FindPackageShare ''dsr_description2'', Text ''xacro'',
      LaunchConfiguration ''model''], Text ''.urdf.xacro'']"

definition a0509_demo_robot_description :: "(string \<times> pvalue) list" where
  "a0509_demo_robot_description =
     [(''robot_description'', PvSubst a0509_demo_robot_description_content)]"

definition a0509_demo_ros2_control_node :: "build \<Rightarrow> ros_node" where
  "a0509_demo_ros2_control_node B =
     (plain_node ''controller_manager'' ''ros2_control_node'')
      \<lparr>node_parameters := [ParamFile [Text (a0509_demo_ros2_controllers_path B)]],
       node_remappings := [(''/controller_manager/robot_description'', ''/robot_description'')],
       node_output := Some ''both''\<rparr>"

definition a0509_demo_joint_state_broadcaster_spawner :: ros_node where
  "a0509_demo_joint_state_broadcaster_spawner =
     (plain_node ''controller_manager'' ''spawner'')
      \<lparr>node_arguments := [Text ''joint_state_broadcaster'', Text ''--controller-manager'',
      Text ''/controller_manager'']\<rparr>"

definition a0509_demo_dsr_moveit_controller_spawner :: ros_node where
  "a0509_demo_dsr_moveit_controller_spawner =
     (plain_node ''controller_manager'' ''spawner'')
      \<lparr>node_arguments := [Text ''dsr_moveit_controller'', Text ''--controller-manager'',
      Text ''/controller_manager'']\<rparr>"

definition a0509_demo_robot_controller_spawner :: ros_node where
  "a0509_demo_robot_controller_spawner =
     (plain_node ''controller_manager'' ''spawner'')
      \<lparr>node_arguments := [Text ''dsr_controller2'', Text ''-c'',
      Text ''/controller_manager'']\<rparr>"

definition a0509_demo :: "build \<Rightarrow> action list" where
  "a0509_demo B =
     a0509_demo_ARGUMENTS @ [a0509_demo_db_arg,
      Node (a0509_demo_rviz_node B),
      Node a0509_demo_static_tf,
      Node a0509_demo_robot_state_publisher,
      Node a0509_demo_run_move_group_node,
      Node (a0509_demo_ros2_control_node B),
      Node a0509_demo_joint_state_broadcaster_spawner,
      Node a0509_demo_dsr_moveit_controller_spawner]"

section \<open>demo.launch.py of dsr_moveit_config_a0912\<close>

definition a0912_demo_ARGUMENTS :: "action list" where
  "a0912_demo_ARGUMENTS =
     [DeclareLaunchArgument ''name'' '''',
      DeclareLaunchArgument ''host'' ''192.168.137.100'',
      DeclareLaunchArgument ''port'' ''12345'',
      DeclareLaunchArgument ''mode'' ''real'',
      DeclareLaunchArgument ''model'' ''a0912'',
      DeclareLaunchArgument ''color'' ''white'',
      DeclareLaunchArgument ''gz'' ''false'']"

definition a0912_demo_db_arg :: action where
  "a0912_demo_db_arg = DeclareLaunchArgument ''db'' ''False''"

definition a0912_demo_moveit_config :: moveit_config where
  "a0912_demo_moveit_config =
     \<lparr>mc_robot = ''a0912'', mc_package = None,
      mc_urdf = ''config/a0912.urdf.xacro'',
      mc_srdf = ''config/dsr.srdf'',
      mc_controllers = ''config/moveit_controllers.yaml'',
      mc_pipelines = None\<rparr>"

definition a0912_demo_run_move_group_node :: ros_node where
  "a0912_demo_run_move_group_node =
     (plain_node ''moveit_ros_move_group'' ''move_group'')
      \<lparr>node_parameters := [ParamMoveIt a0912_demo_moveit_config WholeConfig],
       node_output := Some ''screen''\<rparr>"

definition a0912_demo_rviz_base :: "build \<Rightarrow> string" where
  "a0912_demo_rviz_base B = path_join (share B ''dsr_moveit_config_a0912'') [''launch'']"

definition a0912_demo_rviz_full_config :: "build \<Rightarrow> string" where
  "a0912_demo_rviz_full_config B = path_join (a0912_demo_rviz_base B) [''moveit.rviz'']"

definition a0912_demo_rviz_node :: "build \<Rightarrow> ros_node" where
  "a0912_demo_rviz_node B =
     (plain_node ''rviz2'' ''rviz2'')
      \<lparr>node_name := Some ''rviz2'',
       node_arguments := [Text ''-d'', Text (a0912_demo_rviz_full_config B)],
       node_parameters := [ParamMoveIt a0912_demo_moveit_config RobotDescription,
        ParamMoveIt a0912_demo_moveit_config RobotSemantic,
        ParamMoveIt a0912_demo_moveit_config PlanningPipelines,
        ParamMoveIt a0912_demo_moveit_config RobotKinematics],
       node_output := Some ''log''\<rparr>"

definition a0912_demo_static_tf :: ros_node where
  "a0912_demo_static_tf =
     (plain_node ''tf2_ros'' ''static_transform_publisher'')
      \<lparr>node_name := Some ''static_transform_publisher'',
       node_arguments := [Text ''0.0'', Text ''0.0'', Text ''0.0'', Text ''0.0'', Text ''0.0'',
       Text ''0.0'', Text ''world'', Text ''base_link''],
       node_output := Some ''log''\<rparr>"

definition a0912_demo_robot_state_publisher :: ros_node where
  "a0912_demo_robot_state_publisher =
     (plain_node ''robot_state_publisher'' ''robot_state_publisher'')
      \<lparr>node_name := Some ''robot_state_publisher'',
       node_parameters := [ParamMoveIt a0912_demo_moveit_config RobotDescription],
       node_remappings := [(''/joint_states'', ''/dsr01/joint_states'')],
       node_output := Some ''both''\<rparr>"

definition a0912_demo_ros2_controllers_path :: "build \<Rightarrow> string" where
  "a0912_demo_ros2_controllers_path B =
     path_join (share B ''dsr_moveit_config_a0912'') [''config'', ''ros2_controllers.yaml'']"

definition a0912_demo_robot_description_content :: subst where
  "a0912_demo_robot_description_content =
     Command [PathJoin [FindExecutable ''xacro''], Text '' '',
      PathJoin [FindPackageShare ''dsr_description2'', Text ''xacro'',
      LaunchConfiguration ''model''], Text ''.urdf.xacro'']"

definition a0912_demo_robot_description :: "(string \<times> pvalue) list" where
  "a0912_demo_robot_description =
     [(''robot_description'', PvSubst a0912_demo_robot_description_content)]"

definition a0912_demo_ros2_control_node :: "build \<Rightarrow> ros_node" where
  "a0912_demo_ros2_control_node B =
     (plain_node ''controller_manager'' ''ros2_control_node'')
      \<lparr>node_parameters := [ParamFile [Text (a0912_demo_ros2_controllers_path B)]],
       node_remappings := [(''/controller_manager/robot_description'', ''/robot_description'')],
       node_output := Some ''both''\<rparr>"

definition a0912_demo_joint_state_broadcaster_spawner :: ros_node where
  "a0912_demo_joint_state_broadcaster_spawner =
     (plain_node ''controller_manager'' ''spawner'')
      \<lparr>node_arguments := [Text ''joint_state_broadcaster'', Text ''--controller-manager'',
      Text ''/controller_manager'']\<rparr>"

definition a0912_demo_dsr_moveit_controller_spawner :: ros_node where
  "a0912_demo_dsr_moveit_controller_spawner =
     (plain_node ''controller_manager'' ''spawner'')
      \<lparr>node_arguments := [Text ''dsr_moveit_controller'', Text ''--controller-manager'',
      Text ''/controller_manager'']\<rparr>"

definition a0912_demo_robot_controller_spawner :: ros_node where
  "a0912_demo_robot_controller_spawner =
     (plain_node ''controller_manager'' ''spawner'')
      \<lparr>node_arguments := [Text ''dsr_controller2'', Text ''-c'',
      Text ''/controller_manager'']\<rparr>"

definition a0912_demo :: "build \<Rightarrow> action list" where
  "a0912_demo B =
     a0912_demo_ARGUMENTS @ [a0912_demo_db_arg,
      Node (a0912_demo_rviz_node B),
      Node a0912_demo_static_tf,
      Node a0912_demo_robot_state_publisher,
      Node a0912_demo_run_move_group_node,
      Node (a0912_demo_ros2_control_node B),
      Node a0912_demo_joint_state_broadcaster_spawner,
      Node a0912_demo_dsr_moveit_controller_spawner]"

section \<open>demo.launch.py of dsr_moveit_config_e0509\<close>

definition e0509_demo_ARGUMENTS :: "action list" where
  "e0509_demo_ARGUMENTS =
     [DeclareLaunchArgument ''name'' '''',
      DeclareLaunchArgument ''host'' ''192.168.137.100'',
      DeclareLaunchArgument ''port'' ''12345'',
      DeclareLaunchArgument ''mode'' ''real'',
      DeclareLaunchArgument ''model'' ''e0509'',
      DeclareLaunchArgument ''color'' ''white'',
      DeclareLaunchArgument ''gz'' ''false'']"

definition e0509_demo_db_arg :: action where
  "e0509_demo_db_arg = DeclareLaunchArgument ''db'' ''False''"

definition e0509_demo_moveit_config :: moveit_config where
  "e0509_demo_moveit_config =
     \<lparr>mc_robot = ''e0509'', mc_package = None,
      mc_urdf = ''config/e0509.urdf.xacro'',
      mc_srdf = ''config/dsr.srdf'',
      mc_controllers = ''config/moveit_controllers.yaml'',
      mc_pipelines = None\<rparr>"

definition e0509_demo_run_move_group_node :: ros_node where
  "e0509_demo_run_move_group_node =
     (plain_node ''moveit_ros_move_group'' ''move_group'')
      \<lparr>node_parameters := [ParamMoveIt e0509_demo_moveit_config WholeConfig],
       node_output := Some ''screen''\<rparr>"

definition e0509_demo_rviz_base :: "build \<Rightarrow> string" where
  "e0509_demo_rviz_base B = path_join (share B ''dsr_moveit_config_e0509'') [''launch'']"

definition e0509_demo_rviz_full_config :: "build \<Rightarrow> string" where
  "e0509_demo_rviz_full_config B = path_join (e0509_demo_rviz_base B) [''moveit.rviz'']"

definition e0509_demo_rviz_node :: "build \<Rightarrow> ros_node" where
  "e0509_demo_rviz_node B =
     (plain_node ''rviz2'' ''rviz2'')
      \<lparr>node_name := Some ''rviz2'',
       node_arguments := [Text ''-d'', Text (e0509_demo_rviz_full_config B)],
       node_parameters := [ParamMoveIt e0509_demo_moveit_config RobotDescription,
        ParamMoveIt e0509_demo_moveit_config RobotSemantic,
        ParamMoveIt e0509_demo_moveit_config PlanningPipelines,
        ParamMoveIt e0509_demo_moveit_config RobotKinematics],
       node_output := Some ''log''\<rparr>"

definition e0509_demo_static_tf :: ros_node where
  "e0509_demo_static_tf =
     (plain_node ''tf2_ros'' ''static_transform_publisher'')
      \<lparr>node_name := Some ''static_transform_publisher'',
       node_arguments := [Text ''0.0'', Text ''0.0'', Text ''0.0'', Text ''0.0'', Text ''0.0'',
       Text ''0.0'', Text ''world'', Text ''base_link''],
       node_output := Some ''log''\<rparr>"

definition e0509_demo_robot_state_publisher :: ros_node where
  "e0509_demo_robot_state_publisher =
     (plain_node ''robot_state_publisher'' ''robot_state_publisher'')
      \<lparr>node_name := Some ''robot_state_publisher'',
       node_parameters := [ParamMoveIt e0509_demo_moveit_config RobotDescription],
       node_remappings := [(''/joint_states'', ''/dsr01/joint_states'')],
       node_output := Some ''both''\<rparr>"

definition e0509_demo_ros2_controllers_path :: "build \<Rightarrow> string" where
  "e0509_demo_ros2_controllers_path B =
     path_join (share B ''dsr_moveit_config_e0509'') [''config'', ''ros2_controllers.yaml'']"

definition e0509_demo_robot_description_content :: subst where
  "e0509_demo_robot_description_content =
     Command [PathJoin [FindExecutable ''xacro''], Text '' '',
      PathJoin [FindPackageShare ''dsr_description2'', Text ''xacro'',
      LaunchConfiguration ''model''], Text ''.urdf.xacro'']"

definition e0509_demo_robot_description :: "(string \<times> pvalue) list" where
  "e0509_demo_robot_description =
     [(''robot_description'', PvSubst e0509_demo_robot_description_content)]"

definition e0509_demo_ros2_control_node :: "build \<Rightarrow> ros_node" where
  "e0509_demo_ros2_control_node B =
     (plain_node ''controller_manager'' ''ros2_control_node'')
      \<lparr>node_parameters := [ParamFile [Text (e0509_demo_ros2_controllers_path B)]],
       node_remappings := [(''/controller_manager/robot_description'', ''/robot_description'')],
       node_output := Some ''both''\<rparr>"

definition e0509_demo_joint_state_broadcaster_spawner :: ros_node where
  "e0509_demo_joint_state_broadcaster_spawner =
     (plain_node ''controller_manager'' ''spawner'')
      \<lparr>node_arguments := [Text ''joint_state_broadcaster'', Text ''--controller-manager'',
      Text ''/controller_manager'']\<rparr>"

definition e0509_demo_dsr_moveit_controller_spawner :: ros_node where
  "e0509_demo_dsr_moveit_controller_spawner =
     (plain_node ''controller_manager'' ''spawner'')
      \<lparr>node_arguments := [Text ''dsr_moveit_controller'', Text ''--controller-manager'',
      Text ''/controller_manager'']\<rparr>"

definition e0509_demo_robot_controller_spawner :: ros_node where
  "e0509_demo_robot_controller_spawner =
     (plain_node ''controller_manager'' ''spawner'')
      \<lparr>node_arguments := [Text ''dsr_controller2'', Text ''-c'',
      Text ''/controller_manager'']\<rparr>"

definition e0509_demo :: "build \<Rightarrow> action list" where
  "e0509_demo B =
     e0509_demo_ARGUMENTS @ [e0509_demo_db_arg,
      Node (e0509_demo_rviz_node B),
      Node e0509_demo_static_tf,
      Node e0509_demo_robot_state_publisher,
      Node e0509_demo_run_move_group_node,
      Node (e0509_demo_ros2_control_node B),
      Node e0509_demo_joint_state_broadcaster_spawner,
      Node e0509_demo_dsr_moveit_controller_spawner]"

section \<open>demo.launch.py of dsr_moveit_config_h2017\<close>

definition h2017_demo_ARGUMENTS :: "action list" where
  "h2017_demo_ARGUMENTS =
     [DeclareLaunchArgument ''name'' '''',
      DeclareLaunchArgument ''host'' ''192.168.137.100'',
      DeclareLaunchArgument ''port'' ''12345'',
      DeclareLaunchArgument ''mode'' ''real'',
      DeclareLaunchArgument ''model'' ''h2017'',
      DeclareLaunchArgument ''color'' ''white'',
      DeclareLaunchArgument ''gz'' ''false'']"

definition h2017_demo_db_arg :: action where
  "h2017_demo_db_arg = DeclareLaunchArgument ''db'' ''False''"

definition h2017_demo_moveit_config :: moveit_config where
  "h2017_demo_moveit_config =
     \<lparr>mc_robot = ''h2017'', mc_package = None,
      mc_urdf = ''config/h2017.urdf.xacro'',
      mc_srdf = ''config/dsr.srdf'',
      mc_controllers = ''config/moveit_controllers.yaml'',
      mc_pipelines = None\<rparr>"

definition h2017_demo_run_move_group_node :: ros_node where
  "h2017_demo_run_move_group_node =
     (plain_node ''moveit_ros_move_group'' ''move_group'')
      \<lparr>node_parameters := [ParamMoveIt h2017_demo_moveit_config WholeConfig],
       node_output := Some ''screen''\<rparr>"

definition h2017_demo_rviz_base :: "build \<Rightarrow> string" where
  "h2017_demo_rviz_base B = path_join (share B ''dsr_moveit_config_h2017'') [''launch'']"

definition h2017_demo_rviz_full_config :: "build \<Rightarrow> string" where
  "h2017_demo_rviz_full_config B = path_join (h2017_demo_rviz_base B) [''moveit.rviz'']"

definition h2017_demo_rviz_node :: "build \<Rightarrow> ros_node" where
  "h2017_demo_rviz_node B =
     (plain_node ''rviz2'' ''rviz2'')
      \<lparr>node_name := Some ''rviz2'',
       node_arguments := [Text ''-d'', Text (h2017_demo_rviz_full_config B)],
       node_parameters := [ParamMoveIt h2017_demo_moveit_config RobotDescription,
        ParamMoveIt h2017_demo_moveit_config RobotSemantic,
        ParamMoveIt h2017_demo_moveit_config PlanningPipelines,
        ParamMoveIt h2017_demo_moveit_config RobotKinematics],
       node_output := Some ''log''\<rparr>"

definition h2017_demo_static_tf :: ros_node where
  "h2017_demo_static_tf =
     (plain_node ''tf2_ros'' ''static_transform_publisher'')
      \<lparr>node_name := Some ''static_transform_publisher'',
       node_arguments := [Text ''0.0'', Text ''0.0'', Text ''0.0'', Text ''0.0'', Text ''0.0'',
       Text ''0.0'', Text ''world'', Text ''base_link''],
       node_output := Some ''log''\<rparr>"

definition h2017_demo_robot_state_publisher :: ros_node where
  "h2017_demo_robot_state_publisher =
     (plain_node ''robot_state_publisher'' ''robot_state_publisher'')
      \<lparr>node_name := Some ''robot_state_publisher'',
       node_parameters := [ParamMoveIt h2017_demo_moveit_config RobotDescription],
       node_remappings := [(''/joint_states'', ''/dsr01/joint_states'')],
       node_output := Some ''both''\<rparr>"

definition h2017_demo_ros2_controllers_path :: "build \<Rightarrow> string" where
  "h2017_demo_ros2_controllers_path B =
     path_join (share B ''dsr_moveit_config_h2017'') [''config'', ''ros2_controllers.yaml'']"

definition h2017_demo_robot_description_content :: subst where
  "h2017_demo_robot_description_content =
     Command [PathJoin [FindExecutable ''xacro''], Text '' '',
      PathJoin [FindPackageShare ''dsr_description2'', Text ''xacro'',
      LaunchConfiguration ''model''], Text ''.urdf.xacro'']"

definition h2017_demo_robot_description :: "(string \<times> pvalue) list" where
  "h2017_demo_robot_description =
     [(''robot_description'', PvSubst h2017_demo_robot_description_content)]"

definition h2017_demo_ros2_control_node :: "build \<Rightarrow> ros_node" where
  "h2017_demo_ros2_control_node B =
     (plain_node ''controller_manager'' ''ros2_control_node'')
      \<lparr>node_parameters := [ParamFile [Text (h2017_demo_ros2_controllers_path B)]],
       node_remappings := [(''/controller_manager/robot_description'', ''/robot_description'')],
       node_output := Some ''both''\<rparr>"

definition h2017_demo_joint_state_broadcaster_spawner :: ros_node where
  "h2017_demo_joint_state_broadcaster_spawner =
     (plain_node ''controller_manager'' ''spawner'')
      \<lparr>node_arguments := [Text ''joint_state_broadcaster'', Text ''--controller-manager'',
      Text ''/controller_manager'']\<rparr>"

definition h2017_demo_dsr_moveit_controller_spawner :: ros_node where
  "h2017_demo_dsr_moveit_controller_spawner =
     (plain_node ''controller_manager'' ''spawner'')
      \<lparr>node_arguments := [Text ''dsr_moveit_controller'', Text ''--controller-manager'',
      Text ''/controller_manager'']\<rparr>"

definition h2017_demo_robot_controller_spawner :: ros_node where
  "h2017_demo_robot_controller_spawner =
     (plain_node ''controller_manager'' ''spawner'')
      \<lparr>node_arguments := [Text ''dsr_controller2'', Text ''-c'',
      Text ''/controller_manager'']\<rparr>"

definition h2017_demo :: "build \<Rightarrow> action list" where
  "h2017_demo B =
     h2017_demo_ARGUMENTS @ [h2017_demo_db_arg,
      Node (h2017_demo_rviz_node B),
      Node h2017_demo_static_tf,
      Node h2017_demo_robot_state_publisher,
      Node h2017_demo_run_move_group_node,
      Node (h2017_demo_ros2_control_node B),
      Node h2017_demo_joint_state_broadcaster_spawner,
      Node h2017_demo_dsr_moveit_controller_spawner]"

section \<open>demo.launch.py of dsr_moveit_config_h2515\<close>

definition h2515_demo_ARGUMENTS :: "action list" where
  "h2515_demo_ARGUMENTS =
     [DeclareLaunchArgument ''name'' '''',
      DeclareLaunchArgument ''host'' ''192.168.137.100'',
      DeclareLaunchArgument ''port'' ''12345'',
      DeclareLaunchArgument ''mode'' ''real'',
      DeclareLaunchArgument ''model'' ''h2515'',
      DeclareLaunchArgument ''color'' ''white'',
      DeclareLaunchArgument ''gz'' ''false'']"

definition h2515_demo_db_arg :: action where
  "h2515_demo_db_arg = DeclareLaunchArgument ''db'' ''False''"

definition h2515_demo_moveit_config :: moveit_config where
  "h2515_demo_moveit_config =
     \<lparr>mc_robot = ''h2515'', mc_package = None,
      mc_urdf = ''config/h2515.urdf.xacro'',
      mc_srdf = ''config/dsr.srdf'',
      mc_controllers = ''config/moveit_controllers.yaml'',
      mc_pipelines = None\<rparr>"

definition h2515_demo_run_move_group_node :: ros_node where
  "h2515_demo_run_move_group_node =
     (plain_node ''moveit_ros_move_group'' ''move_group'')
      \<lparr>node_parameters := [ParamMoveIt h2515_demo_moveit_config WholeConfig],
       node_output := Some ''screen''\<rparr>"

definition h2515_demo_rviz_base :: "build \<Rightarrow> string" where
  "h2515_demo_rviz_base B = path_join (share B ''dsr_moveit_config_h2515'') [''launch'']"

definition h2515_demo_rviz_full_config :: "build \<Rightarrow> string" where
  "h2515_demo_rviz_full_config B = path_join (h2515_demo_rviz_base B) [''moveit.rviz'']"

definition h2515_demo_rviz_node :: "build \<Rightarrow> ros_node" where
  "h2515_demo_rviz_node B =
     (plain_node ''rviz2'' ''rviz2'')
      \<lparr>node_name := Some ''rviz2'',
       node_arguments := [Text ''-d'', Text (h2515_demo_rviz_full_config B)],
       node_parameters := [ParamMoveIt h2515_demo_moveit_config RobotDescription,
        ParamMoveIt h2515_demo_moveit_config RobotSemantic,
        ParamMoveIt h2515_demo_moveit_config PlanningPipelines,
        ParamMoveIt h2515_demo_moveit_config RobotKinematics],
       node_output := Some ''log''\<rparr>"

definition h2515_demo_static_tf :: ros_node where
  "h2515_demo_static_tf =
     (plain_node ''tf2_ros'' ''static_transform_publisher'')
      \<lparr>node_name := Some ''static_transform_publisher'',
       node_arguments := [Text ''0.0'', Text ''0.0'', Text ''0.0'', Text ''0.0'', Text ''0.0'',
       Text ''0.0'', Text ''world'', Text ''base_link''],
       node_output := Some ''log''\<rparr>"

definition h2515_demo_robot_state_publisher :: ros_node where
  "h2515_demo_robot_state_publisher =
     (plain_node ''robot_state_publisher'' ''robot_state_publisher'')
      \<lparr>node_name := Some ''robot_state_publisher'',
       node_parameters := [ParamMoveIt h2515_demo_moveit_config RobotDescription],
       node_remappings := [(''/joint_states'', ''/dsr01/joint_states'')],
       node_output := Some ''both''\<rparr>"

definition h2515_demo_ros2_controllers_path :: "build \<Rightarrow> string" where
  "h2515_demo_ros2_controllers_path B =
     path_join (share B ''dsr_moveit_config_h2515'') [''config'', ''ros2_controllers.yaml'']"

definition h2515_demo_robot_description_content :: subst where
  "h2515_demo_robot_description_content =
     Command [PathJoin [FindExecutable ''xacro''], Text '' '',
      PathJoin [FindPackageShare ''dsr_description2'', Text ''xacro'',
      LaunchConfiguration ''model''], Text ''.urdf.xacro'']"

definition h2515_demo_robot_description :: "(string \<times> pvalue) list" where
  "h2515_demo_robot_description =
     [(''robot_description'', PvSubst h2515_demo_robot_description_content)]"

definition h2515_demo_ros2_control_node :: "build \<Rightarrow> ros_node" where
  "h2515_demo_ros2_control_node B =
     (plain_node ''controller_manager'' ''ros2_control_node'')
      \<lparr>node_parameters := [ParamFile [Text (h2515_demo_ros2_controllers_path B)]],
       node_remappings := [(''/controller_manager/robot_description'', ''/robot_description'')],
       node_output := Some ''both''\<rparr>"

definition h2515_demo_joint_state_broadcaster_spawner :: ros_node where
  "h2515_demo_joint_state_broadcaster_spawner =
     (plain_node ''controller_manager'' ''spawner'')
      \<lparr>node_arguments := [Text ''joint_state_broadcaster'', Text ''--controller-manager'',
      Text ''/controller_manager'']\<rparr>"

definition h2515_demo_dsr_moveit_controller_spawner :: ros_node where
  "h2515_demo_dsr_moveit_controller_spawner =
     (plain_node ''controller_manager'' ''spawner'')
      \<lparr>node_arguments := [Text ''dsr_moveit_controller'', Text ''--controller-manager'',
      Text ''/controller_manager'']\<rparr>"

definition h2515_demo_robot_controller_spawner :: ros_node where
  "h2515_demo_robot_controller_spawner =
     (plain_node ''controller_manager'' ''spawner'')
      \<lparr>node_arguments := [Text ''dsr_controller2'', Text ''-c'',
      Text ''/controller_manager'']\<rparr>"

definition h2515_demo :: "build \<Rightarrow> action list" where
  "h2515_demo B =
     h2515_demo_ARGUMENTS @ [h2515_demo_db_arg,
      Node (h2515_demo_rviz_node B),
      Node h2515_demo_static_tf,
      Node h2515_demo_robot_state_publisher,
      Node h2515_demo_run_move_group_node,
      Node (h2515_demo_ros2_control_node B),
      Node h2515_demo_joint_state_broadcaster_spawner,
      Node h2515_demo_dsr_moveit_controller_spawner]"

section \<open>demo.launch.py of dsr_moveit_config_m0609\<close>

definition m0609_demo_ARGUMENTS :: "action list" where
  "m0609_demo_ARGUMENTS =
     [DeclareLaunchArgument ''name'' '''',
      DeclareLaunchArgument ''host'' ''192.168.137.100'',
      DeclareLaunchArgument ''port'' ''12345'',
      DeclareLaunchArgument ''mode'' ''real'',
      DeclareLaunchArgument ''model'' ''m0609'',
      DeclareLaunchArgument ''color'' ''white'',
      DeclareLaunchArgument ''gz'' ''false'']"

definition m0609_demo_db_arg :: action where
  "m0609_demo_db_arg = DeclareLaunchArgument ''db'' ''False''"

definition m0609_demo_moveit_config :: moveit_config where
  "m0609_demo_moveit_config =
     \<lparr>mc_robot = ''m0609'', mc_package = None,
      mc_urdf = ''config/m0609.urdf.xacro'',
      mc_srdf = ''config/dsr.srdf'',
      mc_controllers = ''config/moveit_controllers.yaml'',
      mc_pipelines = None\<rparr>"

definition m0609_demo_run_move_group_node :: ros_node where
  "m0609_demo_run_move_group_node =
     (plain_node ''moveit_ros_move_group'' ''move_group'')
      \<lparr>node_parameters := [ParamMoveIt m0609_demo_moveit_config WholeConfig],
       node_output := Some ''screen''\<rparr>"

definition m0609_demo_rviz_base :: "build \<Rightarrow> string" where
  "m0609_demo_rviz_base B = path_join (share B ''dsr_moveit_config_m0609'') [''launch'']"

definition m0609_demo_rviz_full_config :: "build \<Rightarrow> string" where
  "m0609_demo_rviz_full_config B = path_join (m0609_demo_rviz_base B) [''moveit.rviz'']"

definition m0609_demo_rviz_node :: "build \<Rightarrow> ros_node" where
  "m0609_demo_rviz_node B =
     (plain_node ''rviz2'' ''rviz2'')
      \<lparr>node_name := Some ''rviz2'',
       node_arguments := [Text ''-d'', Text (m0609_demo_rviz_full_config B)],
       node_parameters := [ParamMoveIt m0609_demo_moveit_config RobotDescription,
        ParamMoveIt m0609_demo_moveit_config RobotSemantic,
        ParamMoveIt m0609_demo_moveit_config PlanningPipelines,
        ParamMoveIt m0609_demo_moveit_config RobotKinematics],
       node_output := Some ''log''\<rparr>"

definition m0609_demo_static_tf :: ros_node where
  "m0609_demo_static_tf =
     (plain_node ''tf2_ros'' ''static_transform_publisher'')
      \<lparr>node_name := Some ''static_transform_publisher'',
       node_arguments := [Text ''0.0'', Text ''0.0'', Text ''0.0'', Text ''0.0'', Text ''0.0'',
       Text ''0.0'', Text ''world'', Text ''base_link''],
       node_output := Some ''log''\<rparr>"

definition m0609_demo_robot_state_publisher :: ros_node where
  "m0609_demo_robot_state_publisher =
     (plain_node ''robot_state_publisher'' ''robot_state_publisher'')
      \<lparr>node_name := Some ''robot_state_publisher'',
       node_parameters := [ParamMoveIt m0609_demo_moveit_config RobotDescription],
       node_remappings := [(''/joint_states'', ''/dsr01/joint_states'')],
       node_output := Some ''both''\<rparr>"

definition m0609_demo_ros2_controllers_path :: "build \<Rightarrow> string" where
  "m0609_demo_ros2_controllers_path B =
     path_join (share B ''dsr_moveit_config_m0609'') [''config'', ''ros2_controllers.yaml'']"

definition m0609_demo_robot_description_content :: subst where
  "m0609_demo_robot_description_content =
     Command [PathJoin [FindExecutable ''xacro''], Text '' '',
      PathJoin [FindPackageShare ''dsr_description2'', Text ''xacro'',
      LaunchConfiguration ''model''], Text ''.urdf.xacro'']"

definition m0609_demo_robot_description :: "(string \<times> pvalue) list" where
  "m0609_demo_robot_description =
     [(''robot_description'', PvSubst m0609_demo_robot_description_content)]"

definition m0609_demo_ros2_control_node :: "build \<Rightarrow> ros_node" where
  "m0609_demo_ros2_control_node B =
     (plain_node ''controller_manager'' ''ros2_control_node'')
      \<lparr>node_parameters := [ParamFile [Text (m0609_demo_ros2_controllers_path B)]],
       node_remappings := [(''/controller_manager/robot_description'', ''/robot_description'')],
       node_output := Some ''both''\<rparr>"

definition m0609_demo_joint_state_broadcaster_spawner :: ros_node where
  "m0609_demo_joint_state_broadcaster_spawner =
     (plain_node ''controller_manager'' ''spawner'')
      \<lparr>node_arguments := [Text ''joint_state_broadcaster'', Text ''--controller-manager'',
      Text ''/controller_manager'']\<rparr>"

definition m0609_demo_dsr_moveit_controller_spawner :: ros_node where
  "m0609_demo_dsr_moveit_controller_spawner =
     (plain_node ''controller_manager'' ''spawner'')
      \<lparr>node_arguments := [Text ''dsr_moveit_controller'', Text ''--controller-manager'',
      Text ''/controller_manager'']\<rparr>"

definition m0609_demo_robot_controller_spawner :: ros_node where
  "m0609_demo_robot_controller_spawner =
     (plain_node ''controller_manager'' ''spawner'')
      \<lparr>node_arguments := [Text ''dsr_controller2'', Text ''-c'',
      Text ''/controller_manager'']\<rparr>"

definition m0609_demo :: "build \<Rightarrow> action list" where
  "m0609_demo B =
     m0609_demo_ARGUMENTS @ [m0609_demo_db_arg,
      Node (m0609_demo_rviz_node B),
      Node m0609_demo_static_tf,
      Node m0609_demo_robot_state_publisher,
      Node m0609_demo_run_move_group_node,
      Node (m0609_demo_ros2_control_node B),
      Node m0609_demo_joint_state_broadcaster_spawner,
      Node m0609_demo_dsr_moveit_controller_spawner]"

section \<open>demo.launch.py of dsr_moveit_config_m0617\<close>

definition m0617_demo_ARGUMENTS :: "action list" where
  "m0617_demo_ARGUMENTS =
     [DeclareLaunchArgument ''name'' '''',
      DeclareLaunchArgument ''host'' ''192.168.137.100'',
      DeclareLaunchArgument ''port'' ''12345'',
      DeclareLaunchArgument ''mode'' ''real'',
      DeclareLaunchArgument ''model'' ''m0617'',
      DeclareLaunchArgument ''color'' ''white'',
      DeclareLaunchArgument ''gz'' ''false'']"

definition m0617_demo_db_arg :: action where
  "m0617_demo_db_arg = DeclareLaunchArgument ''db'' ''False''"

definition m0617_demo_moveit_config :: moveit_config where
  "m0617_demo_moveit_config =
     \<lparr>mc_robot = ''m0617'', mc_package = None,
      mc_urdf = ''config/m0617.urdf.xacro'',
      mc_srdf = ''config/dsr.srdf'',
      mc_controllers = ''config/moveit_controllers.yaml'',
      mc_pipelines = None\<rparr>"

definition m0617_demo_run_move_group_node :: ros_node where
  "m0617_demo_run_move_group_node =
     (plain_node ''moveit_ros_move_group'' ''move_group'')
      \<lparr>node_parameters := [ParamMoveIt m0617_demo_moveit_config WholeConfig],
       node_output := Some ''screen''\<rparr>"

definition m0617_demo_rviz_base :: "build \<Rightarrow> string" where
  "m0617_demo_rviz_base B = path_join (share B ''dsr_moveit_config_m0617'') [''launch'']"

definition m0617_demo_rviz_full_config :: "build \<Rightarrow> string" where
  "m0617_demo_rviz_full_config B = path_join (m0617_demo_rviz_base B) [''moveit.rviz'']"

definition m0617_demo_rviz_node :: "build \<Rightarrow> ros_node" where
  "m0617_demo_rviz_node B =
     (plain_node ''rviz2'' ''rviz2'')
      \<lparr>node_name := Some ''rviz2'',
       node_arguments := [Text ''-d'', Text (m0617_demo_rviz_full_config B)],
       node_parameters := [ParamMoveIt m0617_demo_moveit_config RobotDescription,
        ParamMoveIt m0617_demo_moveit_config RobotSemantic,
        ParamMoveIt m0617_demo_moveit_config PlanningPipelines,
        ParamMoveIt m0617_demo_moveit_config RobotKinematics],
       node_output := Some ''log''\<rparr>"

definition m0617_demo_static_tf :: ros_node where
  "m0617_demo_static_tf =
     (plain_node ''tf2_ros'' ''static_transform_publisher'')
      \<lparr>node_name := Some ''static_transform_publisher'',
       node_arguments := [Text ''0.0'', Text ''0.0'', Text ''0.0'', Text ''0.0'', Text ''0.0'',
       Text ''0.0'', Text ''world'', Text ''base_link''],
       node_output := Some ''log''\<rparr>"

definition m0617_demo_robot_state_publisher :: ros_node where
  "m0617_demo_robot_state_publisher =
     (plain_node ''robot_state_publisher'' ''robot_state_publisher'')
      \<lparr>node_name := Some ''robot_state_publisher'',
       node_parameters := [ParamMoveIt m0617_demo_moveit_config RobotDescription],
       node_remappings := [(''/joint_states'', ''/dsr01/joint_states'')],
       node_output := Some ''both''\<rparr>"

definition m0617_demo_ros2_controllers_path :: "build \<Rightarrow> string" where
  "m0617_demo_ros2_controllers_path B =
     path_join (share B ''dsr_moveit_config_m0617'') [''config'', ''ros2_controllers.yaml'']"

definition m0617_demo_robot_description_content :: subst where
  "m0617_demo_robot_description_content =
     Command [PathJoin [FindExecutable ''xacro''], Text '' '',
      PathJoin [FindPackageShare ''dsr_description2'', Text ''xacro'',
      LaunchConfiguration ''model''], Text ''.urdf.xacro'']"

definition m0617_demo_robot_description :: "(string \<times> pvalue) list" where
  "m0617_demo_robot_description =
     [(''robot_description'', PvSubst m0617_demo_robot_description_content)]"

definition m0617_demo_ros2_control_node :: "build \<Rightarrow> ros_node" where
  "m0617_demo_ros2_control_node B =
     (plain_node ''controller_manager'' ''ros2_control_node'')
      \<lparr>node_parameters := [ParamFile [Text (m0617_demo_ros2_controllers_path B)]],
       node_remappings := [(''/controller_manager/robot_description'', ''/robot_description'')],
       node_output := Some ''both''\<rparr>"

definition m0617_demo_joint_state_broadcaster_spawner :: ros_node where
  "m0617_demo_joint_state_broadcaster_spawner =
     (plain_node ''controller_manager'' ''spawner'')
      \<lparr>node_arguments := [Text ''joint_state_broadcaster'', Text ''--controller-manager'',
      Text ''/controller_manager'']\<rparr>"

definition m0617_demo_dsr_moveit_controller_spawner :: ros_node where
  "m0617_demo_dsr_moveit_controller_spawner =
     (plain_node ''controller_manager'' ''spawner'')
      \<lparr>node_arguments := [Text ''dsr_moveit_controller'', Text ''--controller-manager'',
      Text ''/controller_manager'']\<rparr>"

definition m0617_demo_robot_controller_spawner :: ros_node where
  "m0617_demo_robot_controller_spawner =
     (plain_node ''controller_manager'' ''spawner'')
      \<lparr>node_arguments := [Text ''dsr_controller2'', Text ''-c'',
      Text ''/controller_manager'']\<rparr>"

definition m0617_demo :: "build \<Rightarrow> action list" where
  "m0617_demo B =
     m0617_demo_ARGUMENTS @ [m0617_demo_db_arg,
      Node (m0617_demo_rviz_node B),
      Node m0617_demo_static_tf,
      Node m0617_demo_robot_state_publisher,
      Node m0617_demo_run_move_group_node,
      Node (m0617_demo_ros2_control_node B),
      Node m0617_demo_joint_state_broadcaster_spawner,
      Node m0617_demo_dsr_moveit_controller_spawner]"

section \<open>demo.launch.py of dsr_moveit_config_m1013\<close>

definition m1013_demo_ARGUMENTS :: "action list" where
  "m1013_demo_ARGUMENTS =
     [DeclareLaunchArgument ''name'' '''',
      DeclareLaunchArgument ''host'' ''192.168.137.100'',
      DeclareLaunchArgument ''port'' ''12345'',
      DeclareLaunchArgument ''mode'' ''real'',
      DeclareLaunchArgument ''model'' ''m1013'',
      DeclareLaunchArgument ''color'' ''white'',
      DeclareLaunchArgument ''gz'' ''false'']"

definition m1013_demo_db_arg :: action where
  "m1013_demo_db_arg = DeclareLaunchArgument ''db'' ''False''"

definition m1013_demo_moveit_config :: moveit_config where
  "m1013_demo_moveit_config =
     \<lparr>mc_robot = ''m1013'', mc_package = None,
      mc_urdf = ''config/m1013.urdf.xacro'',
      mc_srdf = ''config/dsr.srdf'',
      mc_controllers = ''config/moveit_controllers.yaml'',
      mc_pipelines = None\<rparr>"

definition m1013_demo_run_move_group_node :: ros_node where
  "m1013_demo_run_move_group_node =
     (plain_node ''moveit_ros_move_group'' ''move_group'')
      \<lparr>node_parameters := [ParamMoveIt m1013_demo_moveit_config WholeConfig],
       node_output := Some ''screen''\<rparr>"

definition m1013_demo_rviz_base :: "build \<Rightarrow> string" where
  "m1013_demo_rviz_base B = path_join (share B ''dsr_moveit_config_m1013'') [''launch'']"

definition m1013_demo_rviz_full_config :: "build \<Rightarrow> string" where
  "m1013_demo_rviz_full_config B = path_join (m1013_demo_rviz_base B) [''moveit.rviz'']"

definition m1013_demo_rviz_node :: "build \<Rightarrow> ros_node" where
  "m1013_demo_rviz_node B =
     (plain_node ''rviz2'' ''rviz2'')
      \<lparr>node_name := Some ''rviz2'',
       node_arguments := [Text ''-d'', Text (m1013_demo_rviz_full_config B)],
       node_parameters := [ParamMoveIt m1013_demo_moveit_config RobotDescription,
        ParamMoveIt m1013_demo_moveit_config RobotSemantic,
        ParamMoveIt m1013_demo_moveit_config PlanningPipelines,
        ParamMoveIt m1013_demo_moveit_config RobotKinematics],
       node_output := Some ''log''\<rparr>"

definition m1013_demo_static_tf :: ros_node where
  "m1013_demo_static_tf =
     (plain_node ''tf2_ros'' ''static_transform_publisher'')
      \<lparr>node_name := Some ''static_transform_publisher'',
       node_arguments := [Text ''0.0'', Text ''0.0'', Text ''0.0'', Text ''0.0'', Text ''0.0'',
       Text ''0.0'', Text ''world'', Text ''base_link''],
       node_output := Some ''log''\<rparr>"

definition m1013_demo_robot_state_publisher :: ros_node where
  "m1013_demo_robot_state_publisher =
     (plain_node ''robot_state_publisher'' ''robot_state_publisher'')
      \<lparr>node_name := Some ''robot_state_publisher'',
       node_parameters := [ParamMoveIt m1013_demo_moveit_config RobotDescription],
       node_remappings := [(''/joint_states'', ''/dsr01/joint_states'')],
       node_output := Some ''both''\<rparr>"

definition m1013_demo_ros2_controllers_path :: "build \<Rightarrow> string" where
  "m1013_demo_ros2_controllers_path B =
     path_join (share B ''dsr_moveit_config_m1013'') [''config'', ''ros2_controllers.yaml'']"

definition m1013_demo_robot_description_content :: subst where
  "m1013_demo_robot_description_content =
     Command [PathJoin [FindExecutable ''xacro''], Text '' '',
      PathJoin [FindPackageShare ''dsr_description2'', Text ''xacro'',
      LaunchConfiguration ''model''], Text ''.urdf.xacro'']"

definition m1013_demo_robot_description :: "(string \<times> pvalue) list" where
  "m1013_demo_robot_description =
     [(''robot_description'', PvSubst m1013_demo_robot_description_content)]"

definition m1013_demo_ros2_control_node :: "build \<Rightarrow> ros_node" where
  "m1013_demo_ros2_control_node B =
     (plain_node ''controller_manager'' ''ros2_control_node'')
      \<lparr>node_parameters := [ParamFile [Text (m1013_demo_ros2_controllers_path B)]],
       node_remappings := [(''/controller_manager/robot_description'', ''/robot_description'')],
       node_output := Some ''both''\<rparr>"

definition m1013_demo_joint_state_broadcaster_spawner :: ros_node where
  "m1013_demo_joint_state_broadcaster_spawner =
     (plain_node ''controller_manager'' ''spawner'')
      \<lparr>node_arguments := [Text ''joint_state_broadcaster'', Text ''--controller-manager'',
      Text ''/controller_manager'']\<rparr>"

definition m1013_demo_dsr_moveit_controller_spawner :: ros_node where
  "m1013_demo_dsr_moveit_controller_spawner =
     (plain_node ''controller_manager'' ''spawner'')
      \<lparr>node_arguments := [Text ''dsr_moveit_controller'', Text ''--controller-manager'',
      Text ''/controller_manager'']\<rparr>"

definition m1013_demo_robot_controller_spawner :: ros_node where
  "m1013_demo_robot_controller_spawner =
     (plain_node ''controller_manager'' ''spawner'')
      \<lparr>node_arguments := [Text ''dsr_controller2'', Text ''-c'',
      Text ''/controller_manager'']\<rparr>"

definition m1013_demo :: "build \<Rightarrow> action list" where
  "m1013_demo B =
     m1013_demo_ARGUMENTS @ [m1013_demo_db_arg,
      Node (m1013_demo_rviz_node B),
      Node m1013_demo_static_tf,
      Node m1013_demo_robot_state_publisher,
      Node m1013_demo_run_move_group_node,
      Node (m1013_demo_ros2_control_node B),
      Node m1013_demo_joint_state_broadcaster_spawner,
      Node m1013_demo_dsr_moveit_controller_spawner]"

section \<open>demo.launch.py of dsr_moveit_config_m1509\<close>

definition m1509_demo_ARGUMENTS :: "action list" where
  "m1509_demo_ARGUMENTS =
     [DeclareLaunchArgument ''name'' '''',
      DeclareLaunchArgument ''host'' ''192.168.137.100'',
      DeclareLaunchArgument ''port'' ''12345'',
      DeclareLaunchArgument ''mode'' ''real'',
      DeclareLaunchArgument ''model'' ''m1509'',
      DeclareLaunchArgument ''color'' ''white'',
      DeclareLaunchArgument ''gz'' ''false'']"

definition m1509_demo_db_arg :: action where
  "m1509_demo_db_arg = DeclareLaunchArgument ''db'' ''False''"

definition m1509_demo_moveit_config :: moveit_config where
  "m1509_demo_moveit_config =
     \<lparr>mc_robot = ''m1509'', mc_package = None,
      mc_urdf = ''config/m1509.urdf.xacro'',
      mc_srdf = ''config/dsr.srdf'',
      mc_controllers = ''config/moveit_controllers.yaml'',
      mc_pipelines = None\<rparr>"

definition m1509_demo_run_move_group_node :: ros_node where
  "m1509_demo_run_move_group_node =
     (plain_node ''moveit_ros_move_group'' ''move_group'')
      \<lparr>node_parameters := [ParamMoveIt m1509_demo_moveit_config WholeConfig],
       node_output := Some ''screen''\<rparr>"

definition m1509_demo_rviz_base :: "build \<Rightarrow> string" where
  "m1509_demo_rviz_base B = path_join (share B ''dsr_moveit_config_m1509'') [''launch'']"

definition m1509_demo_rviz_full_config :: "build \<Rightarrow> string" where
  "m1509_demo_rviz_full_config B = path_join (m1509_demo_rviz_base B) [''moveit.rviz'']"

definition m1509_demo_rviz_node :: "build \<Rightarrow> ros_node" where
  "m1509_demo_rviz_node B =
     (plain_node ''rviz2'' ''rviz2'')
      \<lparr>node_name := Some ''rviz2'',
       node_arguments := [Text ''-d'', Text (m1509_demo_rviz_full_config B)],
       node_parameters := [ParamMoveIt m1509_demo_moveit_config RobotDescription,
        ParamMoveIt m1509_demo_moveit_config RobotSemantic,
        ParamMoveIt m1509_demo_moveit_config PlanningPipelines,
        ParamMoveIt m1509_demo_moveit_config RobotKinematics],
       node_output := Some ''log''\<rparr>"

definition m1509_demo_static_tf :: ros_node where
  "m1509_demo_static_tf =
     (plain_node ''tf2_ros'' ''static_transform_publisher'')
      \<lparr>node_name := Some ''static_transform_publisher'',
       node_arguments := [Text ''0.0'', Text ''0.0'', Text ''0.0'', Text ''0.0'', Text ''0.0'',
       Text ''0.0'', Text ''world'', Text ''base_link''],
       node_output := Some ''log''\<rparr>"

definition m1509_demo_robot_state_publisher :: ros_node where
  "m1509_demo_robot_state_publisher =
     (plain_node ''robot_state_publisher'' ''robot_state_publisher'')
      \<lparr>node_name := Some ''robot_state_publisher'',
       node_parameters := [ParamMoveIt m1509_demo_moveit_config RobotDescription],
       node_remappings := [(''/joint_states'', ''/dsr01/joint_states'')],
       node_output := Some ''both''\<rparr>"

definition m1509_demo_ros2_controllers_path :: "build \<Rightarrow> string" where
  "m1509_demo_ros2_controllers_path B =
     path_join (share B ''dsr_moveit_config_m1509'') [''config'', ''ros2_controllers.yaml'']"

definition m1509_demo_robot_description_content :: subst where
  "m1509_demo_robot_description_content =
     Command [PathJoin [FindExecutable ''xacro''], Text '' '',
      PathJoin [FindPackageShare ''dsr_description2'', Text ''xacro'',
      LaunchConfiguration ''model''], Text ''.urdf.xacro'']"

definition m1509_demo_robot_description :: "(string \<times> pvalue) list" where
  "m1509_demo_robot_description =
     [(''robot_description'', PvSubst m1509_demo_robot_description_content)]"

definition m1509_demo_ros2_control_node :: "build \<Rightarrow> ros_node" where
  "m1509_demo_ros2_control_node B =
     (plain_node ''controller_manager'' ''ros2_control_node'')
      \<lparr>node_parameters := [ParamFile [Text (m1509_demo_ros2_controllers_path B)]],
       node_remappings := [(''/controller_manager/robot_description'', ''/robot_description'')],
       node_output := Some ''both''\<rparr>"

definition m1509_demo_joint_state_broadcaster_spawner :: ros_node where
  "m1509_demo_joint_state_broadcaster_spawner =
     (plain_node ''controller_manager'' ''spawner'')
      \<lparr>node_arguments := [Text ''joint_state_broadcaster'', Text ''--controller-manager'',
      Text ''/controller_manager'']\<rparr>"

definition m1509_demo_dsr_moveit_controller_spawner :: ros_node where
  "m1509_demo_dsr_moveit_controller_spawner =
     (plain_node ''controller_manager'' ''spawner'')
      \<lparr>node_arguments := [Text ''dsr_moveit_controller'', Text ''--controller-manager'',
      Text ''/controller_manager'']\<rparr>"

definition m1509_demo_robot_controller_spawner :: ros_node where
  "m1509_demo_robot_controller_spawner =
     (plain_node ''controller_manager'' ''spawner'')
      \<lparr>node_arguments := [Text ''dsr_controller2'', Text ''-c'',
      Text ''/controller_manager'']\<rparr>"

definition m1509_demo :: "build \<Rightarrow> action list" where
  "m1509_demo B =
     m1509_demo_ARGUMENTS @ [m1509_demo_db_arg,
      Node (m1509_demo_rviz_node B),
      Node m1509_demo_static_tf,
      Node m1509_demo_robot_state_publisher,
      Node m1509_demo_run_move_group_node,
      Node (m1509_demo_ros2_control_node B),
      Node m1509_demo_joint_state_broadcaster_spawner,
      Node m1509_demo_dsr_moveit_controller_spawner]"

end
