(* ===== verification/MujocoScene.thy ===== *)
theory MujocoScene
  imports PyFloat LaunchModel "HOL-Library.AList" "HOL-Library.Multiset"
begin

text \<open>
  The functions that dsr_mujoco.launch.py calls when it starts: merging the XML of a gripper into
  that of the arm (dsr_merge_gripper.py), building the scene (dsr_build_scene.py) and choosing the
  files. A document is the tree of its elements, without the text between them. The functions act
  on a disk: its documents, its directories and what the system refuses to create or to write. \<^const>\<open>OSError\<close> stands for its
  subclasses FileNotFoundError, FileExistsError, NotADirectoryError, IsADirectoryError and
  PermissionError. Printing and \<^verbatim>\<open>LogInfo\<close> are left out.
\<close>

section \<open>Documents and files\<close>

datatype xml = Element (xml_tag: string) (xml_attrib: "(string \<times> string) list") (xml_children: "xml list")

definition xml_get :: "xml \<Rightarrow> string \<Rightarrow> string option" where
  "xml_get e k = map_of (xml_attrib e) k"

text \<open>\<^verbatim>\<open>e.find(tag)\<close> and \<^verbatim>\<open>e.findall(tag)\<close>: the children with the tag\<close>

definition xml_find :: "xml \<Rightarrow> string \<Rightarrow> xml option" where
  "xml_find e tag = List.find (\<lambda>c. xml_tag c = tag) (xml_children e)"

definition xml_findall :: "xml \<Rightarrow> string \<Rightarrow> xml list" where
  "xml_findall e tag = filter (\<lambda>c. xml_tag c = tag) (xml_children e)"

text \<open>
  A file is absent, readable as a document, or raises when it is parsed. A path that is refused can
  be neither made a directory nor written.
\<close>

record disk =
  dk_docs :: "string \<Rightarrow> xml res option"
  dk_dirs :: "string list"
  dk_refuses :: "string \<Rightarrow> bool"

type_synonym 'a io = "disk \<Rightarrow> ('a res \<times> disk) option"

definition io_res :: "'a res \<Rightarrow> 'a io" where
  "io_res r D = Some (r, D)"

definition is_dir :: "disk \<Rightarrow> string \<Rightarrow> bool" where
  "is_dir D p = (p \<in> set (dk_dirs D))"

text \<open>\<^verbatim>\<open>Path.exists\<close>: a file or a directory\<close>

definition exists_path :: "disk \<Rightarrow> string \<Rightarrow> bool" where
  "exists_path D p = (dk_docs D p \<noteq> None \<or> is_dir D p)"

definition check_exists :: "string \<Rightarrow> unit io" where
  "check_exists p D = Some (if exists_path D p then Inr () else Inl OSError, D)"

text \<open>\<^verbatim>\<open>ET.parse\<close> and \<^verbatim>\<open>ElementTree.write\<close>\<close>

definition parse :: "string \<Rightarrow> xml io" where
  "parse p D = Some (case dk_docs D p of None \<Rightarrow> Inl OSError | Some r \<Rightarrow> r, D)"

definition write_doc :: "string \<Rightarrow> xml \<Rightarrow> unit io" where
  "write_doc p doc D = Some
     (if is_dir D p \<or> dk_refuses D p then (Inl OSError, D)
      else (Inr (), D\<lparr>dk_docs := (dk_docs D)(p \<mapsto> Inr doc)\<rparr>))"

text \<open>
  \<^verbatim>\<open>Path.mkdir(parents=True, exist_ok=True)\<close>: the directories from the root down to the path. One that is there is
  left; a file in the way or a refusal raises, and what was created before it stays.
\<close>

definition path_and_parents :: "string \<Rightarrow> string list" where
  "path_and_parents p =
     map (\<lambda>i. take i p)
       (filter (\<lambda>i. p ! (i - 1) \<noteq> CHR ''/'' \<and> (i = length p \<or> p ! i = CHR ''/'')) [1..<Suc (length p)])"

fun make_dirs :: "string list \<Rightarrow> unit io" where
  "make_dirs [] D = Some (Inr (), D)"
| "make_dirs (q # qs) D =
     (if is_dir D q then make_dirs qs D
      else if dk_docs D q \<noteq> None \<or> dk_refuses D q then Some (Inl OSError, D)
      else make_dirs qs (D\<lparr>dk_dirs := q # dk_dirs D\<rparr>))"

definition mkdir :: "string \<Rightarrow> unit io" where
  "mkdir p = make_dirs (path_and_parents p)"

text \<open>\<^verbatim>\<open>Path.name\<close> and \<^verbatim>\<open>Path.stem\<close>\<close>

definition file_name :: "string \<Rightarrow> string" where
  "file_name p = rev (takeWhile (\<lambda>c. c \<noteq> CHR ''/'') (rev p))"

definition file_stem :: "string \<Rightarrow> string" where
  "file_stem p =
     (let n = file_name p; r = dropWhile (\<lambda>c. c \<noteq> CHR ''.'') (rev n)
      in if length r < 2 \<or> last n = CHR ''.'' then n else rev (tl r))"

section \<open>Merging a gripper\<close>

definition gripper_sections :: "string list" where
  "gripper_sections =
     [''asset'', ''default'', ''actuator'', ''tendon'',
      ''sensor'', ''equality'', ''contact'', ''option'']"

text \<open>
  The first child with a tag, changed by a function; one without attributes and children is added
  where there is none.
\<close>

fun update_section :: "string \<Rightarrow> (xml \<Rightarrow> xml) \<Rightarrow> xml list \<Rightarrow> xml list" where
  "update_section tag f [] = [f (Element tag [] [])]"
| "update_section tag f (e # es) =
     (if xml_tag e = tag then f e # es else e # update_section tag f es)"

definition copy_section :: "xml \<Rightarrow> xml \<Rightarrow> xml" where
  "copy_section src dst =
     Element (xml_tag dst)
       (foldl (\<lambda>attrs (k, v). AList.update k v attrs) (xml_attrib dst) (xml_attrib src))
       (xml_children dst @ xml_children src)"

definition merge_section :: "xml \<Rightarrow> xml \<Rightarrow> string \<Rightarrow> xml" where
  "merge_section tool arm tag =
     (case xml_find tool tag of
        None \<Rightarrow> arm
      | Some src \<Rightarrow>
          Element (xml_tag arm) (xml_attrib arm)
            (update_section tag (copy_section src) (xml_children arm)))"

definition merge_sections :: "xml \<Rightarrow> xml \<Rightarrow> xml" where
  "merge_sections arm tool = foldl (merge_section tool) arm gripper_sections"

text \<open>
  \<^verbatim>\<open>root.find(".//body[@name=...]")\<close> followed by \<^verbatim>\<open>append\<close>: elements are added to the first
  descendant, in the order of the document, that has a property.
\<close>

fun append_to_first :: "(xml \<Rightarrow> bool) \<Rightarrow> xml list \<Rightarrow> xml list \<Rightarrow> xml list option" where
  "append_to_first P new [] = None"
| "append_to_first P new (Element t attrs cs # es) =
     (if P (Element t attrs cs) then Some (Element t attrs (cs @ new) # es)
      else case append_to_first P new cs of
             Some cs' \<Rightarrow> Some (Element t attrs cs' # es)
           | None \<Rightarrow> map_option ((#) (Element t attrs cs)) (append_to_first P new es))"

definition is_flange :: "string \<Rightarrow> xml \<Rightarrow> bool" where
  "is_flange flange e = (xml_tag e = ''body'' \<and> xml_get e ''name'' = Some flange)"

text \<open>An element without children is false, so an empty worldbody is passed over.\<close>

definition tool_bodies :: "xml \<Rightarrow> xml list" where
  "tool_bodies tool =
     xml_findall
       (case xml_find tool ''worldbody'' of
          None \<Rightarrow> tool
        | Some w \<Rightarrow> if xml_children w = [] then tool else w) ''body''"

definition attach_tool :: "string \<Rightarrow> xml \<Rightarrow> xml \<Rightarrow> xml res" where
  "attach_tool flange arm tool =
     (case append_to_first (is_flange flange) (tool_bodies tool) (xml_children arm) of
        None \<Rightarrow> Inl RuntimeError
      | Some cs \<Rightarrow> Inr (Element (xml_tag arm) (xml_attrib arm) cs))"

definition merge_gripper :: "string \<Rightarrow> string \<Rightarrow> string \<Rightarrow> string \<Rightarrow> string io" where
  "merge_gripper arm_xml hand_xml output_dir flange =
     abind (parse arm_xml) (\<lambda>arm.
     abind (parse hand_xml) (\<lambda>tool.
     abind (io_res (attach_tool flange (merge_sections arm tool) tool)) (\<lambda>merged.
     abind (mkdir output_dir) (\<lambda>_.
     let path = path_join output_dir [file_stem arm_xml @ ''_'' @ file_stem hand_xml @ ''_merged.xml'']
     in abind (write_doc path merged) (\<lambda>_. io_res (Inr path))))))"

section \<open>Building the scene\<close>

definition scene_document :: "string \<Rightarrow> string \<Rightarrow> xml \<Rightarrow> xml" where
  "scene_document robot arm_file orig =
     Element ''mujoco'' [(''model'', ''scene_with_'' @ file_stem robot)]
       (Element ''include'' [(''file'', file_name robot)] [] #
        filter (\<lambda>c. \<not> (xml_tag c = ''include'' \<and> xml_get c ''file'' = Some arm_file))
          (xml_children orig))"

definition build_scene :: "string \<Rightarrow> string \<Rightarrow> string \<Rightarrow> string \<Rightarrow> string io" where
  "build_scene original_scene robot output_dir arm_file =
     abind (check_exists original_scene) (\<lambda>_.
     abind (check_exists robot) (\<lambda>_.
     abind (mkdir output_dir) (\<lambda>_.
     abind (parse original_scene) (\<lambda>orig.
     let path = path_join output_dir [''generated_scene_for_'' @ file_stem robot @ ''.xml'']
     in abind (write_doc path (scene_document robot arm_file orig)) (\<lambda>_. io_res (Inr path))))))"

section \<open>The functions of the launch file\<close>

definition lower :: "string \<Rightarrow> string" where
  "lower s = map to_lower s"

definition is_absolute :: "string \<Rightarrow> bool" where
  "is_absolute p = (p \<noteq> [] \<and> hd p = CHR ''/'')"

text \<open>The robot that the scene includes: the arm, or the arm with the gripper.\<close>

definition robot_for_scene :: "string \<Rightarrow> string \<Rightarrow> string \<Rightarrow> string io" where
  "robot_for_scene models model gripper =
     (let arm = path_join models [model, model @ ''.xml''] in
      abind (check_exists arm) (\<lambda>_.
      if lower gripper = ''none'' then io_res (Inr arm)
      else let hand = path_join models [gripper, gripper @ ''.xml'']
           in abind (check_exists hand) (\<lambda>_.
              merge_gripper arm hand (path_join models [model]) ''link_6'')))"

text \<open>The template that is looked for, and the error when it is missing.\<close>

definition template_path :: "disk \<Rightarrow> string \<Rightarrow> string \<Rightarrow> string \<Rightarrow> string" where
  "template_path D models model scene =
     (if scene \<noteq> [] \<and> lower scene \<noteq> ''none'' then
        (if is_absolute scene \<and> exists_path D scene then scene
         else path_join models [dropWhile (\<lambda>c. c = CHR ''/'') scene])
      else path_join models [model, ''scene.xml''])"

definition scene_template :: "string \<Rightarrow> string \<Rightarrow> string \<Rightarrow> string io" where
  "scene_template models model scene D =
     (let t = template_path D models model scene
      in Some (if exists_path D t then Inr t else Inl OSError, D))"

text \<open>\<open>cfg\<close> are the launch configurations; a missing one is a KeyError.\<close>

definition launch_config :: "(string \<rightharpoonup> string) \<Rightarrow> string \<Rightarrow> string res" where
  "launch_config cfg k = (case cfg k of None \<Rightarrow> Inl KeyError | Some v \<Rightarrow> Inr v)"

definition scene_settings :: "string \<Rightarrow> string \<Rightarrow> action list" where
  "scene_settings robot scene =
     [SetLaunchConfiguration ''robot_model_xml_for_scene'' robot,
      SetLaunchConfiguration ''scene_path'' scene]"

text \<open>The directory is made before anything is looked for.\<close>

definition prepare_mjcf_files_for_mujoco :: "build \<Rightarrow> (string \<rightharpoonup> string) \<Rightarrow> action list io" where
  "prepare_mjcf_files_for_mujoco B cfg =
     abind (io_res (launch_config cfg ''model'')) (\<lambda>model.
     abind (io_res (launch_config cfg ''gripper'')) (\<lambda>gripper.
     abind (io_res (launch_config cfg ''scene_path'')) (\<lambda>scene.
     let models = path_join (share B ''dsr_description2'') [''mujoco_models''];
         output_dir = path_join models [model] in
     abind (mkdir output_dir) (\<lambda>_.
     abind (robot_for_scene models model gripper) (\<lambda>robot.
     abind (scene_template models model scene) (\<lambda>template.
     abind (build_scene template robot output_dir (model @ ''.xml'')) (\<lambda>path.
     io_res (Inr (scene_settings robot path)))))))))"

definition prepare_controller_config ::
  "build \<Rightarrow> (string \<rightharpoonup> string) \<Rightarrow> (string \<Rightarrow> bool) \<Rightarrow> action list res" where
  "prepare_controller_config B cfg exists =
     rbind (launch_config cfg ''gripper'') (\<lambda>gripper.
     rbind (if lower gripper \<noteq> ''none'' then
              (let f = path_join (share B ''dsr_mujoco'')
                     [''config'', ''dsr_mujoco_controller_with_'' @ gripper @ ''.yaml'']
               in if exists f then Inr f else Inl OSError)
            else Inr (path_join (share B ''dsr_mujoco'')
                   [''config'', ''dsr_mujoco_controller.yaml''])) (\<lambda>f.
       Inr [SetLaunchConfiguration ''controller_param_file'' f]))"

section \<open>Sections of a merged document\<close>

lemma copy_section_tag [simp]: "xml_tag (copy_section src dst) = xml_tag dst"
  by (simp add: copy_section_def)

lemma find_update_section:
  "List.find (\<lambda>c. xml_tag c = t) (update_section tag (copy_section src) es) =
     (if t = tag
      then Some (copy_section src
             (case List.find (\<lambda>c. xml_tag c = tag) es of
                None \<Rightarrow> Element tag [] [] | Some e \<Rightarrow> e))
      else List.find (\<lambda>c. xml_tag c = t) es)"
  by (induction es) auto

lemma find_merge_section:
  "xml_find (merge_section tool arm tag) t =
     (if t = tag
      then (case xml_find tool tag of
              None \<Rightarrow> xml_find arm tag
            | Some src \<Rightarrow> Some (copy_section src
                (case xml_find arm tag of None \<Rightarrow> Element tag [] [] | Some e \<Rightarrow> e)))
      else xml_find arm t)"
  by (auto simp: merge_section_def xml_find_def find_update_section split: option.splits)

lemma find_merge_sections:
  assumes "distinct tags"
  shows "xml_find (foldl (merge_section tool) arm tags) t =
     (if t \<in> set tags
      then (case xml_find tool t of
              None \<Rightarrow> xml_find arm t
            | Some src \<Rightarrow> Some (copy_section src
                (case xml_find arm t of None \<Rightarrow> Element t [] [] | Some e \<Rightarrow> e)))
      else xml_find arm t)"
  using assms
proof (induction tags arbitrary: arm)
  case (Cons a tags)
  then show ?case
    by (cases "t = a") (auto simp: find_merge_section split: option.splits)
qed simp

lemma merged_sections:
  "xml_find (merge_sections arm tool) t =
     (if t \<in> set gripper_sections
      then (case xml_find tool t of
              None \<Rightarrow> xml_find arm t
            | Some src \<Rightarrow> Some (copy_section src
                (case xml_find arm t of None \<Rightarrow> Element t [] [] | Some e \<Rightarrow> e)))
      else xml_find arm t)"
  unfolding merge_sections_def
  by (rule find_merge_sections) (simp add: gripper_sections_def)

lemma copied_attribute:
  "map_of (foldl (\<lambda>attrs (k, v). AList.update k v attrs) as bs) = map_of as ++ map_of (rev bs)"
  by (induction bs arbitrary: as) (auto simp: update_conv' map_add_def fun_eq_iff split: option.splits)

section \<open>Elements of a document\<close>

fun xml_any :: "(xml \<Rightarrow> bool) \<Rightarrow> xml \<Rightarrow> bool" where
  "xml_any P (Element t attrs cs) = (P (Element t attrs cs) \<or> list_ex (xml_any P) cs)"

lemma append_to_first_None:
  "append_to_first P new es = None \<longleftrightarrow> \<not> list_ex (xml_any P) es"
  by (induction P new es rule: append_to_first.induct) (auto split: option.splits)

text \<open>
  An element by its place: the numbers of the children on the way to it.
\<close>

fun xml_at :: "nat list \<Rightarrow> xml list \<Rightarrow> xml option" where
  "xml_at (i # path) es =
     (if i < length es then (if path = [] then Some (es ! i) else xml_at path (xml_children (es ! i))) else None)"
| "xml_at [] es = None"

fun add_children :: "xml list \<Rightarrow> nat list \<Rightarrow> xml list \<Rightarrow> xml list" where
  "add_children new (i # path) es =
     (if i < length es then
        es[i := Element (xml_tag (es ! i)) (xml_attrib (es ! i))
                  (if path = [] then xml_children (es ! i) @ new else add_children new path (xml_children (es ! i)))]
      else es)"
| "add_children new [] es = es"

lemma append_to_first_place:
  "append_to_first P new es = Some es' \<Longrightarrow>
   \<exists>path e. xml_at path es = Some e \<and> P e \<and> es' = add_children new path es"
proof (induction P new es arbitrary: es' rule: append_to_first.induct)
  case (2 P new t attrs cs es)
  let ?e = "Element t attrs cs"
  consider (here) "P ?e" | (below) cs' where "\<not> P ?e" "append_to_first P new cs = Some cs'"
    | (later) es1 where "\<not> P ?e" "append_to_first P new cs = None" "append_to_first P new es = Some es1"
    using 2(3) by (auto split: if_splits option.splits)
  then show ?case
  proof cases
    case here
    with 2(3) have "xml_at [0] (?e # es) = Some ?e" "es' = add_children new [0] (?e # es)" by simp_all
    with here show ?thesis by blast
  next
    case below
    from 2(1) [OF below] obtain js e where "xml_at js cs = Some e" "P e" "cs' = add_children new js cs" by blast
    moreover from this(1) have "js \<noteq> []" by auto
    ultimately have "xml_at (0 # js) (?e # es) = Some e" "es' = add_children new (0 # js) (?e # es)"
      using 2(3) below by simp_all
    with \<open>P e\<close> show ?thesis by blast
  next
    case later
    from 2(2) [OF later] obtain js e where js: "xml_at js es = Some e" "P e" "es1 = add_children new js es" by blast
    then obtain i ks where "js = i # ks" by (cases js) auto
    with js have "xml_at (Suc i # ks) (?e # es) = Some e" "es' = add_children new (Suc i # ks) (?e # es)"
      using 2(3) later by (simp_all split: if_splits)
    with js(2) show ?thesis by blast
  qed
qed simp

section \<open>Directories\<close>

lemma make_dirs_effect:
  "make_dirs qs D = Some (r, D') \<Longrightarrow>
   dk_docs D' = dk_docs D \<and> dk_refuses D' = dk_refuses D \<and> set (dk_dirs D) \<subseteq> set (dk_dirs D') \<and>
   (r = Inr () \<and> list_all (is_dir D') qs \<or> r = Inl OSError)"
proof (induction qs D arbitrary: D' rule: make_dirs.induct)
  case (2 q qs D)
  consider (present) "is_dir D q" | (refused) "\<not> is_dir D q" "dk_docs D q \<noteq> None \<or> dk_refuses D q"
    | (made) "\<not> is_dir D q" "\<not> (dk_docs D q \<noteq> None \<or> dk_refuses D q)"
    by blast
  then show ?case
  proof cases
    case present
    with 2(3) have "make_dirs qs D = Some (r, D')" by simp
    from 2(1) [OF present this] present show ?thesis by (auto simp: is_dir_def)
  next
    case refused
    with 2(3) show ?thesis by auto
  next
    case made
    with 2(3) have "make_dirs qs (D\<lparr>dk_dirs := q # dk_dirs D\<rparr>) = Some (r, D')" by simp
    from 2(2) [OF made this] show ?thesis by (auto simp: is_dir_def)
  qed
qed simp

lemma make_dirs_present: "list_all (is_dir D) qs \<Longrightarrow> make_dirs qs D = Some (Inr (), D)"
  by (induction qs) simp_all

lemma make_dirs_returns: "\<exists>r D'. make_dirs qs D = Some (r, D')"
  by (induction qs D rule: make_dirs.induct) auto

lemma mkdir_effect:
  "mkdir p D = Some (r, D') \<Longrightarrow>
   dk_docs D' = dk_docs D \<and> dk_refuses D' = dk_refuses D \<and> set (dk_dirs D) \<subseteq> set (dk_dirs D') \<and>
   (r = Inr () \<and> list_all (is_dir D') (path_and_parents p) \<or> r = Inl OSError)"
  unfolding mkdir_def by (rule make_dirs_effect)

lemma mkdir_again: "list_all (is_dir D) (path_and_parents p) \<Longrightarrow> mkdir p D = Some (Inr (), D)"
  unfolding mkdir_def by (rule make_dirs_present)

end
