(* ===== verification/SceneProperties.thy ===== *)
theory SceneProperties
  imports MujocoScene
begin

text \<open>
  What the simulator of dsr_mujoco is started on: the merged arm and gripper, and the scene that
  includes them.
\<close>

section \<open>Merging\<close>

lemma flange_copied [simp]:
  "xml_any (is_flange fl) (copy_section src dst) \<longleftrightarrow>
   is_flange fl (copy_section src dst) \<or> list_ex (xml_any (is_flange fl)) (xml_children dst) \<or>
   list_ex (xml_any (is_flange fl)) (xml_children src)"
  by (simp add: copy_section_def)










definition example_arm :: xml where
  "example_arm = Element ''mujoco'' []
     [Element ''asset'' [] [Element ''mesh'' [(''file'', ''a.stl'')] []],
      Element ''worldbody'' [] [Element ''body'' [(''name'', ''link_6'')] []]]"




section \<open>The scene\<close>

lemma name_after_slash:
  assumes "CHR ''/'' \<notin> set n"
  shows "file_name n = n" "file_name (a @ CHR ''/'' # n) = n"
proof -
  have *: "takeWhile (\<lambda>c. c \<noteq> CHR ''/'') (rev n @ xs) = rev n @ takeWhile (\<lambda>c. c \<noteq> CHR ''/'') xs"
    for xs
    by (rule takeWhile_append2) (use assms in auto)
  show "file_name n = n" "file_name (a @ CHR ''/'' # n) = n"
    by (simp_all only: file_name_def rev_append rev.simps append_Nil append_Cons append_assoc *
        takeWhile.simps append_Nil2 rev_rev_ident *[of "[]", simplified append_Nil2 takeWhile.simps]) simp
qed

lemma file_name_join:
  assumes "n \<noteq> []" "CHR ''/'' \<notin> set n"
  shows "file_name (join_two a n) = n"
proof -
  have "hd n \<noteq> CHR ''/''"
    using assms hd_in_set by metis
  moreover have "a = butlast a @ [CHR ''/'']" if "a \<noteq> []" "last a = CHR ''/''"
    using that by (metis append_butlast_last_id)
  ultimately show ?thesis
    using name_after_slash(1)[OF assms(2)] name_after_slash(2)[OF assms(2), of a]
      name_after_slash(2)[OF assms(2), of "butlast a"]
    by (auto simp: append_eq_append_conv2) (metis append.assoc append_Cons append_Nil)
qed

lemma file_name_path:
  assumes "n \<noteq> []" "CHR ''/'' \<notin> set n"
  shows "file_name (path_join a (bs @ [n])) = n"
  using assms by (induction bs arbitrary: a) (auto simp del: join_two.simps simp: file_name_join)

lemma file_name_plain: "CHR ''/'' \<notin> set (file_name p)"
  unfolding file_name_def using set_takeWhileD by fastforce

lemma file_stem_plain: "CHR ''/'' \<notin> set (file_stem p)"
proof -
  have "set (tl (dropWhile P (rev (file_name p)))) \<subseteq> set (file_name p)" for P
    by (metis set_dropWhileD set_rev list.set_sel(2) list.sel(2) subsetI)
  then show ?thesis
    using file_name_plain[of p] by (auto simp: file_stem_def Let_def)
qed

lemma file_stem_xml:
  assumes "m \<noteq> []" "CHR ''/'' \<notin> set m"
  shows "file_stem (path_join a (bs @ [m @ ''.xml''])) = m"
proof -
  have "file_name (path_join a (bs @ [m @ ''.xml''])) = m @ ''.xml''"
    by (rule file_name_path) (use assms in auto)
  then show ?thesis
    using assms(1) by (simp add: file_stem_def Let_def)
qed

definition includes_of :: "string \<Rightarrow> xml \<Rightarrow> xml list" where
  "includes_of f doc =
     filter (\<lambda>c. xml_tag c = ''include'' \<and> xml_get c ''file'' = Some f) (xml_children doc)"

lemma write_doc_effect:
  "write_doc p doc D = Some (Inr (), D') \<Longrightarrow> D' = D\<lparr>dk_docs := (dk_docs D)(p \<mapsto> Inr doc)\<rparr>"
  by (auto simp: write_doc_def split: if_splits)

lemma merge_gripper_file:
  assumes "merge_gripper arm hand dir fl D = Some (Inr robot, D1)"
  shows "file_name robot = file_stem arm @ ''_'' @ file_stem hand @ ''_merged.xml''"
    "exists_path D1 robot"
proof -
  let ?n = "file_stem arm @ ''_'' @ file_stem hand @ ''_merged.xml''"
  have robot: "robot = path_join dir ([] @ [?n])" and ex: "exists_path D1 robot"
    using assms
    by (auto simp: merge_gripper_def abind_Some io_res_def Let_def exists_path_def
        simp del: path_join.simps dest!: write_doc_effect)
  from ex show "exists_path D1 robot" .
  have "CHR ''/'' \<notin> set ?n" "?n \<noteq> []"
    using file_stem_plain by auto
  then show "file_name robot = ?n"
    unfolding robot by (rule file_name_path[rotated])
qed

lemma robot_for_scene_file:
  assumes "robot_for_scene models m g D = Some (Inr robot, D1)" "m \<noteq> []" "CHR ''/'' \<notin> set m"
  shows "exists_path D1 robot" "file_name robot = m @ ''.xml'' \<longleftrightarrow> lower g = ''none''"
proof -
  let ?arm = "path_join models ([m] @ [m @ ''.xml''])"
  let ?hand = "path_join models [g, g @ ''.xml'']"
  have *: "file_name ?arm = m @ ''.xml''" "file_stem ?arm = m"
    using assms(2,3) file_name_path[of "m @ ''.xml''" models "[m]"] file_stem_xml[of m models "[m]"]
    by simp_all
  consider "robot = ?arm" "exists_path D1 ?arm" "lower g = ''none''"
    | D2 where "merge_gripper ?arm ?hand (path_join models [m]) ''link_6'' D2 = Some (Inr robot, D1)"
      "lower g \<noteq> ''none''"
    using assms(1)
    by (auto simp: robot_for_scene_def check_exists_def io_res_def abind_Some Let_def
        simp del: path_join.simps split: if_splits)
  then have "exists_path D1 robot \<and> (file_name robot = m @ ''.xml'' \<longleftrightarrow> lower g = ''none'')"
  proof cases
    case 1
    then show ?thesis
      using *(1) by simp
  next
    case 2
    then show ?thesis
      using merge_gripper_file[OF 2(1)] *(2) by simp
  qed
  then show "exists_path D1 robot" "file_name robot = m @ ''.xml'' \<longleftrightarrow> lower g = ''none''"
    by simp_all
qed

lemma build_scene_writes:
  assumes "build_scene template robot dir arm_file D = Some (Inr path, D')"
  shows "\<exists>orig. dk_docs D' = (dk_docs D)(path \<mapsto> Inr (scene_document robot arm_file orig)) \<and>
    set (dk_dirs D) \<subseteq> set (dk_dirs D')"
proof -
  obtain D1 orig where "mkdir dir D = Some (Inr (), D1)"
    and "write_doc path (scene_document robot arm_file orig) D1 = Some (Inr (), D')"
    using assms
    by (auto simp: build_scene_def abind_Some check_exists_def parse_def io_res_def Let_def
        simp del: path_join.simps split: if_splits)
  with mkdir_effect[of dir D] write_doc_effect show ?thesis by fastforce
qed

lemma includes_of_scene:
  "includes_of arm_file (scene_document robot arm_file orig) =
     (if file_name robot = arm_file then [Element ''include'' [(''file'', arm_file)] []] else [])"
  by (simp add: includes_of_def scene_document_def xml_get_def filter_empty_conv)

text \<open>
  C38: Whenever the scene for the simulator is prepared, for a model whose name is not empty and has no
  slash, the new scene includes the robot that was chosen and that robot is there. Among
  its top-level includes, the plain arm, written exactly \<open><model>.xml\<close>, stands exactly once when
  there is no gripper, and not at all when the arm was merged with a gripper, whatever the template
  included at the top level in this spelling. (An include of the arm by another path, or in a nested file, is kept.)
\<close>

theorem scene_includes_robot_once:
  assumes "prepare_mjcf_files_for_mujoco B cfg D = Some (Inr acts, D')"
    and "cfg ''model'' = Some m" "m \<noteq> []" "CHR ''/'' \<notin> set m" "cfg ''gripper'' = Some g"
  shows "\<exists>robot path doc.
    acts = scene_settings robot path \<and> exists_path D' robot \<and> dk_docs D' path = Some (Inr doc) \<and>
    includes_of (file_name robot) doc \<noteq> [] \<and>
    includes_of (m @ ''.xml'') doc =
      (if lower g = ''none'' then [Element ''include'' [(''file'', m @ ''.xml'')] []] else [])"
proof -
  let ?models = "path_join (share B ''dsr_description2'') [''mujoco_models'']"
  obtain robot D1 D2 template path where
    r: "robot_for_scene ?models m g D1 = Some (Inr robot, D2)"
    and b: "build_scene template robot (path_join ?models [m]) (m @ ''.xml'') D2 = Some (Inr path, D')"
    and a: "acts = scene_settings robot path"
    using assms(1,2,5)
    by (auto simp: prepare_mjcf_files_for_mujoco_def launch_config_def abind_Some io_res_def
        scene_template_def Let_def simp del: path_join.simps split: option.splits if_splits)
  obtain orig where d: "dk_docs D' = (dk_docs D2)(path \<mapsto> Inr (scene_document robot (m @ ''.xml'') orig))"
    "set (dk_dirs D2) \<subseteq> set (dk_dirs D')"
    using build_scene_writes[OF b] by blast
  have f: "exists_path D' robot" "file_name robot = m @ ''.xml'' \<longleftrightarrow> lower g = ''none''"
    using robot_for_scene_file[OF r assms(3,4)] d by (auto simp: exists_path_def is_dir_def)
  have "includes_of (file_name robot) (scene_document robot (m @ ''.xml'') orig) \<noteq> []"
    by (simp add: includes_of_def scene_document_def xml_get_def)
  then show ?thesis
    using a d f includes_of_scene[of "m @ ''.xml''" robot orig] by (intro exI[of _ robot] exI[of _ path]) simp
qed

definition example_models :: disk where
  "example_models = \<lparr>dk_docs =
     [''/opt/dsr_description2/mujoco_models/arm/arm.xml'' \<mapsto> Inr example_arm,
      ''/opt/dsr_description2/mujoco_models/arm/scene.xml'' \<mapsto> Inr (Element ''mujoco'' []
        [Element ''include'' [(''file'', ''arm.xml'')] [], Element ''option'' [] []])],
     dk_dirs = [''/opt'', ''/opt/dsr_description2'', ''/opt/dsr_description2/mujoco_models'',
       ''/opt/dsr_description2/mujoco_models/arm''],
     dk_refuses = (\<lambda>_. False)\<rparr>"

definition example_cfg :: "string \<rightharpoonup> string" where
  "example_cfg = [''model'' \<mapsto> ''arm'', ''gripper'' \<mapsto> ''none'', ''scene_path'' \<mapsto> ''none'']"

lemma low_none: "lower ''none'' = ''none''"
  by (simp add: lower_def to_lower_def)

lemma example_mkdir:
  "mkdir ''/opt/dsr_description2/mujoco_models/arm'' example_models = Some (Inr (), example_models)"
  by (rule mkdir_again) (simp add: path_and_parents_def example_models_def is_dir_def upt_rec)

lemma example_prepared:
  "\<exists>acts D'. prepare_mjcf_files_for_mujoco example_build example_cfg example_models = Some (Inr acts, D')"
  by (simp add: prepare_mjcf_files_for_mujoco_def launch_config_def example_cfg_def example_build_def
      abind_def io_res_def Let_def robot_for_scene_def check_exists_def scene_template_def template_path_def
      build_scene_def parse_def write_doc_def low_none exists_path_def is_dir_def file_stem_def file_name_def
      example_models_def example_mkdir[unfolded example_models_def])

theorem scene_includes_robot_once_witness:
  "\<exists>acts D' robot path doc.
    prepare_mjcf_files_for_mujoco example_build example_cfg example_models = Some (Inr acts, D') \<and>
    acts = scene_settings robot path \<and> exists_path D' robot \<and> dk_docs D' path = Some (Inr doc) \<and>
    includes_of ''arm.xml'' doc = [Element ''include'' [(''file'', ''arm.xml'')] []]"
proof -
  obtain acts D' where
    p: "prepare_mjcf_files_for_mujoco example_build example_cfg example_models = Some (Inr acts, D')"
    using example_prepared by blast
  show ?thesis
    using p scene_includes_robot_once[OF p, of "''arm''" "''none''"]
    by (auto simp: example_cfg_def low_none)
qed

text \<open>Which file a scene argument stands for.\<close>

definition expected_template :: "disk \<Rightarrow> string \<Rightarrow> string \<Rightarrow> string \<Rightarrow> string" where
  "expected_template D models m scene =
     (if scene = [] \<or> lower scene = ''none'' then path_join models [m, ''scene.xml'']
      else if is_absolute scene \<and> exists_path D scene then scene
      else path_join models [dropWhile (\<lambda>c. c = CHR ''/'') scene])"

lemma template_path_expected: "template_path D models m scene = expected_template D models m scene"
  by (simp add: template_path_def expected_template_def)

text \<open>
  C39: The preparation of the scene without a gripper, on any disk. First the directory of the
  model is made, with its parents; when that is refused, or a file is in the way, it raises an
  error of the system and has written no document. Then it raises an error of the system (a missing
  file, or a directory in place of the template) unless the arm is there and the template is a document; the template is the default scene of the
  model, or the absolute path given if there is such a path, or else the path below the models with its leading
  slashes removed. A template that does not parse raises its error, and so does a scene that cannot
  be written; no document has changed then, but the directory is there. Otherwise it
  writes exactly one document, the scene for the plain arm, and sets the two configurations to it and to the arm.
\<close>

theorem scene_preparation_outcome:
  fixes B :: build
  assumes "cfg ''model'' = Some m" "cfg ''gripper'' = Some g" "lower g = ''none''"
    "cfg ''scene_path'' = Some scene"
  defines "models \<equiv> path_join (share B ''dsr_description2'') [''mujoco_models'']"
  defines "dir \<equiv> path_join models [m]" and "arm \<equiv> path_join models [m, m @ ''.xml'']"
  defines "out \<equiv> path_join dir [''generated_scene_for_'' @ file_stem arm @ ''.xml'']"
  shows "\<exists>made D1. mkdir dir D = Some (made, D1) \<and> dk_docs D1 = dk_docs D \<and>
    (made = Inr () \<and> list_all (is_dir D1) (path_and_parents dir) \<or> made = Inl OSError) \<and>
    prepare_mjcf_files_for_mujoco B cfg D = Some
      (if made \<noteq> Inr () \<or> \<not> exists_path D1 arm then (Inl OSError, D1)
       else case dk_docs D (expected_template D1 models m scene) of
         None \<Rightarrow> (Inl OSError, D1)
       | Some (Inl e) \<Rightarrow> (Inl e, D1)
       | Some (Inr orig) \<Rightarrow>
           if is_dir D1 out \<or> dk_refuses D out then (Inl OSError, D1)
           else (Inr (scene_settings arm out),
                 D1\<lparr>dk_docs := (dk_docs D)(out \<mapsto> Inr (scene_document arm (m @ ''.xml'') orig))\<rparr>))"
proof -
  obtain made D1 where made: "mkdir dir D = Some (made, D1)"
    using make_dirs_returns unfolding mkdir_def by blast
  note effect = mkdir_effect[OF made]
  have "prepare_mjcf_files_for_mujoco B cfg D = (case made of
      Inl e \<Rightarrow> Some (Inl e, D1)
    | Inr _ \<Rightarrow> abind (robot_for_scene models m g) (\<lambda>robot. abind (scene_template models m scene) (\<lambda>template.
        abind (build_scene template robot dir (m @ ''.xml'')) (\<lambda>path.
        io_res (Inr (scene_settings robot path))))) D1)"
    using assms(1,2,4) made
    by (simp add: prepare_mjcf_files_for_mujoco_def launch_config_def abind_def io_res_def Let_def
        models_def[symmetric] dir_def[symmetric] del: path_join.simps split: sum.split)
  moreover have "abind (robot_for_scene models m g) f D1 =
      (if exists_path D1 arm then f arm D1 else Some (Inl OSError, D1))" for f :: "string \<Rightarrow> action list io"
    using assms(3)
    by (simp add: robot_for_scene_def check_exists_def io_res_def abind_def Let_def arm_def[symmetric]
        del: path_join.simps)
  moreover have "abind (build_scene t arm dir (m @ ''.xml'')) (\<lambda>path. io_res (Inr (scene_settings arm path))) D1 =
      Some (case dk_docs D t of
         None \<Rightarrow> (Inl OSError, D1)
       | Some (Inl e) \<Rightarrow> (Inl e, D1)
       | Some (Inr orig) \<Rightarrow>
           if is_dir D1 out \<or> dk_refuses D out then (Inl OSError, D1)
           else (Inr (scene_settings arm out),
                 D1\<lparr>dk_docs := (dk_docs D)(out \<mapsto> Inr (scene_document arm (m @ ''.xml'') orig))\<rparr>))"
    if "made = Inr ()" "exists_path D1 arm" "exists_path D1 t" for t
  proof -
    have "mkdir dir D1 = Some (Inr (), D1)"
      using effect that(1) by (intro mkdir_again) auto
    moreover have "dk_docs D1 = dk_docs D" "dk_refuses D1 = dk_refuses D" using effect by simp_all
    ultimately show ?thesis
      using that(2,3)
      by (simp add: build_scene_def check_exists_def abind_def parse_def write_doc_def io_res_def Let_def
          out_def del: path_join.simps split: option.split sum.split)
  qed
  moreover have "abind (scene_template models m scene) f D1 =
      (let t = expected_template D1 models m scene
       in if exists_path D1 t then f t D1 else Some (Inl OSError, D1))" for f :: "string \<Rightarrow> action list io"
    by (simp add: scene_template_def abind_def Let_def template_path_expected)
  ultimately have "prepare_mjcf_files_for_mujoco B cfg D = Some
      (if made \<noteq> Inr () \<or> \<not> exists_path D1 arm then (Inl OSError, D1)
       else case dk_docs D (expected_template D1 models m scene) of
         None \<Rightarrow> (Inl OSError, D1)
       | Some (Inl e) \<Rightarrow> (Inl e, D1)
       | Some (Inr orig) \<Rightarrow>
           if is_dir D1 out \<or> dk_refuses D out then (Inl OSError, D1)
           else (Inr (scene_settings arm out),
                 D1\<lparr>dk_docs := (dk_docs D)(out \<mapsto> Inr (scene_document arm (m @ ''.xml'') orig))\<rparr>))"
    using effect by (auto simp: Let_def exists_path_def simp del: path_join.simps)
  with made effect show ?thesis by blast
qed

theorem scene_preparation_outcome_witness:
  "prepare_mjcf_files_for_mujoco example_build
     (example_cfg(''scene_path'' \<mapsto> ''/demo/missing.xml'')) example_models = Some (Inl OSError, example_models)"
proof -
  let ?models = "''/opt/dsr_description2/mujoco_models''"
  have models: "path_join (share example_build ''dsr_description2'') [''mujoco_models''] = ?models"
    "path_join ?models [''arm''] = ''/opt/dsr_description2/mujoco_models/arm''"
    by (simp_all add: example_build_def)
  have "dk_docs example_models (expected_template example_models ?models ''arm'' ''/demo/missing.xml'') = None"
    by (simp add: expected_template_def is_absolute_def exists_path_def is_dir_def example_models_def
        lower_def to_lower_def)
  then show ?thesis
    using scene_preparation_outcome[of "example_cfg(''scene_path'' \<mapsto> ''/demo/missing.xml'')"
        "''arm''" "''none''" "''/demo/missing.xml''" example_build example_models]
    by (auto simp: example_cfg_def models example_mkdir low_none simp del: path_join.simps)
qed

end
