(* ===== verification/LaunchProperties.thy ===== *)
theory LaunchProperties
  imports LaunchBringup LaunchSim LaunchStart LaunchDemo SceneProperties
begin

text \<open>
  What the launch files make the launch service do: the order in which processes start, which of
  them depend on the mode of the robot, which configurations are read, and how the copies of one
  file in the MoveIt packages relate.
\<close>

section \<open>The start files of the MoveIt packages\<close>

text \<open>A description with another default for the model, and with other nodes.\<close>

fun with_model :: "string \<Rightarrow> action \<Rightarrow> action" where
  "with_model m (DeclareLaunchArgument x v) =
     DeclareLaunchArgument x (if x = ''model'' then m else v)"
| "with_model m a = a"

fun map_nodes :: "(ros_node \<Rightarrow> ros_node) \<Rightarrow> action \<Rightarrow> action" where
  "map_nodes f (Node n) = Node (f n)"
| "map_nodes f (GroupAction c acts) = GroupAction c (map (map_nodes f) acts)"
| "map_nodes f (OnProcessExit n acts) = OnProcessExit (f n) (map (map_nodes f) acts)"
| "map_nodes f (OnProcessStart n acts) = OnProcessStart (f n) (map (map_nodes f) acts)"
| "map_nodes f (TimerAction t acts) = TimerAction t (map (map_nodes f) acts)"
| "map_nodes f a = a"

definition with_log_level :: "ros_node \<Rightarrow> ros_node" where
  "with_log_level n =
     (if n = a0509_start_robot_controller_spawner
      then n\<lparr>node_arguments := node_arguments n @
             [Text ''--ros-args'', Text ''--log-level'', Text ''info'']\<rparr>
      else n)"

definition start_files ::
  "(string \<times> (build \<Rightarrow> action list) \<times> (build \<Rightarrow> string \<Rightarrow> action list)) list" where
  "start_files =
     [(''a0509'', a0509_start, a0509_start_rviz_node_function),
      (''a0912'', a0912_start, a0912_start_rviz_node_function),
      (''e0509'', e0509_start, e0509_start_rviz_node_function),
      (''h2017'', h2017_start, h2017_start_rviz_node_function),
      (''h2515'', h2515_start, h2515_start_rviz_node_function),
      (''m0609'', m0609_start, m0609_start_rviz_node_function),
      (''m0617'', m0617_start, m0617_start_rviz_node_function),
      (''m1013'', m1013_start, m1013_start_rviz_node_function),
      (''m1509'', m1509_start, m1509_start_rviz_node_function),
      (''p3020'', p3020_start, p3020_start_rviz_node_function)]"

text \<open>The file of a0509 for another model, with what the files of m0609 and m1013 add.\<close>

definition start_of_model :: "string \<Rightarrow> build \<Rightarrow> action list" where
  "start_of_model m B =
     (let d = map (with_model m) (a0509_start B)
      in if m = ''m1013'' then map (map_nodes with_log_level) d
         else if m = ''m0609'' then take 9 d @ [Node m0609_start_static_tf] @ drop 9 d
         else d)"

lemma start_of_plain_model:
  assumes "m \<noteq> ''m1013''" "m \<noteq> ''m0609''"
  shows "start_of_model m B = map (with_model m) (a0509_start B)"
  using assms by (simp add: start_of_model_def Let_def)

lemmas start_functions_agree =
  a0912_start_defs e0509_start_defs h2017_start_defs h2515_start_defs m0609_start_defs
  m0617_start_defs m1013_start_defs m1509_start_defs p3020_start_defs

lemma plain_start_files:
  "a0509_start B = start_of_model ''a0509'' B" "a0912_start B = start_of_model ''a0912'' B"
  "e0509_start B = start_of_model ''e0509'' B" "h2017_start B = start_of_model ''h2017'' B"
  "h2515_start B = start_of_model ''h2515'' B" "m0617_start B = start_of_model ''m0617'' B"
  "m1509_start B = start_of_model ''m1509'' B" "p3020_start B = start_of_model ''p3020'' B"
  by (simp_all add: start_of_plain_model a0509_start_defs a0912_start_defs e0509_start_defs
      h2017_start_defs h2515_start_defs m0617_start_defs m1509_start_defs p3020_start_defs)

lemma m1013_start_file: "m1013_start B = start_of_model ''m1013'' B"
  by (simp add: start_of_model_def Let_def with_log_level_def m1013_start_defs a0509_start_defs
      plain_node_def)

lemma m0609_start_file: "m0609_start B = start_of_model ''m0609'' B"
  by (simp add: start_of_model_def Let_def m0609_start_defs a0509_start_defs)

lemma planner_functions:
  "a0912_start_rviz_node_function = a0509_start_rviz_node_function"
  "e0509_start_rviz_node_function = a0509_start_rviz_node_function"
  "h2017_start_rviz_node_function = a0509_start_rviz_node_function"
  "h2515_start_rviz_node_function = a0509_start_rviz_node_function"
  "m0609_start_rviz_node_function = a0509_start_rviz_node_function"
  "m0617_start_rviz_node_function = a0509_start_rviz_node_function"
  "m1013_start_rviz_node_function = a0509_start_rviz_node_function"
  "m1509_start_rviz_node_function = a0509_start_rviz_node_function"
  "p3020_start_rviz_node_function = a0509_start_rviz_node_function"
  by (simp_all add: fun_eq_iff a0509_start_defs start_functions_agree)

text \<open>
  The ten start files of the MoveIt packages describe the same system: each is the file of a0509
  with its own model as the default, except that m0609 publishes one more transform and m1013 passes
  a log level to the spawner of the controller; and the function that starts the planner is the
  same in all of them.
\<close>

lemma start_files_agree:
  "list_all (\<lambda>(m, d, f). d = start_of_model m \<and> f = a0509_start_rviz_node_function) start_files"
  by (simp add: start_files_def planner_functions fun_eq_iff plain_start_files[symmetric]
      m1013_start_file m0609_start_file)

section \<open>The order of the MoveIt bring-up\<close>

text \<open>
  What the two functions return and the included file gives when the configuration of the model
  is \<open>m\<close> and its package has the start file \<open>d\<close>.
\<close>

definition moveit_launcher :: "build \<Rightarrow> string \<Rightarrow> action list \<Rightarrow> launcher \<Rightarrow> bool" where
  "moveit_launcher B m d L \<longleftrightarrow>
     (\<forall>f acts. returns L f acts \<longrightarrow>
        f = ''include_launch_description'' \<and> acts = bringup_moveit_include_launch_description B m \<or>
        f = ''rviz_node_function'' \<and> acts = a0509_start_rviz_node_function B m) \<and>
     (\<forall>s acts. loads L s acts \<longrightarrow>
        s = [Text (path_join (share B (''dsr_moveit_config_'' @ m)) [''launch'', ''start.launch.py''])] \<and>
        acts = d)"

definition start_controller_spawner :: "string \<Rightarrow> ros_node" where
  "start_controller_spawner m =
     (if m = ''m1013'' then m1013_start_robot_controller_spawner
      else a0509_start_robot_controller_spawner)"

text \<open>The nodes of the bring-up are different from each other.\<close>

lemma start_nodes_distinct:
  fixes B :: build and m :: string
  shows "distinct
     [a0509_start_run_emulator_node, a0509_start_robot_state_pub_node B, a0509_start_control_node B,
      a0509_start_joint_state_broadcaster_spawner, a0509_start_robot_controller_spawner,
      a0509_start_dsr_moveit_controller_spawner, m1013_start_robot_controller_spawner,
      m0609_start_static_tf, a0509_start_fn_run_move_group_node m, a0509_start_fn_rviz_node B m]"
  by (simp add: a0509_start_defs m1013_start_defs m0609_start_defs plain_node_def)

lemmas start_nodes_differ =
  start_nodes_distinct[simplified] start_nodes_distinct[THEN iffD2[OF distinct_rev], simplified]

text \<open>What each action of a start file waits for.\<close>

lemmas start_parts =
  a0509_start_def a0509_start_ARGUMENTS_def a0509_start_nodes_def
  a0509_start_delay_jsb_after_control_node_def a0509_start_delay_robot_controller_after_joint_state_def
  a0509_start_delay_dsr_moveit_controller_after_robot_controller_def
  a0509_start_delay_rviz_after_dsr_moveit_controller_def a0509_start_rviz_node_def

lemma start_conditions [simp]:
  "node_condition a0509_start_run_emulator_node = None"
  "node_condition (a0509_start_robot_state_pub_node B) = None"
  "node_condition (a0509_start_control_node B) = None"
  "node_condition a0509_start_joint_state_broadcaster_spawner = None"
  "node_condition a0509_start_robot_controller_spawner = None"
  "node_condition a0509_start_dsr_moveit_controller_spawner = None"
  "node_condition m1013_start_robot_controller_spawner = None"
  "node_condition m0609_start_static_tf = None"
  "node_condition (a0509_start_fn_run_move_group_node m) = None"
  "node_condition (a0509_start_fn_rviz_node B m) = None"
  by (simp_all add: a0509_start_defs m1013_start_defs m0609_start_defs plain_node_def)

lemma nodes_with_log_level:
  "with_log_level a0509_start_robot_controller_spawner = m1013_start_robot_controller_spawner"
  "with_log_level a0509_start_run_emulator_node = a0509_start_run_emulator_node"
  "with_log_level (a0509_start_robot_state_pub_node B) = a0509_start_robot_state_pub_node B"
  "with_log_level (a0509_start_control_node B) = a0509_start_control_node B"
  "with_log_level a0509_start_joint_state_broadcaster_spawner =
     a0509_start_joint_state_broadcaster_spawner"
  "with_log_level a0509_start_dsr_moveit_controller_spawner =
     a0509_start_dsr_moveit_controller_spawner"
  by (simp_all add: with_log_level_def start_nodes_differ)
    (simp add: a0509_start_defs m1013_start_defs plain_node_def)

lemma start_sites:
  "all_sites (start_of_model m B) =
     map (\<lambda>a. ([], [], with_model m a)) a0509_start_ARGUMENTS @
     (if m = ''m0609'' then [([], [], Node m0609_start_static_tf)] else []) @
     [([], [], Node a0509_start_run_emulator_node),
      ([], [], Node (a0509_start_robot_state_pub_node B)),
      ([], [], Node (a0509_start_control_node B)),
      ([], [AfterStart (a0509_start_control_node B)],
         Node a0509_start_joint_state_broadcaster_spawner),
      ([], [AfterExit a0509_start_joint_state_broadcaster_spawner], Node (start_controller_spawner m)),
      ([], [AfterExit (start_controller_spawner m)], Node a0509_start_dsr_moveit_controller_spawner),
      ([], [AfterExit a0509_start_dsr_moveit_controller_spawner],
         OpaqueFunction ''rviz_node_function'')]"
  by (simp add: start_of_model_def Let_def start_parts start_controller_spawner_def
      nodes_with_log_level)

lemma start_guards:
  fixes B :: build and m :: string
  defines "d \<equiv> start_of_model m B"
  shows "list_all (waits_for (Node a0509_start_joint_state_broadcaster_spawner)
           (AfterStart (a0509_start_control_node B))) (all_sites d)"
    "list_all (waits_for (Node (start_controller_spawner m))
           (AfterExit a0509_start_joint_state_broadcaster_spawner)) (all_sites d)"
    "list_all (waits_for (Node a0509_start_dsr_moveit_controller_spawner)
           (AfterExit (start_controller_spawner m))) (all_sites d)"
    "list_all (waits_for (OpaqueFunction ''rviz_node_function'')
           (AfterExit a0509_start_dsr_moveit_controller_spawner)) (all_sites d)"
    "Node (a0509_start_fn_run_move_group_node m) \<notin> set (actions_in d)"
  by (simp_all add: d_def start_sites waits_for_def a0509_start_ARGUMENTS_def
      start_controller_spawner_def actions_in_def image_iff start_nodes_differ)

lemma moveit_closed:
  assumes "moveit_launcher B m d L"
    and "list_all P (all_sites bringup_moveit)"
    and "list_all P (all_sites (bringup_moveit_include_launch_description B m))"
    and "list_all P (all_sites (a0509_start_rviz_node_function B m))"
    and "list_all P (all_sites d)"
  shows "closed_under P L bringup_moveit"
  using assms unfolding closed_under_def moveit_launcher_def by metis

lemmas moveit_parts =
  bringup_moveit_def bringup_moveit_ARGUMENTS_def bringup_moveit_included_launch_def
  bringup_moveit_include_launch_description_def a0509_start_rviz_node_function_def

lemma moveit_start_after:
  assumes L: "moveit_launcher B m (start_of_model m B) L"
    and n: "n \<in> {a0509_start_joint_state_broadcaster_spawner, start_controller_spawner m,
      a0509_start_dsr_moveit_controller_spawner}"
    and g: "list_all (waits_for (Node n) g) (all_sites (start_of_model m B))"
  shows "closed_under (waits_for (Node n) g) L bringup_moveit"
  by (rule moveit_closed[OF L _ _ _ g])
    (use n in \<open>auto simp: moveit_parts waits_for_def start_controller_spawner_def start_nodes_differ
        split: if_splits\<close>)

text \<open>The planner comes from the function that is called last.\<close>

lemma planner_after_call:
  assumes L: "moveit_launcher B m (start_of_model m B) L" and tr: "obeys L bringup_moveit tr"
  shows "precedes (Called ''rviz_node_function'' (a0509_start_rviz_node_function B m))
    (Started (a0509_start_fn_run_move_group_node m)) tr"
proof (rule precedesI)
  fix xs ys
  let ?a = "Node (a0509_start_fn_run_move_group_node m)"
  assume "tr = xs @ Started (a0509_start_fn_run_move_group_node m) # ys"
  then have ys: "obeys L bringup_moveit ys" "permitted L bringup_moveit ys ?a"
    using tr by (auto dest: obeys_split)
  moreover have "?a \<notin> set (actions_in bringup_moveit)"
    by (simp add: moveit_parts actions_in_def)
  ultimately obtain e where e: "e \<in> set ys" "?a \<in> set (actions_in (brings e))"
    using permitted_from by blast
  have no: "?a \<notin> set (actions_in (bringup_moveit_include_launch_description B m))"
    "?a \<notin> set (actions_in (start_of_model m B))" "?a \<notin> set (actions_in [])"
    by (simp add: moveit_parts actions_in_def) (rule start_guards(5), simp add: actions_in_def)
  have r: "acts = bringup_moveit_include_launch_description B m \<or>
      f = ''rviz_node_function'' \<and> acts = a0509_start_rviz_node_function B m"
    if "returns L f acts" for f acts
    using L that unfolding moveit_launcher_def by blast
  have l: "acts = start_of_model m B" if "loads L s acts" for s acts
    using L that unfolding moveit_launcher_def by blast
  obtain vs where "justified L bringup_moveit vs e"
    using obeys_member[OF ys(1) e(1)] by metis
  then have "e = Called ''rviz_node_function'' (a0509_start_rviz_node_function B m)"
    using e(2) no by (cases e) (auto dest!: r l)
  then show "Called ''rviz_node_function'' (a0509_start_rviz_node_function B m) \<in> set ys"
    using e(1) by simp
qed

text \<open>
  C34: The order of the MoveIt bring-up, through the function that chooses the package, the file of any
  of the ten models and the function that starts the planner: in every run of the launch service the
  joint state broadcaster is spawned only after the controller manager started, the controller of
  the robot only after that spawner has exited, the MoveIt controller only after the next, and
  move_group only after the last.
\<close>

theorem moveit_startup_order:
  assumes "list_ex (\<lambda>(m', d, f). m' = m \<and> start = d B) start_files"
    and "moveit_launcher B m start L" and "obeys L bringup_moveit tr"
  shows "precedes (Started (a0509_start_control_node B))
      (Started a0509_start_joint_state_broadcaster_spawner) tr \<and>
    precedes (Exited a0509_start_joint_state_broadcaster_spawner)
      (Started (start_controller_spawner m)) tr \<and>
    precedes (Exited (start_controller_spawner m))
      (Started a0509_start_dsr_moveit_controller_spawner) tr \<and>
    precedes (Exited a0509_start_dsr_moveit_controller_spawner)
      (Started (a0509_start_fn_run_move_group_node m)) tr"
proof -
  have "start = start_of_model m B"
    using assms(1) start_files_agree unfolding list_ex_iff list_all_iff by fastforce
  with assms(2) have L: "moveit_launcher B m (start_of_model m B) L"
    by simp
  have "closed_under (waits_for (OpaqueFunction ''rviz_node_function'')
      (AfterExit a0509_start_dsr_moveit_controller_spawner)) L bringup_moveit"
    by (rule moveit_closed[OF L _ _ _ start_guards(4)]) (simp_all add: moveit_parts waits_for_def)
  from precedes_trans[OF call_after[OF this assms(3)] planner_after_call[OF L assms(3)]]
  show ?thesis
    using start_after_start[OF moveit_start_after[OF L _ start_guards(1)] assms(3)]
      start_after_exit[OF moveit_start_after[OF L _ start_guards(2)] assms(3)]
      start_after_exit[OF moveit_start_after[OF L _ start_guards(3)] assms(3)]
    by simp
qed

text \<open>A whole run for the model a0912, the newest event first.\<close>

definition example_launcher :: launcher where
  "example_launcher =
     \<lparr>holds = (\<lambda>_. True),
      returns = (\<lambda>f acts.
        f = ''include_launch_description'' \<and>
          acts = bringup_moveit_include_launch_description example_build ''a0912'' \<or>
        f = ''rviz_node_function'' \<and>
          acts = a0509_start_rviz_node_function example_build ''a0912''),
      loads = (\<lambda>s acts.
        s = [Text ''/opt/dsr_moveit_config_a0912/launch/start.launch.py''] \<and>
        acts = a0912_start example_build)\<rparr>"

definition example_run :: "event list" where
  "example_run =
     [Started (a0509_start_fn_run_move_group_node ''a0912''),
      Called ''rviz_node_function'' (a0509_start_rviz_node_function example_build ''a0912''),
      Exited a0509_start_dsr_moveit_controller_spawner,
      Started a0509_start_dsr_moveit_controller_spawner,
      Exited a0509_start_robot_controller_spawner,
      Started a0509_start_robot_controller_spawner,
      Exited a0509_start_joint_state_broadcaster_spawner,
      Started a0509_start_joint_state_broadcaster_spawner,
      Started (a0509_start_control_node example_build),
      Included [Text ''/opt/dsr_moveit_config_a0912/launch/start.launch.py'']
        [(''mode'', LaunchConfiguration ''mode''), (''name'', LaunchConfiguration ''name''),
         (''color'', LaunchConfiguration ''color''), (''model'', LaunchConfiguration ''model''),
         (''host'', LaunchConfiguration ''host''), (''port'', LaunchConfiguration ''port''),
         (''rt_host'', LaunchConfiguration ''rt_host'')] (a0912_start example_build),
      Called ''include_launch_description''
        (bringup_moveit_include_launch_description example_build ''a0912'')]"

lemma example_path:
  "path_join (share example_build (''dsr_moveit_config_'' @ ''a0912'')) [''launch'', ''start.launch.py''] =
     ''/opt/dsr_moveit_config_a0912/launch/start.launch.py''"
  by (simp add: example_build_def)

lemma example_run_obeys: "obeys example_launcher bringup_moveit example_run"
  by (simp add: example_run_def permitted_def example_launcher_def plain_start_files start_sites
      moveit_parts bringup_moveit_fn_included_launch_file_path_def
      bringup_moveit_fn_package_path_str_def bringup_moveit_fn_package_name_str_def
      bringup_moveit_fn_model_value_def start_controller_spawner_def example_build_def)

theorem moveit_startup_order_witness:
  "Started (a0509_start_fn_run_move_group_node ''a0912'') \<in> set example_run \<and>
   precedes (Exited a0509_start_dsr_moveit_controller_spawner)
     (Started (a0509_start_fn_run_move_group_node ''a0912'')) example_run"
proof -
  have "moveit_launcher example_build ''a0912'' (a0912_start example_build) example_launcher"
    unfolding moveit_launcher_def example_path by (simp add: example_launcher_def)
  from moveit_startup_order[OF _ this example_run_obeys] show ?thesis
    by (simp add: start_files_def example_run_def)
qed

section \<open>The simulators start after the controller\<close>

text \<open>
  Each bring-up with a simulator, the spawner of the robot controller, the file that it includes
  and the description in that file.
\<close>

definition simulations :: "build \<Rightarrow> (action list \<times> ros_node \<times> subst list \<times> action list) list" where
  "simulations B =
     [(bringup_gazebo B, bringup_gazebo_robot_controller_spawner,
         [Text (bringup_gazebo_included_launch_file_path B)], gz_sim),
      (bringup_spawn B, bringup_spawn_robot_controller_spawner,
         [Text (bringup_spawn_included_launch_file_path B)], gz_spawn),
      (bringup_mujoco B, bringup_mujoco_robot_controller_spawner,
         [Text (bringup_mujoco_included_launch_file_path B)], mj_sim)]"

text \<open>
  What is assumed of the functions that are called and of the files of other packages: they start
  no node of the simulator and do not include its file.
\<close>

definition foreign :: "subst list \<Rightarrow> action list \<Rightarrow> action list \<Rightarrow> bool" where
  "foreign src sim acts =
     list_all (\<lambda>a. case a of
         Node n \<Rightarrow> n \<notin> set (nodes_in sim)
       | IncludeLaunchDescription s args \<Rightarrow> s \<noteq> src
       | _ \<Rightarrow> True) (actions_in acts)"

definition simulation_launcher :: "subst list \<Rightarrow> action list \<Rightarrow> launcher \<Rightarrow> bool" where
  "simulation_launcher src sim L \<longleftrightarrow>
     (\<forall>f acts. returns L f acts \<longrightarrow> foreign src sim acts) \<and>
     (\<forall>s acts. loads L s acts \<longrightarrow> s = src \<and> acts = sim \<or> foreign src sim acts)"

definition includes_after :: "subst list \<Rightarrow> guard \<Rightarrow> action list \<Rightarrow> bool" where
  "includes_after src g d =
     list_all (\<lambda>(cs, gs, a). case a of
         IncludeLaunchDescription s args \<Rightarrow> s = src \<longrightarrow> g \<in> set gs
       | _ \<Rightarrow> True) (all_sites d)"

lemma foreign_includes: "foreign src sim acts \<Longrightarrow> includes_after src g acts"
  by (fastforce simp: foreign_def includes_after_def actions_in_def list_all_iff split: action.splits)

lemma includes_after_waits:
  "includes_after src g d \<Longrightarrow> list_all (waits_for (IncludeLaunchDescription src args) g) (all_sites d)"
  by (fastforce simp: includes_after_def waits_for_def list_all_iff)

lemma simulation_nodes_after:
  assumes L: "simulation_launcher src sim L" and tr: "obeys L d tr"
    and d: "list_all (\<lambda>n. n \<notin> set (nodes_in d)) (nodes_in sim)"
    and i: "includes_after src (AfterExit sp) d" "includes_after src (AfterExit sp) sim"
    and n: "n \<in> set (nodes_in sim)"
  shows "precedes (Exited sp) (Started n) tr"
proof (rule precedesI)
  fix xs ys
  assume xs: "tr = xs @ Started n # ys"
  then have ys: "obeys L d ys" "permitted L d ys (Node n)"
    using tr by (auto dest: obeys_split)
  have "Node n \<notin> set (actions_in d)"
    using d n by (auto simp: list_all_iff nodes_in_iff)
  then obtain e where e: "e \<in> set ys" "n \<in> set (nodes_in (brings e))"
    using permitted_from[OF ys(2)] by (auto simp: nodes_in_iff)
  obtain vs where j: "justified L d vs e"
    using obeys_member[OF ys(1) e(1)] by metis
  have no: "\<not> foreign src sim (brings e)"
    using e(2) n
    by (auto simp: foreign_def list_all_iff nodes_in_iff intro!: bexI[of _ "Node n"])
  obtain args acts where e': "e = Included src args acts"
    using j no L e(2)
    by (cases e) (auto simp: simulation_launcher_def nodes_in_def)
  have "closed_under (waits_for (IncludeLaunchDescription src args) (AfterExit sp)) L d" for args
    using L i foreign_includes includes_after_waits
    unfolding closed_under_def simulation_launcher_def by metis
  from include_after[OF this ys(1), of args acts] show "Exited sp \<in> set ys"
    using e(1) e' precedes_occurs by metis
qed

text \<open>
  The nodes of a bring-up live in the namespace of the robot, those of the simulators below it.
\<close>

lemma bringup_namespaces:
  "list_all (\<lambda>n. node_namespace n = Some (LaunchConfiguration ''name'')) (nodes_in (bringup_gazebo B))"
  "list_all (\<lambda>n. node_namespace n = Some (LaunchConfiguration ''name'')) (nodes_in (bringup_spawn B))"
  "list_all (\<lambda>n. node_namespace n = Some (LaunchConfiguration ''name'')) (nodes_in (bringup_mujoco B))"
  by (simp_all add: nodes_in_def actions_in_def plain_node_def
      bringup_gazebo_defs bringup_spawn_defs bringup_mujoco_defs)

lemma simulator_namespaces:
  "list_all (\<lambda>n. node_namespace n = Some (PathJoin [LaunchConfiguration ''name'', Text ''gz''])) (nodes_in gz_sim)"
  "list_all (\<lambda>n. node_namespace n = Some (PathJoin [LaunchConfiguration ''name'', Text ''gz''])) (nodes_in gz_spawn)"
  "list_all (\<lambda>n. node_namespace n = Some (PathJoin [LaunchConfiguration ''name'', Text ''mj''])) (nodes_in mj_sim)"
  by (simp_all add: nodes_in_def actions_in_def plain_node_def gz_sim_defs gz_spawn_defs mj_sim_defs)

lemma bringup_includes:
  "includes_after [Text (bringup_gazebo_included_launch_file_path B)]
     (AfterExit bringup_gazebo_robot_controller_spawner) (bringup_gazebo B)"
  "includes_after [Text (bringup_spawn_included_launch_file_path B)]
     (AfterExit bringup_spawn_robot_controller_spawner) (bringup_spawn B)"
  "includes_after [Text (bringup_mujoco_included_launch_file_path B)]
     (AfterExit bringup_mujoco_robot_controller_spawner) (bringup_mujoco B)"
  by (simp_all add: includes_after_def
      bringup_gazebo_def bringup_gazebo_ARGUMENTS_def bringup_gazebo_nodes_def
      bringup_gazebo_set_use_sim_time_def bringup_gazebo_original_tf_nodes_def
      bringup_gazebo_remapped_tf_nodes_def
      bringup_gazebo_included_launch_after_robot_controller_spawner_def bringup_gazebo_included_launch_def
      bringup_spawn_def bringup_spawn_ARGUMENTS_def bringup_spawn_nodes_def
      bringup_spawn_set_use_sim_time_def bringup_spawn_original_tf_nodes_def
      bringup_spawn_remapped_tf_nodes_def
      bringup_spawn_included_launch_after_robot_controller_spawner_def bringup_spawn_included_launch_def
      bringup_mujoco_def bringup_mujoco_ARGUMENTS_def bringup_mujoco_nodes_def
      bringup_mujoco_set_use_sim_time_def
      bringup_mujoco_delay_rviz_after_joint_state_broadcaster_spawner_def
      bringup_mujoco_mujoco_included_launch_after_robot_controller_spawner_def
      bringup_mujoco_mujoco_included_launch_def)

lemma simulator_includes:
  "includes_after [Text p] g gz_sim" "includes_after [Text p] g gz_spawn" "includes_after [Text p] g mj_sim"
  by (simp_all add: includes_after_def gz_sim_def gz_sim_ARGUMENTS_def gz_sim_nodes_def gz_sim_gazebo_def
      gz_sim_original_tf_nodes_def gz_sim_remapped_tf_nodes_def
      gz_sim_dsr_position_controller_spawner_action_def
      gz_spawn_def gz_spawn_ARGUMENTS_def gz_spawn_nodes_def
      gz_spawn_original_tf_nodes_def gz_spawn_remapped_tf_nodes_def
      gz_spawn_dsr_position_controller_spawner_action_def
      mj_sim_def mj_sim_ARGUMENTS_def mj_sim_delay_joint_state_broadcaster_def
      mj_sim_delay_dsr_position_controller_def)

lemma namespaces_differ:
  assumes "list_all (\<lambda>n. node_namespace n = a) (nodes_in d)"
    and "list_all (\<lambda>n. node_namespace n = b) (nodes_in sim)" "a \<noteq> b"
  shows "list_all (\<lambda>n. n \<notin> set (nodes_in d)) (nodes_in sim)"
  using assms by (auto simp: list_all_iff)

lemma simulation_facts:
  assumes "(d, sp, src, sim) \<in> set (simulations B)"
  shows "list_all (\<lambda>n. n \<notin> set (nodes_in d)) (nodes_in sim)"
    "includes_after src (AfterExit sp) d" "includes_after src (AfterExit sp) sim"
  using assms bringup_namespaces[of B, THEN namespaces_differ] simulator_namespaces
    bringup_includes[of B] simulator_includes
  by (auto simp: simulations_def)

text \<open>
  C35: In the bring-ups with Gazebo, with a robot added to Gazebo and with MuJoCo, every node of the
  simulator, though described in an included file, is started only after the spawner of the robot
  controller has exited, as long as the files of other packages start none of these nodes.
\<close>

theorem simulator_starts_after_controller:
  assumes "(d, sp, src, sim) \<in> set (simulations B)" "simulation_launcher src sim L" "obeys L d tr"
  shows "list_all (\<lambda>n. precedes (Exited sp) (Started n) tr) (nodes_in sim)"
  using simulation_nodes_after[OF assms(2,3) simulation_facts[OF assms(1)]]
  by (simp add: list_all_iff)

text \<open>The start of a run of the bring-up with Gazebo.\<close>

definition gazebo_launcher :: launcher where
  "gazebo_launcher =
     \<lparr>holds = (\<lambda>_. True), returns = (\<lambda>_ _. False),
      loads = (\<lambda>s acts. s = [Text ''/opt/dsr_gazebo2/launch/dsr_gazebo.launch.py''] \<and> acts = gz_sim)\<rparr>"

definition gazebo_run :: "event list" where
  "gazebo_run =
     [Started gz_sim_gz_spawn_entity,
      Included [Text ''/opt/dsr_gazebo2/launch/dsr_gazebo.launch.py'']
        [(''use_gazebo'', LaunchConfiguration ''gz''), (''name'', LaunchConfiguration ''name''),
         (''color'', LaunchConfiguration ''color''), (''x'', LaunchConfiguration ''x''),
         (''y'', LaunchConfiguration ''y''), (''z'', LaunchConfiguration ''z''),
         (''R'', LaunchConfiguration ''R''), (''P'', LaunchConfiguration ''P''),
         (''Y'', LaunchConfiguration ''Y''),
         (''use_sim_time'', LaunchConfiguration ''use_sim_time'')] gz_sim,
      Exited bringup_gazebo_robot_controller_spawner,
      Started bringup_gazebo_robot_controller_spawner]"

lemma gazebo_run_obeys: "obeys gazebo_launcher (bringup_gazebo example_build) gazebo_run"
  by (simp add: gazebo_run_def permitted_def gazebo_launcher_def example_build_def
      bringup_gazebo_defs gz_sim_defs plain_node_def)

theorem simulator_starts_after_controller_witness:
  "Started gz_sim_gz_spawn_entity \<in> set gazebo_run \<and>
   precedes (Exited bringup_gazebo_robot_controller_spawner) (Started gz_sim_gz_spawn_entity) gazebo_run"
proof -
  have "simulation_launcher [Text (bringup_gazebo_included_launch_file_path example_build)] gz_sim
      gazebo_launcher"
    by (simp add: simulation_launcher_def gazebo_launcher_def example_build_def
        bringup_gazebo_included_launch_file_path_def)
  moreover have "gz_sim_gz_spawn_entity \<in> set (nodes_in gz_sim)"
    by (simp add: nodes_in_iff actions_in_def gz_sim_def gz_sim_nodes_def gz_sim_gz_spawn_entity_def
        plain_node_def)
  ultimately show ?thesis
    using simulator_starts_after_controller[OF _ _ gazebo_run_obeys]
    by (fastforce simp: simulations_def list_all_iff gazebo_run_def)
qed

section \<open>The emulator and the mode of the robot\<close>

definition emulator_nodes :: "build \<Rightarrow> (action list \<times> ros_node) list" where
  "emulator_nodes B =
     [(bringup_rviz B, bringup_rviz_run_emulator_node),
      (bringup_gazebo B, bringup_gazebo_run_emulator_node),
      (bringup_spawn B, bringup_spawn_run_emulator_node),
      (bringup_mujoco B, bringup_mujoco_run_emulator_node)]"

definition mode_is_virtual :: condition where
  "mode_is_virtual =
     IfCondition (PythonExpression [Text quote, LaunchConfiguration ''mode'',
       Text (quote @ '' == '' @ quote @ ''virtual'' @ quote)])"

lemma emulator_conditions:
  assumes "(d, n) \<in> set (emulator_nodes B)"
  shows "list_all (needs (Node n) mode_is_virtual) (all_sites d)"
  using assms
  by (auto simp: emulator_nodes_def needs_def mode_is_virtual_def plain_node_def
      bringup_rviz_defs bringup_gazebo_defs bringup_spawn_defs bringup_mujoco_defs)

text \<open>
  What the files that these bring-ups include and the functions that those call bring into a run: the
  descriptions and the settings of this repository.
\<close>

definition repository_files :: "build \<Rightarrow> launcher \<Rightarrow> bool" where
  "repository_files B L \<longleftrightarrow>
     (\<forall>(d, sp, src, sim) \<in> set (simulations B). \<forall>acts. loads L src acts \<longrightarrow> acts = sim) \<and>
     (\<forall>acts. returns L ''prepare_mjcf_files_for_mujoco'' acts \<longrightarrow>
        (\<exists>cfg D D'. prepare_mjcf_files_for_mujoco B cfg D = Some (Inr acts, D'))) \<and>
     (\<forall>acts. returns L ''prepare_controller_config'' acts \<longrightarrow>
        (\<exists>cfg ex. prepare_controller_config B cfg ex = Inr acts))"

text \<open>All other files and functions, those of other packages, do not start a node.\<close>

definition others_without :: "build \<Rightarrow> ros_node \<Rightarrow> launcher \<Rightarrow> bool" where
  "others_without B n L \<longleftrightarrow>
     (\<forall>s acts. loads L s acts \<longrightarrow> s \<notin> (\<lambda>(d, sp, src, sim). src) ` set (simulations B) \<longrightarrow>
        n \<notin> set (nodes_in acts)) \<and>
     (\<forall>f acts. returns L f acts \<longrightarrow>
        f \<notin> {''prepare_mjcf_files_for_mujoco'', ''prepare_controller_config''} \<longrightarrow> n \<notin> set (nodes_in acts))"

lemma functions_start_nothing:
  "prepare_mjcf_files_for_mujoco B cfg D = Some (Inr acts, D') \<Longrightarrow> nodes_in acts = []"
  "prepare_controller_config B cfg ex = Inr acts \<Longrightarrow> nodes_in acts = []"
  by (auto simp: prepare_mjcf_files_for_mujoco_def prepare_controller_config_def scene_settings_def
      abind_Some io_res_def Let_def nodes_in_def actions_in_def simp del: path_join.simps
      elim!: rbind_InrE)

lemma emulator_not_in_simulators:
  assumes "(d, n) \<in> set (emulator_nodes B)" "(d', sp, src, sim) \<in> set (simulations B)"
  shows "n \<notin> set (nodes_in sim)"
proof -
  have "node_namespace n = Some (LaunchConfiguration ''name'')"
    using assms(1)
    by (auto simp: emulator_nodes_def plain_node_def bringup_rviz_run_emulator_node_def
        bringup_gazebo_run_emulator_node_def bringup_spawn_run_emulator_node_def
        bringup_mujoco_run_emulator_node_def)
  then show ?thesis
    using assms(2) simulator_namespaces by (auto simp: simulations_def list_all_iff)
qed

text \<open>
  C36: The bring-ups with RViz, Gazebo and MuJoCo start the emulator of the controller only when the
  argument mode is virtual, so that it does not stand in for a real robot. The files of the
  simulators that they include, and the functions those call, are the ones of this repository; of
  the files and functions of other packages (those of Gazebo, which these include in turn) it is
  assumed that they do not start the emulator, and of the condition of the emulator's action that
  it holds only when the expression in it is true of the arguments.
\<close>

theorem emulator_needs_virtual_mode:
  assumes "(d, n) \<in> set (emulator_nodes B)" "conditions_mean (holds L) cfg" "obeys L d tr"
    and "repository_files B L" "others_without B n L"
    and "Started n \<in> set tr"
  shows "cfg ''mode'' = ''virtual''"
proof -
  have needs: "list_all (needs (Node n) mode_is_virtual) (all_sites acts)" if "n \<notin> set (nodes_in acts)" for acts
    using that by (force simp: needs_def list_all_iff nodes_in_iff actions_in_def)
  have "n \<notin> set (nodes_in acts)" if called: "returns L f acts" for f acts
  proof (cases "f \<in> {''prepare_mjcf_files_for_mujoco'', ''prepare_controller_config''}")
    case True
    have "nodes_in acts = []"
    proof (cases "f = ''prepare_mjcf_files_for_mujoco''")
      case True
      with assms(4) called obtain cfg D D' where "prepare_mjcf_files_for_mujoco B cfg D = Some (Inr acts, D')"
        unfolding repository_files_def by blast
      then show ?thesis by (rule functions_start_nothing(1))
    next
      case False
      with assms(4) called True obtain cfg ex where "prepare_controller_config B cfg ex = Inr acts"
        unfolding repository_files_def by blast
      then show ?thesis by (rule functions_start_nothing(2))
    qed
    then show ?thesis by simp
  next
    case False
    with assms(5) called show ?thesis unfolding others_without_def by blast
  qed
  moreover have "n \<notin> set (nodes_in acts)" if "loads L s acts" for s acts
  proof (cases "s \<in> (\<lambda>(d, sp, src, sim). src) ` set (simulations B)")
    case True
    then obtain d' sp sim where sim: "(d', sp, s, sim) \<in> set (simulations B)" by auto
    with assms(4) that have "acts = sim" unfolding repository_files_def by fast
    with emulator_not_in_simulators[OF assms(1) sim] show ?thesis by simp
  next
    case False
    with assms(5) that show ?thesis unfolding others_without_def by blast
  qed
  ultimately have "closed_under (needs (Node n) mode_is_virtual) L d"
    using needs emulator_conditions[OF assms(1)] unfolding closed_under_def by blast
  then have "holds L mode_is_virtual"
    using obeys_member[OF assms(3,6)] permitted_needs by (metis justified.simps(1))
  then show ?thesis
    using assms(2) unfolding conditions_mean_def mode_is_virtual_def by blast
qed

definition virtual_launcher :: launcher where
  "virtual_launcher =
     \<lparr>holds = (\<lambda>c. c = mode_is_virtual), returns = (\<lambda>_ _. False),
      loads = (\<lambda>s acts. s = [Text ''/opt/dsr_gazebo2/launch/dsr_gazebo.launch.py''] \<and> acts = gz_sim)\<rparr>"

theorem emulator_needs_virtual_mode_witness:
  "obeys virtual_launcher (bringup_gazebo example_build) [Started bringup_gazebo_run_emulator_node] \<and>
   (\<lambda>_. ''virtual'') ''mode'' = ''virtual''"
proof -
  have "conditions_mean (holds virtual_launcher) (\<lambda>_. ''virtual'')"
    by (simp add: conditions_mean_def virtual_launcher_def mode_is_virtual_def)
  moreover have run: "obeys virtual_launcher (bringup_gazebo example_build)
      [Started bringup_gazebo_run_emulator_node]"
    by (simp add: permitted_def virtual_launcher_def mode_is_virtual_def bringup_gazebo_defs plain_node_def)
  moreover have "repository_files example_build virtual_launcher"
    "others_without example_build bringup_gazebo_run_emulator_node virtual_launcher"
    by (auto simp: repository_files_def others_without_def virtual_launcher_def simulations_def
        example_build_def bringup_gazebo_included_launch_file_path_def
        bringup_spawn_included_launch_file_path_def bringup_mujoco_included_launch_file_path_def)
  ultimately show ?thesis
    using emulator_needs_virtual_mode[of "bringup_gazebo example_build" bringup_gazebo_run_emulator_node
        example_build virtual_launcher "\<lambda>_. ''virtual''" "[Started bringup_gazebo_run_emulator_node]"]
    by (simp add: emulator_nodes_def)
qed

section \<open>Configurations that are read\<close>

text \<open>
  The descriptions that a user starts or that another file includes, and the configurations that
  the functions of dsr_mujoco.launch.py set.
\<close>

definition launch_descriptions :: "build \<Rightarrow> action list list" where
  "launch_descriptions B =
     [bringup_rviz B, bringup_gazebo B, bringup_spawn B, bringup_mujoco B, bringup_moveit,
      test_bringup B, test_spawners, gz_sim, gz_spawn, mj_default, controller2, description2 B,
      vs_gazebo, vs_nodes, vs_calib B, vs_rgbd B]"

definition mujoco_functions_set :: "string \<Rightarrow> string list" where
  "mujoco_functions_set f =
     (if f = ''prepare_mjcf_files_for_mujoco'' then [''robot_model_xml_for_scene'', ''scene_path'']
      else if f = ''prepare_controller_config'' then [''controller_param_file''] else [])"

text \<open>
  Every configuration that a launch file reads has been declared or set before, by the file or by
  the functions it calls, in all files but the bring-up of the visual servoing example: that one
  reads rt_host, which it does not declare, so that it fails unless the user passes it.
\<close>

lemma launch_files_set_what_they_read:
  "list_all (\<lambda>d. reads_unset d = []) (launch_descriptions B) \<and>
   list_all (\<lambda>(m, d, f). reads_unset (d B) = []) start_files \<and>
   snd (unset_actions mujoco_functions_set [] mj_sim) = [] \<and>
   reads_unset (vs_bringup B) = [''rt_host'']"
proof (intro conjI)
  show "list_all (\<lambda>d. reads_unset d = []) (launch_descriptions B)"
    by code_simp
  show "list_all (\<lambda>(m, d, f). reads_unset (d B) = []) start_files"
    by code_simp
  show "snd (unset_actions mujoco_functions_set [] mj_sim) = []"
    by code_simp
  show "reads_unset (vs_bringup B) = [''rt_host'']"
    by code_simp
qed

definition names_set :: "action list \<Rightarrow> string list" where
  "names_set acts = concat (map (\<lambda>a. case a of SetLaunchConfiguration x v \<Rightarrow> [x] | _ \<Rightarrow> []) acts)"

lemma functions_set_names:
  "prepare_mjcf_files_for_mujoco B cfg D = Some (Inr acts, D') \<Longrightarrow>
     names_set acts = mujoco_functions_set ''prepare_mjcf_files_for_mujoco''"
  "prepare_controller_config B cfg ex = Inr acts \<Longrightarrow>
     names_set acts = mujoco_functions_set ''prepare_controller_config''"
  by (auto simp: prepare_mjcf_files_for_mujoco_def prepare_controller_config_def scene_settings_def
      abind_Some io_res_def names_set_def mujoco_functions_set_def Let_def simp del: path_join.simps
      elim!: rbind_InrE)

text \<open>The configurations that a description declares and no action of it reads.\<close>

definition action_reads :: "action \<Rightarrow> string list" where
  "action_reads a = (case a of
       Node n \<Rightarrow> node_reads n
     | IncludeLaunchDescription s args \<Rightarrow>
         concat (map subst_reads s) @ concat (map (\<lambda>(k, v). subst_reads v) args)
     | _ \<Rightarrow> [])"

definition unused_arguments :: "action list \<Rightarrow> string list" where
  "unused_arguments d =
     (let used = concat (map (\<lambda>(cs, gs, a). concat (map condition_reads cs) @ action_reads a) (all_sites d))
      in concat (map (\<lambda>a. case a of
           DeclareLaunchArgument x v \<Rightarrow> if x \<in> set used then [] else [x] | _ \<Rightarrow> []) d))"

lemma arguments_without_effect:
  "unused_arguments (bringup_rviz B) = [''gui'', ''gz'']"
  "unused_arguments gz_sim = [''gui'', ''use_sim_time'']"
  "unused_arguments gz_spawn = [''gui'', ''use_sim_time'']"
  "unused_arguments (a0509_start B) = [''gui'', ''gz'']"
  by code_simp+

end
