(* ===== verification/Spec2Isabelle.thy ===== *)
theory Spec2Isabelle
  imports MotionProperties TcpProperties IoProperties SyncProperties RobotProperties NodeProperties
    MeshProperties DemoProperties Constants LaunchProperties
begin

text \<open>
  A model of the Python code of the Doosan robot packages for ROS 2. Under src/dsr_common2/imp:
  the robot library DSR_ROBOT2.py with its value classes (DR_common2.py), errors (DR_error2.py)
  and constants (DRFC.py), the TCP modules DR_tcp_client2.py and DR_tcp_server2.py, and the
  synchronisation of several robots in DSR_util2.py. Around it: the nodes and helpers of
  src/dsr_bringup2, the visual servoing nodes of src/dsr_example2, the programs of src/scripts, and
  the launch files that start all of this with the controller and a simulator.

  \<^bold>\<open>The program.\<close> A robot program calls functions of DSR_ROBOT2.py (\<^verbatim>\<open>movej\<close>, \<^verbatim>\<open>movel\<close>,
  \<^verbatim>\<open>set_velj\<close>, ...). Each checks and normalises its arguments, uses module globals for the ones
  that were left out, raises \<^verbatim>\<open>DR_Error\<close> for bad ones, builds a request for a ROS service (or a
  message for a topic) and calls it through rclpy. The class \<^verbatim>\<open>CDsrRobot\<close> repeats these functions
  as methods of an object with its own clients and defaults; but most of its motion methods call
  the functions of the module, and only \<^verbatim>\<open>movej\<close> and \<^verbatim>\<open>amovej\<close> read the attributes of the object. The TCP modules keep two dictionaries of open
  connections and wrap the functions of the socket library. \<^verbatim>\<open>CRobotSync\<close> lets the threads of
  several robots wait for each other. The nodes of dsr_bringup2 bring joint states to a simulator;
  the visual servoing pair turns camera images into streamed poses; blow_from_mesh.py lets a user
  pick points of a machine, plans a path of the tool over its mesh and runs it with the library.
  A launch file builds a description of nodes and event handlers, which the launch service runs:
  the bring-ups of dsr_bringup2 start the controller and then include the file of a simulator or,
  through a function that looks at the model, the start file of a MoveIt package.

  \<^bold>\<open>Theories and sources.\<close>
  \<^item> Prelude, Sessions: results \<open>res\<close> (an exception or a value), actions
    \<open>'s \<Rightarrow> ('a res \<times> 's) option\<close> (None: does not return), loops that check, runs of programs and
    the locale \<open>session\<close> with what an invariant step gives for whole programs.
  \<^item> PyFloat, PyValue: the values of Python the code distinguishes, with the floats as rationals,
    infinities and NaN, their comparisons, \<^verbatim>\<open>float()\<close>, \<^verbatim>\<open>int()\<close> and rounding.
  \<^item> DR_common: DR_error2.py and DR_common2.py.
  \<^item> Ros: the module globals, the trace of what is done outside, service calls and publishing.
  \<^item> MotionParams: the globals with their setters and the argument blocks that DSR_ROBOT2.py
    repeats in every command, each one definition.
  \<^item> MoveJoint, MoveTask: the motion commands; \<open>x_request\<close> is \<^verbatim>\<open>_x\<close> up to the last field of the
    request, \<open>x_impl\<close> is \<^verbatim>\<open>_x\<close>, and \<open>x\<close>, \<open>ax\<close> are the two entry points.
  \<^item> MotionAux, SystemApi, Streams, RealTime: the other functions of lines 598 to 4017.
  \<^item> ForceApi, CoordApi, IoApi: the functions of lines 4022 to 6531: force and compliance, user
    coordinates and conditions, input and output, Modbus, tools and DRL scripts.
  \<^item> RobotClass: \<^verbatim>\<open>CDsrRobot\<close>; \<open>cls_x\<close> is the method \<^verbatim>\<open>x\<close> and \<open>cls_x_impl\<close> the private \<^verbatim>\<open>_x\<close>, which
    for all motions but \<^verbatim>\<open>movej\<close> no method calls.
  \<^item> Clients, Constants: the tables of clients and publishers of the module and the class, and of
    the constants of DRFC.py and DSR_ROBOT2.py.
  \<^item> Tcp, TcpClient, TcpServer: the TCP modules; what both repeat is in Tcp.
  \<^item> RobotSync: \<^verbatim>\<open>CRobotSync\<close>, one step per statement of one thread.
  \<^item> Nodes, Relays, Bringup: callbacks and \<^verbatim>\<open>rclpy.spin\<close>; gazebo_connection.py,
    gazebo_connection_pos.py and dsr_mujoco_bridge.py; utils.py, run_emulator.py and
    moveit_connection.py.
  \<^item> VisualServo, MarkerPose: detect_marker_gz.py and send_pose_servol_gz.py, each node and both
    together as the step relation \<open>servo_step\<close>, and the pose computed for a marker.
  \<^item> Geometry, MeshQuery, Trajectory: vectors and poses; EEpose_from_mesh/mesh_utils.py; the
    geometry of blow_from_mesh.py.
  \<^item> BlowScript, Waypoint: the program blow_from_mesh.py on top of the library (\<open>blow_main\<close> is its
    \<^verbatim>\<open>main\<close>); plan_points.py, load_traj_exec.py and tool_control.py.
  \<^item> Demos: the example programs demo.py, demo2.py, dance_m1013.py, slope_demo.py and
    single_robot_simple.py; \<open>x_main\<close> is \<^verbatim>\<open>main\<close>, \<open>x_round\<close> the body of its loop.
  \<^item> LaunchModel: the actions of a description, where each stands in it, and runs of the launch
    service; LaunchBringup (dsr_bringup2, dsr_tests), LaunchSim (dsr_gazebo2, dsr_mujoco,
    dsr_controller2, dsr_description2, dsr_visualservoing), LaunchStart and LaunchDemo (the MoveIt
    packages): one definition per variable of a launch file, under the name of the file.
  \<^item> MujocoScene: dsr_merge_gripper.py, dsr_build_scene.py and the functions of
    dsr_mujoco.launch.py, over documents as trees and a disk of files and directories.

  \<^bold>\<open>State and environment.\<close> The record \<open>world\<close> holds the module globals and the trace;
  \<open>client\<close> and \<open>server\<close> hold the dictionaries of the TCP modules as association lists in
  insertion order, and the list of socket operations; \<open>conf\<close> holds the fields of a \<^verbatim>\<open>CRobotSync\<close>
  and the statement each thread is at. The attributes of an object of \<^verbatim>\<open>CDsrRobot\<close> are a record
  \<open>globals\<close>, a constant argument of its methods, since only the constructor assigns them. Code that is not in the repository is a
  parameter: \<open>ros\<close> (which requests a generated setter accepts, when a service is available, how a
  call ends) and \<open>net\<close> (how each socket operation ends). Their answers may depend on the whole
  history, so a theorem holds for every behaviour of the controller and the network unless it
  names a hypothesis. The records \<open>mesh\<close>, \<open>cluster_lib\<close>, \<open>pose_lib\<close> and \<open>vision_lib\<close> are the
  functions of trimesh, scikit-learn, scipy, numpy and OpenCV the scripts call; what a theorem
  needs of them is a named law (\<open>hits_on_ray\<close>, \<open>rotation_laws\<close>, \<open>interpolation_laws\<close>,
  \<open>euler_laws\<close>, \<open>cluster_lib_ok\<close>), with an instance where it is used. What the user, the clock,
  the camera and the transforms do is a stream or list of inputs. The launch service is a record
  \<open>launcher\<close> (which conditions hold, what functions return and files give) with the predicate
  \<open>obeys\<close> on runs, a necessary condition taken from its documentation; the share directories and
  the update rate are the record \<open>build\<close>. The nodes of dsr_bringup2 and
  the servoing nodes keep their attributes in records.

  \<^bold>\<open>Lemmas.\<close> MotionParams proves what each argument block lets through (locale \<open>list_param\<close>,
  interpreted for joints, spirals and task values). MotionSafety states the range of each request
  and MotionRequests proves it for each command. MotionSession makes the calls a datatype, proves
  the effect of one call and interprets \<open>session\<close>. MotionSpec holds the contract for callers that
  pass floats, AliasForms the rewritings of a call that do not change its request. TcpTables holds
  the consistency of the dictionaries, the effect of a receive loop and of each call as a relation
  on a partial map (\<open>conn_spec\<close>) and the locale \<open>connection_service\<close>; TcpClient and TcpServer
  interpret it. IoSession and ForceSession do for input and output and for force what MotionSafety
  and MotionSession do for motion, with the recorded analog modes and a valid frame as invariants. RobotSession compares programs
  that mix methods of an object and functions of the module (\<open>run_mixed\<close>) with the program of
  functions only; \<open>same_outcome\<close> is equality up to polls. RobotSync proves the size invariant of the
  object, the balance of each lock, what a thread in \<^verbatim>\<open>WakeUpAll\<close> knows of the flags it has read,
  and that it returns when all robots wait. Nodes holds the contract of a node that publishes
  changes (locale \<open>change_publisher\<close>), which Relays interprets for the bridges to Gazebo and
  MuJoCo. VisualServo proves what one step of each node does, NodeProperties the invariant of both.
  MeshQuery proves the loops over clusters and normals and the frame of the tool, Trajectory the
  knots, the waypoints and that \<^verbatim>\<open>consistent_rotations\<close> changes nothing. BlowProperties and
  WaypointProperties follow the requests for linear motion through the scripts: actions that make
  none (\<open>quiet\<close>), that make only those of a condition (\<open>moves_only\<close>) and that return
  (\<open>returns\<close>). Views has the rules for what a program asks for in order, as a certain kind of
  events shows it (\<open>emits\<close>, \<open>emits_rounds\<close> for loops, locale \<open>view\<close>); DanceProperties and
  DemoProperties interpret it for services, the air gun and the gripper. Constants compares the two vocabularies and the modes of the robot with those of
  the controller. LaunchModel proves that an action whose
  every place in a description waits for an event, or needs a condition, comes after it, also
  through included files; SceneProperties follows the disk through the preparation of a scene and
  the documents through merging, by the path of each element in its document. The theories named \<open>...Properties\<close> hold the
  properties, each with a witness where it has hypotheses.

  \<^bold>\<open>Loops.\<close> No fuel is used. The loop that waits for a service, the loops that open a socket, the
  receive loop and the flush loop are partial functions whose value is None when they do not
  return; that they return, or never do, is proved as such (\<open>programs_terminate\<close>,
  \<open>unavailable_service_blocks\<close>, \<open>read_terminates\<close>, \<open>flush_of_lost_connection_diverges\<close>,
  \<open>blow_main_returns\<close>, \<open>pose_loop_returns\<close>). The loops that wait for the user recurse over the list
  of what the user does.

  \<^bold>\<open>Abstractions.\<close> Texts of messages and logging are left out. The branches for
  \<^verbatim>\<open>__ROS2__ == False\<close>, which call a module that is not in the repository, are not modelled.
  \<^verbatim>\<open>rclpy.shutdown()\<close> in the constructor of \<^verbatim>\<open>DR_Error\<close> is taken to return. Lists are values:
  that \<^verbatim>\<open>set_velj\<close> keeps a reference to the caller's list, which the caller may change later, is
  not modelled. Strings are ASCII. A socket is named by its \<^verbatim>\<open>id\<close>, taken to be unique. Formatting
  a value for a message or a print is taken not to raise. The names of services are those of the
  module; the class puts a slash before them. A \<^verbatim>\<open>time.sleep\<close> is no step; robots of \<^verbatim>\<open>CRobotSync\<close> are
  named by indices that are not negative.

  The theories on meshes, trajectories and markers compute with real numbers, without the rounding
  of floats. Topics keep the last ten messages and deliver in order. \<^verbatim>\<open>publish\<close> in the nodes is taken
  to succeed.

  \<^bold>\<open>Not modelled.\<close> The printing functions of DSR_ROBOT2.py and DR_common2.py. What creating a
  client or publisher does is part of the environment. Drawing and windows (matplotlib, open3d,
  OpenCV) and the files the scripts load and save. In moveit_connection.py, the constructor that
  reads a name from a file and a callback whose result is dropped. The legacy launch files
  dsr_moveit2.launch.py and dsr_control2.launch.py start packages that the repository no longer
  has; the camera node forwards images; add_cnc.py spawns a model; tests. The controller and its
  hardware interface are C++ and part of the environment.
\<close>

end
